(* ===== verification/Bch_Prelude.thy ===== *)
theory Bch_Prelude
  imports Main "HOL-Library.Word"
begin

text \<open>
  Shared vocabulary of the development: the machine integer types of the C code, the error
  values, byte-addressed memory, bit length and trailing zero count of a natural number, and the
  generic lemmas on words and lists that the component theories use.

  Conventions. A C object of type \<^verbatim>\<open>u64\<close> is a \<open>64 word\<close>, \<^verbatim>\<open>unsigned\<close> and \<^verbatim>\<open>u32\<close> are
  \<open>32 word\<close>, and so on; \<open>+\<close>, \<open>-\<close> and \<open>push_bit\<close> wrap as they do in C. An access outside an
  object (undefined behaviour in C) and a failed \<^verbatim>\<open>BUG_ON\<close> are the value \<open>None\<close> of an
  \<open>option\<close>, so a theorem that an operation returns \<open>Some\<close> says that it does neither.
  C identifiers that start with two underscores carry the prefix \<open>raw_\<close>.
\<close>

unbundle bit_operations_syntax

section \<open>Types\<close>

type_synonym u8 = "8 word"
type_synonym u16 = "16 word"
type_synonym u32 = "32 word"
type_synonym u64 = "64 word"

text \<open>Collections the component theories fill: index arithmetic read over \<open>nat\<close>, and preservation
  lemmas of the state invariants.\<close>

named_theorems unat_simps
named_theorems invs

section \<open>Bit length and trailing zeros of a natural number\<close>

fun nlen :: "nat \<Rightarrow> nat" where
  "nlen n = (if n = 0 then 0 else Suc (nlen (n div 2)))"

fun nctz :: "nat \<Rightarrow> nat" where
  "nctz n = (if n = 0 \<or> odd n then 0 else Suc (nctz (n div 2)))"

declare nlen.simps [simp del] nctz.simps [simp del]

lemma nlen_0 [simp]: "nlen 0 = 0"
  by (subst nlen.simps) simp

lemma nlen_pos: "0 < n \<Longrightarrow> nlen n = Suc (nlen (n div 2))"
  by (subst nlen.simps) simp

lemma nlen_eq_0 [simp]: "nlen n = 0 \<longleftrightarrow> n = 0"
  by (subst nlen.simps) simp

lemma nlen_upper: "n < 2 ^ nlen n"
proof (induction n rule: nlen.induct)
  case (1 n)
  show ?case
  proof (cases "n = 0")
    case False
    with 1 have "n div 2 < 2 ^ nlen (n div 2)" by simp
    with False show ?thesis by (simp add: nlen_pos)
  qed simp
qed

lemma nlen_lower: "0 < n \<Longrightarrow> 2 ^ (nlen n - 1) \<le> n"
proof (induction n rule: nlen.induct)
  case (1 n)
  show ?case
  proof (cases "n div 2 = 0")
    case True
    with 1 show ?thesis by (simp add: nlen_pos)
  next
    case False
    then have "0 < nlen (n div 2)" by (metis gr0I nlen_eq_0)
    moreover from False 1 have "2 ^ (nlen (n div 2) - 1) \<le> n div 2" by simp
    ultimately have "2 ^ nlen (n div 2) \<le> 2 * (n div 2)"
      by (metis Suc_pred' mult_le_mono2 power_Suc)
    with 1 show ?thesis by (simp add: nlen_pos)
  qed
qed

lemma nlen_le_iff: "nlen n \<le> k \<longleftrightarrow> n < 2 ^ k"
proof (cases "n = 0")
  case False
  show ?thesis
  proof
    assume "nlen n \<le> k"
    with nlen_upper [of n] show "n < 2 ^ k"
      by (meson one_le_numeral order_less_le_trans power_increasing)
  next
    assume "n < 2 ^ k"
    with False nlen_lower [of n] have "(2::nat) ^ (nlen n - 1) < 2 ^ k" by linarith
    then have "nlen n - 1 < k" by simp
    then show "nlen n \<le> k" by linarith
  qed
qed simp

lemma nlen_eqI: "2 ^ k \<le> n \<Longrightarrow> n < 2 ^ Suc k \<Longrightarrow> nlen n = Suc k"
  by (metis le_SucE nlen_le_iff not_less order_refl)

lemma nlen_mono: "m \<le> n \<Longrightarrow> nlen m \<le> nlen n"
  by (meson le_less_trans nlen_le_iff nlen_upper)

lemma nlen_double_add: "0 < n \<Longrightarrow> c < 2 \<Longrightarrow> nlen (2 * n + c) = Suc (nlen n)"
  by (simp add: nlen_pos)

lemma nlen_mult_pow: "0 < n \<Longrightarrow> nlen (n * 2 ^ k) = nlen n + k"
proof (induction k)
  case (Suc k)
  then have "nlen (2 * (n * 2 ^ k) + 0) = Suc (nlen (n * 2 ^ k))"
    by (intro nlen_double_add) auto
  with Suc show ?case by (simp add: ac_simps)
qed simp

lemma nctz_odd [simp]: "odd n \<Longrightarrow> nctz n = 0"
  by (subst nctz.simps) simp

lemma nctz_double: "0 < n \<Longrightarrow> nctz (2 * n) = Suc (nctz n)"
  by (subst nctz.simps) simp

lemma nctz_mult_pow: "odd m \<Longrightarrow> nctz (m * 2 ^ k) = k"
proof (induction k)
  case (Suc k)
  have "m * 2 ^ Suc k = 2 * (m * 2 ^ k)" by simp
  moreover have "0 < m * 2 ^ k" using Suc.prems by (simp add: odd_pos)
  ultimately have "nctz (m * 2 ^ Suc k) = Suc (nctz (m * 2 ^ k))" by (simp only: nctz_double)
  with Suc show ?case by simp
qed simp

lemma nctz_decompose: "0 < n \<Longrightarrow> \<exists>m. odd m \<and> n = m * 2 ^ nctz n"
proof (induction n rule: nctz.induct)
  case (1 n)
  show ?case
  proof (cases "odd n")
    case False
    with 1 obtain m where m: "odd m" "n div 2 = m * 2 ^ nctz (n div 2)" by fastforce
    have "n = 2 * (n div 2)" using False by simp
    then have "n = m * 2 ^ Suc (nctz (n div 2))"
      using m(2) by (metis mult.left_commute power_Suc)
    moreover have "nctz n = Suc (nctz (n div 2))"
      using 1 False by (subst nctz.simps) simp
    ultimately show ?thesis using m(1) by metis
  qed (use 1 in simp)
qed

lemma nctz_pow_dvd: "2 ^ nctz n dvd n"
proof (cases "n = 0")
  case False
  then obtain m where "n = m * 2 ^ nctz n" using nctz_decompose [of n] by blast
  then show ?thesis by (metis dvd_triv_right)
qed simp

lemma nctz_lt_nlen: "0 < n \<Longrightarrow> nctz n < nlen n"
proof -
  assume "0 < n"
  then have "2 ^ nctz n \<le> n" by (simp add: dvd_imp_le nctz_pow_dvd)
  then have "(2::nat) ^ nctz n < 2 ^ nlen n" using nlen_upper [of n] by linarith
  then show ?thesis by simp
qed

lemma bit_nctz: "0 < n \<Longrightarrow> bit n (nctz n)"
proof -
  assume "0 < n"
  then obtain m where m: "odd m" "n = m * 2 ^ nctz n" using nctz_decompose by blast
  have "m * 2 ^ nctz n div 2 ^ nctz n = m" by simp
  with m show ?thesis by (simp add: bit_iff_odd)
qed

lemma not_bit_below_nctz: "i < nctz n \<Longrightarrow> \<not> bit n i"
proof -
  assume "i < nctz n"
  then have "2 ^ Suc i dvd n"
    by (meson Suc_leI dvd_trans le_imp_power_dvd nctz_pow_dvd)
  then have "even (n div 2 ^ i)" by (auto simp: dvd_def)
  then show ?thesis by (simp add: bit_iff_odd)
qed

lemma nctz_eqI:
  assumes "bit n k" and "\<And>i. i < k \<Longrightarrow> \<not> bit n i"
  shows "nctz n = k"
proof -
  have "n \<noteq> 0" using assms(1) by (metis bit_0_eq bot_apply bot_bool_def)
  then have "bit n (nctz n)" by (simp add: bit_nctz)
  then show ?thesis
    using assms not_bit_below_nctz [of k n] by (meson linorder_neqE_nat)
qed

section \<open>Words read as natural numbers\<close>

lemma unat_push_bit: "unat (push_bit k (w :: 'a::len word)) = unat w * 2 ^ k mod 2 ^ LENGTH('a)"
  by (subst unsigned_push_bit_eq) (simp add: push_bit_eq_mult take_bit_eq_mod)

lemma unat_push_bit_small [unat_simps]:
  "unat (w :: 'a::len word) * 2 ^ k < 2 ^ LENGTH('a) \<Longrightarrow> unat (push_bit k w) = unat w * 2 ^ k"
  by (simp add: unat_push_bit)

lemma unat_2p [unat_simps]: "k < LENGTH('a) \<Longrightarrow> unat ((2 :: 'a::len word) ^ k) = 2 ^ k"
  using unat_push_bit [of k "1 :: 'a word"] by simp

lemma unat_drop_bit [unat_simps]: "unat (drop_bit k (w :: 'a::len word)) = unat w div 2 ^ k"
  by (subst unat_drop_bit_eq) (simp add: drop_bit_eq_div)

lemma unat_add_small [unat_simps]:
  "unat (a :: 'a::len word) + unat b < 2 ^ LENGTH('a) \<Longrightarrow> unat (a + b) = unat a + unat b"
  by (simp add: unat_word_ariths)

lemma unat_sub_small [unat_simps]:
  "unat (b :: 'a::len word) \<le> unat a \<Longrightarrow> unat (a - b) = unat a - unat b"
  by (simp add: unat_sub word_le_nat_alt)

lemma unat_neg [unat_simps]:
  assumes "(x :: 'a::len word) \<noteq> 0"
  shows "unat (- x) = 2 ^ LENGTH('a) - unat x"
proof -
  have "(unat x + unat (- x)) mod 2 ^ LENGTH('a) = 0"
    by (metis add.right_inverse unat_0 unat_word_ariths(1))
  then obtain q where q: "unat x + unat (- x) = 2 ^ LENGTH('a) * q" by (auto simp: mod_eq_0_iff_dvd dvd_def)
  have "0 < unat x" using assms by (simp add: unat_gt_0)
  then have "0 < q" using q by (metis add_gr_0 gr0I mult_0_right)
  moreover have "unat x + unat (- x) < 2 ^ LENGTH('a) * 2"
    using unsigned_less [of x, where ?'a = nat] unsigned_less [of "- x", where ?'a = nat] by linarith
  then have "q < 2" using q by (metis mult_less_cancel1)
  ultimately have "q = 1" by linarith
  with q show ?thesis by simp
qed

lemma unat_ucast_up [unat_simps]:
  "LENGTH('a) \<le> LENGTH('b) \<Longrightarrow> unat (ucast (w :: 'a::len word) :: 'b::len word) = unat w"
  by (simp add: unsigned_ucast_eq take_bit_nat_eq_self_iff)
     (meson one_le_numeral order_less_le_trans power_increasing unsigned_less)

lemma unat_ucast_down [unat_simps]:
  "unat (w :: 'a::len word) < 2 ^ LENGTH('b) \<Longrightarrow> unat (ucast w :: 'b::len word) = unat w"
  by (simp add: unsigned_ucast_eq take_bit_nat_eq_self_iff)

lemma unat_mask [unat_simps]: "k \<le> LENGTH('a) \<Longrightarrow> unat (mask k :: 'a::len word) = 2 ^ k - 1"
proof -
  assume k: "k \<le> LENGTH('a)"
  have "unat (mask k :: 'a word) = mask k"
    by (rule bit_eqI) (use k in \<open>auto simp: bit_unsigned_iff bit_mask_iff\<close>)
  then show ?thesis by (simp add: mask_eq_exp_minus_1)
qed

lemma unat_mask_and [unat_simps]: "unat (w AND mask k) = unat (w :: 'a::len word) mod 2 ^ k"
proof -
  have "w AND mask k = take_bit k w" by (simp add: take_bit_eq_mask)
  then show ?thesis
    by (simp only: unsigned_take_bit_eq) (simp add: take_bit_eq_mod)
qed

lemma xor_eq_zero_iff: "a XOR b = 0 \<longleftrightarrow> a = (b :: 'a::len word)"
  by (auto simp: bit_eq_iff bit_xor_iff)

lemma or_eq_zero_iff: "a OR b = 0 \<longleftrightarrow> a = 0 \<and> b = (0 :: 'a::len word)"
  by (auto simp: bit_eq_iff bit_or_iff)

lemma and_exp_eq_0_iff: "w AND 2 ^ n = 0 \<longleftrightarrow> \<not> bit (w :: 'a::len word) n"
proof -
  have "bit (w AND 2 ^ n) k \<longleftrightarrow> bit w k \<and> n = k" for k
    by (auto simp: bit_and_iff bit_exp_iff dest: bit_imp_le_length)
  then have "w AND 2 ^ n = 0 \<longleftrightarrow> (\<forall>k. \<not> (bit w k \<and> n = k))"
    by (metis bit_0_eq bit_eq_iff bot_apply bot_bool_def)
  then show ?thesis by blast
qed

section \<open>Three-way comparison\<close>

text \<open>\<^verbatim>\<open>cmp_int\<close> of \<^verbatim>\<open>include/linux/sort.h\<close>.\<close>

definition cmp_int :: "'a::linorder \<Rightarrow> 'a \<Rightarrow> int" where
  "cmp_int l r = of_bool (l > r) - of_bool (l < r)"

lemma cmp_int_simps [simp]:
  "cmp_int l r = 0 \<longleftrightarrow> l = r"
  "cmp_int l r < 0 \<longleftrightarrow> l < r"
  "0 < cmp_int l r \<longleftrightarrow> r < l"
  "cmp_int l r \<le> 0 \<longleftrightarrow> l \<le> r"
  "0 \<le> cmp_int l r \<longleftrightarrow> r \<le> l"
  by (auto simp: cmp_int_def)

text \<open>A comparison function of a total preorder.\<close>

definition cmp_order :: "('e \<Rightarrow> 'e \<Rightarrow> int) \<Rightarrow> bool" where
  "cmp_order cmp \<longleftrightarrow>
     (\<forall>x y. sgn (cmp y x) = - sgn (cmp x y)) \<and>
     (\<forall>x y z. cmp x y \<le> 0 \<longrightarrow> cmp y z \<le> 0 \<longrightarrow> cmp x z \<le> 0)"

lemma cmp_orderD:
  assumes "cmp_order cmp"
  shows "cmp x x = 0" "cmp x y \<le> 0 \<or> cmp y x \<le> 0" "cmp x y \<ge> 0 \<Longrightarrow> cmp y x \<le> 0"
    "cmp x y \<le> 0 \<Longrightarrow> cmp y z \<le> 0 \<Longrightarrow> cmp x z \<le> 0"
proof -
  have s: "sgn (cmp b a) = - sgn (cmp a b)" for a b using assms unfolding cmp_order_def by blast
  have i: "sgn b = - sgn a \<Longrightarrow> (a \<le> 0 \<or> b \<le> 0) \<and> (a \<ge> 0 \<longrightarrow> b \<le> 0)" for a b :: int
    by (auto simp: sgn_if split: if_splits)
  have "sgn (cmp x x) = 0" using s [of x x] by linarith
  then show "cmp x x = 0" by (simp add: sgn_0_0)
  show "cmp x y \<le> 0 \<or> cmp y x \<le> 0" using i [OF s [of y x]] by simp
  show "cmp x y \<ge> 0 \<Longrightarrow> cmp y x \<le> 0" using i [OF s [of y x]] by simp
  show "cmp x y \<le> 0 \<Longrightarrow> cmp y z \<le> 0 \<Longrightarrow> cmp x z \<le> 0" using assms unfolding cmp_order_def by blast
qed

lemma cmp_order_cmp_int: "cmp_order cmp_int"
  by (auto simp: cmp_order_def cmp_int_def)

section \<open>Byte-addressed memory\<close>

text \<open>A pointer into a buffer is the list of bytes from the pointer to the end of the object. Reads
  and writes past that end are undefined behaviour.\<close>

definition mem_read :: "'e list \<Rightarrow> nat \<Rightarrow> nat \<Rightarrow> 'e list option" where
  "mem_read m off n = (if off + n \<le> length m then Some (take n (drop off m)) else None)"

definition mem_write :: "'e list \<Rightarrow> nat \<Rightarrow> 'e list \<Rightarrow> 'e list option" where
  "mem_write m off bs =
     (if off + length bs \<le> length m then Some (take off m @ bs @ drop (off + length bs) m) else None)"

lemma mem_read_Some_iff: "mem_read m off n = Some bs \<longleftrightarrow> off + n \<le> length m \<and> bs = take n (drop off m)"
  by (auto simp: mem_read_def)

lemma mem_write_length: "mem_write m off bs = Some m' \<Longrightarrow> length m' = length m"
  by (auto simp: mem_write_def split: if_splits)

lemma mem_read_write_same:
  "mem_write m off bs = Some m' \<Longrightarrow> mem_read m' off (length bs) = Some bs"
  by (auto simp: mem_write_def mem_read_def split: if_splits)

text \<open>Little-endian bytes of a word and back (\<^verbatim>\<open>cpu_to_le64\<close>, \<^verbatim>\<open>le64_to_cpu\<close> and the unaligned
  accessors): byte \<open>i\<close> holds bits \<open>8 i\<close> to \<open>8 i + 7\<close>.\<close>

definition le_bytes :: "nat \<Rightarrow> 'a::len word \<Rightarrow> u8 list" where
  "le_bytes n w = map (\<lambda>i. ucast (drop_bit (8 * i) w)) [0..<n]"

fun le_word :: "u8 list \<Rightarrow> 'a::len word" where
  "le_word [] = 0"
| "le_word (b # bs) = ucast b OR push_bit 8 (le_word bs)"

lemma length_le_bytes [simp]: "length (le_bytes n w) = n"
  by (simp add: le_bytes_def)

lemma take_le_bytes: "k \<le> n \<Longrightarrow> take k (le_bytes n w) = le_bytes k w"
  by (simp add: le_bytes_def take_map)

lemma bit_le_word:
  "bit (le_word bs :: 'a::len word) i \<longleftrightarrow>
     i < LENGTH('a) \<and> i div 8 < length bs \<and> bit (bs ! (i div 8)) (i mod 8)"
proof (induction bs arbitrary: i)
  case (Cons b bs)
  show ?case
  proof (cases "i < 8")
    case True
    then show ?thesis by (auto simp: bit_or_iff bit_push_bit_iff bit_ucast_iff)
  next
    case False
    then obtain j where j: "i = 8 + j" using le_Suc_ex by (metis not_less)
    have "bit (ucast b :: 'a word) i = False"
      using False by (auto simp: bit_ucast_iff dest: bit_imp_le_length)
    moreover have "i div 8 = Suc (j div 8)" "i mod 8 = j mod 8" using j by simp_all
    ultimately show ?thesis
      using j Cons.IH [of j] by (auto simp: bit_or_iff bit_push_bit_iff dest: bit_imp_le_length)
  qed
qed (simp add: bit_0_eq)

lemma le_word_le_bytes: "le_word (le_bytes n (w :: 'a::len word)) = take_bit (8 * n) w"
proof (rule bit_eqI)
  fix i
  have "i div 8 < n \<longleftrightarrow> i < 8 * n" by (simp add: less_mult_imp_div_less div_less_iff_less_mult mult.commute)
  then show "bit (le_word (le_bytes n w) :: 'a word) i = bit (take_bit (8 * n) w) i"
    by (auto simp: bit_le_word le_bytes_def bit_ucast_iff bit_drop_bit_eq bit_take_bit_iff
        dest: bit_imp_le_length)
qed

lemma le_word_take: "le_word (take n bs) = take_bit (8 * n) (le_word bs :: 'a::len word)"
proof (rule bit_eqI)
  fix i
  have "i div 8 < n \<longleftrightarrow> i < 8 * n" by (simp add: div_less_iff_less_mult mult.commute)
  then show "bit (le_word (take n bs) :: 'a word) i = bit (take_bit (8 * n) (le_word bs :: 'a word)) i"
    by (auto simp: bit_le_word bit_take_bit_iff)
qed

lemma le_word_append_zeros: "le_word (bs @ replicate k 0) = (le_word bs :: 'a::len word)"
  by (rule bit_eqI) (auto simp: bit_le_word nth_append)

end
