(* ===== verification/Bitops.thy ===== *)
theory Bitops
  imports Bch_Prelude
begin

text \<open>
  Bit scans and powers of two: \<^verbatim>\<open>include/linux/bitops.h\<close> and \<^verbatim>\<open>include/linux/log2.h\<close>, for a 64-bit
  \<^verbatim>\<open>long\<close>. The scans of a zero word (\<^verbatim>\<open>__fls(0)\<close>, \<^verbatim>\<open>__ffs(0)\<close>, \<^verbatim>\<open>rounddown_pow_of_two(0)\<close>) are undefined in
  C; every lemma below that speaks of them assumes a non-zero argument, and every caller in the
  development establishes it.
\<close>

section \<open>Operations\<close>

text \<open>The compiler builtins: leading and trailing zero counts of a non-zero \<^verbatim>\<open>unsigned long\<close>, and the
  number of set bits.\<close>

definition builtin_clzl :: "u64 \<Rightarrow> nat" where
  "builtin_clzl w = 64 - nlen (unat w)"

definition builtin_ctzl :: "u64 \<Rightarrow> nat" where
  "builtin_ctzl w = nctz (unat w)"

definition builtin_clz :: "u32 \<Rightarrow> nat" where
  "builtin_clz w = 32 - nlen (unat w)"

definition builtin_popcount :: "u32 \<Rightarrow> nat" where
  "builtin_popcount w = length (filter (bit w) [0..<32])"

definition hweight32 :: "u32 \<Rightarrow> nat" where
  "hweight32 w = builtin_popcount w"

definition hweight64 :: "u64 \<Rightarrow> nat" where
  "hweight64 w = builtin_popcount (ucast w) + builtin_popcount (ucast (drop_bit 32 w))"

definition raw_fls :: "u64 \<Rightarrow> nat" where
  "raw_fls w = 64 - 1 - builtin_clzl w"

definition fls :: "u32 \<Rightarrow> nat" where
  "fls x = (if x \<noteq> 0 then 32 - builtin_clz x else 0)"

definition fls64 :: "u64 \<Rightarrow> nat" where
  "fls64 x = (if x = 0 then 0 else raw_fls x + 1)"

definition fls_long :: "u64 \<Rightarrow> nat" where
  "fls_long l = fls64 l"

definition raw_ffs :: "u64 \<Rightarrow> nat" where
  "raw_ffs w = builtin_ctzl w"

definition ffz :: "u64 \<Rightarrow> nat" where
  "ffz x = raw_ffs (NOT x)"

definition rounddown_pow_of_two :: "u64 \<Rightarrow> u64" where
  "rounddown_pow_of_two n = push_bit (fls_long n - 1) 1"

definition roundup_pow_of_two :: "u64 \<Rightarrow> u64" where
  "roundup_pow_of_two n = push_bit (fls_long (n - 1)) 1"

definition is_power_of_2 :: "u64 \<Rightarrow> bool" where
  "is_power_of_2 n \<longleftrightarrow> n \<noteq> 0 \<and> n AND (n - 1) = 0"

definition rol64 :: "u64 \<Rightarrow> nat \<Rightarrow> u64" where
  "rol64 w s = push_bit s w OR drop_bit (64 - s) w"

definition DIV_ROUND_UP :: "nat \<Rightarrow> nat \<Rightarrow> nat" where
  "DIV_ROUND_UP n d = (n + d - 1) div d"

section \<open>Characterisations\<close>

lemma nlen_unat_le: "nlen (unat (w :: 'a::len word)) \<le> LENGTH('a)"
  by (simp add: nlen_le_iff)

lemma raw_fls_eq [unat_simps]: "w \<noteq> 0 \<Longrightarrow> raw_fls w = nlen (unat w) - 1"
  using nlen_unat_le [of w] by (simp add: raw_fls_def builtin_clzl_def)

lemma fls64_eq [unat_simps]: "fls64 w = nlen (unat w)"
proof (cases "w = 0")
  case False
  then have "0 < nlen (unat w)" by (metis gr0I nlen_eq_0 unat_eq_0)
  with False show ?thesis by (simp add: fls64_def raw_fls_eq)
qed (simp add: fls64_def)

lemma fls_eq [unat_simps]: "fls w = nlen (unat w)"
  using nlen_unat_le [of w] by (auto simp: fls_def builtin_clz_def)

lemma raw_ffs_eq [unat_simps]: "raw_ffs w = nctz (unat w)"
  by (simp add: raw_ffs_def builtin_ctzl_def)

lemma bit_unat: "bit (unat (w :: 'a::len word)) i \<longleftrightarrow> bit w i"
  by (simp add: bit_unsigned_iff bit_imp_le_length)

lemma ffz_eqI:
  assumes "k < 64" and "\<not> bit x k" and "\<And>i. i < k \<Longrightarrow> bit x i"
  shows "ffz x = k"
  unfolding ffz_def raw_ffs_eq
  by (rule nctz_eqI) (use assms in \<open>auto simp: bit_unat bit_not_iff\<close>)

lemma fls64_le_iff: "fls64 v \<le> k \<longleftrightarrow> unat v < 2 ^ k"
  by (simp add: fls64_eq nlen_le_iff)

lemma fls64_le_64: "fls64 v \<le> 64"
  using nlen_unat_le [of v] by (simp add: fls64_eq)

lemma unat_rounddown_pow_of_two [unat_simps]:
  assumes "n \<noteq> 0"
  shows "unat (rounddown_pow_of_two n) = 2 ^ (nlen (unat n) - 1)"
proof -
  have "nlen (unat n) - 1 < 64"
    using nlen_unat_le [of n] by simp
  then show ?thesis
    by (simp add: rounddown_pow_of_two_def fls_long_def fls64_eq unat_2p)
qed

text \<open>The greatest power of two that is at most the argument.\<close>

lemma rounddown_pow_of_two_bounds:
  assumes "n \<noteq> 0"
  shows "unat (rounddown_pow_of_two n) \<le> unat n \<and> unat n < 2 * unat (rounddown_pow_of_two n)"
proof -
  have pos: "0 < unat n" using assms by (simp add: unat_gt_0)
  then have "2 * 2 ^ (nlen (unat n) - 1) = (2 :: nat) ^ nlen (unat n)"
    by (metis Suc_pred' nlen_eq_0 not_gr0 power_Suc)
  then show ?thesis
    using nlen_lower [OF pos] nlen_upper [of "unat n"] assms
    by (simp add: unat_rounddown_pow_of_two)
qed

text \<open>The least power of two that is at least the argument.\<close>

lemma unat_roundup_pow_of_two [unat_simps]:
  assumes "0 < unat n" and "unat n \<le> 2 ^ 63"
  shows "unat (roundup_pow_of_two n) = 2 ^ nlen (unat n - 1)"
proof -
  have "unat n - 1 < 2 ^ 63" using assms by linarith
  then have "nlen (unat n - 1) \<le> 63" by (simp only: nlen_le_iff)
  moreover have "unat (n - 1) = unat n - 1"
    using assms by (simp add: unat_minus_one unat_gt_0)
  ultimately show ?thesis
    by (simp add: roundup_pow_of_two_def fls_long_def fls64_eq unat_2p)
qed

lemma roundup_pow_of_two_ge:
  assumes "0 < unat n" and "unat n \<le> 2 ^ 63"
  shows "unat n \<le> unat (roundup_pow_of_two n)"
  using nlen_upper [of "unat n - 1"] assms(1) by (simp add: unat_roundup_pow_of_two [OF assms])

end
