(* ===== verification/Varint.thy ===== *)
theory Varint
  imports Bitops
begin

text \<open>
  Variable length integers, \<^verbatim>\<open>fs/util/varint.c\<close>. The first byte holds as many one bits, from the
  least significant, as there are further bytes; an integer takes one to nine bytes. The fast
  variants write or read eight bytes whatever the length is.

  A buffer is the list of the bytes that may be accessed from the pointer on, and \<^verbatim>\<open>end\<close> is the
  offset of the end pointer from it. \<open>None\<close> is an access outside the buffer.
\<close>

datatype varint_err = BCH_ERR_varint_decode_error

section \<open>Operations\<close>

definition varint_bytes :: "u64 \<Rightarrow> nat" where
  "varint_bytes v = (let bits = fls64 (v OR 1) in DIV_ROUND_UP bits 7)"

text \<open>\<^verbatim>\<open>~(~0U << (bytes - 1))\<close>, an \<^verbatim>\<open>unsigned\<close> widened to 64 bits.\<close>

definition varint_tag :: "nat \<Rightarrow> u64" where
  "varint_tag bytes = ucast (NOT (push_bit (bytes - 1) (NOT 0 :: u32)))"

text \<open>The tagged value of the encoders: \<^verbatim>\<open>v <<= bytes; v |= ~(~0U << (bytes - 1));\<close>\<close>

definition varint_word :: "u64 \<Rightarrow> u64" where
  "varint_word v = (let bytes = varint_bytes v in push_bit bytes v OR varint_tag bytes)"

definition bch2_varint_encode :: "u8 list \<Rightarrow> u64 \<Rightarrow> (u8 list \<times> nat) option" where
  "bch2_varint_encode out v =
     (let bytes = varint_bytes v in
      if bytes < 9 then
        map_option (\<lambda>m. (m, bytes)) (mem_write out 0 (take bytes (le_bytes 8 (varint_word v))))
      else
        Option.bind (mem_write out 0 [255]) (\<lambda>m.
        map_option (\<lambda>m. (m, 9)) (mem_write m 1 (le_bytes 8 v))))"

definition bch2_varint_encode_fast :: "u8 list \<Rightarrow> u64 \<Rightarrow> (u8 list \<times> nat) option" where
  "bch2_varint_encode_fast out v =
     (let bytes = varint_bytes v in
      if bytes < 9 then
        map_option (\<lambda>m. (m, bytes)) (mem_write out 0 (le_bytes 8 (varint_word v)))
      else
        Option.bind (mem_write out 0 [255]) (\<lambda>m.
        map_option (\<lambda>m. (m, 9)) (mem_write m 1 (le_bytes 8 v))))"

definition bch2_varint_decode :: "u8 list \<Rightarrow> int \<Rightarrow> (varint_err + u64 \<times> nat) option" where
  "bch2_varint_decode m end' =
     Option.bind (if 0 < end' then map_option (\<lambda>bs. ffz (ucast (hd bs)) + 1) (mem_read m 0 1) else Some 1)
     (\<lambda>bytes.
        if int bytes > end' then Some (Inl BCH_ERR_varint_decode_error)
        else if bytes < 9 then
          map_option (\<lambda>bs. Inr (drop_bit bytes (le_word (bs @ replicate (8 - bytes) 0)), bytes))
            (mem_read m 0 bytes)
        else map_option (\<lambda>bs. Inr (le_word bs, bytes)) (mem_read m 1 8))"

definition bch2_varint_decode_fast :: "u8 list \<Rightarrow> int \<Rightarrow> (varint_err + u64 \<times> nat) option" where
  "bch2_varint_decode_fast m end' =
     Option.bind (mem_read m 0 8) (\<lambda>bs.
     Option.bind (mem_read m 0 1) (\<lambda>b.
       let v = le_word bs; bytes = ffz (ucast (hd b)) + 1 in
       if int bytes > end' then Some (Inl BCH_ERR_varint_decode_error)
       else if bytes < 9 then
         let v = drop_bit bytes v;
             v = v AND NOT (push_bit (7 * bytes) (NOT 0))
         in Some (Inr (v, bytes))
       else map_option (\<lambda>bs. Inr (le_word bs, bytes)) (mem_read m 1 8)))"

section \<open>The tagged value\<close>

lemma varint_bytes_pos: "0 < varint_bytes v"
proof -
  have "v OR 1 \<noteq> 0" by (metis bit_0_eq bit_1_0 bit_or_iff bot_apply bot_bool_def)
  then have "0 < fls64 (v OR 1)" by (simp add: fls64_def)
  then show ?thesis by (simp add: varint_bytes_def DIV_ROUND_UP_def)
qed

lemma bit_varint_tag: "bytes < 9 \<Longrightarrow> bit (varint_tag bytes) i \<longleftrightarrow> i < bytes - 1"
  by (auto simp: varint_tag_def bit_ucast_iff bit_mask_iff)

text \<open>An encoding of \<open>n\<close> bytes is only chosen for a value of at most \<open>7 n\<close> bits.\<close>

lemma varint_bit_lt: "bit v i \<Longrightarrow> i < 7 * varint_bytes v"
proof (rule ccontr)
  assume "bit v i" and i: "\<not> i < 7 * varint_bytes v"
  have "fls64 (v OR 1) \<le> 7 * varint_bytes v" by (simp add: varint_bytes_def DIV_ROUND_UP_def)
  then have "unat (v OR 1) < 2 ^ i"
    using i by (meson fls64_le_iff le_trans not_less)
  then have "\<not> bit (unat (v OR 1)) i" by (simp add: bit_iff_odd)
  with \<open>bit v i\<close> show False by (simp add: bit_unat bit_or_iff)
qed

lemma bit_varint_word:
  "varint_bytes v < 9 \<Longrightarrow> bit (varint_word v) i \<longleftrightarrow>
     i < 64 \<and> (i < varint_bytes v - 1 \<or> varint_bytes v \<le> i \<and> bit v (i - varint_bytes v))"
  by (auto simp: varint_word_def Let_def bit_or_iff bit_push_bit_iff bit_varint_tag)

lemma drop_varint_word: "varint_bytes v < 9 \<Longrightarrow> drop_bit (varint_bytes v) (varint_word v) = v"
  by (rule bit_eqI) (auto simp: bit_drop_bit_eq bit_varint_word dest: varint_bit_lt)

lemma take_varint_word:
  "varint_bytes v < 9 \<Longrightarrow> take_bit (8 * varint_bytes v) (varint_word v) = varint_word v"
  by (rule bit_eqI) (auto simp: bit_take_bit_iff bit_varint_word dest: varint_bit_lt)

lemma ffz_varint_word:
  "varint_bytes v < 9 \<Longrightarrow> ffz (ucast (ucast (varint_word v) :: u8)) = varint_bytes v - 1"
  using varint_bytes_pos [of v]
  by (intro ffz_eqI) (auto simp: bit_ucast_iff bit_varint_word)

lemma ffz_255: "ffz 255 = 8"
  unfolding ffz_def raw_ffs_eq by (simp add: nctz.simps)

section \<open>Encode and decode by length\<close>

lemma encode_short:
  "varint_bytes v < 9 \<Longrightarrow> varint_bytes v \<le> length out \<Longrightarrow>
   bch2_varint_encode out v =
     Some (le_bytes (varint_bytes v) (varint_word v) @ drop (varint_bytes v) out, varint_bytes v)"
  by (simp add: bch2_varint_encode_def Let_def mem_write_def take_le_bytes)

lemma encode_long:
  "\<not> varint_bytes v < 9 \<Longrightarrow> 9 \<le> length out \<Longrightarrow>
   bch2_varint_encode out v = Some (255 # le_bytes 8 v @ drop 9 out, 9)"
  by (simp add: bch2_varint_encode_def mem_write_def)

lemma hd_le_bytes: "0 < n \<Longrightarrow> hd (le_bytes n w) = ucast w"
  by (simp add: le_bytes_def upt_rec)

lemma decode_short:
  assumes "varint_bytes v < 9" and "int (varint_bytes v) \<le> end'"
  shows "bch2_varint_decode (le_bytes (varint_bytes v) (varint_word v) @ rest) end' =
    Some (Inr (v, varint_bytes v))"
proof -
  have "varint_bytes v \<noteq> 0" using varint_bytes_pos [of v] by simp
  then show ?thesis using assms varint_bytes_pos [of v]
    by (simp add: bch2_varint_decode_def mem_read_def hd_le_bytes ffz_varint_word take_le_bytes
        le_word_append_zeros le_word_le_bytes take_varint_word drop_varint_word Suc_leI)
qed

lemma decode_long:
  "9 \<le> end' \<Longrightarrow> bch2_varint_decode (255 # le_bytes 8 v @ rest) end' = Some (Inr (v, 9))"
  by (simp add: bch2_varint_decode_def mem_read_def ffz_255 le_word_le_bytes take_bit_word_eq_self)

lemma ffz_byte_le: "ffz (ucast (b :: u8)) \<le> 8"
proof (rule ccontr)
  assume "\<not> ffz (ucast b) \<le> 8"
  then have "8 < nctz (unat (NOT (ucast b :: u64)))" by (simp add: ffz_def raw_ffs_eq)
  then have "\<not> bit (NOT (ucast b :: u64)) 8" using not_bit_below_nctz bit_unat by blast
  then show False by (auto simp: bit_not_iff bit_ucast_iff dest: bit_imp_le_length)
qed

text \<open>Extracting the value from eight bytes, or from the leading ones only.\<close>

lemma drop_bit_masked_word:
  assumes "bytes < 9"
  shows "drop_bit bytes (le_word (take 8 m) :: u64) AND mask (7 * bytes) =
    drop_bit bytes (le_word (take bytes m))"
proof -
  have "take bytes m = take bytes (take 8 m)" using assms by (simp add: min_def)
  then have eq: "le_word (take bytes m) = take_bit (8 * bytes) (le_word (take 8 m) :: u64)"
    by (metis le_word_take)
  show ?thesis unfolding eq
    by (rule bit_eqI) (auto simp: bit_and_iff bit_drop_bit_eq bit_mask_iff bit_take_bit_iff
        dest: bit_imp_le_length)
qed

section \<open>Properties\<close>

text \<open>C15. Decoding what was encoded gives back the integer and its length. The encoder writes at most
  nine bytes and leaves the rest of the buffer alone, and the decoder needs nothing past the
  encoding, whatever the end of its buffer is.\<close>

theorem varint_roundtrip:
  assumes "9 \<le> length out"
  shows "\<exists>m n. bch2_varint_encode out v = Some (m, n) \<and> 1 \<le> n \<and> n \<le> 9 \<and>
    drop n m = drop n out \<and> length m = length out \<and>
    (\<forall>rest end'. int n \<le> end' \<longrightarrow> bch2_varint_decode (take n m @ rest) end' = Some (Inr (v, n)))"
proof (cases "varint_bytes v < 9")
  case True
  with assms show ?thesis
    using encode_short [of v out] decode_short [of v] varint_bytes_pos [of v] by auto
next
  case False
  with assms show ?thesis
    using encode_long [of v out] decode_long [of _ v] by auto
qed

theorem varint_roundtrip_witness:
  "\<exists>m n. bch2_varint_encode (replicate 9 0) 300 = Some (m, n) \<and> n \<le> 9 \<and>
    bch2_varint_decode (take n m @ []) (int n) = Some (Inr (300, n))"
proof -
  have "9 \<le> length (replicate 9 (0 :: u8))" by simp
  from varint_roundtrip [OF this, of 300] show ?thesis by blast
qed

text \<open>C26. The fast decoder agrees with the plain one, value, length and error, on every buffer that may
  be read eight bytes past the end pointer.\<close>

theorem varint_decode_fast_eq:
  assumes "end' + 8 \<le> int (length m)" and "8 \<le> length m"
  shows "bch2_varint_decode_fast m end' = bch2_varint_decode m end'"
proof -
  have len: "1 \<le> length m" using assms by linarith
  have hd: "hd (take (Suc 0) m) = hd m" using len by (cases m) auto
  show ?thesis
  proof (cases "0 < end'")
    case True
    then have "9 \<le> length m" using assms by linarith
    with True ffz_byte_le [of "hd m"] show ?thesis
      by (auto simp: bch2_varint_decode_fast_def bch2_varint_decode_def mem_read_def Let_def hd
          le_word_append_zeros drop_bit_masked_word [of "Suc (ffz (ucast (hd m)))", simplified])
  next
    case False
    with len assms show ?thesis
      by (auto simp: bch2_varint_decode_fast_def bch2_varint_decode_def mem_read_def Let_def hd)
  qed
qed

theorem varint_decode_fast_eq_witness:
  "bch2_varint_decode_fast (replicate 12 1) 4 = bch2_varint_decode (replicate 12 1) 4"
  by (rule varint_decode_fast_eq) simp_all

text \<open>C25. The plain decoder never reads past its end pointer, and returns an error exactly when the
  length announced by the first byte does not fit.\<close>

theorem varint_decode_in_bounds:
  assumes "end' \<le> int (length m)"
  shows "bch2_varint_decode m end' \<noteq> None \<and>
    (bch2_varint_decode m end' = Some (Inl BCH_ERR_varint_decode_error) \<longleftrightarrow>
      end' \<le> 0 \<or> end' < int (ffz (ucast (hd m)) + 1)) \<and>
    (\<forall>v n. bch2_varint_decode m end' = Some (Inr (v, n)) \<longrightarrow> 1 \<le> n \<and> int n \<le> end')"
proof (cases "0 < end'")
  case True
  then have len: "1 \<le> length m" using assms by linarith
  then have hd: "hd (take (Suc 0) m) = hd m" by (cases m) auto
  with True assms len ffz_byte_le [of "hd m"] show ?thesis
    by (auto simp: bch2_varint_decode_def mem_read_def split: if_splits)
qed (auto simp: bch2_varint_decode_def)

theorem varint_decode_in_bounds_witness:
  "bch2_varint_decode [1] 1 = Some (Inl BCH_ERR_varint_decode_error)"
proof -
  have "ffz (1 :: u64) = 1" unfolding ffz_def raw_ffs_eq by (simp add: nctz.simps)
  then show ?thesis using varint_decode_in_bounds [of 1 "[1]"] by simp
qed

text \<open>The fast encoder, which always writes eight bytes, produces the same encoding.\<close>

theorem varint_encode_fast_eq:
  assumes "9 \<le> length out"
  shows "\<exists>m m' n. bch2_varint_encode out v = Some (m, n) \<and>
    bch2_varint_encode_fast out v = Some (m', n) \<and> take n m' = take n m"
proof (cases "varint_bytes v < 9")
  case True
  with assms have "bch2_varint_encode_fast out v =
      Some (le_bytes 8 (varint_word v) @ drop 8 out, varint_bytes v)"
    by (simp add: bch2_varint_encode_fast_def Let_def mem_write_def)
  with True assms show ?thesis
    using encode_short [of v out] by (simp add: take_le_bytes)
next
  case False
  with assms have "bch2_varint_encode_fast out v = Some (255 # le_bytes 8 v @ drop 9 out, 9)"
    by (simp add: bch2_varint_encode_fast_def mem_write_def)
  with False assms show ?thesis
    using encode_long [of v out] by simp
qed

theorem varint_encode_fast_eq_witness:
  "\<exists>m m' n. bch2_varint_encode (replicate 9 7) 5 = Some (m, n) \<and>
    bch2_varint_encode_fast (replicate 9 7) 5 = Some (m', n) \<and> take n m' = take n m"
  by (rule varint_encode_fast_eq) simp

end
