(* ===== verification/Bpos.thy ===== *)
theory Bpos
  imports Bch_Prelude
begin

text \<open>
  Btree positions and key headers: \<^verbatim>\<open>struct bpos\<close>, \<^verbatim>\<open>struct bversion\<close> and \<^verbatim>\<open>struct bkey\<close> of
  \<^verbatim>\<open>fs/bcachefs_format_types.rs\<close> with the comparison and navigation helpers of \<^verbatim>\<open>fs/btree/bkey.h\<close>,
  and \<^verbatim>\<open>struct bbpos\<close>, a position with its btree, of \<^verbatim>\<open>fs/btree/bbpos.h\<close>.

  \<open>bpos\<close> orders positions as one integer of 160 bits (\<open>bpos_val\<close>); the type is an instance of
  \<open>linorder\<close>, whose \<open>\<le>\<close> and \<open><\<close> are \<open>bpos_le\<close> and \<open>bpos_lt\<close>, so that sortedness of keys
  is the library's. \<open>BUG()\<close> is \<open>None\<close>.
\<close>

section \<open>Data\<close>

datatype bpos = Bpos (inode: u64) (offset: u64) (snapshot: u32)

datatype bversion = Bversion (ver_hi: u32) (ver_lo: u64)

record bkey =
  k_u64s :: u8
  k_format :: nat
  k_needs_whiteout :: bool
  k_type :: u8
  k_bversion :: bversion
  k_size :: u32
  k_p :: bpos

definition KEY_INODE_MAX :: u64 where "KEY_INODE_MAX = NOT 0"
definition KEY_OFFSET_MAX :: u64 where "KEY_OFFSET_MAX = NOT 0"
definition KEY_SNAPSHOT_MAX :: u32 where "KEY_SNAPSHOT_MAX = NOT 0"
definition KEY_SIZE_MAX :: u32 where "KEY_SIZE_MAX = NOT 0"

definition SPOS :: "u64 \<Rightarrow> u64 \<Rightarrow> u32 \<Rightarrow> bpos" where
  "SPOS i ofs s = Bpos i ofs s"

definition POS :: "u64 \<Rightarrow> u64 \<Rightarrow> bpos" where
  "POS i ofs = SPOS i ofs 0"

definition POS_MIN :: bpos where "POS_MIN = SPOS 0 0 0"
definition POS_MAX :: bpos where "POS_MAX = SPOS KEY_INODE_MAX KEY_OFFSET_MAX 0"
definition SPOS_MAX :: bpos where "SPOS_MAX = SPOS KEY_INODE_MAX KEY_OFFSET_MAX KEY_SNAPSHOT_MAX"

section \<open>Comparisons\<close>

text \<open>The C operator \<^verbatim>\<open>a ?: b\<close>.\<close>

definition elvis :: "int \<Rightarrow> int \<Rightarrow> int" where
  "elvis a b = (if a \<noteq> 0 then a else b)"

definition bpos_eq :: "bpos \<Rightarrow> bpos \<Rightarrow> bool" where
  "bpos_eq l r \<longleftrightarrow>
     \<not> ((inode l XOR inode r) OR (offset l XOR offset r) OR ucast (snapshot l XOR snapshot r) \<noteq> 0)"

definition bpos_lt :: "bpos \<Rightarrow> bpos \<Rightarrow> bool" where
  "bpos_lt l r \<longleftrightarrow>
     (if inode l \<noteq> inode r then inode l < inode r else
      if offset l \<noteq> offset r then offset l < offset r else
      if snapshot l \<noteq> snapshot r then snapshot l < snapshot r else False)"

definition bpos_le :: "bpos \<Rightarrow> bpos \<Rightarrow> bool" where
  "bpos_le l r \<longleftrightarrow>
     (if inode l \<noteq> inode r then inode l < inode r else
      if offset l \<noteq> offset r then offset l < offset r else
      if snapshot l \<noteq> snapshot r then snapshot l < snapshot r else True)"

definition bpos_gt :: "bpos \<Rightarrow> bpos \<Rightarrow> bool" where
  "bpos_gt l r \<longleftrightarrow> bpos_lt r l"

definition bpos_ge :: "bpos \<Rightarrow> bpos \<Rightarrow> bool" where
  "bpos_ge l r \<longleftrightarrow> bpos_le r l"

definition bpos_cmp :: "bpos \<Rightarrow> bpos \<Rightarrow> int" where
  "bpos_cmp l r =
     elvis (cmp_int (inode l) (inode r))
    (elvis (cmp_int (offset l) (offset r))
           (cmp_int (snapshot l) (snapshot r)))"

definition bpos_min :: "bpos \<Rightarrow> bpos \<Rightarrow> bpos" where
  "bpos_min l r = (if bpos_lt l r then l else r)"

definition bpos_max :: "bpos \<Rightarrow> bpos \<Rightarrow> bpos" where
  "bpos_max l r = (if bpos_gt l r then l else r)"

text \<open>The \<^verbatim>\<open>bkey_\<close> comparisons ignore the snapshot field.\<close>

definition bkey_eq :: "bpos \<Rightarrow> bpos \<Rightarrow> bool" where
  "bkey_eq l r \<longleftrightarrow> \<not> ((inode l XOR inode r) OR (offset l XOR offset r) \<noteq> 0)"

definition bkey_lt :: "bpos \<Rightarrow> bpos \<Rightarrow> bool" where
  "bkey_lt l r \<longleftrightarrow> (if inode l \<noteq> inode r then inode l < inode r else offset l < offset r)"

definition bkey_le :: "bpos \<Rightarrow> bpos \<Rightarrow> bool" where
  "bkey_le l r \<longleftrightarrow> (if inode l \<noteq> inode r then inode l < inode r else offset l \<le> offset r)"

definition bkey_gt :: "bpos \<Rightarrow> bpos \<Rightarrow> bool" where
  "bkey_gt l r \<longleftrightarrow> bkey_lt r l"

definition bkey_ge :: "bpos \<Rightarrow> bpos \<Rightarrow> bool" where
  "bkey_ge l r \<longleftrightarrow> bkey_le r l"

definition bkey_cmp :: "bpos \<Rightarrow> bpos \<Rightarrow> int" where
  "bkey_cmp l r = elvis (cmp_int (inode l) (inode r)) (cmp_int (offset l) (offset r))"

definition bkey_min :: "bpos \<Rightarrow> bpos \<Rightarrow> bpos" where
  "bkey_min l r = (if bkey_lt l r then l else r)"

definition bkey_max :: "bpos \<Rightarrow> bpos \<Rightarrow> bpos" where
  "bkey_max l r = (if bkey_gt l r then l else r)"

definition bversion_cmp :: "bversion \<Rightarrow> bversion \<Rightarrow> int" where
  "bversion_cmp l r = elvis (cmp_int (ver_hi l) (ver_hi r)) (cmp_int (ver_lo l) (ver_lo r))"

definition bversion_eq :: "bversion \<Rightarrow> bversion \<Rightarrow> bool" where
  "bversion_eq l r \<longleftrightarrow> ver_hi l = ver_hi r \<and> ver_lo l = ver_lo r"

definition ZERO_VERSION :: bversion where "ZERO_VERSION = Bversion 0 0"
definition MAX_VERSION :: bversion where "MAX_VERSION = Bversion (NOT 0) (NOT 0)"

definition bversion_zero :: "bversion \<Rightarrow> bool" where
  "bversion_zero v \<longleftrightarrow> bversion_cmp v ZERO_VERSION = 0"

definition bkey_fields_eq :: "bkey \<Rightarrow> bkey \<Rightarrow> bool" where
  "bkey_fields_eq l r \<longleftrightarrow>
     k_u64s l = k_u64s r \<and> k_type l = k_type r \<and> bpos_eq (k_p l) (k_p r) \<and>
     bversion_eq (k_bversion l) (k_bversion r) \<and> k_size l = k_size r"

section \<open>Navigation\<close>

text \<open>The increments and decrements short-circuit: a field is changed only when the one below it
  wrapped.\<close>

definition bpos_successor :: "bpos \<Rightarrow> bpos option" where
  "bpos_successor q =
     (let s = snapshot q + 1 in
      if s \<noteq> 0 then Some (Bpos (inode q) (offset q) s) else
      let ofs = offset q + 1 in
      if ofs \<noteq> 0 then Some (Bpos (inode q) ofs s) else
      let i = inode q + 1 in
      if i \<noteq> 0 then Some (Bpos i ofs s) else None)"

definition bpos_predecessor :: "bpos \<Rightarrow> bpos option" where
  "bpos_predecessor q =
     (if snapshot q \<noteq> 0 then Some (Bpos (inode q) (offset q) (snapshot q - 1)) else
      if offset q \<noteq> 0 then Some (Bpos (inode q) (offset q - 1) (snapshot q - 1)) else
      if inode q \<noteq> 0 then Some (Bpos (inode q - 1) (offset q - 1) (snapshot q - 1)) else None)"

definition bpos_nosnap_successor :: "bpos \<Rightarrow> bpos option" where
  "bpos_nosnap_successor q =
     (let ofs = offset q + 1 in
      if ofs \<noteq> 0 then Some (Bpos (inode q) ofs 0) else
      let i = inode q + 1 in
      if i \<noteq> 0 then Some (Bpos i ofs 0) else None)"

definition bpos_nosnap_predecessor :: "bpos \<Rightarrow> bpos option" where
  "bpos_nosnap_predecessor q =
     (if offset q \<noteq> 0 then Some (Bpos (inode q) (offset q - 1) 0) else
      if inode q \<noteq> 0 then Some (Bpos (inode q - 1) (offset q - 1) 0) else None)"

definition bkey_start_offset :: "bkey \<Rightarrow> u64" where
  "bkey_start_offset k = offset (k_p k) - ucast (k_size k)"

definition bkey_start_pos :: "bkey \<Rightarrow> bpos" where
  "bkey_start_pos k = Bpos (inode (k_p k)) (bkey_start_offset k) (snapshot (k_p k))"

definition bpos_with_snapshot :: "bpos \<Rightarrow> u32 \<Rightarrow> bpos" where
  "bpos_with_snapshot q s = Bpos (inode q) (offset q) s"

section \<open>Positions in a btree\<close>

datatype bbpos = Bbpos (bb_btree: nat) (bb_pos: bpos)

definition bbpos_cmp :: "bbpos \<Rightarrow> bbpos \<Rightarrow> int" where
  "bbpos_cmp l r = elvis (cmp_int (bb_btree l) (bb_btree r)) (bpos_cmp (bb_pos l) (bb_pos r))"

text \<open>The number of btrees, \<^verbatim>\<open>BTREE_ID_NR\<close>, is a parameter.\<close>

definition bbpos_successor :: "nat \<Rightarrow> bbpos \<Rightarrow> bbpos option" where
  "bbpos_successor BTREE_ID_NR q =
     (if bpos_cmp (bb_pos q) SPOS_MAX \<noteq> 0 then map_option (Bbpos (bb_btree q)) (bpos_successor (bb_pos q))
      else if bb_btree q \<noteq> BTREE_ID_NR then Some (Bbpos (bb_btree q + 1) POS_MIN)
      else None)"

section \<open>The order on positions\<close>

text \<open>A position as one big integer.\<close>

definition bpos_val :: "bpos \<Rightarrow> nat" where
  "bpos_val q = (unat (inode q) * 2 ^ 64 + unat (offset q)) * 2 ^ 32 + unat (snapshot q)"

lemma lex_nat_less:
  assumes "b < n" "b' < n"
  shows "(a * n + b < a' * n + (b' :: nat)) \<longleftrightarrow> a < a' \<or> a = a' \<and> b < b'"
proof -
  have *: "a * n + b < a' * n + b'" if "a < a'" "b < n" for a a' b b'
  proof -
    from that have "Suc a * n \<le> a' * n" by (intro mult_le_mono1) simp
    with that show ?thesis by simp
  qed
  show ?thesis
    using *[of a a' b b'] *[of a' a b' b] assms by (cases a a' rule: linorder_cases) auto
qed

lemma lex_nat_eq:
  assumes "b < n" "b' < n"
  shows "(a * n + b = a' * n + (b' :: nat)) \<longleftrightarrow> a = a' \<and> b = b'"
  using lex_nat_less [OF assms, of a a'] lex_nat_less [OF assms(2,1), of a' a]
  by (metis less_irrefl linorder_neqE_nat)

lemma bpos_field_bounds:
  "unat (offset q) < 2 ^ 64" "unat (snapshot q) < 2 ^ 32"
  using unsigned_less [of "offset q"] unsigned_less [of "snapshot q"] by simp_all

lemma bpos_val_less:
  "bpos_val l < bpos_val r \<longleftrightarrow> inode l < inode r \<or>
     inode l = inode r \<and> (offset l < offset r \<or> offset l = offset r \<and> snapshot l < snapshot r)"
  unfolding bpos_val_def word_less_nat_alt word_unat_eq_iff
  by (simp only: lex_nat_less lex_nat_eq bpos_field_bounds) blast

lemma bpos_lt_iff: "bpos_lt l r \<longleftrightarrow> bpos_val l < bpos_val r"
  by (auto simp: bpos_lt_def bpos_val_less)

lemma bpos_val_inject: "bpos_val l = bpos_val r \<longleftrightarrow> l = r"
proof
  assume "bpos_val l = bpos_val r"
  then have "\<not> bpos_lt l r" "\<not> bpos_lt r l" by (simp_all add: bpos_lt_iff)
  then show "l = r" by (auto simp: bpos_lt_def bpos.expand split: if_splits)
qed simp

lemma bpos_le_iff: "bpos_le l r \<longleftrightarrow> bpos_val l \<le> bpos_val r"
proof -
  have "bpos_le l r \<longleftrightarrow> bpos_lt l r \<or> l = r"
    by (auto simp: bpos_le_def bpos_lt_def bpos.expand)
  then show ?thesis by (auto simp: bpos_lt_iff bpos_val_inject)
qed

instantiation bpos :: linorder
begin

definition less_eq_bpos :: "bpos \<Rightarrow> bpos \<Rightarrow> bool" where
  "less_eq_bpos = bpos_le"

definition less_bpos :: "bpos \<Rightarrow> bpos \<Rightarrow> bool" where
  "less_bpos = bpos_lt"

instance
  by standard (auto simp: less_eq_bpos_def less_bpos_def bpos_le_iff bpos_lt_iff bpos_val_inject)

end

lemma less_bpos_iff: "(l :: bpos) < r \<longleftrightarrow> bpos_val l < bpos_val r"
  by (simp add: less_bpos_def bpos_lt_iff)

lemma less_eq_bpos_iff: "(l :: bpos) \<le> r \<longleftrightarrow> bpos_val l \<le> bpos_val r"
  by (simp add: less_eq_bpos_def bpos_le_iff)

lemma bpos_cmp_eq: "bpos_cmp l r = cmp_int l r"
  by (auto simp: bpos_cmp_def elvis_def cmp_int_def less_bpos_def bpos_lt_def split: if_splits)

lemma bpos_eq_iff: "bpos_eq l r \<longleftrightarrow> l = r"
proof -
  have up: "unat (ucast (a :: u32) :: u64) = unat a" for a
    by (rule unat_ucast_up) simp
  have "ucast (a :: u32) = (0 :: u64) \<longleftrightarrow> a = 0" for a
    using up [of a] by (simp add: unat_eq_0 [symmetric] del: unat_eq_0)
  then show ?thesis
    by (simp add: bpos_eq_def or_eq_zero_iff xor_eq_zero_iff) (auto simp: bpos.expand)
qed

lemma bkey_cmp_sign:
  "bkey_cmp l r < 0 \<longleftrightarrow> bkey_lt l r" "bkey_cmp l r = 0 \<longleftrightarrow> bkey_eq l r" "bkey_cmp l r \<le> 0 \<longleftrightarrow> bkey_le l r"
  by (auto simp: bkey_cmp_def elvis_def bkey_lt_def bkey_eq_def bkey_le_def cmp_int_def
      or_eq_zero_iff xor_eq_zero_iff)

section \<open>Successor and predecessor as arithmetic\<close>

lemma unat_succ: "(w :: 'a::len word) + 1 \<noteq> 0 \<Longrightarrow> unat (w + 1) = unat w + 1"
  by (metis Suc_eq_plus1 add.commute unatSuc)

lemma unat_max: "(w :: 'a::len word) + 1 = 0 \<Longrightarrow> unat w = 2 ^ LENGTH('a) - 1"
proof -
  assume "w + 1 = 0"
  then have "(unat w + 1) mod 2 ^ LENGTH('a) = 0" by (metis unat_0 unat_1 unat_word_ariths(1))
  then have "2 ^ LENGTH('a) \<le> unat w + 1" by (simp add: dvd_imp_le mod_eq_0_iff_dvd)
  then show ?thesis using unsigned_less [of w, where ?'a = nat] by linarith
qed

lemma unat_minus_1: "unat (- 1 :: 'a::len word) = 2 ^ LENGTH('a) - 1"
  by (rule unat_max) simp

lemma unat_pred: "(w :: 'a::len word) \<noteq> 0 \<Longrightarrow> unat w = unat (w - 1) + 1"
  using unat_succ [of "w - 1"] by simp

lemma word_plus_1_eq_0: "(w :: 'a::len word) + 1 = 0 \<longleftrightarrow> w = - 1"
  by (simp add: eq_neg_iff_add_eq_0)

lemma bpos_successor_val:
  "bpos_successor q = Some s \<Longrightarrow> bpos_val s = bpos_val q + 1"
  by (auto simp: bpos_successor_def bpos_val_def Let_def unat_succ unat_max split: if_splits)

lemma bpos_predecessor_val:
  assumes "bpos_predecessor q = Some s"
  shows "bpos_val s + 1 = bpos_val q"
  using assms unat_pred [of "snapshot q"] unat_pred [of "offset q"] unat_pred [of "inode q"]
  by (auto simp: bpos_predecessor_def bpos_val_def unat_minus_1 split: if_splits)

lemma bpos_successor_None: "bpos_successor q = None \<longleftrightarrow> q = SPOS_MAX"
  by (cases q) (auto simp: bpos_successor_def Let_def SPOS_MAX_def SPOS_def KEY_INODE_MAX_def
      KEY_OFFSET_MAX_def KEY_SNAPSHOT_MAX_def word_plus_1_eq_0)

lemma bpos_predecessor_None: "bpos_predecessor q = None \<longleftrightarrow> q = POS_MIN"
  by (cases q) (auto simp: bpos_predecessor_def POS_MIN_def SPOS_def)

section \<open>Properties\<close>

text \<open>C20. \<open>bpos_cmp\<close> is the three-way comparison of a total order, the order of positions as integers of
  160 bits, and each of the other comparison helpers agrees with its sign.\<close>

theorem bpos_cmp_total_order:
  "bpos_cmp l r = cmp_int (bpos_val l) (bpos_val r) \<and>
   bpos_lt l r = (bpos_cmp l r < 0) \<and> bpos_le l r = (bpos_cmp l r \<le> 0) \<and>
   bpos_gt l r = (bpos_cmp l r > 0) \<and> bpos_ge l r = (bpos_cmp l r \<ge> 0) \<and>
   bpos_eq l r = (bpos_cmp l r = 0) \<and>
   bpos_val (bpos_min l r) = min (bpos_val l) (bpos_val r) \<and>
   bpos_val (bpos_max l r) = max (bpos_val l) (bpos_val r) \<and>
   (bpos_val l = bpos_val r) = (l = r)"
proof -
  have "bpos_cmp l r = cmp_int (bpos_val l) (bpos_val r)"
    by (simp add: bpos_cmp_eq cmp_int_def less_bpos_iff)
  then show ?thesis
    by (auto simp: bpos_lt_iff bpos_le_iff bpos_gt_def bpos_ge_def bpos_eq_iff bpos_min_def bpos_max_def
        bpos_val_inject)
qed

text \<open>C23. \<open>bpos_successor\<close> and \<open>bpos_predecessor\<close> step to the adjacent position: nothing lies
  between, they are inverse to each other, and they only fail (\<^verbatim>\<open>BUG()\<close>) at the last and the first
  position.\<close>

theorem bpos_successor_predecessor:
  "(case bpos_successor q of None \<Rightarrow> q = SPOS_MAX
    | Some s \<Rightarrow> q < s \<and> (\<nexists>r. q < r \<and> r < s) \<and> bpos_predecessor s = Some q) \<and>
   (case bpos_predecessor q of None \<Rightarrow> q = POS_MIN
    | Some s \<Rightarrow> s < q \<and> (\<nexists>r. s < r \<and> r < q) \<and> bpos_successor s = Some q)"
proof -
  have "bpos_predecessor s = Some q" if "bpos_val s = bpos_val q + 1" for s q
  proof (cases "bpos_predecessor s")
    case None
    then have "bpos_val s = 0" by (simp add: bpos_predecessor_None POS_MIN_def SPOS_def bpos_val_def)
    with that show ?thesis by simp
  next
    case (Some t)
    with that bpos_predecessor_val [OF Some] show ?thesis by (simp flip: bpos_val_inject)
  qed
  moreover have "bpos_successor s = Some q" if "bpos_val s + 1 = bpos_val q" for s q
  proof (cases "bpos_successor s")
    case None
    then have "s = SPOS_MAX" by (simp add: bpos_successor_None)
    then have "bpos_val s + 1 = 2 ^ 160" by (simp add: SPOS_MAX_def SPOS_def KEY_INODE_MAX_def
        KEY_OFFSET_MAX_def KEY_SNAPSHOT_MAX_def bpos_val_def unat_minus_1)
    moreover have "bpos_val q < 2 ^ 160"
      using unsigned_less [of "inode q", where ?'a = nat] bpos_field_bounds [of q]
      by (simp add: bpos_val_def)
    ultimately show ?thesis using that by simp
  next
    case (Some t)
    with that bpos_successor_val [OF Some] show ?thesis by (simp flip: bpos_val_inject)
  qed
  ultimately show ?thesis
    by (auto simp: bpos_successor_None bpos_predecessor_None less_bpos_iff
        dest!: bpos_successor_val bpos_predecessor_val split: option.splits)
qed

text \<open>Ignoring snapshots, \<open>bpos_nosnap_successor\<close> is the first position, of any snapshot, strictly
  after the argument in the \<open>bkey_cmp\<close> order; it fails only for the last inode and offset.\<close>

theorem bpos_nosnap_successor_least:
  "case bpos_nosnap_successor q of
     None \<Rightarrow> \<nexists>r. bkey_cmp q r < 0
   | Some s \<Rightarrow> bkey_cmp q s < 0 \<and> (\<nexists>r. bkey_cmp q r < 0 \<and> r < s) \<and>
       bpos_nosnap_predecessor s = Some (bpos_with_snapshot q 0)"
proof (cases "bpos_nosnap_successor q")
  case None
  then have "inode q = - 1" "offset q = - 1"
    by (auto simp: bpos_nosnap_successor_def Let_def word_plus_1_eq_0 split: if_splits)
  then have "\<not> bkey_lt q r" for r
    by (cases "inode r = - 1") (simp_all add: bkey_lt_def not_less)
  with None show ?thesis
    by (simp add: bkey_cmp_sign)
next
  case (Some s)
  have lt: "unat w < unat (w + 1)" if "w + 1 \<noteq> 0" for w :: u64
    using that by (simp add: unat_succ)
  have le: "unat (w + 1) \<le> unat v" if "w + 1 \<noteq> 0" "unat w < unat v" for w v :: u64
    using that by (simp add: unat_succ)
  have mx: "\<not> unat w < unat v" if "w + 1 = 0" for w v :: u64
    using unat_max [OF that] unsigned_less [of v, where ?'a = nat] by simp
  from Some show ?thesis
    using lt [of "offset q"] le [of "offset q"] lt [of "inode q"] le [of "inode q"] mx [of "offset q"]
    by (auto simp: bpos_nosnap_successor_def bpos_nosnap_predecessor_def Let_def bkey_cmp_sign bkey_lt_def
        bpos_with_snapshot_def less_bpos_def bpos_lt_def word_less_nat_alt not_less leD
        split: if_splits) (metis word_plus_1_eq_0)
qed

end
