(* ===== verification/Bkey_Format.thy ===== *)
theory Bkey_Format
  imports Bpos Bitops
begin

text \<open>
  Packed btree keys: the formats and the packing routines of \<^verbatim>\<open>fs/btree/bkey.c\<close> and \<^verbatim>\<open>fs/btree/bkey.h\<close>, for a
  little-endian machine.

  A packed key is the list of its 64-bit words, \<^verbatim>\<open>_data\<close>, the value included.  The header (size, format, whiteout flag and type)
  is the low 24 bits of the first word.  The fields of the key fill the words from the top bit of the last word of the key downwards,
  every field less its offset in as many bits as the format says.

  \<^verbatim>\<open>None\<close> is an access outside the key, a shift by too much, or a failed assertion, those of debug builds (\<^verbatim>\<open>EBUG_ON\<close>) included.
  The comparisons of two results that debug builds also make are left out: they are theorems here.
\<close>

unbundle bit_operations_syntax

section \<open>Formats and keys\<close>

definition BKEY_U64s :: nat where "BKEY_U64s = 5"
definition KEY_PACKED_BITS_START :: nat where "KEY_PACKED_BITS_START = 24"
definition KEY_FORMAT_LOCAL_BTREE :: nat where "KEY_FORMAT_LOCAL_BTREE = 0"
definition KEY_FORMAT_CURRENT :: nat where "KEY_FORMAT_CURRENT = 1"
definition BKEY_NR_FIELDS :: nat where "BKEY_NR_FIELDS = 6"

record bkey_format =
  key_u64s :: nat
  nr_fields :: nat
  bits_per_field :: "nat list"
  field_offset :: "u64 list"

definition bch2_bkey_format_current :: bkey_format where
  "bch2_bkey_format_current = \<lparr>key_u64s = BKEY_U64s, nr_fields = BKEY_NR_FIELDS,
     bits_per_field = [64, 64, 32, 32, 32, 64], field_offset = [0, 0, 0, 0, 0, 0]\<rparr>"

definition bkey_format_key_bits :: "bkey_format \<Rightarrow> nat" where
  "bkey_format_key_bits f = bits_per_field f ! 0 + bits_per_field f ! 1 + bits_per_field f ! 2"

text \<open>The fields of a key in the order of \<^verbatim>\<open>bkey_fields()\<close>.\<close>

definition bkey_fields :: "bkey \<Rightarrow> u64 list" where
  "bkey_fields k = [inode (k_p k), offset (k_p k), ucast (snapshot (k_p k)), ucast (k_size k), ucast (ver_hi (k_bversion k)),
     ver_lo (k_bversion k)]"

type_synonym bkey_packed = "u64 list"

definition kp_u64s :: "bkey_packed \<Rightarrow> u8" where "kp_u64s k = ucast (k ! 0)"
definition kp_format :: "bkey_packed \<Rightarrow> nat" where "kp_format k = unat (drop_bit 8 (k ! 0) AND 0x7f)"
definition kp_needs_whiteout :: "bkey_packed \<Rightarrow> bool" where "kp_needs_whiteout k = bit (k ! 0) 15"
definition kp_type :: "bkey_packed \<Rightarrow> u8" where "kp_type k = ucast (drop_bit 16 (k ! 0))"

definition kp_header :: "u8 \<Rightarrow> nat \<Rightarrow> bool \<Rightarrow> u8 \<Rightarrow> u64" where
  "kp_header sz fmt nw ty =
     ucast sz OR push_bit 8 (word_of_nat fmt AND 0x7f) OR push_bit 15 (of_bool nw) OR push_bit 16 (ucast ty)"

definition set_kp_header :: "u8 \<Rightarrow> nat \<Rightarrow> bool \<Rightarrow> u8 \<Rightarrow> bkey_packed \<Rightarrow> bkey_packed" where
  "set_kp_header sz fmt nw ty k = k[0 := (k ! 0 AND NOT (mask 24)) OR kp_header sz fmt nw ty]"

definition bkey_packed :: "bkey_packed \<Rightarrow> bool" where
  "bkey_packed k = (kp_format k \<noteq> KEY_FORMAT_CURRENT)"

definition bkeyp_key_u64s :: "bkey_format \<Rightarrow> bkey_packed \<Rightarrow> nat" where
  "bkeyp_key_u64s f k = (if bkey_packed k then key_u64s f else BKEY_U64s)"

definition bkeyp_val_u64s :: "bkey_format \<Rightarrow> bkey_packed \<Rightarrow> nat" where
  "bkeyp_val_u64s f k = unat (kp_u64s k) - bkeyp_key_u64s f k"

definition high_word_offset :: "bkey_format \<Rightarrow> nat" where
  "high_word_offset f = key_u64s f - 1"

section \<open>Packing and unpacking of fields\<close>

text \<open>The pointers of the source are indices into the words of the key.\<close>

record pack_state =
  ps_format :: bkey_format
  ps_bits :: nat
  ps_w :: u64
  ps_p :: nat
  ps_out :: bkey_packed

definition pack_state_init :: "bkey_format \<Rightarrow> bkey_packed \<Rightarrow> pack_state" where
  "pack_state_init f k = \<lparr>ps_format = f, ps_bits = 64, ps_w = 0, ps_p = high_word_offset f, ps_out = k\<rparr>"

definition pack_state_finish :: "pack_state \<Rightarrow> bkey_packed option" where
  "pack_state_finish st =
    (if ps_p st \<ge> key_u64s (ps_format st) \<or> ps_p st \<ge> length (ps_out st) then None
     else Some ((ps_out st)[ps_p st := ps_w st]))"

record unpack_state =
  us_format :: bkey_format
  us_bits :: nat
  us_w :: u64
  us_p :: nat
  us_in :: bkey_packed

definition unpack_state_init :: "bkey_format \<Rightarrow> bkey_packed \<Rightarrow> unpack_state option" where
  "unpack_state_init f k =
    (if high_word_offset f \<ge> length k then None
     else Some \<lparr>us_format = f, us_bits = 64, us_w = k ! high_word_offset f, us_p = high_word_offset f, us_in = k\<rparr>)"

definition get_next_word :: "unpack_state \<Rightarrow> nat \<Rightarrow> (u64 \<times> nat \<times> unpack_state) option" where
  "get_next_word st bits =
    (if bits \<ge> us_bits st then
       if bits > 64 \<or> us_p st = 0 then None
       else Some (drop_bit (64 - bits) (us_w st), bits - us_bits st,
         st\<lparr>us_p := us_p st - 1, us_w := us_in st ! (us_p st - 1), us_bits := 64\<rparr>)
     else Some (0, bits, st))"

definition get_inc_field :: "unpack_state \<Rightarrow> nat \<Rightarrow> (u64 \<times> unpack_state) option" where
  "get_inc_field st field =
    (case get_next_word st (bits_per_field (us_format st) ! field) of
       None \<Rightarrow> None
     | Some (v, bits, st) \<Rightarrow>
       if bits > 63 then None
       else Some ((v OR drop_bit (63 - bits) (drop_bit 1 (us_w st))) + field_offset (us_format st) ! field,
         st\<lparr>us_w := push_bit bits (us_w st), us_bits := us_bits st - bits\<rparr>))"

definition raw_set_inc_field :: "pack_state \<Rightarrow> nat \<Rightarrow> u64 \<Rightarrow> pack_state option" where
  "raw_set_inc_field st field v =
    (let bits = bits_per_field (ps_format st) ! field in
     if bits \<noteq> 0 then
       case (if bits > ps_bits st then
               let bits = bits - ps_bits st in
               if bits > 64 \<or> ps_p st = 0 \<or> ps_p st \<ge> length (ps_out st) then None
               else Some (bits, st\<lparr>ps_out := (ps_out st)[ps_p st := ps_w st OR drop_bit (bits - 1) (drop_bit 1 v)],
                 ps_p := ps_p st - 1, ps_w := 0, ps_bits := 64\<rparr>)
             else Some (bits, st)) of
         None \<Rightarrow> None
       | Some (bits, st) \<Rightarrow>
         Some (st\<lparr>ps_bits := ps_bits st - bits, ps_w := ps_w st OR push_bit (ps_bits st - bits) v\<rparr>)
     else Some st)"

definition set_inc_field :: "pack_state \<Rightarrow> nat \<Rightarrow> u64 \<Rightarrow> (bool \<times> pack_state) option" where
  "set_inc_field st field v =
    (let bits = bits_per_field (ps_format st) ! field; ofs = field_offset (ps_format st) ! field in
     if v < ofs then Some (False, st)
     else let v = v - ofs in
       if fls64 v > bits then Some (False, st)
       else map_option (Pair True) (raw_set_inc_field st field v))"

text \<open>The sequence of fields that the macro \<^verbatim>\<open>bkey_fields()\<close> expands to.\<close>

fun get_fields :: "unpack_state \<Rightarrow> nat list \<Rightarrow> (u64 list \<times> unpack_state) option" where
  "get_fields st [] = Some ([], st)"
| "get_fields st (i # is) =
    (case get_inc_field st i of
       None \<Rightarrow> None
     | Some (v, st) \<Rightarrow> map_option (\<lambda>(vs, st). (v # vs, st)) (get_fields st is))"

fun set_fields :: "pack_state \<Rightarrow> (nat \<times> u64) list \<Rightarrow> (bool \<times> pack_state) option" where
  "set_fields st [] = Some (True, st)"
| "set_fields st ((i, v) # ivs) =
    (case set_inc_field st i v of
       None \<Rightarrow> None
     | Some (ok, st) \<Rightarrow> if ok then set_fields st ivs else Some (False, st))"

section \<open>Keys\<close>

definition raw_bch2_bkey_unpack_key :: "bkey_format \<Rightarrow> bkey_packed \<Rightarrow> bkey option" where
  "raw_bch2_bkey_unpack_key f k =
    (case unpack_state_init f k of
       None \<Rightarrow> None
     | Some st \<Rightarrow>
       if nr_fields f \<noteq> BKEY_NR_FIELDS \<or> unat (kp_u64s k) < key_u64s f \<or> kp_format k \<noteq> KEY_FORMAT_LOCAL_BTREE \<or>
          unat (kp_u64s k) - key_u64s f + BKEY_U64s > 255 then None
       else case get_fields st [0, 1, 2, 3, 4, 5] of
         None \<Rightarrow> None
       | Some (vs, st) \<Rightarrow>
         Some \<lparr>k_u64s = word_of_nat BKEY_U64s + kp_u64s k - word_of_nat (key_u64s f), k_format = KEY_FORMAT_CURRENT,
           k_needs_whiteout = kp_needs_whiteout k, k_type = kp_type k,
           k_bversion = Bversion (ucast (vs ! 4)) (vs ! 5), k_size = ucast (vs ! 3),
           k_p = Bpos (vs ! 0) (vs ! 1) (ucast (vs ! 2))\<rparr>)"

definition raw_bkey_unpack_pos :: "bkey_format \<Rightarrow> bkey_packed \<Rightarrow> bpos option" where
  "raw_bkey_unpack_pos f k =
    (case unpack_state_init f k of
       None \<Rightarrow> None
     | Some st \<Rightarrow>
       if nr_fields f \<noteq> BKEY_NR_FIELDS \<or> unat (kp_u64s k) < key_u64s f \<or> kp_format k \<noteq> KEY_FORMAT_LOCAL_BTREE then None
       else case get_fields st [0, 1, 2] of
         None \<Rightarrow> None
       | Some (vs, st) \<Rightarrow> Some (Bpos (vs ! 0) (vs ! 1) (ucast (vs ! 2))))"

text \<open>The result of a packing routine is its answer with the memory of the output.\<close>

definition bch2_bkey_pack_key :: "bkey_packed \<Rightarrow> bkey \<Rightarrow> bkey_format \<Rightarrow> (bool \<times> bkey_packed) option" where
  "bch2_bkey_pack_key out k f =
    (if nr_fields f \<noteq> BKEY_NR_FIELDS \<or> k_format k \<noteq> KEY_FORMAT_CURRENT \<or> out = [] then None
     else case set_fields (pack_state_init f (out[0 := 0])) (zip [0, 1, 2, 3, 4, 5] (bkey_fields k)) of
       None \<Rightarrow> None
     | Some (ok, st) \<Rightarrow>
       if \<not> ok then Some (False, ps_out st)
       else case pack_state_finish st of
         None \<Rightarrow> None
       | Some out \<Rightarrow> Some (True, set_kp_header (word_of_nat (key_u64s f) + k_u64s k - word_of_nat BKEY_U64s)
           KEY_FORMAT_LOCAL_BTREE (k_needs_whiteout k) (k_type k) out))"

fun transform_fields :: "pack_state \<Rightarrow> unpack_state \<Rightarrow> nat list \<Rightarrow> (bool \<times> pack_state) option" where
  "transform_fields out_s in_s [] = Some (True, out_s)"
| "transform_fields out_s in_s (i # is) =
    (case get_inc_field in_s i of
       None \<Rightarrow> None
     | Some (v, in_s) \<Rightarrow>
       case set_inc_field out_s i v of
         None \<Rightarrow> None
       | Some (ok, out_s) \<Rightarrow> if ok then transform_fields out_s in_s is else Some (False, out_s))"

definition bch2_bkey_transform_key :: "bkey_format \<Rightarrow> bkey_packed \<Rightarrow> bkey_format \<Rightarrow> bkey_packed \<Rightarrow> (bool \<times> bkey_packed) option" where
  "bch2_bkey_transform_key out_f out in_f k =
    (case unpack_state_init in_f k of
       None \<Rightarrow> None
     | Some in_s \<Rightarrow>
       if out = [] then None
       else case transform_fields (pack_state_init out_f (out[0 := 0])) in_s [0..<BKEY_NR_FIELDS] of
         None \<Rightarrow> None
       | Some (ok, st) \<Rightarrow>
         if \<not> ok then Some (False, ps_out st)
         else if unat (kp_u64s k) < key_u64s in_f \<or> unat (kp_u64s k) - key_u64s in_f + key_u64s out_f > 255 then None
         else case pack_state_finish st of
           None \<Rightarrow> None
         | Some out \<Rightarrow> Some (True, set_kp_header (word_of_nat (key_u64s out_f) + kp_u64s k - word_of_nat (key_u64s in_f))
             (kp_format out) (kp_needs_whiteout k) (kp_type k) out))"

definition bch2_bkey_transform :: "bkey_format \<Rightarrow> bkey_packed \<Rightarrow> bkey_format \<Rightarrow> bkey_packed \<Rightarrow> (bool \<times> bkey_packed) option" where
  "bch2_bkey_transform out_f out in_f k =
    (case bch2_bkey_transform_key out_f out in_f k of
       None \<Rightarrow> None
     | Some (ok, out) \<Rightarrow>
       if \<not> ok then Some (False, out)
       else case mem_read k (key_u64s in_f) (unat (kp_u64s k) - key_u64s in_f) of
         None \<Rightarrow> None
       | Some vals \<Rightarrow> map_option (Pair True) (mem_write out (key_u64s out_f) vals))"

section \<open>Construction and validation of formats\<close>

record bkey_format_state =
  field_min :: "u64 list"
  field_max :: "u64 list"

definition bch2_bkey_format_init :: bkey_format_state where
  "bch2_bkey_format_init = \<lparr>field_min = (replicate BKEY_NR_FIELDS (NOT 0))[3 := 0], field_max = replicate BKEY_NR_FIELDS 0\<rparr>"

definition raw_bkey_format_add :: "nat \<Rightarrow> u64 \<Rightarrow> bkey_format_state \<Rightarrow> bkey_format_state" where
  "raw_bkey_format_add field v s =
    s\<lparr>field_min := (field_min s)[field := min (field_min s ! field) v], field_max := (field_max s)[field := max (field_max s ! field) v]\<rparr>"

definition bch2_bkey_format_add_key :: "bkey_format_state \<Rightarrow> bkey \<Rightarrow> bkey_format_state" where
  "bch2_bkey_format_add_key s k = fold (\<lambda>(i, v). raw_bkey_format_add i v) (zip [0, 1, 2, 3, 4, 5] (bkey_fields k)) s"

definition bch2_bkey_format_add_pos :: "bkey_format_state \<Rightarrow> bpos \<Rightarrow> bkey_format_state" where
  "bch2_bkey_format_add_pos s q = raw_bkey_format_add 2 (ucast (snapshot q))
     (raw_bkey_format_add 1 (offset q) (raw_bkey_format_add 0 (inode q) s))"

definition ones_below :: "nat \<Rightarrow> u64" where
  "ones_below bits = NOT (push_bit (bits - 1) (push_bit 1 (NOT 0)))"

definition set_format_field :: "nat \<Rightarrow> nat \<Rightarrow> u64 \<Rightarrow> bkey_format \<Rightarrow> bkey_format" where
  "set_format_field i bits ofs f =
    (let unpacked_bits = bits_per_field bch2_bkey_format_current ! i;
         unpacked_max = ones_below unpacked_bits;
         bits = min bits unpacked_bits;
         ofs = (if bits = unpacked_bits then 0 else min ofs (unpacked_max - (push_bit bits 1 - 1)))
     in f\<lparr>bits_per_field := (bits_per_field f)[i := bits], field_offset := (field_offset f)[i := ofs]\<rparr>)"

text \<open>The two loops of \<^verbatim>\<open>bch2_bkey_format_done\<close>; the second widens fields to whole bytes while there are spare bits.\<close>

definition format_done_field :: "bkey_format_state \<Rightarrow> nat \<Rightarrow> bkey_format \<times> nat \<Rightarrow> bkey_format \<times> nat" where
  "format_done_field s i = (\<lambda>(f, bits).
    (let mn = min (field_min s ! i) (field_max s ! i);
         f = set_format_field i (fls64 (field_max s ! i - mn)) mn f
     in (f, bits + bits_per_field f ! i)))"

definition format_round_field :: "nat \<Rightarrow> bkey_format \<times> nat \<Rightarrow> bkey_format \<times> nat" where
  "format_round_field i = (\<lambda>(f, bits).
    (let b = bits_per_field f ! i; r = (b + 7) div 8 * 8 - b in
     if r \<le> bits then (set_format_field i (b + r) (field_offset f ! i) f, bits - r) else (f, bits)))"

definition bch2_bkey_format_done :: "bkey_format_state \<Rightarrow> bkey_format" where
  "bch2_bkey_format_done s =
    (let f0 = \<lparr>key_u64s = 0, nr_fields = BKEY_NR_FIELDS, bits_per_field = replicate BKEY_NR_FIELDS 0,
           field_offset = replicate BKEY_NR_FIELDS 0\<rparr>;
         (f, bits) = fold (format_done_field s) [0..<BKEY_NR_FIELDS] (f0, KEY_PACKED_BITS_START);
         f = f\<lparr>key_u64s := (bits + 63) div 64\<rparr>
     in fst (fold format_round_field [0..<BKEY_NR_FIELDS] (f, key_u64s f * 64 - bits)))"

definition bch2_bkey_format_field_overflows :: "bkey_format \<Rightarrow> nat \<Rightarrow> bool" where
  "bch2_bkey_format_field_overflows f i =
    (let f_bits = bits_per_field f ! i;
         unpacked_bits = bits_per_field bch2_bkey_format_current ! i;
         unpacked_mask = ones_below unpacked_bits;
         ofs = field_offset f ! i
     in if f_bits > unpacked_bits then True
        else if f_bits = unpacked_bits \<and> ofs \<noteq> 0 then True
        else let f_mask = (if f_bits \<noteq> 0 then NOT (push_bit 1 (push_bit (f_bits - 1) (NOT 0))) else 0)
          in (ofs + f_mask) AND unpacked_mask < ofs)"

fun format_invalid_fields :: "bkey_format \<Rightarrow> nat list \<Rightarrow> nat \<Rightarrow> nat option" where
  "format_invalid_fields f [] bits = Some bits"
| "format_invalid_fields f (i # is) bits =
    (if bch2_bkey_format_field_overflows f i then None else format_invalid_fields f is (bits + bits_per_field f ! i))"

datatype format_error = Incorrect_number_of_fields | Field_too_large | Incorrect_key_u64s

definition bch2_bkey_format_invalid :: "bkey_format \<Rightarrow> format_error option" where
  "bch2_bkey_format_invalid f =
    (if nr_fields f \<noteq> BKEY_NR_FIELDS then Some Incorrect_number_of_fields
     else case format_invalid_fields f [0..<nr_fields f] KEY_PACKED_BITS_START of
       None \<Rightarrow> Some Field_too_large
     | Some bits \<Rightarrow> if key_u64s f \<noteq> (bits + 63) div 64 then Some Incorrect_key_u64s else None)"

section \<open>The bits of a key\<close>

text \<open>The words of a key, in little-endian order, as one number.\<close>

fun num :: "u64 list \<Rightarrow> nat" where
  "num [] = 0"
| "num (w # ws) = unat w + push_bit 64 (num ws)"

lemma num_Cons_parts: "take_bit 64 (num (w # ws)) = unat w" "drop_bit 64 (num (w # ws)) = num ws"
proof -
  have "unat w < 2 ^ 64" using unsigned_less [of w, where ?'a = nat] by simp
  then show "take_bit 64 (num (w # ws)) = unat w" "drop_bit 64 (num (w # ws)) = num ws"
    by (simp_all add: take_bit_eq_mod drop_bit_eq_div push_bit_eq_mult)
qed

lemma bit_num: "bit (num ws) n \<longleftrightarrow> n div 64 < length ws \<and> bit (ws ! (n div 64)) (n mod 64)"
proof (induction ws arbitrary: n)
  case (Cons w ws)
  show ?case
  proof (cases "n < 64")
    case True
    then have "bit (num (w # ws)) n \<longleftrightarrow> bit (take_bit 64 (num (w # ws))) n" by (simp add: bit_take_bit_iff del: num.simps)
    then show ?thesis using True by (simp only: num_Cons_parts) (simp add: bit_unsigned_iff possible_bit_def)
  next
    case False
    then obtain m where m: "n = 64 + m" using le_Suc_ex not_less by blast
    then have "bit (num (w # ws)) n \<longleftrightarrow> bit (drop_bit 64 (num (w # ws))) m" by (simp only: bit_drop_bit_eq o_def)
    then show ?thesis using Cons.IH [of m] unfolding num_Cons_parts
      by (simp only: m) (simp add: div_add_self1)
  qed
qed simp

lemma bit_num_word: "t < 64 \<Longrightarrow> q < length ws \<Longrightarrow> bit (num ws) (64 * q + t) \<longleftrightarrow> bit (ws ! q) t"
  by (simp add: bit_num)

lemma num_less: "num ws < 2 ^ (64 * length ws)"
proof (induction ws)
  case (Cons w ws)
  have "unat w < 2 ^ 64" using unsigned_less [of w, where ?'a = nat] by simp
  moreover have "Suc (num ws) * 2 ^ 64 \<le> 2 ^ (64 * length ws) * 2 ^ 64" by (intro mult_right_mono) (use Cons in auto)
  ultimately show ?case by (simp add: push_bit_eq_mult power_add)
qed simp

text \<open>Field \<open>i\<close> of a format begins \<open>field_lo f i\<close> bits above the lowest bit of the key.\<close>

definition field_lo :: "bkey_format \<Rightarrow> nat \<Rightarrow> nat" where
  "field_lo f i = 64 * key_u64s f - sum_list (take (Suc i) (bits_per_field f))"

definition field_hi :: "bkey_format \<Rightarrow> nat \<Rightarrow> nat" where
  "field_hi f i = 64 * key_u64s f - sum_list (take i (bits_per_field f))"

definition field_val :: "bkey_format \<Rightarrow> bkey_packed \<Rightarrow> nat \<Rightarrow> nat" where
  "field_val f k i = take_bit (bits_per_field f ! i) (drop_bit (field_lo f i) (num k))"

section \<open>Unpacking reads the bits of the fields\<close>

definition unpack_inv :: "unpack_state \<Rightarrow> nat \<Rightarrow> bool" where
  "unpack_inv st r \<longleftrightarrow> 0 < us_bits st \<and> us_bits st \<le> 64 \<and> us_p st < length (us_in st) \<and> r = us_bits st + 64 * us_p st \<and>
    us_w st = push_bit (64 - us_bits st) (us_in st ! us_p st)"

lemma unpack_invD:
  assumes "unpack_inv st r" "t < us_bits st"
  shows "bit (us_w st) (64 - us_bits st + t) \<longleftrightarrow> bit (num (us_in st)) (64 * us_p st + t)"
  using assms by (auto simp: unpack_inv_def bit_push_bit_iff bit_num)

lemma get_next_word_spec:
  assumes "unpack_inv st r" "b \<le> 64" "b < r"
  shows "\<exists>v b' st'. get_next_word st b = Some (v, b', st') \<and> unpack_inv st' (r - (b - b')) \<and> b' \<le> b \<and> b' < us_bits st' \<and>
    us_in st' = us_in st \<and> us_format st' = us_format st \<and> (\<forall>j. bit v j \<longleftrightarrow> b' \<le> j \<and> j < b \<and> bit (num (us_in st)) (r - b + j))"
proof (cases "b \<ge> us_bits st")
  case True
  have i: "0 < us_bits st" "us_bits st \<le> 64" "us_p st < length (us_in st)" "r = us_bits st + 64 * us_p st"
    "us_w st = push_bit (64 - us_bits st) (us_in st ! us_p st)" using assms(1) by (simp_all add: unpack_inv_def)
  have p: "0 < us_p st" using i assms True by (cases "us_p st") auto
  let ?st = "st\<lparr>us_p := us_p st - 1, us_w := us_in st ! (us_p st - 1), us_bits := 64\<rparr>"
  have v: "bit (drop_bit (64 - b) (us_w st)) j \<longleftrightarrow> b - us_bits st \<le> j \<and> j < b \<and> bit (num (us_in st)) (r - b + j)" for j
  proof (cases "b - us_bits st \<le> j \<and> j < b")
    case True
    define t where "t = j - (b - us_bits st)"
    have t: "t < us_bits st" "64 - b + j = 64 - us_bits st + t" "r - b + j = 64 * us_p st + t"
      using True \<open>b \<ge> us_bits st\<close> i assms(2,3) by (auto simp: t_def)
    show ?thesis using unpack_invD [OF assms(1) t(1)] True unfolding bit_drop_bit_eq o_def t(2,3) by simp
  next
    case False
    then show ?thesis using i assms(2) by (auto simp: bit_drop_bit_eq bit_push_bit_iff bit_imp_le_length dest!: bit_imp_le_length)
  qed
  have "unpack_inv ?st (r - us_bits st)" using i p by (auto simp: unpack_inv_def)
  moreover have "b - (b - us_bits st) = us_bits st" "b - us_bits st < 64" using True i assms(2) by auto
  ultimately show ?thesis using True p assms(2) v by (auto simp: get_next_word_def)
next
  case False
  then show ?thesis using assms(1) by (auto simp: get_next_word_def)
qed

lemma get_inc_field_spec:
  assumes "unpack_inv st r" "bits_per_field (us_format st) ! i \<le> 64" "bits_per_field (us_format st) ! i < r"
  shows "\<exists>v st'. get_inc_field st i = Some (v + field_offset (us_format st) ! i, st') \<and> unpack_inv st' (r - bits_per_field (us_format st) ! i) \<and>
    us_in st' = us_in st \<and> us_format st' = us_format st \<and>
    unat v = take_bit (bits_per_field (us_format st) ! i) (drop_bit (r - bits_per_field (us_format st) ! i) (num (us_in st)))"
proof -
  define b where "b = bits_per_field (us_format st) ! i"
  obtain v0 b' st' where g: "get_next_word st b = Some (v0, b', st')" "unpack_inv st' (r - (b - b'))" "b' \<le> b" "b' < us_bits st'"
    "us_in st' = us_in st" "us_format st' = us_format st" "\<And>j. bit v0 j \<longleftrightarrow> b' \<le> j \<and> j < b \<and> bit (num (us_in st)) (r - b + j)"
    using get_next_word_spec [OF assms(1), of b] assms(2,3) unfolding b_def by blast
  have i: "us_bits st' \<le> 64" "us_p st' < length (us_in st')" "r - (b - b') = us_bits st' + 64 * us_p st'"
    "us_w st' = push_bit (64 - us_bits st') (us_in st' ! us_p st')" using g(2) by (simp_all add: unpack_inv_def)
  let ?w = "drop_bit (63 - b') (drop_bit 1 (us_w st'))"
  let ?st = "st'\<lparr>us_w := push_bit b' (us_w st'), us_bits := us_bits st' - b'\<rparr>"
  have w: "bit ?w j \<longleftrightarrow> j < b' \<and> bit (num (us_in st)) (r - b + j)" for j
  proof (cases "j < b'")
    case True
    have "1 + (63 - b' + j) = 64 - us_bits st' + (us_bits st' - b' + j)" using g(4) i(1) by arith
    then have "bit ?w j \<longleftrightarrow> bit (us_w st') (64 - us_bits st' + (us_bits st' - b' + j))"
      by (simp only: bit_drop_bit_eq o_def)
    also have "\<dots> \<longleftrightarrow> bit (num (us_in st')) (64 * us_p st' + (us_bits st' - b' + j))"
      by (rule unpack_invD [OF g(2)]) (use True g(4) in auto)
    also have "64 * us_p st' + (us_bits st' - b' + j) = r - b + j" using i(3) g(3,4) assms(3) b_def by auto
    finally show ?thesis using True g(5) by simp
  qed (use g(4) i(1) in \<open>auto simp: bit_drop_bit_eq dest!: bit_imp_le_length\<close>)
  have vw: "bit (v0 OR ?w) j \<longleftrightarrow> j < b \<and> bit (num (us_in st)) (r - b + j)" for j
    unfolding bit_or_iff w g(7) using g(3) by auto
  have "unat (v0 OR ?w) = take_bit b (drop_bit (r - b) (num (us_in st)))"
    by (rule bit_eqI) (simp only: bit_unsigned_iff vw bit_take_bit_iff bit_drop_bit_eq o_def possible_bit_nat simp_thms)
  moreover have "unpack_inv ?st (r - b)"
    using g(2-4) i assms(3) b_def by (auto simp: unpack_inv_def push_bit_push_bit add.commute [of b' 64])
  moreover have "get_inc_field st i = Some ((v0 OR ?w) + field_offset (us_format st) ! i, ?st)"
    using g(1,4,6) i(1) by (simp add: get_inc_field_def b_def)
  ultimately show ?thesis using g(5,6) unfolding b_def by auto
qed

section \<open>Packing writes the bits of the fields\<close>

text \<open>The key as it would be if packing ended in the given state.\<close>

definition pack_cur :: "pack_state \<Rightarrow> bkey_packed" where
  "pack_cur st = (ps_out st)[ps_p st := ps_w st]"

definition pack_inv :: "pack_state \<Rightarrow> nat \<Rightarrow> bool" where
  "pack_inv st r \<longleftrightarrow> ps_bits st \<le> 64 \<and> ps_p st < length (ps_out st) \<and> r = ps_bits st + 64 * ps_p st \<and>
    (\<forall>t<ps_bits st. \<not> bit (ps_w st) t)"

lemma bit_pack_cur:
  assumes "ps_p st < length (ps_out st)"
  shows "bit (num (pack_cur st)) n \<longleftrightarrow>
    (if n div 64 = ps_p st then bit (ps_w st) (n mod 64) else n div 64 < length (ps_out st) \<and> bit (ps_out st ! (n div 64)) (n mod 64))"
  using assms by (auto simp: bit_num pack_cur_def)

lemma above_word: "64 * p \<le> n \<Longrightarrow> n div 64 \<noteq> p \<Longrightarrow> 64 * p + 64 \<le> (n :: nat)"
proof -
  assume a: "64 * p \<le> n" "n div 64 \<noteq> p"
  have "p \<le> n div 64" using div_le_mono [OF a(1), of 64] by simp
  then have "64 * Suc p \<le> 64 * (n div 64)" using a(2) by (intro mult_le_mono2) simp
  also have "\<dots> \<le> n" by simp
  finally show ?thesis by simp
qed

text \<open>The step to the next word, and the rest of \<^verbatim>\<open>__set_inc_field\<close>.\<close>

definition pack_advance :: "pack_state \<Rightarrow> nat \<Rightarrow> u64 \<Rightarrow> pack_state" where
  "pack_advance st b v = st\<lparr>ps_out := (ps_out st)[ps_p st := ps_w st OR drop_bit (b - 1) (drop_bit 1 v)],
     ps_p := ps_p st - 1, ps_w := 0, ps_bits := 64\<rparr>"

definition pack_put :: "pack_state \<Rightarrow> nat \<Rightarrow> u64 \<Rightarrow> pack_state" where
  "pack_put st b v = st\<lparr>ps_bits := ps_bits st - b, ps_w := ps_w st OR push_bit (ps_bits st - b) v\<rparr>"

definition put_bits :: "pack_state \<Rightarrow> nat \<Rightarrow> nat \<Rightarrow> u64 \<Rightarrow> pack_state \<Rightarrow> bool" where
  "put_bits st r b v st' \<longleftrightarrow> pack_inv st' (r - b) \<and> ps_format st' = ps_format st \<and> length (ps_out st') = length (ps_out st) \<and>
    (\<forall>q<ps_p st'. ps_out st' ! q = ps_out st ! q) \<and> ps_p st' \<le> ps_p st \<and>
    (\<forall>n\<ge>r - b. bit (num (pack_cur st')) n \<longleftrightarrow> (if n < r then bit v (n - (r - b)) else bit (num (pack_cur st)) n))"

lemma pack_put_bits:
  assumes inv: "pack_inv st r" and b: "b \<le> ps_bits st" "\<forall>j\<ge>b. \<not> bit v j"
  shows "put_bits st r b v (pack_put st b v)"
proof -
  have i: "ps_bits st \<le> 64" "ps_p st < length (ps_out st)" "r = ps_bits st + 64 * ps_p st" "\<And>t. t < ps_bits st \<Longrightarrow> \<not> bit (ps_w st) t"
    using inv by (simp_all add: pack_inv_def)
  have "bit (num (pack_cur (pack_put st b v))) n \<longleftrightarrow> (if n < r then bit v (n - (r - b)) else bit (num (pack_cur st)) n)"
    if n: "r - b \<le> n" for n
  proof (cases "n div 64 = ps_p st")
    case True
    define t where "t = n mod 64"
    have nt: "n = 64 * ps_p st + t" "t < 64" using True mult_div_mod_eq [of 64 n] by (simp_all add: t_def)
    have "ps_bits st - b \<le> t" using n b(1) i(3) nt by arith
    then have "bit (push_bit (ps_bits st - b) v) t \<longleftrightarrow> bit v (n - (r - b))"
      using nt i(1,3) b(1) by (simp add: bit_push_bit_iff)
    then have "bit (num (pack_cur (pack_put st b v))) n \<longleftrightarrow> bit (ps_w st) t \<or> bit v (n - (r - b))"
      using i(2) True by (simp add: bit_pack_cur pack_put_def bit_or_iff t_def)
    moreover have "bit (num (pack_cur st)) n \<longleftrightarrow> bit (ps_w st) t" using i(2) True by (simp add: bit_pack_cur t_def)
    moreover have "\<not> bit (ps_w st) t" if "n < r" using that i(3,4) nt by simp
    moreover have "\<not> bit v (n - (r - b))" if "\<not> n < r" using that b i(3) by auto
    ultimately show ?thesis by auto
  next
    case False
    then have "64 * ps_p st + 64 \<le> n" using n b(1) i(3) by (intro above_word) auto
    then have "\<not> n < r" using i(1,3) by simp
    then show ?thesis using False i(2) by (simp add: bit_pack_cur pack_put_def)
  qed
  moreover have "pack_inv (pack_put st b v) (r - b)"
    using i b(1) by (auto simp: pack_inv_def pack_put_def bit_or_iff bit_push_bit_iff)
  ultimately show ?thesis unfolding put_bits_def by (auto simp: pack_put_def)
qed

lemma pack_advance_inv:
  assumes inv: "pack_inv st r" and p: "0 < ps_p st" and b: "0 < b" "b + ps_bits st \<le> 64" "\<forall>j\<ge>b + ps_bits st. \<not> bit v j"
  shows "put_bits st r (ps_bits st) (drop_bit b v) (pack_advance st b v)"
proof -
  have i: "ps_bits st \<le> 64" "ps_p st < length (ps_out st)" "r = ps_bits st + 64 * ps_p st" "\<And>t. t < ps_bits st \<Longrightarrow> \<not> bit (ps_w st) t"
    using inv by (simp_all add: pack_inv_def)
  have dd: "drop_bit (b - 1) (drop_bit 1 v) = drop_bit b v" using b(1) by (simp add: drop_bit_drop_bit)
  have adv: "pack_advance st b v =
      st\<lparr>ps_out := (ps_out st)[ps_p st := ps_w st OR drop_bit b v], ps_p := ps_p st - 1, ps_w := 0, ps_bits := 64\<rparr>"
    by (simp only: pack_advance_def dd)
  have rb: "r - ps_bits st = 64 * ps_p st" using i(3) by simp
  have "bit (num (pack_cur (pack_advance st b v))) n \<longleftrightarrow> (if n < r then bit (drop_bit b v) (n - 64 * ps_p st) else bit (num (pack_cur st)) n)"
    if n: "64 * ps_p st \<le> n" for n
  proof -
    have q: "ps_p st \<le> n div 64" using n div_le_mono [OF n, of 64] by simp
    then have "n div 64 \<noteq> ps_p st - 1" using p by auto
    then have cur: "bit (num (pack_cur (pack_advance st b v))) n \<longleftrightarrow>
        n div 64 < length (ps_out st) \<and> bit ((ps_out st)[ps_p st := ps_w st OR drop_bit b v] ! (n div 64)) (n mod 64)"
      using i(2) p unfolding adv by (subst bit_pack_cur) auto
    show ?thesis
    proof (cases "n div 64 = ps_p st")
      case True
      then have t: "n - 64 * ps_p st = n mod 64" "n = 64 * ps_p st + n mod 64" using mult_div_mod_eq [of 64 n] by simp_all
      have "bit (ps_w st) (n mod 64) \<Longrightarrow> \<not> n < r" using i(3,4) t(2) by (metis add.commute nat_add_left_cancel_less)
      moreover have "bit (drop_bit b v) (n mod 64) \<Longrightarrow> n < r"
        using b(3) i(3) t(2) by (metis add.commute bit_drop_bit_eq comp_apply nat_add_left_cancel_less not_less nat_add_left_cancel_le)
      ultimately show ?thesis unfolding cur t(1) using True i(2) by (auto simp: bit_or_iff bit_pack_cur)
    next
      case False
      then have "64 * ps_p st + 64 \<le> n" by (intro above_word n)
      then have "\<not> n < r" using i(1,3) by simp
      then show ?thesis unfolding cur using False i(2) by (simp add: bit_pack_cur)
    qed
  qed
  moreover have "pack_inv (pack_advance st b v) (64 * ps_p st)" using i p by (cases "ps_p st") (auto simp: pack_inv_def pack_advance_def)
  ultimately show ?thesis unfolding put_bits_def rb using p by (auto simp: pack_advance_def)
qed

lemma put_bits_trans:
  assumes 1: "put_bits st r b1 (drop_bit b2 v) st1" and 2: "put_bits st1 (r - b1) b2 (take_bit b2 v) st2" and b: "b1 + b2 \<le> r"
  shows "put_bits st r (b1 + b2) v st2"
proof -
  have "bit (num (pack_cur st2)) n \<longleftrightarrow> (if n < r then bit v (n - (r - (b1 + b2))) else bit (num (pack_cur st)) n)"
    if n: "r - (b1 + b2) \<le> n" for n
  proof (cases "n < r - b1")
    case True
    then have "n - (r - (b1 + b2)) < b2" using n b by simp
    moreover have "bit (num (pack_cur st2)) n \<longleftrightarrow> bit (take_bit b2 v) (n - (r - b1 - b2))"
      using 2 n True unfolding put_bits_def by auto
    ultimately show ?thesis using True by (auto simp: bit_take_bit_iff)
  next
    case False
    then have "bit (num (pack_cur st2)) n \<longleftrightarrow> bit (num (pack_cur st1)) n" using 2 n unfolding put_bits_def by auto
    also have "\<dots> \<longleftrightarrow> (if n < r then bit (drop_bit b2 v) (n - (r - b1)) else bit (num (pack_cur st)) n)"
      using 1 False unfolding put_bits_def by auto
    moreover have "b2 + (n - (r - b1)) = n - (r - (b1 + b2))" using False b by arith
    ultimately show ?thesis by (simp add: bit_drop_bit_eq)
  qed
  moreover have "ps_out st2 ! q = ps_out st ! q" if "q < ps_p st2" for q
    using 1 2 that unfolding put_bits_def by (metis less_le_trans)
  ultimately show ?thesis using 1 2 unfolding put_bits_def by (auto simp: diff_diff_eq)
qed

lemma raw_set_inc_field_spec:
  assumes inv: "pack_inv st r" and b: "bits_per_field (ps_format st) ! i \<le> 64" "bits_per_field (ps_format st) ! i \<le> r"
    and v: "unat v < 2 ^ (bits_per_field (ps_format st) ! i)"
  shows "\<exists>st'. raw_set_inc_field st i v = Some st' \<and> put_bits st r (bits_per_field (ps_format st) ! i) v st'"
proof -
  define b where "b = bits_per_field (ps_format st) ! i"
  have "take_bit b (unat v) = unat v" using v by (simp add: take_bit_nat_eq_self_iff b_def)
  then have "take_bit b v = v" by (metis unsigned_take_bit_eq word_unat_eq_iff)
  then have high: "\<forall>j\<ge>b. \<not> bit v j" by (metis bit_take_bit_iff not_less)
  have i: "ps_bits st \<le> 64" "ps_p st < length (ps_out st)" "r = ps_bits st + 64 * ps_p st" using inv by (simp_all add: pack_inv_def)
  consider "b = 0" | "0 < b" "b \<le> ps_bits st" | "ps_bits st < b" by linarith
  then show ?thesis
  proof cases
    case 1
    then have "put_bits st r b v st" using inv high by (auto simp: put_bits_def)
    then show ?thesis using 1 by (simp add: raw_set_inc_field_def b_def)
  next
    case 2
    then show ?thesis using pack_put_bits [OF inv 2(2) high] by (simp add: raw_set_inc_field_def pack_put_def b_def Let_def)
  next
    case 3
    define c where "c = b - ps_bits st"
    have c: "0 < c" "c \<le> 64" "c + ps_bits st = b" "ps_bits st + c = b" using 3 assms(2) by (auto simp: c_def b_def)
    have p: "0 < ps_p st" using 3 assms(3) i(3) unfolding b_def by (cases "ps_p st") auto
    let ?st = "pack_advance st c v"
    have 1: "put_bits st r (ps_bits st) (drop_bit c v) ?st"
      by (rule pack_advance_inv [OF inv p c(1)]) (use c assms(2) high in \<open>auto simp: b_def\<close>)
    then have inv1: "pack_inv ?st (r - ps_bits st)" by (simp add: put_bits_def)
    have "put_bits ?st (r - ps_bits st) c (take_bit c v) (pack_put ?st c (take_bit c v))"
      by (rule pack_put_bits [OF inv1]) (use c(2) in \<open>auto simp: pack_advance_def bit_take_bit_iff\<close>)
    then have "put_bits st r b v (pack_put ?st c (take_bit c v))"
      using put_bits_trans [OF 1, of "pack_put ?st c (take_bit c v)"] c(4) assms(3) unfolding b_def by simp
    moreover have "pack_put ?st c (take_bit c v) = pack_put ?st c v"
    proof -
      have "push_bit (64 - c) (take_bit c v) = push_bit (64 - c) v"
        by (rule bit_eqI) (use c(2) in \<open>auto simp: bit_push_bit_iff bit_take_bit_iff\<close>)
      then show ?thesis by (simp add: pack_put_def pack_advance_def)
    qed
    moreover have "raw_set_inc_field st i v = Some (pack_put ?st c v)"
      using 3 p i(2) c(2) by (simp add: raw_set_inc_field_def Let_def b_def c_def pack_put_def pack_advance_def)
    ultimately show ?thesis unfolding b_def by simp
  qed
qed

section \<open>Valid formats\<close>

definition format_ok :: "bkey_format \<Rightarrow> bool" where
  "format_ok f \<longleftrightarrow> nr_fields f = 6 \<and> length (bits_per_field f) = 6 \<and> length (field_offset f) = 6 \<and>
    (\<forall>i<6. unat (field_offset f ! i) + 2 ^ (bits_per_field f ! i) \<le> 2 ^ (bits_per_field bch2_bkey_format_current ! i)) \<and>
    key_u64s f = (24 + sum_list (bits_per_field f) + 63) div 64"

lemma less_6_cases: "(i :: nat) < 6 \<longleftrightarrow> i \<in> {0, 1, 2, 3, 4, 5}"
  by auto

lemma unpacked_bits: "i < 6 \<Longrightarrow> bits_per_field bch2_bkey_format_current ! i \<in> {32, 64}"
  unfolding less_6_cases by (auto simp: bch2_bkey_format_current_def)

lemma format_okD:
  assumes "format_ok f"
  shows "nr_fields f = 6" "length (bits_per_field f) = 6" "length (field_offset f) = 6" "0 < key_u64s f" "key_u64s f \<le> 5"
    "24 + sum_list (bits_per_field f) \<le> 64 * key_u64s f"
    and "\<And>i. i < 6 \<Longrightarrow> bits_per_field f ! i \<le> bits_per_field bch2_bkey_format_current ! i"
    and "\<And>i. i < 6 \<Longrightarrow> unat (field_offset f ! i) + 2 ^ (bits_per_field f ! i) \<le> 2 ^ (bits_per_field bch2_bkey_format_current ! i)"
    and "\<And>i. i < 6 \<Longrightarrow> bits_per_field f ! i \<le> 64"
proof -
  show n: "nr_fields f = 6" "length (bits_per_field f) = 6" "length (field_offset f) = 6" using assms by (simp_all add: format_ok_def)
  show o: "\<And>i. i < 6 \<Longrightarrow> unat (field_offset f ! i) + 2 ^ (bits_per_field f ! i) \<le> 2 ^ (bits_per_field bch2_bkey_format_current ! i)"
    using assms by (simp add: format_ok_def)
  have k: "key_u64s f = (24 + sum_list (bits_per_field f) + 63) div 64" using assms by (simp add: format_ok_def)
  show "0 < key_u64s f" "24 + sum_list (bits_per_field f) \<le> 64 * key_u64s f" unfolding k by simp_all
  show le: "\<And>i. i < 6 \<Longrightarrow> bits_per_field f ! i \<le> bits_per_field bch2_bkey_format_current ! i"
  proof -
    fix i :: nat
    assume "i < 6"
    then have "2 ^ (bits_per_field f ! i) \<le> (2 :: nat) ^ (bits_per_field bch2_bkey_format_current ! i)" using o by (metis add_leE)
    then show "bits_per_field f ! i \<le> bits_per_field bch2_bkey_format_current ! i" by simp
  qed
  show "\<And>i. i < 6 \<Longrightarrow> bits_per_field f ! i \<le> 64" using le unpacked_bits by fastforce
  have "sum_list (bits_per_field f) \<le> sum_list (bits_per_field bch2_bkey_format_current)"
    using n(2) le by (intro sum_list_mono2) (auto simp: bch2_bkey_format_current_def)
  then have "sum_list (bits_per_field f) \<le> 288" by (simp add: bch2_bkey_format_current_def)
  then show "key_u64s f \<le> 5" unfolding k by simp
qed

lemma field_hi_Suc:
  assumes "format_ok f" "i < 6"
  shows "field_hi f i = bits_per_field f ! i + field_hi f (Suc i)" "24 \<le> field_hi f (Suc i)" "field_lo f i = field_hi f (Suc i)"
proof -
  have "sum_list (take (Suc i) (bits_per_field f)) = bits_per_field f ! i + sum_list (take i (bits_per_field f))"
    using assms format_okD(2) [OF assms(1)] by (simp add: take_Suc_conv_app_nth)
  moreover have "sum_list (take (Suc i) (bits_per_field f)) \<le> sum_list (bits_per_field f)"
    by (metis append_take_drop_id le_add1 sum_list_append)
  ultimately show "field_hi f i = bits_per_field f ! i + field_hi f (Suc i)" "24 \<le> field_hi f (Suc i)"
    using format_okD(6) [OF assms(1)] by (simp_all add: field_hi_def)
qed (simp add: field_lo_def field_hi_def)

lemma field_hi_0: "field_hi f 0 = 64 * key_u64s f"
  by (simp add: field_hi_def)

lemma field_hi_antimono: "i \<le> j \<Longrightarrow> field_hi f j \<le> field_hi f i"
proof -
  assume "i \<le> j"
  then have "take j (bits_per_field f) = take i (bits_per_field f) @ take (j - i) (drop i (bits_per_field f))"
    by (metis le_add_diff_inverse take_add)
  then show ?thesis by (simp add: field_hi_def)
qed

lemma field_hi_ge: "format_ok f \<Longrightarrow> i \<le> 6 \<Longrightarrow> 24 \<le> field_hi f i"
  using field_hi_Suc(2) [of f 5] field_hi_antimono [of i 6 f] by simp

section \<open>Sequences of fields\<close>

lemma get_fields_spec:
  assumes "format_ok f" "i \<le> n" "n \<le> 6" "unpack_inv st (field_hi f i)" "us_format st = f"
  shows "\<exists>st'. get_fields st [i..<n] = Some (map (\<lambda>j. word_of_nat (field_val f (us_in st) j) + field_offset f ! j) [i..<n], st')"
  using assms(2-)
proof (induction "n - i" arbitrary: i st)
  case (Suc m)
  then have i: "i < n" "i < 6" by auto
  note h = field_hi_Suc [OF assms(1) i(2)]
  obtain v st' where g: "get_inc_field st i = Some (v + field_offset f ! i, st')" "unpack_inv st' (field_hi f (Suc i))"
    "us_in st' = us_in st" "us_format st' = f" "unat v = field_val f (us_in st) i"
    using get_inc_field_spec [OF Suc.prems(3), of i] format_okD(9) [OF assms(1) i(2)] h Suc.prems(4) unfolding field_val_def by auto
  have v: "v = word_of_nat (field_val f (us_in st) i)" unfolding g(5) [symmetric] by simp
  have "m = n - Suc i" "Suc i \<le> n" using Suc.hyps(2) i by auto
  then obtain st'' where "get_fields st' [Suc i..<n] =
      Some (map (\<lambda>j. word_of_nat (field_val f (us_in st') j) + field_offset f ! j) [Suc i..<n], st'')"
    using Suc.hyps(1) [of "Suc i" st'] Suc.prems(2) g by blast
  then show ?case using i(1) g(1,3) v by (simp add: upt_conv_Cons)
qed simp

definition field_fits :: "bkey_format \<Rightarrow> nat \<Rightarrow> u64 \<Rightarrow> bool" where
  "field_fits f i v \<longleftrightarrow> field_offset f ! i \<le> v \<and> unat v < unat (field_offset f ! i) + 2 ^ (bits_per_field f ! i)"

lemma set_inc_field_fails: "\<not> field_fits (ps_format st) i v \<Longrightarrow> set_inc_field st i v = Some (False, st)"
  by (auto simp: set_inc_field_def field_fits_def Let_def fls64_eq not_le nlen_le_iff unat_sub_if_size word_le_nat_alt not_less
      simp flip: not_le)

lemma set_inc_field_fits:
  assumes "pack_inv st r" "bits_per_field (ps_format st) ! i \<le> 64" "bits_per_field (ps_format st) ! i \<le> r" "field_fits (ps_format st) i v"
  shows "\<exists>st'. set_inc_field st i v = Some (True, st') \<and>
    put_bits st r (bits_per_field (ps_format st) ! i) (v - field_offset (ps_format st) ! i) st'"
proof -
  let ?o = "field_offset (ps_format st) ! i"
  have "?o \<le> v" "unat (v - ?o) < 2 ^ (bits_per_field (ps_format st) ! i)"
    using assms(4) by (auto simp: field_fits_def unat_sub word_le_nat_alt)
  then show ?thesis using raw_set_inc_field_spec [OF assms(1-3), of "v - ?o"]
    by (auto simp: set_inc_field_def Let_def fls64_eq nlen_le_iff not_less simp flip: not_le)
qed

lemma put_bits_field:
  assumes "put_bits st (b + r) b v st'" "b \<le> 64" "unat v < 2 ^ b"
  shows "take_bit b (drop_bit r (num (pack_cur st'))) = unat v"
proof (rule bit_eqI)
  fix n
  have "take_bit b (unat v) = unat v" using assms(3) by (simp add: take_bit_nat_eq_self_iff)
  then have "bit (unat v) n \<longleftrightarrow> n < b \<and> bit v n" by (metis bit_take_bit_iff bit_unsigned_iff possible_bit_nat)
  moreover have "n < b \<Longrightarrow> bit (num (pack_cur st')) (r + n) \<longleftrightarrow> bit v n" using assms(1) by (auto simp: put_bits_def)
  ultimately show "bit (take_bit b (drop_bit r (num (pack_cur st')))) n = bit (unat v) n"
    by (auto simp: bit_take_bit_iff bit_drop_bit_eq)
qed

lemma set_fields_spec:
  assumes "format_ok f" "i \<le> n" "n \<le> 6" "pack_inv st (field_hi f i)" "ps_format st = f" "length vs = n - i"
  shows "if \<forall>j\<in>{i..<n}. field_fits f j (vs ! (j - i))
    then \<exists>st'. set_fields st (zip [i..<n] vs) = Some (True, st') \<and> pack_inv st' (field_hi f n) \<and> ps_format st' = f \<and>
      length (ps_out st') = length (ps_out st) \<and> ps_p st' \<le> ps_p st \<and> (\<forall>q<ps_p st'. ps_out st' ! q = ps_out st ! q) \<and>
      (\<forall>m\<ge>field_hi f i. bit (num (pack_cur st')) m \<longleftrightarrow> bit (num (pack_cur st)) m) \<and>
      (\<forall>j\<in>{i..<n}. field_val f (pack_cur st') j = unat (vs ! (j - i) - field_offset f ! j))
    else \<exists>st'. set_fields st (zip [i..<n] vs) = Some (False, st')"
  using assms(2-)
proof (induction "n - i" arbitrary: i st vs)
  case (Suc m)
  then obtain v vs' where vs: "vs = v # vs'" by (cases vs) auto
  have i: "i < n" "i < 6" "m = n - Suc i" "Suc i \<le> n" using Suc.hyps(2) Suc.prems(2) by auto
  note h = field_hi_Suc [OF assms(1) i(2)] and b = format_okD(9) [OF assms(1) i(2)]
  have all: "(\<forall>j\<in>{i..<n}. field_fits f j (vs ! (j - i))) \<longleftrightarrow>
      field_fits f i v \<and> (\<forall>j\<in>{Suc i..<n}. field_fits f j (vs' ! (j - Suc i)))"
  proof -
    have "{i..<n} = insert i {Suc i..<n}" using i(1) by auto
    moreover have "vs ! (j - i) = vs' ! (j - Suc i)" if "j \<in> {Suc i..<n}" for j using that by (simp add: vs nth_Cons')
    ultimately show ?thesis by (simp add: vs)
  qed
  have zip: "zip [i..<n] vs = (i, v) # zip [Suc i..<n] vs'" unfolding vs using i(1) by (simp add: upt_conv_Cons)
  show ?case
  proof (cases "field_fits f i v")
    case False
    then show ?thesis unfolding all zip using set_inc_field_fails [of st i v] Suc.prems(4) by simp
  next
    case True
    obtain st1 where 1: "set_inc_field st i v = Some (True, st1)" "put_bits st (bits_per_field f ! i + field_hi f (Suc i)) (bits_per_field f ! i) (v - field_offset f ! i) st1"
      using set_inc_field_fits [OF Suc.prems(3), of i v] Suc.prems(4) h b True by auto
    have step: "set_fields st (zip [i..<n] vs) = set_fields st1 (zip [Suc i..<n] vs')" unfolding zip using 1(1) by simp
    have inv1: "pack_inv st1 (field_hi f (Suc i))" "ps_format st1 = f" "length (ps_out st1) = length (ps_out st)" "ps_p st1 \<le> ps_p st"
      "\<forall>q<ps_p st1. ps_out st1 ! q = ps_out st ! q"
      "\<And>m. m \<ge> field_hi f i \<Longrightarrow> bit (num (pack_cur st1)) m \<longleftrightarrow> bit (num (pack_cur st)) m"
      using 1(2) Suc.prems(4) h(1) by (auto simp: put_bits_def)
    have "unat (v - field_offset f ! i) < 2 ^ (bits_per_field f ! i)"
      using True by (auto simp: field_fits_def unat_sub word_le_nat_alt)
    then have v1: "field_val f (pack_cur st1) i = unat (v - field_offset f ! i)"
      using put_bits_field [OF 1(2) b] unfolding field_val_def h(3) by blast
    have "length vs' = n - Suc i" using Suc.prems(5) vs i by simp
    note IH = Suc.hyps(1) [OF i(3,4) Suc.prems(2) inv1(1,2) this]
    show ?thesis
    proof (cases "\<forall>j\<in>{Suc i..<n}. field_fits f j (vs' ! (j - Suc i))")
      case False
      then show ?thesis using IH True unfolding all step by (simp only: if_False simp_thms)
    next
      case all': True
      then obtain st' where st': "set_fields st1 (zip [Suc i..<n] vs') = Some (True, st')" "pack_inv st' (field_hi f n)" "ps_format st' = f"
        "length (ps_out st') = length (ps_out st1)" "ps_p st' \<le> ps_p st1" "\<forall>q<ps_p st'. ps_out st' ! q = ps_out st1 ! q"
        "\<And>m. m \<ge> field_hi f (Suc i) \<Longrightarrow> bit (num (pack_cur st')) m \<longleftrightarrow> bit (num (pack_cur st1)) m"
        "\<And>j. j \<in> {Suc i..<n} \<Longrightarrow> field_val f (pack_cur st') j = unat (vs' ! (j - Suc i) - field_offset f ! j)"
        using IH unfolding if_P [OF all'] by blast
      have "field_val f (pack_cur st') i = field_val f (pack_cur st1) i"
        unfolding field_val_def h(3) by (rule bit_eqI) (auto simp: bit_take_bit_iff bit_drop_bit_eq st'(7))
      then have "field_val f (pack_cur st') j = unat (vs ! (j - i) - field_offset f ! j)" if "j \<in> {i..<n}" for j
        using that v1 st'(8) [of j] by (cases "j = i") (auto simp: vs nth_Cons')
      moreover have "bit (num (pack_cur st')) m \<longleftrightarrow> bit (num (pack_cur st)) m" if "m \<ge> field_hi f i" for m
        using st'(7) [of m] inv1(6) [of m] that h(1) by simp
      moreover have "ps_out st' ! q = ps_out st ! q" if "q < ps_p st'" for q
        using st'(5,6) inv1(5) that by simp
      moreover have "ps_p st' \<le> ps_p st" using st'(5) inv1(4) by simp
      ultimately show ?thesis unfolding all step if_P [OF conjI [OF True all']] using st'(1-4) inv1(3) by auto
    qed
  qed
qed (auto simp: Ball_def)

section \<open>Headers\<close>

lemma bit_kp_header: "bit (kp_header sz fmt nw ty) n \<longleftrightarrow>
    (if n < 8 then bit sz n else if n < 15 then bit fmt (n - 8) else if n = 15 then nw else n < 24 \<and> bit ty (n - 16))"
proof -
  have m: "(0x7f :: u64) = mask 7" by (simp add: mask_eq_exp_minus_1)
  have w: "bit sz n \<Longrightarrow> n < 8" "bit ty (n - 16) \<Longrightarrow> n - 16 < 8" using bit_imp_le_length [of sz n] bit_imp_le_length [of ty "n - 16"] by auto
  have "bit (kp_header sz fmt nw ty) n \<longleftrightarrow> bit sz n \<or> 8 \<le> n \<and> n < 64 \<and> bit fmt (n - 8) \<and> n - 8 < 7 \<or> n = 15 \<and> nw \<or>
      16 \<le> n \<and> n < 64 \<and> bit ty (n - 16)"
    unfolding kp_header_def m using w(1)
    by (auto simp: bit_or_iff bit_push_bit_iff bit_and_iff bit_mask_iff bit_ucast_iff bit_of_nat_iff bit_of_bool_iff possible_bit_def)
  then show ?thesis using w by auto
qed

lemma bit_set_kp_header:
  assumes "0 < length k"
  shows "bit (set_kp_header sz fmt nw ty k ! 0) n \<longleftrightarrow> (if n < 24 then bit (kp_header sz fmt nw ty) n else bit (k ! 0) n)"
proof -
  have "bit (k ! 0) n \<Longrightarrow> n < 64" using bit_imp_le_length [of "k ! 0" n] by simp
  then show ?thesis using assms bit_kp_header [of sz fmt nw ty n]
    by (auto simp: set_kp_header_def bit_or_iff bit_and_iff bit_not_iff bit_mask_iff possible_bit_def)
qed

lemma length_set_kp_header [simp]: "length (set_kp_header sz fmt nw ty k) = length k"
  by (simp add: set_kp_header_def)

lemma kp_set_header:
  assumes "0 < length k"
  shows "kp_u64s (set_kp_header sz fmt nw ty k) = sz" "fmt < 128 \<Longrightarrow> kp_format (set_kp_header sz fmt nw ty k) = fmt"
    "kp_needs_whiteout (set_kp_header sz fmt nw ty k) = nw" "kp_type (set_kp_header sz fmt nw ty k) = ty"
proof -
  note b = bit_set_kp_header [OF assms, of sz fmt nw ty] and h = bit_kp_header [of sz fmt nw ty]
  show "kp_u64s (set_kp_header sz fmt nw ty k) = sz"
    by (rule bit_word_eqI) (simp add: kp_u64s_def bit_ucast_iff b h)
  show "kp_type (set_kp_header sz fmt nw ty k) = ty"
    by (rule bit_word_eqI) (simp add: kp_type_def bit_ucast_iff bit_drop_bit_eq b h)
  show "kp_needs_whiteout (set_kp_header sz fmt nw ty k) = nw" by (simp add: kp_needs_whiteout_def b h)
  have m: "(0x7f :: u64) = mask 7" by (simp add: mask_eq_exp_minus_1)
  assume "fmt < 128"
  then have "take_bit 7 fmt = fmt" by (simp add: take_bit_nat_eq_self_iff)
  then have f: "bit fmt n \<longleftrightarrow> n < 7 \<and> bit fmt n" for n by (metis bit_take_bit_iff)
  show "kp_format (set_kp_header sz fmt nw ty k) = fmt"
    unfolding kp_format_def m
  proof (rule bit_eqI)
    fix n
    show "bit (unat (drop_bit 8 (set_kp_header sz fmt nw ty k ! 0) AND mask 7)) n = bit fmt n"
      using f [of n] by (auto simp: bit_unsigned_iff bit_and_iff bit_drop_bit_eq bit_mask_iff b h possible_bit_def)
  qed
qed

lemma bit_num_set_kp_header:
  assumes "24 \<le> n"
  shows "bit (num (set_kp_header sz fmt nw ty k)) n \<longleftrightarrow> bit (num k) n"
proof (cases "n div 64 = 0 \<and> k \<noteq> []")
  case True
  then have "n mod 64 = n" "n < 64" by (auto simp: div_eq_0_iff)
  then show ?thesis using True assms bit_set_kp_header [of k sz fmt nw ty n] by (auto simp: bit_num)
next
  case False
  then show ?thesis by (cases "k = []") (auto simp: bit_num set_kp_header_def)
qed

lemma field_val_cong:
  assumes "format_ok f" "i < 6" "\<And>n. 24 \<le> n \<Longrightarrow> n < 64 * key_u64s f \<Longrightarrow> bit (num k) n \<longleftrightarrow> bit (num k') n"
  shows "field_val f k i = field_val f k' i"
proof (rule bit_eqI)
  fix n
  note h = field_hi_Suc [OF assms(1,2)]
  have "field_hi f i \<le> 64 * key_u64s f" by (simp add: field_hi_def)
  then show "bit (field_val f k i) n = bit (field_val f k' i) n"
    unfolding field_val_def h(3) using h(1,2) assms(3) [of "field_hi f (Suc i) + n"]
    by (auto simp: bit_take_bit_iff bit_drop_bit_eq)
qed

lemma field_val_set_kp_header:
  "format_ok f \<Longrightarrow> i < 6 \<Longrightarrow> field_val f (set_kp_header sz fmt nw ty k) i = field_val f k i"
  by (rule field_val_cong) (simp_all add: bit_num_set_kp_header)

section \<open>Keys\<close>

lemma unpack_init:
  assumes "format_ok f" "key_u64s f \<le> length k"
  obtains st where "unpack_state_init f k = Some st" "unpack_inv st (field_hi f 0)" "us_format st = f" "us_in st = k"
proof (rule that)
  show "unpack_state_init f k =
      Some \<lparr>us_format = f, us_bits = 64, us_w = k ! high_word_offset f, us_p = high_word_offset f, us_in = k\<rparr>"
    using assms format_okD(4) [OF assms(1)] by (simp add: unpack_state_init_def high_word_offset_def)
qed (use assms format_okD(4) [OF assms(1)] in \<open>auto simp: unpack_inv_def field_hi_0 high_word_offset_def\<close>)

lemma pack_init:
  assumes "format_ok f" "key_u64s f \<le> length k"
  shows "pack_inv (pack_state_init f k) (field_hi f 0)" "ps_format (pack_state_init f k) = f" "ps_out (pack_state_init f k) = k"
  using assms format_okD(4) [OF assms(1)]
  by (auto simp: pack_state_init_def high_word_offset_def pack_inv_def field_hi_0)

text \<open>The value a field stands for, and that it is within the range of the unpacked field.\<close>

definition field_word :: "bkey_format \<Rightarrow> bkey_packed \<Rightarrow> nat \<Rightarrow> u64" where
  "field_word f k i = word_of_nat (field_val f k i) + field_offset f ! i"

lemma unat_field_word:
  assumes "format_ok f" "i < 6"
  shows "unat (field_word f k i) = field_val f k i + unat (field_offset f ! i)"
    "unat (field_word f k i) < 2 ^ (bits_per_field bch2_bkey_format_current ! i)"
proof -
  let ?u = "bits_per_field bch2_bkey_format_current ! i"
  have v: "field_val f k i < 2 ^ (bits_per_field f ! i)" by (simp add: field_val_def)
  have "field_val f k i + unat (field_offset f ! i) < 2 ^ ?u" using v format_okD(8) [OF assms] by linarith
  moreover have "(2 :: nat) ^ ?u \<le> 2 ^ 64" using unpacked_bits [OF assms(2)] by auto
  ultimately have "field_val f k i + unat (field_offset f ! i) < 2 ^ 64" by linarith
  then show "unat (field_word f k i) = field_val f k i + unat (field_offset f ! i)"
    by (simp add: field_word_def unat_word_ariths unat_of_nat)
  then show "unat (field_word f k i) < 2 ^ ?u" using \<open>field_val f k i + unat (field_offset f ! i) < 2 ^ ?u\<close> by simp
qed

lemma ucast_32_64: "unat (w :: u64) < 2 ^ 32 \<Longrightarrow> (ucast (ucast w :: u32) :: u64) = w"
proof -
  assume "unat w < 2 ^ 32"
  then have "take_bit 32 (unat w) = unat w" by (simp add: take_bit_nat_eq_self_iff)
  then have "take_bit 32 w = w" by (metis unsigned_take_bit_eq word_unat_eq_iff)
  moreover have "(ucast (ucast w :: u32) :: u64) = take_bit 32 w"
    by (rule bit_word_eqI) (simp add: bit_ucast_iff bit_take_bit_iff)
  ultimately show ?thesis by simp
qed

lemma unpacked_bits_32: "i \<in> {2, 3, 4} \<Longrightarrow> bits_per_field bch2_bkey_format_current ! i = 32"
  by (auto simp: bch2_bkey_format_current_def)

lemma bkey_fields_eqI: "bkey_fields k = bkey_fields k' \<Longrightarrow> k_u64s k = k_u64s k' \<Longrightarrow> k_format k = k_format k' \<Longrightarrow>
    k_needs_whiteout k = k_needs_whiteout k' \<Longrightarrow> k_type k = k_type k' \<Longrightarrow> k = (k' :: bkey)"
proof -
  have "(ucast (ucast a :: u64) :: u32) = a" for a by (rule bit_word_eqI) (simp add: bit_ucast_iff)
  then have inj: "(ucast a :: u64) = ucast b \<Longrightarrow> a = b" for a b :: u32 by metis
  assume f: "bkey_fields k = bkey_fields k'" and h: "k_u64s k = k_u64s k'" "k_format k = k_format k'"
    "k_needs_whiteout k = k_needs_whiteout k'" "k_type k = k_type k'"
  have "k_p k = k_p k'" by (rule bpos.expand) (use f inj in \<open>simp add: bkey_fields_def\<close>)
  moreover have "k_bversion k = k_bversion k'" by (rule bversion.expand) (use f inj in \<open>simp add: bkey_fields_def\<close>)
  moreover have "k_size k = k_size k'" by (rule inj) (use f in \<open>simp add: bkey_fields_def\<close>)
  ultimately show ?thesis using h by (intro bkey.equality) simp_all
qed

text \<open>A packed key that a format can unpack.\<close>

definition packed_ok :: "bkey_format \<Rightarrow> bkey_packed \<Rightarrow> bool" where
  "packed_ok f k \<longleftrightarrow> key_u64s f \<le> length k \<and> key_u64s f \<le> unat (kp_u64s k) \<and> kp_format k = KEY_FORMAT_LOCAL_BTREE \<and>
    unat (kp_u64s k) + BKEY_U64s \<le> 255 + key_u64s f"

definition unpacked_as :: "bkey_format \<Rightarrow> bkey_packed \<Rightarrow> bkey \<Rightarrow> bool" where
  "unpacked_as f k u \<longleftrightarrow> bkey_fields u = map (field_word f k) [0..<6] \<and>
    k_u64s u = word_of_nat BKEY_U64s + kp_u64s k - word_of_nat (key_u64s f) \<and> k_format u = KEY_FORMAT_CURRENT \<and>
    k_needs_whiteout u = kp_needs_whiteout k \<and> k_type u = kp_type k"

lemma upt_6: "[0..<6] = [0, 1, 2, 3, 4, 5]" "[0..<3] = [0, 1, 2]"
  by (simp_all add: upt_rec)

lemma unpack_key_spec:
  assumes "format_ok f" "packed_ok f k"
  shows "\<exists>u. raw_bch2_bkey_unpack_key f k = Some u \<and> unpacked_as f k u"
proof -
  have len: "key_u64s f \<le> length k" using assms(2) by (simp add: packed_ok_def)
  obtain st where st: "unpack_state_init f k = Some st" "unpack_inv st (field_hi f 0)" "us_format st = f" "us_in st = k"
    by (rule unpack_init [OF assms(1) len])
  obtain st' where "get_fields st [0, 1, 2, 3, 4, 5] = Some (map (field_word f k) [0..<6], st')"
    using get_fields_spec [OF assms(1) _ _ st(2,3), of 6] st(4) unfolding field_word_def upt_6 by auto
  moreover have "(ucast (ucast (field_word f k i) :: u32) :: u64) = field_word f k i" if "i \<in> {2, 3, 4}" for i
    using that unat_field_word(2) [OF assms(1), of i k] unpacked_bits_32 [OF that] by (intro ucast_32_64) auto
  moreover have "unat (kp_u64s k) + BKEY_U64s - key_u64s f \<le> 255" using assms(2) by (auto simp: packed_ok_def)
  ultimately show ?thesis
    using st(1) assms format_okD(1) [OF assms(1)] unfolding raw_bch2_bkey_unpack_key_def
    by (simp add: packed_ok_def BKEY_NR_FIELDS_def unpacked_as_def bkey_fields_def upt_6)
qed

lemma unpack_pos_spec:
  assumes "format_ok f" "key_u64s f \<le> length k" "key_u64s f \<le> unat (kp_u64s k)" "kp_format k = KEY_FORMAT_LOCAL_BTREE"
  shows "raw_bkey_unpack_pos f k = Some (Bpos (field_word f k 0) (field_word f k 1) (ucast (field_word f k 2)))"
proof -
  obtain st where st: "unpack_state_init f k = Some st" "unpack_inv st (field_hi f 0)" "us_format st = f" "us_in st = k"
    by (rule unpack_init [OF assms(1,2)])
  obtain st' where "get_fields st [0, 1, 2] = Some (map (field_word f k) [0..<3], st')"
    using get_fields_spec [OF assms(1) _ _ st(2,3), of 3] st(4) unfolding field_word_def upt_6 by auto
  then show ?thesis using st(1) assms format_okD(1) [OF assms(1)] unfolding raw_bkey_unpack_pos_def
    by (simp add: BKEY_NR_FIELDS_def upt_6)
qed

lemma pack_finish:
  assumes "format_ok f" "pack_inv st r" "ps_format st = f" "ps_p st < key_u64s f"
  shows "pack_state_finish st = Some (pack_cur st)"
  using assms by (auto simp: pack_state_finish_def pack_inv_def pack_cur_def)

text \<open>The fields of a list, packed into a key whose first word is cleared.\<close>

lemma pack_fields_spec:
  assumes "format_ok f" "n \<le> 6" "key_u64s f \<le> length out" "length vs = n"
  shows "if \<forall>i<n. field_fits f i (vs ! i)
    then \<exists>st. set_fields (pack_state_init f out) (zip [0..<n] vs) = Some (True, st) \<and> pack_state_finish st = Some (pack_cur st) \<and>
      length (pack_cur st) = length out \<and> drop (key_u64s f) (pack_cur st) = drop (key_u64s f) out \<and>
      (\<forall>i<n. field_val f (pack_cur st) i = unat (vs ! i - field_offset f ! i)) \<and>
      ((\<forall>q<key_u64s f. out ! q = 0) \<longrightarrow> (\<forall>m<field_hi f n. \<not> bit (num (pack_cur st)) m))
    else \<exists>st. set_fields (pack_state_init f out) (zip [0..<n] vs) = Some (False, st)"
proof (cases "\<forall>i<n. field_fits f i (vs ! i)")
  case True
  let ?st = "pack_state_init f out"
  note i = pack_init [OF assms(1,3)] and k0 = format_okD(4) [OF assms(1)]
  have t: "\<forall>j\<in>{0..<n}. field_fits f j (vs ! (j - 0))" using True by simp
  have "length vs = n - 0" using assms(4) by simp
  note S = set_fields_spec [OF assms(1) le0 assms(2) i(1,2) this, unfolded if_P [OF t]]
  obtain st where st: "set_fields ?st (zip [0..<n] vs) = Some (True, st)" "pack_inv st (field_hi f n)" "ps_format st = f"
      "length (ps_out st) = length (ps_out ?st)" "ps_p st \<le> ps_p ?st" "\<forall>q<ps_p st. ps_out st ! q = ps_out ?st ! q"
      "\<forall>m\<ge>field_hi f 0. bit (num (pack_cur st)) m \<longleftrightarrow> bit (num (pack_cur ?st)) m"
      "\<forall>j\<in>{0..<n}. field_val f (pack_cur st) j = unat (vs ! (j - 0) - field_offset f ! j)"
    using S by blast
  note st = st(1-3) st(4) [unfolded i(3)] st(5) st(6) [unfolded i(3), rule_format] st(7) [rule_format] st(8)
  have vals: "\<forall>j<n. field_val f (pack_cur st) j = unat (vs ! j - field_offset f ! j)"
  proof (intro allI impI)
    fix j
    assume "j < n"
    then show "field_val f (pack_cur st) j = unat (vs ! j - field_offset f ! j)" using bspec [OF st(8), of j] by simp
  qed
  have p: "ps_p st < key_u64s f" using st(5) k0 by (simp add: pack_state_init_def high_word_offset_def)
  have len: "length (pack_cur st) = length out" using st(4) by (simp add: pack_cur_def)
  have "drop (key_u64s f) (pack_cur st) = drop (key_u64s f) out"
  proof (rule nth_equalityI)
    fix q
    assume "q < length (drop (key_u64s f) (pack_cur st))"
    then have q: "key_u64s f + q < length out" using len by simp
    have "pack_cur st ! (key_u64s f + q) = pack_cur ?st ! (key_u64s f + q)"
    proof (rule bit_word_eqI)
      fix t
      assume "t < LENGTH(64)"
      then have t: "t < 64" by simp
      have "bit (num (pack_cur st)) (64 * (key_u64s f + q) + t) \<longleftrightarrow> bit (num (pack_cur ?st)) (64 * (key_u64s f + q) + t)"
        by (rule st(7)) (simp add: field_hi_0)
      then show "bit (pack_cur st ! (key_u64s f + q)) t = bit (pack_cur ?st ! (key_u64s f + q)) t"
        using bit_num_word [OF t, of "key_u64s f + q"] q len by (simp add: pack_cur_def i(3))
    qed
    also have "\<dots> = out ! (key_u64s f + q)" using k0 by (simp add: pack_cur_def pack_state_init_def high_word_offset_def)
    finally show "drop (key_u64s f) (pack_cur st) ! q = drop (key_u64s f) out ! q" using q len by simp
  qed (simp add: len)
  moreover have "\<not> bit (num (pack_cur st)) m" if z: "\<forall>q<key_u64s f. out ! q = 0" and m: "m < field_hi f n" for m
  proof -
    have inv: "ps_bits st \<le> 64" "ps_p st < length (ps_out st)" "field_hi f n = ps_bits st + 64 * ps_p st" "\<And>t. t < ps_bits st \<Longrightarrow> \<not> bit (ps_w st) t"
      using st(2) by (simp_all add: pack_inv_def)
    show ?thesis
    proof (cases "m div 64 = ps_p st")
      case True
      then have "m mod 64 < ps_bits st" using m inv(3) mult_div_mod_eq [of 64 m] by auto
      then show ?thesis using True inv(2,4) by (simp add: bit_pack_cur)
    next
      case False
      then have "m < 64 * ps_p st" using m inv(1,3) above_word [of "ps_p st" m] by (cases "64 * ps_p st \<le> m") auto
      then have "m div 64 < ps_p st" by (simp add: less_mult_imp_div_less mult.commute)
      then show ?thesis using False inv(2) st(6) z p by (simp add: bit_pack_cur)
    qed
  qed
  ultimately show ?thesis unfolding if_P [OF True]
    using st(1) vals pack_finish [OF assms(1) st(2,3) p] len by blast
next
  case False
  then have "\<not> (\<forall>j\<in>{0..<n}. field_fits f j (vs ! (j - 0)))" by auto
  note F = this
  have "length vs = n - 0" using assms(4) by simp
  from set_fields_spec [OF assms(1) le0 assms(2) pack_init(1,2) [OF assms(1,3)] this, unfolded if_not_P [OF F]]
  show ?thesis unfolding if_not_P [OF False] .
qed

text \<open>What a key holds after its fields and its header are written.\<close>

definition pack_result :: "bkey_format \<Rightarrow> bkey_packed \<Rightarrow> u64 list \<Rightarrow> (bool \<times> bkey_packed) option \<Rightarrow> (bkey_packed \<Rightarrow> bool) \<Rightarrow> bool" where
  "pack_result f out vs res hdr \<longleftrightarrow>
    (if \<forall>i<length vs. field_fits f i (vs ! i)
     then \<exists>out'. res = Some (True, out') \<and> length out' = length out \<and> drop (key_u64s f) out' = drop (key_u64s f) out \<and>
       (\<forall>i<length vs. field_word f out' i = vs ! i) \<and> hdr out'
     else \<exists>out'. res = Some (False, out'))"

lemma field_word_fits:
  assumes "field_val f k i = unat (v - field_offset f ! i)"
  shows "field_word f k i = v"
  unfolding field_word_def assms by simp

lemma field_word_set_kp_header:
  "format_ok f \<Longrightarrow> i < 6 \<Longrightarrow> field_word f (set_kp_header sz fmt nw ty k) i = field_word f k i"
  by (simp add: field_word_def field_val_set_kp_header)

lemma drop_set_kp_header: "0 < n \<Longrightarrow> drop n (set_kp_header sz fmt nw ty k) = drop n k"
  by (simp add: set_kp_header_def)

lemma pack_with_header:
  assumes "format_ok f" "length vs = n" "n \<le> 6" "key_u64s f \<le> length out" "\<And>x. fmt x < 128"
  shows "pack_result f out vs
    (case set_fields (pack_state_init f (out[0 := 0])) (zip [0..<n] vs) of
       None \<Rightarrow> None
     | Some (ok, st) \<Rightarrow>
       if \<not> ok then Some (False, ps_out st)
       else case pack_state_finish st of
         None \<Rightarrow> None
       | Some out \<Rightarrow> Some (True, set_kp_header sz (fmt out) nw ty out))
    (\<lambda>k. kp_u64s k = sz \<and> kp_needs_whiteout k = nw \<and> kp_type k = ty \<and> (\<exists>x. kp_format k = fmt x))"
proof (cases "\<forall>i<n. field_fits f i (vs ! i)")
  case True
  note k0 = format_okD(4) [OF assms(1)]
  have len: "key_u64s f \<le> length (out[0 := 0])" using assms(4) by simp
  obtain st where st: "set_fields (pack_state_init f (out[0 := 0])) (zip [0..<n] vs) = Some (True, st)"
      "pack_state_finish st = Some (pack_cur st)" "length (pack_cur st) = length (out[0 := 0])"
      "drop (key_u64s f) (pack_cur st) = drop (key_u64s f) (out[0 := 0])"
      "\<forall>i<n. field_val f (pack_cur st) i = unat (vs ! i - field_offset f ! i)"
    using pack_fields_spec [OF assms(1,3) len assms(2), unfolded if_P [OF True]] by blast
  have ne: "0 < length (pack_cur st)" using st(3) assms(4) k0 by auto
  have w: "field_word f (set_kp_header sz (fmt (pack_cur st)) nw ty (pack_cur st)) i = vs ! i" if "i < n" for i
    using that assms(3) field_word_fits [of f "pack_cur st" i "vs ! i"] st(5) by (simp add: field_word_set_kp_header [OF assms(1)])
  have d: "drop (key_u64s f) (set_kp_header sz (fmt (pack_cur st)) nw ty (pack_cur st)) = drop (key_u64s f) out"
    using st(4) k0 by (simp add: drop_set_kp_header)
  show ?thesis unfolding pack_result_def assms(2) if_P [OF True]
    using st(1-3) w d kp_set_header [OF ne, where sz = sz and fmt = "fmt (pack_cur st)" and nw = nw and ty = ty] assms(5) [of "pack_cur st"] by auto
next
  case False
  have len: "key_u64s f \<le> length (out[0 := 0])" using assms(4) by simp
  obtain st where "set_fields (pack_state_init f (out[0 := 0])) (zip [0..<n] vs) = Some (False, st)"
    using pack_fields_spec [OF assms(1,3) len assms(2), unfolded if_not_P [OF False]] by blast
  then show ?thesis unfolding pack_result_def assms(2) if_not_P [OF False] by simp
qed

lemma length_bkey_fields [simp]: "length (bkey_fields k) = 6"
  by (simp add: bkey_fields_def)

lemma unpack_unique:
  assumes "format_ok f" "packed_ok f out" "map (field_word f out) [0..<6] = bkey_fields k"
    "k_u64s k = word_of_nat BKEY_U64s + kp_u64s out - word_of_nat (key_u64s f)" "k_format k = KEY_FORMAT_CURRENT"
    "kp_needs_whiteout out = k_needs_whiteout k" "kp_type out = k_type k"
  shows "raw_bch2_bkey_unpack_key f out = Some k"
proof -
  obtain u where u: "raw_bch2_bkey_unpack_key f out = Some u" "unpacked_as f out u" using unpack_key_spec [OF assms(1,2)] by blast
  have "u = k" by (rule bkey_fields_eqI) (use u(2) assms in \<open>simp_all add: unpacked_as_def\<close>)
  then show ?thesis using u(1) by simp
qed

lemma packed_u64s:
  assumes "K \<le> 5" "5 \<le> unat (n :: u8)"
  shows "unat (word_of_nat K + n - word_of_nat BKEY_U64s) = K + unat n - 5"
proof -
  have n: "unat n < 256" using unsigned_less [of n, where ?'a = nat] by simp
  have "word_of_nat K + n - word_of_nat BKEY_U64s = (word_of_nat (K + unat n - 5) :: u8)"
    using assms by (simp add: BKEY_U64s_def of_nat_diff)
  moreover have "K + unat n - 5 < 256" using assms n by auto
  ultimately show ?thesis by (simp add: unat_of_nat)
qed

lemma map_upt_eq_iff: "length ys = n \<Longrightarrow> map g [0..<n] = ys \<longleftrightarrow> (\<forall>i<n. g i = ys ! i)"
  by (auto simp: list_eq_iff_nth_eq)

lemma pack_key_spec:
  assumes "format_ok f" "k_format k = KEY_FORMAT_CURRENT" "BKEY_U64s \<le> unat (k_u64s k)" "key_u64s f \<le> length out"
  shows "pack_result f out (bkey_fields k) (bch2_bkey_pack_key out k f)
    (\<lambda>k'. packed_ok f k' \<and> raw_bch2_bkey_unpack_key f k' = Some k)"
proof -
  note k = format_okD(4,5) [OF assms(1)]
  let ?sz = "word_of_nat (key_u64s f) + k_u64s k - word_of_nat BKEY_U64s"
  have ne: "out \<noteq> []" using assms(4) k(1) by auto
  have u: "unat ?sz = key_u64s f + unat (k_u64s k) - 5"
    by (rule packed_u64s [OF k(2)]) (use assms(3) in \<open>simp add: BKEY_U64s_def\<close>)
  have lt: "unat (k_u64s k) < 256" using unsigned_less [of "k_u64s k", where ?'a = nat] by simp
  have R: "pack_result f out (bkey_fields k) (bch2_bkey_pack_key out k f)
      (\<lambda>k'. kp_u64s k' = ?sz \<and> kp_needs_whiteout k' = k_needs_whiteout k \<and> kp_type k' = k_type k \<and> (\<exists>x::bkey_packed. kp_format k' = KEY_FORMAT_LOCAL_BTREE))"
    using pack_with_header [OF assms(1) length_bkey_fields [of k] order_refl assms(4), of "\<lambda>_. KEY_FORMAT_LOCAL_BTREE" ?sz "k_needs_whiteout k" "k_type k"]
      ne assms(2) format_okD(1) [OF assms(1)]
    unfolding bch2_bkey_pack_key_def upt_6 by (simp add: BKEY_NR_FIELDS_def KEY_FORMAT_LOCAL_BTREE_def)
  have "packed_ok f out' \<and> raw_bch2_bkey_unpack_key f out' = Some k"
    if o: "length out' = length out" "\<forall>i<6. field_word f out' i = bkey_fields k ! i" "kp_u64s out' = ?sz"
      "kp_needs_whiteout out' = k_needs_whiteout k" "kp_type out' = k_type k" "kp_format out' = KEY_FORMAT_LOCAL_BTREE" for out'
  proof
    show ok: "packed_ok f out'" using o assms(3,4) u lt by (auto simp: packed_ok_def BKEY_U64s_def)
    show "raw_bch2_bkey_unpack_key f out' = Some k"
      by (rule unpack_unique [OF assms(1) ok]) (use o assms(2) in \<open>simp_all add: map_upt_eq_iff\<close>)
  qed
  then show ?thesis using R unfolding pack_result_def by (auto split: if_splits)
qed

section \<open>Transformation of one format into another\<close>

lemma transform_fields_eq:
  assumes "format_ok in_f" "i \<le> 6" "unpack_inv in_s (field_hi in_f i)" "us_format in_s = in_f" "us_in in_s = k"
  shows "transform_fields out_s in_s [i..<6] = set_fields out_s (zip [i..<6] (map (field_word in_f k) [i..<6]))"
  using assms(2-)
proof (induction "6 - i" arbitrary: i in_s out_s)
  case (Suc m)
  then have i: "i < 6" "m = 6 - Suc i" "Suc i \<le> 6" by auto
  note h = field_hi_Suc [OF assms(1) i(1)]
  obtain v st' where g: "get_inc_field in_s i = Some (v + field_offset in_f ! i, st')" "unpack_inv st' (field_hi in_f (Suc i))"
    "us_in st' = k" "us_format st' = in_f" "unat v = field_val in_f k i"
    using get_inc_field_spec [OF Suc.prems(2), of i] format_okD(9) [OF assms(1) i(1)] h Suc.prems(3,4) unfolding field_val_def by auto
  have v: "v + field_offset in_f ! i = field_word in_f k i" unfolding field_word_def g(5) [symmetric] by simp
  show ?case using i(1) g(1) v Suc.hyps(1) [OF i(2,3) g(2,4,3)]
    by (simp add: upt_conv_Cons split: option.splits)
qed simp

lemma kp_format_less: "kp_format k < 128"
proof -
  have "(0x7f :: u64) = mask 7" by (simp add: mask_eq_exp_minus_1)
  then have "kp_format k = unat (drop_bit 8 (k ! 0)) mod 2 ^ 7" unfolding kp_format_def by (simp only: unat_mask_and)
  then show ?thesis by simp
qed

lemma fields_result_format:
  assumes "format_ok f" "key_u64s f \<le> length out" "length vs = 6"
    "set_fields (pack_state_init f (out[0 := 0])) (zip [0..<6] vs) = Some (True, st)" "pack_state_finish st = Some out'"
  shows "kp_format out' = 0"
proof -
  have len: "key_u64s f \<le> length (out[0 := 0])" using assms(2) by simp
  note i = pack_init [OF assms(1) len]
  have vs: "length vs = 6 - 0" using assms(3) by simp
  have F: "\<forall>j\<in>{0..<6}. field_fits f j (vs ! (j - 0))"
  proof (rule ccontr)
    assume F: "\<not> (\<forall>j\<in>{0..<6}. field_fits f j (vs ! (j - 0)))"
    then show False using set_fields_spec [OF assms(1) le0 order_refl i(1,2) vs, unfolded if_not_P [OF F]] assms(4) by simp
  qed
  have st: "pack_inv st (field_hi f 6)" "\<forall>q<ps_p st. ps_out st ! q = ps_out (pack_state_init f (out[0 := 0])) ! q"
    using set_fields_spec [OF assms(1) le0 order_refl i(1,2) vs, unfolded if_P [OF F]] assms(4) by auto
  have inv: "ps_bits st \<le> 64" "ps_p st < length (ps_out st)" "field_hi f 6 = ps_bits st + 64 * ps_p st" "\<forall>t<ps_bits st. \<not> bit (ps_w st) t"
    using st(1) by (simp_all add: pack_inv_def)
  have out': "out' = pack_cur st" using assms(5) by (auto simp: pack_state_finish_def pack_cur_def split: if_splits)
  have z: "\<not> bit (out' ! 0) n" if "n < 24" for n
  proof (cases "ps_p st = 0")
    case True
    then show ?thesis using inv field_hi_ge [OF assms(1) order_refl] that by (simp add: out' pack_cur_def)
  next
    case False
    moreover have "0 < length out" using assms(2) format_okD(4) [OF assms(1)] by linarith
    ultimately have "out' ! 0 = 0" using st(2) i(3) by (simp add: out' pack_cur_def)
    then show ?thesis by simp
  qed
  have m: "(0x7f :: u64) = mask 7" by (simp add: mask_eq_exp_minus_1)
  have "drop_bit 8 (out' ! 0) AND mask 7 = 0"
    by (rule bit_word_eqI) (auto simp: bit_and_iff bit_drop_bit_eq bit_mask_iff z)
  then show ?thesis by (simp add: kp_format_def m)
qed

lemma transform_spec:
  assumes "format_ok in_f" "format_ok out_f" "packed_ok in_f k" "unat (kp_u64s k) \<le> length k"
    and "unat (kp_u64s k) + key_u64s out_f \<le> length out + key_u64s in_f"
    and u: "raw_bch2_bkey_unpack_key in_f k = Some u"
  shows "if \<forall>i<6. field_fits out_f i (bkey_fields u ! i)
    then \<exists>out'. bch2_bkey_transform out_f out in_f k = Some (True, out') \<and> raw_bch2_bkey_unpack_key out_f out' = Some u \<and>
      take (unat (kp_u64s k) - key_u64s in_f) (drop (key_u64s out_f) out') = take (unat (kp_u64s k) - key_u64s in_f) (drop (key_u64s in_f) k)
    else \<exists>out'. bch2_bkey_transform out_f out in_f k = Some (False, out')"
proof -
  note ki = format_okD(4,5) [OF assms(1)] and ko = format_okD(4,5) [OF assms(2)]
  have p: "key_u64s in_f \<le> length k" "key_u64s in_f \<le> unat (kp_u64s k)" "unat (kp_u64s k) + 5 \<le> 255 + key_u64s in_f"
    using assms(3) by (simp_all add: packed_ok_def BKEY_U64s_def)
  have lo: "key_u64s out_f \<le> length out" using assms(5) p(2) by linarith
  have ne: "out \<noteq> []" using lo ko(1) by auto
  obtain u' where "raw_bch2_bkey_unpack_key in_f k = Some u'" "unpacked_as in_f k u'" using unpack_key_spec [OF assms(1,3)] by blast
  then have ua: "bkey_fields u = map (field_word in_f k) [0..<6]"
    "k_u64s u = word_of_nat BKEY_U64s + kp_u64s k - word_of_nat (key_u64s in_f)" "k_format u = KEY_FORMAT_CURRENT"
    "k_needs_whiteout u = kp_needs_whiteout k" "k_type u = kp_type k" using u by (simp_all add: unpacked_as_def)
  obtain in_s where s: "unpack_state_init in_f k = Some in_s" "unpack_inv in_s (field_hi in_f 0)" "us_format in_s = in_f" "us_in in_s = k"
    by (rule unpack_init [OF assms(1) p(1)])
  define vs where "vs = map (field_word in_f k) [0..<6]"
  let ?S = "set_fields (pack_state_init out_f (out[0 := 0])) (zip [0..<6] vs)"
  let ?sz = "word_of_nat (key_u64s out_f) + kp_u64s k - word_of_nat (key_u64s in_f)"
  have T: "transform_fields (pack_state_init out_f (out[0 := 0])) in_s [0..<BKEY_NR_FIELDS] = ?S"
    using transform_fields_eq [OF assms(1) le0 s(2-4)] by (simp add: BKEY_NR_FIELDS_def vs_def)
  have vs6: "length vs = 6" by (simp add: vs_def)
  have vsu: "vs = bkey_fields u" by (simp add: vs_def ua(1))
  have K: "bch2_bkey_transform_key out_f out in_f k =
      (case ?S of None \<Rightarrow> None | Some (ok, st) \<Rightarrow> if \<not> ok then Some (False, ps_out st)
       else case pack_state_finish st of None \<Rightarrow> None
         | Some out \<Rightarrow> Some (True, set_kp_header ?sz (kp_format out) (kp_needs_whiteout k) (kp_type k) out))"
  proof -
    have c: "(unat (kp_u64s k) < key_u64s in_f \<or> unat (kp_u64s k) - key_u64s in_f + key_u64s out_f > 255) = False" using p ko(2) by auto
    show ?thesis unfolding bch2_bkey_transform_key_def s(1) option.case T c if_False using ne by (simp only: if_False)
  qed
  have R: "pack_result out_f out vs (bch2_bkey_transform_key out_f out in_f k)
      (\<lambda>k'. kp_u64s k' = ?sz \<and> kp_needs_whiteout k' = kp_needs_whiteout k \<and> kp_type k' = kp_type k \<and> (\<exists>x. kp_format k' = kp_format x))"
    unfolding K by (rule pack_with_header [OF assms(2) vs6 order_refl lo kp_format_less])
  show ?thesis
  proof (cases "\<forall>i<6. field_fits out_f i (bkey_fields u ! i)")
    case False
    then have "\<not> (\<forall>i<length vs. field_fits out_f i (vs ! i))" by (simp only: vsu length_bkey_fields simp_thms)
    from R [unfolded pack_result_def if_not_P [OF this]] show ?thesis unfolding if_not_P [OF False] bch2_bkey_transform_def by auto
  next
    case True
    then have F: "\<forall>i<length vs. field_fits out_f i (vs ! i)" by (simp only: vsu length_bkey_fields simp_thms)
    obtain o1 where o1: "bch2_bkey_transform_key out_f out in_f k = Some (True, o1)" "length o1 = length out"
      "\<forall>i<6. field_word out_f o1 i = vs ! i" "kp_u64s o1 = ?sz" "kp_needs_whiteout o1 = kp_needs_whiteout k" "kp_type o1 = kp_type k"
      using R [unfolded pack_result_def if_P [OF F]] vs6 by auto
    have fmt: "kp_format o1 = 0"
    proof -
      obtain st where st: "?S = Some (True, st)" using o1(1) unfolding K by (auto split: option.splits if_splits)
      then obtain o2 where o2: "pack_state_finish st = Some o2" "o1 = set_kp_header ?sz (kp_format o2) (kp_needs_whiteout k) (kp_type k) o2"
        using o1(1) unfolding K by (auto split: option.splits)
      have "kp_format o2 = 0" by (rule fields_result_format [OF assms(2) lo vs6 st o2(1)])
      moreover have "0 < length o2" using o1(2) o2(2) ne by auto
      ultimately show ?thesis unfolding o2(2) by (simp add: kp_set_header)
    qed
    define n where "n = unat (kp_u64s k) - key_u64s in_f"
    define vals where "vals = take n (drop (key_u64s in_f) k)"
    define o2 where "o2 = take (key_u64s out_f) o1 @ vals @ drop (key_u64s out_f + n) o1"
    have lv: "length vals = n" using assms(4) p by (simp add: vals_def n_def)
    have fit: "key_u64s out_f + n \<le> length o1" using assms(5) p(2) o1(2) by (simp add: n_def)
    have tr: "bch2_bkey_transform out_f out in_f k = Some (True, o2)"
      using o1(1) assms(4) p lv fit
      by (simp add: bch2_bkey_transform_def mem_read_def mem_write_def n_def vals_def o2_def)
    have same: "take (key_u64s out_f) o2 = take (key_u64s out_f) o1" using fit by (simp add: o2_def)
    then have w: "o2 ! q = o1 ! q" if "q < key_u64s out_f" for q using that by (metis nth_take)
    have l2: "length o2 = length o1" using fit lv by (simp add: o2_def)
    have fw: "field_word out_f o2 i = vs ! i" if "i < 6" for i
    proof -
      have "field_val out_f o2 i = field_val out_f o1 i"
        by (rule field_val_cong [OF assms(2) that]) (use w l2 in \<open>auto simp: bit_num less_mult_imp_div_less mult.commute\<close>)
      then show ?thesis using o1(3) that by (simp add: field_word_def)
    qed
    have hd: "o2 ! 0 = o1 ! 0" using w ko(1) by blast
    then have h2: "kp_u64s o2 = ?sz" "kp_format o2 = 0" "kp_needs_whiteout o2 = kp_needs_whiteout k" "kp_type o2 = kp_type k"
      using o1(4-6) fmt by (simp_all add: kp_u64s_def kp_format_def kp_needs_whiteout_def kp_type_def)
    have usz: "unat ?sz = key_u64s out_f + n"
    proof -
      have e: "?sz = word_of_nat (key_u64s out_f + n)" using p(2) by (simp add: n_def of_nat_diff)
      have "key_u64s out_f + n < 256" using p ko(2) by (simp add: n_def)
      then show ?thesis unfolding e by (simp add: unat_of_nat del: of_nat_add)
    qed
    have ok2: "packed_ok out_f o2" using h2 usz l2 o1(2) lo p by (auto simp: packed_ok_def KEY_FORMAT_LOCAL_BTREE_def BKEY_U64s_def n_def)
    have "raw_bch2_bkey_unpack_key out_f o2 = Some u"
      by (rule unpack_unique [OF assms(2) ok2]) (use fw ua h2 in \<open>simp_all add: vs_def\<close>)
    moreover have "take n (drop (key_u64s out_f) o2) = vals" using fit lv by (simp add: o2_def)
    ultimately show ?thesis unfolding if_P [OF True] using tr by (simp add: n_def vals_def)
  qed
qed

section \<open>Validation of formats\<close>

lemma ones_below_mask: "0 < b \<Longrightarrow> b \<le> 64 \<Longrightarrow> ones_below b = mask b"
  by (rule bit_word_eqI) (auto simp: ones_below_def bit_not_iff bit_push_bit_iff bit_mask_iff possible_bit_def)

lemma f_mask_mask: "0 < b \<Longrightarrow> b \<le> 64 \<Longrightarrow> NOT (push_bit 1 (push_bit (b - 1) (NOT 0))) = (mask b :: u64)"
proof -
  assume "0 < b" "b \<le> 64"
  then have "push_bit 1 (push_bit (b - 1) (NOT 0)) = push_bit b (NOT 0 :: u64)" unfolding push_bit_push_bit by simp
  then show ?thesis by (simp only:) simp
qed

lemma add_mod_less_iff:
  assumes "c < (m :: nat)"
  shows "(x + c) mod m < x \<longleftrightarrow> m \<le> x + c"
proof
  assume "m \<le> x + c"
  show "(x + c) mod m < x"
  proof (cases "m \<le> x")
    case True
    then show ?thesis using assms mod_less_divisor [of m "x + c"] by linarith
  next
    case False
    then have "(x + c) mod m = x + c - m" using \<open>m \<le> x + c\<close> assms by (simp add: mod_if)
    then show ?thesis using assms \<open>m \<le> x + c\<close> by linarith
  qed
next
  assume "(x + c) mod m < x"
  then show "m \<le> x + c" by (metis leI le_add1 mod_less not_less)
qed

lemma field_overflows_iff:
  assumes "i < 6"
  shows "bch2_bkey_format_field_overflows f i \<longleftrightarrow>
    \<not> unat (field_offset f ! i) + 2 ^ (bits_per_field f ! i) \<le> 2 ^ (bits_per_field bch2_bkey_format_current ! i)"
proof -
  define b u x where "b = bits_per_field f ! i" and "u = bits_per_field bch2_bkey_format_current ! i" and "x = field_offset f ! i"
  have u: "u = 32 \<or> u = 64" using unpacked_bits [OF assms] by (auto simp: u_def)
  have um: "ones_below u = mask u" using u by (intro ones_below_mask) auto
  define m :: u64 where "m = (if b \<noteq> 0 then NOT (push_bit 1 (push_bit (b - 1) (NOT 0))) else 0)"
  have D: "bch2_bkey_format_field_overflows f i \<longleftrightarrow> b > u \<or> b = u \<and> x \<noteq> 0 \<or> (x + m) AND mask u < x"
    unfolding bch2_bkey_format_field_overflows_def Let_def b_def [symmetric] u_def [symmetric] x_def [symmetric] um m_def by auto
  consider "b > u" | "b = u" | "b < u" by linarith
  then have "(b > u \<or> b = u \<and> x \<noteq> 0 \<or> (x + m) AND mask u < x) \<longleftrightarrow> \<not> unat x + 2 ^ b \<le> 2 ^ u"
  proof cases
    case 1
    then have "(2 :: nat) ^ u < 2 ^ b" by simp
    then show ?thesis using 1 by linarith
  next
    case 2
    have "x = 0 \<longleftrightarrow> unat x = 0" by (simp add: unat_eq_0)
    then show ?thesis using 2 by auto
  next
    case 3
    have mm: "m = mask b" using 3 u f_mask_mask [of b] by (cases "b = 0") (auto simp: m_def)
    have um': "unat m = 2 ^ b - 1" unfolding mm using 3 u by (subst unat_mask) auto
    have d: "(2 :: nat) ^ u dvd 2 ^ 64" using u by (auto intro: le_imp_power_dvd)
    have "unat ((x + m) AND mask u) = (unat x + (2 ^ b - 1)) mod 2 ^ u"
      unfolding unat_mask_and unat_word_ariths um' using d by (simp add: mod_mod_cancel)
    moreover have "(2 :: nat) ^ b - 1 < 2 ^ u" using 3 by (meson diff_le_self le_less_trans power_strict_increasing one_less_numeral_iff semiring_norm(76))
    moreover have "(1 :: nat) \<le> 2 ^ b" by simp
    ultimately have "(x + m) AND mask u < x \<longleftrightarrow> \<not> unat x + 2 ^ b \<le> 2 ^ u"
      unfolding word_less_nat_alt using add_mod_less_iff [of "2 ^ b - 1" "2 ^ u" "unat x"] 3 by auto
    then show ?thesis using 3 by auto
  qed
  then show ?thesis unfolding D b_def u_def x_def .
qed

lemma format_invalid_fields_spec:
  "format_invalid_fields f is bits =
    (if \<forall>i\<in>set is. \<not> bch2_bkey_format_field_overflows f i then Some (bits + (\<Sum>i\<leftarrow>is. bits_per_field f ! i)) else None)"
  by (induction "is" arbitrary: bits) auto

lemma sum_list_6: "length xs = 6 \<Longrightarrow> (\<Sum>i\<leftarrow>[0..<6]. xs ! i) = sum_list xs" for xs :: "nat list"
  by (metis map_nth)

lemma format_invalid_iff:
  assumes "length (bits_per_field f) = 6" "length (field_offset f) = 6"
  shows "bch2_bkey_format_invalid f = None \<longleftrightarrow> format_ok f"
  using assms sum_list_6 [OF assms(1)]
  by (auto simp: bch2_bkey_format_invalid_def format_invalid_fields_spec format_ok_def BKEY_NR_FIELDS_def
      KEY_PACKED_BITS_START_def field_overflows_iff)

section \<open>Construction of formats\<close>

lemma set_format_field_spec:
  assumes "i < 6" "length (bits_per_field f) = 6" "length (field_offset f) = 6"
  shows "bits_per_field (set_format_field i b x f) ! i = min b (bits_per_field bch2_bkey_format_current ! i)"
    "unat (field_offset (set_format_field i b x f) ! i) + 2 ^ (min b (bits_per_field bch2_bkey_format_current ! i))
       \<le> 2 ^ (bits_per_field bch2_bkey_format_current ! i)"
    "\<And>v. unat v < 2 ^ (bits_per_field bch2_bkey_format_current ! i) \<Longrightarrow> x \<le> v \<Longrightarrow> unat v < unat x + 2 ^ b \<Longrightarrow>
       field_fits (set_format_field i b x f) i v"
proof -
  define u where "u = bits_per_field bch2_bkey_format_current ! i"
  have u: "u = 32 \<or> u = 64" using unpacked_bits [OF assms(1)] by (auto simp: u_def)
  have um: "ones_below u = mask u" using u by (intro ones_below_mask) auto
  define y where "y = (if min b u = u then 0 else min x (mask u - (push_bit (min b u) 1 - 1)))"
  have f': "set_format_field i b x f = f\<lparr>bits_per_field := (bits_per_field f)[i := min b u], field_offset := (field_offset f)[i := y]\<rparr>"
    unfolding set_format_field_def Let_def u_def [symmetric] um y_def by simp
  have y: "unat y = (if b < u then min (unat x) (2 ^ u - 2 ^ b) else 0)"
  proof (cases "b < u")
    case True
    have pb: "push_bit b (1 :: u64) - 1 = mask b" by (simp add: mask_eq_exp_minus_1 push_bit_eq_mult)
    have p: "unat (push_bit b (1 :: u64) - 1) = 2 ^ b - 1" unfolding pb using True u by (subst unat_mask) auto
    have mu: "unat (mask u :: u64) = 2 ^ u - 1" using u by (subst unat_mask) auto
    have lt: "(2 :: nat) ^ b < 2 ^ u" using True by simp
    have le: "push_bit b 1 - 1 \<le> (mask u :: u64)" unfolding word_le_nat_alt p mu using lt by (intro diff_le_mono) simp
    have "(1 :: nat) \<le> 2 ^ b" by simp
    then have "unat (mask u - (push_bit b 1 - 1) :: u64) = 2 ^ u - 2 ^ b" unfolding unat_sub [OF le] p mu using lt by linarith
    then show ?thesis using True by (simp add: y_def min_def word_le_nat_alt)
  next
    case False
    then show ?thesis by (simp add: y_def min_def)
  qed
  show "bits_per_field (set_format_field i b x f) ! i = min b (bits_per_field bch2_bkey_format_current ! i)"
    unfolding f' using assms by (simp add: u_def)
  have lt: "b < u \<Longrightarrow> (2 :: nat) ^ b \<le> 2 ^ u" by simp
  show "unat (field_offset (set_format_field i b x f) ! i) + 2 ^ (min b (bits_per_field bch2_bkey_format_current ! i))
       \<le> 2 ^ (bits_per_field bch2_bkey_format_current ! i)"
  proof (cases "b < u")
    case True
    have "min (unat x) (2 ^ u - 2 ^ b) \<le> 2 ^ u - 2 ^ b" by simp
    then have "min (unat x) (2 ^ u - 2 ^ b) + 2 ^ b \<le> 2 ^ u" using lt [OF True] by linarith
    then show ?thesis unfolding f' u_def [symmetric] using assms True by (simp add: y)
  qed (use assms in \<open>simp add: f' y u_def [symmetric]\<close>)
  fix v :: u64
  assume "unat v < 2 ^ (bits_per_field bch2_bkey_format_current ! i)" "x \<le> v" "unat v < unat x + 2 ^ b"
  then show "field_fits (set_format_field i b x f) i v"
    unfolding f' field_fits_def u_def [symmetric] using assms lt by (cases "b < u") (auto simp: y word_le_nat_alt)
qed

lemma set_format_field_other:
  "j \<noteq> i \<Longrightarrow> bits_per_field (set_format_field i b x f) ! j = bits_per_field f ! j"
  "j \<noteq> i \<Longrightarrow> field_offset (set_format_field i b x f) ! j = field_offset f ! j"
  "length (bits_per_field (set_format_field i b x f)) = length (bits_per_field f)"
  "length (field_offset (set_format_field i b x f)) = length (field_offset f)"
  "nr_fields (set_format_field i b x f) = nr_fields f" "key_u64s (set_format_field i b x f) = key_u64s f"
  by (simp_all add: set_format_field_def Let_def)

text \<open>The fields of the range \<open>[mn, mx]\<close> fit a format.\<close>

definition covers :: "bkey_format_state \<Rightarrow> nat \<Rightarrow> bkey_format \<Rightarrow> bool" where
  "covers s i f \<longleftrightarrow> (\<forall>v. unat v < 2 ^ (bits_per_field bch2_bkey_format_current ! i) \<longrightarrow>
    min (field_min s ! i) (field_max s ! i) \<le> v \<longrightarrow> v \<le> field_max s ! i \<longrightarrow> field_fits f i v)"

definition field_in_range :: "bkey_format \<Rightarrow> nat \<Rightarrow> bool" where
  "field_in_range f i \<longleftrightarrow>
    unat (field_offset f ! i) + 2 ^ (bits_per_field f ! i) \<le> 2 ^ (bits_per_field bch2_bkey_format_current ! i)"

definition done_inv :: "bkey_format_state \<Rightarrow> nat \<Rightarrow> bkey_format \<Rightarrow> bool" where
  "done_inv s n f \<longleftrightarrow> nr_fields f = 6 \<and> length (bits_per_field f) = 6 \<and> length (field_offset f) = 6 \<and>
    (\<forall>i<n. covers s i f \<and> field_in_range f i)"

lemma covers_other: "j \<noteq> i \<Longrightarrow> covers s j (set_format_field i b x f) = covers s j f"
  "j \<noteq> i \<Longrightarrow> field_in_range (set_format_field i b x f) j = field_in_range f j"
  by (simp_all add: covers_def field_fits_def field_in_range_def set_format_field_other)

lemma format_done_field_inv:
  assumes "done_inv s i f" "i < 6" "bits_per_field f ! i = 0" "bits = 24 + sum_list (bits_per_field f)"
    "format_done_field s i (f, bits) = (f', bits')"
  shows "done_inv s (Suc i) f' \<and> bits' = 24 + sum_list (bits_per_field f') \<and> key_u64s f' = key_u64s f \<and>
    (\<forall>j>i. bits_per_field f' ! j = bits_per_field f ! j)"
proof -
  define mn where "mn = min (field_min s ! i) (field_max s ! i)"
  define b where "b = fls64 (field_max s ! i - mn)"
  have f': "f' = set_format_field i b mn f" "bits' = bits + bits_per_field f' ! i"
    using assms(5) by (auto simp: format_done_field_def Let_def mn_def b_def)
  have l: "length (bits_per_field f) = 6" "length (field_offset f) = 6" using assms(1) by (simp_all add: done_inv_def)
  note S = set_format_field_spec [OF assms(2) l, where b = b and x = mn] and O = set_format_field_other
  have "covers s i f'"
    unfolding covers_def
  proof (intro allI impI)
    fix v
    assume v: "unat v < 2 ^ (bits_per_field bch2_bkey_format_current ! i)" "min (field_min s ! i) (field_max s ! i) \<le> v" "v \<le> field_max s ! i"
    have "unat (field_max s ! i - mn) < 2 ^ b" unfolding b_def fls64_eq by (rule nlen_upper)
    moreover have "mn \<le> field_max s ! i" by (simp add: mn_def)
    ultimately have "unat v < unat mn + 2 ^ b" using v(3) by (simp add: unat_sub word_le_nat_alt)
    then show "field_fits f' i v" unfolding f'(1) using v(1,2) by (intro S(3)) (simp_all add: mn_def)
  qed
  moreover have "field_in_range f' i" using S(1,2) unfolding field_in_range_def f'(1) by simp
  moreover have "covers s j f' \<and> field_in_range f' j" if "j < i" for j
    using that assms(1) unfolding f'(1) done_inv_def by (simp add: covers_other)
  ultimately have "done_inv s (Suc i) f'" using assms(1) unfolding done_inv_def by (auto simp: less_Suc_eq f'(1) O)
  moreover have "bits' = 24 + sum_list (bits_per_field f')"
  proof -
    have "bits_per_field f' = (bits_per_field f)[i := bits_per_field f' ! i]"
      unfolding f'(1) using assms(2) l by (simp add: set_format_field_def Let_def)
    then have "sum_list (bits_per_field f') = sum_list (bits_per_field f) + bits_per_field f' ! i"
      using assms(2,3) l sum_list_update [of i "bits_per_field f" "bits_per_field f' ! i"] by simp
    then show ?thesis using f'(2) assms(4) by simp
  qed
  ultimately show ?thesis by (simp add: f'(1) O)
qed

lemma format_done_fields_inv:
  assumes "done_inv s 0 f" "bits_per_field f = replicate 6 0" "n \<le> 6"
    "fold (format_done_field s) [0..<n] (f, 24) = (f', bits')"
  shows "done_inv s n f' \<and> bits' = 24 + sum_list (bits_per_field f') \<and> (\<forall>j\<ge>n. j < 6 \<longrightarrow> bits_per_field f' ! j = 0)"
  using assms(3,4)
proof (induction n arbitrary: f' bits')
  case 0
  then show ?case using assms(1,2) by auto
next
  case (Suc n)
  obtain g b where g: "fold (format_done_field s) [0..<n] (f, 24) = (g, b)" by fastforce
  then have s: "format_done_field s n (g, b) = (f', bits')" using Suc.prems(2) by simp
  have IH: "done_inv s n g" "b = 24 + sum_list (bits_per_field g)" "\<forall>j\<ge>n. j < 6 \<longrightarrow> bits_per_field g ! j = 0"
    using Suc.IH [OF _ g] Suc.prems(1) by auto
  show ?case using format_done_field_inv [OF IH(1) _ _ IH(2) s] IH(3) Suc.prems(1) by auto
qed

text \<open>The widening of a field to whole bytes.\<close>

definition round_inv :: "bkey_format_state \<Rightarrow> nat \<Rightarrow> bkey_format \<Rightarrow> nat \<Rightarrow> bool" where
  "round_inv s K f spare \<longleftrightarrow> done_inv s 6 f \<and> key_u64s f = K \<and> 24 + sum_list (bits_per_field f) + spare = 64 * K \<and> spare < 64"

lemma format_round_field_inv:
  assumes "round_inv s K f spare" "i < 6" "format_round_field i (f, spare) = (f', spare')"
  shows "round_inv s K f' spare'"
proof -
  define b r where "b = bits_per_field f ! i" and "r = (b + 7) div 8 * 8 - b"
  show ?thesis
  proof (cases "r \<le> spare")
    case False
    then show ?thesis using assms by (auto simp: format_round_field_def Let_def b_def r_def)
  next
    case True
    define u where "u = bits_per_field bch2_bkey_format_current ! i"
    have f': "f' = set_format_field i (b + r) (field_offset f ! i) f" "spare' = spare - r"
      using assms(3) True by (auto simp: format_round_field_def Let_def b_def r_def)
    have d: "done_inv s 6 f" using assms(1) by (simp add: round_inv_def)
    have l: "length (bits_per_field f) = 6" "length (field_offset f) = 6" using d by (simp_all add: done_inv_def)
    note S = set_format_field_spec [OF assms(2) l, where b = "b + r" and x = "field_offset f ! i"] and O = set_format_field_other
    have rng: "unat (field_offset f ! i) + 2 ^ b \<le> 2 ^ u" "covers s i f"
      using d assms(2) by (simp_all add: done_inv_def field_in_range_def b_def u_def)
    then have "(2 :: nat) ^ b \<le> 2 ^ u" by linarith
    then have bu: "b \<le> u" by simp
    have "u = 32 \<or> u = 64" using unpacked_bits [OF assms(2)] by (auto simp: u_def)
    then have br: "b + r \<le> u" "b \<le> b + r" using bu by (auto simp: r_def)
    have "covers s i f'" unfolding covers_def
    proof (intro allI impI)
      fix v
      assume v: "unat v < 2 ^ (bits_per_field bch2_bkey_format_current ! i)" "min (field_min s ! i) (field_max s ! i) \<le> v" "v \<le> field_max s ! i"
      have "field_fits f i v" using rng(2) v by (simp add: covers_def)
      then have "field_offset f ! i \<le> v" "unat v < unat (field_offset f ! i) + 2 ^ b" by (simp_all add: field_fits_def b_def)
      moreover have "(2 :: nat) ^ b \<le> 2 ^ (b + r)" by simp
      ultimately show "field_fits f' i v" unfolding f'(1) using v(1) by (intro S(3)) linarith+
    qed
    moreover have "field_in_range f' i" using S(1,2) unfolding field_in_range_def f'(1) by simp
    moreover have "covers s j f' \<and> field_in_range f' j" if "j < 6" "j \<noteq> i" for j
      using that d unfolding f'(1) done_inv_def by (simp add: covers_other)
    ultimately have "done_inv s 6 f'" using d unfolding done_inv_def by (auto simp: f'(1) O)
    moreover have "sum_list (bits_per_field f') = sum_list (bits_per_field f) + r"
    proof -
      have "bits_per_field f' = (bits_per_field f)[i := b + r]"
        unfolding f'(1) using br(1) by (simp add: set_format_field_def Let_def u_def min_def)
      then show ?thesis using assms(2) l sum_list_update [of i "bits_per_field f" "b + r"] elem_le_sum_list [of i "bits_per_field f"] by (simp add: b_def)
    qed
    ultimately show ?thesis using assms(1) True by (auto simp: round_inv_def f' O)
  qed
qed

lemma format_round_fields_inv:
  assumes "round_inv s K f spare" "set is \<subseteq> {..<6}"
  shows "\<exists>f' spare'. fold format_round_field is (f, spare) = (f', spare') \<and> round_inv s K f' spare'"
  using assms
proof (induction "is" arbitrary: f spare)
  case (Cons i "is")
  obtain g b where g: "format_round_field i (f, spare) = (g, b)" by fastforce
  have "round_inv s K g b" by (rule format_round_field_inv [OF Cons.prems(1) _ g]) (use Cons.prems(2) in auto)
  then show ?case using Cons.IH [of g b] Cons.prems(2) g by simp
qed auto

lemma format_done_spec: "format_ok (bch2_bkey_format_done s) \<and> (\<forall>i<6. covers s i (bch2_bkey_format_done s))"
proof -
  define f0 where "f0 = \<lparr>key_u64s = 0, nr_fields = BKEY_NR_FIELDS, bits_per_field = replicate BKEY_NR_FIELDS 0,
           field_offset = replicate BKEY_NR_FIELDS (0 :: u64)\<rparr>"
  have 0: "done_inv s 0 f0" "bits_per_field f0 = replicate 6 0" by (simp_all add: done_inv_def f0_def BKEY_NR_FIELDS_def)
  obtain f b where f: "fold (format_done_field s) [0..<6] (f0, 24) = (f, b)" by fastforce
  have 1: "done_inv s 6 f" "b = 24 + sum_list (bits_per_field f)"
    using format_done_fields_inv [OF 0 order_refl f] by auto
  define K where "K = (b + 63) div 64"
  have K: "b \<le> 64 * K" "64 * K - b < 64" unfolding K_def by auto
  have "round_inv s K (f\<lparr>key_u64s := K\<rparr>) (64 * K - b)"
    using 1 K by (auto simp: round_inv_def done_inv_def covers_def field_fits_def field_in_range_def)
  then obtain f' sp where f': "fold format_round_field [0..<6] (f\<lparr>key_u64s := K\<rparr>, 64 * K - b) = (f', sp)" "round_inv s K f' sp"
    using format_round_fields_inv [of s K "f\<lparr>key_u64s := K\<rparr>" "64 * K - b" "[0..<6]"] by (auto simp: atLeast0LessThan)
  have eq: "bch2_bkey_format_done s = f'"
    using f f'(1) unfolding bch2_bkey_format_done_def Let_def f0_def [symmetric] BKEY_NR_FIELDS_def KEY_PACKED_BITS_START_def
    by (simp add: K_def mult.commute f0_def BKEY_NR_FIELDS_def)
  have "key_u64s f' = (24 + sum_list (bits_per_field f') + 63) div 64" using f'(2) by (auto simp: round_inv_def)
  then show ?thesis unfolding eq using f'(2) by (auto simp: format_ok_def round_inv_def done_inv_def field_in_range_def)
qed

lemma format_add_key_nth:
  assumes "length (field_min s) = 6" "length (field_max s) = 6" "i < 6"
  shows "field_min (bch2_bkey_format_add_key s k) ! i = min (field_min s ! i) (bkey_fields k ! i)"
    "field_max (bch2_bkey_format_add_key s k) ! i = max (field_max s ! i) (bkey_fields k ! i)"
    "length (field_min (bch2_bkey_format_add_key s k)) = 6" "length (field_max (bch2_bkey_format_add_key s k)) = 6"
  using assms unfolding less_6_cases
  by (auto simp: bch2_bkey_format_add_key_def raw_bkey_format_add_def bkey_fields_def)

definition state_has :: "bkey_format_state \<Rightarrow> bkey \<Rightarrow> bool" where
  "state_has s k \<longleftrightarrow> (\<forall>i<6. field_min s ! i \<le> bkey_fields k ! i \<and> bkey_fields k ! i \<le> field_max s ! i)"

lemma format_add_keys:
  assumes "length (field_min s) = 6" "length (field_max s) = 6"
  shows "(\<forall>k\<in>K. state_has s k) \<Longrightarrow> \<forall>k\<in>K \<union> set ks. state_has (foldl bch2_bkey_format_add_key s ks) k"
  using assms
proof (induction ks arbitrary: s K)
  case (Cons k ks)
  let ?s = "bch2_bkey_format_add_key s k"
  note N = format_add_key_nth [OF Cons.prems(2,3)]
  have l: "length (field_min ?s) = 6" "length (field_max ?s) = 6" using N(3,4) [of 0] by simp_all
  have "\<forall>x\<in>insert k K. state_has ?s x"
    using Cons.prems(1) by (auto simp: state_has_def N min_le_iff_disj le_max_iff_disj)
  then show ?case using Cons.IH [OF _ l, of "insert k K"] by auto
qed simp

lemma bkey_fields_less:
  assumes "i < 6"
  shows "unat (bkey_fields k ! i) < 2 ^ (bits_per_field bch2_bkey_format_current ! i)"
proof -
  have "unat (w :: u64) < 2 ^ 64" for w using unsigned_less [of w, where ?'a = nat] by simp
  moreover have "unat (ucast (w :: u32) :: u64) < 2 ^ 32" for w
    using unsigned_less [of w, where ?'a = nat] by (simp add: unat_ucast_up)
  ultimately show ?thesis using assms unfolding less_6_cases by (auto simp: bkey_fields_def bch2_bkey_format_current_def)
qed

section \<open>Properties\<close>

text \<open>C4. Packing and unpacking are inverse.  With a valid format, \<^verbatim>\<open>bch2_bkey_pack_key\<close> succeeds exactly when every field of the key
  lies between the offset of the format and the offset plus the greatest number of the given width; then unpacking the result gives
  the key back, and the memory behind the packed key is unchanged.  Neither routine accesses memory outside the key or fails an assertion.\<close>

theorem bkey_pack_roundtrip:
  assumes "format_ok f" "k_format k = KEY_FORMAT_CURRENT" "BKEY_U64s \<le> unat (k_u64s k)" "key_u64s f \<le> length out"
  shows "if \<forall>i<6. field_fits f i (bkey_fields k ! i)
    then \<exists>out'. bch2_bkey_pack_key out k f = Some (True, out') \<and> raw_bch2_bkey_unpack_key f out' = Some k \<and>
      length out' = length out \<and> drop (key_u64s f) out' = drop (key_u64s f) out
    else \<exists>out'. bch2_bkey_pack_key out k f = Some (False, out')"
  using pack_key_spec [OF assms] unfolding pack_result_def length_bkey_fields by (auto split: if_splits)

text \<open>The format and the key of \<^verbatim>\<open>bch2_bkey_pack_test\<close>.\<close>

definition test_format :: bkey_format where
  "test_format = \<lparr>key_u64s = 3, nr_fields = BKEY_NR_FIELDS, bits_per_field = [13, 64, 32, 0, 0, 0], field_offset = [0, 0, 0, 0, 0, 0]\<rparr>"

definition test_key :: bkey where
  "test_key = \<lparr>k_u64s = 5, k_format = KEY_FORMAT_CURRENT, k_needs_whiteout = False, k_type = 0, k_bversion = ZERO_VERSION, k_size = 0,
     k_p = POS 4134 1250629070527416633\<rparr>"

lemma test_format_ok: "format_ok test_format"
  by (auto simp: format_ok_def test_format_def BKEY_NR_FIELDS_def bch2_bkey_format_current_def less_6_cases)

lemma test_key_fits: "\<forall>i<6. field_fits test_format i (bkey_fields test_key ! i)"
  by (auto simp: less_6_cases field_fits_def test_format_def test_key_def bkey_fields_def POS_def SPOS_def ZERO_VERSION_def)

theorem bkey_pack_roundtrip_witness:
  "\<exists>out'. bch2_bkey_pack_key [1, 2, 3, 4, 5] test_key test_format = Some (True, out') \<and>
     raw_bch2_bkey_unpack_key test_format out' = Some test_key \<and> length out' = length [1, 2, 3, 4, 5 :: u64] \<and> drop 3 out' = [4, 5]"
proof -
  have "key_u64s test_format = 3" by (simp add: test_format_def)
  then show ?thesis
    using bkey_pack_roundtrip [OF test_format_ok, of test_key "[1, 2, 3, 4, 5]", unfolded if_P [OF test_key_fits]]
    by (simp add: test_key_def BKEY_U64s_def)
qed

text \<open>C36. Repacking from one valid format into another: \<^verbatim>\<open>bch2_bkey_transform\<close> succeeds exactly when the key fits the new format, the
  result unpacks to the same key, and the value is copied unchanged behind it.\<close>

theorem bkey_transform_keeps_key:
  assumes "format_ok in_f" "format_ok out_f" "packed_ok in_f k" "unat (kp_u64s k) \<le> length k"
    and "unat (kp_u64s k) + key_u64s out_f \<le> length out + key_u64s in_f" "raw_bch2_bkey_unpack_key in_f k = Some u"
  shows "if \<forall>i<6. field_fits out_f i (bkey_fields u ! i)
    then \<exists>out'. bch2_bkey_transform out_f out in_f k = Some (True, out') \<and> raw_bch2_bkey_unpack_key out_f out' = Some u \<and>
      take (unat (kp_u64s k) - key_u64s in_f) (drop (key_u64s out_f) out') = take (unat (kp_u64s k) - key_u64s in_f) (drop (key_u64s in_f) k)
    else \<exists>out'. bch2_bkey_transform out_f out in_f k = Some (False, out')"
  by (rule transform_spec [OF assms])

text \<open>A key of three words with a value of one, all fields zero, repacked in its own format.\<close>

theorem bkey_transform_keeps_key_witness:
  "\<exists>u out'. bch2_bkey_transform test_format [1, 2, 3, 4, 5] test_format [4, 0, 0, 77] = Some (True, out') \<and>
     raw_bch2_bkey_unpack_key test_format out' = Some u \<and> take 1 (drop 3 out') = [77]"
proof -
  let ?k = "[4, 0, 0, 77] :: u64 list"
  have h: "kp_u64s ?k = 4" "kp_format ?k = 0" by (simp_all add: kp_u64s_def kp_format_def)
  have K: "key_u64s test_format = 3" by (simp add: test_format_def)
  have ok: "packed_ok test_format ?k" using h K by (simp add: packed_ok_def KEY_FORMAT_LOCAL_BTREE_def BKEY_U64s_def)
  obtain u where u: "raw_bch2_bkey_unpack_key test_format ?k = Some u" "unpacked_as test_format ?k u"
    using unpack_key_spec [OF test_format_ok ok] by blast
  have F: "\<forall>i<6. field_fits test_format i (bkey_fields u ! i)"
  proof (intro allI impI)
    fix i :: nat
    assume i: "i < 6"
    have "field_val test_format ?k i < 2 ^ (bits_per_field test_format ! i)" by (simp add: field_val_def)
    moreover have "field_offset test_format ! i = 0" using i unfolding less_6_cases by (auto simp: test_format_def)
    ultimately show "field_fits test_format i (bkey_fields u ! i)"
      using u(2) i unat_field_word(1) [OF test_format_ok i, of ?k] by (simp add: unpacked_as_def field_fits_def)
  qed
  show ?thesis using bkey_transform_keeps_key [OF test_format_ok test_format_ok ok _ _ u(1), of "[1, 2, 3, 4, 5]", unfolded if_P [OF F]] h K
    by auto
qed

text \<open>C13. The format made from a set of keys is valid, and every one of the keys can be packed with it and unpacked again.\<close>

theorem bkey_format_done_packs:
  assumes "k \<in> set ks" "k_format k = KEY_FORMAT_CURRENT" "BKEY_U64s \<le> unat (k_u64s k)"
    and "f = bch2_bkey_format_done (foldl bch2_bkey_format_add_key bch2_bkey_format_init ks)" "key_u64s f \<le> length out"
  shows "bch2_bkey_format_invalid f = None \<and> (\<exists>out'. bch2_bkey_pack_key out k f = Some (True, out') \<and> raw_bch2_bkey_unpack_key f out' = Some k)"
proof -
  let ?s = "foldl bch2_bkey_format_add_key bch2_bkey_format_init ks"
  have ok: "format_ok f" "\<forall>i<6. covers ?s i f" unfolding assms(4) using format_done_spec [of ?s] by auto
  have "length (field_min bch2_bkey_format_init) = 6" "length (field_max bch2_bkey_format_init) = 6"
    by (simp_all add: bch2_bkey_format_init_def BKEY_NR_FIELDS_def)
  then have "state_has ?s k" using format_add_keys [of bch2_bkey_format_init "{}" ks] assms(1) by auto
  then have F: "\<forall>i<length (bkey_fields k). field_fits f i (bkey_fields k ! i)"
    using ok(2) bkey_fields_less by (auto simp: state_has_def covers_def min_le_iff_disj)
  have "\<exists>out'. bch2_bkey_pack_key out k f = Some (True, out') \<and> raw_bch2_bkey_unpack_key f out' = Some k"
    using pack_key_spec [OF ok(1) assms(2,3,5), unfolded pack_result_def if_P [OF F]] by auto
  then show ?thesis using format_invalid_iff [OF format_okD(2,3) [OF ok(1)]] ok(1) by simp
qed

theorem bkey_format_done_packs_witness:
  "\<exists>out'. bch2_bkey_pack_key (replicate 5 0) test_key (bch2_bkey_format_done (foldl bch2_bkey_format_add_key bch2_bkey_format_init [test_key])) =
     Some (True, out')"
proof -
  let ?f = "bch2_bkey_format_done (foldl bch2_bkey_format_add_key bch2_bkey_format_init [test_key])"
  have "key_u64s ?f \<le> length (replicate 5 (0 :: u64))" using format_okD(5) format_done_spec by simp
  then show ?thesis using bkey_format_done_packs [of test_key "[test_key]" ?f "replicate 5 0"] by (auto simp: test_key_def BKEY_U64s_def)
qed

text \<open>C37. The check of a format accepts exactly the formats that have six fields, none of which can exceed the width of the unpacked
  field, offset included, and that have as many words as the fields and the header need.\<close>

theorem bkey_format_invalid_exact:
  assumes "length (bits_per_field f) = 6" "length (field_offset f) = 6"
  shows "bch2_bkey_format_invalid f = None \<longleftrightarrow> nr_fields f = 6 \<and>
    (\<forall>i<6. \<forall>v. v < 2 ^ (bits_per_field f ! i) \<longrightarrow> unat (field_offset f ! i) + v < 2 ^ (bits_per_field bch2_bkey_format_current ! i)) \<and>
    key_u64s f = (24 + sum_list (bits_per_field f) + 63) div 64"
proof -
  have "(\<forall>v. v < 2 ^ b \<longrightarrow> x + v < y) \<longleftrightarrow> x + 2 ^ b \<le> y" for b x y :: nat
  proof
    assume h: "\<forall>v. v < 2 ^ b \<longrightarrow> x + v < y"
    have "x + (2 ^ b - 1) < y" by (rule h [rule_format]) simp
    moreover have "(1 :: nat) \<le> 2 ^ b" by simp
    ultimately show "x + 2 ^ b \<le> y" by linarith
  qed auto
  then show ?thesis using format_invalid_iff [OF assms] assms by (simp add: format_ok_def)
qed

theorem bkey_format_invalid_exact_witness:
  "bch2_bkey_format_invalid test_format = None \<longleftrightarrow> nr_fields test_format = 6 \<and>
    (\<forall>i<6. \<forall>v. v < 2 ^ (bits_per_field test_format ! i) \<longrightarrow>
       unat (field_offset test_format ! i) + v < 2 ^ (bits_per_field bch2_bkey_format_current ! i)) \<and>
    key_u64s test_format = (24 + sum_list (bits_per_field test_format) + 63) div 64"
  by (rule bkey_format_invalid_exact) (simp_all add: test_format_def)

end
