(* ===== verification/Bkey_Pos.thy ===== *)
theory Bkey_Pos
  imports Bkey_Format
begin

text \<open>
  Packed positions (\<^verbatim>\<open>fs/btree/bkey.c\<close>, \<^verbatim>\<open>fs/btree/bkey_cmp.h\<close>): the routines for formats whose fields end at byte boundaries, which
  read and write a field with one unaligned access, packing of positions, exact and rounded down, and the comparisons of packed keys.

  The fast routines access up to eight bytes before the key (\<^verbatim>\<open>struct bkey_packed_padded\<close>): the word before the key is a parameter of
  theirs, and memory is that word followed by the words of the key.  \<^verbatim>\<open>__bkey_cmp_bits\<close> is the one of builds without \<^verbatim>\<open>CONFIG_X86_64\<close>.
  The checks of debug builds that compare a fast routine with a slow one are left out; that they hold is what is proved here.
\<close>

unbundle bit_operations_syntax

section \<open>Btree nodes\<close>

record bkey_unpack_field =
  byte_offset :: int
  shift_right :: nat

record btree =
  bt_format :: bkey_format
  bt_nr_key_bits :: nat
  byte_aligned_fields :: bool
  bt_unpack :: "bkey_unpack_field list"

fun unpack_consts :: "btree \<Rightarrow> nat list \<Rightarrow> nat \<Rightarrow> btree" where
  "unpack_consts b [] bit_offset = b"
| "unpack_consts b (i # is) bit_offset =
    (let bits = bits_per_field (bt_format b) ! i;
         b = b\<lparr>bt_unpack := (bt_unpack b)[i := \<lparr>byte_offset = 0, shift_right = 64\<rparr>]\<rparr>
     in if bits = 0 then unpack_consts b is bit_offset
        else if bits > 64 then b\<lparr>byte_aligned_fields := False\<rparr>
        else let bit_offset = bit_offset - bits; field_msb_bit = bit_offset + bits - 1 in
          if field_msb_bit mod 8 \<noteq> 7 then b\<lparr>byte_aligned_fields := False\<rparr>
          else unpack_consts (b\<lparr>bt_unpack := (bt_unpack b)[i := \<lparr>byte_offset = int ((field_msb_bit + 1) div 8) - 8, shift_right = 64 - bits\<rparr>]\<rparr>)
            is bit_offset)"

definition bch2_compute_bkey_unpack_consts :: "btree \<Rightarrow> btree" where
  "bch2_compute_bkey_unpack_consts b =
    unpack_consts (b\<lparr>byte_aligned_fields := True\<rparr>) [0..<BKEY_NR_FIELDS] (key_u64s (bt_format b) * 64)"

definition btree_node_set_format :: "btree \<Rightarrow> bkey_format \<Rightarrow> btree" where
  "btree_node_set_format b f =
    bch2_compute_bkey_unpack_consts (b\<lparr>bt_format := f, bt_nr_key_bits := bkey_format_key_bits f\<rparr>)"

section \<open>Unaligned accesses\<close>

definition get_unaligned_le64 :: "u64 list \<Rightarrow> int \<Rightarrow> u64 option" where
  "get_unaligned_le64 M i = (if i < 0 \<or> 8 * nat i + 64 > 64 * length M then None else Some (word_of_nat (drop_bit (8 * nat i) (num M))))"

definition word_at :: "u64 \<Rightarrow> nat \<Rightarrow> nat \<Rightarrow> u64" where
  "word_at v d q = (if 64 * q \<le> d then push_bit (d - 64 * q) v else drop_bit (64 * q - d) v)"

definition put_unaligned_le64 :: "u64 list \<Rightarrow> int \<Rightarrow> u64 \<Rightarrow> u64 list option" where
  "put_unaligned_le64 M i v =
    (if i < 0 \<or> 8 * nat i + 64 > 64 * length M then None
     else Some (map (\<lambda>q. (M ! q AND NOT (word_at (NOT 0) (8 * nat i) q)) OR word_at v (8 * nat i) q) [0..<length M]))"

definition pack_field_fast :: "u64 list \<Rightarrow> bkey_unpack_field \<Rightarrow> u64 \<Rightarrow> u64 list option" where
  "pack_field_fast M uf v =
    (case get_unaligned_le64 M (8 + byte_offset uf) of
       None \<Rightarrow> None
     | Some raw \<Rightarrow> put_unaligned_le64 M (8 + byte_offset uf) (raw OR push_bit (shift_right uf mod 64) v))"

definition unpack_field_fast :: "u64 list \<Rightarrow> bkey_unpack_field \<Rightarrow> u64 \<Rightarrow> u64 option" where
  "unpack_field_fast M uf ofs =
    (if shift_right uf = 64 then Some ofs
     else case get_unaligned_le64 M (8 + byte_offset uf) of
       None \<Rightarrow> None
     | Some raw \<Rightarrow> Some (drop_bit (shift_right uf) raw + ofs))"

fun unpack_fields_fast :: "btree \<Rightarrow> u64 list \<Rightarrow> nat list \<Rightarrow> u64 list option" where
  "unpack_fields_fast b M [] = Some []"
| "unpack_fields_fast b M (i # is) =
    (case unpack_field_fast M (bt_unpack b ! i) (field_offset (bt_format b) ! i) of
       None \<Rightarrow> None
     | Some v \<Rightarrow> map_option ((#) v) (unpack_fields_fast b M is))"

definition raw_bch2_bkey_unpack_key_b :: "btree \<Rightarrow> u64 \<Rightarrow> bkey_packed \<Rightarrow> bkey option" where
  "raw_bch2_bkey_unpack_key_b b pre k =
    (let f = bt_format b in
     if kp_format k \<noteq> KEY_FORMAT_LOCAL_BTREE \<or> unat (kp_u64s k) + BKEY_U64s - key_u64s f > 255 then None
     else if \<not> byte_aligned_fields b then raw_bch2_bkey_unpack_key f k
     else
       let hdr = drop_bit 8 (word_of_nat (drop_bit 56 (num (pre # k))) :: u32);
           hdr = hdr + ((word_of_nat BKEY_U64s - word_of_nat (key_u64s f)) OR push_bit 8 1)
       in case unpack_fields_fast b (pre # k) [0, 1, 2, 3, 4, 5] of
         None \<Rightarrow> None
       | Some vs \<Rightarrow>
         Some \<lparr>k_u64s = ucast hdr, k_format = unat (drop_bit 8 hdr AND 0x7f), k_needs_whiteout = bit hdr 15, k_type = ucast (drop_bit 16 hdr),
           k_bversion = Bversion (ucast (vs ! 4)) (vs ! 5), k_size = ucast (vs ! 3),
           k_p = Bpos (vs ! 0) (vs ! 1) (ucast (vs ! 2))\<rparr>)"

definition raw_bkey_unpack_pos_b :: "btree \<Rightarrow> u64 \<Rightarrow> bkey_packed \<Rightarrow> bpos option" where
  "raw_bkey_unpack_pos_b b pre k =
    (let f = bt_format b in
     if nr_fields f \<noteq> BKEY_NR_FIELDS \<or> unat (kp_u64s k) < key_u64s f \<or> kp_format k \<noteq> KEY_FORMAT_LOCAL_BTREE then None
     else if \<not> byte_aligned_fields b then raw_bkey_unpack_pos f k
     else case unpack_fields_fast b (pre # k) [0, 1, 2] of
       None \<Rightarrow> None
     | Some vs \<Rightarrow> Some (Bpos (vs ! 0) (vs ! 1) (ucast (vs ! 2))))"

section \<open>Packing of positions\<close>

definition zero_key :: "bkey_format \<Rightarrow> bkey_packed \<Rightarrow> bkey_packed" where
  "zero_key f out = replicate (key_u64s f) 0 @ drop (key_u64s f) out"

definition set_pos_header :: "bkey_format \<Rightarrow> bkey_packed \<Rightarrow> bkey_packed" where
  "set_pos_header f out = set_kp_header (word_of_nat (key_u64s f)) KEY_FORMAT_LOCAL_BTREE (kp_needs_whiteout out) 0 out"

definition bpos_fields :: "bpos \<Rightarrow> u64 list" where
  "bpos_fields p = [inode p, offset p, ucast (snapshot p)]"

definition raw_bch2_bkey_pack_pos_exact :: "bkey_packed \<Rightarrow> bpos \<Rightarrow> bkey_format \<Rightarrow> (bool \<times> bkey_packed) option" where
  "raw_bch2_bkey_pack_pos_exact out p f =
    (if length out < key_u64s f then None
     else let st = pack_state_init f (zero_key f out) in
       if ucast (snapshot p) < field_offset f ! 2 \<or> offset p < field_offset f ! 1 \<or> inode p < field_offset f ! 0
       then Some (False, ps_out st)
       else case set_fields st (zip [0, 1, 2] (bpos_fields p)) of
         None \<Rightarrow> None
       | Some (ok, st) \<Rightarrow>
         if \<not> ok then Some (False, ps_out st)
         else map_option (\<lambda>out. (True, set_pos_header f out)) (pack_state_finish st))"

definition pack_fields_fast :: "btree \<Rightarrow> u64 list \<Rightarrow> u64 \<Rightarrow> u64 \<Rightarrow> u64 \<Rightarrow> u64 list option" where
  "pack_fields_fast b M i_v o_v s_v =
    Option.bind (pack_field_fast M (bt_unpack b ! 0) i_v) (\<lambda>M.
    Option.bind (pack_field_fast M (bt_unpack b ! 1) o_v) (\<lambda>M.
    pack_field_fast M (bt_unpack b ! 2) s_v))"

text \<open>The memory of the fast routines is the word before the output with the output.\<close>

definition bch2_bkey_pack_pos :: "u64 \<Rightarrow> bkey_packed \<Rightarrow> bpos \<Rightarrow> btree \<Rightarrow> (bool \<times> u64 \<times> bkey_packed) option" where
  "bch2_bkey_pack_pos pre out p b =
    (let f = bt_format b in
     if byte_aligned_fields b then
       let i_v = inode p - field_offset f ! 0; o_v = offset p - field_offset f ! 1; s_v = ucast (snapshot p) - field_offset f ! 2 in
       if fls64 i_v > bits_per_field f ! 0 \<or> fls64 o_v > bits_per_field f ! 1 \<or> fls64 s_v > bits_per_field f ! 2
       then Some (False, pre, out)
       else if length out < key_u64s f then None
       else map_option (\<lambda>M. (True, hd M, set_pos_header f (tl M))) (pack_fields_fast b (pre # zero_key f out) i_v o_v s_v)
     else map_option (\<lambda>(ok, out). (ok, pre, out)) (raw_bch2_bkey_pack_pos_exact out p f))"

datatype bkey_pack_pos_ret = BKEY_PACK_POS_EXACT | BKEY_PACK_POS_SMALLER | BKEY_PACK_POS_FAIL

definition set_inc_field_lossy :: "pack_state \<Rightarrow> nat \<Rightarrow> u64 \<Rightarrow> (bool \<times> pack_state) option" where
  "set_inc_field_lossy st field v =
    (let bits = bits_per_field (ps_format st) ! field; ofs = field_offset (ps_format st) ! field in
     if v < ofs then None
     else let v = v - ofs in
       if fls64 v > bits then map_option (Pair False) (raw_set_inc_field st field (NOT (push_bit bits (NOT 0))))
       else map_option (Pair True) (raw_set_inc_field st field v))"

text \<open>The part that both lossy routines begin with: a field below its offset is rounded down by decrementing the field above it.\<close>

definition lossy_underflow :: "bkey_format \<Rightarrow> bpos \<Rightarrow> (bool \<times> bpos) option" where
  "lossy_underflow f p =
    (let roll_s = (if ucast (snapshot p) < field_offset f ! 2 then
           if offset p = 0 \<and> inode p = 0 then None
           else Some (False, Bpos (if offset p = 0 then inode p - 1 else inode p) (offset p - 1) KEY_SNAPSHOT_MAX)
         else Some (True, p))
     in case roll_s of
       None \<Rightarrow> None
     | Some (exact, p) \<Rightarrow>
       case (if offset p < field_offset f ! 1 then
               if inode p = 0 then None else Some (False, Bpos (inode p - 1) KEY_OFFSET_MAX KEY_SNAPSHOT_MAX)
             else Some (exact, p)) of
         None \<Rightarrow> None
       | Some (exact, p) \<Rightarrow> if inode p < field_offset f ! 0 then None else Some (exact, p))"

definition raw_bch2_bkey_pack_pos_lossy :: "bkey_packed \<Rightarrow> bpos \<Rightarrow> btree \<Rightarrow> (bkey_pack_pos_ret \<times> bkey_packed) option" where
  "raw_bch2_bkey_pack_pos_lossy out p b =
    (let f = bt_format b in
     if length out < key_u64s f then None
     else let st = pack_state_init f (zero_key f out) in
       case lossy_underflow f p of
         None \<Rightarrow> Some (BKEY_PACK_POS_FAIL, ps_out st)
       | Some (exact, p) \<Rightarrow>
         Option.bind (set_inc_field_lossy st 0 (inode p)) (\<lambda>(ok, st).
         let (p, exact) = (if ok then (p, exact) else (Bpos (inode p) KEY_OFFSET_MAX KEY_SNAPSHOT_MAX, False)) in
         Option.bind (set_inc_field_lossy st 1 (offset p)) (\<lambda>(ok, st).
         let (p, exact) = (if ok then (p, exact) else (Bpos (inode p) (offset p) KEY_SNAPSHOT_MAX, False)) in
         Option.bind (set_inc_field_lossy st 2 (ucast (snapshot p))) (\<lambda>(ok, st).
         let exact = (if ok then exact else False) in
         map_option (\<lambda>out. (if exact then BKEY_PACK_POS_EXACT else BKEY_PACK_POS_SMALLER, set_pos_header f out))
           (pack_state_finish st)))))"

definition u64_bitmask :: "nat \<Rightarrow> u64" where
  "u64_bitmask bits = (if bits \<noteq> 0 then drop_bit (64 - bits) (NOT 0) else 0)"

definition bch2_bkey_pack_pos_lossy :: "u64 \<Rightarrow> bkey_packed \<Rightarrow> bpos \<Rightarrow> btree \<Rightarrow> (bkey_pack_pos_ret \<times> u64 \<times> bkey_packed) option" where
  "bch2_bkey_pack_pos_lossy pre out p b =
    (let f = bt_format b in
     if byte_aligned_fields b then
       case lossy_underflow f p of
         None \<Rightarrow> Some (BKEY_PACK_POS_FAIL, pre, out)
       | Some (exact, p) \<Rightarrow>
         let i_v = inode p - field_offset f ! 0; o_v = offset p - field_offset f ! 1; s_v = ucast (snapshot p) - field_offset f ! 2;
             i_bits = bits_per_field f ! 0; o_bits = bits_per_field f ! 1; s_bits = bits_per_field f ! 2;
             (i_v, o_v, s_v, exact) =
               (if fls64 i_v > i_bits then (u64_bitmask i_bits, u64_bitmask o_bits, u64_bitmask s_bits, False)
                else if fls64 o_v > o_bits then (i_v, u64_bitmask o_bits, u64_bitmask s_bits, False)
                else if fls64 s_v > s_bits then (i_v, o_v, u64_bitmask s_bits, False)
                else (i_v, o_v, s_v, exact))
         in if length out < key_u64s f then None
            else map_option (\<lambda>M. (if exact then BKEY_PACK_POS_EXACT else BKEY_PACK_POS_SMALLER, hd M, set_pos_header f (tl M)))
              (pack_fields_fast b (pre # zero_key f out) i_v o_v s_v)
     else map_option (\<lambda>(ret, out). (ret, pre, out)) (raw_bch2_bkey_pack_pos_lossy out p b))"

section \<open>Comparisons\<close>

fun cmp_bits_loop :: "u64 list \<Rightarrow> u64 list \<Rightarrow> nat \<Rightarrow> nat \<Rightarrow> int option" where
  "cmp_bits_loop l r p nr_key_bits =
    (if p \<ge> length l \<or> p \<ge> length r then None
     else if nr_key_bits < 64 then
       Some (cmp_int (drop_bit (64 - nr_key_bits) (l ! p)) (drop_bit (64 - nr_key_bits) (r ! p)))
     else if nr_key_bits - 64 = 0 \<or> l ! p \<noteq> r ! p then Some (cmp_int (l ! p) (r ! p))
     else if p = 0 then None else cmp_bits_loop l r (p - 1) (nr_key_bits - 64))"

definition raw_bkey_cmp_bits :: "u64 list \<Rightarrow> u64 list \<Rightarrow> nat \<Rightarrow> nat \<Rightarrow> int option" where
  "raw_bkey_cmp_bits l r p nr_key_bits = (if nr_key_bits = 0 then Some 0 else cmp_bits_loop l r p nr_key_bits)"

definition raw_bch2_bkey_cmp_packed_format_checked :: "bkey_packed \<Rightarrow> bkey_packed \<Rightarrow> btree \<Rightarrow> int option" where
  "raw_bch2_bkey_cmp_packed_format_checked l r b =
    (if \<not> bkey_packed l \<or> \<not> bkey_packed r \<or> bt_nr_key_bits b \<noteq> bkey_format_key_bits (bt_format b) then None
     else raw_bkey_cmp_bits l r (high_word_offset (bt_format b)) (bt_nr_key_bits b))"

text \<open>A \<^verbatim>\<open>struct bkey_packed\<close> pointer may point to an unpacked key, which its format field tells; a packed key comes with the word before
  it.\<close>

datatype any_key = Packed u64 bkey_packed | Unpacked bkey

definition bch2_bkey_cmp_packed :: "btree \<Rightarrow> any_key \<Rightarrow> any_key \<Rightarrow> int option" where
  "bch2_bkey_cmp_packed b l r =
    (case (l, r) of
       (Packed _ l, Packed _ r) \<Rightarrow> raw_bch2_bkey_cmp_packed_format_checked l r b
     | (Packed pre l, Unpacked r) \<Rightarrow> map_option (\<lambda>l. bpos_cmp (k_p l) (k_p r)) (raw_bch2_bkey_unpack_key_b b pre l)
     | (Unpacked l, Packed pre r) \<Rightarrow> map_option (\<lambda>r. bpos_cmp (k_p l) (k_p r)) (raw_bch2_bkey_unpack_key_b b pre r)
     | (Unpacked l, Unpacked r) \<Rightarrow> Some (bpos_cmp (k_p l) (k_p r)))"

definition raw_bch2_bkey_cmp_left_packed :: "btree \<Rightarrow> any_key \<Rightarrow> bpos \<Rightarrow> int option" where
  "raw_bch2_bkey_cmp_left_packed b l r =
    (case l of
       Unpacked l \<Rightarrow> Some (bpos_cmp (k_p l) r)
     | Packed pre l \<Rightarrow> map_option (\<lambda>p. bpos_cmp p r) (raw_bkey_unpack_pos_b b pre l))"

section \<open>The constants of a node\<close>

definition good_consts :: "bkey_format \<Rightarrow> nat \<Rightarrow> bkey_unpack_field \<Rightarrow> bool" where
  "good_consts f i uf \<longleftrightarrow>
    (if bits_per_field f ! i = 0 then uf = \<lparr>byte_offset = 0, shift_right = 64\<rparr>
     else field_hi f i mod 8 = 0 \<and> uf = \<lparr>byte_offset = int (field_hi f i div 8) - 8, shift_right = 64 - bits_per_field f ! i\<rparr>)"

lemma unpack_consts_keeps: "bt_format (unpack_consts b is bo) = bt_format b" "bt_nr_key_bits (unpack_consts b is bo) = bt_nr_key_bits b"
  "length (bt_unpack (unpack_consts b is bo)) = length (bt_unpack b)"
  by (induction b "is" bo rule: unpack_consts.induct) (simp_all add: Let_def)

lemma unpack_consts_other: "j \<notin> set is \<Longrightarrow> bt_unpack (unpack_consts b is bo) ! j = bt_unpack b ! j"
  by (induction b "is" bo rule: unpack_consts.induct) (auto simp: Let_def nth_list_update)

lemma unpack_consts_good:
  assumes "format_ok f" "bt_format b = f" "length (bt_unpack b) = 6" "i \<le> 6" "byte_aligned_fields (unpack_consts b [i..<6] (field_hi f i))"
    "j \<in> {i..<6}"
  shows "good_consts f j (bt_unpack (unpack_consts b [i..<6] (field_hi f i)) ! j)"
  using assms(2-)
proof (induction "6 - i" arbitrary: i b)
  case (Suc m)
  then have i: "i < 6" "m = 6 - Suc i" "Suc i \<le> 6" by auto
  note h = field_hi_Suc [OF assms(1) i(1)] and b64 = format_okD(9) [OF assms(1) i(1)]
  define bits where "bits = bits_per_field f ! i"
  define b1 where "b1 = b\<lparr>bt_unpack := (bt_unpack b)[i := \<lparr>byte_offset = 0, shift_right = 64\<rparr>]\<rparr>"
  define b2 where "b2 = b1\<lparr>bt_unpack := (bt_unpack b1)[i := \<lparr>byte_offset = int (field_hi f i div 8) - 8, shift_right = 64 - bits\<rparr>]\<rparr>"
  have hb: "field_hi f i - bits = field_hi f (Suc i)" "field_hi f (Suc i) + bits = field_hi f i" using h(1) by (simp_all add: bits_def)
  define b' where "b' = (if bits = 0 then b1 else b2)"
  have msb: "bits \<noteq> 0 \<Longrightarrow> field_hi f (Suc i) + bits - 1 + 1 = field_hi f i" using hb by simp
  have mod: "field_hi f i mod 8 = 0" if "bits \<noteq> 0" "(field_hi f (Suc i) + bits - 1) mod 8 = 7"
  proof -
    have "Suc (field_hi f (Suc i) + bits - 1) mod 8 = 0" using that(2) by (simp only: mod_Suc) simp
    then show ?thesis using msb [OF that(1)] by simp
  qed
  have step: "unpack_consts b [i..<6] (field_hi f i) = unpack_consts b' [Suc i..<6] (field_hi f (Suc i)) \<and>
      (bits \<noteq> 0 \<longrightarrow> field_hi f i mod 8 = 0)"
  proof (cases "bits = 0")
    case True
    then show ?thesis using i(1) hb(1) Suc.prems(1) by (simp add: upt_conv_Cons b'_def b1_def bits_def Let_def)
  next
    case False
    have "(field_hi f (Suc i) + bits - 1) mod 8 = 7"
    proof (rule ccontr)
      assume "(field_hi f (Suc i) + bits - 1) mod 8 \<noteq> 7"
      then have "unpack_consts b [i..<6] (field_hi f i) = b1\<lparr>byte_aligned_fields := False\<rparr>"
        using i(1) hb(1) False b64 Suc.prems(1) by (simp add: upt_conv_Cons b1_def bits_def Let_def)
      then show False using Suc.prems(4) by simp
    qed
    then show ?thesis using i(1) hb(1) False b64 Suc.prems(1) mod msb
      by (simp add: upt_conv_Cons b'_def b2_def b1_def bits_def Let_def)
  qed
  have b': "bt_format b' = f" "length (bt_unpack b') = 6" using Suc.prems(1,2) by (simp_all add: b'_def b1_def b2_def)
  show ?case
  proof (cases "j = i")
    case True
    have "bt_unpack (unpack_consts b' [Suc i..<6] (field_hi f (Suc i))) ! i = bt_unpack b' ! i" by (rule unpack_consts_other) simp
    then show ?thesis using step i(1) Suc.prems(2) True by (auto simp: good_consts_def b'_def b1_def b2_def bits_def)
  next
    case False
    then have "j \<in> {Suc i..<6}" using Suc.prems(5) by auto
    then show ?thesis using step Suc.hyps(1) [OF i(2) b' i(3)] Suc.prems(4) by simp
  qed
qed auto

text \<open>A node whose format was set.\<close>

definition btree_ok :: "btree \<Rightarrow> bool" where
  "btree_ok b \<longleftrightarrow> format_ok (bt_format b) \<and> bt_nr_key_bits b = bkey_format_key_bits (bt_format b) \<and>
    (byte_aligned_fields b \<longrightarrow> (\<forall>i<6. good_consts (bt_format b) i (bt_unpack b ! i)))"

lemma set_format_btree_ok: "format_ok f \<Longrightarrow> length (bt_unpack b) = 6 \<Longrightarrow> btree_ok (btree_node_set_format b f)"
  using unpack_consts_good [of f "b\<lparr>bt_format := f, bt_nr_key_bits := bkey_format_key_bits f, byte_aligned_fields := True\<rparr>" 0]
  by (auto simp: btree_ok_def btree_node_set_format_def bch2_compute_bkey_unpack_consts_def unpack_consts_keeps
      BKEY_NR_FIELDS_def field_hi_0 mult.commute)

section \<open>Unaligned accesses\<close>

lemma bit_num_Cons: "bit (num (w # ws)) (64 + n) \<longleftrightarrow> bit (num ws) n"
proof -
  have "bit (num (w # ws)) (64 + n) \<longleftrightarrow> bit (drop_bit 64 (num (w # ws))) n" by (simp only: bit_drop_bit_eq o_def)
  then show ?thesis unfolding num_Cons_parts .
qed

lemma num_inject: "length xs = length ys \<Longrightarrow> (\<And>n. bit (num xs) n \<longleftrightarrow> bit (num ys) n) \<Longrightarrow> xs = ys"
proof (rule nth_equalityI)
  fix q
  assume l: "length xs = length ys" and b: "\<And>n. bit (num xs) n \<longleftrightarrow> bit (num ys) n" and q: "q < length xs"
  show "xs ! q = ys ! q"
  proof (rule bit_word_eqI)
    fix t
    assume "t < LENGTH(64)"
    then show "bit (xs ! q) t = bit (ys ! q) t"
      using b [of "64 * q + t"] bit_num_word [of t q xs] bit_num_word [of t q ys] l q by simp
  qed
qed

lemma bit_get_unaligned: "get_unaligned_le64 M i = Some w \<Longrightarrow> bit w n \<longleftrightarrow> n < 64 \<and> bit (num M) (8 * nat i + n)"
  by (auto simp: get_unaligned_le64_def bit_of_nat_iff bit_drop_bit_eq possible_bit_def split: if_splits)

lemma bit_word_at: "t < 64 \<Longrightarrow> bit (word_at v d q) t \<longleftrightarrow> d \<le> 64 * q + t \<and> bit v (64 * q + t - d)"
  by (auto simp: word_at_def bit_push_bit_iff bit_drop_bit_eq add.commute)

lemma bit_put_unaligned:
  assumes "put_unaligned_le64 M i v = Some M'"
  shows "length M' = length M" "bit (num M') n \<longleftrightarrow>
    (if 8 * nat i \<le> n \<and> n < 8 * nat i + 64 then bit v (n - 8 * nat i) else bit (num M) n)"
proof -
  define d where "d = 8 * nat i"
  have M': "M' = map (\<lambda>q. (M ! q AND NOT (word_at (NOT 0) d q)) OR word_at v d q) [0..<length M]" "d + 64 \<le> 64 * length M"
    using assms by (auto simp: put_unaligned_le64_def d_def split: if_splits)
  show len: "length M' = length M" by (simp add: M')
  define q t where "q = n div 64" and "t = n mod 64"
  have n: "n = 64 * q + t" "t < 64" by (simp_all add: q_def t_def)
  have v: "bit v (n - d) \<Longrightarrow> n - d < 64" using bit_imp_le_length [of v "n - d"] by simp
  show "bit (num M') n \<longleftrightarrow> (if 8 * nat i \<le> n \<and> n < 8 * nat i + 64 then bit v (n - 8 * nat i) else bit (num M) n)"
  proof (cases "q < length M")
    case True
    have "bit (num M') n \<longleftrightarrow> bit (M' ! q) t" unfolding n(1) using bit_num_word [OF n(2), of q M'] True len by simp
    also have "\<dots> \<longleftrightarrow> bit (M ! q) t \<and> \<not> (d \<le> n \<and> n - d < 64) \<or> d \<le> n \<and> bit v (n - d)"
      unfolding M' using True n by (simp add: bit_or_iff bit_and_iff bit_not_iff bit_word_at)
    also have "bit (M ! q) t \<longleftrightarrow> bit (num M) n" unfolding n(1) using bit_num_word [OF n(2), of q M] True by simp
    finally show ?thesis using v unfolding d_def [symmetric] by auto
  next
    case False
    then have "64 * length M \<le> n" using n by simp
    then have "\<not> (d \<le> n \<and> n < d + 64)" using M'(2) by simp
    then show ?thesis using False len unfolding d_def [symmetric] by (auto simp: bit_num q_def)
  qed
qed

lemma good_consts_offset:
  assumes "good_consts f i uf" "bits_per_field f ! i \<noteq> 0"
  shows "8 * nat (8 + byte_offset uf) = field_hi f i" "shift_right uf = 64 - bits_per_field f ! i" "\<not> 8 + byte_offset uf < 0"
  using assms by (auto simp: good_consts_def)

lemma unpack_field_fast_spec:
  assumes "format_ok f" "i < 6" "good_consts f i uf" "key_u64s f \<le> length k"
  shows "unpack_field_fast (pre # k) uf (field_offset f ! i) = Some (field_word f k i)"
proof (cases "bits_per_field f ! i = 0")
  case True
  then show ?thesis using assms(3) by (simp add: good_consts_def unpack_field_fast_def field_word_def field_val_def)
next
  case False
  note h = field_hi_Suc [OF assms(1,2)] and g = good_consts_offset [OF assms(3) False] and b64 = format_okD(9) [OF assms(1,2)]
  have le: "field_hi f i \<le> 64 * key_u64s f" by (simp add: field_hi_def)
  then have "8 * nat (8 + byte_offset uf) + 64 \<le> 64 * length (pre # k)" unfolding g(1) using assms(4) by simp
  then obtain raw where raw: "get_unaligned_le64 (pre # k) (8 + byte_offset uf) = Some raw" using g(3) by (simp add: get_unaligned_le64_def)
  have "drop_bit (64 - bits_per_field f ! i) raw = word_of_nat (field_val f k i)"
  proof (rule bit_word_eqI)
    fix j
    assume "j < LENGTH(64)"
    then have j: "j < 64" by simp
    have e: "field_hi f i + (64 - bits_per_field f ! i + j) = 64 + (field_hi f (Suc i) + j)" using h(1) b64 by simp
    have "bit (drop_bit (64 - bits_per_field f ! i) raw) j \<longleftrightarrow>
        64 - bits_per_field f ! i + j < 64 \<and> bit (num (pre # k)) (field_hi f i + (64 - bits_per_field f ! i + j))"
      unfolding bit_drop_bit_eq o_def bit_get_unaligned [OF raw] g(1) ..
    also have "\<dots> \<longleftrightarrow> j < bits_per_field f ! i \<and> bit (num k) (field_hi f (Suc i) + j)" unfolding e bit_num_Cons using b64 by auto
    also have "\<dots> \<longleftrightarrow> bit (word_of_nat (field_val f k i) :: u64) j"
      using j by (simp add: bit_of_nat_iff field_val_def h(3) bit_take_bit_iff bit_drop_bit_eq possible_bit_def)
    finally show "bit (drop_bit (64 - bits_per_field f ! i) raw) j = bit (word_of_nat (field_val f k i) :: u64) j" .
  qed
  moreover have "64 - bits_per_field f ! i \<noteq> 64" using False b64 by simp
  ultimately show ?thesis using raw g(2) by (simp add: unpack_field_fast_def field_word_def)
qed

lemma unpack_fields_fast_spec:
  assumes "btree_ok b" "byte_aligned_fields b" "key_u64s (bt_format b) \<le> length k" "set is \<subseteq> {..<6}"
  shows "unpack_fields_fast b (pre # k) is = Some (map (field_word (bt_format b) k) is)"
  using assms(4)
proof (induction "is")
  case (Cons i "is")
  have "good_consts (bt_format b) i (bt_unpack b ! i)" using assms(1,2) Cons.prems by (auto simp: btree_ok_def)
  then have "unpack_field_fast (pre # k) (bt_unpack b ! i) (field_offset (bt_format b) ! i) = Some (field_word (bt_format b) k i)"
    using assms(1,3) Cons.prems by (intro unpack_field_fast_spec) (auto simp: btree_ok_def)
  then show ?case using Cons by simp
qed simp

section \<open>The fast routines for unpacking\<close>

text \<open>The header, which the fast routine converts with one addition.\<close>

lemma kp_header_sum:
  assumes "fmt < 2"
  shows "(ucast (kp_header s fmt nw ty) :: u32) = ucast s + push_bit 8 (word_of_nat fmt) + ucast (kp_header 0 0 nw ty)"
proof -
  have "fmt = 0 \<or> fmt = 1" using assms by auto
  then have f: "bit fmt n \<Longrightarrow> n = 0" for n by (auto simp: bit_1_iff bit_Suc_0_iff)
  have s8: "bit s n \<Longrightarrow> n < 8" for n using bit_imp_le_length [of s n] by simp
  have a: "(ucast s :: u32) + push_bit 8 (word_of_nat fmt) = ucast s OR push_bit 8 (word_of_nat fmt)"
    by (rule disjunctive_add_eq_or) (rule bit_word_eqI, use s8 in \<open>auto simp: bit_and_iff bit_ucast_iff bit_push_bit_iff dest!: s8\<close>)
  have b: "(ucast s OR push_bit 8 (word_of_nat fmt) :: u32) + ucast (kp_header 0 0 nw ty) =
      (ucast s OR push_bit 8 (word_of_nat fmt)) OR ucast (kp_header 0 0 nw ty)"
    by (rule disjunctive_add_eq_or) (rule bit_word_eqI,
        auto simp: bit_and_iff bit_or_iff bit_ucast_iff bit_push_bit_iff bit_kp_header bit_of_nat_iff dest!: s8 f split: if_splits)
  show ?thesis unfolding a b
    by (rule bit_word_eqI) (auto simp: bit_or_iff bit_ucast_iff bit_push_bit_iff bit_kp_header bit_of_nat_iff possible_bit_def dest: s8 f)
qed

lemma kp_header_add:
  assumes "unat s + c < 256"
  shows "(ucast (kp_header s 0 nw ty) :: u32) + (word_of_nat c OR push_bit 8 1) = ucast (kp_header (s + word_of_nat c) 1 nw ty)"
proof -
  have c: "c < 256" using assms by simp
  have "bit c n \<Longrightarrow> n < 8" for n
  proof -
    have "take_bit 8 c = c" using c by (simp add: take_bit_nat_eq_self_iff)
    then show "bit c n \<Longrightarrow> n < 8" by (metis bit_take_bit_iff)
  qed
  moreover have "bit (push_bit 8 1 :: u32) n \<Longrightarrow> 8 \<le> n" for n by (simp only: bit_push_bit_iff)
  ultimately have "(word_of_nat c AND push_bit 8 1 :: u32) = 0"
    by (intro bit_word_eqI) (metis bit_0_eq bot_apply bot_bool_def bit_and_iff bit_of_nat_iff not_less)
  then have o: "(word_of_nat c OR push_bit 8 1 :: u32) = word_of_nat c + push_bit 8 1"
    by (intro disjunctive_add_eq_or [symmetric])
  have "unat (ucast s + word_of_nat c :: u32) = unat (ucast (s + word_of_nat c) :: u32)"
    using assms by (simp add: unat_word_ariths unat_of_nat unat_ucast_up)
  then have "(ucast (s + word_of_nat c) :: u32) = ucast s + word_of_nat c" by (simp add: word_unat_eq_iff)
  moreover have "(ucast (kp_header s 0 nw ty) :: u32) = ucast s + push_bit 8 (word_of_nat 0) + ucast (kp_header 0 0 nw ty)"
    by (rule kp_header_sum) simp
  moreover have "(ucast (kp_header (s + word_of_nat c) 1 nw ty) :: u32) =
      ucast (s + word_of_nat c) + push_bit 8 (word_of_nat 1) + ucast (kp_header 0 0 nw ty)"
    by (rule kp_header_sum) simp
  ultimately show ?thesis unfolding o by (simp only: of_nat_0 of_nat_1) simp
qed

lemma first_word_header:
  assumes "kp_format k = 0" "k \<noteq> []"
  shows "drop_bit 8 (word_of_nat (drop_bit 56 (num (pre # k))) :: u32) = ucast (kp_header (kp_u64s k) 0 (kp_needs_whiteout k) (kp_type k))"
proof (rule bit_word_eqI)
  fix n
  assume "n < LENGTH(32)"
  then have n: "n < 32" by simp
  have m: "(0x7f :: u64) = mask 7" by (simp add: mask_eq_exp_minus_1)
  have z: "\<not> bit (k ! 0) (8 + j)" if "j < 7" for j
  proof -
    have "bit (unat (drop_bit 8 (k ! 0) AND mask 7)) j = bit (0 :: nat) j" using assms(1) unfolding kp_format_def m by simp
    then show ?thesis using that by (simp add: bit_unsigned_iff bit_and_iff bit_drop_bit_eq bit_mask_iff)
  qed
  have z': "8 \<le> n \<Longrightarrow> n < 15 \<Longrightarrow> \<not> bit (k ! 0) n" using z [of "n - 8"] by simp
  have "bit (drop_bit 8 (word_of_nat (drop_bit 56 (num (pre # k))) :: u32)) n \<longleftrightarrow> n < 24 \<and> bit (num (pre # k)) (56 + (8 + n))"
    using n by (auto simp del: num.simps simp: bit_drop_bit_eq bit_of_nat_iff possible_bit_def)
  also have "56 + (8 + n) = 64 + n" by simp
  finally have l: "bit (drop_bit 8 (word_of_nat (drop_bit 56 (num (pre # k))) :: u32)) n \<longleftrightarrow> n < 24 \<and> bit (k ! 0) n"
    using bit_num_word [of n 0 k] assms(2) unfolding bit_num_Cons by auto
  show "bit (drop_bit 8 (word_of_nat (drop_bit 56 (num (pre # k))) :: u32)) n =
      bit (ucast (kp_header (kp_u64s k) 0 (kp_needs_whiteout k) (kp_type k)) :: u32) n"
    unfolding l using n z'
    by (auto simp: bit_ucast_iff bit_kp_header kp_u64s_def kp_needs_whiteout_def kp_type_def bit_drop_bit_eq)
qed

lemma header_fields:
  assumes "hdr = (ucast (kp_header s 1 nw ty) :: u32)"
  shows "(ucast hdr :: u8) = s" "unat (drop_bit 8 hdr AND 0x7f) = 1" "bit hdr 15 = nw" "(ucast (drop_bit 16 hdr) :: u8) = ty"
proof -
  have m: "(0x7f :: u32) = mask 7" by (simp add: mask_eq_exp_minus_1)
  show "(ucast hdr :: u8) = s" by (rule bit_word_eqI) (simp add: assms bit_ucast_iff bit_kp_header)
  show "bit hdr 15 = nw" by (simp add: assms bit_ucast_iff bit_kp_header)
  show "(ucast (drop_bit 16 hdr) :: u8) = ty" by (rule bit_word_eqI) (simp add: assms bit_ucast_iff bit_drop_bit_eq bit_kp_header)
  have "drop_bit 8 hdr AND mask 7 = (1 :: u32)"
    by (rule bit_word_eqI) (auto simp: assms bit_and_iff bit_ucast_iff bit_drop_bit_eq bit_kp_header bit_mask_iff bit_1_iff bit_Suc_0_iff)
  then show "unat (drop_bit 8 hdr AND 0x7f) = 1" unfolding m by simp
qed

lemma unpack_key_b_eq:
  assumes "btree_ok b" "packed_ok (bt_format b) k"
  shows "raw_bch2_bkey_unpack_key_b b pre k = raw_bch2_bkey_unpack_key (bt_format b) k"
proof -
  let ?f = "bt_format b"
  have f: "format_ok ?f" using assms(1) by (simp add: btree_ok_def)
  have p: "key_u64s ?f \<le> length k" "key_u64s ?f \<le> unat (kp_u64s k)" "kp_format k = 0" "unat (kp_u64s k) + 5 \<le> 255 + key_u64s ?f"
    using assms(2) by (simp_all add: packed_ok_def BKEY_U64s_def KEY_FORMAT_LOCAL_BTREE_def)
  note K = format_okD(4,5) [OF f]
  have g: "\<not> (kp_format k \<noteq> KEY_FORMAT_LOCAL_BTREE \<or> unat (kp_u64s k) + BKEY_U64s - key_u64s ?f > 255)"
    using p by (auto simp: BKEY_U64s_def KEY_FORMAT_LOCAL_BTREE_def)
  obtain u where u: "raw_bch2_bkey_unpack_key ?f k = Some u" "unpacked_as ?f k u" using unpack_key_spec [OF f assms(2)] by blast
  show ?thesis
  proof (cases "byte_aligned_fields b")
    case False
    then show ?thesis unfolding raw_bch2_bkey_unpack_key_b_def Let_def if_not_P [OF g] by simp
  next
    case True
    have "k \<noteq> []" using p(1) K(1) by auto
    define c where "c = 5 - key_u64s ?f"
    have c: "(word_of_nat BKEY_U64s - word_of_nat (key_u64s ?f) :: u32) = word_of_nat c"
      "(word_of_nat BKEY_U64s - word_of_nat (key_u64s ?f) :: u8) = word_of_nat c"
      using K(2) by (simp_all add: c_def BKEY_U64s_def of_nat_diff)
    have cc: "unat (kp_u64s k) + c < 256" using p(4) K(2) by (simp add: c_def)
    define hdr where "hdr = drop_bit 8 (word_of_nat (drop_bit 56 (num (pre # k))) :: u32) + ((word_of_nat BKEY_U64s - word_of_nat (key_u64s ?f)) OR push_bit 8 1)"
    have "hdr = ucast (kp_header (kp_u64s k + word_of_nat c) 1 (kp_needs_whiteout k) (kp_type k))"
      unfolding hdr_def first_word_header [OF p(3) \<open>k \<noteq> []\<close>] c(1) by (rule kp_header_add [OF cc])
    note H = header_fields [OF this]
    have vs: "unpack_fields_fast b (pre # k) [0, 1, 2, 3, 4, 5] = Some (map (field_word ?f k) [0..<6])"
      unfolding upt_6 by (rule unpack_fields_fast_spec [OF assms(1) True p(1)]) simp
    have w: "(ucast (ucast (field_word ?f k i) :: u32) :: u64) = field_word ?f k i" if "i \<in> {2, 3, 4}" for i
      using that unat_field_word(2) [OF f, of i k] unpacked_bits_32 [OF that] by (intro ucast_32_64) auto
    let ?r = "\<lparr>k_u64s = ucast hdr, k_format = unat (drop_bit 8 hdr AND 0x7f), k_needs_whiteout = bit hdr 15, k_type = ucast (drop_bit 16 hdr),
           k_bversion = Bversion (ucast (field_word ?f k 4)) (field_word ?f k 5), k_size = ucast (field_word ?f k 3),
           k_p = Bpos (field_word ?f k 0) (field_word ?f k 1) (ucast (field_word ?f k 2))\<rparr>"
    have "raw_bch2_bkey_unpack_key_b b pre k = Some ?r"
      unfolding raw_bch2_bkey_unpack_key_b_def Let_def if_not_P [OF g] vs hdr_def [symmetric] using True by (simp add: upt_6)
    moreover have "?r = u"
    proof (rule bkey_fields_eqI)
      show "bkey_fields ?r = bkey_fields u" using u(2) w by (simp add: bkey_fields_def unpacked_as_def upt_6)
      have "kp_u64s k + word_of_nat c = word_of_nat BKEY_U64s + kp_u64s k - word_of_nat (key_u64s ?f)"
        unfolding c(2) [symmetric] by simp
      then show "k_u64s ?r = k_u64s u" using H(1) u(2) by (simp add: unpacked_as_def)
    qed (use u(2) H in \<open>simp_all add: unpacked_as_def KEY_FORMAT_CURRENT_def\<close>)
    ultimately show ?thesis using u(1) by simp
  qed
qed

lemma unpack_pos_b_spec:
  assumes "btree_ok b" "key_u64s (bt_format b) \<le> length k" "key_u64s (bt_format b) \<le> unat (kp_u64s k)" "kp_format k = KEY_FORMAT_LOCAL_BTREE"
  shows "raw_bkey_unpack_pos_b b pre k = raw_bkey_unpack_pos (bt_format b) k"
    "raw_bkey_unpack_pos_b b pre k =
       Some (Bpos (field_word (bt_format b) k 0) (field_word (bt_format b) k 1) (ucast (field_word (bt_format b) k 2)))"
proof -
  have f: "format_ok (bt_format b)" using assms(1) by (simp add: btree_ok_def)
  note S = unpack_pos_spec [OF f assms(2-4)]
  have "unpack_fields_fast b (pre # k) [0, 1, 2] = Some (map (field_word (bt_format b) k) [0, 1, 2])" if "byte_aligned_fields b"
    by (rule unpack_fields_fast_spec [OF assms(1) that assms(2)]) simp
  then show "raw_bkey_unpack_pos_b b pre k =
       Some (Bpos (field_word (bt_format b) k 0) (field_word (bt_format b) k 1) (ucast (field_word (bt_format b) k 2)))"
    using assms(3,4) S format_okD(1) [OF f] by (simp add: raw_bkey_unpack_pos_b_def Let_def BKEY_NR_FIELDS_def)
  then show "raw_bkey_unpack_pos_b b pre k = raw_bkey_unpack_pos (bt_format b) k" using S by simp
qed

section \<open>The order of packed keys\<close>

lemma cmp_int_unat: "cmp_int (unat v) (unat w) = cmp_int v w" for v w :: "'a::len word"
  by (simp add: cmp_int_def word_less_nat_alt)

lemma cmp_int_add: "cmp_int (x + c) (y + c) = cmp_int x (y :: nat)"
  by (simp add: cmp_int_def)

lemma cmp_int_digits:
  assumes "x < m" "y < (m :: nat)"
  shows "cmp_int (a * m + x) (b * m + y) = elvis (cmp_int a b) (cmp_int x y)"
proof -
  consider "a < b" | "a = b" | "b < a" by linarith
  then show ?thesis
  proof cases
    case 1
    then have "Suc a * m \<le> b * m" by (intro mult_le_mono1) simp
    then have "a * m + x < b * m + y" using assms by simp
    then show ?thesis using 1 by (simp add: cmp_int_def elvis_def)
  next
    case 2
    then show ?thesis by (simp add: cmp_int_def elvis_def)
  next
    case 3
    then have "Suc b * m \<le> a * m" by (intro mult_le_mono1) simp
    then have "b * m + y < a * m + x" using assms by simp
    then show ?thesis using 3 by (simp add: cmp_int_def elvis_def)
  qed
qed

lemma num_split:
  assumes "p < length ws"
  shows "take_bit (64 * Suc p) (num ws) = unat (ws ! p) * 2 ^ (64 * p) + take_bit (64 * p) (num ws)"
proof -
  have "drop_bit (64 * p) (take_bit (64 * Suc p) (num ws)) = unat (ws ! p)"
  proof (rule bit_eqI)
    fix n
    have "bit (ws ! p) n \<Longrightarrow> n < 64" using bit_imp_le_length [of "ws ! p" n] by simp
    then show "bit (drop_bit (64 * p) (take_bit (64 * Suc p) (num ws))) n = bit (unat (ws ! p)) n"
      using bit_num_word [of n p ws] assms by (auto simp: bit_drop_bit_eq bit_take_bit_iff bit_unsigned_iff)
  qed
  then have "take_bit (64 * Suc p) (num ws) div 2 ^ (64 * p) = unat (ws ! p)" by (simp add: drop_bit_eq_div)
  moreover have "take_bit (64 * Suc p) (num ws) mod 2 ^ (64 * p) = take_bit (64 * p) (num ws)"
    by (simp add: take_bit_eq_mod [symmetric] take_bit_take_bit)
  ultimately show ?thesis using div_mult_mod_eq [of "take_bit (64 * Suc p) (num ws)" "2 ^ (64 * p)"] by simp
qed

text \<open>The top \<open>n\<close> bits of the words up to \<open>p\<close>.\<close>

definition top_bits :: "u64 list \<Rightarrow> nat \<Rightarrow> nat \<Rightarrow> nat" where
  "top_bits ws p n = drop_bit (64 * Suc p - n) (take_bit (64 * Suc p) (num ws))"

lemma top_bits_small: "p < length ws \<Longrightarrow> n \<le> 64 \<Longrightarrow> top_bits ws p n = unat (drop_bit (64 - n) (ws ! p))"
proof -
  assume p: "p < length ws" and n: "n \<le> 64"
  have "take_bit (64 * p) (num ws) < 2 ^ (64 * p)" by simp
  then have "(unat (ws ! p) * 2 ^ (64 * p) + take_bit (64 * p) (num ws)) div 2 ^ (64 * p) = unat (ws ! p)" by simp
  moreover have e: "64 * Suc p - n = 64 * p + (64 - n)" using n by simp
  ultimately show ?thesis unfolding top_bits_def num_split [OF p] e unat_drop_bit
    by (simp only: drop_bit_eq_div power_add div_mult2_eq)
qed

lemma top_bits_step:
  assumes "Suc p < length ws" "64 \<le> n" "n \<le> 64 * Suc (Suc p)"
  shows "top_bits ws (Suc p) n = unat (ws ! Suc p) * 2 ^ (n - 64) + top_bits ws p (n - 64)" "top_bits ws p (n - 64) < 2 ^ (n - 64)"
proof -
  define d where "d = 64 * Suc (Suc p) - n"
  have d: "64 * Suc p = d + (n - 64)" "64 * Suc p - (n - 64) = d" using assms by (auto simp: d_def)
  have e: "(2 :: nat) ^ (64 * Suc p) = 2 ^ (n - 64) * 2 ^ d" unfolding d(1) by (simp add: power_add)
  have "(a * 2 ^ (64 * Suc p) + y) div 2 ^ d = a * 2 ^ (n - 64) + y div 2 ^ d" for a y :: nat
    unfolding e mult.assoc [symmetric] by simp
  then show "top_bits ws (Suc p) n = unat (ws ! Suc p) * 2 ^ (n - 64) + top_bits ws p (n - 64)"
    unfolding top_bits_def num_split [OF assms(1)] d(2) d_def [symmetric] drop_bit_eq_div .
  have "take_bit (64 * Suc p) (num ws) < 2 ^ (d + (n - 64))" unfolding d(1) [symmetric] by simp
  then show "top_bits ws p (n - 64) < 2 ^ (n - 64)"
    unfolding top_bits_def d(2) drop_bit_eq_div by (simp add: power_add less_mult_imp_div_less mult.commute)
qed

lemma cmp_bits_loop_spec:
  assumes "p < length l" "p < length r" "0 < n" "n \<le> 64 * Suc p"
  shows "cmp_bits_loop l r p n = Some (cmp_int (top_bits l p n) (top_bits r p n))"
  using assms
proof (induction p arbitrary: n)
  case 0
  then show ?case by (subst cmp_bits_loop.simps) (auto simp: top_bits_small cmp_int_unat)
next
  case (Suc p)
  show ?case
  proof (cases "n \<le> 64")
    case True
    then show ?thesis using Suc.prems by (subst cmp_bits_loop.simps) (auto simp: top_bits_small cmp_int_unat)
  next
    case False
    then have n: "64 \<le> n" "0 < n - 64" "n - 64 \<le> 64 * Suc p" using Suc.prems(4) by auto
    note L = top_bits_step [OF Suc.prems(1) n(1) Suc.prems(4)] and R = top_bits_step [OF Suc.prems(2) n(1) Suc.prems(4)]
    have "cmp_int (top_bits l (Suc p) n) (top_bits r (Suc p) n) =
        elvis (cmp_int (l ! Suc p) (r ! Suc p)) (cmp_int (top_bits l p (n - 64)) (top_bits r p (n - 64)))"
      unfolding L(1) R(1) cmp_int_digits [OF L(2) R(2)] cmp_int_unat ..
    then show ?thesis using Suc.prems n False Suc.IH [of "n - 64"]
      by (subst cmp_bits_loop.simps) (auto simp: elvis_def cmp_int_def)
  qed
qed

text \<open>The packed position as one number, whose digits are the three fields.\<close>

definition pos_val :: "bkey_format \<Rightarrow> bkey_packed \<Rightarrow> nat" where
  "pos_val f k = drop_bit (field_hi f 3) (take_bit (64 * key_u64s f) (num k))"

lemma field_digits:
  assumes "format_ok f" "i < 6"
  shows "drop_bit (field_hi f (Suc i)) (take_bit (64 * key_u64s f) (num k)) =
    drop_bit (field_hi f i) (take_bit (64 * key_u64s f) (num k)) * 2 ^ (bits_per_field f ! i) + field_val f k i"
proof -
  note h = field_hi_Suc [OF assms]
  have le: "field_hi f i \<le> 64 * key_u64s f" by (simp add: field_hi_def)
  define x where "x = take_bit (64 * key_u64s f) (num k)"
  have "field_val f k i = take_bit (bits_per_field f ! i) (drop_bit (field_hi f (Suc i)) x)"
    unfolding field_val_def h(3) x_def using le h(1)
    by (intro bit_eqI) (auto simp: bit_take_bit_iff bit_drop_bit_eq)
  then have "field_val f k i = (x div 2 ^ field_hi f (Suc i)) mod 2 ^ (bits_per_field f ! i)" by (simp add: take_bit_eq_mod drop_bit_eq_div)
  moreover have "x div 2 ^ field_hi f i = x div 2 ^ field_hi f (Suc i) div 2 ^ (bits_per_field f ! i)"
    unfolding h(1) by (simp add: power_add div_mult2_eq mult.commute [of "2 ^ (bits_per_field f ! i)"])
  ultimately show ?thesis unfolding x_def [symmetric] drop_bit_eq_div by (simp only: div_mult_mod_eq)
qed

lemma pos_val_digits:
  assumes "format_ok f"
  shows "pos_val f k = (field_val f k 0 * 2 ^ (bits_per_field f ! 1) + field_val f k 1) * 2 ^ (bits_per_field f ! 2) + field_val f k 2"
proof -
  have z: "drop_bit (field_hi f 0) (take_bit (64 * key_u64s f) (num k)) = 0"
    unfolding field_hi_0 drop_bit_eq_div by (rule div_less) simp
  show ?thesis unfolding pos_val_def
    using field_digits [OF assms, of 0 k] field_digits [OF assms, of 1 k] field_digits [OF assms, of 2 k] z
    by (simp add: numeral_2_eq_2 numeral_3_eq_3)
qed

lemma field_val_less: "field_val f k i < 2 ^ (bits_per_field f ! i)"
  by (simp add: field_val_def)

definition packed_pos :: "bkey_format \<Rightarrow> bkey_packed \<Rightarrow> bpos" where
  "packed_pos f k = Bpos (field_word f k 0) (field_word f k 1) (ucast (field_word f k 2))"

lemma unat_packed_snapshot:
  assumes "format_ok f"
  shows "unat (ucast (field_word f k 2) :: u32) = unat (field_word f k 2)"
proof -
  have "unat (field_word f k 2) < 2 ^ 32" using unat_field_word(2) [OF assms, of 2 k] by (simp add: bch2_bkey_format_current_def)
  then show ?thesis by (simp add: unat_ucast_down)
qed

lemma pos_val_cmp:
  assumes "format_ok f"
  shows "cmp_int (pos_val f l) (pos_val f r) = bpos_cmp (packed_pos f l) (packed_pos f r)"
proof -
  have w: "cmp_int (field_val f l i) (field_val f r i) = cmp_int (unat (field_word f l i)) (unat (field_word f r i))" if "i < 6" for i
    unfolding unat_field_word(1) [OF assms that] cmp_int_add ..
  have "cmp_int (ucast (field_word f l 2) :: u32) (ucast (field_word f r 2)) = cmp_int (unat (field_word f l 2)) (unat (field_word f r 2))"
    unfolding cmp_int_unat [symmetric, where 'a = 32] unat_packed_snapshot [OF assms] ..
  then show ?thesis unfolding pos_val_digits [OF assms] cmp_int_digits [OF field_val_less field_val_less]
    by (simp add: w bpos_cmp_def packed_pos_def cmp_int_unat) (simp add: elvis_def)
qed

lemma cmp_packed_spec:
  assumes "btree_ok b" "key_u64s (bt_format b) \<le> length l" "key_u64s (bt_format b) \<le> length r" "bkey_packed l" "bkey_packed r"
  shows "raw_bch2_bkey_cmp_packed_format_checked l r b = Some (bpos_cmp (packed_pos (bt_format b) l) (packed_pos (bt_format b) r))"
proof -
  let ?f = "bt_format b"
  have f: "format_ok ?f" and n: "bt_nr_key_bits b = bkey_format_key_bits ?f" using assms(1) by (simp_all add: btree_ok_def)
  note K = format_okD(4) [OF f]
  have h3: "field_hi ?f 3 = 64 * key_u64s ?f - bt_nr_key_bits b" "bt_nr_key_bits b \<le> 64 * key_u64s ?f"
    using field_hi_Suc(1) [OF f, of 0] field_hi_Suc(1) [OF f, of 1] field_hi_Suc(1) [OF f, of 2] n
    by (simp_all add: field_hi_0 bkey_format_key_bits_def numeral_2_eq_2 numeral_3_eq_3)
  obtain p where p: "key_u64s ?f = Suc p" using K by (cases "key_u64s ?f") auto
  have "top_bits k p (bt_nr_key_bits b) = pos_val ?f k" for k unfolding top_bits_def pos_val_def h3(1) p ..
  then have "raw_bkey_cmp_bits l r p (bt_nr_key_bits b) = Some (cmp_int (pos_val ?f l) (pos_val ?f r))"
  proof (cases "bt_nr_key_bits b = 0")
    case True
    have "pos_val ?f k = 0" for k unfolding pos_val_def h3(1) True drop_bit_eq_div by (rule div_less) simp
    then show ?thesis using True by (simp add: raw_bkey_cmp_bits_def cmp_int_def)
  next
    case False
    then show ?thesis using cmp_bits_loop_spec [of p l r "bt_nr_key_bits b"] assms(2,3) h3(2) p \<open>\<And>k. top_bits k p _ = _\<close>
      by (simp add: raw_bkey_cmp_bits_def del: cmp_bits_loop.simps)
  qed
  then show ?thesis unfolding raw_bch2_bkey_cmp_packed_format_checked_def high_word_offset_def pos_val_cmp [OF f] using assms(4,5) n p by simp
qed

section \<open>Packing of positions\<close>

definition pos_packed :: "bkey_format \<Rightarrow> bkey_packed \<Rightarrow> u64 list \<Rightarrow> bkey_packed \<Rightarrow> bool" where
  "pos_packed f out vs k \<longleftrightarrow> length k = length out \<and> drop (key_u64s f) k = drop (key_u64s f) out \<and>
    (\<forall>i<3. field_val f k i = unat (vs ! i - field_offset f ! i)) \<and> (\<forall>m<field_hi f 3. \<not> bit (num k) m)"

lemma pos_packed_unique:
  assumes "format_ok f" "pos_packed f out vs k" "pos_packed f out vs k'"
  shows "k = k'"
proof (rule num_inject)
  show l: "length k = length k'" using assms by (simp add: pos_packed_def)
  have "pos_val f k = pos_val f k'" unfolding pos_val_digits [OF assms(1)] using assms(2,3) by (simp add: pos_packed_def)
  then have v: "bit (take_bit (64 * key_u64s f) (num k)) (field_hi f 3 + j) = bit (take_bit (64 * key_u64s f) (num k')) (field_hi f 3 + j)" for j
    unfolding pos_val_def by (metis bit_drop_bit_eq comp_apply)
  have d: "drop (key_u64s f) k = drop (key_u64s f) k'" using assms by (simp add: pos_packed_def)
  fix n
  consider "n < field_hi f 3" | "field_hi f 3 \<le> n" "n < 64 * key_u64s f" | "64 * key_u64s f \<le> n" by linarith
  then show "bit (num k) n = bit (num k') n"
  proof cases
    case 1
    then show ?thesis using assms(2,3) by (simp add: pos_packed_def)
  next
    case 2
    then show ?thesis using v [of "n - field_hi f 3"] by (simp add: bit_take_bit_iff)
  next
    case 3
    then have q: "key_u64s f \<le> n div 64" using div_le_mono [OF 3, of 64] by simp
    have "k ! (n div 64) = k' ! (n div 64)" if "n div 64 < length k"
    proof -
      have "drop (key_u64s f) k ! (n div 64 - key_u64s f) = drop (key_u64s f) k' ! (n div 64 - key_u64s f)" unfolding d ..
      then show ?thesis using q that l by simp
    qed
    then show ?thesis using l by (auto simp: bit_num)
  qed
qed

lemma zero_key_props: "key_u64s f \<le> length out \<Longrightarrow> length (zero_key f out) = length out" "drop (key_u64s f) (zero_key f out) = drop (key_u64s f) out"
  "q < key_u64s f \<Longrightarrow> zero_key f out ! q = 0"
  by (simp_all add: zero_key_def nth_append)

lemma set_pos_fields_spec:
  assumes "format_ok f" "key_u64s f \<le> length out" "length vs = 3"
  shows "if \<forall>i<3. field_fits f i (vs ! i)
    then \<exists>st. set_fields (pack_state_init f (zero_key f out)) (zip [0, 1, 2] vs) = Some (True, st) \<and>
      pack_state_finish st = Some (pack_cur st) \<and> pos_packed f out vs (pack_cur st)
    else \<exists>st. set_fields (pack_state_init f (zero_key f out)) (zip [0, 1, 2] vs) = Some (False, st)"
proof -
  have l: "key_u64s f \<le> length (zero_key f out)" using assms(2) by (simp add: zero_key_props)
  have "(3 :: nat) \<le> 6" by simp
  note S = pack_fields_spec [OF assms(1) this l assms(3), unfolded upt_6]
  show ?thesis
  proof (cases "\<forall>i<3. field_fits f i (vs ! i)")
    case True
    show ?thesis unfolding if_P [OF True] using S [unfolded if_P [OF True]] assms(2)
      unfolding pos_packed_def by (metis zero_key_props)
  next
    case False
    show ?thesis unfolding if_not_P [OF False] using S [unfolded if_not_P [OF False]] .
  qed
qed

text \<open>One access writes a field.\<close>

lemma pack_field_fast_spec:
  assumes "format_ok f" "i < 6" "good_consts f i uf" "key_u64s f < length M" "unat v < 2 ^ (bits_per_field f ! i)"
  shows "\<exists>M'. pack_field_fast M uf v = Some M' \<and> length M' = length M \<and>
    (\<forall>x. bit (num M') x \<longleftrightarrow> bit (num M) x \<or> 64 + field_lo f i \<le> x \<and> bit v (x - (64 + field_lo f i)))"
proof -
  note h = field_hi_Suc [OF assms(1,2)] and b64 = format_okD(9) [OF assms(1,2)] and K = format_okD(4) [OF assms(1)]
  define b where "b = bits_per_field f ! i"
  have "take_bit b (unat v) = unat v" using assms(5) by (simp add: take_bit_nat_eq_self_iff b_def)
  then have "take_bit b v = v" by (metis unsigned_take_bit_eq word_unat_eq_iff)
  then have hv: "bit v j \<Longrightarrow> j < b" for j by (metis bit_take_bit_iff)
  define d where "d = 8 * nat (8 + byte_offset uf)"
  have d: "d = (if b = 0 then 64 else field_hi f i)" "\<not> 8 + byte_offset uf < 0" "shift_right uf mod 64 = (if b = 0 then 0 else 64 - b)"
    using assms(3) good_consts_offset [OF assms(3)] b64 unfolding d_def b_def
    by (cases "bits_per_field f ! i = 0"; auto simp: good_consts_def)+
  have "field_hi f i \<le> 64 * key_u64s f" by (simp add: field_hi_def)
  then have le: "d + 64 \<le> 64 * length M" using d(1) assms(4) K by auto
  obtain raw where raw: "get_unaligned_le64 M (8 + byte_offset uf) = Some raw" using le d(2) by (simp add: get_unaligned_le64_def d_def)
  define w where "w = raw OR push_bit (shift_right uf mod 64) v"
  obtain M' where M': "put_unaligned_le64 M (8 + byte_offset uf) w = Some M'" using le d(2) by (simp add: put_unaligned_le64_def d_def)
  note P = bit_put_unaligned [OF M', folded d_def] and G = bit_get_unaligned [OF raw, folded d_def]
  have "bit (num M') x \<longleftrightarrow> bit (num M) x \<or> 64 + field_lo f i \<le> x \<and> bit v (x - (64 + field_lo f i))" for x
  proof (cases "b = 0")
    case True
    have "\<not> bit v j" for j using hv [of j] True by auto
    then have "bit w n \<longleftrightarrow> bit raw n" for n using d(3) True by (simp add: w_def bit_or_iff)
    then show ?thesis using P(2) [of x] G \<open>\<And>j. \<not> bit v j\<close> by auto
  next
    case False
    have hd: "d = b + field_lo f i" using d(1) h False by (simp add: b_def)
    have b: "b \<le> 64" using b64 by (simp add: b_def)
    have w: "bit w n \<longleftrightarrow> bit raw n \<or> n < 64 \<and> 64 - b \<le> n \<and> bit v (n - (64 - b))" for n
      using d(3) False by (auto simp: w_def bit_or_iff bit_push_bit_iff)
    show ?thesis
    proof (cases "d \<le> x \<and> x < d + 64")
      case True
      then have "x - d - (64 - b) = x - (64 + field_lo f i)" "64 - b \<le> x - d \<longleftrightarrow> 64 + field_lo f i \<le> x" using hd b by auto
      then show ?thesis using P(2) [of x] True G [of "x - d"] w [of "x - d"] by auto
    next
      case False
      have "\<not> (64 + field_lo f i \<le> x \<and> bit v (x - (64 + field_lo f i)))"
        using False hd b hv [of "x - (64 + field_lo f i)"] by auto
      then show ?thesis using P(2) [of x] False by auto
    qed
  qed
  moreover have "pack_field_fast M uf v = Some M'" using raw M' by (simp add: pack_field_fast_def w_def)
  ultimately show ?thesis using P(1) by blast
qed

lemma pack_fields_fast_spec:
  assumes "btree_ok b" "byte_aligned_fields b" "key_u64s (bt_format b) \<le> length out" "length vs = 3" "\<forall>i<3. field_fits (bt_format b) i (vs ! i)"
  shows "\<exists>k. pack_fields_fast b (pre # zero_key (bt_format b) out) (vs ! 0 - field_offset (bt_format b) ! 0)
      (vs ! 1 - field_offset (bt_format b) ! 1) (vs ! 2 - field_offset (bt_format b) ! 2) = Some (pre # k) \<and> pos_packed (bt_format b) out vs k"
proof -
  define f where "f = bt_format b"
  have f: "format_ok f" using assms(1) by (simp add: btree_ok_def f_def)
  have g: "good_consts f i (bt_unpack b ! i)" if "i < 6" for i using assms(1,2) that by (auto simp: btree_ok_def f_def)
  define v where "v i = vs ! i - field_offset f ! i" for i
  have v: "unat (v i) < 2 ^ (bits_per_field f ! i)" if "i < 3" for i
    using assms(5) that by (auto simp: v_def f_def field_fits_def unat_sub word_le_nat_alt)
  define M0 where "M0 = pre # zero_key f out"
  have l0: "length M0 = Suc (length out)" using assms(3) by (simp add: M0_def zero_key_props f_def)
  have K: "key_u64s f < length M0" using l0 assms(3) by (simp add: f_def)
  obtain M1 where M1: "pack_field_fast M0 (bt_unpack b ! 0) (v 0) = Some M1" "length M1 = length M0"
    "\<And>x. bit (num M1) x \<longleftrightarrow> bit (num M0) x \<or> 64 + field_lo f 0 \<le> x \<and> bit (v 0) (x - (64 + field_lo f 0))"
    using pack_field_fast_spec [OF f _ g K v, of 0] by auto
  obtain M2 where M2: "pack_field_fast M1 (bt_unpack b ! 1) (v 1) = Some M2" "length M2 = length M0"
    "\<And>x. bit (num M2) x \<longleftrightarrow> bit (num M1) x \<or> 64 + field_lo f 1 \<le> x \<and> bit (v 1) (x - (64 + field_lo f 1))"
    using pack_field_fast_spec [OF f _ g _ v, of 1 M1] K M1(2) by auto
  obtain M3 where M3: "pack_field_fast M2 (bt_unpack b ! 2) (v 2) = Some M3" "length M3 = length M0"
    "\<And>x. bit (num M3) x \<longleftrightarrow> bit (num M2) x \<or> 64 + field_lo f 2 \<le> x \<and> bit (v 2) (x - (64 + field_lo f 2))"
    using pack_field_fast_spec [OF f _ g _ v, of 2 M2] K M2(2) by auto
  obtain p3 k where pk: "M3 = p3 # k" "length k = length out" using M3(2) l0 by (cases M3) auto
  have B: "bit (num M3) x \<longleftrightarrow> bit (num M0) x \<or> (\<exists>i<3. 64 + field_lo f i \<le> x \<and> bit (v i) (x - (64 + field_lo f i)))" for x
    unfolding M3(3) M2(3) M1(3) by (auto simp: numeral_3_eq_3 numeral_2_eq_2 less_Suc_eq)
  have hv: "j < bits_per_field f ! i" if "bit (v i) j" "i < 3" for i j
  proof -
    have "take_bit (bits_per_field f ! i) (unat (v i)) = unat (v i)" using v [OF that(2)] by (simp add: take_bit_nat_eq_self_iff)
    then have "take_bit (bits_per_field f ! i) (v i) = v i" by (metis unsigned_take_bit_eq word_unat_eq_iff)
    then show ?thesis using that(1) by (metis bit_take_bit_iff)
  qed
  have bk: "bit (num k) n \<longleftrightarrow> bit (num (zero_key f out)) n \<or> (\<exists>i<3. field_lo f i \<le> n \<and> bit (v i) (n - field_lo f i))" for n
    using B [of "64 + n"] unfolding pk(1) M0_def bit_num_Cons by simp
  have z: "\<not> bit (num (zero_key f out)) n" if "n < 64 * key_u64s f" for n
    using that zero_key_props(3) [of "n div 64" f out] by (simp add: bit_num less_mult_imp_div_less mult.commute)
  have lo: "field_lo f i = field_hi f (Suc i)" "field_hi f i = bits_per_field f ! i + field_hi f (Suc i)" if "i < 3" for i
    using field_hi_Suc [OF f, of i] that by simp_all
  have pre: "p3 = pre"
  proof (rule bit_word_eqI)
    fix n
    assume "n < LENGTH(64)"
    then have n: "n < 64" by simp
    have "bit (num M3) n \<longleftrightarrow> bit (num M0) n" unfolding B using n by auto
    then show "bit p3 n = bit pre n" using n bit_num_word [OF n, of 0 M3] bit_num_word [OF n, of 0 M0] by (simp add: pk(1) M0_def)
  qed
  have only: "j = i" if "i < 3" "j < 3" "field_hi f (Suc i) \<le> n" "n < field_hi f i" "field_hi f (Suc j) \<le> n" "n < field_hi f j" for i j n
    using that field_hi_antimono [of "Suc i" j f] field_hi_antimono [of "Suc j" i f] by (cases i j rule: linorder_cases) auto
  have "field_val f k i = unat (v i)" if i: "i < 3" for i
  proof (rule bit_eqI)
    fix n
    show "bit (field_val f k i) n = bit (unat (v i)) n"
    proof (cases "n < bits_per_field f ! i")
      case True
      let ?n = "field_hi f (Suc i) + n"
      have "?n < field_hi f i" "field_hi f i \<le> 64 * key_u64s f" using True lo(2) [OF i] by (simp_all add: field_hi_def)
      then have "\<not> bit (num (zero_key f out)) ?n" by (intro z) simp
      moreover have "j = i" if "j < 3" "field_lo f j \<le> ?n" "bit (v j) (?n - field_lo f j)" for j
        using only [OF i that(1), of ?n] hv [OF that(3,1)] that(2) lo [OF that(1)] \<open>?n < field_hi f i\<close> by auto
      ultimately have "bit (num k) ?n \<longleftrightarrow> bit (v i) n" unfolding bk using i lo(1) [OF i]
        by (metis add_diff_cancel_left' le_add1)
      then show ?thesis using True lo(1) [OF i] by (simp add: field_val_def bit_take_bit_iff bit_drop_bit_eq bit_unsigned_iff)
    qed (use hv [of i n] i in \<open>auto simp: field_val_def bit_take_bit_iff bit_unsigned_iff\<close>)
  qed
  moreover have "\<not> bit (num k) m" if "m < field_hi f 3" for m
  proof -
    have "field_hi f 3 \<le> field_lo f i" if "i < 3" for i using lo(1) [OF that] field_hi_antimono [of "Suc i" 3 f] that by simp
    moreover have "m < 64 * key_u64s f" using that field_hi_antimono [of 0 3 f] by (simp add: field_hi_0)
    ultimately show ?thesis unfolding bk using z that by fastforce
  qed
  moreover have "drop (key_u64s f) k = drop (key_u64s f) out"
  proof (rule nth_equalityI)
    fix q
    assume "q < length (drop (key_u64s f) k)"
    then have q: "key_u64s f + q < length out" using pk(2) by simp
    have "k ! (key_u64s f + q) = zero_key f out ! (key_u64s f + q)"
    proof (rule bit_word_eqI)
      fix t
      assume "t < LENGTH(64)"
      then have t: "t < 64" by simp
      let ?n = "64 * (key_u64s f + q) + t"
      have "\<not> bit (v i) (?n - field_lo f i)" if "i < 3" for i
        using hv [of i "?n - field_lo f i"] lo [OF that] that field_hi_antimono [of 0 i f] by (fastforce simp: field_hi_0)
      then have "bit (num k) ?n \<longleftrightarrow> bit (num (zero_key f out)) ?n" unfolding bk by blast
      then show "bit (k ! (key_u64s f + q)) t = bit (zero_key f out ! (key_u64s f + q)) t"
        using bit_num_word [OF t, of "key_u64s f + q" k] bit_num_word [OF t, of "key_u64s f + q" "zero_key f out"] q pk(2)
          zero_key_props(1) [OF assms(3) [folded f_def]] by simp
    qed
    also have "\<dots> = out ! (key_u64s f + q)" using q by (simp add: zero_key_def nth_append)
    finally show "drop (key_u64s f) k ! q = drop (key_u64s f) out ! q" using q pk(2) by simp
  qed (simp add: pk(2))
  ultimately have "pos_packed f out vs k" using pk(2) by (simp add: pos_packed_def v_def)
  moreover have "pack_fields_fast b (pre # zero_key f out) (v 0) (v 1) (v 2) = Some (pre # k)"
    using M1(1) M2(1) M3(1) pk(1) pre by (simp add: pack_fields_fast_def M0_def)
  ultimately show ?thesis unfolding f_def v_def by blast
qed

section \<open>Rounding down to a position of the format\<close>

definition representable :: "bkey_format \<Rightarrow> bpos \<Rightarrow> bool" where
  "representable f p \<longleftrightarrow> field_fits f 0 (inode p) \<and> field_fits f 1 (offset p) \<and> field_fits f 2 (ucast (snapshot p))"

lemma representable_iff: "representable f p \<longleftrightarrow> (\<forall>i<3. field_fits f i (bpos_fields p ! i))"
  by (auto simp: representable_def bpos_fields_def numeral_3_eq_3 less_Suc_eq numeral_2_eq_2)

lemma word_le_minus_1: "(y :: 'a::len word) \<noteq> 0 \<Longrightarrow> x \<le> y - 1 \<longleftrightarrow> x < y"
  using unat_gt_0 [of y] by (auto simp: word_le_nat_alt word_less_nat_alt unat_minus_one)

lemma le_max_values: "x \<le> KEY_OFFSET_MAX" "y \<le> KEY_SNAPSHOT_MAX"
  by (simp_all add: KEY_OFFSET_MAX_def KEY_SNAPSHOT_MAX_def)

lemma ucast_32_less: "(ucast (x :: u32) :: u64) < ucast y \<longleftrightarrow> x < y" "(ucast x :: u64) \<le> ucast y \<longleftrightarrow> x \<le> y"
  by (simp_all add: word_less_nat_alt word_le_nat_alt unat_ucast_up)

definition roll_snapshot :: "bkey_format \<Rightarrow> bpos \<Rightarrow> (bool \<times> bpos) option" where
  "roll_snapshot f p = (if ucast (snapshot p) < field_offset f ! 2 then
       if offset p = 0 \<and> inode p = 0 then None
       else Some (False, Bpos (if offset p = 0 then inode p - 1 else inode p) (offset p - 1) KEY_SNAPSHOT_MAX)
     else Some (True, p))"

definition roll_offset :: "bkey_format \<Rightarrow> bool \<Rightarrow> bpos \<Rightarrow> (bool \<times> bpos) option" where
  "roll_offset f exact p = (if offset p < field_offset f ! 1 then
       if inode p = 0 then None else Some (False, Bpos (inode p - 1) KEY_OFFSET_MAX KEY_SNAPSHOT_MAX)
     else Some (exact, p))"

lemma lossy_underflow_rolls: "lossy_underflow f p =
    (case roll_snapshot f p of None \<Rightarrow> None | Some (exact, p) \<Rightarrow>
       case roll_offset f exact p of None \<Rightarrow> None | Some (exact, p) \<Rightarrow> if inode p < field_offset f ! 0 then None else Some (exact, p))"
  by (simp add: lossy_underflow_def roll_snapshot_def roll_offset_def Let_def)

text \<open>The positions of the format below a position are those below the rolled one.\<close>

lemma roll_snapshot_spec:
  assumes "representable f r" "ucast (snapshot p) < field_offset f ! 2"
  shows "bpos_le r p \<longleftrightarrow> (case roll_snapshot f p of None \<Rightarrow> False | Some (_, q) \<Rightarrow> bpos_le r q)"
proof -
  have "field_offset f ! 2 \<le> ucast (snapshot r)" using assms(1) by (simp add: representable_def field_fits_def)
  then have "(ucast (snapshot p) :: u64) < ucast (snapshot r)" using assms(2) by (rule order.strict_trans2 [rotated])
  then have "snapshot p < snapshot r" by (simp only: ucast_32_less)
  then have l: "bpos_le r p \<longleftrightarrow> inode r < inode p \<or> inode r = inode p \<and> offset r < offset p" by (auto simp: bpos_le_def)
  have s: "bpos_le r (Bpos i y KEY_SNAPSHOT_MAX) \<longleftrightarrow> inode r < i \<or> inode r = i \<and> offset r \<le> y" for i y
    using le_max_values(2) [of "snapshot r"] by (auto simp: bpos_le_def)
  show ?thesis
  proof (cases "offset p = 0")
    case False
    then show ?thesis using assms(2) unfolding l by (simp add: roll_snapshot_def s word_le_minus_1)
  next
    case True
    then have m: "offset r \<le> offset p - 1" by simp
    show ?thesis
    proof (cases "inode p = 0")
      case False
      have "inode r < inode p - 1 \<or> inode r = inode p - 1 \<longleftrightarrow> inode r < inode p" unfolding word_le_minus_1 [OF False, symmetric] by auto
      then show ?thesis using assms(2) False True m unfolding l by (auto simp: roll_snapshot_def s)
    qed (use assms(2) True in \<open>simp add: l roll_snapshot_def\<close>)
  qed
qed

lemma roll_offset_spec:
  assumes "representable f r" "offset p < field_offset f ! 1"
  shows "bpos_le r p \<longleftrightarrow> (case roll_offset f e p of None \<Rightarrow> False | Some (_, q) \<Rightarrow> bpos_le r q)"
proof -
  have "field_offset f ! 1 \<le> offset r" using assms(1) by (simp add: representable_def field_fits_def)
  then have "offset p < offset r" using assms(2) by (rule order.strict_trans2 [rotated])
  then have l: "bpos_le r p \<longleftrightarrow> inode r < inode p" by (auto simp: bpos_le_def)
  have s: "bpos_le r (Bpos i KEY_OFFSET_MAX KEY_SNAPSHOT_MAX) \<longleftrightarrow> inode r \<le> i" for i
    using le_max_values(1) [of "offset r"] le_max_values(2) [of "snapshot r"] by (auto simp: bpos_le_def)
  show ?thesis using assms(2) unfolding l by (cases "inode p = 0") (simp_all add: roll_offset_def s word_le_minus_1)
qed

definition above_offsets :: "bkey_format \<Rightarrow> bpos \<Rightarrow> bool" where
  "above_offsets f p \<longleftrightarrow> field_offset f ! 0 \<le> inode p \<and> field_offset f ! 1 \<le> offset p \<and> field_offset f ! 2 \<le> ucast (snapshot p)"

lemma unat_max_values: "unat (ucast KEY_SNAPSHOT_MAX :: u64) = 2 ^ 32 - 1" "unat KEY_OFFSET_MAX = 2 ^ 64 - 1"
proof -
  have m: "KEY_SNAPSHOT_MAX = mask 32" "KEY_OFFSET_MAX = mask 64"
    by (rule bit_word_eqI, simp add: KEY_SNAPSHOT_MAX_def KEY_OFFSET_MAX_def bit_mask_iff)+
  have "unat KEY_SNAPSHOT_MAX = 2 ^ 32 - 1" unfolding m by (subst unat_mask) simp_all
  then show "unat (ucast KEY_SNAPSHOT_MAX :: u64) = 2 ^ 32 - 1" by (simp add: unat_ucast_up)
  show "unat KEY_OFFSET_MAX = 2 ^ 64 - 1" unfolding m by (subst unat_mask) simp_all
qed

lemma offset_le_snapshot_max:
  assumes "format_ok f"
  shows "field_offset f ! 2 \<le> ucast KEY_SNAPSHOT_MAX"
proof -
  have "unat (field_offset f ! 2) + 2 ^ (bits_per_field f ! 2) \<le> 2 ^ 32" using format_okD(8) [OF assms, of 2] by (simp add: bch2_bkey_format_current_def)
  moreover have "(1 :: nat) \<le> 2 ^ (bits_per_field f ! 2)" by simp
  ultimately show ?thesis unfolding word_le_nat_alt unat_max_values by linarith
qed

lemma lossy_underflow_spec:
  assumes "format_ok f"
  shows "case lossy_underflow f p of
      None \<Rightarrow> \<forall>r. representable f r \<longrightarrow> \<not> bpos_le r p
    | Some (exact, q) \<Rightarrow> above_offsets f q \<and> (exact \<longrightarrow> q = p) \<and> (\<not> exact \<longrightarrow> \<not> representable f p) \<and>
        (\<forall>r. representable f r \<longrightarrow> (bpos_le r p \<longleftrightarrow> bpos_le r q))"
proof -
  have sm: "field_offset f ! 2 \<le> ucast KEY_SNAPSHOT_MAX" by (rule offset_le_snapshot_max [OF assms])
  have 1: "case roll_snapshot f p of None \<Rightarrow> \<forall>r. representable f r \<longrightarrow> \<not> bpos_le r p
    | Some (e, q) \<Rightarrow> field_offset f ! 2 \<le> ucast (snapshot q) \<and> (e \<longrightarrow> q = p) \<and> (\<not> e \<longrightarrow> \<not> representable f p) \<and>
        (\<forall>r. representable f r \<longrightarrow> (bpos_le r p \<longleftrightarrow> bpos_le r q))"
  proof (cases "ucast (snapshot p) < field_offset f ! 2")
    case True
    then have "\<not> representable f p" by (auto simp: representable_def field_fits_def)
    moreover have "case roll_snapshot f p of None \<Rightarrow> True | Some (e, q) \<Rightarrow> \<not> e \<and> snapshot q = KEY_SNAPSHOT_MAX"
      using True by (auto simp: roll_snapshot_def)
    ultimately show ?thesis using roll_snapshot_spec [OF _ True] sm by (auto split: option.splits)
  qed (auto simp: roll_snapshot_def)
  have 2: "case roll_offset f e q of None \<Rightarrow> \<forall>r. representable f r \<longrightarrow> \<not> bpos_le r q
    | Some (e', q') \<Rightarrow> field_offset f ! 2 \<le> ucast (snapshot q') \<and> field_offset f ! 1 \<le> offset q' \<and> (e' \<longrightarrow> e \<and> q' = q) \<and>
        (\<not> e' \<longrightarrow> \<not> e \<or> \<not> representable f q) \<and> (\<forall>r. representable f r \<longrightarrow> (bpos_le r q \<longleftrightarrow> bpos_le r q'))"
    if "field_offset f ! 2 \<le> ucast (snapshot q)" for e q
  proof (cases "offset q < field_offset f ! 1")
    case True
    then have "\<not> representable f q" by (auto simp: representable_def field_fits_def)
    moreover have "case roll_offset f e q of None \<Rightarrow> True | Some (e', q') \<Rightarrow> \<not> e' \<and> snapshot q' = KEY_SNAPSHOT_MAX \<and> offset q' = KEY_OFFSET_MAX"
      using True by (auto simp: roll_offset_def)
    ultimately show ?thesis using roll_offset_spec [OF _ True, of _ e] sm le_max_values(1) by (auto split: option.splits)
  qed (use that in \<open>auto simp: roll_offset_def\<close>)
  show ?thesis
  proof (cases "roll_snapshot f p")
    case None
    then show ?thesis using 1 by (simp add: lossy_underflow_rolls)
  next
    case (Some eq)
    obtain e q where eq: "eq = (e, q)" by fastforce
    note A = 1 [unfolded Some eq, simplified]
    note B = 2 [OF A [THEN conjunct1], of e]
    show ?thesis
    proof (cases "roll_offset f e q")
      case None
      then show ?thesis using A B Some eq by (auto simp: lossy_underflow_rolls)
    next
      case (Some eq')
      obtain e' q' where eq': "eq' = (e', q')" by fastforce
      note C = B [unfolded Some eq', simplified]
      have n: "\<forall>r. representable f r \<longrightarrow> \<not> bpos_le r q'" if "inode q' < field_offset f ! 0"
      proof (intro allI impI notI)
        fix r
        assume "representable f r" "bpos_le r q'"
        then have "field_offset f ! 0 \<le> inode r" "inode r \<le> inode q'" by (auto simp: representable_def field_fits_def bpos_le_def split: if_splits)
        then show False using that by simp
      qed
      show ?thesis
      proof (cases "inode q' < field_offset f ! 0")
        case True
        then have "lossy_underflow f p = None" using \<open>roll_snapshot f p = Some eq\<close> Some eq eq' by (simp add: lossy_underflow_rolls)
        then show ?thesis using A C n [OF True] by simp
      next
        case False
        then have "lossy_underflow f p = Some (e', q')" using \<open>roll_snapshot f p = Some eq\<close> Some eq eq' by (simp add: lossy_underflow_rolls)
        then show ?thesis using A C False by (auto simp: above_offsets_def)
      qed
    qed
  qed
qed

text \<open>The greatest value of a field, and the value a field is clamped to.\<close>

definition field_mx :: "bkey_format \<Rightarrow> nat \<Rightarrow> u64" where
  "field_mx f i = field_offset f ! i + mask (bits_per_field f ! i)"

lemma field_mx_props:
  assumes "format_ok f" "i < 6"
  shows "unat (field_mx f i) = unat (field_offset f ! i) + (2 ^ (bits_per_field f ! i) - 1)" "field_fits f i (field_mx f i)"
    "field_mx f i - field_offset f ! i = mask (bits_per_field f ! i)"
    "field_fits f i v \<Longrightarrow> v \<le> field_mx f i" "\<not> field_fits f i v \<Longrightarrow> field_offset f ! i \<le> v \<Longrightarrow> field_mx f i < v"
    "unat v = 2 ^ (bits_per_field bch2_bkey_format_current ! i) - 1 \<Longrightarrow> field_fits f i v \<Longrightarrow> v = field_mx f i"
proof -
  let ?b = "bits_per_field f ! i" and ?u = "bits_per_field bch2_bkey_format_current ! i"
  have m: "unat (mask ?b :: u64) = 2 ^ ?b - 1" using format_okD(9) [OF assms] by (subst unat_mask) simp_all
  have le: "unat (field_offset f ! i) + 2 ^ ?b \<le> 2 ^ ?u" using format_okD(8) [OF assms] .
  have u: "(2 :: nat) ^ ?u \<le> 2 ^ 64" using unpacked_bits [OF assms(2)] by auto
  have 1: "(1 :: nat) \<le> 2 ^ ?b" by simp
  have "unat (field_offset f ! i) + (2 ^ ?b - 1) < 2 ^ 64" using le u 1 by linarith
  then show mx: "unat (field_mx f i) = unat (field_offset f ! i) + (2 ^ ?b - 1)" unfolding field_mx_def by (simp add: unat_word_ariths m)
  show "field_fits f i (field_mx f i)" unfolding field_fits_def word_le_nat_alt mx using 1 by linarith
  show "field_mx f i - field_offset f ! i = mask ?b" by (simp add: field_mx_def)
  show "field_fits f i v \<Longrightarrow> v \<le> field_mx f i" unfolding field_fits_def word_le_nat_alt mx by linarith
  show "\<not> field_fits f i v \<Longrightarrow> field_offset f ! i \<le> v \<Longrightarrow> field_mx f i < v"
    unfolding field_fits_def word_le_nat_alt word_less_nat_alt mx using 1 by linarith
  assume v: "unat v = 2 ^ ?u - 1" "field_fits f i v"
  have "(1 :: nat) \<le> 2 ^ ?u" by simp
  then have "unat v = unat (field_mx f i)" using v le 1 unfolding field_fits_def mx by linarith
  then show "v = field_mx f i" by (simp add: word_unat_eq_iff)
qed

definition clampf :: "bkey_format \<Rightarrow> nat \<Rightarrow> u64 \<Rightarrow> u64" where
  "clampf f i v = (if field_fits f i v then v else field_mx f i)"

lemma clampf_max:
  assumes "format_ok f"
  shows "clampf f 1 KEY_OFFSET_MAX = field_mx f 1" "clampf f 2 (ucast KEY_SNAPSHOT_MAX) = field_mx f 2"
  using field_mx_props(6) [OF assms, of 1 KEY_OFFSET_MAX] field_mx_props(6) [OF assms, of 2 "ucast KEY_SNAPSHOT_MAX"]
  unfolding unat_max_values by (simp_all add: clampf_def bch2_bkey_format_current_def)

lemma fls64_fits:
  assumes "field_offset f ! i \<le> v"
  shows "fls64 (v - field_offset f ! i) > bits_per_field f ! i \<longleftrightarrow> \<not> field_fits f i v"
  using assms by (auto simp: field_fits_def fls64_eq not_le [symmetric] nlen_le_iff unat_sub word_le_nat_alt)

lemma set_inc_field_lossy_eq:
  assumes "format_ok f" "ps_format st = f" "i < 6" "field_offset f ! i \<le> v"
  shows "set_inc_field_lossy st i v = map_option (\<lambda>(_, st'). (field_fits f i v, st')) (set_inc_field st i (clampf f i v))"
proof (cases "field_fits f i v")
  case True
  then have "\<not> fls64 (v - field_offset f ! i) > bits_per_field f ! i" using fls64_fits [OF assms(4)] by simp
  then show ?thesis using True assms by (simp add: set_inc_field_lossy_def set_inc_field_def clampf_def Let_def option.map_comp comp_def)
next
  case False
  let ?b = "bits_per_field f ! i"
  have b: "fls64 (v - field_offset f ! i) > ?b" using fls64_fits [OF assms(4)] False by simp
  then have "?b < 64" using fls64_le_64 [of "v - field_offset f ! i"] by simp
  note M = field_mx_props [OF assms(1,3)]
  have le: "field_offset f ! i \<le> field_mx f i" using M(2) by (simp add: field_fits_def)
  have m: "NOT (push_bit ?b (NOT 0)) = (mask ?b :: u64)" by simp
  have "\<not> fls64 (field_mx f i - field_offset f ! i) > ?b" unfolding fls64_fits [OF le] using M(2) by simp
  then show ?thesis using False b leD [OF le] leD [OF assms(4)] assms(2) M(3) unfolding set_inc_field_lossy_def set_inc_field_def clampf_def Let_def
    by (simp add: m option.map_comp comp_def)
qed

text \<open>The position that is packed instead of \<open>p\<close>.\<close>

definition lossy_target :: "bkey_format \<Rightarrow> bpos \<Rightarrow> u64 list" where
  "lossy_target f p =
    (if \<not> field_fits f 0 (inode p) then [field_mx f 0, field_mx f 1, field_mx f 2]
     else if \<not> field_fits f 1 (offset p) then [inode p, field_mx f 1, field_mx f 2]
     else if \<not> field_fits f 2 (ucast (snapshot p)) then [inode p, offset p, field_mx f 2]
     else bpos_fields p)"

definition target_pos :: "u64 list \<Rightarrow> bpos" where
  "target_pos vs = Bpos (vs ! 0) (vs ! 1) (ucast (vs ! 2))"

lemma ucast_u32_fields: "(ucast (ucast (s :: u32) :: u64) :: u32) = s"
  by (rule bit_word_eqI) (simp add: bit_ucast_iff)

lemma target_pos_fields: "target_pos (bpos_fields p) = p"
  by (cases p) (simp add: target_pos_def bpos_fields_def ucast_u32_fields)

lemma field_2_small: "format_ok f \<Longrightarrow> field_fits f 2 v \<Longrightarrow> (ucast (ucast v :: u32) :: u64) = v"
  using format_okD(8) [of f 2] by (intro ucast_32_64) (auto simp: field_fits_def bch2_bkey_format_current_def)

lemma lossy_target_fits: "format_ok f \<Longrightarrow> length (lossy_target f p) = 3 \<and> (\<forall>i<3. field_fits f i (lossy_target f p ! i))"
  using field_mx_props(2) [of f 0] field_mx_props(2) [of f 1] field_mx_props(2) [of f 2]
  by (auto simp: lossy_target_def bpos_fields_def numeral_3_eq_3 numeral_2_eq_2 less_Suc_eq)

lemma lossy_target_greatest:
  assumes f: "format_ok f" and p: "above_offsets f p"
  defines "q \<equiv> target_pos (lossy_target f p)"
  shows "representable f q" "bpos_le q p" "q = p \<longleftrightarrow> representable f p" "\<And>r. representable f r \<Longrightarrow> bpos_le r p \<Longrightarrow> bpos_le r q"
proof -
  have fit: "field_fits f i (lossy_target f p ! i)" if "i < 3" for i using lossy_target_fits [OF f] that by blast
  have u: "(ucast (snapshot q) :: u64) = lossy_target f p ! 2" unfolding q_def target_pos_def bpos.sel using field_2_small [OF f fit] by simp
  have qi: "inode q = lossy_target f p ! 0" "offset q = lossy_target f p ! 1" by (simp_all add: q_def target_pos_def)
  show rq: "representable f q" unfolding representable_def u qi using fit [of 0] fit [of 1] fit [of 2] by simp
  have o: "field_offset f ! 0 \<le> inode p" "field_offset f ! 1 \<le> offset p" "field_offset f ! 2 \<le> ucast (snapshot p)"
    using p by (simp_all add: above_offsets_def)
  have lt: "\<not> field_fits f 0 (inode p) \<Longrightarrow> field_mx f 0 < inode p" "\<not> field_fits f 1 (offset p) \<Longrightarrow> field_mx f 1 < offset p"
    "\<not> field_fits f 2 (ucast (snapshot p)) \<Longrightarrow> field_mx f 2 < ucast (snapshot p)"
    using field_mx_props(5) [OF f, of 0] field_mx_props(5) [OF f, of 1] field_mx_props(5) [OF f, of 2] o by simp_all
  have full: "representable f p \<Longrightarrow> q = p" by (simp add: q_def lossy_target_def representable_def target_pos_fields)
  then show "q = p \<longleftrightarrow> representable f p" using rq by auto
  have sq: "lossy_target f p ! 2 < ucast (snapshot p) \<Longrightarrow> snapshot q < snapshot p" using u by (metis ucast_32_less(1))
  show "bpos_le q p"
  proof (cases "representable f p")
    case True
    then show ?thesis using full by (simp add: bpos_le_def)
  next
    case False
    then show ?thesis using lt sq qi by (auto simp: bpos_le_def representable_def lossy_target_def)
  qed
  fix r
  assume r: "representable f r" "bpos_le r p"
  have m: "inode r \<le> field_mx f 0" "offset r \<le> field_mx f 1" "ucast (snapshot r) \<le> field_mx f 2"
    using r(1) field_mx_props(4) [OF f, of 0] field_mx_props(4) [OF f, of 1] field_mx_props(4) [OF f, of 2] by (simp_all add: representable_def)
  have sm: "lossy_target f p ! 2 = field_mx f 2 \<Longrightarrow> snapshot r \<le> snapshot q" using m(3) u by (metis ucast_32_less(2))
  show "bpos_le r q"
  proof (cases "representable f p")
    case True
    then show ?thesis using full r(2) by simp
  next
    case False
    then have "lossy_target f p ! 2 = field_mx f 2" by (auto simp: representable_def lossy_target_def)
    then have "snapshot r \<le> snapshot q" by (rule sm)
    then show ?thesis using False r(2) qi m lt
      by (auto simp: bpos_le_def representable_def lossy_target_def split: if_splits)
  qed
qed

section \<open>The packing routines\<close>

lemma set_pos_header_unpack:
  assumes "format_ok f" "key_u64s f \<le> length out" "pos_packed f out vs k" "\<forall>i<3. field_fits f i (vs ! i)"
  shows "raw_bkey_unpack_pos f (set_pos_header f k) = Some (target_pos vs)" "bkey_packed (set_pos_header f k)"
    "length (set_pos_header f k) = length out" "drop (key_u64s f) (set_pos_header f k) = drop (key_u64s f) out"
    "packed_pos f (set_pos_header f k) = target_pos vs"
proof -
  note K = format_okD(4,5) [OF assms(1)]
  have l: "length k = length out" and d: "drop (key_u64s f) k = drop (key_u64s f) out" using assms(3) by (simp_all add: pos_packed_def)
  have ne: "0 < length k" using l K(1) assms(2) by linarith
  have w: "field_word f (set_pos_header f k) i = vs ! i" if "i < 3" for i
    using assms(3) that field_word_fits [of f k i "vs ! i"] unfolding set_pos_header_def pos_packed_def
    by (simp add: field_word_set_kp_header [OF assms(1)])
  show len: "length (set_pos_header f k) = length out" by (simp add: set_pos_header_def l)
  show "drop (key_u64s f) (set_pos_header f k) = drop (key_u64s f) out" using K(1) d by (simp add: set_pos_header_def drop_set_kp_header)
  have h: "kp_u64s (set_pos_header f k) = word_of_nat (key_u64s f)" "kp_format (set_pos_header f k) = KEY_FORMAT_LOCAL_BTREE"
    unfolding set_pos_header_def using kp_set_header [OF ne] by (simp_all add: KEY_FORMAT_LOCAL_BTREE_def)
  then show "bkey_packed (set_pos_header f k)" by (simp add: bkey_packed_def KEY_FORMAT_LOCAL_BTREE_def KEY_FORMAT_CURRENT_def)
  have "unat (kp_u64s (set_pos_header f k)) = key_u64s f" unfolding h(1) using K(2) by (simp add: unat_of_nat)
  then show "raw_bkey_unpack_pos f (set_pos_header f k) = Some (target_pos vs)"
    using unpack_pos_spec [OF assms(1), of "set_pos_header f k"] len assms(2) h(2) w [of 0] w [of 1] w [of 2] by (simp add: target_pos_def)
  show "packed_pos f (set_pos_header f k) = target_pos vs" using w [of 0] w [of 1] w [of 2] by (simp add: packed_pos_def target_pos_def)
qed

text \<open>The memory that packing a position leaves, as a relation that has at most one result.\<close>

definition packs_as :: "bkey_format \<Rightarrow> bkey_packed \<Rightarrow> u64 list \<Rightarrow> bkey_packed \<Rightarrow> bool" where
  "packs_as f out vs out' \<longleftrightarrow> (\<exists>k. pos_packed f out vs k \<and> out' = set_pos_header f k)"

lemma pack_pos_exact_spec:
  assumes "format_ok f" "key_u64s f \<le> length out"
  shows "if representable f p then \<exists>out'. raw_bch2_bkey_pack_pos_exact out p f = Some (True, out') \<and> packs_as f out (bpos_fields p) out'
    else \<exists>out'. raw_bch2_bkey_pack_pos_exact out p f = Some (False, out')"
proof -
  have "length (bpos_fields p) = 3" by (simp add: bpos_fields_def)
  note S = set_pos_fields_spec [OF assms this]
  have nl: "\<not> length out < key_u64s f" using assms(2) by simp
  show ?thesis
  proof (cases "representable f p")
    case True
    then have F: "\<forall>i<3. field_fits f i (bpos_fields p ! i)" by (simp add: representable_iff)
    obtain st where st: "set_fields (pack_state_init f (zero_key f out)) (zip [0, 1, 2] (bpos_fields p)) = Some (True, st)"
      "pack_state_finish st = Some (pack_cur st)" "pos_packed f out (bpos_fields p) (pack_cur st)"
      using S [unfolded if_P [OF F]] by blast
    have "\<not> (ucast (snapshot p) < field_offset f ! 2 \<or> offset p < field_offset f ! 1 \<or> inode p < field_offset f ! 0)"
      using True by (auto simp: representable_def field_fits_def)
    then have "raw_bch2_bkey_pack_pos_exact out p f = Some (True, set_pos_header f (pack_cur st))"
      unfolding raw_bch2_bkey_pack_pos_exact_def Let_def if_not_P [OF nl] using st(1,2) by (simp only: if_False option.case prod.case) simp
    then show ?thesis unfolding if_P [OF True] using st(3) by (auto simp: packs_as_def)
  next
    case False
    then have F: "\<not> (\<forall>i<3. field_fits f i (bpos_fields p ! i))" by (simp add: representable_iff)
    obtain st where "set_fields (pack_state_init f (zero_key f out)) (zip [0, 1, 2] (bpos_fields p)) = Some (False, st)"
      using S [unfolded if_not_P [OF F]] by blast
    then show ?thesis unfolding if_not_P [OF False] raw_bch2_bkey_pack_pos_exact_def Let_def if_not_P [OF nl] by (simp only: option.case prod.case) auto
  qed
qed

lemma packs_as_unique: "format_ok f \<Longrightarrow> packs_as f out vs k \<Longrightarrow> packs_as f out vs k' \<Longrightarrow> k = k'"
  unfolding packs_as_def using pos_packed_unique by blast

text \<open>The single comparison of the fast routine detects values below the offset too, because they wrap around above the greatest
  value.\<close>

lemma wrapped_fls64:
  assumes "format_ok f" "i < 6" "unat v < 2 ^ (bits_per_field bch2_bkey_format_current ! i)"
  shows "fls64 (v - field_offset f ! i) > bits_per_field f ! i \<longleftrightarrow> \<not> field_fits f i v"
proof (cases "field_offset f ! i \<le> v")
  case True
  then show ?thesis by (rule fls64_fits)
next
  case False
  let ?x = "field_offset f ! i" and ?b = "bits_per_field f ! i"
  have le: "unat ?x + 2 ^ ?b \<le> 2 ^ 64" using format_okD(8) [OF assms(1,2)] unpacked_bits [OF assms(2)] by auto
  have lt: "unat v < unat ?x" using False by (simp add: word_le_nat_alt)
  have "unat (v - ?x) = 2 ^ 64 + unat v - unat ?x"
    using lt unsigned_less [of ?x, where ?'a = nat] by (simp add: unat_sub_if_size word_size not_le)
  then have "\<not> unat (v - ?x) < 2 ^ ?b" using le by linarith
  then show ?thesis using False by (simp add: fls64_eq nlen_le_iff field_fits_def not_le [symmetric])
qed

lemma fls64_representable:
  assumes "format_ok f"
  shows "fls64 (inode p - field_offset f ! 0) > bits_per_field f ! 0 \<or> fls64 (offset p - field_offset f ! 1) > bits_per_field f ! 1 \<or>
    fls64 (ucast (snapshot p) - field_offset f ! 2) > bits_per_field f ! 2 \<longleftrightarrow> \<not> representable f p"
proof -
  have "unat (w :: u64) < 2 ^ 64" for w using unsigned_less [of w, where ?'a = nat] by simp
  moreover have "unat (ucast (w :: u32) :: u64) < 2 ^ 32" for w using unsigned_less [of w, where ?'a = nat] by (simp add: unat_ucast_up)
  ultimately show ?thesis
    using wrapped_fls64 [OF assms, of 0 "inode p"] wrapped_fls64 [OF assms, of 1 "offset p"] wrapped_fls64 [OF assms, of 2 "ucast (snapshot p)"]
    by (auto simp: representable_def bch2_bkey_format_current_def)
qed

lemma pack_pos_spec:
  assumes "btree_ok b" "key_u64s (bt_format b) \<le> length out"
  shows "if representable (bt_format b) p
    then \<exists>out'. bch2_bkey_pack_pos pre out p b = Some (True, pre, out') \<and> packs_as (bt_format b) out (bpos_fields p) out'
    else \<exists>out'. bch2_bkey_pack_pos pre out p b = Some (False, pre, out')"
proof -
  define f where "f = bt_format b"
  have f: "format_ok f" using assms(1) by (simp add: btree_ok_def f_def)
  note len = assms(2) [folded f_def]
  have nl: "\<not> length out < key_u64s f" using len by simp
  show ?thesis
  proof (cases "byte_aligned_fields b")
    case False
    then show ?thesis using pack_pos_exact_spec [OF f len, of p] by (auto simp: bch2_bkey_pack_pos_def Let_def f_def split: if_splits)
  next
    case True
    note R = fls64_representable [OF f, of p]
    have D: "bch2_bkey_pack_pos pre out p b = (if \<not> representable f p then Some (False, pre, out)
        else map_option (\<lambda>M. (True, hd M, set_pos_header f (tl M))) (pack_fields_fast b (pre # zero_key f out)
          (inode p - field_offset f ! 0) (offset p - field_offset f ! 1) (ucast (snapshot p) - field_offset f ! 2)))"
      unfolding bch2_bkey_pack_pos_def Let_def f_def [symmetric] R if_not_P [OF nl] using True by simp
    have l3: "length (bpos_fields p) = 3" by (simp add: bpos_fields_def)
    show ?thesis
    proof (cases "representable f p")
      case rep: True
      then have "\<forall>i<3. field_fits (bt_format b) i (bpos_fields p ! i)" by (simp add: representable_iff f_def)
      then obtain k where "pack_fields_fast b (pre # zero_key f out) (inode p - field_offset f ! 0) (offset p - field_offset f ! 1)
          (ucast (snapshot p) - field_offset f ! 2) = Some (pre # k)" "pos_packed f out (bpos_fields p) k"
        using pack_fields_fast_spec [OF assms(1) True assms(2) l3, of pre] by (auto simp: bpos_fields_def f_def)
      then show ?thesis unfolding D f_def [symmetric] using rep by (auto simp: packs_as_def)
    next
      case False
      then show ?thesis unfolding D f_def [symmetric] by simp
    qed
  qed
qed

text \<open>Both lossy routines pack the same position.\<close>

definition lossy_ret :: "bool \<Rightarrow> bkey_pack_pos_ret" where
  "lossy_ret exact = (if exact then BKEY_PACK_POS_EXACT else BKEY_PACK_POS_SMALLER)"

lemma lossy_slow_spec:
  assumes f: "format_ok (bt_format b)" and len: "key_u64s (bt_format b) \<le> length out" and u: "lossy_underflow (bt_format b) p = Some (exact, q)"
    and a: "above_offsets (bt_format b) q"
  shows "\<exists>out'. raw_bch2_bkey_pack_pos_lossy out p b = Some (lossy_ret (exact \<and> representable (bt_format b) q), out') \<and>
    packs_as (bt_format b) out (lossy_target (bt_format b) q) out'"
proof -
  define g where "g = bt_format b"
  note f = f [folded g_def] and len = len [folded g_def] and u = u [folded g_def] and a = a [folded g_def]
  note F = lossy_target_fits [OF f, of q]
  define vs where "vs = lossy_target g q"
  have vs3: "vs = [vs ! 0, vs ! 1, vs ! 2]" using F by (simp add: vs_def list_eq_iff_nth_eq numeral_3_eq_3 less_Suc_eq numeral_2_eq_2)
  obtain st where st: "set_fields (pack_state_init g (zero_key g out)) (zip [0, 1, 2] vs) = Some (True, st)"
      "pack_state_finish st = Some (pack_cur st)" "pos_packed g out vs (pack_cur st)"
    using set_pos_fields_spec [OF f len, of vs] F unfolding vs_def by auto
  obtain s1 where s1: "set_inc_field (pack_state_init g (zero_key g out)) 0 (vs ! 0) = Some (True, s1)"
      "set_fields s1 [(1, vs ! 1), (2, vs ! 2)] = Some (True, st)"
    using st(1) by (subst (asm) vs3) (auto split: option.splits if_splits)
  obtain s2 where s2: "set_inc_field s1 1 (vs ! 1) = Some (True, s2)" "set_inc_field s2 2 (vs ! 2) = Some (True, st)"
    using s1(2) by (auto split: option.splits if_splits)
  have fmt: "ps_format st' = ps_format st" if "set_inc_field st i v = Some (ok, st')" for st i v ok st'
    using that by (auto simp: set_inc_field_def raw_set_inc_field_def Let_def split: if_splits option.splits)
  have g0: "ps_format (pack_state_init g (zero_key g out)) = g" by (simp add: pack_state_init_def)
  have g1: "ps_format s1 = g" using fmt [OF s1(1)] g0 by simp
  have g2: "ps_format s2 = g" using fmt [OF s2(1)] g1 by simp
  have o: "field_offset g ! 0 \<le> inode q" "field_offset g ! 1 \<le> offset q" "field_offset g ! 2 \<le> ucast (snapshot q)"
    using a by (simp_all add: above_offsets_def)
  have om: "field_offset g ! 1 \<le> KEY_OFFSET_MAX" "field_offset g ! 2 \<le> ucast KEY_SNAPSHOT_MAX"
    using le_max_values(1) offset_le_snapshot_max [OF f] by auto
  define q1 where "q1 = (if field_fits g 0 (inode q) then q else Bpos (inode q) KEY_OFFSET_MAX KEY_SNAPSHOT_MAX)"
  define q2 where "q2 = (if field_fits g 1 (offset q1) then q1 else Bpos (inode q1) (offset q1) KEY_SNAPSHOT_MAX)"
  have v: "vs ! 0 = clampf g 0 (inode q)" "vs ! 1 = clampf g 1 (offset q1)" "vs ! 2 = clampf g 2 (ucast (snapshot q2))"
    using clampf_max [OF f] by (auto simp: vs_def lossy_target_def q1_def q2_def clampf_def bpos_fields_def)
  have "set_inc_field_lossy (pack_state_init g (zero_key g out)) 0 (inode q) = Some (field_fits g 0 (inode q), s1)"
    using set_inc_field_lossy_eq [OF f g0 _ o(1)] s1(1) v(1) by simp
  moreover have "set_inc_field_lossy s1 1 (offset q1) = Some (field_fits g 1 (offset q1), s2)"
    using set_inc_field_lossy_eq [OF f g1, of 1 "offset q1"] s2(1) v(2) o(2) om(1) by (simp add: q1_def)
  moreover have "set_inc_field_lossy s2 2 (ucast (snapshot q2)) = Some (field_fits g 2 (ucast (snapshot q2)), st)"
    using set_inc_field_lossy_eq [OF f g2, of 2 "ucast (snapshot q2)"] s2(2) v(3) o(3) om(2) by (simp add: q1_def q2_def)
  moreover have "\<not> length out < key_u64s g" using len by simp
  ultimately have "raw_bch2_bkey_pack_pos_lossy out p b =
      Some (lossy_ret (exact \<and> field_fits g 0 (inode q) \<and> field_fits g 1 (offset q1) \<and> field_fits g 2 (ucast (snapshot q2))), set_pos_header g (pack_cur st))"
    using u st(2) unfolding raw_bch2_bkey_pack_pos_lossy_def g_def [symmetric] Let_def
    by (cases "field_fits g 0 (inode q)"; cases "field_fits g 1 (offset q1)"; cases "field_fits g 2 (ucast (snapshot q2))"; cases exact)
      (simp_all add: lossy_ret_def q1_def q2_def)
  moreover have "field_fits g 0 (inode q) \<and> field_fits g 1 (offset q1) \<and> field_fits g 2 (ucast (snapshot q2)) \<longleftrightarrow> representable g q"
    by (auto simp: representable_def q1_def q2_def)
  ultimately show ?thesis using st(3) unfolding g_def vs_def packs_as_def by auto
qed

lemma u64_bitmask_mask: "b \<le> 64 \<Longrightarrow> u64_bitmask b = mask b"
  by (rule bit_word_eqI) (auto simp: u64_bitmask_def bit_drop_bit_eq bit_mask_iff bit_not_iff possible_bit_def)

lemma lossy_fast_spec:
  assumes "btree_ok b" "byte_aligned_fields b" and len: "key_u64s (bt_format b) \<le> length out" and u: "lossy_underflow (bt_format b) p = Some (exact, q)"
    and a: "above_offsets (bt_format b) q"
  shows "\<exists>out'. bch2_bkey_pack_pos_lossy pre out p b = Some (lossy_ret (exact \<and> representable (bt_format b) q), pre, out') \<and>
    packs_as (bt_format b) out (lossy_target (bt_format b) q) out'"
proof -
  define g where "g = bt_format b"
  have f: "format_ok g" using assms(1) by (simp add: btree_ok_def g_def)
  note len' = len [folded g_def] and u' = u [folded g_def] and a' = a [folded g_def]
  note F = lossy_target_fits [OF f, of q]
  define vs where "vs = lossy_target g q"
  have o: "field_offset g ! 0 \<le> inode q" "field_offset g ! 1 \<le> offset q" "field_offset g ! 2 \<le> ucast (snapshot q)"
    using a' by (simp_all add: above_offsets_def)
  have fls: "fls64 (inode q - field_offset g ! 0) > bits_per_field g ! 0 \<longleftrightarrow> \<not> field_fits g 0 (inode q)"
    "fls64 (offset q - field_offset g ! 1) > bits_per_field g ! 1 \<longleftrightarrow> \<not> field_fits g 1 (offset q)"
    "fls64 (ucast (snapshot q) - field_offset g ! 2) > bits_per_field g ! 2 \<longleftrightarrow> \<not> field_fits g 2 (ucast (snapshot q))"
    using fls64_fits [OF o(1)] fls64_fits [OF o(2)] fls64_fits [OF o(3)] .
  have m: "u64_bitmask (bits_per_field g ! i) = field_mx g i - field_offset g ! i" if "i < 6" for i
    using field_mx_props(3) [OF f that] u64_bitmask_mask [OF format_okD(9) [OF f that]] by simp
  obtain k where k: "pack_fields_fast b (pre # zero_key g out) (vs ! 0 - field_offset g ! 0) (vs ! 1 - field_offset g ! 1)
      (vs ! 2 - field_offset g ! 2) = Some (pre # k)" "pos_packed g out vs k"
    using pack_fields_fast_spec [OF assms(1,2) len, of vs pre] F unfolding vs_def g_def by auto
  have nl: "\<not> length out < key_u64s g" using len' by simp
  have "bch2_bkey_pack_pos_lossy pre out p b = Some (lossy_ret (exact \<and> representable g q), pre, set_pos_header g k)"
    unfolding bch2_bkey_pack_pos_lossy_def g_def [symmetric] Let_def u' option.case prod.case fls if_not_P [OF nl] if_P [OF assms(2)]
    using k(1) by (auto simp: vs_def lossy_target_def m lossy_ret_def representable_def bpos_fields_def)
  then show ?thesis using k(2) unfolding vs_def g_def packs_as_def by blast
qed

lemma lossy_spec:
  assumes "btree_ok b" "key_u64s (bt_format b) \<le> length out"
  shows "case lossy_underflow (bt_format b) p of
      None \<Rightarrow> \<exists>out'. bch2_bkey_pack_pos_lossy pre out p b = Some (BKEY_PACK_POS_FAIL, pre, out')
    | Some (exact, q) \<Rightarrow> \<exists>out'. bch2_bkey_pack_pos_lossy pre out p b = Some (lossy_ret (exact \<and> representable (bt_format b) q), pre, out') \<and>
        packs_as (bt_format b) out (lossy_target (bt_format b) q) out'"
proof -
  have f: "format_ok (bt_format b)" using assms(1) by (simp add: btree_ok_def)
  have nl: "\<not> length out < key_u64s (bt_format b)" using assms(2) by simp
  show ?thesis
  proof (cases "lossy_underflow (bt_format b) p")
    case None
    then show ?thesis using nl by (auto simp: bch2_bkey_pack_pos_lossy_def raw_bch2_bkey_pack_pos_lossy_def Let_def)
  next
    case (Some eq)
    obtain exact q where eq: "eq = (exact, q)" by fastforce
    have a: "above_offsets (bt_format b) q" using lossy_underflow_spec [OF f, of p] Some eq by simp
    note u = Some [unfolded eq]
    show ?thesis
    proof (cases "byte_aligned_fields b")
      case True
      then show ?thesis using lossy_fast_spec [OF assms(1) True assms(2) u a, of pre] u by simp
    next
      case False
      then show ?thesis using lossy_slow_spec [OF f assms(2) u a] u by (auto simp: bch2_bkey_pack_pos_lossy_def Let_def)
    qed
  qed
qed

text \<open>The wrapped value need not have its highest bit set: in a valid format with a field of eight bits at the greatest possible offset,
  the value 0 wraps to a number of nine bits.\<close>

definition top_format :: bkey_format where
  "top_format = \<lparr>key_u64s = 1, nr_fields = BKEY_NR_FIELDS, bits_per_field = [8, 0, 0, 0, 0, 0], field_offset = [- 256, 0, 0, 0, 0, 0]\<rparr>"

lemma underflow_wraps_low: "format_ok top_format \<and> fls64 (0 - field_offset top_format ! 0) = 9"
  by (auto simp: format_ok_def top_format_def BKEY_NR_FIELDS_def bch2_bkey_format_current_def less_6_cases fls64_eq nlen_pos)

section \<open>Properties\<close>

text \<open>A node of any contents whose format has three fields that end at byte boundaries.\<close>

definition aligned_format :: bkey_format where
  "aligned_format = \<lparr>key_u64s = 3, nr_fields = BKEY_NR_FIELDS, bits_per_field = [16, 64, 32, 0, 0, 0], field_offset = [4096, 0, 0, 0, 0, 0]\<rparr>"

definition blank_node :: btree where
  "blank_node = \<lparr>bt_format = test_format, bt_nr_key_bits = 0, byte_aligned_fields = False,
     bt_unpack = replicate 6 \<lparr>byte_offset = 0, shift_right = 0\<rparr>\<rparr>"

lemma aligned_format_ok: "format_ok aligned_format"
  by (auto simp: format_ok_def aligned_format_def BKEY_NR_FIELDS_def bch2_bkey_format_current_def less_6_cases)

lemma blank_node_length: "length (bt_unpack blank_node) = 6"
  by (simp add: blank_node_def)

lemma set_format_format: "bt_format (btree_node_set_format b f) = f"
  by (simp add: btree_node_set_format_def bch2_compute_bkey_unpack_consts_def unpack_consts_keeps)

text \<open>The node uses the fast routines.\<close>

lemma aligned_format_fast: "byte_aligned_fields (btree_node_set_format blank_node aligned_format)"
  by (simp add: btree_node_set_format_def bch2_compute_bkey_unpack_consts_def aligned_format_def BKEY_NR_FIELDS_def upt_6 Let_def)

lemma ucast_64_32: "(ucast (ucast (w :: u32) :: u64) :: u32) = w"
  by (rule bit_word_eqI) (auto simp: bit_unsigned_iff possible_bit_def dest: bit_imp_le_length)

lemma unpack_key_pos:
  assumes "format_ok f" "packed_ok f k"
  shows "\<exists>u. raw_bch2_bkey_unpack_key f k = Some u \<and> raw_bkey_unpack_pos f k = Some (k_p u)"
proof -
  obtain u where u: "raw_bch2_bkey_unpack_key f k = Some u" "unpacked_as f k u" using unpack_key_spec [OF assms] by blast
  then have w: "field_word f k 0 = inode (k_p u)" "field_word f k 1 = offset (k_p u)" "field_word f k 2 = ucast (snapshot (k_p u))"
    unfolding unpacked_as_def bkey_fields_def upt_6 by auto
  then have "Bpos (field_word f k 0) (field_word f k 1) (ucast (field_word f k 2)) = k_p u"
    unfolding w ucast_64_32 by simp
  then show ?thesis using u(1) unpack_pos_spec [OF assms(1)] assms(2) by (simp add: packed_ok_def)
qed

text \<open>C12. For every valid format that a node is given, the unpacking routines that read fields with unaligned loads agree with the ones that
  extract fields bit by bit, whatever the word before the key is; both succeed, and the position is that of the key.\<close>

theorem bkey_unpack_fast_eq:
  assumes "format_ok f" "length (bt_unpack b) = 6" "packed_ok f k"
  shows "raw_bch2_bkey_unpack_key_b (btree_node_set_format b f) pre k = raw_bch2_bkey_unpack_key f k \<and>
    raw_bkey_unpack_pos_b (btree_node_set_format b f) pre k = raw_bkey_unpack_pos f k \<and>
    (\<exists>u. raw_bch2_bkey_unpack_key f k = Some u \<and> raw_bkey_unpack_pos f k = Some (k_p u))"
proof -
  note ok = set_format_btree_ok [OF assms(1,2)]
  have "raw_bch2_bkey_unpack_key_b (btree_node_set_format b f) pre k = raw_bch2_bkey_unpack_key f k"
    using unpack_key_b_eq [OF ok, of k] assms(3) by (simp add: set_format_format)
  moreover have "raw_bkey_unpack_pos_b (btree_node_set_format b f) pre k = raw_bkey_unpack_pos f k"
    using unpack_pos_b_spec(1) [OF ok, of k] assms(3) by (simp add: set_format_format packed_ok_def)
  ultimately show ?thesis using unpack_key_pos [OF assms(1,3)] by blast
qed

lemma aligned_packed_ok: "packed_ok aligned_format [4, 0x123456789abcdef0, 0xfedc, 77]"
  by (simp add: packed_ok_def kp_u64s_def kp_format_def aligned_format_def KEY_FORMAT_LOCAL_BTREE_def BKEY_U64s_def)

theorem bkey_unpack_fast_eq_witness:
  "raw_bch2_bkey_unpack_key_b (btree_node_set_format blank_node aligned_format) 99 [4, 0x123456789abcdef0, 0xfedc, 77] =
     raw_bch2_bkey_unpack_key aligned_format [4, 0x123456789abcdef0, 0xfedc, 77]"
  using bkey_unpack_fast_eq [OF aligned_format_ok blank_node_length aligned_packed_ok, of 99] by blast

text \<open>A key as a comparison sees it: the packed ones are well formed for the format of the node.\<close>

fun any_ok :: "bkey_format \<Rightarrow> any_key \<Rightarrow> bool" where
  "any_ok f (Packed pre k) \<longleftrightarrow> packed_ok f k"
| "any_ok f (Unpacked k) \<longleftrightarrow> True"

fun any_pos :: "bkey_format \<Rightarrow> any_key \<Rightarrow> bpos option" where
  "any_pos f (Packed pre k) = raw_bkey_unpack_pos f k"
| "any_pos f (Unpacked k) = Some (k_p k)"

lemma packed_pos_unpack:
  assumes "format_ok f" "packed_ok f k"
  shows "raw_bkey_unpack_pos f k = Some (packed_pos f k)"
  using unpack_pos_spec [OF assms(1)] assms(2) by (simp add: packed_ok_def packed_pos_def)

text \<open>C11. Comparing keys in packed form is comparing their positions: whatever of the two keys is packed, the comparison of the bits of two
  packed keys, of a packed key with an unpacked one and of a packed key with a position returns what \<^verbatim>\<open>bpos_cmp\<close> returns on the
  unpacked positions.\<close>

theorem bkey_cmp_packed_correct:
  assumes "format_ok f" "length (bt_unpack b) = 6" "any_ok f l" "any_ok f r"
  shows "\<exists>p q. any_pos f l = Some p \<and> any_pos f r = Some q \<and>
    bch2_bkey_cmp_packed (btree_node_set_format b f) l r = Some (bpos_cmp p q) \<and>
    raw_bch2_bkey_cmp_left_packed (btree_node_set_format b f) l q = Some (bpos_cmp p q)"
proof -
  let ?b = "btree_node_set_format b f"
  note ok = set_format_btree_ok [OF assms(1,2)]
  have key: "\<exists>u. raw_bch2_bkey_unpack_key_b ?b pre k = Some u \<and> raw_bkey_unpack_pos_b ?b pre k = Some (k_p u) \<and> k_p u = packed_pos f k"
    if "packed_ok f k" for pre k
    using unpack_key_b_eq [OF ok, of k pre] unpack_pos_b_spec(1) [OF ok, of k pre] unpack_key_pos [OF assms(1) that]
      packed_pos_unpack [OF assms(1) that] that by (auto simp: set_format_format packed_ok_def)
  have two: "raw_bch2_bkey_cmp_packed_format_checked k k' ?b = Some (bpos_cmp (packed_pos f k) (packed_pos f k'))"
    if "packed_ok f k" "packed_ok f k'" for k k'
    using cmp_packed_spec [OF ok, of k k'] that
    by (simp add: set_format_format packed_ok_def bkey_packed_def KEY_FORMAT_LOCAL_BTREE_def KEY_FORMAT_CURRENT_def)
  show ?thesis
  proof (cases l)
    case (Packed pre k)
    then have k: "packed_ok f k" using assms(3) by simp
    show ?thesis using Packed key [OF k, of pre] packed_pos_unpack [OF assms(1) k] two [OF k] assms(4)
      by (cases r) (auto simp: bch2_bkey_cmp_packed_def raw_bch2_bkey_cmp_left_packed_def packed_pos_unpack [OF assms(1)])
  next
    case (Unpacked u)
    show ?thesis
    proof (cases r)
      case (Packed pre k)
      then have k: "packed_ok f k" using assms(4) by simp
      show ?thesis using Packed Unpacked key [OF k, of pre] packed_pos_unpack [OF assms(1) k]
        by (auto simp: bch2_bkey_cmp_packed_def raw_bch2_bkey_cmp_left_packed_def)
    next
      case (Unpacked u')
      then show ?thesis using \<open>l = Unpacked u\<close> by (simp add: bch2_bkey_cmp_packed_def raw_bch2_bkey_cmp_left_packed_def)
    qed
  qed
qed

theorem bkey_cmp_packed_correct_witness:
  "\<exists>p. any_pos aligned_format (Packed 7 [4, 0x123456789abcdef0, 0xfedc, 77]) = Some p \<and>
     bch2_bkey_cmp_packed (btree_node_set_format blank_node aligned_format) (Packed 7 [4, 0x123456789abcdef0, 0xfedc, 77]) (Unpacked test_key) =
       Some (bpos_cmp p (k_p test_key))"
  using bkey_cmp_packed_correct [OF aligned_format_ok blank_node_length, of "Packed 7 [4, 0x123456789abcdef0, 0xfedc, 77]" "Unpacked test_key"]
    aligned_packed_ok by (simp only: any_ok.simps any_pos.simps option.inject simp_thms) blast

text \<open>C38. Packing a position is exact: on a node with a valid format, \<^verbatim>\<open>bch2_bkey_pack_pos\<close> succeeds exactly when every field of the
  position can be represented, the result is a packed key of that position, the words before and behind the key are unchanged, and the
  routine with unaligned stores leaves the same memory as the one that writes the fields bit by bit.\<close>

theorem bkey_pack_pos_exact:
  assumes "format_ok f" "length (bt_unpack b) = 6" "key_u64s f \<le> length out"
  shows "if representable f p
    then \<exists>out'. bch2_bkey_pack_pos pre out p (btree_node_set_format b f) = Some (True, pre, out') \<and>
      raw_bch2_bkey_pack_pos_exact out p f = Some (True, out') \<and> bkey_packed out' \<and> raw_bkey_unpack_pos f out' = Some p \<and>
      length out' = length out \<and> drop (key_u64s f) out' = drop (key_u64s f) out
    else \<exists>out'. bch2_bkey_pack_pos pre out p (btree_node_set_format b f) = Some (False, pre, out')"
proof (cases "representable f p")
  case True
  note ok = set_format_btree_ok [OF assms(1,2)]
  obtain out' where 1: "bch2_bkey_pack_pos pre out p (btree_node_set_format b f) = Some (True, pre, out')" "packs_as f out (bpos_fields p) out'"
    using pack_pos_spec [OF ok, of out p pre] assms(3) True by (auto simp: set_format_format)
  obtain out'' where 2: "raw_bch2_bkey_pack_pos_exact out p f = Some (True, out'')" "packs_as f out (bpos_fields p) out''"
    using pack_pos_exact_spec [OF assms(1,3), of p] True by auto
  have eq: "out'' = out'" using packs_as_unique [OF assms(1)] 1(2) 2(2) by blast
  obtain k where k: "pos_packed f out (bpos_fields p) k" "out' = set_pos_header f k" using 1(2) by (auto simp: packs_as_def)
  have F: "\<forall>i<3. field_fits f i (bpos_fields p ! i)" using True by (simp add: representable_iff)
  have "target_pos (bpos_fields p) = p" by (cases p) (simp add: target_pos_def bpos_fields_def ucast_64_32)
  then show ?thesis unfolding if_P [OF True] using 1(1) 2(1) eq set_pos_header_unpack(1-4) [OF assms(1,3) k(1) F] k(2) by auto
next
  case False
  then show ?thesis using pack_pos_spec [OF set_format_btree_ok [OF assms(1,2)], of out p pre] assms(3) by (simp add: set_format_format)
qed

theorem bkey_pack_pos_exact_witness:
  "\<exists>out'. bch2_bkey_pack_pos 9 [1, 2, 3, 4] (Bpos 5000 6 7) (btree_node_set_format blank_node aligned_format) = Some (True, 9, out') \<and>
     raw_bkey_unpack_pos aligned_format out' = Some (Bpos 5000 6 7) \<and> drop 3 out' = [4]"
proof -
  have r: "representable aligned_format (Bpos 5000 6 7)"
    by (simp add: representable_def field_fits_def aligned_format_def)
  have K: "key_u64s aligned_format = 3" by (simp add: aligned_format_def)
  show ?thesis using bkey_pack_pos_exact [OF aligned_format_ok blank_node_length, of "[1, 2, 3, 4]" "Bpos 5000 6 7" 9] K r by auto
qed

text \<open>C5. Rounding down: on a node with a valid format, \<^verbatim>\<open>bch2_bkey_pack_pos_lossy\<close> fails exactly when no position at or before the one
  given can be represented; it answers \<^verbatim>\<open>EXACT\<close> exactly when the position itself can be represented; and the result is a packed key
  of the greatest position that can be represented and is not after the one given.  The words before and behind the key are unchanged.\<close>

theorem bkey_pack_pos_lossy_greatest:
  assumes "format_ok f" "length (bt_unpack b) = 6" "key_u64s f \<le> length out"
  shows "if \<exists>r. representable f r \<and> bpos_le r p
    then \<exists>out' q. bch2_bkey_pack_pos_lossy pre out p (btree_node_set_format b f) =
        Some (if representable f p then BKEY_PACK_POS_EXACT else BKEY_PACK_POS_SMALLER, pre, out') \<and>
      bkey_packed out' \<and> raw_bkey_unpack_pos f out' = Some q \<and> representable f q \<and> bpos_le q p \<and>
      (\<forall>r. representable f r \<and> bpos_le r p \<longrightarrow> bpos_le r q) \<and> (representable f p \<longrightarrow> q = p) \<and>
      length out' = length out \<and> drop (key_u64s f) out' = drop (key_u64s f) out
    else \<exists>out'. bch2_bkey_pack_pos_lossy pre out p (btree_node_set_format b f) = Some (BKEY_PACK_POS_FAIL, pre, out')"
proof (cases "lossy_underflow f p")
  case None
  then show ?thesis using lossy_underflow_spec [OF assms(1), of p] lossy_spec [OF set_format_btree_ok [OF assms(1,2)], where out = out and p = p and pre = pre] assms(3)
    by (auto simp: set_format_format)
next
  case (Some e)
  obtain exact q where e: "e = (exact, q)" by fastforce
  have U: "above_offsets f q" "exact \<Longrightarrow> q = p" "\<not> exact \<Longrightarrow> \<not> representable f p"
    "\<And>r. representable f r \<Longrightarrow> bpos_le r p \<longleftrightarrow> bpos_le r q"
    using lossy_underflow_spec [OF assms(1), of p] Some e by auto
  define t where "t = target_pos (lossy_target f q)"
  note T = lossy_target_greatest [OF assms(1) U(1), folded t_def]
  have tp: "bpos_le t p" using U(4) [OF T(1)] T(2) by simp
  have ex: "exact \<and> representable f q \<longleftrightarrow> representable f p" using U(2,3) by blast
  obtain out' where o: "bch2_bkey_pack_pos_lossy pre out p (btree_node_set_format b f) = Some (lossy_ret (exact \<and> representable f q), pre, out')"
      "packs_as f out (lossy_target f q) out'"
    using lossy_spec [OF set_format_btree_ok [OF assms(1,2)], where out = out and p = p and pre = pre] assms(3) Some e by (auto simp: set_format_format)
  obtain k where k: "pos_packed f out (lossy_target f q) k" "out' = set_pos_header f k" using o(2) by (auto simp: packs_as_def)
  have F: "\<forall>i<3. field_fits f i (lossy_target f q ! i)" using lossy_target_fits [OF assms(1)] by blast
  note H = set_pos_header_unpack(1-4) [OF assms(1,3) k(1) F, folded t_def k(2)]
  have "representable f p \<Longrightarrow> t = p" using ex U(2) T(3) by blast
  moreover have "\<forall>r. representable f r \<and> bpos_le r p \<longrightarrow> bpos_le r t" using U(4) T(4) by blast
  moreover have "\<exists>r. representable f r \<and> bpos_le r p" using T(1) tp by blast
  ultimately show ?thesis using o(1) H T(1) tp unfolding ex lossy_ret_def by auto
qed

text \<open>A position whose inode number is too big for the format is rounded down.\<close>

theorem bkey_pack_pos_lossy_greatest_witness:
  "\<exists>out' q. bch2_bkey_pack_pos_lossy 9 [1, 2, 3, 4] (Bpos 100000 6 7) (btree_node_set_format blank_node aligned_format) =
      Some (BKEY_PACK_POS_SMALLER, 9, out') \<and> raw_bkey_unpack_pos aligned_format out' = Some q \<and> bpos_le q (Bpos 100000 6 7)"
proof -
  have r: "representable aligned_format (Bpos 5000 6 7)" "bpos_le (Bpos 5000 6 7) (Bpos 100000 6 7)"
    by (simp_all add: representable_def field_fits_def aligned_format_def bpos_le_def)
  then have e: "\<exists>r. representable aligned_format r \<and> bpos_le r (Bpos 100000 6 7)" by blast
  have n: "\<not> representable aligned_format (Bpos 100000 6 7)"
    by (simp add: representable_def field_fits_def aligned_format_def)
  have K: "key_u64s aligned_format = 3" by (simp add: aligned_format_def)
  show ?thesis
    using bkey_pack_pos_lossy_greatest [OF aligned_format_ok blank_node_length, where out = "[1, 2, 3, 4]" and p = "Bpos 100000 6 7" and pre = 9, unfolded if_P [OF e] if_not_P [OF n]] K
    by auto
qed

end
