(* ===== verification/Fifo.thy ===== *)
theory Fifo
  imports Bitops
begin

text \<open>
  The ring buffers of \<^verbatim>\<open>fs/util/fifo.h\<close>, a family of macros over
  \<^verbatim>\<open>struct { index_type front, back, size, mask; type *data; }\<close>. The index type is any unsigned type
  (\<^verbatim>\<open>u16\<close> in the six locks, \<^verbatim>\<open>u32\<close>, \<^verbatim>\<open>u64\<close> or \<^verbatim>\<open>size_t\<close> elsewhere) and is the word length
  \<open>'i\<close> here; \<open>front\<close> and \<open>back\<close> run freely and wrap, and are masked when the buffer is read.

  \<open>data\<close> is the buffer, or \<open>None\<close> for a null pointer. An access outside the buffer is \<open>None\<close>.
  The contents of memory from \<^verbatim>\<open>kvmalloc\<close> and whether it succeeds are arguments.

  The locale \<open>bounded_deque\<close> is what a user of a fifo relies on: the operations act on a list of
  bounded length. It is interpreted on the macros' definitions, and its lemmas show that whole
  sequences of operations behave as on the list.
\<close>

unbundle bit_operations_syntax

section \<open>State and operations\<close>

record (overloaded) ('i, 'e) fifo =
  f_front :: "'i word"
  f_back :: "'i word"
  f_size :: "'i word"
  f_mask :: "'i word"
  f_data :: "'e list option"

text \<open>Sizes of buffers are counted in elements instead of bytes.\<close>

definition fifo_buf_size :: "('i::len, 'e) fifo \<Rightarrow> nat" where
  "fifo_buf_size f = (if f_size f \<noteq> 0 then unat (roundup_pow_of_two (ucast (f_size f))) else 0)"

definition init_fifo :: "'i::len word \<Rightarrow> (nat \<Rightarrow> 'e list option) \<Rightarrow> ('i, 'e) fifo" where
  "init_fifo sz kvmalloc =
     (let f = \<lparr>f_front = 0, f_back = 0, f_size = sz,
               f_mask = (if sz \<noteq> 0 then ucast (roundup_pow_of_two (ucast sz) - 1) else 0),
               f_data = None\<rparr>
      in f\<lparr>f_data := kvmalloc (fifo_buf_size f)\<rparr>)"

definition free_fifo :: "('i::len, 'e) fifo \<Rightarrow> ('i, 'e) fifo" where
  "free_fifo f = f\<lparr>f_data := None\<rparr>"

definition fifo_used :: "('i::len, 'e) fifo \<Rightarrow> 'i word" where
  "fifo_used f = f_back f - f_front f"

definition fifo_free :: "('i::len, 'e) fifo \<Rightarrow> 'i word" where
  "fifo_free f = f_size f - fifo_used f"

definition fifo_empty :: "('i::len, 'e) fifo \<Rightarrow> bool" where
  "fifo_empty f \<longleftrightarrow> f_front f = f_back f"

definition fifo_full :: "('i::len, 'e) fifo \<Rightarrow> bool" where
  "fifo_full f \<longleftrightarrow> fifo_used f = f_size f"

definition data_get :: "('i, 'e) fifo \<Rightarrow> nat \<Rightarrow> 'e option" where
  "data_get f i =
     (case f_data f of None \<Rightarrow> None | Some d \<Rightarrow> if i < length d then Some (d ! i) else None)"

definition data_set :: "('i, 'e) fifo \<Rightarrow> nat \<Rightarrow> 'e \<Rightarrow> ('i, 'e) fifo option" where
  "data_set f i x =
     (case f_data f of None \<Rightarrow> None
      | Some d \<Rightarrow> if i < length d then Some (f\<lparr>f_data := Some (d[i := x])\<rparr>) else None)"

definition fifo_entry :: "('i::len, 'e) fifo \<Rightarrow> 'i word \<Rightarrow> 'e option" where
  "fifo_entry f idx = data_get f (unat (idx AND f_mask f))"

definition fifo_peek_front :: "('i::len, 'e) fifo \<Rightarrow> 'e option" where
  "fifo_peek_front f = fifo_entry f (f_front f)"

definition fifo_peek_back :: "('i::len, 'e) fifo \<Rightarrow> 'e option" where
  "fifo_peek_back f = fifo_entry f (f_back f - 1)"

text \<open>A pointer into the buffer is its index in the buffer.\<close>

definition fifo_entry_idx_abs :: "('i::len, 'e) fifo \<Rightarrow> 'i word \<Rightarrow> 'i word" where
  "fifo_entry_idx_abs f p =
     ((if p \<ge> f_front f AND f_mask f then f_front f else f_back f) AND NOT (f_mask f)) + p"

definition fifo_entry_idx :: "('i::len, 'e) fifo \<Rightarrow> 'i word \<Rightarrow> 'i word" where
  "fifo_entry_idx f p = (p - (f_front f AND f_mask f)) AND f_mask f"

definition fifo_idx_entry :: "('i::len, 'e) fifo \<Rightarrow> 'i word \<Rightarrow> 'e option" where
  "fifo_idx_entry f i = data_get f (unat ((f_front f + i) AND f_mask f))"

text \<open>A reference returned by a push is the masked index; \<open>None\<close> is the null pointer.\<close>

definition fifo_push_back_ref :: "('i::len, 'e) fifo \<Rightarrow> ('i, 'e) fifo \<times> nat option" where
  "fifo_push_back_ref f =
     (if fifo_full f then (f, None)
      else (f\<lparr>f_back := f_back f + 1\<rparr>, Some (unat (f_back f AND f_mask f))))"

definition fifo_push_front_ref :: "('i::len, 'e) fifo \<Rightarrow> ('i, 'e) fifo \<times> nat option" where
  "fifo_push_front_ref f =
     (if fifo_full f then (f, None)
      else (f\<lparr>f_front := f_front f - 1\<rparr>, Some (unat ((f_front f - 1) AND f_mask f))))"

definition fifo_push_back :: "('i::len, 'e) fifo \<Rightarrow> 'e \<Rightarrow> (('i, 'e) fifo \<times> bool) option" where
  "fifo_push_back f x =
     (case fifo_push_back_ref f of
        (f', None) \<Rightarrow> Some (f', False)
      | (f', Some r) \<Rightarrow> map_option (\<lambda>f''. (f'', True)) (data_set f' r x))"

definition fifo_push_front :: "('i::len, 'e) fifo \<Rightarrow> 'e \<Rightarrow> (('i, 'e) fifo \<times> bool) option" where
  "fifo_push_front f x =
     (case fifo_push_front_ref f of
        (f', None) \<Rightarrow> Some (f', False)
      | (f', Some r) \<Rightarrow> map_option (\<lambda>f''. (f'', True)) (data_set f' r x))"

text \<open>A pop of an empty fifo returns false, \<open>Some (f, None)\<close>.\<close>

definition fifo_pop_front :: "('i::len, 'e) fifo \<Rightarrow> (('i, 'e) fifo \<times> 'e option) option" where
  "fifo_pop_front f =
     (if \<not> fifo_empty f
      then map_option (\<lambda>x. (f\<lparr>f_front := f_front f + 1\<rparr>, Some x)) (data_get f (unat (f_front f AND f_mask f)))
      else Some (f, None))"

definition fifo_pop_back :: "('i::len, 'e) fifo \<Rightarrow> (('i, 'e) fifo \<times> 'e option) option" where
  "fifo_pop_back f =
     (if \<not> fifo_empty f
      then map_option (\<lambda>x. (f\<lparr>f_back := f_back f - 1\<rparr>, Some x)) (data_get f (unat ((f_back f - 1) AND f_mask f)))
      else Some (f, None))"

definition fifo_swap :: "('i, 'e) fifo \<Rightarrow> ('i, 'e) fifo \<Rightarrow> ('i, 'e) fifo \<times> ('i, 'e) fifo" where
  "fifo_swap l r =
     (l\<lparr>f_front := f_front r, f_back := f_back r, f_size := f_size r, f_mask := f_mask r, f_data := f_data r\<rparr>,
      r\<lparr>f_front := f_front l, f_back := f_back l, f_size := f_size l, f_mask := f_mask l, f_data := f_data l\<rparr>)"

text \<open>\<open>fifo_move\<close> pops before it pushes, and stops when the destination is full.\<close>

lemma fifo_pop_front_used:
  "fifo_pop_front f = Some (f', Some x) \<Longrightarrow> unat (fifo_used f') < unat (fifo_used f)"
  unfolding fifo_pop_front_def fifo_used_def fifo_empty_def
  by (auto simp: diff_diff_eq [symmetric] unat_minus_one unat_gt_0 split: if_splits)

function fifo_move :: "('i::len, 'e) fifo \<Rightarrow> ('i, 'e) fifo \<Rightarrow> (('i, 'e) fifo \<times> ('i, 'e) fifo) option" where
  "fifo_move dest src =
     (if fifo_full dest then Some (dest, src) else
      case fifo_pop_front src of
        None \<Rightarrow> None
      | Some (src', None) \<Rightarrow> Some (dest, src')
      | Some (src', Some t) \<Rightarrow>
          (case fifo_push_back dest t of
             None \<Rightarrow> None
           | Some (dest', _) \<Rightarrow> fifo_move dest' src'))"
  by pat_completeness auto
termination
  by (relation "measure (\<lambda>(dest, src). unat (fifo_used src))") (auto dest: fifo_pop_front_used)

declare fifo_move.simps [simp del]

text \<open>The loops over the entries collect what the loop body sees.\<close>

function fifo_for_each_entry_from :: "('i::len, 'e) fifo \<Rightarrow> 'i word \<Rightarrow> 'e option list" where
  "fifo_for_each_entry_from f iter =
     (if iter \<noteq> f_back f then fifo_entry f iter # fifo_for_each_entry_from f (iter + 1) else [])"
  by pat_completeness auto
termination
  by (relation "measure (\<lambda>(f, iter). unat (f_back f - iter))")
     (auto simp: diff_diff_eq [symmetric] unat_minus_one unat_gt_0)

definition fifo_for_each_entry :: "('i::len, 'e) fifo \<Rightarrow> 'e option list" where
  "fifo_for_each_entry f = fifo_for_each_entry_from f (f_front f)"

function fifo_for_each_entry_reverse_from :: "('i::len, 'e) fifo \<Rightarrow> 'i word \<Rightarrow> 'e option list" where
  "fifo_for_each_entry_reverse_from f iter =
     (if iter \<noteq> f_front f
      then fifo_entry f (iter - 1) # fifo_for_each_entry_reverse_from f (iter - 1) else [])"
  by pat_completeness auto
termination
  by (relation "measure (\<lambda>(f, iter). unat (iter - f_front f))")
     (auto simp: diff_right_commute [of _ 1] unat_minus_one unat_gt_0)

definition fifo_for_each_entry_ptr_reverse :: "('i::len, 'e) fifo \<Rightarrow> 'e option list" where
  "fifo_for_each_entry_ptr_reverse f = fifo_for_each_entry_reverse_from f (f_back f)"

declare fifo_for_each_entry_from.simps [simp del] fifo_for_each_entry_reverse_from.simps [simp del]

text \<open>Growing copies the old buffer to both halves of the new one, whose initial contents are
  \<open>new_data\<close>.\<close>

definition raw_fifo_grow :: "('i::len, 'e) fifo \<Rightarrow> 'e list \<Rightarrow> u64 \<Rightarrow> (('i, 'e) fifo \<times> 'e list) option" where
  "raw_fifo_grow f new_data new_size =
     (case f_data f of None \<Rightarrow> None | Some old_data \<Rightarrow>
      case mem_read old_data 0 (fifo_buf_size f) of None \<Rightarrow> None | Some old \<Rightarrow>
      case mem_write new_data 0 old of None \<Rightarrow> None | Some new1 \<Rightarrow>
      case mem_write new1 (unat (f_mask f) + 1) old of None \<Rightarrow> None | Some new2 \<Rightarrow>
      Some (f\<lparr>f_size := ucast new_size, f_mask := ucast (roundup_pow_of_two new_size - 1)\<rparr>, new2))"

text \<open>\<^verbatim>\<open>size * 2\<close> is computed at the width of the index type, but not below that of \<^verbatim>\<open>int\<close>.\<close>

definition double_size :: "'i::len word \<Rightarrow> u64" where
  "double_size sz = (if LENGTH('i) \<le> 32 then ucast ((ucast sz :: u32) * 2) else ucast sz * 2)"

definition fifo_grow :: "('i::len, 'e) fifo \<Rightarrow> (nat \<Rightarrow> 'e list option) \<Rightarrow> (('i, 'e) fifo \<times> bool) option" where
  "fifo_grow f kvmalloc =
     (let osize = fifo_buf_size f; new_size = double_size (f_size f) in
      case kvmalloc (osize * 2) of
        None \<Rightarrow> Some (f, False)
      | Some new_data \<Rightarrow>
          map_option (\<lambda>(f', d). (f'\<lparr>f_data := Some d\<rparr>, True)) (raw_fifo_grow f new_data new_size))"

section \<open>Invariant and contents\<close>

text \<open>\<open>f_bits\<close> is the number of bits of the mask; the buffer has \<open>2 ^ f_bits f\<close> elements, the least power
  of two that holds \<open>f_size f\<close>.\<close>

definition f_bits :: "('i::len, 'e) fifo \<Rightarrow> nat" where
  "f_bits f = nlen (unat (f_size f) - 1)"

definition fifo_inv :: "('i::len, 'e) fifo \<Rightarrow> bool" where
  "fifo_inv f \<longleftrightarrow>
     f_size f \<noteq> 0 \<and> f_mask f = mask (f_bits f) \<and>
     fifo_used f \<le> f_size f \<and> map_option length (f_data f) = Some (2 ^ f_bits f)"

definition fifo_list :: "('i::len, 'e) fifo \<Rightarrow> 'e list" where
  "fifo_list f =
     map (\<lambda>i. the (f_data f) ! ((unat (f_front f) + i) mod 2 ^ f_bits f)) [0..<unat (fifo_used f)]"

lemma f_bits_le: "f_bits (f :: ('i::len, 'e) fifo) \<le> LENGTH('i)"
  using unsigned_less [of "f_size f", where ?'a = nat] by (simp add: f_bits_def nlen_le_iff less_imp_diff_less)

lemma f_size_le: "unat (f_size f) \<le> 2 ^ f_bits f"
  using nlen_upper [of "unat (f_size f) - 1"] by (simp add: f_bits_def)

lemma unat_mod_2p:
  assumes "k \<le> LENGTH('a)"
  shows "unat (w + of_nat i :: 'a::len word) mod 2 ^ k = (unat w + i) mod 2 ^ k"
proof -
  have d: "(2 :: nat) ^ k dvd 2 ^ LENGTH('a)" using assms by (simp add: le_imp_power_dvd)
  have "unat (w + of_nat i) mod 2 ^ k = (unat w + i mod 2 ^ LENGTH('a)) mod 2 ^ k"
    by (simp add: unat_word_ariths unat_of_nat mod_mod_cancel [OF d])
  also have "\<dots> = (unat w + i) mod 2 ^ k"
    by (metis d mod_add_right_eq mod_mod_cancel)
  finally show ?thesis .
qed

lemma fifo_index:
  assumes "fifo_inv f"
  shows "unat ((f_front f + of_nat i) AND f_mask f) = (unat (f_front f) + i) mod 2 ^ f_bits f"
proof -
  from assms have "f_mask f = mask (f_bits f)" by (simp add: fifo_inv_def)
  then show ?thesis by (metis unat_mask_and unat_mod_2p f_bits_le)
qed

lemma fifo_index_less:
  assumes "fifo_inv f"
  shows "unat (w AND f_mask f) < 2 ^ f_bits f"
proof -
  from assms have "f_mask f = mask (f_bits f)" by (simp add: fifo_inv_def)
  then show ?thesis by (metis unat_mask_and mod_less_divisor zero_less_numeral zero_less_power)
qed

lemma fifo_used_bound: "fifo_inv f \<Longrightarrow> unat (fifo_used f) \<le> unat (f_size f) \<and> unat (fifo_used f) \<le> 2 ^ f_bits f"
  using f_size_le [of f] by (auto simp: fifo_inv_def word_le_nat_alt)

lemma length_fifo_list [simp]: "length (fifo_list f) = unat (fifo_used f)"
  by (simp add: fifo_list_def)

lemma fifo_data: "fifo_inv f \<Longrightarrow> \<exists>d. f_data f = Some d \<and> length d = 2 ^ f_bits f"
  by (auto simp: fifo_inv_def)

lemma fifo_back: "f_front f + fifo_used f = f_back f"
  by (simp add: fifo_used_def)

lemma mod_index_distinct:
  assumes "i < j" "j < i + n"
  shows "(a + i) mod n \<noteq> (a + j) mod (n :: nat)"
proof
  assume "(a + i) mod n = (a + j) mod n"
  then have "n dvd (a + j) - (a + i)" using assms by (metis mod_eq_dvd_iff_nat nat_add_left_cancel_le less_imp_le)
  then show False using assms by (auto dest: dvd_imp_le)
qed

lemma nth_list_update_map:
  assumes "\<And>i. i < n \<Longrightarrow> g i \<noteq> k"
  shows "map (\<lambda>i. xs[k := x] ! g i) [0..<n] = map (\<lambda>i. xs ! g i) [0..<n]"
proof (intro map_cong refl)
  fix i assume "i \<in> set [0..<n]"
  then have "k \<noteq> g i" using assms [of i] by auto
  then show "xs[k := x] ! g i = xs ! g i" by simp
qed

subsection \<open>Pushes and pops\<close>

lemma unat_used_push:
  assumes "fifo_inv (f :: ('i::len, 'e) fifo)" "\<not> fifo_full f"
  shows "unat (fifo_used f + 1) = unat (fifo_used f) + 1 \<and> fifo_used f + 1 \<le> f_size f"
proof -
  from assms have "unat (fifo_used f) < unat (f_size f)"
    by (auto simp: fifo_inv_def fifo_full_def word_le_nat_alt word_unat_eq_iff)
  moreover from this have "unat (fifo_used f) + 1 < 2 ^ LENGTH('i)"
    using unsigned_less [of "f_size f", where ?'a = nat] by linarith
  then have "unat (fifo_used f + 1) = unat (fifo_used f) + 1"
    by (simp add: unat_word_ariths)
  ultimately show ?thesis by (simp add: word_le_nat_alt)
qed

lemma fifo_push_back_spec:
  assumes "fifo_inv f"
  shows "if fifo_full f then fifo_push_back f x = Some (f, False)
         else \<exists>f'. fifo_push_back f x = Some (f', True) \<and> fifo_inv f' \<and>
                   fifo_list f' = fifo_list f @ [x] \<and> f_size f' = f_size f"
proof (cases "fifo_full f")
  case False
  let ?n = "unat (fifo_used f)" and ?N = "2 ^ f_bits f :: nat" and ?F = "unat (f_front f)"
  obtain d where d: "f_data f = Some d" "length d = ?N" using fifo_data [OF assms] by auto
  define r where "r = (?F + ?n) mod ?N"
  have r: "unat (f_back f AND f_mask f) = r" "r < length d"
    using fifo_index [OF assms, of ?n] by (simp_all add: r_def d fifo_back)
  define f' where "f' = f\<lparr>f_back := f_back f + 1, f_data := Some (d[r := x])\<rparr>"
  have eq: "fifo_push_back f x = Some (f', True)"
    using False r d by (simp add: fifo_push_back_def fifo_push_back_ref_def data_set_def f'_def)
  have used: "fifo_used f' = fifo_used f + 1" by (simp add: f'_def fifo_used_def)
  have bits: "f_bits f' = f_bits f" by (simp add: f'_def f_bits_def)
  note u = unat_used_push [OF assms False]
  have "?n < ?N" using u assms f_size_le [of f] by (simp add: word_le_nat_alt)
  then have "\<And>i. i < ?n \<Longrightarrow> (?F + i) mod ?N \<noteq> r"
    unfolding r_def by (intro mod_index_distinct) auto
  then have "map (\<lambda>i. d[r := x] ! ((?F + i) mod ?N)) [0..<?n] = fifo_list f"
    by (subst nth_list_update_map) (simp_all add: fifo_list_def d)
  then have "fifo_list f' = fifo_list f @ [x]"
    using u r(2) unfolding fifo_list_def used bits
    by (simp add: r_def [symmetric]) (simp add: f'_def r_def)
  moreover have "fifo_inv f'"
    using assms u d by (simp add: fifo_inv_def used bits) (simp add: f'_def)
  ultimately show ?thesis using False eq by (auto simp: f'_def)
qed (simp add: fifo_push_back_def fifo_push_back_ref_def)

lemma unat_pred_mod:
  assumes "k \<le> LENGTH('a)"
  shows "(unat (w - 1 :: 'a::len word) + Suc i) mod 2 ^ k = (unat w + i) mod 2 ^ k"
  using unat_mod_2p [OF assms, of "w - 1" "Suc i"] unat_mod_2p [OF assms, of w i] by simp

lemma unat_succ_mod:
  assumes "k \<le> LENGTH('a)"
  shows "(unat (w + 1 :: 'a::len word) + i) mod 2 ^ k = (unat w + Suc i) mod 2 ^ k"
  using unat_pred_mod [OF assms, of "w + 1" i] by simp

lemma map_upt_Suc_Cons: "map g [0..<Suc n] = g 0 # map (\<lambda>i. g (Suc i)) [0..<n]"
  by (simp add: upt_conv_Cons map_Suc_upt [symmetric] comp_def del: upt_Suc)

lemma fifo_push_front_spec:
  assumes "fifo_inv f"
  shows "if fifo_full f then fifo_push_front f x = Some (f, False)
         else \<exists>f'. fifo_push_front f x = Some (f', True) \<and> fifo_inv f' \<and>
                   fifo_list f' = x # fifo_list f \<and> f_size f' = f_size f"
proof (cases "fifo_full f")
  case False
  let ?n = "unat (fifo_used f)" and ?N = "2 ^ f_bits f :: nat" and ?P = "unat (f_front f - 1)"
  obtain d where d: "f_data f = Some d" "length d = ?N" using fifo_data [OF assms] by auto
  define r where "r = ?P mod ?N"
  have r: "unat ((f_front f - 1) AND f_mask f) = r" "r < length d"
    using assms unat_mask_and [of "f_front f - 1" "f_bits f"] by (simp_all add: r_def d fifo_inv_def)
  define f' where "f' = f\<lparr>f_front := f_front f - 1, f_data := Some (d[r := x])\<rparr>"
  have eq: "fifo_push_front f x = Some (f', True)"
    using False r d by (simp add: fifo_push_front_def fifo_push_front_ref_def data_set_def f'_def)
  have used: "fifo_used f' = fifo_used f + 1" by (simp add: f'_def fifo_used_def)
  have bits: "f_bits f' = f_bits f" by (simp add: f'_def f_bits_def)
  note u = unat_used_push [OF assms False]
  have "?n < ?N" using u assms f_size_le [of f] by (simp add: word_le_nat_alt)
  then have "(?P + Suc i) mod ?N \<noteq> r" if "i < ?n" for i
    unfolding r_def using mod_index_distinct [of 0 "Suc i" ?N ?P] that by simp
  then have l: "map (\<lambda>i. d[r := x] ! ((?P + Suc i) mod ?N)) [0..<?n] = fifo_list f"
    by (subst nth_list_update_map) (simp_all add: fifo_list_def d unat_pred_mod f_bits_le del: add_Suc_right)
  have "fifo_list f' = map (\<lambda>i. d[r := x] ! ((?P + i) mod ?N)) [0..<Suc ?n]"
    using u unfolding fifo_list_def used bits by (simp add: f'_def del: upt_Suc)
  then have "fifo_list f' = x # fifo_list f"
    using r(2) by (simp only: map_upt_Suc_Cons l) (simp add: r_def)
  moreover have "fifo_inv f'"
    using assms u d by (simp add: fifo_inv_def used bits) (simp add: f'_def)
  ultimately show ?thesis using False eq by (auto simp: f'_def)
qed (simp add: fifo_push_front_def fifo_push_front_ref_def)

lemma fifo_empty_used: "fifo_empty f \<longleftrightarrow> fifo_used f = 0"
  by (auto simp: fifo_empty_def fifo_used_def)

lemma unat_used_pop:
  assumes "fifo_inv f" "\<not> fifo_empty f"
  shows "unat (fifo_used f) = Suc (unat (fifo_used f - 1)) \<and> fifo_used f - 1 \<le> f_size f"
proof -
  have "unat (fifo_used f) = Suc (unat (fifo_used f - 1))"
    using assms(2) by (simp add: fifo_empty_used unat_minus_one unat_gt_0)
  then show ?thesis using assms(1) by (auto simp: fifo_inv_def word_le_nat_alt)
qed

lemma fifo_pop_front_spec:
  assumes "fifo_inv f"
  shows "case fifo_list f of [] \<Rightarrow> fifo_pop_front f = Some (f, None)
         | x # xs \<Rightarrow> \<exists>f'. fifo_pop_front f = Some (f', Some x) \<and> fifo_inv f' \<and> fifo_list f' = xs \<and>
                           f_size f' = f_size f"
proof (cases "fifo_empty f")
  case True
  then have "fifo_list f = []" by (simp add: fifo_list_def fifo_empty_used)
  then show ?thesis using True by (simp add: fifo_pop_front_def)
next
  case False
  let ?N = "2 ^ f_bits f :: nat" and ?F = "unat (f_front f)"
  obtain d where d: "f_data f = Some d" "length d = ?N" using fifo_data [OF assms] by auto
  define f' where "f' = f\<lparr>f_front := f_front f + 1\<rparr>"
  have used: "fifo_used f' = fifo_used f - 1" by (simp add: f'_def fifo_used_def)
  have bits: "f_bits f' = f_bits f" by (simp add: f'_def f_bits_def)
  note u = unat_used_pop [OF assms False]
  have "fifo_pop_front f = Some (f', Some (d ! (?F mod ?N)))"
    using False fifo_index [OF assms, of 0] d by (simp add: fifo_pop_front_def data_get_def f'_def)
  moreover have "fifo_inv f'"
    using assms u d by (simp add: fifo_inv_def used bits) (simp add: f'_def)
  moreover have "fifo_list f = d ! (?F mod ?N) # fifo_list f'"
    using u unfolding fifo_list_def used bits
    by (simp add: map_upt_Suc_Cons d del: upt_Suc add_Suc_right)
       (simp add: f'_def d unat_succ_mod f_bits_le del: add_Suc_right)
  ultimately show ?thesis by (auto simp: f'_def)
qed

lemma fifo_pop_back_spec:
  assumes "fifo_inv f"
  shows "if fifo_list f = [] then fifo_pop_back f = Some (f, None)
         else \<exists>f'. fifo_pop_back f = Some (f', Some (last (fifo_list f))) \<and> fifo_inv f' \<and>
                   fifo_list f' = butlast (fifo_list f) \<and> f_size f' = f_size f"
proof (cases "fifo_empty f")
  case True
  then have "fifo_list f = []" by (simp add: fifo_list_def fifo_empty_used)
  then show ?thesis using True by (simp add: fifo_pop_back_def)
next
  case False
  let ?N = "2 ^ f_bits f :: nat" and ?n = "unat (fifo_used f - 1)"
  obtain d where d: "f_data f = Some d" "length d = ?N" using fifo_data [OF assms] by auto
  define f' where "f' = f\<lparr>f_back := f_back f - 1\<rparr>"
  have used: "fifo_used f' = fifo_used f - 1" by (simp add: f'_def fifo_used_def)
  have bits: "f_bits f' = f_bits f" by (simp add: f'_def f_bits_def)
  note u = unat_used_pop [OF assms False]
  let ?x = "d ! ((unat (f_front f) + ?n) mod ?N)"
  have b: "f_front f + of_nat ?n = f_back f - 1" by (simp add: fifo_used_def)
  have "unat ((f_back f - 1) AND f_mask f) = (unat (f_front f) + ?n) mod ?N"
    by (subst b [symmetric]) (rule fifo_index [OF assms])
  then have "fifo_pop_back f = Some (f', Some ?x)"
    using False d by (simp add: fifo_pop_back_def data_get_def f'_def)
  moreover have "fifo_inv f'"
    using assms u d by (simp add: fifo_inv_def used bits) (simp add: f'_def)
  moreover have "fifo_list f = fifo_list f' @ [?x]"
    using u unfolding fifo_list_def used bits by (simp add: d) (simp add: f'_def d)
  ultimately show ?thesis by (auto simp: f'_def)
qed

subsection \<open>Initialisation and growth\<close>

lemma nlen_mask: "nlen (2 ^ k - 1) = k"
proof (cases k)
  case (Suc j)
  have "2 ^ j \<le> (2 :: nat) ^ Suc j - 1" by (simp add: mult_2)
  with Suc show ?thesis using nlen_eqI [of j "2 ^ Suc j - 1"] by simp
qed simp

lemma mask_of_roundup:
  assumes "0 < unat n" "unat n \<le> 2 ^ 63" "nlen (unat n - 1) \<le> LENGTH('i)"
  shows "(ucast (roundup_pow_of_two n - 1) :: 'i::len word) = mask (nlen (unat n - 1))"
proof -
  let ?k = "nlen (unat n - 1)"
  have r: "unat (roundup_pow_of_two n) = 2 ^ ?k" by (rule unat_roundup_pow_of_two [OF assms(1,2)])
  then have "unat (roundup_pow_of_two n - 1) = 2 ^ ?k - 1"
    by (subst unat_minus_one) (auto simp: word_unat_eq_iff)
  moreover have "(2 :: nat) ^ ?k - 1 < 2 ^ LENGTH('i)"
    using power_increasing [OF assms(3), of "2 :: nat"] by (simp add: Suc_le_lessD)
  ultimately have "unat (ucast (roundup_pow_of_two n - 1) :: 'i word) = 2 ^ ?k - 1"
    by (subst unat_ucast_down) simp_all
  moreover have "unat (mask ?k :: 'i word) = 2 ^ ?k - 1"
    by (rule unat_mask [OF assms(3)])
  ultimately show ?thesis by (simp add: word_unat_eq_iff)
qed

lemma fifo_buf_size_eq:
  fixes f :: "('i::len, 'e) fifo"
  assumes "f_size f \<noteq> 0" "unat (f_size f) \<le> 2 ^ 63" "LENGTH('i) \<le> 64"
  shows "fifo_buf_size f = 2 ^ f_bits f"
  using assms by (simp add: fifo_buf_size_def f_bits_def unat_simps unat_gt_0)

lemma init_fifo_spec:
  fixes sz :: "'i::len word"
  assumes sz: "sz \<noteq> 0" "unat sz \<le> 2 ^ 63" "LENGTH('i) \<le> 64"
    and alloc: "\<And>n d. kvmalloc n = Some d \<Longrightarrow> length d = n"
    and ok: "f_data (init_fifo sz kvmalloc) \<noteq> None"
  shows "fifo_inv (init_fifo sz kvmalloc) \<and> fifo_list (init_fifo sz kvmalloc) = [] \<and>
         f_size (init_fifo sz kvmalloc) = sz"
proof -
  let ?f = "init_fifo sz kvmalloc"
  have fld: "f_front ?f = 0" "f_back ?f = 0" "f_size ?f = sz"
    "f_mask ?f = ucast (roundup_pow_of_two (ucast sz) - 1)"
    using sz(1) by (simp_all add: init_fifo_def Let_def)
  have u: "unat (ucast sz :: u64) = unat sz" using sz(3) by (simp add: unat_ucast_up)
  have "f_mask ?f = mask (f_bits ?f)"
    using mask_of_roundup [where ?'i = 'i, of "ucast sz"] f_bits_le [of ?f] sz u
    by (simp add: fld f_bits_def unat_gt_0)
  moreover have "f_data ?f = kvmalloc (fifo_buf_size ?f)"
    by (simp add: init_fifo_def Let_def fifo_buf_size_def)
  then have "map_option length (f_data ?f) = Some (2 ^ f_bits ?f)"
    using ok alloc sz by (auto simp: fifo_buf_size_eq fld)
  ultimately show ?thesis
    using sz by (simp add: fifo_inv_def fifo_list_def fifo_used_def fld)
qed

lemma nth_doubled:
  assumes "length d = n" "0 < n"
  shows "(d @ d) ! (i mod (2 * n)) = d ! (i mod n)"
proof -
  have m: "i mod (2 * n) mod n = i mod n" by (simp add: mod_mod_cancel)
  show ?thesis
  proof (cases "i mod (2 * n) < n")
    case True
    with m assms(1) show ?thesis by (simp add: nth_append)
  next
    case False
    moreover have "i mod (2 * n) < 2 * n" using assms(2) by simp
    ultimately have "i mod (2 * n) - n = i mod n" using m by (simp add: mod_if [of "i mod (2 * n)"] split: if_splits)
    with False assms(1) show ?thesis by (simp add: nth_append)
  qed
qed

lemma unat_double_size:
  fixes sz :: "'i::len word"
  assumes "2 * unat sz < 2 ^ LENGTH('i)" "2 * unat sz \<le> 2 ^ 63" "LENGTH('i) \<le> 64"
  shows "unat (double_size sz) = 2 * unat sz"
proof (cases "LENGTH('i) \<le> 32")
  case True
  then have "(2 :: nat) ^ LENGTH('i) \<le> 2 ^ 32" by (rule power_increasing) simp
  then have "2 * unat sz < 2 ^ 32" using assms(1) by linarith
  then have "unat ((ucast sz :: u32) * 2) = 2 * unat sz" using True by (simp add: unat_word_ariths unat_ucast_up)
  then show ?thesis using True by (simp add: double_size_def unat_ucast_up)
next
  case False
  then show ?thesis using assms by (simp add: double_size_def unat_word_ariths unat_ucast_up)
qed

lemma fifo_grow_spec:
  fixes f :: "('i::len, 'e) fifo"
  assumes inv: "fifo_inv f" and small: "2 * unat (f_size f) < 2 ^ LENGTH('i)" "2 * unat (f_size f) \<le> 2 ^ 63"
    and len: "LENGTH('i) \<le> 64"
    and alloc: "\<And>n d. kvmalloc n = Some d \<Longrightarrow> length d = n"
    and ok: "kvmalloc (2 * fifo_buf_size f) = Some new"
  shows "\<exists>f'. fifo_grow f kvmalloc = Some (f', True) \<and> fifo_inv f' \<and> fifo_list f' = fifo_list f \<and>
              unat (f_size f') = 2 * unat (f_size f)"
proof -
  let ?N = "2 ^ f_bits f :: nat" and ?ns = "double_size (f_size f)"
  obtain d where d: "f_data f = Some d" "length d = ?N" using fifo_data [OF inv] by auto
  have pos: "0 < unat (f_size f)" and msk: "f_mask f = mask (f_bits f)"
    using inv by (simp_all add: fifo_inv_def unat_gt_0)
  have buf: "fifo_buf_size f = ?N" using inv small len by (simp add: fifo_buf_size_eq fifo_inv_def)
  have new: "length new = 2 * ?N" using alloc [OF ok] by (simp add: buf)
  have ns: "unat ?ns = 2 * unat (f_size f)"
    by (rule unat_double_size [OF small len])
  have b: "nlen (2 * unat (f_size f) - 1) = Suc (f_bits f)"
    using pos nlen_double_add [of "unat (f_size f) - 1" 1]
    by (cases "unat (f_size f)" rule: nat.exhaust; cases "unat (f_size f) = 1")
       (auto simp: f_bits_def nlen_pos diff_mult_distrib2)
  have mp: "unat (f_mask f) + 1 = ?N"
    using f_bits_le [of f] by (simp add: msk unat_mask)
  define f' where "f' = f\<lparr>f_size := ucast ?ns, f_mask := ucast (roundup_pow_of_two ?ns - 1), f_data := Some (d @ d)\<rparr>"
  have eq: "fifo_grow f kvmalloc = Some (f', True)"
    using ok d new mp
    by (simp add: fifo_grow_def raw_fifo_grow_def Let_def buf mult.commute mem_read_def mem_write_def f'_def)
  have size: "unat (f_size f') = 2 * unat (f_size f)"
    using ns small(1) by (simp add: f'_def unat_ucast_down)
  then have bits: "f_bits f' = Suc (f_bits f)" using b by (simp add: f_bits_def)
  have "f_mask f' = mask (f_bits f')"
    using mask_of_roundup [where ?'i = 'i, of ?ns] f_bits_le [of f'] pos small ns b
    by (simp add: bits) (simp add: f'_def)
  moreover have used: "fifo_used f' = fifo_used f" by (simp add: f'_def fifo_used_def)
  moreover have "f_data f' = Some (d @ d)" by (simp add: f'_def)
  ultimately have "fifo_inv f'"
    using inv size pos d by (auto simp: fifo_inv_def bits word_le_nat_alt word_unat_eq_iff)
  moreover have "fifo_list f' = fifo_list f"
    using nth_doubled [OF d(2)] unfolding fifo_list_def used bits by (simp add: d) (simp add: f'_def)
  ultimately show ?thesis using eq size by blast
qed

section \<open>Interface: a bounded double-ended queue\<close>

datatype 'e deque_op = Push_back 'e | Push_front 'e | Pop_front | Pop_back
datatype 'e deque_res = Pushed bool | Popped "'e option"

text \<open>The specification, on a list of at most \<open>cap\<close> elements.\<close>

fun deque_spec :: "nat \<Rightarrow> 'e list \<Rightarrow> 'e deque_op \<Rightarrow> 'e list \<times> 'e deque_res" where
  "deque_spec cap xs (Push_back x) = (if length xs = cap then (xs, Pushed False) else (xs @ [x], Pushed True))"
| "deque_spec cap xs (Push_front x) = (if length xs = cap then (xs, Pushed False) else (x # xs, Pushed True))"
| "deque_spec cap xs Pop_front = (if xs = [] then (xs, Popped None) else (tl xs, Popped (Some (hd xs))))"
| "deque_spec cap xs Pop_back = (if xs = [] then (xs, Popped None) else (butlast xs, Popped (Some (last xs))))"

fun deque_spec_run :: "nat \<Rightarrow> 'e list \<Rightarrow> 'e deque_op list \<Rightarrow> 'e list \<times> 'e deque_res list" where
  "deque_spec_run cap xs [] = (xs, [])"
| "deque_spec_run cap xs (op # ops) =
     (let (xs', r) = deque_spec cap xs op; (xs'', rs) = deque_spec_run cap xs' ops in (xs'', r # rs))"

text \<open>Running a sequence of operations of an implementation, \<open>None\<close> when one of them faults.\<close>

fun deque_run :: "('q \<Rightarrow> 'e deque_op \<Rightarrow> ('q \<times> 'e deque_res) option) \<Rightarrow> 'q \<Rightarrow> 'e deque_op list \<Rightarrow>
    ('q \<times> 'e deque_res list) option" where
  "deque_run step q [] = Some (q, [])"
| "deque_run step q (op # ops) =
     (case step q op of None \<Rightarrow> None | Some (q', r) \<Rightarrow>
      map_option (\<lambda>(q'', rs). (q'', r # rs)) (deque_run step q' ops))"

locale bounded_deque =
  fixes inv :: "'q \<Rightarrow> bool" and contents :: "'q \<Rightarrow> 'e list" and cap :: "'q \<Rightarrow> nat"
    and step :: "'q \<Rightarrow> 'e deque_op \<Rightarrow> ('q \<times> 'e deque_res) option"
  assumes contents_le: "inv q \<Longrightarrow> length (contents q) \<le> cap q"
    and step_refines: "inv q \<Longrightarrow> \<exists>q'. step q op = Some (q', snd (deque_spec (cap q) (contents q) op)) \<and>
          inv q' \<and> contents q' = fst (deque_spec (cap q) (contents q) op) \<and> cap q' = cap q"
begin

lemma run_refines:
  assumes "inv q"
  shows "\<exists>q'. deque_run step q ops = Some (q', snd (deque_spec_run (cap q) (contents q) ops)) \<and>
              inv q' \<and> contents q' = fst (deque_spec_run (cap q) (contents q) ops) \<and> cap q' = cap q"
  using assms
proof (induction ops arbitrary: q)
  case (Cons op ops)
  obtain q' where q': "step q op = Some (q', snd (deque_spec (cap q) (contents q) op))" "inv q'"
    "contents q' = fst (deque_spec (cap q) (contents q) op)" "cap q' = cap q"
    using step_refines [OF Cons.prems] by blast
  then show ?case using Cons.IH [OF q'(2)] by (auto split: prod.splits)
qed simp

text \<open>Elements leave in the order they came in.\<close>

lemma first_in_first_out:
  assumes "inv q" "contents q = []" "length xs \<le> cap q"
  shows "\<exists>q'. deque_run step q (map Push_back xs @ replicate (length xs) Pop_front) =
                Some (q', replicate (length xs) (Pushed True) @ map (Popped \<circ> Some) xs) \<and> contents q' = []"
proof -
  have pop: "deque_spec_run c ys (replicate (length ys) Pop_front) = ([], map (Popped \<circ> Some) ys)"
    for c and ys :: "'e list" by (induction ys) auto
  have push: "deque_spec_run c ys (map Push_back zs @ ops) =
      (let (l, rs) = deque_spec_run c (ys @ zs) ops in (l, replicate (length zs) (Pushed True) @ rs))"
    if "length ys + length zs \<le> c" for c ops and ys zs :: "'e list"
    using that by (induction zs arbitrary: ys) (auto split: prod.splits)
  show ?thesis
    using run_refines [OF assms(1), of "map Push_back xs @ replicate (length xs) Pop_front"] assms(2,3)
    by (auto simp: push pop)
qed

end

fun fifo_step :: "('i::len, 'e) fifo \<Rightarrow> 'e deque_op \<Rightarrow> (('i, 'e) fifo \<times> 'e deque_res) option" where
  "fifo_step f (Push_back x) = map_option (\<lambda>(f', r). (f', Pushed r)) (fifo_push_back f x)"
| "fifo_step f (Push_front x) = map_option (\<lambda>(f', r). (f', Pushed r)) (fifo_push_front f x)"
| "fifo_step f Pop_front = map_option (\<lambda>(f', r). (f', Popped r)) (fifo_pop_front f)"
| "fifo_step f Pop_back = map_option (\<lambda>(f', r). (f', Popped r)) (fifo_pop_back f)"

abbreviation fifo_cap :: "('i::len, 'e) fifo \<Rightarrow> nat" where
  "fifo_cap f \<equiv> unat (f_size f)"

lemma fifo_full_iff: "fifo_full f \<longleftrightarrow> length (fifo_list f) = fifo_cap f"
  by (simp add: fifo_full_def word_unat_eq_iff)

interpretation fifo: bounded_deque fifo_inv fifo_list fifo_cap fifo_step
proof
  fix f :: "('i::len, 'e) fifo" and op :: "'e deque_op"
  assume inv: "fifo_inv f"
  show "length (fifo_list f) \<le> fifo_cap f" using fifo_used_bound [OF inv] by simp
  show "\<exists>f'. fifo_step f op = Some (f', snd (deque_spec (fifo_cap f) (fifo_list f) op)) \<and> fifo_inv f' \<and>
          fifo_list f' = fst (deque_spec (fifo_cap f) (fifo_list f) op) \<and> fifo_cap f' = fifo_cap f"
  proof (cases op)
    case (Push_back x)
    show ?thesis using fifo_push_back_spec [OF inv, of x] inv
      by (auto simp: Push_back fifo_full_iff split: if_splits)
  next
    case (Push_front x)
    show ?thesis using fifo_push_front_spec [OF inv, of x] inv
      by (auto simp: Push_front fifo_full_iff split: if_splits)
  next
    case Pop_front
    show ?thesis using fifo_pop_front_spec [OF inv] inv
      by (auto simp: Pop_front split: list.splits)
  next
    case Pop_back
    show ?thesis using fifo_pop_back_spec [OF inv] inv
      by (auto simp: Pop_back split: if_splits)
  qed
qed

section \<open>Loops and indices\<close>

lemma fifo_entry_index:
  assumes "fifo_inv f" "i < unat (fifo_used f)"
  shows "fifo_entry f (f_front f + of_nat i) = Some (fifo_list f ! i)"
  using assms fifo_data [OF assms(1)]
  by (auto simp: fifo_entry_def data_get_def fifo_index fifo_list_def)

lemma for_each_from:
  assumes "fifo_inv f" "i + n = unat (fifo_used f)"
  shows "fifo_for_each_entry_from f (f_front f + of_nat i) = map Some (drop i (fifo_list f))"
  using assms(2)
proof (induction n arbitrary: i)
  case 0
  then have "(of_nat i :: 'a word) = fifo_used f" by simp
  then show ?case using 0 by (subst fifo_for_each_entry_from.simps) (simp add: fifo_back)
next
  case (Suc n)
  have "f_front f + of_nat i \<noteq> f_back f"
  proof
    assume "f_front f + of_nat i = f_back f"
    then have "fifo_used f = of_nat i" by (metis add_diff_cancel_left' fifo_used_def)
    then have "unat (fifo_used f) \<le> i" by (simp add: unat_of_nat)
    with Suc.prems show False by simp
  qed
  moreover have e: "f_front f + of_nat i + 1 = f_front f + of_nat (Suc i)" by simp
  ultimately show ?case
    using Suc.IH [of "Suc i"] Suc.prems fifo_entry_index [OF assms(1), of i]
    by (subst fifo_for_each_entry_from.simps) (simp add: e Cons_nth_drop_Suc [symmetric] del: of_nat_Suc)
qed

lemma for_each_reverse_from:
  assumes "fifo_inv f" "i \<le> unat (fifo_used f)"
  shows "fifo_for_each_entry_reverse_from f (f_front f + of_nat i) = map Some (rev (take i (fifo_list f)))"
  using assms(2)
proof (induction i)
  case 0
  then show ?case by (subst fifo_for_each_entry_reverse_from.simps) simp
next
  case (Suc i)
  have "of_nat (Suc i) \<noteq> (0 :: 'a word)"
  proof
    assume "of_nat (Suc i) = (0 :: 'a word)"
    then have "Suc i mod 2 ^ LENGTH('a) = 0" by (metis unat_0 unat_of_nat take_bit_eq_mod)
    moreover have "Suc i < 2 ^ LENGTH('a)"
      using Suc.prems unsigned_less [of "fifo_used f", where ?'a = nat] by linarith
    ultimately show False by simp
  qed
  then have "f_front f + of_nat (Suc i) \<noteq> f_front f" by (metis add_cancel_left_right)
  moreover have e: "f_front f + of_nat (Suc i) - 1 = f_front f + of_nat i" by simp
  ultimately show ?case
    using Suc fifo_entry_index [OF assms(1), of i]
    by (subst fifo_for_each_entry_reverse_from.simps) (simp add: e take_Suc_conv_app_nth del: of_nat_Suc)
qed

lemma and_not_mask: "w AND NOT (mask k) = w - take_bit k (w :: 'a::len word)"
proof -
  have "(w AND NOT (mask k)) + (w AND mask k) = w"
    by (subst disjunctive_add) (auto simp: bit_simps intro: bit_eqI)
  then show ?thesis by (simp add: take_bit_eq_mask algebra_simps)
qed

lemma take_bit_index:
  assumes "k \<le> LENGTH('a)"
  shows "take_bit k (w + of_nat i :: 'a::len word) = of_nat ((unat w + i) mod 2 ^ k)"
proof -
  have "unat (take_bit k (w + of_nat i)) = (unat w + i) mod 2 ^ k"
    using unat_mod_2p [OF assms, of w i] unat_mask_and [of "w + of_nat i" k] by (simp add: take_bit_eq_mask)
  then have "of_nat (unat (take_bit k (w + of_nat i))) = (of_nat ((unat w + i) mod 2 ^ k) :: 'a word)"
    by (rule arg_cong)
  then show ?thesis by simp
qed

text \<open>Within one block of \<open>2 ^ k\<close> indices the upper bits stay, past its end they are one block up.\<close>

lemma block_base:
  fixes w :: "'a::len word"
  assumes "k \<le> LENGTH('a)" "unat w mod 2 ^ k + i < 2 * 2 ^ k"
  shows "w + of_nat i - take_bit k (w + of_nat i) =
         w - take_bit k w + (if unat w mod 2 ^ k + i < 2 ^ k then 0 else of_nat (2 ^ k))"
proof -
  let ?m = "unat w mod 2 ^ k"
  have m: "(unat w + i) mod 2 ^ k = (if ?m + i < 2 ^ k then ?m + i else ?m + i - 2 ^ k)"
    using assms(2) mod_add_left_eq [of "unat w" "2 ^ k" i, symmetric]
    by (simp add: le_mod_geq not_less)
  have "take_bit k w = of_nat ?m" using take_bit_index [OF assms(1), of w 0] by simp
  then show ?thesis using m by (simp add: take_bit_index [OF assms(1)] of_nat_diff)
qed

lemma fifo_entry_idx_abs_spec:
  fixes f :: "('i::len, 'e) fifo"
  assumes inv: "fifo_inv f" and i: "i < unat (fifo_used f)"
  shows "fifo_entry_idx_abs f ((f_front f + of_nat i) AND f_mask f) = f_front f + of_nat i"
proof -
  let ?k = "f_bits f" and ?w = "f_front f" and ?u = "unat (fifo_used f)"
  let ?m = "unat ?w mod 2 ^ ?k"
  have msk: "f_mask f = mask ?k" using inv by (simp add: fifo_inv_def)
  have k: "?k \<le> LENGTH('i)" by (rule f_bits_le)
  have u: "?u \<le> 2 ^ ?k" using fifo_used_bound [OF inv] by simp
  have m: "?m < 2 ^ ?k" by simp
  have tb: "v AND f_mask f = take_bit ?k v" for v by (simp add: msk take_bit_eq_mask)
  have nm: "v AND NOT (f_mask f) = v - take_bit ?k v" for v by (simp add: msk and_not_mask)
  have ge: "take_bit ?k ?w \<le> take_bit ?k (?w + of_nat i) \<longleftrightarrow> ?m + i < 2 ^ ?k"
  proof -
    have "unat (take_bit ?k ?w) = ?m" "unat (take_bit ?k (?w + of_nat i)) = (?m + i) mod 2 ^ ?k"
      using fifo_index [OF inv, of 0] fifo_index [OF inv, of i] by (simp_all add: tb mod_add_left_eq)
    then show ?thesis using m i u
      by (cases "?m + i < 2 ^ ?k") (simp_all add: word_le_nat_alt le_mod_geq not_less)
  qed
  have bk: "f_back f = ?w + of_nat ?u" by (simp add: fifo_used_def)
  have base: "v - take_bit ?k v = ?w + of_nat i - take_bit ?k (?w + of_nat i)"
    if "v = (if take_bit ?k ?w \<le> take_bit ?k (?w + of_nat i) then ?w else f_back f)" for v
    using block_base [OF k, of ?w i] block_base [OF k, of ?w ?u] m i u that unfolding ge
    by (simp add: bk split: if_splits)
  show ?thesis
    using base [OF refl] unfolding fifo_entry_idx_abs_def tb nm by simp
qed

lemma take_bit_word_diff:
  "k \<le> LENGTH('a) \<Longrightarrow> take_bit k (take_bit k a - take_bit k b) = take_bit k (a - b :: 'a::len word)"
  by transfer (simp add: take_bit_diff min_def)

lemma fifo_entry_idx_spec:
  fixes f :: "('i::len, 'e) fifo"
  assumes inv: "fifo_inv f" and i: "i < unat (fifo_used f)"
  shows "fifo_entry_idx f ((f_front f + of_nat i) AND f_mask f) = of_nat i"
proof -
  have msk: "f_mask f = mask (f_bits f)" using inv by (simp add: fifo_inv_def)
  have "fifo_entry_idx f ((f_front f + of_nat i) AND f_mask f) =
      take_bit (f_bits f) (take_bit (f_bits f) (f_front f + of_nat i) - take_bit (f_bits f) (f_front f))"
    by (simp add: fifo_entry_idx_def msk take_bit_eq_mask)
  also have "\<dots> = take_bit (f_bits f) (of_nat i)"
    by (simp add: take_bit_word_diff f_bits_le)
  also have "\<dots> = of_nat i"
    using take_bit_index [OF f_bits_le, of f 0 i] i fifo_used_bound [OF inv] by simp
  finally show ?thesis .
qed

lemma fifo_move_spec:
  assumes "fifo_inv dest" "fifo_inv src"
  shows "\<exists>dest' src'. fifo_move dest src = Some (dest', src') \<and> fifo_inv dest' \<and> fifo_inv src' \<and>
    (let n = fifo_cap dest - length (fifo_list dest) in
     fifo_list dest' = fifo_list dest @ take n (fifo_list src) \<and> fifo_list src' = drop n (fifo_list src))"
  using assms
proof (induction dest src rule: fifo_move.induct)
  case (1 dest src)
  show ?case
  proof (cases "fifo_full dest")
    case True
    then show ?thesis using "1.prems" by (subst fifo_move.simps) (simp add: fifo_full_iff)
  next
    case False
    obtain dest' where d: "fifo_push_back dest x = Some (dest' x, True)" "fifo_inv (dest' x)"
      "fifo_list (dest' x) = fifo_list dest @ [x]" "f_size (dest' x) = f_size dest" for x
      using fifo_push_back_spec [OF "1.prems"(1)] False by simp metis
    show ?thesis
    proof (cases "fifo_list src")
      case Nil
      then show ?thesis using fifo_pop_front_spec [OF "1.prems"(2)] False "1.prems"
        by (subst fifo_move.simps) simp
    next
      case (Cons x xs)
      then obtain src' where s: "fifo_pop_front src = Some (src', Some x)" "fifo_inv src'" "fifo_list src' = xs"
        using fifo_pop_front_spec [OF "1.prems"(2)] by auto
      have "length (fifo_list dest) < fifo_cap dest"
        using False fifo.contents_le [OF "1.prems"(1)] by (simp add: fifo_full_iff)
      then have n: "fifo_cap dest - length (fifo_list dest) = Suc (fifo_cap dest - length (fifo_list (dest' x)))"
        by (simp add: d del: length_fifo_list)
      have "fifo_move dest src = fifo_move (dest' x) src'"
        using False s d by (subst fifo_move.simps) simp
      then show ?thesis
        using "1.IH" [OF False s(1) refl refl d(1) refl d(2) s(2)] n Cons s d
        by (auto simp: Let_def simp del: length_fifo_list)
    qed
  qed
qed

section \<open>Properties\<close>

text \<open>A fifo of four elements whose indices of eight bits are about to wrap, for the witnesses.\<close>

definition fifo_ex :: "(8, nat) fifo" where
  "fifo_ex = \<lparr>f_front = 254, f_back = 1, f_size = 4, f_mask = 3, f_data = Some [12, 0, 10, 11]\<rparr>"

lemma fifo_ex_facts:
  "f_bits fifo_ex = 2" "fifo_inv fifo_ex" "fifo_list fifo_ex = [10, 11, 12]" "fifo_cap fifo_ex = 4"
proof -
  show b: "f_bits fifo_ex = 2" by (simp add: fifo_ex_def f_bits_def nlen.simps)
  show "fifo_list fifo_ex = [10, 11, 12]"
    by (simp add: fifo_list_def b) (simp add: fifo_ex_def fifo_used_def upt_rec)
  show "fifo_inv fifo_ex"
    by (simp add: fifo_inv_def b) (simp add: fifo_ex_def fifo_used_def mask_eq_exp_minus_1)
qed (simp add: fifo_ex_def)

text \<open>C10. Any sequence of pushes and pops at either end of a fifo returns what the same sequence returns on a
  list of at most \<open>size\<close> elements, without an access outside the buffer, whatever the index type and
  even when the indices wrap; the fifo then holds the contents of that list.\<close>

theorem fifo_refines_deque:
  assumes "fifo_inv f"
  shows "\<exists>f'. deque_run fifo_step f ops = Some (f', snd (deque_spec_run (fifo_cap f) (fifo_list f) ops)) \<and>
              fifo_inv f' \<and> fifo_list f' = fst (deque_spec_run (fifo_cap f) (fifo_list f) ops)"
  using fifo.run_refines [OF assms, of ops] by blast

theorem fifo_refines_deque_witness:
  "\<exists>f'. deque_run fifo_step fifo_ex [Push_back 13, Push_back 14, Pop_front, Pop_back, Push_front 9] =
          Some (f', [Pushed True, Pushed False, Popped (Some 10), Popped (Some 13), Pushed True]) \<and>
        fifo_inv f' \<and> fifo_list f' = [9, 11, 12]"
  using fifo_refines_deque [OF fifo_ex_facts(2),
      of "[Push_back 13, Push_back 14, Pop_front, Pop_back, Push_front 9]"]
  by (simp add: fifo_ex_facts)

text \<open>C24. Growing a fifo whose doubled size fits its index type keeps its contents and the invariant, and
  doubles its size.\<close>

theorem fifo_grow_keeps_contents:
  fixes f :: "('i::len, 'e) fifo"
  assumes "fifo_inv f" "2 * fifo_cap f < 2 ^ LENGTH('i)" "2 * fifo_cap f \<le> 2 ^ 63" "LENGTH('i) \<le> 64"
    and "\<And>n d. kvmalloc n = Some d \<Longrightarrow> length d = n"
    and "kvmalloc (2 * fifo_buf_size f) = Some new"
  shows "\<exists>f'. fifo_grow f kvmalloc = Some (f', True) \<and> fifo_inv f' \<and> fifo_list f' = fifo_list f \<and>
              fifo_cap f' = 2 * fifo_cap f"
  using assms by (rule fifo_grow_spec)

theorem fifo_grow_keeps_contents_witness:
  "\<exists>f'. fifo_grow fifo_ex (\<lambda>n. Some (replicate n 0)) = Some (f', True) \<and> fifo_inv f' \<and>
        fifo_list f' = [10, 11, 12] \<and> fifo_cap f' = 8"
  using fifo_grow_keeps_contents [of fifo_ex "\<lambda>n. Some (replicate n 0)"] fifo_ex_facts by simp

text \<open>A fifo initialised for \<open>sz > 0\<close> elements, when the allocation succeeds, is empty, satisfies the
  invariant and has room for exactly \<open>sz\<close> elements, also when \<open>sz\<close> is not a power of two.\<close>

theorem init_fifo_empty:
  fixes sz :: "'i::len word"
  assumes "sz \<noteq> 0" "unat sz \<le> 2 ^ 63" "LENGTH('i) \<le> 64"
    and "\<And>n d. kvmalloc n = Some d \<Longrightarrow> length d = n"
    and "f_data (init_fifo sz kvmalloc) \<noteq> None"
  shows "fifo_inv (init_fifo sz kvmalloc) \<and> fifo_list (init_fifo sz kvmalloc) = [] \<and>
         fifo_free (init_fifo sz kvmalloc) = sz"
  using init_fifo_spec [OF assms] by (simp add: fifo_free_def init_fifo_def Let_def fifo_used_def)

theorem init_fifo_empty_witness:
  "fifo_inv (init_fifo (5 :: 16 word) (\<lambda>n. Some (replicate n (CHR ''x''))))"
  using init_fifo_empty [of "5 :: 16 word" "\<lambda>n. Some (replicate n (CHR ''x''))"]
  by (simp add: init_fifo_def Let_def)

text \<open>The loops \<^verbatim>\<open>fifo_for_each_entry\<close> and \<^verbatim>\<open>fifo_for_each_entry_ptr_reverse\<close> visit exactly the
  contents, in order and in reverse order; a pointer to the \<open>i\<close>-th entry is mapped back to its absolute
  index by \<^verbatim>\<open>fifo_entry_idx_abs\<close> and to \<open>i\<close> by \<^verbatim>\<open>fifo_entry_idx\<close>, and
  \<^verbatim>\<open>fifo_idx_entry\<close> returns that entry.\<close>

theorem fifo_iteration_and_indices:
  assumes "fifo_inv f" "i < length (fifo_list f)"
  shows "fifo_for_each_entry f = map Some (fifo_list f) \<and>
         fifo_for_each_entry_ptr_reverse f = map Some (rev (fifo_list f)) \<and>
         fifo_entry_idx_abs f ((f_front f + of_nat i) AND f_mask f) = f_front f + of_nat i \<and>
         fifo_entry_idx f ((f_front f + of_nat i) AND f_mask f) = of_nat i \<and>
         fifo_idx_entry f (of_nat i) = Some (fifo_list f ! i)"
proof -
  have "f_front f + of_nat (unat (fifo_used f)) = f_back f" by (simp add: fifo_back)
  then show ?thesis
    using assms for_each_from [OF assms(1), of 0] for_each_reverse_from [OF assms(1), of "unat (fifo_used f)"]
      fifo_entry_index [OF assms(1), of i]
    by (simp add: fifo_for_each_entry_def fifo_for_each_entry_ptr_reverse_def fifo_entry_idx_abs_spec
        fifo_entry_idx_spec fifo_idx_entry_def fifo_entry_def)
qed

theorem fifo_iteration_and_indices_witness:
  "fifo_for_each_entry fifo_ex = [Some 10, Some 11, Some 12] \<and>
   fifo_for_each_entry_ptr_reverse fifo_ex = [Some 12, Some 11, Some 10] \<and>
   fifo_entry_idx_abs fifo_ex 0 = 0 \<and> fifo_entry_idx fifo_ex 0 = 2"
  using fifo_iteration_and_indices [OF fifo_ex_facts(2), of 2] by (simp add: fifo_ex_facts) (simp add: fifo_ex_def)

text \<open>C27. \<^verbatim>\<open>fifo_move\<close> terminates and moves elements from the front of the source to the back of the
  destination, as many as fit, losing none and keeping their order.\<close>

theorem fifo_move_moves:
  assumes "fifo_inv dest" "fifo_inv src"
  shows "\<exists>dest' src'. fifo_move dest src = Some (dest', src') \<and> fifo_inv dest' \<and> fifo_inv src' \<and>
     (let n = fifo_cap dest - length (fifo_list dest) in
      fifo_list dest' = fifo_list dest @ take n (fifo_list src) \<and> fifo_list src' = drop n (fifo_list src))"
  using assms by (rule fifo_move_spec)

theorem fifo_move_moves_witness:
  "\<exists>dest' src'. fifo_move fifo_ex fifo_ex = Some (dest', src') \<and>
     fifo_list dest' = [10, 11, 12, 10] \<and> fifo_list src' = [11, 12]"
  using fifo_move_moves [OF fifo_ex_facts(2) fifo_ex_facts(2)] by (auto simp: fifo_ex_facts Let_def)

end
