(* ===== verification/Eytzinger_Order.thy ===== *)
theory Eytzinger_Order
  imports Bch_Prelude
begin

text \<open>
  The order of the nodes of a complete binary tree whose nodes are numbered level by level from one
  (node \<open>i\<close> has children \<open>2 i\<close> and \<open>2 i + 1\<close>), over the natural numbers.

  \<open>pkey k i\<close> is the position of node \<open>i\<close> in the symmetric order of the perfect tree of \<open>k\<close> levels,
  scaled so that it is an odd multiple of a power of two; \<open>rank n i\<close> is the position among the
  nodes \<open>1\<close> to \<open>n\<close>. \<open>lo_anc\<close> and \<open>hi_anc\<close> are the nodes between which the subtree of a node lies.
\<close>

section \<open>Positions\<close>

definition pkey :: "nat \<Rightarrow> nat \<Rightarrow> nat" where
  "pkey k i = (2 * i + 1) * 2 ^ (k - nlen i)"

definition ppos :: "nat \<Rightarrow> nat \<Rightarrow> nat" where
  "ppos n i = pkey (nlen n) i - 2 ^ nlen n"

definition extra_pos :: "nat \<Rightarrow> nat" where
  "extra_pos n = 2 * n + 2 - 2 ^ nlen n"

definition rank_of_pos :: "nat \<Rightarrow> nat \<Rightarrow> nat" where
  "rank_of_pos n p = (if extra_pos n < p then p - (p - extra_pos n) div 2 else p)"

definition rank :: "nat \<Rightarrow> nat \<Rightarrow> nat" where
  "rank n i = rank_of_pos n (ppos n i)"

definition pos_of_rank :: "nat \<Rightarrow> nat \<Rightarrow> nat" where
  "pos_of_rank n r = (if extra_pos n < r then r + (r - extra_pos n) else r)"

definition node_of_pos :: "nat \<Rightarrow> nat \<Rightarrow> nat" where
  "node_of_pos n p = p div 2 ^ (nctz p + 1) + 2 ^ (nlen n - 1 - nctz p)"

definition node_of_rank :: "nat \<Rightarrow> nat \<Rightarrow> nat" where
  "node_of_rank n r = node_of_pos n (pos_of_rank n r)"

definition lo_anc :: "nat \<Rightarrow> nat" where
  "lo_anc i = i div 2 ^ (nctz i + 1)"

definition hi_anc :: "nat \<Rightarrow> nat" where
  "hi_anc i = i div 2 ^ (nctz (i + 1) + 1)"

lemma nlen_bounds: "0 < i \<Longrightarrow> 2 ^ nlen i \<le> 2 * i \<and> i < 2 ^ nlen i"
proof -
  assume i: "0 < i"
  then have "0 < nlen i" by (metis gr0I nlen_eq_0)
  then have "(2 :: nat) ^ nlen i = 2 * 2 ^ (nlen i - 1)" by (metis Suc_pred' power_Suc)
  with nlen_lower [OF i] nlen_upper [of i] show ?thesis by simp
qed

lemma pow_split: "a \<le> k \<Longrightarrow> (2 :: nat) ^ k = 2 ^ a * 2 ^ (k - a)"
  by (metis le_add_diff_inverse power_add)

lemma pkey_range:
  assumes "0 < i" "nlen i \<le> k"
  shows "2 ^ k < pkey k i \<and> pkey k i < 2 ^ Suc k"
proof -
  from nlen_bounds [OF assms(1)] have "2 ^ nlen i < 2 * i + 1" "2 * i + 1 < 2 * 2 ^ nlen i" by auto
  then have "2 ^ nlen i * 2 ^ (k - nlen i) < (2 * i + 1) * 2 ^ (k - nlen i)"
    "(2 * i + 1) * 2 ^ (k - nlen i) < 2 * 2 ^ nlen i * (2 :: nat) ^ (k - nlen i)"
    by (metis mult_less_mono1 zero_less_numeral zero_less_power)+
  then show ?thesis
    using pow_split [OF assms(2)] by (simp add: pkey_def mult.assoc)
qed

lemma pkey_inj:
  assumes "pkey k i = pkey k j"
  shows "i = j"
proof -
  have "nctz (pkey k i) = k - nlen i" "nctz (pkey k j) = k - nlen j"
    by (simp_all add: pkey_def nctz_mult_pow del: mult_Suc)
  with assms show ?thesis by (simp add: pkey_def)
qed

lemma pkey_Suc: "nlen i \<le> k \<Longrightarrow> pkey (Suc k) i = 2 * pkey k i"
  by (simp add: pkey_def Suc_diff_le)

lemma pkey_ppos:
  assumes "0 < i" "i \<le> n"
  shows "pkey (nlen n) i = ppos n i + 2 ^ nlen n" "0 < ppos n i" "ppos n i < 2 ^ nlen n"
  using pkey_range [OF assms(1) nlen_mono [OF assms(2)]] unfolding ppos_def by simp_all linarith

lemma extra_eq:
  assumes "0 < n"
  shows "extra_pos n + 2 ^ nlen n = 2 * n + 2" "even (extra_pos n)" "extra_pos n \<le> 2 ^ nlen n"
    "even ((2 :: nat) ^ nlen n)"
proof -
  have b: "2 ^ nlen n \<le> 2 * n" "n < 2 ^ nlen n" using nlen_bounds [OF assms] by auto
  then show e: "extra_pos n + 2 ^ nlen n = 2 * n + 2" by (simp add: extra_pos_def)
  show p: "even ((2 :: nat) ^ nlen n)" using assms by (simp add: nlen_pos)
  have "even (extra_pos n + 2 ^ nlen n)" unfolding e by simp
  with p show "even (extra_pos n)" by simp
  show "extra_pos n \<le> 2 ^ nlen n" using e b by linarith
qed

text \<open>A node of the last level has an odd position below \<open>extra_pos\<close>, every other node an even one.\<close>

lemma ppos_last_level:
  assumes "0 < i" "i \<le> n" "nlen i = nlen n"
  shows "odd (ppos n i) \<and> ppos n i < extra_pos n"
proof -
  have e: "ppos n i + 2 ^ nlen n = 2 * i + 1"
    using assms pkey_ppos(1) [OF assms(1,2)] by (simp add: pkey_def)
  have n: "0 < n" using assms by linarith
  from e have "odd (ppos n i + 2 ^ nlen n)" by simp
  then have "odd (ppos n i)" using n by (simp add: nlen_pos)
  then show ?thesis using assms(2) e extra_eq(1) [OF n] by linarith
qed

lemma ppos_inner:
  assumes "0 < i" "i \<le> n" "nlen i < nlen n"
  shows "even (ppos n i)"
  using assms by (simp add: ppos_def pkey_def)

lemma ppos_present:
  assumes "0 < i" "i \<le> n"
  shows "even (ppos n i) \<or> ppos n i < extra_pos n"
  using ppos_inner [OF assms] ppos_last_level [OF assms] nlen_mono [OF assms(2)] by linarith

section \<open>Ranks\<close>

lemma rank_range:
  assumes "0 < i" "i \<le> n"
  shows "0 < rank n i \<and> rank n i \<le> n"
proof (cases "extra_pos n < ppos n i")
  case True
  with ppos_present [OF assms] have "even (ppos n i)" by linarith
  moreover have n: "0 < n" using assms by linarith
  ultimately have "ppos n i + 2 \<le> 2 ^ nlen n" using pkey_ppos(3) [OF assms] extra_eq(4) [OF n]
    by (metis Suc_leI add_2_eq_Suc' even_Suc le_neq_implies_less)
  then have "ppos n i + extra_pos n \<le> 2 * n" using extra_eq(1) [OF n] by linarith
  with True show ?thesis by (simp add: rank_def rank_of_pos_def) linarith
next
  case False
  have n: "0 < n" using assms by linarith
  have "ppos n i \<le> n"
    using False extra_eq(1,3) [OF n] pkey_ppos(3) [OF assms] by linarith
  with False show ?thesis using pkey_ppos(2) [OF assms] by (simp add: rank_def rank_of_pos_def)
qed

lemma half_way: "even p \<Longrightarrow> even e \<Longrightarrow> e < (p :: nat) \<Longrightarrow> 2 * (p - (p - e) div 2) = p + e"
proof -
  assume a: "even p" "even e" "e < p"
  then obtain x y where "p = 2 * x" "e = 2 * y" by (auto elim!: evenE)
  moreover from this have "(p - e) div 2 = x - y" by simp
  ultimately show ?thesis using a(3) by simp
qed

lemma rank_of_pos_less:
  assumes "(p :: nat) < q" "even p \<or> p < e" "even q \<or> q < e" "even e"
  shows "(if e < p then p - (p - e) div 2 else p) < (if e < q then q - (q - e) div 2 else q)"
  using assms half_way [of p e] half_way [of q e] by (cases "e < p"; cases "e < q") auto

lemma pos_of_rank_of_pos:
  assumes "even p \<or> p < e" "even (e :: nat)"
  shows "(let r = (if e < p then p - (p - e) div 2 else p) in if e < r then r + (r - e) else r) = p"
  using assms half_way [of p e] by (cases "e < p") (auto simp: Let_def)

lemma rank_less:
  assumes "0 < i" "i \<le> n" "0 < j" "j \<le> n" "pkey (nlen n) i < pkey (nlen n) j"
  shows "rank n i < rank n j"
proof -
  let ?p = "ppos n i" and ?q = "ppos n j" and ?e = "extra_pos n"
  have "?p < ?q" using assms pkey_ppos(1) by (metis add_less_cancel_right)
  moreover have "even ?p \<or> ?p < ?e" "even ?q \<or> ?q < ?e" using assms ppos_present by blast+
  moreover have "even ?e" using assms by (intro extra_eq) linarith
  ultimately show ?thesis
    unfolding rank_def rank_of_pos_def by (rule rank_of_pos_less)
qed

lemma rank_less_iff:
  assumes "0 < i" "i \<le> n" "0 < j" "j \<le> n"
  shows "rank n i < rank n j \<longleftrightarrow> pkey (nlen n) i < pkey (nlen n) j"
  using assms rank_less [of i n j] rank_less [of j n i] pkey_inj [of "nlen n" i j]
  by (metis less_asym' linorder_neqE_nat)

lemma rank_inj:
  assumes "0 < i" "i \<le> n" "0 < j" "j \<le> n" "rank n i = rank n j"
  shows "i = j"
  using assms rank_less [of i n j] rank_less [of j n i] pkey_inj [of "nlen n" i j]
  by (metis less_irrefl linorder_neqE_nat)

lemma rank_bij: "bij_betw (rank n) {1..n} {1..n}"
proof -
  have "inj_on (rank n) {1..n}" using rank_inj by (auto intro!: inj_onI)
  moreover have "rank n ` {1..n} \<subseteq> {1..n}" using rank_range by (auto simp: Suc_le_eq)
  ultimately show ?thesis
    by (simp add: bij_betw_def endo_inj_surj)
qed

lemma node_of_rank_rank:
  assumes "0 < i" "i \<le> n"
  shows "node_of_rank n (rank n i) = i"
proof -
  let ?p = "ppos n i" and ?c = "nlen n - nlen i"
  have "even (extra_pos n)" using assms by (intro extra_eq) linarith
  then have "pos_of_rank n (rank n i) = ?p"
    using pos_of_rank_of_pos [OF ppos_present [OF assms]]
    unfolding pos_of_rank_def rank_def rank_of_pos_def Let_def by simp
  moreover have "node_of_pos n ?p = i"
  proof -
    have le: "nlen i \<le> nlen n" by (rule nlen_mono [OF assms(2)])
    obtain b where b: "nlen i = Suc b" using assms(1) by (metis nlen_pos)
    have bnd: "2 ^ b \<le> i" using nlen_lower [OF assms(1)] b by simp
    have "?p + 2 ^ nlen n = (2 * i + 1) * 2 ^ ?c"
      using pkey_ppos(1) [OF assms] by (simp add: pkey_def)
    moreover have "(2 * i + 1) * 2 ^ ?c = (2 * (i - 2 ^ b) + 1) * 2 ^ ?c + 2 ^ nlen n"
    proof -
      have "2 * i + 1 = 2 * (i - 2 ^ b) + 1 + 2 ^ nlen i" using bnd b by simp
      then have "(2 * i + 1) * 2 ^ ?c = (2 * (i - 2 ^ b) + 1) * 2 ^ ?c + 2 ^ nlen i * 2 ^ ?c"
        by (metis add_mult_distrib)
      then show ?thesis using pow_split [OF le] by simp
    qed
    ultimately have p: "?p = (2 * (i - 2 ^ b) + 1) * 2 ^ ?c" by linarith
    then have ctz: "nctz ?p = ?c" by (simp add: nctz_mult_pow del: mult_Suc)
    have "?p div 2 ^ (?c + 1) = i - 2 ^ b"
    proof -
      have "?p div 2 ^ (?c + 1) = ?p div 2 ^ ?c div 2" by (simp add: div_mult2_eq [symmetric] mult.commute)
      then show ?thesis unfolding p by (simp only: nonzero_mult_div_cancel_right) simp
    qed
    moreover have "nlen n - 1 - ?c = b" using le b by simp
    ultimately show ?thesis using bnd by (simp add: node_of_pos_def ctz)
  qed
  ultimately show ?thesis by (simp add: node_of_rank_def)
qed

lemma rank_node_of_rank:
  assumes "0 < r" "r \<le> n"
  shows "0 < node_of_rank n r \<and> node_of_rank n r \<le> n \<and> rank n (node_of_rank n r) = r"
proof -
  have "r \<in> rank n ` {1..n}" using rank_bij [of n] assms by (auto simp: bij_betw_def)
  then obtain i where "0 < i" "i \<le> n" "r = rank n i" by (auto simp: Suc_le_eq)
  then show ?thesis by (simp add: node_of_rank_rank)
qed

section \<open>Neighbours\<close>

lemma rank_step_1:
  assumes "0 < i" "i \<le> n" "0 < j" "j \<le> n" "pkey (nlen n) j = pkey (nlen n) i + 1"
  shows "rank n j = rank n i + 1"
proof -
  have "ppos n j = ppos n i + 1" using assms pkey_ppos(1) [of i n] pkey_ppos(1) [of j n] by simp
  moreover have "even (extra_pos n)" using assms by (intro extra_eq) linarith
  ultimately show ?thesis
    using ppos_present [OF assms(1,2)] ppos_present [OF assms(3,4)]
    unfolding rank_def rank_of_pos_def by (cases "ppos n i = extra_pos n") (auto elim!: evenE)
qed

lemma rank_step_2:
  assumes "0 < i" "i \<le> n" "0 < j" "j \<le> n" "pkey (nlen n) j = pkey (nlen n) i + 2"
    and "extra_pos n + 2 ^ nlen n \<le> pkey (nlen n) i"
  shows "rank n j = rank n i + 1"
proof -
  have "ppos n j = ppos n i + 2" "extra_pos n \<le> ppos n i"
    using assms pkey_ppos(1) [of i n] pkey_ppos(1) [of j n] by simp_all
  then show ?thesis
    unfolding rank_def rank_of_pos_def by auto
qed

lemma lo_anc_decomp:
  assumes "0 < i"
  shows "i = lo_anc i * 2 ^ (nctz i + 1) + 2 ^ nctz i"
proof -
  obtain m where m: "odd m" "i = m * 2 ^ nctz i" using nctz_decompose [OF assms] by blast
  then have "lo_anc i = m div 2"
    unfolding lo_anc_def by (metis Suc_eq_plus1 div_mult2_eq mult.commute nonzero_mult_div_cancel_right power_Suc
        power_not_zero zero_neq_numeral)
  moreover from m(1) have "m = 2 * (m div 2) + 1" by simp
  ultimately have "i = (2 * lo_anc i + 1) * 2 ^ nctz i" using m(2) by metis
  then show ?thesis by (simp add: algebra_simps)
qed

lemma hi_anc_decomp: "i + 1 = hi_anc i * 2 ^ (nctz (i + 1) + 1) + 2 ^ nctz (i + 1)"
proof -
  let ?t = "nctz (i + 1)"
  have e: "i + 1 = lo_anc (i + 1) * 2 ^ (?t + 1) + 2 ^ ?t" by (rule lo_anc_decomp) simp
  then have "i = lo_anc (i + 1) * 2 ^ (?t + 1) + (2 ^ ?t - 1)"
    by (metis Nat.add_diff_assoc add_diff_cancel_right' one_le_numeral one_le_power)
  moreover have "(2 ^ ?t - 1) div 2 ^ (?t + 1) = (0 :: nat)" by (simp add: div_less less_imp_diff_less)
  ultimately have "hi_anc i = lo_anc (i + 1)"
    unfolding hi_anc_def by (metis add.right_neutral div_mult_self3 power_not_zero zero_neq_numeral)
  with e show ?thesis by simp
qed

lemma nlen_mult_pow_add: "0 < m \<Longrightarrow> c < 2 ^ t \<Longrightarrow> nlen (m * 2 ^ t + c) = nlen m + t"
proof (induction t arbitrary: c)
  case (Suc t)
  have "(m * 2 ^ Suc t + c) div 2 = m * 2 ^ t + c div 2" by simp
  moreover have "c div 2 < 2 ^ t" using Suc.prems(2) by simp
  ultimately show ?case using Suc by (simp add: nlen_pos)
qed simp

lemma pkey_lo_anc:
  assumes "0 < i" "nlen i \<le> k"
  shows "lo_anc i = 0 \<Longrightarrow> 2 * i * 2 ^ (k - nlen i) = 2 ^ k"
    and "lo_anc i \<noteq> 0 \<Longrightarrow> pkey k (lo_anc i) = 2 * i * 2 ^ (k - nlen i)"
proof -
  let ?t = "nctz i"
  note d = lo_anc_decomp [OF assms(1)]
  show "lo_anc i = 0 \<Longrightarrow> 2 * i * 2 ^ (k - nlen i) = 2 ^ k"
  proof -
    assume "lo_anc i = 0"
    then have "i = 2 ^ ?t" using d by simp
    moreover from this have "nlen i = Suc ?t" by (intro nlen_eqI) (use assms(1) in simp_all)
    ultimately show ?thesis using assms(2) pow_split [of "Suc ?t" k] by (metis power_Suc)
  qed
  show "lo_anc i \<noteq> 0 \<Longrightarrow> pkey k (lo_anc i) = 2 * i * 2 ^ (k - nlen i)"
  proof -
    assume "lo_anc i \<noteq> 0"
    then have "nlen i = nlen (lo_anc i) + (?t + 1)"
      using d nlen_mult_pow_add [of "lo_anc i" "2 ^ ?t" "?t + 1"] by simp
    then have "k - nlen (lo_anc i) = (k - nlen i) + (?t + 1)" using assms(2) by simp
    then have "pkey k (lo_anc i) = (2 * lo_anc i + 1) * 2 ^ (?t + 1) * 2 ^ (k - nlen i)"
      by (metis mult.assoc mult.commute pkey_def power_add)
    moreover have "(2 * lo_anc i + 1) * 2 ^ (?t + 1) = 2 * i" by (subst (2) d) (simp add: algebra_simps)
    ultimately show ?thesis by simp
  qed
qed

lemma pkey_hi_anc:
  assumes "0 < i" "nlen i \<le> k"
  shows "hi_anc i = 0 \<Longrightarrow> (2 * i + 2) * 2 ^ (k - nlen i) = 2 ^ Suc k"
    and "hi_anc i \<noteq> 0 \<Longrightarrow> pkey k (hi_anc i) = (2 * i + 2) * 2 ^ (k - nlen i)"
proof -
  let ?t = "nctz (i + 1)"
  note d = hi_anc_decomp [of i]
  show "hi_anc i = 0 \<Longrightarrow> (2 * i + 2) * 2 ^ (k - nlen i) = 2 ^ Suc k"
  proof -
    assume "hi_anc i = 0"
    then have i: "i + 1 = 2 ^ ?t" using d by simp
    then have "nlen i \<le> ?t" by (simp only: nlen_le_iff)
    moreover have "\<not> nlen i < ?t"
    proof
      assume "nlen i < ?t"
      then have "2 ^ Suc (nlen i) \<le> (2 :: nat) ^ ?t" by (intro power_increasing) auto
      then show False using i nlen_upper [of i] assms(1) by simp
    qed
    ultimately have t: "nlen i = ?t" by simp
    have "2 * i + 2 = 2 * 2 ^ ?t" using i by simp
    then show ?thesis using assms(2) pow_split [of ?t k] t by (metis mult.assoc power_Suc)
  qed
  show "hi_anc i \<noteq> 0 \<Longrightarrow> pkey k (hi_anc i) = (2 * i + 2) * 2 ^ (k - nlen i)"
  proof -
    assume "hi_anc i \<noteq> 0"
    moreover from d have "i = hi_anc i * 2 ^ (?t + 1) + (2 ^ ?t - 1)"
      by (metis Nat.add_diff_assoc add_diff_cancel_right' one_le_numeral one_le_power)
    ultimately have "nlen i = nlen (hi_anc i) + (?t + 1)"
      using nlen_mult_pow_add [of "hi_anc i" "2 ^ ?t - 1" "?t + 1"] by (simp add: less_imp_diff_less)
    then have "k - nlen (hi_anc i) = (k - nlen i) + (?t + 1)" using assms(2) by simp
    then have "pkey k (hi_anc i) = (2 * hi_anc i + 1) * 2 ^ (?t + 1) * 2 ^ (k - nlen i)"
      by (metis mult.assoc mult.commute pkey_def power_add)
    moreover have "(2 * hi_anc i + 1) * 2 ^ (?t + 1) = 2 * (i + 1)" by (subst (2) d) (simp add: algebra_simps)
    ultimately show ?thesis by simp
  qed
qed

definition next_node :: "nat \<Rightarrow> nat \<Rightarrow> nat" where
  "next_node n i =
     (if 2 * i + 1 \<le> n then
        let j = (2 * i + 1) * 2 ^ (nlen n - nlen (2 * i + 1)) in if n < j then j div 2 else j
      else hi_anc i)"

definition prev_node :: "nat \<Rightarrow> nat \<Rightarrow> nat" where
  "prev_node n i =
     (if 2 * i \<le> n then
        let j = (2 * i + 1) * 2 ^ (nlen n - nlen (2 * i + 1)) - 1 in if n < j then j div 2 else j
      else lo_anc i)"

lemma nlen_child: "0 < i \<Longrightarrow> c < 2 \<Longrightarrow> nlen (2 * i + c) = Suc (nlen i)"
  by (rule nlen_double_add)

lemma pkey_top: "nlen j = k \<Longrightarrow> pkey k j = 2 * j + 1"
  by (simp add: pkey_def)

lemma pkey_second: "Suc (nlen j) = k \<Longrightarrow> pkey k j = 2 * (2 * j + 1)"
  by (auto simp: pkey_def)

text \<open>Without a child on one side a node is on one of the last two levels.\<close>

lemma no_child_level:
  assumes "0 < i" "i \<le> n" "n < 2 * i + 1"
  shows "nlen i = nlen n \<or> Suc (nlen i) = nlen n"
proof -
  have "nlen n \<le> nlen (2 * i + 1)" using assms by (intro nlen_mono) simp
  then show ?thesis using nlen_child [OF assms(1), of 1] nlen_mono [OF assms(2)] by simp linarith
qed

lemma rank_max:
  assumes "0 < i" "i \<le> n" "\<And>j. 0 < j \<Longrightarrow> j \<le> n \<Longrightarrow> pkey (nlen n) j \<le> pkey (nlen n) i"
  shows "rank n i = n"
proof -
  have "n \<in> rank n ` {1..n}" using rank_bij [of n] assms by (auto simp: bij_betw_def)
  then obtain j where j: "0 < j" "j \<le> n" "rank n j = n" by (auto simp: Suc_le_eq)
  then have "\<not> rank n i < rank n j" using assms rank_less_iff [of i n j] by (simp add: not_less)
  with j rank_range [OF assms(1,2)] show ?thesis by simp
qed

lemma rank_min:
  assumes "0 < i" "i \<le> n" "\<And>j. 0 < j \<Longrightarrow> j \<le> n \<Longrightarrow> pkey (nlen n) i \<le> pkey (nlen n) j"
  shows "rank n i = 1"
proof -
  have "1 \<in> rank n ` {1..n}" using rank_bij [of n] assms by (auto simp: bij_betw_def)
  then obtain k where k: "1 = rank n k" "k \<in> {1..n}" by (rule imageE)
  define j where "j = k"
  have j: "0 < j" "j \<le> n" "rank n j = 1" using k by (auto simp: j_def)
  then have "\<not> rank n j < rank n i" using assms rank_less_iff [of j n i] by (simp add: not_less)
  with j rank_range [OF assms(1,2)] show ?thesis by simp
qed

text \<open>A key strictly between those of two neighbours in the perfect tree belongs to no node.\<close>

lemma gap_absent:
  assumes "0 < i" "i \<le> n" "0 < j" "j \<le> n" "n < 2 * i + 1 \<or> nlen i = nlen n"
    and "pkey (nlen n) i < pkey (nlen n) j"
  shows "pkey (nlen n) i + 2 ^ (nlen n - nlen i) \<le> pkey (nlen n) j"
proof (cases "nlen i = nlen n")
  case True
  then show ?thesis using assms(6) by simp
next
  case False
  then have l: "Suc (nlen i) = nlen n" "n < 2 * i + 1"
    using assms(5) no_child_level [OF assms(1,2)] by auto
  then have "pkey (nlen n) i = 4 * i + 2" by (simp add: pkey_second)
  moreover have "pkey (nlen n) j \<noteq> pkey (nlen n) (2 * i + 1)"
    using pkey_inj [of "nlen n" j "2 * i + 1"] l(2) assms(4) by linarith
  moreover have "pkey (nlen n) (2 * i + 1) = 4 * i + 3"
    using l(1) nlen_child [OF assms(1), of 1] pkey_top [of "2 * i + 1"] by simp
  moreover have "(2 :: nat) ^ (nlen n - nlen i) = 2" by (simp flip: l(1))
  ultimately show ?thesis using assms(6) by linarith
qed

lemma next_node_rank:
  assumes "0 < i" "i \<le> n"
  shows "if rank n i = n then next_node n i = 0
         else 0 < next_node n i \<and> next_node n i \<le> n \<and> rank n (next_node n i) = rank n i + 1"
proof (cases "2 * i + 1 \<le> n")
  case True
  let ?c = "nlen n - nlen (2 * i + 1)"
  let ?j = "(2 * i + 1) * 2 ^ ?c"
  have le: "nlen (2 * i + 1) \<le> nlen n" using True by (rule nlen_mono)
  have li: "nlen (2 * i + 1) = Suc (nlen i)" using nlen_child [OF assms(1), of 1] by simp
  have nj: "nlen ?j = nlen n" using le by (simp add: nlen_mult_pow del: mult_Suc)
  have "nlen n - nlen i = Suc ?c" using le li by simp
  then have ki: "pkey (nlen n) i = 2 * ?j" by (simp add: pkey_def)
  have "rank n (next_node n i) = rank n i + 1 \<and> 0 < next_node n i \<and> next_node n i \<le> n"
  proof (cases "n < ?j")
    case False
    then have "next_node n i = ?j" using True by (simp add: next_node_def Let_def)
    moreover have "pkey (nlen n) ?j = pkey (nlen n) i + 1" using nj ki by (simp add: pkey_top)
    ultimately show ?thesis using rank_step_1 [OF assms, of ?j] False by simp
  next
    case n: True
    with True have "0 < ?c" by (metis gr0I mult.right_neutral not_less power_0)
    then obtain c where c: "?c = Suc c" by (metis gr0_conv_Suc)
    let ?h = "(2 * i + 1) * 2 ^ c"
    have h: "?j = 2 * ?h" using c by simp
    have nx: "next_node n i = ?h" using True n h by (simp add: next_node_def Let_def)
    have nh: "Suc (nlen ?h) = nlen n" using c le by (simp add: nlen_mult_pow del: mult_Suc)
    have "pkey (nlen n) ?h = pkey (nlen n) i + 2" using pkey_second [OF nh] ki h by simp
    moreover have "?h \<le> n" using nh nlen_bounds [of n] nlen_upper [of ?h] assms by (simp flip: nh)
    moreover have "extra_pos n + 2 ^ nlen n \<le> pkey (nlen n) i" using extra_eq(1) [of n] assms n ki by linarith
    ultimately show ?thesis using rank_step_2 [OF assms, of ?h] nx by simp
  qed
  then show ?thesis using rank_range [of "next_node n i" n] by auto
next
  case False
  let ?h = "hi_anc i"
  have nx: "next_node n i = ?h" using False by (simp add: next_node_def)
  have lv: "nlen i = nlen n \<or> Suc (nlen i) = nlen n" using no_child_level [OF assms] False by simp
  have le: "nlen i \<le> nlen n" by (rule nlen_mono [OF assms(2)])
  show ?thesis
  proof (cases "?h = 0")
    case True
    then have e: "pkey (nlen n) i + 2 ^ (nlen n - nlen i) = 2 ^ Suc (nlen n)"
      using pkey_hi_anc(1) [OF assms(1) le] by (simp add: pkey_def)
    have "pkey (nlen n) j \<le> pkey (nlen n) i" if "0 < j" "j \<le> n" for j
      using gap_absent [OF assms that] e pkey_range [OF that(1) nlen_mono [OF that(2)]] False
      by (metis leD leI not_less)
    then have "rank n i = n" by (intro rank_max assms)
    then show ?thesis using nx True by simp
  next
    case h: False
    then have e: "pkey (nlen n) ?h = pkey (nlen n) i + 2 ^ (nlen n - nlen i)"
      using pkey_hi_anc(2) [OF assms(1) le] by (simp add: pkey_def)
    have "?h \<le> i" by (simp add: hi_anc_def)
    then have "0 < ?h" "?h \<le> n" using h assms by auto
    moreover have "rank n ?h = rank n i + 1"
      using lv
    proof
      assume "nlen i = nlen n"
      then show ?thesis using rank_step_1 [OF assms \<open>0 < ?h\<close> \<open>?h \<le> n\<close>] e by simp
    next
      assume l: "Suc (nlen i) = nlen n"
      then have "extra_pos n + 2 ^ nlen n \<le> pkey (nlen n) i"
        using extra_eq(1) [of n] assms False by (simp add: pkey_second)
      moreover have "(2 :: nat) ^ (nlen n - nlen i) = 2" by (simp flip: l)
      ultimately show ?thesis using rank_step_2 [OF assms \<open>0 < ?h\<close> \<open>?h \<le> n\<close>] e by simp
    qed
    ultimately show ?thesis using nx rank_range [of ?h n] by auto
  qed
qed

lemma gap_absent_below:
  assumes "0 < i" "i \<le> n" "0 < j" "j \<le> n" "n < 2 * i"
    and "pkey (nlen n) j < pkey (nlen n) i"
  shows "pkey (nlen n) j + 2 ^ (nlen n - nlen i) \<le> pkey (nlen n) i"
proof (cases "nlen i = nlen n")
  case True
  then show ?thesis using assms(6) by simp
next
  case False
  then have l: "Suc (nlen i) = nlen n"
    using assms(5) no_child_level [OF assms(1,2)] by auto
  then have "pkey (nlen n) i = 4 * i + 2" by (simp add: pkey_second)
  moreover have "pkey (nlen n) j \<noteq> pkey (nlen n) (2 * i)"
    using pkey_inj [of "nlen n" j "2 * i"] assms(4,5) by linarith
  moreover have "pkey (nlen n) (2 * i) = 4 * i + 1"
    using l nlen_child [OF assms(1), of 0] pkey_top [of "2 * i"] by simp
  moreover have "(2 :: nat) ^ (nlen n - nlen i) = 2" by (simp flip: l)
  ultimately show ?thesis using assms(6) by linarith
qed

lemma prev_node_rank:
  assumes "0 < i" "i \<le> n"
  shows "if rank n i = 1 then prev_node n i = 0
         else 0 < prev_node n i \<and> prev_node n i \<le> n \<and> rank n (prev_node n i) + 1 = rank n i"
proof (cases "2 * i \<le> n")
  case True
  let ?c = "nlen n - nlen (2 * i + 1)"
  let ?j = "(2 * i + 1) * 2 ^ ?c - 1"
  have li: "nlen (2 * i + 1) = Suc (nlen i)" "nlen (2 * i) = Suc (nlen i)"
    using nlen_child [OF assms(1), of 1] nlen_child [OF assms(1), of 0] by simp_all
  have le: "nlen (2 * i + 1) \<le> nlen n" using nlen_mono [OF True] li by simp
  have ge: "2 * i + 1 \<le> (2 * i + 1) * 2 ^ c" for c
    by (metis mult.right_neutral mult_le_mono2 one_le_numeral one_le_power)
  have j1: "0 < ?j" "?j + 1 = (2 * i + 1) * 2 ^ ?c"
    using assms(1) ge [of ?c] by linarith+
  have nj: "nlen ?j = nlen n"
  proof (cases ?c)
    case 0
    then show ?thesis using li le by simp
  next
    case (Suc c)
    have "?j = (2 * i) * 2 ^ ?c + (2 ^ ?c - 1)" by (simp add: algebra_simps)
    then show ?thesis using nlen_mult_pow_add [of "2 * i" "2 ^ ?c - 1" ?c] assms(1) li le by simp
  qed
  have "nlen n - nlen i = Suc ?c" using le li by simp
  then have ki: "pkey (nlen n) i = 2 * ?j + 2" using j1 by (simp add: pkey_def)
  have "rank n (prev_node n i) + 1 = rank n i \<and> 0 < prev_node n i \<and> prev_node n i \<le> n"
  proof (cases "n < ?j")
    case False
    then have "prev_node n i = ?j" using True by (simp add: prev_node_def Let_def)
    moreover have "pkey (nlen n) i = pkey (nlen n) ?j + 1" using nj ki by (simp add: pkey_top)
    ultimately show ?thesis using rank_step_1 [OF j1(1) _ assms] False j1(1) by simp
  next
    case n: True
    with True have "0 < ?c" by (metis gr0I mult.right_neutral not_less power_0 diff_add_inverse2)
    then obtain c where c: "?c = Suc c" by (metis gr0_conv_Suc)
    let ?h = "(2 * i + 1) * 2 ^ c - 1"
    have "(2 * i + 1) * 2 ^ ?c = 2 * ((2 * i + 1) * 2 ^ c)" using c by simp
    then have h: "?j = 2 * ?h + 1" using ge [of c] by linarith
    have nx: "prev_node n i = ?h" using True n h by (simp add: prev_node_def Let_def)
    have "0 < ?h" using assms(1) ge [of c] by linarith
    then have nh: "Suc (nlen ?h) = nlen n" using nlen_child [of ?h 1] nj h by simp
    have k: "pkey (nlen n) i = pkey (nlen n) ?h + 2" using pkey_second [OF nh] ki h by simp
    moreover have hn: "?h \<le> n" using nh nlen_bounds [of n] nlen_upper [of ?h] assms by (simp flip: nh)
    moreover have "extra_pos n + 2 ^ nlen n \<le> pkey (nlen n) ?h" using extra_eq(1) [of n] assms n ki k by linarith
    ultimately show ?thesis using rank_step_2 [OF \<open>0 < ?h\<close> hn assms] nx \<open>0 < ?h\<close> by simp
  qed
  then show ?thesis using rank_range [of "prev_node n i" n] by auto
next
  case False
  let ?h = "lo_anc i"
  have nx: "prev_node n i = ?h" using False by (simp add: prev_node_def)
  have le: "nlen i \<le> nlen n" by (rule nlen_mono [OF assms(2)])
  show ?thesis
  proof (cases "?h = 0")
    case True
    then have e: "pkey (nlen n) i = 2 ^ nlen n + 2 ^ (nlen n - nlen i)"
      using pkey_lo_anc(1) [OF assms(1) le] by (simp add: pkey_def)
    have "pkey (nlen n) i \<le> pkey (nlen n) j" if "0 < j" "j \<le> n" for j
      using gap_absent_below [OF assms that] e pkey_range [OF that(1) nlen_mono [OF that(2)]] False
      by (metis add_le_cancel_right leD leI)
    then have "rank n i = 1" by (intro rank_min assms)
    then show ?thesis using nx True by simp
  next
    case h: False
    then have e: "pkey (nlen n) i = pkey (nlen n) ?h + 2 ^ (nlen n - nlen i)"
      using pkey_lo_anc(2) [OF assms(1) le] by (simp add: pkey_def)
    have "?h \<le> i" by (simp add: lo_anc_def)
    then have hn: "0 < ?h" "?h \<le> n" using h assms by auto
    moreover have "rank n i = rank n ?h + 1"
    proof (cases "nlen i = nlen n")
      case True
      then show ?thesis using rank_step_1 [OF hn assms] e by simp
    next
      case l: False
      then have l: "Suc (nlen i) = nlen n" using no_child_level [OF assms] False by simp
      then have "(2 :: nat) ^ (nlen n - nlen i) = 2" by (simp flip: l)
      moreover have "pkey (nlen n) i = 4 * i + 2" using l by (simp add: pkey_second)
      ultimately show ?thesis
        using rank_step_2 [OF hn assms] e extra_eq(1) [of n] assms False by simp
    qed
    ultimately show ?thesis using nx rank_range [of ?h n] by auto
  qed
qed

section \<open>Searching\<close>

text \<open>The loop of the searches: from node \<open>i\<close> go down until past the last node.\<close>

function descend :: "(nat \<Rightarrow> bool) \<Rightarrow> nat \<Rightarrow> nat \<Rightarrow> nat" where
  "descend P n i = (if 0 < i \<and> i \<le> n then descend P n (2 * i + of_bool (P i)) else i)"
  by pat_completeness auto
termination
  by (relation "measure (\<lambda>(P, n, i). Suc n - i)") auto

declare descend.simps [simp del]

lemma lo_anc_child: "0 < i \<Longrightarrow> lo_anc (2 * i) = lo_anc i" "lo_anc (2 * i + 1) = i"
  by (simp_all add: lo_anc_def nctz_double div_mult2_eq)

lemma hi_anc_child: "hi_anc (2 * i) = i" "hi_anc (2 * i + 1) = hi_anc i"
proof -
  have "2 * i + 1 + 1 = 2 * (i + 1)" by simp
  then have "nctz (2 * i + 1 + 1) = Suc (nctz (i + 1))" by (metis nctz_double zero_less_Suc Suc_eq_plus1)
  moreover have "(2 * i + 1) div 2 ^ Suc (nctz (i + 1) + 1) = (2 * i + 1) div 2 div 2 ^ (nctz (i + 1) + 1)"
    by (simp only: power_Suc div_mult2_eq)
  ultimately show "hi_anc (2 * i + 1) = hi_anc i" unfolding hi_anc_def by simp
qed (simp add: hi_anc_def)

definition search_inv :: "(nat \<Rightarrow> bool) \<Rightarrow> nat \<Rightarrow> nat \<Rightarrow> bool" where
  "search_inv P n i \<longleftrightarrow>
     0 < i \<and> nlen i \<le> Suc (nlen n) \<and>
     (lo_anc i = 0 \<or> lo_anc i \<le> n \<and> P (lo_anc i)) \<and> (hi_anc i = 0 \<or> hi_anc i \<le> n \<and> \<not> P (hi_anc i))"

lemma search_inv_1: "search_inv P n 1"
proof -
  have "nctz 1 = 0" "nctz 2 = 1" "nlen 1 = 1"
    by (simp_all add: nctz.simps nlen.simps)
  then show ?thesis by (simp add: search_inv_def lo_anc_def hi_anc_def numeral_2_eq_2 [symmetric])
qed

lemma search_inv_child:
  assumes "search_inv P n i" "i \<le> n"
  shows "search_inv P n (2 * i + of_bool (P i))"
proof -
  have i: "0 < i" using assms by (simp add: search_inv_def)
  have "nlen (2 * i + of_bool (P i)) = Suc (nlen i)" using nlen_child [OF i] by simp
  then show ?thesis using assms nlen_mono [OF assms(2)] i
    by (cases "P i") (auto simp: search_inv_def lo_anc_child lo_anc_child(2) [simplified] hi_anc_child hi_anc_child(2) [simplified])
qed

lemma descend_inv: "search_inv P n i \<Longrightarrow> search_inv P n (descend P n i) \<and> n < descend P n i"
proof (induction P n i rule: descend.induct)
  case (1 P n i)
  show ?case
  proof (cases "i \<le> n")
    case True
    moreover have "0 < i" using "1.prems" by (simp add: search_inv_def)
    ultimately show ?thesis using "1.IH" search_inv_child [OF "1.prems" True] by (subst (1 2) descend.simps) simp
  next
    case False
    then show ?thesis using "1.prems" by (subst (1 2) descend.simps) simp
  qed
qed

text \<open>What lies left of the node where the search ends is what satisfies the predicate.\<close>

lemma search_end:
  assumes inv: "search_inv P n i" and "n < i"
    and mono: "\<And>a b. 0 < a \<Longrightarrow> a \<le> n \<Longrightarrow> 0 < b \<Longrightarrow> b \<le> n \<Longrightarrow> rank n a < rank n b \<Longrightarrow> P b \<Longrightarrow> P a"
    and m: "0 < m" "m \<le> n"
  shows "P m \<longleftrightarrow> lo_anc i \<noteq> 0 \<and> rank n m \<le> rank n (lo_anc i)"
    and "\<not> P m \<longleftrightarrow> hi_anc i \<noteq> 0 \<and> rank n (hi_anc i) \<le> rank n m"
proof -
  let ?k = "Suc (nlen n)" and ?w = "2 ^ (Suc (nlen n) - nlen i) :: nat"
  have i: "0 < i" "nlen i \<le> ?k" using inv by (auto simp: search_inv_def)
  have key: "pkey ?k a = 2 * pkey (nlen n) a" if "a \<le> n" for a
    using nlen_mono [OF that] by (rule pkey_Suc)
  have nl: "nlen n \<le> nlen i" using assms(2) by (intro nlen_mono) simp
  have w: "?w = 1 \<or> ?w = 2" using nl i(2) by (cases "nlen i = nlen n") (auto simp: le_Suc_eq)
  have "pkey ?k m \<noteq> pkey ?k i" using pkey_inj [of ?k m i] assms(2) m by linarith
  moreover have "even (pkey ?k m)" using key [OF m(2)] by simp
  moreover have pi: "pkey ?k i = 2 * i * ?w + ?w" by (simp add: pkey_def)
  ultimately have gap: "pkey ?k m \<le> 2 * i * ?w \<or> (2 * i + 2) * ?w \<le> pkey ?k m"
    using w by (elim disjE) (auto elim!: evenE; presburger)+
  have pos: "2 ^ ?k < pkey ?k m" "pkey ?k m < 2 ^ Suc ?k"
    using pkey_range [OF m(1), of ?k] nlen_mono [OF m(2)] by auto
  have le: "rank n a \<le> rank n b" if "0 < a" "a \<le> n" "0 < b" "b \<le> n" "pkey ?k a \<le> pkey ?k b" for a b
    using that rank_less_iff [of b n a] key [of a] key [of b] by (simp add: not_less [symmetric])
  have down: "P a" if "0 < a" "a \<le> n" "0 < b" "b \<le> n" "rank n a \<le> rank n b" "P b" for a b
    using that mono [of a b] rank_inj [of a n b] by (metis le_neq_implies_less)
  have lo: "lo_anc i \<noteq> 0 \<and> rank n m \<le> rank n (lo_anc i) \<and> P m" if "pkey ?k m \<le> 2 * i * ?w"
  proof -
    have "lo_anc i \<noteq> 0" using pkey_lo_anc(1) [OF i] that pos by auto
    moreover from this have "lo_anc i \<le> n" "P (lo_anc i)" using inv by (auto simp: search_inv_def)
    ultimately show ?thesis using that le [OF m, of "lo_anc i"] down [OF m, of "lo_anc i"] pkey_lo_anc(2) [OF i] by auto
  qed
  have hi: "hi_anc i \<noteq> 0 \<and> rank n (hi_anc i) \<le> rank n m \<and> \<not> P m" if "(2 * i + 2) * ?w \<le> pkey ?k m"
  proof -
    have "hi_anc i \<noteq> 0" using pkey_hi_anc(1) [OF i] that pos by auto
    moreover from this have "hi_anc i \<le> n" "\<not> P (hi_anc i)" using inv by (auto simp: search_inv_def)
    ultimately show ?thesis
      using that le [of "hi_anc i" m] down [of "hi_anc i" m] m pkey_hi_anc(2) [OF i] by auto
  qed
  have L: "P (lo_anc i) \<and> lo_anc i \<le> n" if "lo_anc i \<noteq> 0" using inv that by (auto simp: search_inv_def)
  have H: "\<not> P (hi_anc i) \<and> hi_anc i \<le> n" if "hi_anc i \<noteq> 0" using inv that by (auto simp: search_inv_def)
  show "P m \<longleftrightarrow> lo_anc i \<noteq> 0 \<and> rank n m \<le> rank n (lo_anc i)"
    using gap lo hi down [OF m, of "lo_anc i"] L by blast
  show "\<not> P m \<longleftrightarrow> hi_anc i \<noteq> 0 \<and> rank n (hi_anc i) \<le> rank n m"
    using gap lo hi down [of "hi_anc i" m] m H by blast
qed

text \<open>When exactly the first \<open>k\<close> nodes in order satisfy the predicate, the search ends between the
  \<open>k\<close>-th and the next one.\<close>

lemma search_result:
  assumes k: "k \<le> n" and P: "\<And>r. 0 < r \<Longrightarrow> r \<le> n \<Longrightarrow> P (node_of_rank n r) \<longleftrightarrow> r \<le> k"
    and inv: "search_inv P n i" and "n < i"
  shows "lo_anc i = (if k = 0 then 0 else node_of_rank n k)"
    and "hi_anc i = (if k = n then 0 else node_of_rank n (k + 1))"
proof -
  have Pr: "P m \<longleftrightarrow> rank n m \<le> k" if "0 < m" "m \<le> n" for m
    using P [of "rank n m"] rank_range [OF that] node_of_rank_rank [OF that] by simp
  have mono: "P a" if "0 < a" "a \<le> n" "0 < b" "b \<le> n" "rank n a < rank n b" "P b" for a b
    using that Pr by simp
  have e: "P m \<longleftrightarrow> lo_anc i \<noteq> 0 \<and> rank n m \<le> rank n (lo_anc i)"
    "\<not> P m \<longleftrightarrow> hi_anc i \<noteq> 0 \<and> rank n (hi_anc i) \<le> rank n m" if "0 < m" "m \<le> n" for m
    using search_end [OF inv assms(4) _ that] mono by blast+
  show "lo_anc i = (if k = 0 then 0 else node_of_rank n k)"
  proof (cases "k = 0")
    case True
    have "\<not> lo_anc i \<noteq> 0"
    proof
      assume "lo_anc i \<noteq> 0"
      then have "0 < lo_anc i" "lo_anc i \<le> n" "P (lo_anc i)" using inv by (auto simp: search_inv_def)
      then show False using Pr [of "lo_anc i"] rank_range [of "lo_anc i" n] True by auto
    qed
    then show ?thesis using True by simp
  next
    case False
    let ?m = "node_of_rank n k"
    have m: "0 < ?m" "?m \<le> n" "rank n ?m = k" using rank_node_of_rank [of k n] False k by auto
    then have lo: "lo_anc i \<noteq> 0" "k \<le> rank n (lo_anc i)" using e(1) [OF m(1,2)] Pr by auto
    then have "P (lo_anc i)" "0 < lo_anc i" "lo_anc i \<le> n" using inv by (auto simp: search_inv_def)
    then have "rank n (lo_anc i) = k" using Pr lo by auto
    then show ?thesis using m False \<open>0 < lo_anc i\<close> \<open>lo_anc i \<le> n\<close> node_of_rank_rank by metis
  qed
  show "hi_anc i = (if k = n then 0 else node_of_rank n (k + 1))"
  proof (cases "k = n")
    case True
    have "\<not> hi_anc i \<noteq> 0"
    proof
      assume "hi_anc i \<noteq> 0"
      then have "0 < hi_anc i" "hi_anc i \<le> n" "\<not> P (hi_anc i)" using inv by (auto simp: search_inv_def)
      then show False using Pr [of "hi_anc i"] rank_range [of "hi_anc i" n] True by auto
    qed
    then show ?thesis using True by simp
  next
    case False
    let ?m = "node_of_rank n (k + 1)"
    have m: "0 < ?m" "?m \<le> n" "rank n ?m = k + 1" using rank_node_of_rank [of "k + 1" n] False k by auto
    then have hi: "hi_anc i \<noteq> 0" "rank n (hi_anc i) \<le> k + 1" using e(2) [OF m(1,2)] Pr by auto
    then have "\<not> P (hi_anc i)" "0 < hi_anc i" "hi_anc i \<le> n" using inv by (auto simp: search_inv_def)
    then have "rank n (hi_anc i) = k + 1" using Pr hi by auto
    then show ?thesis using m False \<open>0 < hi_anc i\<close> \<open>hi_anc i \<le> n\<close> node_of_rank_rank by metis
  qed
qed

lemma search_inv_bound: "search_inv P n i \<Longrightarrow> n < 2 ^ k \<Longrightarrow> i < 2 ^ Suc k"
  unfolding search_inv_def nlen_le_iff [symmetric] by simp

end
