(* ===== verification/Eytzinger.thy ===== *)
theory Eytzinger
  imports Bitops Eytzinger_Order
begin

text \<open>
  Binary trees in eytzinger layout, \<^verbatim>\<open>fs/util/eytzinger.h\<close>: node \<open>i\<close> of a one-based tree of \<open>size\<close> nodes
  has children \<open>2 i\<close> and \<open>2 i + 1\<close>. The operations work on \<^verbatim>\<open>unsigned\<close> (32 bits) as in the source;
  the scans take an \<^verbatim>\<open>unsigned long\<close>, to which the argument is widened.

  The order of the nodes is the \<open>rank\<close> of \<open>Eytzinger_Order\<close>, the position of a node among those that
  exist. The lemmas relate every traversal, index conversion and search to it, for trees of fewer
  than \<open>2 ^ 30\<close> nodes: in larger ones the source shifts an \<^verbatim>\<open>unsigned\<close> by 32, which C leaves undefined.
\<close>

unbundle bit_operations_syntax

section \<open>Operations\<close>

definition eytzinger1_child :: "u32 \<Rightarrow> u32 \<Rightarrow> u32" where
  "eytzinger1_child i child = push_bit 1 i + child"

definition eytzinger1_left_child :: "u32 \<Rightarrow> u32" where
  "eytzinger1_left_child i = eytzinger1_child i 0"

definition eytzinger1_right_child :: "u32 \<Rightarrow> u32" where
  "eytzinger1_right_child i = eytzinger1_child i 1"

definition eytzinger1_first :: "u32 \<Rightarrow> u32" where
  "eytzinger1_first sz = (if sz \<noteq> 0 then ucast (rounddown_pow_of_two (ucast sz)) else 0)"

definition eytzinger1_last :: "u32 \<Rightarrow> u32" where
  "eytzinger1_last sz = ucast (rounddown_pow_of_two (ucast (sz + 1)) - 1)"

definition eytzinger1_next :: "u32 \<Rightarrow> u32 \<Rightarrow> u32" where
  "eytzinger1_next i sz =
     (if eytzinger1_right_child i \<le> sz then
        let i = eytzinger1_right_child i;
            i = push_bit (raw_fls (ucast sz) - raw_fls (ucast i)) i
        in drop_bit (of_bool (i > sz)) i
      else drop_bit (ffz (ucast i) + 1) i)"

definition eytzinger1_prev :: "u32 \<Rightarrow> u32 \<Rightarrow> u32" where
  "eytzinger1_prev i sz =
     (if eytzinger1_left_child i \<le> sz then
        let i = eytzinger1_left_child i + 1;
            i = push_bit (raw_fls (ucast sz) - raw_fls (ucast i)) i;
            i = i - 1
        in drop_bit (of_bool (i > sz)) i
      else drop_bit (raw_ffs (ucast i) + 1) i)"

definition eytzinger1_extra :: "u32 \<Rightarrow> u32" where
  "eytzinger1_extra sz =
     (if sz \<noteq> 0 then push_bit 1 (sz + 1 - ucast (rounddown_pow_of_two (ucast sz))) else 0)"

text \<open>\<^verbatim>\<open>s\<close> is an \<^verbatim>\<open>int\<close>: its right shifts are arithmetic.\<close>

definition raw_eytzinger1_to_inorder :: "u32 \<Rightarrow> u32 \<Rightarrow> u32 \<Rightarrow> u32" where
  "raw_eytzinger1_to_inorder i sz extra =
     (let b = raw_fls (ucast i);
          shift = raw_fls (ucast sz) - b;
          i = i XOR push_bit b 1;
          i = push_bit 1 i;
          i = i OR 1;
          i = push_bit shift i;
          s = extra - i
      in i + (signed_drop_bit 1 s AND signed_drop_bit 31 s))"

definition raw_inorder_to_eytzinger1 :: "u32 \<Rightarrow> u32 \<Rightarrow> u32 \<Rightarrow> u32" where
  "raw_inorder_to_eytzinger1 i sz extra =
     (let s = extra - i;
          i = i - (s AND signed_drop_bit 31 s);
          shift = raw_ffs (ucast i);
          i = drop_bit (shift + 1) i
      in i OR push_bit (raw_fls (ucast sz) - shift) 1)"

definition eytzinger1_to_inorder :: "u32 \<Rightarrow> u32 \<Rightarrow> u32" where
  "eytzinger1_to_inorder i sz = raw_eytzinger1_to_inorder i sz (eytzinger1_extra sz)"

definition inorder_to_eytzinger1 :: "u32 \<Rightarrow> u32 \<Rightarrow> u32" where
  "inorder_to_eytzinger1 i sz = raw_inorder_to_eytzinger1 i sz (eytzinger1_extra sz)"

subsection \<open>Zero-based variants\<close>

definition eytzinger0_child :: "u32 \<Rightarrow> u32 \<Rightarrow> u32" where
  "eytzinger0_child i child = push_bit 1 i + 1 + child"

definition eytzinger0_left_child :: "u32 \<Rightarrow> u32" where
  "eytzinger0_left_child i = eytzinger0_child i 0"

definition eytzinger0_right_child :: "u32 \<Rightarrow> u32" where
  "eytzinger0_right_child i = eytzinger0_child i 1"

definition eytzinger0_first :: "u32 \<Rightarrow> u32" where
  "eytzinger0_first sz = eytzinger1_first sz - 1"

definition eytzinger0_last :: "u32 \<Rightarrow> u32" where
  "eytzinger0_last sz = eytzinger1_last sz - 1"

definition eytzinger0_next :: "u32 \<Rightarrow> u32 \<Rightarrow> u32" where
  "eytzinger0_next i sz = eytzinger1_next (i + 1) sz - 1"

definition eytzinger0_prev :: "u32 \<Rightarrow> u32 \<Rightarrow> u32" where
  "eytzinger0_prev i sz = eytzinger1_prev (i + 1) sz - 1"

definition eytzinger0_extra :: "u32 \<Rightarrow> u32" where
  "eytzinger0_extra sz = eytzinger1_extra sz"

definition raw_eytzinger0_to_inorder :: "u32 \<Rightarrow> u32 \<Rightarrow> u32 \<Rightarrow> u32" where
  "raw_eytzinger0_to_inorder i sz extra = raw_eytzinger1_to_inorder (i + 1) sz extra - 1"

definition raw_inorder_to_eytzinger0 :: "u32 \<Rightarrow> u32 \<Rightarrow> u32 \<Rightarrow> u32" where
  "raw_inorder_to_eytzinger0 i sz extra = raw_inorder_to_eytzinger1 (i + 1) sz extra - 1"

definition eytzinger0_to_inorder :: "u32 \<Rightarrow> u32 \<Rightarrow> u32" where
  "eytzinger0_to_inorder i sz = raw_eytzinger0_to_inorder i sz (eytzinger0_extra sz)"

definition inorder_to_eytzinger0 :: "u32 \<Rightarrow> u32 \<Rightarrow> u32" where
  "inorder_to_eytzinger0 i sz = raw_inorder_to_eytzinger0 i sz (eytzinger0_extra sz)"

subsection \<open>Loops over a tree\<close>

text \<open>The loops \<^verbatim>\<open>eytzinger1_for_each\<close>, \<^verbatim>\<open>eytzinger0_for_each\<close> and \<^verbatim>\<open>eytzinger0_for_each_prev\<close> collect
  the nodes they visit; \<open>None\<close> when the loop does not end.\<close>

partial_function (option) eytzinger1_for_each_from :: "u32 \<Rightarrow> u32 \<Rightarrow> u32 list option" where
  "eytzinger1_for_each_from i sz =
     (if i \<noteq> 0 then Option.bind (eytzinger1_for_each_from (eytzinger1_next i sz) sz) (\<lambda>l. Some (i # l))
      else Some [])"

definition eytzinger1_for_each :: "u32 \<Rightarrow> u32 list option" where
  "eytzinger1_for_each sz = eytzinger1_for_each_from (eytzinger1_first sz) sz"

partial_function (option) eytzinger0_for_each_from :: "u32 \<Rightarrow> u32 \<Rightarrow> u32 list option" where
  "eytzinger0_for_each_from i sz =
     (if i \<noteq> - 1 then Option.bind (eytzinger0_for_each_from (eytzinger0_next i sz) sz) (\<lambda>l. Some (i # l))
      else Some [])"

definition eytzinger0_for_each :: "u32 \<Rightarrow> u32 list option" where
  "eytzinger0_for_each sz = eytzinger0_for_each_from (eytzinger0_first sz) sz"

partial_function (option) eytzinger0_for_each_prev_from :: "u32 \<Rightarrow> u32 \<Rightarrow> u32 list option" where
  "eytzinger0_for_each_prev_from i sz =
     (if i \<noteq> - 1 then Option.bind (eytzinger0_for_each_prev_from (eytzinger0_prev i sz) sz) (\<lambda>l. Some (i # l))
      else Some [])"

definition eytzinger0_for_each_prev :: "u32 \<Rightarrow> u32 list option" where
  "eytzinger0_for_each_prev sz = eytzinger0_for_each_prev_from (eytzinger0_last sz) sz"

subsection \<open>Searches\<close>

text \<open>The array is a list; \<open>elem1 base n\<close> is the element at \<^verbatim>\<open>base1 + n * size\<close>, where
  \<^verbatim>\<open>base1 = base - size\<close>. A read outside the array, or a loop that does not end, is \<open>None\<close>. The result is
  an \<^verbatim>\<open>int\<close>, \<^verbatim>\<open>-1\<close> when nothing is found.\<close>

definition elem1 :: "'e list \<Rightarrow> u32 \<Rightarrow> 'e option" where
  "elem1 base n = (if 1 \<le> unat n \<and> unat n \<le> length base then Some (base ! (unat n - 1)) else None)"

partial_function (option) eytzinger_descend :: "('e \<Rightarrow> bool) \<Rightarrow> 'e list \<Rightarrow> u64 \<Rightarrow> u32 \<Rightarrow> u32 option" where
  "eytzinger_descend right base nr n =
     (if ucast n \<le> nr then
        Option.bind (elem1 base n)
          (\<lambda>e. eytzinger_descend right base nr (eytzinger1_child n (of_bool (right e))))
      else Some n)"

definition eytzinger0_find_le :: "'e list \<Rightarrow> u64 \<Rightarrow> ('e \<Rightarrow> 'k \<Rightarrow> int) \<Rightarrow> 'k \<Rightarrow> int option" where
  "eytzinger0_find_le base nr cmp search =
     map_option (\<lambda>n. sint (drop_bit (raw_ffs (ucast n) + 1) n - 1))
       (eytzinger_descend (\<lambda>e. cmp e search \<le> 0) base nr 1)"

definition eytzinger0_find_gt :: "'e list \<Rightarrow> u64 \<Rightarrow> ('e \<Rightarrow> 'k \<Rightarrow> int) \<Rightarrow> 'k \<Rightarrow> int option" where
  "eytzinger0_find_gt base nr cmp search =
     map_option (\<lambda>n. sint (drop_bit (raw_ffs (ucast (n + 1)) + 1) n - 1))
       (eytzinger_descend (\<lambda>e. cmp e search \<le> 0) base nr 1)"

definition eytzinger0_find_ge :: "'e list \<Rightarrow> u64 \<Rightarrow> ('e \<Rightarrow> 'k \<Rightarrow> int) \<Rightarrow> 'k \<Rightarrow> int option" where
  "eytzinger0_find_ge base nr cmp search =
     map_option (\<lambda>n. sint (drop_bit (raw_ffs (ucast (n + 1)) + 1) n - 1))
       (eytzinger_descend (\<lambda>e. cmp e search < 0) base nr 1)"

text \<open>The exact searches. In \<^verbatim>\<open>eytzinger1_find\<close> the element at index \<open>i\<close> is at \<^verbatim>\<open>base + i * size\<close>; the
  zero-based searches pass \<^verbatim>\<open>base - size\<close>, so here too the list starts with the element of node one.
  The comparison with \<^verbatim>\<open>priv\<close> is the comparison function applied to it.\<close>

partial_function (option) eytzinger1_find_from :: "'e list \<Rightarrow> u32 \<Rightarrow> ('k \<Rightarrow> 'e \<Rightarrow> int) \<Rightarrow> 'k \<Rightarrow> u32 \<Rightarrow> int option" where
  "eytzinger1_find_from base nr cmp_fn search i =
     (if i \<le> nr then
        Option.bind (elem1 base i) (\<lambda>e.
          let cmp = cmp_fn search e in
          if cmp = 0 then Some (sint i)
          else eytzinger1_find_from base nr cmp_fn search (eytzinger1_child i (of_bool (cmp > 0))))
      else Some 0)"

definition eytzinger1_find :: "'e list \<Rightarrow> u32 \<Rightarrow> ('k \<Rightarrow> 'e \<Rightarrow> int) \<Rightarrow> 'k \<Rightarrow> int option" where
  "eytzinger1_find base nr cmp_fn search = eytzinger1_find_from base nr cmp_fn search 1"

definition eytzinger1_find_r :: "'e list \<Rightarrow> u32 \<Rightarrow> ('k \<Rightarrow> 'e \<Rightarrow> 'p \<Rightarrow> int) \<Rightarrow> 'p \<Rightarrow> 'k \<Rightarrow> int option" where
  "eytzinger1_find_r base nr cmp_fn priv search = eytzinger1_find_from base nr (\<lambda>s e. cmp_fn s e priv) search 1"

definition eytzinger0_find :: "'e list \<Rightarrow> u32 \<Rightarrow> ('k \<Rightarrow> 'e \<Rightarrow> int) \<Rightarrow> 'k \<Rightarrow> int option" where
  "eytzinger0_find base nr cmp_fn search = map_option (\<lambda>i. i - 1) (eytzinger1_find base nr cmp_fn search)"

definition eytzinger0_find_r :: "'e list \<Rightarrow> u32 \<Rightarrow> ('k \<Rightarrow> 'e \<Rightarrow> 'p \<Rightarrow> int) \<Rightarrow> 'p \<Rightarrow> 'k \<Rightarrow> int option" where
  "eytzinger0_find_r base nr cmp_fn priv search = map_option (\<lambda>i. i - 1) (eytzinger1_find_r base nr cmp_fn priv search)"

section \<open>The operations as functions of natural numbers\<close>

lemma unat_32_64 [simp]: "unat (ucast (w :: u32) :: u64) = unat w"
  by (rule unat_ucast_up) simp

lemma ucast_32_64_eq_0 [simp]: "ucast (w :: u32) = (0 :: u64) \<longleftrightarrow> w = 0"
  by (metis unat_32_64 unat_eq_0)

lemma raw_fls_32: "w \<noteq> 0 \<Longrightarrow> raw_fls (ucast (w :: u32)) = nlen (unat w) - 1"
  by (simp add: raw_fls_eq)

lemma nctz_complement:
  assumes "0 < y" "y < 2 ^ k"
  shows "nctz (2 ^ k - y) = nctz y"
proof -
  obtain m where m: "odd m" "y = m * 2 ^ nctz y" using nctz_decompose [OF assms(1)] by blast
  have t: "nctz y < k" using nctz_lt_nlen [OF assms(1)] assms(2) by (metis less_le_trans nlen_le_iff)
  have "2 ^ k - y = (2 ^ (k - nctz y) - m) * 2 ^ nctz y"
    by (metis diff_mult_distrib le_add_diff_inverse2 less_imp_le m(2) power_add t)
  moreover have "m < 2 ^ (k - nctz y)"
    by (metis assms(2) m(2) le_add_diff_inverse2 less_imp_le mult_less_cancel2 power_add t)
  then have "odd (2 ^ (k - nctz y) - m)" using m(1) t by (simp add: even_diff_nat)
  ultimately show ?thesis by (metis nctz_mult_pow)
qed

lemma ffz_32: "ffz (ucast (w :: u32)) = nctz (unat w + 1)"
proof -
  have "unat w < 2 ^ 32" using unsigned_less [of w, where ?'a = nat] by simp
  moreover have "unat (NOT (ucast w :: u64)) = 2 ^ 64 - (unat w + 1)"
  proof -
    have "NOT (ucast w :: u64) = - 1 - ucast w" by (simp add: not_eq_complement)
    then have "unat (NOT (ucast w :: u64)) = unat (- 1 :: u64) - unat w"
      by (simp only:) (subst unat_sub, simp_all)
    then show ?thesis by (simp add: unsigned_minus_1_eq_mask mask_eq_exp_minus_1)
  qed
  ultimately show ?thesis
    using nctz_complement [of "unat w + 1" 64] by (simp add: ffz_def raw_ffs_eq)
qed

lemma raw_ffs_32: "raw_ffs (ucast (w :: u32)) = nctz (unat w)"
  by (simp add: raw_ffs_eq)

lemma unat_child:
  assumes "unat i < 2 ^ 31" "c < 2"
  shows "unat (eytzinger1_child i (of_nat c)) = 2 * unat i + c"
proof -
  have "unat (push_bit 1 i) = 2 * unat i" using assms by (subst unat_push_bit_small) simp_all
  moreover have "unat (of_nat c :: u32) = c" using assms by (simp add: unat_of_nat)
  ultimately show ?thesis
    unfolding eytzinger1_child_def using assms by (subst unat_add_small) simp_all
qed

lemma unat_left_child: "unat i < 2 ^ 31 \<Longrightarrow> unat (eytzinger1_left_child i) = 2 * unat i"
  using unat_child [of i 0] by (simp add: eytzinger1_left_child_def)

lemma unat_right_child: "unat i < 2 ^ 31 \<Longrightarrow> unat (eytzinger1_right_child i) = 2 * unat i + 1"
  using unat_child [of i 1] by (simp add: eytzinger1_right_child_def)

text \<open>Shifting a node down to the last level stays below \<open>2 ^ nlen n\<close>.\<close>

lemma shift_to_last:
  assumes "0 < j" "nlen j \<le> k"
  shows "j * 2 ^ (k - nlen j) < 2 ^ k"
  using nlen_mult_pow [OF assms(1), of "k - nlen j"] nlen_upper [of "j * 2 ^ (k - nlen j)"] assms(2) by simp

lemma unat_shift_to_last:
  assumes "(sz :: u32) \<noteq> 0" "unat sz < 2 ^ 30" "0 < unat j" "nlen (unat j) \<le> nlen (unat sz)"
  shows "unat (push_bit (raw_fls (ucast sz) - raw_fls (ucast j)) (j :: u32)) =
         unat j * 2 ^ (nlen (unat sz) - nlen (unat j))"
proof -
  have j: "j \<noteq> 0" using assms(3) by auto
  then have "0 < nlen (unat j)" using assms(3) by (metis gr0I nlen_eq_0)
  then have sh: "raw_fls (ucast sz) - raw_fls (ucast j) = nlen (unat sz) - nlen (unat j)"
    using assms(1,4) j by (simp add: raw_fls_32)
  have "nlen (unat sz) \<le> 30" using assms(2) by (simp add: nlen_le_iff)
  then have "(2 :: nat) ^ nlen (unat sz) \<le> 2 ^ 30" by (rule power_increasing) simp
  then show ?thesis
    using shift_to_last [OF assms(3,4)] unfolding sh by (subst unat_push_bit_small) simp_all
qed

lemma unat_next:
  assumes "unat sz < 2 ^ 30" "0 < unat i" "unat i \<le> unat sz"
  shows "unat (eytzinger1_next i sz) = next_node (unat sz) (unat i)"
proof -
  have s0: "sz \<noteq> 0" using assms(2,3) by auto
  have r: "unat (eytzinger1_right_child i) = 2 * unat i + 1" using assms by (intro unat_right_child) simp
  show ?thesis
  proof (cases "2 * unat i + 1 \<le> unat sz")
    case True
    let ?j = "push_bit (raw_fls (ucast sz) - raw_fls (ucast (eytzinger1_right_child i))) (eytzinger1_right_child i)"
    have j: "unat ?j = (2 * unat i + 1) * 2 ^ (nlen (unat sz) - nlen (2 * unat i + 1))"
      using unat_shift_to_last [OF s0 assms(1), of "eytzinger1_right_child i"] nlen_mono [OF True] by (simp only: r)
    have "eytzinger1_next i sz = drop_bit (of_bool (?j > sz)) ?j"
      using True r by (simp add: eytzinger1_next_def Let_def word_le_nat_alt)
    then have "unat (eytzinger1_next i sz) = unat ?j div 2 ^ of_bool (?j > sz)" by (simp add: unat_drop_bit)
    then show ?thesis using True unfolding next_node_def Let_def word_less_nat_alt j by simp
  next
    case False
    then have "eytzinger1_next i sz = drop_bit (ffz (ucast i) + 1) i"
      using r by (simp add: eytzinger1_next_def word_le_nat_alt)
    then show ?thesis using False by (simp add: next_node_def unat_drop_bit ffz_32 hi_anc_def)
  qed
qed

lemma unat_prev:
  assumes "unat sz < 2 ^ 30" "0 < unat i" "unat i \<le> unat sz"
  shows "unat (eytzinger1_prev i sz) = prev_node (unat sz) (unat i)"
proof -
  have s0: "sz \<noteq> 0" using assms(2,3) by auto
  have l: "unat (eytzinger1_left_child i) = 2 * unat i" using assms by (intro unat_left_child) simp
  have r: "unat (eytzinger1_left_child i + 1) = 2 * unat i + 1" using assms l by (subst unat_add_small) simp_all
  show ?thesis
  proof (cases "2 * unat i \<le> unat sz")
    case True
    let ?l = "eytzinger1_left_child i + 1"
    let ?j = "push_bit (raw_fls (ucast sz) - raw_fls (ucast ?l)) ?l"
    have "nlen (2 * unat i + 1) \<le> nlen (unat sz)"
      using nlen_mono [OF True] nlen_child [OF assms(2), of 1] nlen_child [OF assms(2), of 0] by simp
    then have j: "unat ?j = (2 * unat i + 1) * 2 ^ (nlen (unat sz) - nlen (2 * unat i + 1))"
      using unat_shift_to_last [OF s0 assms(1), of ?l] by (simp only: r)
    then have "0 < unat ?j" by simp
    then have j1: "unat (?j - 1) = unat ?j - 1" by (subst unat_minus_one) auto
    have "eytzinger1_prev i sz = drop_bit (of_bool (?j - 1 > sz)) (?j - 1)"
      using True l by (simp add: eytzinger1_prev_def Let_def word_le_nat_alt)
    then have "unat (eytzinger1_prev i sz) = unat (?j - 1) div 2 ^ of_bool (?j - 1 > sz)" by (simp add: unat_drop_bit)
    then show ?thesis using True unfolding prev_node_def Let_def word_less_nat_alt j1 j by simp
  next
    case False
    then have "eytzinger1_prev i sz = drop_bit (raw_ffs (ucast i) + 1) i"
      using l by (simp add: eytzinger1_prev_def word_le_nat_alt)
    then show ?thesis using False by (simp add: prev_node_def unat_drop_bit raw_ffs_32 lo_anc_def)
  qed
qed

lemma unat_first:
  assumes "sz \<noteq> 0"
  shows "unat (eytzinger1_first sz) = 2 ^ (nlen (unat sz) - 1)"
proof -
  have "unat (rounddown_pow_of_two (ucast sz)) = 2 ^ (nlen (unat sz) - 1)"
    using assms by (simp add: unat_rounddown_pow_of_two)
  moreover have "nlen (unat sz) - 1 < 32" using nlen_unat_le [of sz] by simp
  then have "(2 :: nat) ^ (nlen (unat sz) - 1) < 2 ^ 32" by (rule power_strict_increasing) simp
  ultimately show ?thesis using assms by (simp add: eytzinger1_first_def unat_ucast_down)
qed

lemma first_rank:
  assumes "unat sz < 2 ^ 30" "sz \<noteq> 0"
  shows "0 < unat (eytzinger1_first sz) \<and> unat (eytzinger1_first sz) \<le> unat sz \<and>
         rank (unat sz) (unat (eytzinger1_first sz)) = 1"
proof -
  let ?n = "unat sz" and ?f = "2 ^ (nlen (unat sz) - 1) :: nat"
  have n: "0 < ?n" using assms(2) by (simp add: unat_gt_0)
  have f: "0 < ?f" "?f \<le> ?n" using nlen_lower [OF n] by auto
  have "nctz ?f = nlen ?n - 1" using nctz_mult_pow [of 1] by simp
  moreover have "0 < nlen ?n" using n by (metis gr0I nlen_eq_0)
  ultimately have "lo_anc ?f = 0" by (simp add: lo_anc_def)
  moreover have "?n < 2 * ?f" using nlen_upper [of ?n] \<open>0 < nlen ?n\<close> by (metis Suc_pred' power_Suc)
  ultimately have "prev_node ?n ?f = 0" by (simp add: prev_node_def)
  then have "rank ?n ?f = 1" using prev_node_rank [OF f] by (metis less_irrefl)
  then show ?thesis using f unat_first [OF assms(2)] by simp
qed

lemma last_rank:
  assumes "unat sz < 2 ^ 30" "sz \<noteq> 0"
  shows "0 < unat (eytzinger1_last sz) \<and> unat (eytzinger1_last sz) \<le> unat sz \<and>
         rank (unat sz) (unat (eytzinger1_last sz)) = unat sz"
proof -
  let ?n = "unat sz" and ?t = "nlen (unat sz + 1) - 1"
  have n: "0 < ?n" using assms(2) by (simp add: unat_gt_0)
  have s1: "unat (sz + 1) = ?n + 1" using assms(1) by (subst unat_add_small) simp_all
  then have "sz + 1 \<noteq> 0" by auto
  then have "unat (rounddown_pow_of_two (ucast (sz + 1))) = 2 ^ ?t"
    using s1 by (simp add: unat_rounddown_pow_of_two)
  then have "unat (rounddown_pow_of_two (ucast (sz + 1)) - 1) = 2 ^ ?t - 1"
    by (subst unat_minus_one) auto
  moreover have t: "2 ^ ?t \<le> ?n + 1" "?n + 1 < 2 * 2 ^ ?t"
    using nlen_lower [of "?n + 1"] nlen_upper [of "?n + 1"] nlen_pos [of "?n + 1"] by simp_all
  ultimately have l: "unat (eytzinger1_last sz) = 2 ^ ?t - 1"
    using assms(1) by (simp add: eytzinger1_last_def unat_ucast_down)
  have f: "0 < 2 ^ ?t - (1 :: nat)" "2 ^ ?t - 1 \<le> ?n" using t n by linarith+
  have "nctz (2 ^ ?t - 1 + 1) = ?t" using nctz_mult_pow [of 1] by simp
  then have "hi_anc (2 ^ ?t - 1) = 0" by (simp add: hi_anc_def less_imp_diff_less)
  then have "next_node ?n (2 ^ ?t - 1) = 0" using t by (simp add: next_node_def)
  then have "rank ?n (2 ^ ?t - 1) = ?n" using next_node_rank [OF f] by (metis less_irrefl)
  then show ?thesis using f l by simp
qed

subsection \<open>Index conversions\<close>

lemma unat_extra:
  assumes "unat sz < 2 ^ 30" "sz \<noteq> 0"
  shows "unat (eytzinger1_extra sz) = extra_pos (unat sz)"
proof -
  let ?n = "unat sz"
  have n: "0 < ?n" using assms(2) by (simp add: unat_gt_0)
  have f: "unat (ucast (rounddown_pow_of_two (ucast sz)) :: u32) = 2 ^ (nlen ?n - 1)"
    using unat_first [OF assms(2)] assms(2) by (simp add: eytzinger1_first_def)
  have s1: "unat (sz + 1) = ?n + 1" using assms(1) by (subst unat_add_small) simp_all
  have "unat (sz + 1 - ucast (rounddown_pow_of_two (ucast sz))) = ?n + 1 - 2 ^ (nlen ?n - 1)"
    using f s1 nlen_lower [OF n] by (subst unat_sub_small) auto
  then have "unat (eytzinger1_extra sz) = 2 * (?n + 1 - 2 ^ (nlen ?n - 1))"
    using assms unat_push_bit_small [of "sz + 1 - ucast (rounddown_pow_of_two (ucast sz))" 1]
    by (simp add: eytzinger1_extra_def)
  also have "\<dots> = extra_pos ?n" using nlen_pos [OF n] by (simp add: extra_pos_def diff_mult_distrib2)
  finally show ?thesis .
qed

lemma bit31: "bit (w :: u32) 31 \<longleftrightarrow> 2 ^ 31 \<le> unat w"
proof -
  have "unat w < 2 ^ 32" using unsigned_less [of w, where ?'a = nat] by simp
  then have "unat w div 2 ^ 31 = (if 2 ^ 31 \<le> unat w then 1 else 0)" by auto
  then show ?thesis by (simp add: bit_unat [symmetric] bit_iff_odd)
qed

lemma sign_mask: "signed_drop_bit 31 (s :: u32) = (if bit s 31 then - 1 else 0)"
  by (rule bit_eqI) (auto simp: bit_signed_drop_bit_iff Suc_le_eq dest: bit_imp_le_length)

lemma unat_neg_diff:
  assumes "unat (E :: u32) < unat x"
  shows "unat (E - x) = 2 ^ 32 - (unat x - unat E)"
proof -
  have "unat (x - E) = unat x - unat E" using assms by (intro unat_sub_small) simp
  moreover from this have "x - E \<noteq> 0" using assms by auto
  ultimately show ?thesis using unat_neg [of "x - E"] by simp
qed

lemma sign_of_diff:
  assumes "unat (E :: u32) \<le> 2 ^ 30" "unat x \<le> 2 ^ 30"
  shows "bit (E - x) 31 \<longleftrightarrow> unat E < unat x"
proof (cases "unat E < unat x")
  case True
  with assms show ?thesis by (simp add: bit31 unat_neg_diff)
next
  case False
  then have "unat (E - x) = unat E - unat x" by (intro unat_sub_small) simp
  with False assms show ?thesis by (simp add: bit31)
qed

text \<open>The arithmetic shift halves an even negative number.\<close>

lemma signed_half:
  assumes "0 < unat (h :: u32)" "unat h \<le> 2 ^ 30"
  shows "signed_drop_bit 1 (- (2 * h)) = - h"
proof -
  have h: "h \<noteq> 0" using assms(1) by auto
  then have u: "unat (- h) = 2 ^ 32 - unat h" using unat_neg [of h] by simp
  have e: "- (2 * h) = push_bit 1 (- h)" by (simp add: push_bit_eq_mult)
  have pb: "bit (- (2 * h)) i \<longleftrightarrow> 0 < i \<and> i < 32 \<and> bit (- h) (i - 1)" for i
    by (subst e) (auto simp only: bit_push_bit_iff, simp_all)
  have "unat (- h) div 2 ^ 30 = 3" unfolding u using assms by (intro div_nat_eqI) auto
  then have b30: "bit (- h) 30" by (simp add: bit_unat [symmetric] bit_iff_odd)
  have b31: "bit (- h) 31" using assms u by (simp add: bit31)
  show ?thesis
  proof (rule bit_eqI)
    fix i
    show "bit (signed_drop_bit 1 (- (2 * h))) i \<longleftrightarrow> bit (- h) i"
      using b30 b31 by (cases i "31 :: nat" rule: linorder_cases)
        (auto simp: bit_signed_drop_bit_iff pb dest: bit_imp_le_length)
  qed
qed

lemma xor_top_bit:
  assumes "bit (i :: u32) b"
  shows "i XOR push_bit b 1 = i - push_bit b 1"
proof -
  have "(i XOR push_bit b 1) + push_bit b 1 = (i XOR push_bit b 1) OR push_bit b 1"
    using assms by (intro disjunctive_add_eq_or bit_eqI) (auto simp: bit_and_iff bit_xor_iff bit_push_bit_iff bit_1_iff bit_exp_iff)
  also have "\<dots> = i"
    using assms by (intro bit_eqI) (auto simp: bit_or_iff bit_xor_iff bit_push_bit_iff bit_1_iff bit_exp_iff)
  finally show ?thesis by (metis add_diff_cancel_right')
qed

lemma bit_top:
  assumes "0 < m"
  shows "bit m (nlen m - 1)"
proof -
  have "0 < nlen m" using assms by (metis gr0I nlen_eq_0)
  then have "m < 2 * 2 ^ (nlen m - 1)" using nlen_upper [of m] by (metis Suc_pred' power_Suc)
  then have "m div 2 ^ (nlen m - 1) = 1" using nlen_lower [OF assms] by (intro div_nat_eqI) auto
  then show ?thesis by (simp add: bit_iff_odd)
qed

text \<open>The position of a node in the perfect tree, before the correction for missing leaves.\<close>

lemma unat_perfect_pos:
  fixes i sz :: u32
  assumes "unat sz < 2 ^ 30" "0 < unat i" "unat i \<le> unat sz"
  shows "unat (push_bit (raw_fls (ucast sz) - raw_fls (ucast i))
           (push_bit 1 (i XOR push_bit (raw_fls (ucast i)) 1) OR 1)) = ppos (unat sz) (unat i)"
proof -
  let ?b = "nlen (unat i) - 1" and ?K = "nlen (unat sz)"
  have nz: "i \<noteq> 0" "sz \<noteq> 0" using assms by auto
  have pos: "0 < nlen (unat i)" using assms(2) by (metis gr0I nlen_eq_0)
  have b: "raw_fls (ucast i) = ?b" using nz by (simp add: raw_fls_32)
  have K: "nlen (unat i) \<le> ?K" "?K \<le> 30"
    using nlen_mono [OF assms(3)] assms(1) by (auto simp: nlen_le_iff [of _ 30])
  have sh: "raw_fls (ucast sz) - raw_fls (ucast i) = ?K - nlen (unat i)"
    using nz pos K by (simp add: raw_fls_32)
  have bit: "bit i ?b" using bit_top [OF assms(2)] by (simp add: bit_unat)
  have P: "unat (push_bit ?b 1 :: u32) = 2 ^ ?b"
    using K pos by (simp add: unat_2p)
  have le: "2 ^ ?b \<le> unat i" by (rule nlen_lower [OF assms(2)])
  have "unat (i XOR push_bit ?b 1) = unat i - 2 ^ ?b"
    unfolding xor_top_bit [OF bit] using P le by (subst unat_sub_small) simp_all
  then have d: "unat (push_bit 1 (i XOR push_bit ?b 1)) = 2 * (unat i - 2 ^ ?b)"
    using assms by (subst unat_push_bit_small) simp_all
  have "push_bit 1 w OR 1 = push_bit 1 w + 1" for w :: u32
    by (rule disjunctive_add_eq_or [symmetric], rule bit_eqI)
       (auto simp: bit_and_iff bit_1_iff bit_0 intro!: gr0I)
  then have o: "unat (push_bit 1 (i XOR push_bit ?b 1) OR 1) = 2 * (unat i - 2 ^ ?b) + 1"
    using d assms by (simp only:) (subst unat_add_small, simp_all)
  have e: "2 * (unat i - 2 ^ ?b) + 1 = 2 * unat i + 1 - 2 ^ nlen (unat i)"
    using le pos by (metis Nat.add_diff_assoc2 Suc_pred' diff_mult_distrib2 mult_le_mono2 power_Suc)
  have "(2 * (unat i - 2 ^ ?b) + 1) * 2 ^ (?K - nlen (unat i)) = ppos (unat sz) (unat i)"
    unfolding e ppos_def pkey_def pow_split [OF K(1)] by (rule diff_mult_distrib)
  moreover have "ppos (unat sz) (unat i) < 2 ^ 30"
    using pkey_ppos(3) [OF assms(2,3)] power_increasing [OF K(2), of "2 :: nat"] by simp
  ultimately show ?thesis unfolding sh unfolding b using o by (subst unat_push_bit_small) simp_all
qed

lemma extra_bound:
  assumes "unat sz < 2 ^ 30" "sz \<noteq> 0"
  shows "unat (eytzinger1_extra sz) \<le> 2 ^ 30"
proof -
  have "nlen (unat sz) \<le> 30" using assms by (simp add: nlen_le_iff)
  then have "(2 :: nat) ^ nlen (unat sz) \<le> 2 ^ 30" by (rule power_increasing) simp
  moreover have "0 < unat sz" using assms(2) by (simp add: unat_gt_0)
  ultimately show ?thesis using extra_eq(3) [of "unat sz"] unat_extra [OF assms] by simp
qed

lemma unat_to_inorder:
  assumes "unat sz < 2 ^ 30" "0 < unat i" "unat i \<le> unat sz"
  shows "unat (eytzinger1_to_inorder i sz) = rank (unat sz) (unat i)"
proof -
  have nz: "sz \<noteq> 0" using assms by auto
  define x where "x = push_bit (raw_fls (ucast sz) - raw_fls (ucast i))
           (push_bit 1 (i XOR push_bit (raw_fls (ucast i)) 1) OR 1)"
  let ?E = "eytzinger1_extra sz" and ?p = "ppos (unat sz) (unat i)"
  have x: "unat x = ?p" unfolding x_def by (rule unat_perfect_pos [OF assms])
  have E: "unat ?E = extra_pos (unat sz)" "unat ?E \<le> 2 ^ 30" using unat_extra [OF assms(1) nz] extra_bound [OF assms(1) nz] by auto
  have "nlen (unat sz) \<le> 30" using assms by (simp add: nlen_le_iff)
  then have xb: "unat x < 2 ^ 30"
    unfolding x using pkey_ppos(3) [OF assms(2,3)] power_increasing [of "nlen (unat sz)" 30 "2 :: nat"] by simp
  have to: "eytzinger1_to_inorder i sz = x + (signed_drop_bit 1 (?E - x) AND signed_drop_bit 31 (?E - x))"
    by (simp only: eytzinger1_to_inorder_def raw_eytzinger1_to_inorder_def Let_def x_def)
  show ?thesis
  proof (cases "unat ?E < unat x")
    case True
    then have "even ?p" using ppos_present [OF assms(2,3)] x E by linarith
    moreover have "even (extra_pos (unat sz))" using assms by (intro extra_eq) linarith
    ultimately have "even (unat x - unat ?E)" using x E by simp
    then obtain k where k: "unat x - unat ?E = 2 * k" by (rule evenE)
    let ?h = "of_nat k :: u32"
    have h: "unat ?h = k" using k xb by (simp add: unat_of_nat)
    have "unat (2 * ?h) = unat (x - ?E)"
      using k True xb h by (simp add: unat_word_ariths(2) unat_sub_small)
    then have "?E - x = - (2 * ?h)" by (metis minus_diff_eq word_unat_eq_iff)
    then have half: "signed_drop_bit 1 (?E - x) = - ?h"
      using signed_half [of ?h] h k True xb by simp
    have "bit (?E - x) 31" using True E(2) xb by (simp add: sign_of_diff)
    then have "eytzinger1_to_inorder i sz = x - ?h" unfolding to sign_mask half by simp
    then have "unat (eytzinger1_to_inorder i sz) = unat x - k"
      using h k by (simp add: unat_sub_small)
    then show ?thesis using k True x E by (simp add: rank_def rank_of_pos_def)
  next
    case False
    then have "\<not> bit (?E - x) 31" using E(2) xb by (simp add: sign_of_diff)
    then have "eytzinger1_to_inorder i sz = x" unfolding to sign_mask by simp
    then show ?thesis using False x E by (simp add: rank_def rank_of_pos_def)
  qed
qed

lemma or_power_2:
  assumes "unat (a :: u32) < 2 ^ m" "m < 32"
  shows "unat (a OR push_bit m 1) = unat a + 2 ^ m"
proof -
  have b: "\<not> bit a m" using assms by (simp add: bit_unat [symmetric] bit_iff_odd)
  have "a OR push_bit m 1 = a + push_bit m 1"
    by (rule disjunctive_add_eq_or [symmetric], rule bit_eqI)
       (use b in \<open>auto simp: bit_and_iff bit_push_bit_iff bit_1_iff bit_exp_iff\<close>)
  moreover have "unat (push_bit m 1 :: u32) = 2 ^ m" using assms(2) by (simp add: unat_2p)
  moreover have "Suc m \<le> 32" using assms(2) by simp
  then have "(2 :: nat) ^ Suc m \<le> 2 ^ 32" by (rule power_increasing) simp
  then have "unat a + 2 ^ m < 2 ^ 32" using assms(1) by simp
  ultimately show ?thesis by (simp only:) (subst unat_add_small, simp_all)
qed

lemma unat_inorder_to:
  assumes "unat sz < 2 ^ 30" "0 < unat r" "unat r \<le> unat sz"
  shows "unat (inorder_to_eytzinger1 r sz) = node_of_rank (unat sz) (unat r)"
proof -
  have nz: "sz \<noteq> 0" using assms by auto
  let ?E = "eytzinger1_extra sz" and ?n = "unat sz" and ?x = "pos_of_rank (unat sz) (unat r)"
  have E: "unat ?E = extra_pos ?n" "unat ?E \<le> 2 ^ 30"
    using unat_extra [OF assms(1) nz] extra_bound [OF assms(1) nz] by auto
  define x where "x = r - ((?E - r) AND signed_drop_bit 31 (?E - r))"
  have K: "nlen ?n \<le> 30" using assms by (simp add: nlen_le_iff)
  obtain i where i: "0 < i" "i \<le> ?n" "unat r = rank ?n i"
    using rank_node_of_rank [OF assms(2,3)] by metis
  have px: "?x = ppos ?n i"
    unfolding i(3) pos_of_rank_def rank_def rank_of_pos_def
    using pos_of_rank_of_pos [OF ppos_present [OF i(1,2)]] extra_eq(2) [of ?n] assms by (simp add: Let_def)
  have xb: "0 < ?x" "?x < 2 ^ nlen ?n" unfolding px using pkey_ppos [OF i(1,2)] by auto
  then have xs: "?x < 2 ^ 30" using power_increasing [OF K, of "2 :: nat"] by simp
  have x: "unat x = ?x"
  proof (cases "unat ?E < unat r")
    case True
    then have "bit (?E - r) 31" using assms E(2) by (simp add: sign_of_diff)
    then have "x = r + (r - ?E)" by (simp add: x_def sign_mask)
    then have "unat x = unat r + (unat r - unat ?E)"
      using True assms by (simp only:) (subst unat_add_small, simp_all add: unat_sub_small)
    then show ?thesis using True E by (simp add: pos_of_rank_def)
  next
    case False
    then have "\<not> bit (?E - r) 31" using assms E(2) by (simp add: sign_of_diff)
    then show ?thesis using False E by (simp add: x_def sign_mask pos_of_rank_def)
  qed
  let ?c = "nctz ?x"
  have c: "?c < nlen ?n" using nctz_lt_nlen [OF xb(1)] xb(2) by (metis less_le_trans nlen_le_iff)
  have sh: "raw_fls (ucast sz) - raw_ffs (ucast x) = nlen ?n - 1 - ?c"
    using nz x by (simp add: raw_fls_32 raw_ffs_32)
  have eq: "inorder_to_eytzinger1 r sz = drop_bit (?c + 1) x OR push_bit (nlen ?n - 1 - ?c) 1"
    unfolding inorder_to_eytzinger1_def raw_inorder_to_eytzinger1_def Let_def x_def [symmetric]
    by (simp only: sh) (simp only: raw_ffs_32 x)
  have "nlen ?n = (nlen ?n - 1 - ?c) + (?c + 1)" using c by simp
  then have "?x < 2 ^ (nlen ?n - 1 - ?c) * 2 ^ (?c + 1)" using xb(2) by (metis power_add)
  then have "?x div 2 ^ (?c + 1) < 2 ^ (nlen ?n - 1 - ?c)" by (rule less_mult_imp_div_less)
  moreover have "nlen ?n - 1 - ?c < 32" using K by simp
  ultimately show ?thesis
    unfolding eq by (subst or_power_2) (simp_all add: unat_drop_bit x node_of_rank_def node_of_pos_def)
qed

section \<open>Loops\<close>

abbreviation node1 :: "u32 \<Rightarrow> nat \<Rightarrow> u32" where
  "node1 sz r \<equiv> inorder_to_eytzinger1 (of_nat r) sz"

lemma unat_node1:
  assumes "unat sz < 2 ^ 30" "0 < r" "r \<le> unat sz"
  shows "unat (node1 sz r) = node_of_rank (unat sz) r"
proof -
  have "unat (of_nat r :: u32) = r" using assms by (simp add: unat_of_nat)
  then show ?thesis using unat_inorder_to [OF assms(1), of "of_nat r"] assms by simp
qed

lemma node1_rank:
  assumes "unat sz < 2 ^ 30" "0 < unat i" "unat i \<le> unat sz"
  shows "node1 sz (rank (unat sz) (unat i)) = i"
  using unat_node1 [OF assms(1)] rank_range [OF assms(2,3)] node_of_rank_rank [OF assms(2,3)]
  by (simp add: word_unat_eq_iff)

lemma upt_step: "i < n \<Longrightarrow> map f [i..<n] = f i # map f [Suc i..<n]"
  by (simp add: upt_conv_Cons)

lemma for_each_step:
  assumes "unat sz < 2 ^ 30" "0 < unat i" "unat i \<le> unat sz" "rank (unat sz) (unat i) = r"
  shows "if r = unat sz then eytzinger1_next i sz = 0
         else 0 < unat (eytzinger1_next i sz) \<and> unat (eytzinger1_next i sz) \<le> unat sz \<and>
              rank (unat sz) (unat (eytzinger1_next i sz)) = Suc r"
  using next_node_rank [OF assms(2,3)] assms(4) unat_next [OF assms(1-3)]
  by (metis Suc_eq_plus1 unat_eq_0)

lemma for_each_step_prev:
  assumes "unat sz < 2 ^ 30" "0 < unat i" "unat i \<le> unat sz" "rank (unat sz) (unat i) = Suc r"
  shows "if r = 0 then eytzinger1_prev i sz = 0
         else 0 < unat (eytzinger1_prev i sz) \<and> unat (eytzinger1_prev i sz) \<le> unat sz \<and>
              rank (unat sz) (unat (eytzinger1_prev i sz)) = r"
  using prev_node_rank [OF assms(2,3)] assms(4) unat_prev [OF assms(1-3)]
  by (metis Suc_eq_plus1 One_nat_def Suc_inject unat_eq_0)

lemma for_each1_from:
  assumes "unat sz < 2 ^ 30" "0 < unat i" "unat i \<le> unat sz" "rank (unat sz) (unat i) = r"
  shows "eytzinger1_for_each_from i sz = Some (map (node1 sz) [r..<unat sz + 1])"
  using assms(2-)
proof (induction "unat sz - r" arbitrary: i r)
  case 0
  then have r: "r = unat sz" using rank_range [of "unat i" "unat sz"] by simp
  then have "eytzinger1_next i sz = 0" using for_each_step [OF assms(1) 0(2-4)] by simp
  moreover have "eytzinger1_for_each_from 0 sz = Some []" by (subst eytzinger1_for_each_from.simps) simp
  moreover have "i \<noteq> 0" using 0 by auto
  ultimately show ?case
    using r node1_rank [OF assms(1) 0(2,3)] 0(4) by (subst eytzinger1_for_each_from.simps) simp
next
  case (Suc k)
  then have r: "r < unat sz" by simp
  then have n: "0 < unat (eytzinger1_next i sz)" "unat (eytzinger1_next i sz) \<le> unat sz"
    "rank (unat sz) (unat (eytzinger1_next i sz)) = Suc r" using for_each_step [OF assms(1) Suc(3-5)] by auto
  have "eytzinger1_for_each_from (eytzinger1_next i sz) sz = Some (map (node1 sz) [Suc r..<unat sz + 1])"
    using Suc(2) r by (intro Suc(1) n) simp
  moreover have "i \<noteq> 0" using Suc by auto
  ultimately show ?case
    using r node1_rank [OF assms(1) Suc(3,4)] Suc(5)
    by (subst eytzinger1_for_each_from.simps) (simp add: upt_step del: upt_Suc)
qed

lemma minus_1_eq: "(i :: u32) - 1 = - 1 \<longleftrightarrow> i = 0"
  by (metis add_diff_cancel_right' add.left_neutral diff_add_cancel diff_0)

lemma for_each0_from:
  assumes "unat sz < 2 ^ 30" "0 < unat i" "unat i \<le> unat sz" "rank (unat sz) (unat i) = r"
  shows "eytzinger0_for_each_from (i - 1) sz = Some (map (\<lambda>r. node1 sz r - 1) [r..<unat sz + 1])"
  using assms(2-)
proof (induction "unat sz - r" arbitrary: i r)
  case 0
  then have r: "r = unat sz" using rank_range [of "unat i" "unat sz"] by simp
  then have "eytzinger0_next (i - 1) sz = - 1"
    using for_each_step [OF assms(1) 0(2-4)] by (simp add: eytzinger0_next_def)
  moreover have "eytzinger0_for_each_from (- 1) sz = Some []" by (subst eytzinger0_for_each_from.simps) simp
  moreover have "i - 1 \<noteq> - 1" using 0 by (auto simp: minus_1_eq)
  ultimately show ?case
    using r node1_rank [OF assms(1) 0(2,3)] 0(4) by (subst eytzinger0_for_each_from.simps) simp
next
  case (Suc k)
  then have r: "r < unat sz" by simp
  then have n: "0 < unat (eytzinger1_next i sz)" "unat (eytzinger1_next i sz) \<le> unat sz"
    "rank (unat sz) (unat (eytzinger1_next i sz)) = Suc r" using for_each_step [OF assms(1) Suc(3-5)] by auto
  have "eytzinger0_for_each_from (eytzinger0_next (i - 1) sz) sz =
      Some (map (\<lambda>r. node1 sz r - 1) [Suc r..<unat sz + 1])"
    using Suc(2) r Suc(1) [OF _ n] by (simp add: eytzinger0_next_def)
  moreover have "i - 1 \<noteq> - 1" using Suc by (auto simp: minus_1_eq)
  ultimately show ?case
    using r node1_rank [OF assms(1) Suc(3,4)] Suc(5)
    by (subst eytzinger0_for_each_from.simps) (simp add: upt_step del: upt_Suc)
qed

lemma for_each0_prev_from:
  assumes "unat sz < 2 ^ 30" "0 < unat i" "unat i \<le> unat sz" "rank (unat sz) (unat i) = r"
  shows "eytzinger0_for_each_prev_from (i - 1) sz = Some (rev (map (\<lambda>r. node1 sz r - 1) [1..<Suc r]))"
  using assms(2-)
proof (induction r arbitrary: i)
  case 0
  then show ?case using rank_range [of "unat i" "unat sz"] by simp
next
  case (Suc r)
  note st = for_each_step_prev [OF assms(1) Suc.prems]
  have i: "i - 1 \<noteq> - 1" "node1 sz (Suc r) = i"
    using Suc.prems node1_rank [OF assms(1) Suc.prems(1,2)] by (auto simp: minus_1_eq)
  have "eytzinger0_for_each_prev_from (eytzinger0_prev (i - 1) sz) sz =
      Some (rev (map (\<lambda>r. node1 sz r - 1) [1..<Suc r]))"
  proof (cases "r = 0")
    case True
    then have "eytzinger0_prev (i - 1) sz = - 1" using st by (simp add: eytzinger0_prev_def)
    then show ?thesis using True by (subst eytzinger0_for_each_prev_from.simps) simp
  next
    case False
    then show ?thesis using st Suc.IH [of "eytzinger1_prev i sz"] by (simp add: eytzinger0_prev_def)
  qed
  then show ?case using i by (subst eytzinger0_for_each_prev_from.simps) simp
qed

section \<open>Searches\<close>

text \<open>The elements of an array in the order of the tree.\<close>

definition inorder :: "'e list \<Rightarrow> 'e list" where
  "inorder base = map (\<lambda>r. base ! unat (inorder_to_eytzinger0 (of_nat r) (of_nat (length base)))) [0..<length base]"

lemma unat_of_length: "length base < 2 ^ 30 \<Longrightarrow> unat (of_nat (length base) :: u32) = length base"
  by (simp add: unat_of_nat)

lemma unat_inorder_to_0:
  assumes "n < 2 ^ 30" "r < n"
  shows "unat (inorder_to_eytzinger0 (of_nat r) (of_nat n)) + 1 = node_of_rank n (Suc r)"
proof -
  have n: "unat (of_nat n :: u32) = n" using assms by (simp add: unat_of_nat)
  have "inorder_to_eytzinger0 (of_nat r) (of_nat n) = node1 (of_nat n) (Suc r) - 1"
    by (simp add: inorder_to_eytzinger0_def raw_inorder_to_eytzinger0_def inorder_to_eytzinger1_def
        eytzinger0_extra_def add.commute)
  moreover have u: "unat (node1 (of_nat n) (Suc r)) = node_of_rank n (Suc r)"
    using assms n by (subst unat_node1) simp_all
  moreover have "0 < node_of_rank n (Suc r)" using rank_node_of_rank [of "Suc r" n] assms by simp
  ultimately show ?thesis by (simp only:) (subst unat_minus_one, auto)
qed

lemma inorder_nth:
  assumes "length base < 2 ^ 30" "r < length base"
  shows "inorder base ! r = base ! (node_of_rank (length base) (Suc r) - 1)"
  using unat_inorder_to_0 [OF assms] assms(2) unfolding inorder_def by (simp flip: unat_inorder_to_0 [OF assms])

lemma length_inorder [simp]: "length (inorder base) = length base"
  by (simp add: inorder_def)

lemma descend_refines:
  fixes right :: "'e \<Rightarrow> bool"
  defines "P \<equiv> \<lambda>base i. right (base ! (i - 1))"
  assumes nr: "unat nr = length base" "length base < 2 ^ 30" and inv: "search_inv (P base) (length base) (unat n)"
  shows "\<exists>m. eytzinger_descend right base nr n = Some m \<and> unat m = descend (P base) (length base) (unat n)"
  using inv
proof (induction "P base" "length base" "unat n" arbitrary: n rule: descend.induct)
  case 1
  have i: "0 < unat n" "unat n < 2 ^ 31"
    using 1(2) search_inv_bound [OF 1(2) nr(2)] by (simp_all add: search_inv_def)
  show ?case
  proof (cases "unat n \<le> length base")
    case True
    define d where "d = eytzinger1_child n (of_bool (right (base ! (unat n - 1))))"
    let ?c = d
    have c: "unat ?c = 2 * unat n + of_bool (P base (unat n))"
      using unat_child [OF i(2), of "of_bool (right (base ! (unat n - 1)))"] by (simp add: P_def d_def)
    have "eytzinger_descend right base nr n = eytzinger_descend right base nr ?c"
      using True i nr by (subst eytzinger_descend.simps) (simp add: elem1_def word_le_nat_alt d_def)
    moreover have "descend (P base) (length base) (unat n) = descend (P base) (length base) (unat ?c)"
      using True i unfolding c by (subst descend.simps) simp
    moreover have "\<exists>m. eytzinger_descend right base nr ?c = Some m \<and> unat m = descend (P base) (length base) (unat ?c)"
      using search_inv_child [OF 1(2) True] by (intro 1(1)) (simp_all add: i True c)
    ultimately show ?thesis by simp
  next
    case False
    then show ?thesis using nr
      by (subst eytzinger_descend.simps, subst descend.simps) (simp add: word_le_nat_alt)
  qed
qed

lemma descend_from_root:
  fixes right :: "'e \<Rightarrow> bool"
  assumes nr: "unat nr = length base" "length base < 2 ^ 30"
    and k: "k \<le> length base" "\<And>r. r < length base \<Longrightarrow> right (inorder base ! r) \<longleftrightarrow> r < k"
  obtains m where "eytzinger_descend right base nr 1 = Some m" "0 < unat m" "unat m < 2 ^ 31"
    "lo_anc (unat m) = (if k = 0 then 0 else node_of_rank (length base) k)"
    "hi_anc (unat m) = (if k = length base then 0 else node_of_rank (length base) (k + 1))"
proof -
  let ?n = "length base"
  define P where "P i = right (base ! (i - 1))" for i
  have inv: "search_inv P ?n (unat (1 :: u32))" using search_inv_1 by simp
  obtain m where m: "eytzinger_descend right base nr 1 = Some m" "unat m = descend P ?n 1"
    using descend_refines [OF nr, of right 1] inv unfolding P_def by auto
  have d: "search_inv P ?n (unat m)" "?n < unat m"
    using descend_inv [of P ?n 1] inv m(2) by simp_all
  have P: "P (node_of_rank ?n r) \<longleftrightarrow> r \<le> k" if "0 < r" "r \<le> ?n" for r
    using k(2) [of "r - 1"] that inorder_nth [OF nr(2), of "r - 1"] by (auto simp: P_def)
  show thesis
    using that [OF m(1)] search_result [OF k(1) P d] search_inv_bound [OF d(1) nr(2)] d(2) by simp
qed

lemma sint_small: "unat (w :: u32) < 2 ^ 31 \<Longrightarrow> sint w = int (unat w)"
proof -
  assume "unat w < 2 ^ 31"
  then have "int (unat w) < int (2 ^ 31)" by (simp only: of_nat_less_iff)
  then have "0 \<le> uint w" "uint w < 2 ^ 31" by simp_all
  moreover from this have "- (2 ^ 31) \<le> uint w" by linarith
  ultimately have "sint w = uint w"
    using signed_take_bit_int_eq_self [of 31 "uint w"] by (simp add: sint_uint)
  then show ?thesis by simp
qed

lemma sint_pred:
  assumes "unat (w :: u32) < 2 ^ 31"
  shows "sint (w - 1) = int (unat w) - 1"
proof (cases "w = 0")
  case False
  then have "unat (w - 1) = unat w - 1" "0 < unat w" by (simp_all add: unat_minus_one unat_gt_0)
  then show ?thesis using sint_small [of "w - 1"] assms by simp
qed simp

text \<open>The results of the searches as nodes.\<close>

lemma drop_lo_anc:
  assumes "0 < unat m" "unat m < 2 ^ 31"
  shows "sint (drop_bit (raw_ffs (ucast m) + 1) m - 1 :: u32) = int (lo_anc (unat m)) - 1"
proof -
  have u: "unat (drop_bit (raw_ffs (ucast m) + 1) m) = lo_anc (unat m)"
    by (simp add: unat_drop_bit raw_ffs_32 lo_anc_def)
  then have "unat (drop_bit (raw_ffs (ucast m) + 1) m) < 2 ^ 31"
    using assms(2) by (simp add: lo_anc_def le_less_trans [OF div_le_dividend])
  then show ?thesis using u by (simp only: sint_pred)
qed

lemma drop_hi_anc:
  assumes "0 < unat m" "unat m < 2 ^ 31"
  shows "sint (drop_bit (raw_ffs (ucast (m + 1)) + 1) m - 1 :: u32) = int (hi_anc (unat m)) - 1"
proof -
  have "unat (m + 1) = unat m + 1" using assms by (subst unat_add_small) simp_all
  then have u: "unat (drop_bit (raw_ffs (ucast (m + 1)) + 1) m) = hi_anc (unat m)"
    by (simp add: unat_drop_bit raw_ffs_32 hi_anc_def)
  then have "unat (drop_bit (raw_ffs (ucast (m + 1)) + 1) m) < 2 ^ 31"
    using assms(2) by (simp add: hi_anc_def le_less_trans [OF div_le_dividend])
  then show ?thesis using u by (simp only: sint_pred)
qed

text \<open>\<open>inorder_idx base r\<close> is the index in the array of the \<open>r\<close>-th element in order.\<close>

abbreviation inorder_idx :: "'e list \<Rightarrow> nat \<Rightarrow> int" where
  "inorder_idx base r \<equiv> int (unat (inorder_to_eytzinger0 (of_nat r) (of_nat (length base))))"

lemma takeWhile_count:
  assumes "\<And>i j. i < j \<Longrightarrow> j < length xs \<Longrightarrow> Q (xs ! j) \<Longrightarrow> Q (xs ! i)"
  shows "r < length xs \<Longrightarrow> Q (xs ! r) \<longleftrightarrow> r < length (takeWhile Q xs)"
proof -
  assume r: "r < length xs"
  show ?thesis
  proof
    assume q: "Q (xs ! r)"
    show "r < length (takeWhile Q xs)"
    proof (rule ccontr)
      let ?l = "length (takeWhile Q xs)"
      assume "\<not> r < ?l"
      then have "?l < length xs" "\<not> Q (xs ! ?l)" using r nth_length_takeWhile [of Q xs] by auto
      then show False using assms [of ?l r] q r \<open>\<not> r < ?l\<close> by (metis linorder_neqE_nat)
    qed
  next
    assume "r < length (takeWhile Q xs)"
    then show "Q (xs ! r)" by (metis nth_mem set_takeWhileD takeWhile_nth)
  qed
qed

lemma find_lo:
  assumes "unat nr = length base" "length base < 2 ^ 30"
    and "\<And>i j. i < j \<Longrightarrow> j < length base \<Longrightarrow> right (inorder base ! j) \<Longrightarrow> right (inorder base ! i)"
  shows "map_option (\<lambda>n. sint (drop_bit (raw_ffs (ucast n) + 1) n - 1 :: u32)) (eytzinger_descend right base nr 1) =
         Some (let k = length (takeWhile right (inorder base)) in if k = 0 then - 1 else inorder_idx base (k - 1))"
proof -
  define k where "k = length (takeWhile right (inorder base))"
  have k: "k \<le> length base" "\<And>r. r < length base \<Longrightarrow> right (inorder base ! r) \<longleftrightarrow> r < k"
    using length_takeWhile_le [of right "inorder base"] takeWhile_count [of "inorder base" right] assms(3)
    by (simp_all add: k_def)
  obtain m where m: "eytzinger_descend right base nr 1 = Some m" "0 < unat m" "unat m < 2 ^ 31"
    "lo_anc (unat m) = (if k = 0 then 0 else node_of_rank (length base) k)"
    using descend_from_root [OF assms(1,2) k] by metis
  have "int (lo_anc (unat m)) - 1 = (if k = 0 then - 1 else inorder_idx base (k - 1))"
  proof (cases "k = 0")
    case False
    have "node_of_rank (length base) k =
        unat (inorder_to_eytzinger0 (of_nat (k - 1)) (of_nat (length base))) + 1"
      using False unat_inorder_to_0 [OF assms(2), of "k - 1"] k(1) by simp
    then show ?thesis using False m(4) by (simp only: if_False of_nat_add of_nat_1 add_diff_cancel_right')
  qed (simp add: m)
  then show ?thesis using m(1) drop_lo_anc [OF m(2,3)] by (simp add: Let_def flip: k_def)
qed

lemma find_hi:
  assumes "unat nr = length base" "length base < 2 ^ 30"
    and "\<And>i j. i < j \<Longrightarrow> j < length base \<Longrightarrow> right (inorder base ! j) \<Longrightarrow> right (inorder base ! i)"
  shows "map_option (\<lambda>n. sint (drop_bit (raw_ffs (ucast (n + 1)) + 1) n - 1 :: u32)) (eytzinger_descend right base nr 1) =
         Some (let k = length (takeWhile right (inorder base)) in if k = length base then - 1 else inorder_idx base k)"
proof -
  define k where "k = length (takeWhile right (inorder base))"
  have k: "k \<le> length base" "\<And>r. r < length base \<Longrightarrow> right (inorder base ! r) \<longleftrightarrow> r < k"
    using length_takeWhile_le [of right "inorder base"] takeWhile_count [of "inorder base" right] assms(3)
    by (simp_all add: k_def)
  obtain m where m: "eytzinger_descend right base nr 1 = Some m" "0 < unat m" "unat m < 2 ^ 31"
    "hi_anc (unat m) = (if k = length base then 0 else node_of_rank (length base) (k + 1))"
    using descend_from_root [OF assms(1,2) k] by metis
  have "int (hi_anc (unat m)) - 1 = (if k = length base then - 1 else inorder_idx base k)"
  proof (cases "k = length base")
    case False
    have "node_of_rank (length base) (k + 1) =
        unat (inorder_to_eytzinger0 (of_nat k) (of_nat (length base))) + 1"
      using False unat_inorder_to_0 [OF assms(2), of k] k(1) by simp
    then show ?thesis using False m(4) by (simp only: if_False of_nat_add of_nat_1 add_diff_cancel_right')
  qed (simp add: m)
  then show ?thesis using m(1) drop_hi_anc [OF m(2,3)] by (simp add: Let_def flip: k_def)
qed

subsection \<open>Exact searches\<close>

text \<open>As long as no equal element is met, going right for \<open>cmp > 0\<close> is going right for \<open>cmp \<ge> 0\<close>; at
  the end both predicates then cut the order at the same place.\<close>

lemma find_from:
  fixes c :: "'e \<Rightarrow> int" and base :: "'e list"
  defines "P \<equiv> \<lambda>i. c (base ! (i - 1)) > 0" and "Q \<equiv> \<lambda>i. c (base ! (i - 1)) \<ge> 0"
  assumes nr: "unat nr = length base" "length base < 2 ^ 30"
    and c: "\<And>e. c e = cmp_fn search e"
    and mono: "\<And>i j. i < j \<Longrightarrow> j < length base \<Longrightarrow> sgn (c (inorder base ! j)) \<le> sgn (c (inorder base ! i))"
    and inv: "search_inv P (length base) (unat n)" "search_inv Q (length base) (unat n)"
  shows "\<exists>m. eytzinger1_find_from base nr cmp_fn search n = Some m \<and>
     (if m = 0 then \<forall>e \<in> set base. c e \<noteq> 0 else 0 < m \<and> nat m \<le> length base \<and> c (base ! nat (m - 1)) = 0)"
  using inv
proof (induction "Suc (length base) - unat n" arbitrary: n rule: less_induct)
  case less
  let ?n = "length base"
  have i: "0 < unat n" "unat n < 2 ^ 31"
    using less(2) search_inv_bound [OF less(2) nr(2)] by (simp_all add: search_inv_def)
  show ?case
  proof (cases "unat n \<le> ?n")
    case True
    let ?e = "base ! (unat n - 1)"
    have el: "elem1 base n = Some ?e" using True i by (simp add: elem1_def)
    have le: "n \<le> nr" using True nr by (simp add: word_le_nat_alt)
    show ?thesis
    proof (cases "c ?e = 0")
      case z: True
      then have "eytzinger1_find_from base nr cmp_fn search n = Some (sint n)"
        using el le c by (subst eytzinger1_find_from.simps) (simp add: Let_def)
      moreover have s: "sint n = int (unat n)" using i(2) by (rule sint_small)
      moreover have "nat (int (unat n) - 1) = unat n - 1" by linarith
      ultimately show ?thesis using z i(1) True by (simp del: of_nat_unat)
    next
      case nz: False
      define d where "d = eytzinger1_child n (of_bool (c ?e > 0))"
      have d: "unat d = 2 * unat n + of_bool (P (unat n))"
        using unat_child [OF i(2), of "of_bool (c ?e > 0)"] by (simp add: P_def d_def)
      have "eytzinger1_find_from base nr cmp_fn search n = eytzinger1_find_from base nr cmp_fn search d"
        using el le c nz by (subst eytzinger1_find_from.simps) (simp add: Let_def d_def)
      moreover have "search_inv P ?n (unat d)" using search_inv_child [OF less(2) True] d by simp
      moreover have "P (unat n) = Q (unat n)" using nz by (auto simp: P_def Q_def)
      then have "search_inv Q ?n (unat d)" using search_inv_child [OF less(3) True] d by simp
      ultimately show ?thesis using less(1) [of d] d i True by simp
    qed
  next
    case False
    then have end1: "eytzinger1_find_from base nr cmp_fn search n = Some 0"
      using nr by (subst eytzinger1_find_from.simps) (simp add: word_le_nat_alt)
    have m: "sgn (c (base ! (b - 1))) \<le> sgn (c (base ! (a - 1)))"
      if "0 < a" "a \<le> ?n" "0 < b" "b \<le> ?n" "rank ?n a < rank ?n b" for a b
      using mono [of "rank ?n a - 1" "rank ?n b - 1"] that rank_range [OF that(1,2)] rank_range [OF that(3,4)]
        inorder_nth [OF nr(2), of "rank ?n a - 1"] inorder_nth [OF nr(2), of "rank ?n b - 1"]
      by (simp add: node_of_rank_rank)
    have mP: "P a" if "0 < a" "a \<le> ?n" "0 < b" "b \<le> ?n" "rank ?n a < rank ?n b" "P b" for a b
      using m [OF that(1-5)] that(6) by (simp add: P_def sgn_if split: if_splits)
    have mQ: "Q a" if "0 < a" "a \<le> ?n" "0 < b" "b \<le> ?n" "rank ?n a < rank ?n b" "Q b" for a b
      using m [OF that(1-5)] that(6) by (simp add: Q_def sgn_if split: if_splits)
    have "P k \<longleftrightarrow> Q k" if "0 < k" "k \<le> ?n" for k
      using search_end(1) [OF less(2) _ mP that] search_end(1) [OF less(3) _ mQ that] False by (simp add: not_le)
    then have "c (base ! k) \<noteq> 0" if "k < ?n" for k using that [THEN Suc_leI] by (force simp: P_def Q_def)
    then show ?thesis using end1 by (auto simp: in_set_conv_nth)
  qed
qed

section \<open>Interface: searching by a key\<close>

text \<open>What a user of the searches relies on: with a comparison by a key, and elements sorted by it, the
  searches return an element with the greatest key that is not greater, or with the least that is
  greater.\<close>

locale ordered_array =
  fixes ordered :: "'e list \<Rightarrow> 'e list" and ok :: "'e list \<Rightarrow> bool"
    and find_le :: "'e list \<Rightarrow> ('e \<Rightarrow> 'e \<Rightarrow> int) \<Rightarrow> 'e \<Rightarrow> int option"
    and find_gt :: "'e list \<Rightarrow> ('e \<Rightarrow> 'e \<Rightarrow> int) \<Rightarrow> 'e \<Rightarrow> int option"
  assumes length_ordered: "ok a \<Longrightarrow> length (ordered a) = length a"
    and find_le_law: "ok a \<Longrightarrow>
      (\<And>i j. i < j \<Longrightarrow> j < length a \<Longrightarrow> cmp (ordered a ! j) s \<le> 0 \<Longrightarrow> cmp (ordered a ! i) s \<le> 0) \<Longrightarrow>
      \<exists>i. find_le a cmp s = Some i \<and>
          (let k = length (takeWhile (\<lambda>e. cmp e s \<le> 0) (ordered a)) in
           if k = 0 then i = - 1 else 0 \<le> i \<and> nat i < length a \<and> a ! nat i = ordered a ! (k - 1))"
    and find_gt_law: "ok a \<Longrightarrow>
      (\<And>i j. i < j \<Longrightarrow> j < length a \<Longrightarrow> cmp (ordered a ! j) s \<le> 0 \<Longrightarrow> cmp (ordered a ! i) s \<le> 0) \<Longrightarrow>
      \<exists>i. find_gt a cmp s = Some i \<and>
          (let k = length (takeWhile (\<lambda>e. cmp e s \<le> 0) (ordered a)) in
           if k = length a then i = - 1 else 0 \<le> i \<and> nat i < length a \<and> a ! nat i = ordered a ! k)"
begin

lemma key_prefix:
  fixes f :: "'e \<Rightarrow> 'k::linorder"
  assumes "ok a" "sorted (map f (ordered a))"
  shows "i < j \<Longrightarrow> j < length a \<Longrightarrow> cmp_int (f (ordered a ! j)) (f s) \<le> 0 \<Longrightarrow> cmp_int (f (ordered a ! i)) (f s) \<le> 0"
proof -
  assume ij: "i < j" "j < length a" "cmp_int (f (ordered a ! j)) (f s) \<le> 0"
  have "f (ordered a ! i) \<le> f (ordered a ! j)"
    using sorted_nth_mono [OF assms(2), of i j] ij length_ordered [OF assms(1)] by simp
  then show ?thesis using ij(3) by (auto simp: cmp_int_def split: if_splits)
qed

lemma key_takeWhile:
  fixes f :: "'e \<Rightarrow> 'k::linorder"
  assumes "ok a" "sorted (map f (ordered a))"
  shows "r < length a \<Longrightarrow>
    f (ordered a ! r) \<le> f s \<longleftrightarrow> r < length (takeWhile (\<lambda>e. cmp_int (f e) (f s) \<le> 0) (ordered a))"
proof -
  assume r: "r < length a"
  have "cmp_int (f (ordered a ! r)) (f s) \<le> 0 \<longleftrightarrow>
      r < length (takeWhile (\<lambda>e. cmp_int (f e) (f s) \<le> 0) (ordered a))"
    by (rule takeWhile_count) (use key_prefix [OF assms(1,2)] r length_ordered [OF assms(1)] in auto)
  moreover have "cmp_int x y \<le> 0 \<longleftrightarrow> x \<le> y" for x y :: 'k by (auto simp: cmp_int_def)
  ultimately show ?thesis by simp
qed

lemma find_le_key:
  fixes f :: "'e \<Rightarrow> 'k::linorder"
  assumes ok: "ok a" and srt: "sorted (map f (ordered a))"
  shows "\<exists>i. find_le a (\<lambda>e s. cmp_int (f e) (f s)) s = Some i \<and>
    (if i < 0 then \<forall>e \<in> set (ordered a). f s < f e
     else nat i < length a \<and> a ! nat i \<in> set (ordered a) \<and> f (a ! nat i) \<le> f s \<and>
          (\<forall>e \<in> set (ordered a). f e \<le> f s \<longrightarrow> f e \<le> f (a ! nat i)))"
proof -
  define k where "k = length (takeWhile (\<lambda>e. cmp_int (f e) (f s) \<le> 0) (ordered a))"
  note kt = key_takeWhile [OF ok srt, of _ s, folded k_def]
  have len: "length (ordered a) = length a" by (rule length_ordered [OF ok])
  obtain i where i: "find_le a (\<lambda>e s. cmp_int (f e) (f s)) s = Some i"
    "if k = 0 then i = - 1 else 0 \<le> i \<and> nat i < length a \<and> a ! nat i = ordered a ! (k - 1)"
    using find_le_law [OF ok, of "\<lambda>e s. cmp_int (f e) (f s)" s] key_prefix [OF ok srt] unfolding Let_def k_def by blast
  show ?thesis
  proof (cases "k = 0")
    case True
    then have "f s < f e" if "e \<in> set (ordered a)" for e
      using that kt len by (metis in_set_conv_nth not_le not_less0)
    then show ?thesis using i True by auto
  next
    case False
    have k: "k \<le> length a" unfolding k_def using length_takeWhile_le len by metis
    have "f e \<le> f (ordered a ! (k - 1))" if e: "e \<in> set (ordered a)" "f e \<le> f s" for e
    proof -
      obtain r where r: "r < length a" "e = ordered a ! r" using e(1) len by (metis in_set_conv_nth)
      then have "r < k" using kt e(2) by blast
      then show ?thesis using sorted_nth_mono [OF srt, of r "k - 1"] r k len by simp
    qed
    moreover have "f (ordered a ! (k - 1)) \<le> f s" using kt [of "k - 1"] k False by simp
    moreover have "ordered a ! (k - 1) \<in> set (ordered a)" using k False len by (intro nth_mem) simp
    ultimately show ?thesis using i False by (intro exI [of _ i]) auto
  qed
qed

lemma find_gt_key:
  fixes f :: "'e \<Rightarrow> 'k::linorder"
  assumes ok: "ok a" and srt: "sorted (map f (ordered a))"
  shows "\<exists>i. find_gt a (\<lambda>e s. cmp_int (f e) (f s)) s = Some i \<and>
    (if i < 0 then \<forall>e \<in> set (ordered a). f e \<le> f s
     else nat i < length a \<and> a ! nat i \<in> set (ordered a) \<and> f s < f (a ! nat i) \<and>
          (\<forall>e \<in> set (ordered a). f s < f e \<longrightarrow> f (a ! nat i) \<le> f e))"
proof -
  define k where "k = length (takeWhile (\<lambda>e. cmp_int (f e) (f s) \<le> 0) (ordered a))"
  note kt = key_takeWhile [OF ok srt, of _ s, folded k_def]
  have len: "length (ordered a) = length a" by (rule length_ordered [OF ok])
  obtain i where i: "find_gt a (\<lambda>e s. cmp_int (f e) (f s)) s = Some i"
    "if k = length a then i = - 1 else 0 \<le> i \<and> nat i < length a \<and> a ! nat i = ordered a ! k"
    using find_gt_law [OF ok, of "\<lambda>e s. cmp_int (f e) (f s)" s] key_prefix [OF ok srt] unfolding Let_def k_def by blast
  have k: "k \<le> length a" unfolding k_def using length_takeWhile_le len by metis
  show ?thesis
  proof (cases "k = length a")
    case True
    then have "f e \<le> f s" if "e \<in> set (ordered a)" for e
      using that kt len by (metis in_set_conv_nth)
    then show ?thesis using i True by auto
  next
    case False
    have "f (ordered a ! k) \<le> f e" if e: "e \<in> set (ordered a)" "f s < f e" for e
    proof -
      obtain r where r: "r < length a" "e = ordered a ! r" using e(1) len by (metis in_set_conv_nth)
      then have "k \<le> r" using kt [of r] e(2) by auto
      then show ?thesis using sorted_nth_mono [OF srt, of k r] r len by simp
    qed
    moreover have "f s < f (ordered a ! k)" using kt [of k] k False by auto
    moreover have "ordered a ! k \<in> set (ordered a)" using k False len by (intro nth_mem) simp
    ultimately show ?thesis using i False by (intro exI [of _ i]) auto
  qed
qed

end

lemma inorder_idx_bounds:
  assumes "length base < 2 ^ 30" "r < length base"
  shows "0 \<le> inorder_idx base r \<and> nat (inorder_idx base r) < length base \<and> base ! nat (inorder_idx base r) = inorder base ! r"
proof -
  let ?i = "unat (inorder_to_eytzinger0 (of_nat r) (of_nat (length base)))"
  have "?i + 1 = node_of_rank (length base) (Suc r)" by (rule unat_inorder_to_0 [OF assms])
  then have "?i < length base" using rank_node_of_rank [of "Suc r" "length base"] assms(2) by simp
  moreover have "inorder base ! r = base ! ?i" using assms(2) by (simp add: inorder_def)
  ultimately show ?thesis by (simp only: nat_int of_nat_0_le_iff)
qed

interpretation eyt_array: ordered_array inorder "\<lambda>a. length a < 2 ^ 30"
  "\<lambda>a cmp s. eytzinger0_find_le a (of_nat (length a)) cmp s"
  "\<lambda>a cmp s. eytzinger0_find_gt a (of_nat (length a)) cmp s"
proof
  fix a :: "'e list" and cmp :: "'e \<Rightarrow> 'e \<Rightarrow> int" and s
  assume a: "length a < 2 ^ 30"
  show "length (inorder a) = length a" by simp
  assume m: "\<And>i j. i < j \<Longrightarrow> j < length a \<Longrightarrow> cmp (inorder a ! j) s \<le> 0 \<Longrightarrow> cmp (inorder a ! i) s \<le> 0"
  let ?k = "length (takeWhile (\<lambda>e. cmp e s \<le> 0) (inorder a))"
  have nr: "unat (of_nat (length a) :: u64) = length a" using a by (simp add: unat_of_nat)
  have k: "?k \<le> length a" using length_takeWhile_le [of "\<lambda>e. cmp e s \<le> 0" "inorder a"] by simp
  have le: "eytzinger0_find_le a (of_nat (length a)) cmp s =
      Some (if ?k = 0 then - 1 else inorder_idx a (?k - 1))"
    using find_lo [OF nr a, of "\<lambda>e. cmp e s \<le> 0"] m unfolding eytzinger0_find_le_def Let_def by blast
  show "\<exists>i. eytzinger0_find_le a (of_nat (length a)) cmp s = Some i \<and> (let k = ?k in
      if k = 0 then i = - 1 else 0 \<le> i \<and> nat i < length a \<and> a ! nat i = inorder a ! (k - 1))"
  proof (cases "?k = 0")
    case False
    then have "?k - 1 < length a" using k by linarith
    then show ?thesis unfolding Let_def le if_not_P [OF False] using inorder_idx_bounds [OF a] by blast
  qed (simp add: le)
  have gt: "eytzinger0_find_gt a (of_nat (length a)) cmp s =
      Some (if ?k = length a then - 1 else inorder_idx a ?k)"
    using find_hi [OF nr a, of "\<lambda>e. cmp e s \<le> 0"] m unfolding eytzinger0_find_gt_def Let_def by blast
  show "\<exists>i. eytzinger0_find_gt a (of_nat (length a)) cmp s = Some i \<and> (let k = ?k in
      if k = length a then i = - 1 else 0 \<le> i \<and> nat i < length a \<and> a ! nat i = inorder a ! k)"
  proof (cases "?k = length a")
    case False
    then have "?k < length a" using k by linarith
    then show ?thesis unfolding Let_def gt if_not_P [OF False] using inorder_idx_bounds [OF a] by blast
  qed (simp add: gt)
qed

section \<open>Properties\<close>

lemma to_inorder_0:
  assumes "unat sz < 2 ^ 30" "i < sz"
  shows "unat (eytzinger0_to_inorder i sz) + 1 = rank (unat sz) (unat i + 1)"
    and "unat (inorder_to_eytzinger0 i sz) + 1 = node_of_rank (unat sz) (unat i + 1)"
proof -
  have lt: "unat i < unat sz" using assms(2) by (simp add: word_less_nat_alt)
  then have i: "unat (i + 1) = unat i + 1" "unat i + 1 \<le> unat sz"
    using assms(1) unat_add_small [of i 1] by simp_all
  have "unat (eytzinger1_to_inorder (i + 1) sz) = rank (unat sz) (unat i + 1)"
    using unat_to_inorder [OF assms(1), of "i + 1"] i by simp
  moreover from this have "0 < unat (eytzinger1_to_inorder (i + 1) sz)"
    using rank_range [of "unat i + 1" "unat sz"] i by simp
  ultimately show "unat (eytzinger0_to_inorder i sz) + 1 = rank (unat sz) (unat i + 1)"
    unfolding eytzinger0_to_inorder_def raw_eytzinger0_to_inorder_def eytzinger0_extra_def
      eytzinger1_to_inorder_def by (subst unat_minus_one) auto
  have "unat (inorder_to_eytzinger1 (i + 1) sz) = node_of_rank (unat sz) (unat i + 1)"
    using unat_inorder_to [OF assms(1), of "i + 1"] i by simp
  moreover from this have "0 < unat (inorder_to_eytzinger1 (i + 1) sz)"
    using rank_node_of_rank [of "unat i + 1" "unat sz"] i by simp
  ultimately show "unat (inorder_to_eytzinger0 i sz) + 1 = node_of_rank (unat sz) (unat i + 1)"
    unfolding inorder_to_eytzinger0_def raw_inorder_to_eytzinger0_def eytzinger0_extra_def
      inorder_to_eytzinger1_def by (subst unat_minus_one) auto
qed

text \<open>C28. For a tree of fewer than \<open>2 ^ 30\<close> nodes, \<open>eytzinger0_to_inorder\<close> and \<open>inorder_to_eytzinger0\<close> map
  the indices of the tree to themselves and are inverse to each other; so are the one-based variants.
  In particular the branch-free corrections by the sign bit never leave the range.\<close>

theorem eytzinger_inorder_inverse:
  assumes "unat sz < 2 ^ 30" "i < sz"
  shows "eytzinger0_to_inorder i sz < sz \<and> inorder_to_eytzinger0 i sz < sz \<and>
         inorder_to_eytzinger0 (eytzinger0_to_inorder i sz) sz = i \<and>
         eytzinger0_to_inorder (inorder_to_eytzinger0 i sz) sz = i \<and>
         inorder_to_eytzinger1 (eytzinger1_to_inorder (i + 1) sz) sz = i + 1"
proof -
  let ?n = "unat sz" and ?a = "eytzinger0_to_inorder i sz" and ?b = "inorder_to_eytzinger0 i sz"
  have i: "0 < unat i + 1" "unat i + 1 \<le> ?n" using assms(2) by (simp_all add: word_less_nat_alt)
  note a = to_inorder_0(1) [OF assms] and b = to_inorder_0(2) [OF assms]
  have lt: "?a < sz" "?b < sz"
    using rank_range [OF i] rank_node_of_rank [OF i] a b by (simp_all add: word_less_nat_alt)
  have "unat (inorder_to_eytzinger0 ?a sz) + 1 = unat i + 1"
    using to_inorder_0(2) [OF assms(1) lt(1)] node_of_rank_rank [OF i] by (simp only: a)
  moreover have "unat (eytzinger0_to_inorder ?b sz) + 1 = unat i + 1"
    using to_inorder_0(1) [OF assms(1) lt(2)] rank_node_of_rank [OF i] by (simp only: b)
  moreover have i1: "unat (i + 1) = unat i + 1" using assms by (subst unat_add_small) (simp_all add: word_less_nat_alt)
  have "unat (inorder_to_eytzinger1 (eytzinger1_to_inorder (i + 1) sz) sz) = unat (i + 1)"
    using unat_inorder_to [OF assms(1), of "eytzinger1_to_inorder (i + 1) sz"]
      unat_to_inorder [OF assms(1), of "i + 1"] rank_range [OF i] node_of_rank_rank [OF i] i i1 by simp
  ultimately show ?thesis using lt by (simp add: word_unat_eq_iff)
qed

theorem eytzinger_inorder_inverse_witness:
  "inorder_to_eytzinger0 (eytzinger0_to_inorder 6 10) 10 = 6"
  using eytzinger_inorder_inverse [of 10 6] by simp

lemma inorder_to_0_node1: "inorder_to_eytzinger0 (of_nat r) sz = node1 sz (Suc r) - 1"
  by (simp add: inorder_to_eytzinger0_def raw_inorder_to_eytzinger0_def inorder_to_eytzinger1_def
      eytzinger0_extra_def add.commute)

lemma map_shift: "map (\<lambda>r. f (Suc r)) [0..<n] = map f [1..<Suc n]"
  by (simp add: map_Suc_upt [symmetric] comp_def del: upt_Suc)

lemma for_each_inorder:
  assumes "unat sz < 2 ^ 30"
  shows "eytzinger0_for_each sz = Some (map (\<lambda>r. inorder_to_eytzinger0 (of_nat r) sz) [0..<unat sz]) \<and>
         eytzinger0_for_each_prev sz = Some (rev (map (\<lambda>r. inorder_to_eytzinger0 (of_nat r) sz) [0..<unat sz])) \<and>
         eytzinger1_for_each sz = Some (map (\<lambda>r. inorder_to_eytzinger1 (of_nat r) sz) [1..<Suc (unat sz)])"
proof (cases "sz = 0")
  case True
  have "rounddown_pow_of_two 1 = 1" by (simp add: rounddown_pow_of_two_def fls_long_def fls64_eq nlen.simps)
  then have l: "eytzinger1_last 0 = 0" by (simp add: eytzinger1_last_def)
  show ?thesis
    unfolding eytzinger0_for_each_def eytzinger0_for_each_prev_def eytzinger1_for_each_def True
      eytzinger0_first_def eytzinger0_last_def l
    by (subst eytzinger0_for_each_from.simps, subst eytzinger0_for_each_prev_from.simps,
        subst eytzinger1_for_each_from.simps) (simp add: eytzinger1_first_def)
next
  case False
  note f = first_rank [OF assms False] and l = last_rank [OF assms False]
  have m: "map (\<lambda>r. inorder_to_eytzinger0 (of_nat r) sz) [0..<unat sz] =
      map (\<lambda>r. node1 sz r - 1) [1..<Suc (unat sz)]"
    unfolding inorder_to_0_node1 by (rule map_shift)
  show ?thesis
    using for_each0_from [OF assms, of "eytzinger1_first sz" 1] for_each1_from [OF assms, of "eytzinger1_first sz" 1]
      for_each0_prev_from [OF assms, of "eytzinger1_last sz" "unat sz"] f l
    unfolding eytzinger0_for_each_def eytzinger0_for_each_prev_def eytzinger1_for_each_def
      eytzinger0_first_def eytzinger0_last_def m by (simp del: upt_Suc)
qed

lemma last_inorder:
  assumes "length base < 2 ^ 30" "base \<noteq> []"
  shows "unat (eytzinger0_last (of_nat (length base))) < length base"
    "base ! unat (eytzinger0_last (of_nat (length base))) = last (inorder base)"
proof -
  let ?n = "length base" and ?sz = "of_nat (length base) :: u32"
  have u: "unat ?sz = ?n" by (rule unat_of_length [OF assms(1)])
  have n: "0 < ?n" using assms(2) by simp
  then have "?sz \<noteq> 0" using u by (metis less_irrefl unat_0)
  then have l: "0 < unat (eytzinger1_last ?sz)" "unat (eytzinger1_last ?sz) \<le> ?n"
    "rank ?n (unat (eytzinger1_last ?sz)) = ?n" using last_rank [of ?sz] assms(1) u by simp_all
  have m: "unat (eytzinger0_last ?sz) = unat (eytzinger1_last ?sz) - 1"
    unfolding eytzinger0_last_def using l(1) by (intro unat_minus_one) auto
  then show "unat (eytzinger0_last ?sz) < ?n" using l(1,2) by linarith
  have "node_of_rank ?n ?n = unat (eytzinger1_last ?sz)" using node_of_rank_rank [of "unat (eytzinger1_last ?sz)" ?n] l by simp
  then have "inorder base ! (?n - 1) = base ! unat (eytzinger0_last ?sz)"
    using inorder_nth [OF assms(1), of "?n - 1"] n m by simp
  moreover have "inorder base \<noteq> []" using n length_inorder [of base] by fastforce
  ultimately show "base ! unat (eytzinger0_last ?sz) = last (inorder base)" by (simp add: last_conv_nth)
qed

text \<open>C29. The traversal loops end and visit the indices of the tree in order, forwards and backwards: the
  \<open>r\<close>-th index visited is the one \<open>inorder_to_eytzinger0\<close> (or \<open>inorder_to_eytzinger1\<close>) gives for \<open>r\<close>.\<close>

theorem eytzinger_for_each_inorder:
  assumes "unat sz < 2 ^ 30"
  shows "eytzinger0_for_each sz = Some (map (\<lambda>r. inorder_to_eytzinger0 (of_nat r) sz) [0..<unat sz]) \<and>
         eytzinger0_for_each_prev sz = Some (rev (map (\<lambda>r. inorder_to_eytzinger0 (of_nat r) sz) [0..<unat sz])) \<and>
         eytzinger1_for_each sz = Some (map (\<lambda>r. inorder_to_eytzinger1 (of_nat r) sz) [1..<Suc (unat sz)])"
  by (rule for_each_inorder [OF assms])

theorem eytzinger_for_each_inorder_witness:
  "eytzinger0_for_each 3 = Some (map (\<lambda>r. inorder_to_eytzinger0 (of_nat r) 3) [0..<3])"
  using eytzinger_for_each_inorder [of 3] by simp

text \<open>C14. On an array of fewer than \<open>2 ^ 30\<close> elements whose elements in tree order are sorted with respect
  to the searched key, \<open>eytzinger0_find_le\<close> ends, reads only inside the array and returns the index of the
  last element in order that compares at most equal, or \<open>- 1\<close> when there is none.\<close>

theorem eytzinger0_find_le_correct:
  assumes "unat nr = length base" "length base < 2 ^ 30"
    and "\<And>i j. i < j \<Longrightarrow> j < length base \<Longrightarrow> cmp (inorder base ! j) search \<le> 0 \<Longrightarrow> cmp (inorder base ! i) search \<le> 0"
  shows "eytzinger0_find_le base nr cmp search =
    Some (let k = length (takeWhile (\<lambda>e. cmp e search \<le> 0) (inorder base))
          in if k = 0 then - 1 else inorder_idx base (k - 1))"
  unfolding eytzinger0_find_le_def by (rule find_lo) (use assms in auto)

text \<open>A tree of four elements, for the witnesses: the sorted elements are \<open>10, 20, 30, 40\<close>.\<close>

definition eyt_ex :: "int list" where
  "eyt_ex = [30, 20, 40, 10]"

lemma eyt_ex_inorder: "length eyt_ex = 4" "inorder eyt_ex = [10, 20, 30, 40]"
  "inorder_idx eyt_ex 0 = 3" "inorder_idx eyt_ex 1 = 1" "inorder_idx eyt_ex 2 = 0"
proof -
  show l: "length eyt_ex = 4" by (simp add: eyt_ex_def)
  have n: "node_of_rank 4 (Suc 0) = 4" "node_of_rank 4 2 = 2" "node_of_rank 4 3 = 1" "node_of_rank 4 4 = 3"
    by (simp_all add: node_of_rank_def pos_of_rank_def node_of_pos_def extra_pos_def nlen.simps nctz.simps)
  show "inorder eyt_ex = [10, 20, 30, 40]"
  proof -
    have "inorder eyt_ex = map (\<lambda>r. eyt_ex ! (node_of_rank 4 (Suc r) - 1)) [0..<4]"
      by (rule nth_equalityI) (simp_all add: l inorder_nth)
    also have "[0..<4] = [0, 1, 2, 3 :: nat]" by (simp add: upt_rec)
    finally show ?thesis by (simp add: n numeral_2_eq_2 [symmetric] eyt_ex_def)
  qed
  have idx: "unat (inorder_to_eytzinger0 (of_nat r) (of_nat (length eyt_ex))) = node_of_rank 4 (Suc r) - 1" if "r < 4" for r
    using unat_inorder_to_0 [of 4 r] that l by simp
  show "inorder_idx eyt_ex 0 = 3" "inorder_idx eyt_ex 1 = 1" "inorder_idx eyt_ex 2 = 0"
    using idx [of 0] idx [of 1] idx [of 2] n by (simp_all add: numeral_2_eq_2 [symmetric] del: of_nat_unat)
qed

lemma eyt_ex_idx: "unat (inorder_to_eytzinger0 1 4) = Suc 0" "unat (inorder_to_eytzinger0 2 4) = 0"
  using eyt_ex_inorder(4,5) by (simp_all add: eyt_ex_inorder(1) del: of_nat_unat)

lemma eyt_ex_sorted: "i < j \<Longrightarrow> j < length eyt_ex \<Longrightarrow> inorder eyt_ex ! i \<le> inorder eyt_ex ! j"
  by (rule sorted_nth_mono) (simp_all add: eyt_ex_inorder)

theorem eytzinger0_find_le_correct_witness:
  "eytzinger0_find_le eyt_ex 4 (\<lambda>e k. e - k) 25 = Some 1"
proof -
  have "eytzinger0_find_le eyt_ex 4 (\<lambda>e k. e - k) 25 =
      Some (let k = length (takeWhile (\<lambda>e. e - 25 \<le> 0) [10, 20, 30, 40 :: int])
            in if k = 0 then - 1 else inorder_idx eyt_ex (k - 1))"
    unfolding eyt_ex_inorder(2) [symmetric]
    by (rule eytzinger0_find_le_correct, simp add: eyt_ex_inorder(1), simp add: eyt_ex_inorder(1), drule (1) eyt_ex_sorted, simp)
  then show ?thesis by (simp add: Let_def eyt_ex_inorder(1) eyt_ex_idx del: of_nat_unat)
qed

text \<open>C30. Likewise \<open>eytzinger0_find_gt\<close> returns the index of the first element in order that compares
  greater than the key, or \<open>- 1\<close> when there is none.\<close>

theorem eytzinger0_find_gt_correct:
  assumes "unat nr = length base" "length base < 2 ^ 30"
    and "\<And>i j. i < j \<Longrightarrow> j < length base \<Longrightarrow> cmp (inorder base ! j) search \<le> 0 \<Longrightarrow> cmp (inorder base ! i) search \<le> 0"
  shows "eytzinger0_find_gt base nr cmp search =
    Some (let k = length (takeWhile (\<lambda>e. cmp e search \<le> 0) (inorder base))
          in if k = length base then - 1 else inorder_idx base k)"
  unfolding eytzinger0_find_gt_def by (rule find_hi) (use assms in auto)

theorem eytzinger0_find_gt_correct_witness:
  "eytzinger0_find_gt eyt_ex 4 (\<lambda>e k. e - k) 25 = Some 0"
proof -
  have "eytzinger0_find_gt eyt_ex 4 (\<lambda>e k. e - k) 25 =
      Some (let k = length (takeWhile (\<lambda>e. e - 25 \<le> 0) [10, 20, 30, 40 :: int])
            in if k = length eyt_ex then - 1 else inorder_idx eyt_ex (k))"
    unfolding eyt_ex_inorder(2) [symmetric]
    by (rule eytzinger0_find_gt_correct, simp add: eyt_ex_inorder(1), simp add: eyt_ex_inorder(1), drule (1) eyt_ex_sorted, simp)
  then show ?thesis by (simp add: Let_def eyt_ex_inorder(1) eyt_ex_idx del: of_nat_unat)
qed

text \<open>\<open>eytzinger0_find_ge\<close> returns the index of the first element in order that does not compare less
  than the key, or \<open>- 1\<close> when there is none.\<close>

theorem eytzinger0_find_ge_correct:
  assumes "unat nr = length base" "length base < 2 ^ 30"
    and "\<And>i j. i < j \<Longrightarrow> j < length base \<Longrightarrow> cmp (inorder base ! j) search < 0 \<Longrightarrow> cmp (inorder base ! i) search < 0"
  shows "eytzinger0_find_ge base nr cmp search =
    Some (let k = length (takeWhile (\<lambda>e. cmp e search < 0) (inorder base))
          in if k = length base then - 1 else inorder_idx base k)"
  unfolding eytzinger0_find_ge_def by (rule find_hi) (use assms in auto)

theorem eytzinger0_find_ge_correct_witness:
  "eytzinger0_find_ge eyt_ex 4 (\<lambda>e k. e - k) 20 = Some 1"
proof -
  have "eytzinger0_find_ge eyt_ex 4 (\<lambda>e k. e - k) 20 =
      Some (let k = length (takeWhile (\<lambda>e. e - 20 < 0) [10, 20, 30, 40 :: int])
            in if k = length eyt_ex then - 1 else inorder_idx eyt_ex (k))"
    unfolding eyt_ex_inorder(2) [symmetric]
    by (rule eytzinger0_find_ge_correct, simp add: eyt_ex_inorder(1), simp add: eyt_ex_inorder(1), drule (1) eyt_ex_sorted, simp)
  then show ?thesis by (simp add: Let_def eyt_ex_inorder(1) eyt_ex_idx del: of_nat_unat)
qed

text \<open>C31. \<open>eytzinger0_find\<close> (and \<open>eytzinger0_find_r\<close>) on an array whose elements in tree order are sorted
  with respect to the searched key returns the index of an equal element, or \<open>- 1\<close> exactly when the array
  has none.\<close>

theorem eytzinger0_find_correct:
  assumes "unat nr = length base" "length base < 2 ^ 30"
    and "\<And>i j. i < j \<Longrightarrow> j < length base \<Longrightarrow> sgn (cmp_fn search (inorder base ! j)) \<le> sgn (cmp_fn search (inorder base ! i))"
  shows "\<exists>m. eytzinger0_find base nr cmp_fn search = Some m \<and>
             eytzinger0_find_r base nr (\<lambda>s e _. cmp_fn s e) priv search = Some m \<and>
             (if m = - 1 then \<forall>e \<in> set base. cmp_fn search e \<noteq> 0
              else 0 \<le> m \<and> nat m < length base \<and> cmp_fn search (base ! nat m) = 0)"
proof -
  obtain m where m: "eytzinger1_find_from base nr cmp_fn search 1 = Some m"
    "if m = 0 then \<forall>e \<in> set base. cmp_fn search e \<noteq> 0
     else 0 < m \<and> nat m \<le> length base \<and> cmp_fn search (base ! nat (m - 1)) = 0"
    using find_from [OF assms(1,2), of "cmp_fn search" cmp_fn search 1] assms(3) search_inv_1 by auto
  then have "if m - 1 = - 1 then \<forall>e \<in> set base. cmp_fn search e \<noteq> 0
      else 0 \<le> m - 1 \<and> nat (m - 1) < length base \<and> cmp_fn search (base ! nat (m - 1)) = 0"
    by auto
  with m(1) show ?thesis
    by (intro exI [of _ "m - 1"])
       (simp add: eytzinger0_find_def eytzinger0_find_r_def eytzinger1_find_def eytzinger1_find_r_def)
qed

theorem eytzinger0_find_correct_witness:
  "\<exists>m. eytzinger0_find eyt_ex 4 (\<lambda>k e. k - e) 40 = Some m \<and> m \<noteq> - 1"
proof -
  have mono: "sgn (40 - inorder eyt_ex ! j) \<le> sgn (40 - inorder eyt_ex ! i)" if "i < j" "j < length eyt_ex" for i j
    using eyt_ex_sorted [OF that] by (simp add: sgn_if)
  have "40 \<in> set eyt_ex" by (simp add: eyt_ex_def)
  then show ?thesis
    using eytzinger0_find_correct [of 4 eyt_ex "\<lambda>k e. k - e" 40 "()"] mono
    by (fastforce simp: eyt_ex_inorder(1) split: if_splits)
qed

end
