(* ===== verification/Eytzinger_Sort.thy ===== *)
theory Eytzinger_Sort
  imports Eytzinger "HOL-Library.Multiset"
begin

text \<open>
  Sorting an array in eytzinger order, \<^verbatim>\<open>fs/util/eytzinger.c\<close>: a bottom-up heapsort that addresses the
  elements by their inorder index, so that afterwards the elements are sorted in the order of the
  tree, and the routines that swap two elements of a given size in memory.

  The loop variables \<^verbatim>\<open>i\<close>, \<^verbatim>\<open>j\<close>, \<^verbatim>\<open>k\<close> are natural numbers here: they are at most \<open>2 n\<close>, which does not
  wrap an \<^verbatim>\<open>unsigned\<close> for \<open>n < 2 ^ 30\<close>. A loop that does not end and an access outside the array are
  \<open>None\<close>.

  The sort reaches the array only through a comparison and a swap by inorder index; the locale
  \<open>swap_array\<close> is the contract of these two, under which the sort is proved, and it is
  interpreted on \<open>eytzinger1_do_cmp\<close> and \<open>eytzinger1_do_swap\<close>.
\<close>

section \<open>Comparison and swap by inorder index\<close>

definition eytzinger1_do_cmp :: "('e \<Rightarrow> 'e \<Rightarrow> int) \<Rightarrow> nat \<Rightarrow> 'e list \<Rightarrow> nat \<Rightarrow> nat \<Rightarrow> int option" where
  "eytzinger1_do_cmp cmp_func n base l r =
     Option.bind (elem1 base (inorder_to_eytzinger1 (of_nat l) (of_nat n))) (\<lambda>a.
     Option.bind (elem1 base (inorder_to_eytzinger1 (of_nat r) (of_nat n))) (\<lambda>b.
     Some (cmp_func a b)))"

definition eytzinger1_do_swap :: "nat \<Rightarrow> 'e list \<Rightarrow> nat \<Rightarrow> nat \<Rightarrow> 'e list option" where
  "eytzinger1_do_swap n base l r =
     (let i = inorder_to_eytzinger1 (of_nat l) (of_nat n); j = inorder_to_eytzinger1 (of_nat r) (of_nat n) in
      Option.bind (elem1 base i) (\<lambda>a.
      Option.bind (elem1 base j) (\<lambda>b.
      Some (base[unat i - 1 := b, unat j - 1 := a]))))"

section \<open>The heapsort\<close>

text \<open>The sift-down path from \<open>j\<close> to a leaf of the heap of \<open>m\<close> elements, with the special case of a last
  leaf with no sibling. The first loop has \<open>m = n\<close>; in the second the condition \<^verbatim>\<open>k + 1 < i\<close> and the special
  case \<^verbatim>\<open>j * 2 + 1 == i\<close> are those for \<open>m = i - 1\<close>.\<close>

partial_function (option) sift_leaf :: "(nat \<Rightarrow> nat \<Rightarrow> int option) \<Rightarrow> nat \<Rightarrow> nat \<Rightarrow> nat option" where
  "sift_leaf c m j =
     (if j * 2 < m then Option.bind (c (j * 2) (j * 2 + 1)) (\<lambda>x. sift_leaf c m (if x > 0 then j * 2 else j * 2 + 1))
      else Some (if j * 2 = m then j * 2 else j))"

partial_function (option) backtrack :: "(nat \<Rightarrow> nat \<Rightarrow> int option) \<Rightarrow> nat \<Rightarrow> nat \<Rightarrow> nat option" where
  "backtrack c i j =
     (if j \<noteq> i then Option.bind (c i j) (\<lambda>x. if x \<ge> 0 then backtrack c i (j div 2) else Some j) else Some j)"

partial_function (option) backtrack_root :: "(nat \<Rightarrow> nat \<Rightarrow> int option) \<Rightarrow> nat \<Rightarrow> nat option" where
  "backtrack_root c j =
     (if j \<ge> 1 then Option.bind (c 1 j) (\<lambda>x. if x \<ge> 0 then backtrack_root c (j div 2) else Some j) else Some j)"

partial_function (option) shift_up :: "('s \<Rightarrow> nat \<Rightarrow> nat \<Rightarrow> 's option) \<Rightarrow> nat \<Rightarrow> nat \<Rightarrow> nat \<Rightarrow> 's \<Rightarrow> 's option" where
  "shift_up sw i k j s =
     (if j \<noteq> i then Option.bind (sw s (j div 2) k) (\<lambda>s'. shift_up sw i k (j div 2) s') else Some s)"

partial_function (option) shift_up_root :: "('s \<Rightarrow> nat \<Rightarrow> nat \<Rightarrow> 's option) \<Rightarrow> nat \<Rightarrow> nat \<Rightarrow> 's \<Rightarrow> 's option" where
  "shift_up_root sw k j s =
     (if j > 1 then Option.bind (sw s (j div 2) k) (\<lambda>s'. shift_up_root sw k (j div 2) s') else Some s)"

text \<open>The bodies of the two loops.\<close>

definition heapify_step :: "('s \<Rightarrow> nat \<Rightarrow> nat \<Rightarrow> int option) \<Rightarrow> ('s \<Rightarrow> nat \<Rightarrow> nat \<Rightarrow> 's option) \<Rightarrow>
    nat \<Rightarrow> nat \<Rightarrow> 's \<Rightarrow> 's option" where
  "heapify_step c sw n i s =
     Option.bind (sift_leaf (c s) n i) (\<lambda>j.
     Option.bind (backtrack (c s) i j) (\<lambda>j.
     shift_up sw i j j s))"

definition sort_step :: "('s \<Rightarrow> nat \<Rightarrow> nat \<Rightarrow> int option) \<Rightarrow> ('s \<Rightarrow> nat \<Rightarrow> nat \<Rightarrow> 's option) \<Rightarrow>
    nat \<Rightarrow> 's \<Rightarrow> 's option" where
  "sort_step c sw i s =
     Option.bind (sw s 1 i) (\<lambda>s.
     Option.bind (sift_leaf (c s) (i - 1) 1) (\<lambda>j.
     Option.bind (backtrack_root (c s) j) (\<lambda>j.
     shift_up_root sw j j s)))"

fun heapify :: "('s \<Rightarrow> nat \<Rightarrow> nat \<Rightarrow> int option) \<Rightarrow> ('s \<Rightarrow> nat \<Rightarrow> nat \<Rightarrow> 's option) \<Rightarrow>
    nat \<Rightarrow> nat \<Rightarrow> 's \<Rightarrow> 's option" where
  "heapify c sw n 0 s = Some s"
| "heapify c sw n (Suc i) s = Option.bind (heapify_step c sw n (Suc i) s) (\<lambda>s. heapify c sw n i s)"

fun sort_loop :: "('s \<Rightarrow> nat \<Rightarrow> nat \<Rightarrow> int option) \<Rightarrow> ('s \<Rightarrow> nat \<Rightarrow> nat \<Rightarrow> 's option) \<Rightarrow>
    nat \<Rightarrow> 's \<Rightarrow> 's option" where
  "sort_loop c sw 0 s = Some s"
| "sort_loop c sw (Suc i) s =
     (if Suc i > 1 then Option.bind (sort_step c sw (Suc i) s) (\<lambda>s. sort_loop c sw i s) else Some s)"

definition eytzinger1_sort_r :: "'e list \<Rightarrow> nat \<Rightarrow> ('e \<Rightarrow> 'e \<Rightarrow> 'p \<Rightarrow> int) \<Rightarrow> 'p \<Rightarrow> 'e list option" where
  "eytzinger1_sort_r base n cmp_func priv =
     (let c = eytzinger1_do_cmp (\<lambda>a b. cmp_func a b priv) n; sw = eytzinger1_do_swap n in
      Option.bind (heapify c sw n (n div 2) base) (\<lambda>s. sort_loop c sw n s))"

definition eytzinger1_sort :: "'e list \<Rightarrow> nat \<Rightarrow> ('e \<Rightarrow> 'e \<Rightarrow> int) \<Rightarrow> 'e list option" where
  "eytzinger1_sort base n cmp_func = eytzinger1_sort_r base n (\<lambda>a b w. w a b) cmp_func"

definition eytzinger0_sort_r :: "'e list \<Rightarrow> nat \<Rightarrow> ('e \<Rightarrow> 'e \<Rightarrow> 'p \<Rightarrow> int) \<Rightarrow> 'p \<Rightarrow> 'e list option" where
  "eytzinger0_sort_r base n cmp_func priv = eytzinger1_sort_r base n cmp_func priv"

definition eytzinger0_sort :: "'e list \<Rightarrow> nat \<Rightarrow> ('e \<Rightarrow> 'e \<Rightarrow> int) \<Rightarrow> 'e list option" where
  "eytzinger0_sort base n cmp_func = eytzinger0_sort_r base n (\<lambda>a b w. w a b) cmp_func"

section \<open>Paths in a heap\<close>

text \<open>\<open>anc x y\<close>: node \<open>x\<close> is \<open>y\<close> or an ancestor of it.\<close>

definition anc :: "nat \<Rightarrow> nat \<Rightarrow> bool" where
  "anc x y \<longleftrightarrow> (\<exists>s. x = y div 2 ^ s)"

lemma anc_refl [simp]: "anc x x"
  unfolding anc_def by (rule exI [of _ 0]) simp

lemma anc_parent: "anc x (y div 2) \<Longrightarrow> anc x y"
  unfolding anc_def by (metis div_mult2_eq power_Suc)

lemma anc_cases: "anc x y \<Longrightarrow> x = y \<or> anc x (y div 2)"
  unfolding anc_def
proof (elim exE)
  fix s assume s: "x = y div 2 ^ s"
  show "x = y \<or> (\<exists>s. x = y div 2 div 2 ^ s)"
    by (cases s) (use s in \<open>auto simp: div_mult2_eq\<close>)
qed

lemma anc_le: "anc x y \<Longrightarrow> x \<le> y"
  unfolding anc_def by auto

lemma anc_div: "anc x y \<Longrightarrow> anc (x div 2) y"
proof -
  assume "anc x y"
  then obtain s where "x = y div 2 ^ s" by (auto simp: anc_def)
  then have "x div 2 = y div 2 ^ Suc s" by (simp add: div_mult2_eq [symmetric] mult.commute)
  then show ?thesis unfolding anc_def by blast
qed

lemma anc_trans: "anc x y \<Longrightarrow> anc y z \<Longrightarrow> anc x z"
  unfolding anc_def by (metis div_mult2_eq power_add)

lemma anc_linear:
  assumes "anc x z" "anc y z" "x \<le> y"
  shows "anc x y"
proof -
  obtain s t where st: "x = z div 2 ^ s" "y = z div 2 ^ t" using assms by (auto simp: anc_def)
  show ?thesis
  proof (cases "t \<le> s")
    case True
    then have "x = y div 2 ^ (s - t)" unfolding st div_mult2_eq [symmetric] by (metis le_add_diff_inverse power_add)
    then show ?thesis by (auto simp: anc_def)
  next
    case False
    then have "y = x div 2 ^ (t - s)"
      unfolding st div_mult2_eq [symmetric] by (metis le_add_diff_inverse nat_le_linear power_add)
    then have "y \<le> x" by simp
    with assms(3) show ?thesis by simp
  qed
qed

lemma anc_child: "anc x y \<Longrightarrow> x \<noteq> y \<Longrightarrow> \<exists>d. anc d y \<and> d div 2 = x"
proof (induction y rule: less_induct)
  case (less y)
  show ?case
  proof (cases "x = y div 2")
    case True
    then show ?thesis by (metis anc_refl)
  next
    case False
    moreover have "anc x (y div 2)" using anc_cases [OF less.prems(1)] less.prems(2) by blast
    moreover have "0 < y" using less.prems anc_le by (metis anc_def div_0 gr0I)
    ultimately obtain d where "anc d (y div 2)" "d div 2 = x" using less.IH [of "y div 2"] by auto
    then show ?thesis using anc_parent by blast
  qed
qed

lemma anc_above: "anc d y \<Longrightarrow> d \<noteq> y \<Longrightarrow> d \<le> y div 2"
  using anc_cases anc_le by blast

text \<open>Two nodes of a path with the same parent are equal.\<close>

lemma anc_same_parent:
  assumes "anc x y" "anc d y" "x div 2 = d div 2" "0 < d div 2"
  shows "x = d"
proof -
  have "a = b" if "anc a y" "anc b y" "a \<le> b" "a div 2 = b div 2" "0 < a div 2" for a b
  proof (rule ccontr)
    assume "a \<noteq> b"
    then have "a \<le> b div 2" using anc_above [OF anc_linear [OF that(1-3)]] by blast
    with that(4,5) show False by linarith
  qed
  then show ?thesis using assms by (metis nat_le_linear)
qed

section \<open>Interface: an array compared and swapped by index\<close>

abbreviation at1 :: "'e list \<Rightarrow> nat \<Rightarrow> 'e" where
  "at1 xs x \<equiv> xs ! (x - 1)"

text \<open>Every node of the heap of \<open>m\<close> elements whose parent is \<open>i\<close> or later is at most its parent.\<close>

definition heap_from :: "('e \<Rightarrow> 'e \<Rightarrow> int) \<Rightarrow> nat \<Rightarrow> nat \<Rightarrow> 'e list \<Rightarrow> bool" where
  "heap_from cmp i m v \<longleftrightarrow> (\<forall>x. x \<le> m \<longrightarrow> i \<le> x div 2 \<longrightarrow> cmp (at1 v x) (at1 v (x div 2)) \<le> 0)"

text \<open>\<open>big_path\<close>: the path from \<open>i\<close> to \<open>J\<close> always goes to a greatest child.\<close>

definition big_path :: "('e \<Rightarrow> 'e \<Rightarrow> int) \<Rightarrow> nat \<Rightarrow> nat \<Rightarrow> 'e list \<Rightarrow> nat \<Rightarrow> bool" where
  "big_path cmp i m v J \<longleftrightarrow>
     (\<forall>d e. anc d J \<longrightarrow> i \<le> d div 2 \<longrightarrow> e div 2 = d div 2 \<longrightarrow> e \<le> m \<longrightarrow> cmp (at1 v e) (at1 v d) \<le> 0)"

text \<open>The invariant of the second loop: a heap of \<open>i\<close> elements followed by the greatest ones, sorted.\<close>

definition sort_inv :: "('e \<Rightarrow> 'e \<Rightarrow> int) \<Rightarrow> nat \<Rightarrow> 'e list \<Rightarrow> bool" where
  "sort_inv cmp i v \<longleftrightarrow> heap_from cmp 1 i v \<and> sorted_wrt (\<lambda>x y. cmp x y \<le> 0) (drop i v) \<and>
     (\<forall>x \<in> set (take i v). \<forall>y \<in> set (drop i v). cmp x y \<le> 0)"

locale swap_array =
  fixes c :: "'s \<Rightarrow> nat \<Rightarrow> nat \<Rightarrow> int option" and sw :: "'s \<Rightarrow> nat \<Rightarrow> nat \<Rightarrow> 's option"
    and view :: "'s \<Rightarrow> 'e list" and cmp :: "'e \<Rightarrow> 'e \<Rightarrow> int" and n :: nat and ok :: "'s \<Rightarrow> bool"
  assumes length_view: "ok s \<Longrightarrow> length (view s) = n"
    and compare: "ok s \<Longrightarrow> 0 < l \<Longrightarrow> l \<le> n \<Longrightarrow> 0 < r \<Longrightarrow> r \<le> n \<Longrightarrow>
          c s l r = Some (cmp (at1 (view s) l) (at1 (view s) r))"
    and swap: "ok s \<Longrightarrow> 0 < l \<Longrightarrow> l \<le> n \<Longrightarrow> 0 < r \<Longrightarrow> r \<le> n \<Longrightarrow>
          \<exists>s'. sw s l r = Some s' \<and> ok s' \<and>
               view s' = (view s)[l - 1 := at1 (view s) r, r - 1 := at1 (view s) l]"
begin

lemma sift_leaf_spec:
  assumes "cmp_order cmp" "ok s" "0 < i" "i \<le> m" "m \<le> n"
  shows "\<exists>J. sift_leaf (c s) m i = Some J \<and> anc i J \<and> J \<le> m \<and> m < 2 * J \<and> big_path cmp i m (view s) J"
  using assms(3,4)
proof (induction "m - i" arbitrary: i rule: less_induct)
  case less
  note o = cmp_orderD [OF assms(1)]
  show ?case
  proof (cases "i * 2 < m")
    case True
    let ?x = "cmp (at1 (view s) (i * 2)) (at1 (view s) (i * 2 + 1))"
    define d0 where "d0 = (if ?x > 0 then i * 2 else i * 2 + 1)"
    have d0: "d0 div 2 = i" "d0 \<le> m" "i < d0" using True less.prems by (auto simp: d0_def)
    have "c s (i * 2) (i * 2 + 1) = Some ?x" using True less.prems assms by (intro compare) auto
    then have step: "sift_leaf (c s) m i = sift_leaf (c s) m d0"
      using True by (subst sift_leaf.simps) (simp add: d0_def)
    obtain J where J: "sift_leaf (c s) m d0 = Some J" "anc d0 J" "J \<le> m" "m < 2 * J" "big_path cmp d0 m (view s) J"
    proof -
      have "m - d0 < m - i" using d0 by linarith
      then show thesis using less.hyps [of d0] d0 that by auto
    qed
    have best: "cmp (at1 (view s) e) (at1 (view s) d0) \<le> 0" if "e div 2 = i" for e
    proof -
      have "e = i * 2 \<or> e = i * 2 + 1" using that by linarith
      then show ?thesis using o(1) [of "at1 (view s) e"] o(3) [of "at1 (view s) (i * 2)" "at1 (view s) (i * 2 + 1)"]
        by (auto simp: d0_def)
    qed
    have "big_path cmp i m (view s) J"
      unfolding big_path_def
    proof (intro allI impI)
      fix d e assume d: "anc d J" "i \<le> d div 2" "e div 2 = d div 2" "e \<le> m"
      show "cmp (at1 (view s) e) (at1 (view s) d) \<le> 0"
      proof (cases "d0 \<le> d div 2")
        case True
        then show ?thesis using J(5) d unfolding big_path_def by blast
      next
        case False
        then have "d \<le> d0" using anc_linear [OF J(2) d(1)] anc_above [of d0 d] by (metis nat_le_linear order_refl)
        then have "anc d d0" using anc_linear [OF d(1) J(2)] by blast
        moreover have "\<not> anc d i" using anc_le [of d i] d(2) less.prems(1) by auto
        ultimately have "d = d0" using anc_cases [of d d0] d0 by auto
        then show ?thesis using best d d0 by simp
      qed
    qed
    moreover have "anc i J" using anc_div [OF J(2)] d0 by simp
    ultimately show ?thesis using step J by auto
  next
    case False
    define J where "J = (if i * 2 = m then i * 2 else i)"
    have up: "d = J \<and> i * 2 = m" if "anc d J" "i \<le> d div 2" for d
    proof -
      have "\<not> anc d i" using anc_le [of d i] that(2) less.prems(1) by auto
      then show ?thesis using that(1) anc_cases [of d "i * 2"] by (auto simp: J_def split: if_splits)
    qed
    have "big_path cmp i m (view s) J"
      unfolding big_path_def
    proof (intro allI impI)
      fix d e assume d: "anc d J" "i \<le> d div 2" "e div 2 = d div 2" "e \<le> m"
      then have "d = i * 2" "i * 2 = m" using up [OF d(1,2)] by (auto simp: J_def)
      then have "e div 2 = i" "e \<le> i * 2" using d(3,4) by simp_all
      then have "e = d" using \<open>d = i * 2\<close> by linarith
      then show "cmp (at1 (view s) e) (at1 (view s) d) \<le> 0" using o(1) by simp
    qed
    moreover have "anc i J" using anc_div [OF anc_refl, of J] by (auto simp: J_def)
    moreover have "sift_leaf (c s) m i = Some J" using False by (subst sift_leaf.simps) (simp add: J_def)
    ultimately show ?thesis using False less.prems by (auto simp: J_def)
  qed
qed

lemma backtrack_spec:
  assumes "cmp_order cmp" "ok s" "0 < i" "i \<le> n" "anc i J" "J \<le> n"
  shows "\<exists>j. backtrack (c s) i J = Some j \<and> anc i j \<and> anc j J \<and>
    (j = i \<or> cmp (at1 (view s) i) (at1 (view s) j) < 0) \<and>
    (\<forall>d. anc d J \<longrightarrow> j < d \<longrightarrow> cmp (at1 (view s) d) (at1 (view s) i) \<le> 0)"
  using assms(5,6)
proof (induction J rule: less_induct)
  case (less J)
  note o = cmp_orderD [OF assms(1)]
  show ?case
  proof (cases "J = i")
    case True
    moreover have "\<not> i < d" if "anc d i" for d using anc_le [OF that] by simp
    ultimately show ?thesis by (subst backtrack.simps) auto
  next
    case False
    let ?x = "cmp (at1 (view s) i) (at1 (view s) J)"
    have J: "anc i (J div 2)" using anc_cases [OF less.prems(1)] False by blast
    have J0: "0 < J" using anc_le [OF less.prems(1)] assms(3) by linarith
    have x: "c s i J = Some ?x" using J0 less.prems assms by (intro compare) auto
    show ?thesis
    proof (cases "?x \<ge> 0")
      case True
      then have eq: "backtrack (c s) i J = backtrack (c s) i (J div 2)"
        using False x by (subst backtrack.simps) simp
      obtain j where j: "backtrack (c s) i (J div 2) = Some j" "anc i j" "anc j (J div 2)"
        "j = i \<or> cmp (at1 (view s) i) (at1 (view s) j) < 0"
        "\<forall>d. anc d (J div 2) \<longrightarrow> j < d \<longrightarrow> cmp (at1 (view s) d) (at1 (view s) i) \<le> 0"
      proof -
        have "J div 2 < J" "J div 2 \<le> n" using J0 less.prems(2) by linarith+
        then show thesis using less.IH [OF _ J] that by blast
      qed
      have "cmp (at1 (view s) d) (at1 (view s) i) \<le> 0" if "anc d J" "j < d" for d
        using anc_cases [OF that(1)] that(2) j(5) o(3) [OF True] by blast
      then show ?thesis unfolding eq using j(1,2,4) anc_parent [OF j(3)] by blast
    next
      case neg: False
      then have "backtrack (c s) i J = Some J" using False x by (subst backtrack.simps) simp
      moreover have "\<not> J < d" if "anc d J" for d using anc_le [OF that] by simp
      ultimately show ?thesis using neg less.prems(1) by (intro exI [of _ J]) auto
    qed
  qed
qed

lemma at1_swap:
  assumes "0 < l" "l \<le> length v" "0 < r" "r \<le> length v" "0 < x"
  shows "at1 (v[l - 1 := at1 v r, r - 1 := at1 v l]) x = (if x = r then at1 v l else if x = l then at1 v r else at1 v x)"
  using assms by (auto simp: nth_list_update)

lemma shift_up_spec:
  assumes "ok s" "0 < i" "anc i j" "anc j k" "k \<le> n"
  shows "\<exists>s'. shift_up sw i k j s = Some s' \<and> ok s' \<and> mset (view s') = mset (view s) \<and>
    (if j = i then s' = s else
       at1 (view s') k = at1 (view s) i \<and> at1 (view s') (j div 2) = at1 (view s) k \<and>
       (\<forall>d. anc d j \<longrightarrow> d \<noteq> j \<longrightarrow> i \<le> d div 2 \<longrightarrow> at1 (view s') (d div 2) = at1 (view s) d) \<and>
       (\<forall>x>0. x \<noteq> k \<longrightarrow> \<not> (anc x j \<and> i \<le> x \<and> x \<noteq> j) \<longrightarrow> at1 (view s') x = at1 (view s) x))"
  using assms(1,3,4)
proof (induction j arbitrary: s rule: less_induct)
  case (less j)
  show ?case
  proof (cases "j = i")
    case True
    then show ?thesis using less.prems by (subst shift_up.simps) simp
  next
    case False
    let ?p = "j div 2" and ?v = "view s"
    have p: "anc i ?p" using anc_cases [OF less.prems(2)] False by blast
    have ip: "i \<le> ?p" by (rule anc_le [OF p])
    have jk: "j \<le> k" by (rule anc_le [OF less.prems(3)])
    have pk: "anc ?p k" by (rule anc_div [OF less.prems(3)])
    have pos: "0 < ?p" "?p < j" "0 < k" "?p \<noteq> k" using ip assms(2) jk by auto
    have bnd: "?p \<le> n" "k \<le> length ?v" "?p \<le> length ?v"
      using pos jk assms(5) length_view [OF less.prems(1)] by auto
    obtain s1 where s1: "sw s ?p k = Some s1" "ok s1" "view s1 = ?v[?p - 1 := at1 ?v k, k - 1 := at1 ?v ?p]"
      using swap [OF less.prems(1) pos(1) bnd(1) pos(3) assms(5)] by blast
    have at: "at1 (view s1) x = (if x = k then at1 ?v ?p else if x = ?p then at1 ?v k else at1 ?v x)" if "0 < x" for x
      unfolding s1(3) using at1_swap [OF pos(1) bnd(3) pos(3) bnd(2) that] by simp
    have m1: "mset (view s1) = mset ?v"
      unfolding s1(3) using pos bnd by (intro mset_swap) auto
    have step: "shift_up sw i k j s = shift_up sw i k ?p s1"
      using False s1(1) by (subst shift_up.simps) simp
    obtain s' where s': "shift_up sw i k ?p s1 = Some s'" "ok s'" "mset (view s') = mset (view s1)"
      and r: "if ?p = i then s' = s1 else
        at1 (view s') k = at1 (view s1) i \<and> at1 (view s') (?p div 2) = at1 (view s1) k \<and>
        (\<forall>d. anc d ?p \<longrightarrow> d \<noteq> ?p \<longrightarrow> i \<le> d div 2 \<longrightarrow> at1 (view s') (d div 2) = at1 (view s1) d) \<and>
        (\<forall>x>0. x \<noteq> k \<longrightarrow> \<not> (anc x ?p \<and> i \<le> x \<and> x \<noteq> ?p) \<longrightarrow> at1 (view s') x = at1 (view s1) x)"
      using less.IH [OF pos(2) s1(2) p pk] by blast
    have ik: "i \<noteq> k" using ip pos jk by linarith
    have e1: "at1 (view s') k = at1 ?v i"
      using r at [of k] at [of i] pos ik assms(2) by (cases "?p = i") auto
    have e3: "at1 (view s') ?p = at1 ?v k"
      using r at [of ?p] pos by (cases "?p = i") auto
    have e2: "at1 (view s') (d div 2) = at1 ?v d" if "anc d j" "d \<noteq> j" "i \<le> d div 2" for d
    proof -
      have d: "anc d ?p" using anc_cases [OF that(1)] that(2) by blast
      have d0: "0 < d" "d \<noteq> k" "i < d" using anc_le [OF d] pos jk that(3) assms(2) by linarith+
      have np: "?p \<noteq> i" using anc_le [OF d] d0 by linarith
      show ?thesis
      proof (cases "d = ?p")
        case True
        then show ?thesis using r np at [of k] pos by simp
      next
        case False
        then show ?thesis using r np d that(3) at [of d] d0 by auto
      qed
    qed
    have e4: "at1 (view s') x = at1 ?v x" if "0 < x" "x \<noteq> k" "\<not> (anc x j \<and> i \<le> x \<and> x \<noteq> j)" for x
    proof -
      have "x \<noteq> ?p" using that(3) anc_div [OF anc_refl, of j] ip pos by auto
      moreover have "\<not> (anc x ?p \<and> i \<le> x \<and> x \<noteq> ?p)"
      proof
        assume a: "anc x ?p \<and> i \<le> x \<and> x \<noteq> ?p"
        then have "anc x j" "x \<noteq> j" using anc_parent [of x j] anc_le [of x ?p] pos by auto
        with a that(3) show False by blast
      qed
      ultimately show ?thesis using r at [OF that(1)] that by (cases "?p = i") auto
    qed
    show ?thesis using step s' m1 False e1 e2 e3 e4 by auto
  qed
qed

text \<open>Sifting down: the path to a leaf, back up to the place of the element, and the shift.\<close>

lemma sift_heap:
  assumes co: "cmp_order cmp" and i: "0 < i" and h: "heap_from cmp (Suc i) m v"
    and J: "anc j J" "J \<le> m" "m < 2 * J" "big_path cmp i m v J"
    and j: "anc i j" "j = i \<or> cmp (at1 v i) (at1 v j) < 0"
      "\<And>d. anc d J \<Longrightarrow> j < d \<Longrightarrow> cmp (at1 v d) (at1 v i) \<le> 0"
    and w: "at1 w j = at1 v i" "\<And>d. anc d j \<Longrightarrow> i \<le> d div 2 \<Longrightarrow> at1 w (d div 2) = at1 v d"
      "\<And>x. 0 < x \<Longrightarrow> x \<noteq> j \<Longrightarrow> \<not> (anc x j \<and> i \<le> x) \<Longrightarrow> at1 w x = at1 v x"
  shows "heap_from cmp i m w"
  unfolding heap_from_def
proof (intro allI impI)
  fix x assume x: "x \<le> m" "i \<le> x div 2"
  let ?p = "x div 2"
  have px: "0 < ?p" "?p < x" using x(2) i by auto
  note o = cmp_orderD [OF co]
  have hv: "cmp (at1 v y) (at1 v (y div 2)) \<le> 0" if "y \<le> m" "i < y div 2" for y
    using h that unfolding heap_from_def by auto
  have big: "cmp (at1 v x) (at1 v d) \<le> 0" if "anc d J" "d div 2 = ?p" for d
    using J(4) that x unfolding big_path_def by metis
  show "cmp (at1 w x) (at1 w ?p) \<le> 0"
  proof (cases "anc ?p j")
    case True
    show ?thesis
    proof (cases "?p = j")
      case pj: True
      have "\<not> anc x j" using anc_le [of x j] px pj by auto
      then have wx: "at1 w x = at1 v x" using w(3) [of x] px pj by auto
      have "j \<noteq> J" using J(3) x(1) pj by linarith
      then obtain d where d: "anc d J" "d div 2 = j" using anc_child [OF J(1)] by blast
      then have "j < d" using pj px by linarith
      then have "cmp (at1 v d) (at1 v i) \<le> 0" using j(3) d by blast
      then show ?thesis using wx w(1) pj big [OF d(1)] d o(4) by metis
    next
      case False
      then obtain d where d: "anc d j" "d div 2 = ?p" using anc_child [OF True] by blast
      then have wp: "at1 w ?p = at1 v d" using w(2) [OF d(1)] x(2) by simp
      have dJ: "anc d J" using anc_trans [OF d(1) J(1)] .
      have di: "i < d" using d(2) x(2) px by linarith
      show ?thesis
      proof (cases "x = d")
        case xd: True
        show ?thesis
        proof (cases "d = j")
          case True
          then have "cmp (at1 v i) (at1 v j) < 0" using j(2) di by auto
          then show ?thesis using wp xd True w(1) by simp
        next
          case False
          then obtain e where e: "anc e j" "e div 2 = d" using anc_child [OF d(1)] by blast
          then have "at1 w d = at1 v e" using w(2) [OF e(1)] di by simp
          moreover have "e \<le> m" using anc_le [OF e(1)] anc_le [OF J(1)] J(2) by linarith
          then have "cmp (at1 v e) (at1 v d) \<le> 0" using hv [of e] e di by simp
          ultimately show ?thesis using wp xd by simp
        qed
      next
        case False
        then have "\<not> anc x j" using anc_same_parent [of x j d] d px by auto
        moreover from this have "x \<noteq> j" by auto
        ultimately have "at1 w x = at1 v x" using w(3) [of x] px by simp
        then show ?thesis using wp big [OF dJ d(2)] by simp
      qed
    qed
  next
    case False
    then have "\<not> anc x j" using anc_div [of x j] by blast
    moreover have "?p \<noteq> i" using False j(1) by auto
    moreover have "x \<noteq> j" "?p \<noteq> j" using False calculation by auto
    ultimately have "at1 w x = at1 v x" "at1 w ?p = at1 v ?p" using w(3) [of x] w(3) [of ?p] px False by auto
    then show ?thesis using hv [OF x(1)] x(2) \<open>?p \<noteq> i\<close> by simp
  qed
qed

lemma sift_spec:
  assumes co: "cmp_order cmp" and "ok s" "0 < i" "i \<le> m" "m \<le> n" "heap_from cmp (Suc i) m (view s)"
  shows "\<exists>J j s'. sift_leaf (c s) m i = Some J \<and> backtrack (c s) i J = Some j \<and> 0 < j \<and>
    shift_up sw i j j s = Some s' \<and> ok s' \<and> mset (view s') = mset (view s) \<and>
    drop m (view s') = drop m (view s) \<and> heap_from cmp i m (view s')"
proof -
  obtain J where J: "sift_leaf (c s) m i = Some J" "anc i J" "J \<le> m" "m < 2 * J" "big_path cmp i m (view s) J"
    using sift_leaf_spec [OF co assms(2-5)] by blast
  have n: "i \<le> n" "J \<le> n" using assms J by auto
  obtain j where j: "backtrack (c s) i J = Some j" "anc i j" "anc j J"
    "j = i \<or> cmp (at1 (view s) i) (at1 (view s) j) < 0"
    "\<forall>d. anc d J \<longrightarrow> j < d \<longrightarrow> cmp (at1 (view s) d) (at1 (view s) i) \<le> 0"
    using backtrack_spec [OF co assms(2,3) n(1) J(2) n(2)] by blast
  have jm: "j \<le> m" using anc_le [OF j(3)] J(3) by linarith
  then have jn: "j \<le> n" using assms by linarith
  obtain s' where s': "shift_up sw i j j s = Some s'" "ok s'" "mset (view s') = mset (view s)"
    and r: "if j = i then s' = s else
       at1 (view s') j = at1 (view s) i \<and> at1 (view s') (j div 2) = at1 (view s) j \<and>
       (\<forall>d. anc d j \<longrightarrow> d \<noteq> j \<longrightarrow> i \<le> d div 2 \<longrightarrow> at1 (view s') (d div 2) = at1 (view s) d) \<and>
       (\<forall>x>0. x \<noteq> j \<longrightarrow> \<not> (anc x j \<and> i \<le> x \<and> x \<noteq> j) \<longrightarrow> at1 (view s') x = at1 (view s) x)"
    using shift_up_spec [OF assms(2,3) j(2) anc_refl jn] by blast
  have w1: "at1 (view s') j = at1 (view s) i" using r by (cases "j = i") auto
  have w2: "at1 (view s') (d div 2) = at1 (view s) d" if "anc d j" "i \<le> d div 2" for d
  proof -
    have "j \<noteq> i" using anc_le [OF that(1)] that(2) assms(3) by auto
    then show ?thesis using r that by (cases "d = j") auto
  qed
  have w3: "at1 (view s') x = at1 (view s) x" if "0 < x" "x \<noteq> j" "\<not> (anc x j \<and> i \<le> x)" for x
    using r that by (cases "j = i") auto
  have "heap_from cmp i m (view s')"
    using j(5) by (intro sift_heap [OF co assms(3,6) j(3) J(3-5) j(2,4) _ w1 w2 w3]) auto
  moreover have "drop m (view s') = drop m (view s)"
  proof (rule nth_equalityI)
    fix x assume "x < length (drop m (view s'))"
    moreover have "at1 (view s') (Suc (m + x)) = at1 (view s) (Suc (m + x))"
    proof (rule w3)
      show "Suc (m + x) \<noteq> j" using jm by simp
      show "\<not> (anc (Suc (m + x)) j \<and> i \<le> Suc (m + x))" using anc_le [of "Suc (m + x)" j] jm by auto
    qed simp
    ultimately show "drop m (view s') ! x = drop m (view s) ! x"
      using length_view [OF assms(2)] length_view [OF s'(2)] by simp
  qed (simp add: length_view assms s')
  moreover have "0 < j" using anc_le [OF j(2)] assms(3) by linarith
  ultimately show ?thesis using J(1) j(1) s' by blast
qed

lemma heapify_spec:
  assumes "cmp_order cmp" "ok s" "i \<le> n" "heap_from cmp (Suc i) n (view s)"
  shows "\<exists>s'. heapify c sw n i s = Some s' \<and> ok s' \<and> mset (view s') = mset (view s) \<and> heap_from cmp 1 n (view s')"
  using assms(2-)
proof (induction i arbitrary: s)
  case 0
  then show ?case by simp
next
  case (Suc i)
  obtain J j s1 where s1: "sift_leaf (c s) n (Suc i) = Some J" "backtrack (c s) (Suc i) J = Some j"
    "shift_up sw (Suc i) j j s = Some s1" "ok s1" "mset (view s1) = mset (view s)" "heap_from cmp (Suc i) n (view s1)"
    using sift_spec [OF assms(1) Suc.prems(1) _ Suc.prems(2) order_refl Suc.prems(3)] by auto
  then have "heapify_step c sw n (Suc i) s = Some s1" by (simp add: heapify_step_def)
  then show ?case using Suc.IH [OF s1(4) _ s1(6)] Suc.prems(2) s1(5) by auto
qed

lemma heap_root_max:
  assumes "cmp_order cmp" "heap_from cmp 1 m v" "0 < x" "x \<le> m"
  shows "cmp (at1 v x) (at1 v 1) \<le> 0"
  using assms(3,4)
proof (induction x rule: less_induct)
  case (less x)
  note o = cmp_orderD [OF assms(1)]
  show ?case
  proof (cases "x = 1")
    case True
    then show ?thesis using o(1) by simp
  next
    case False
    then have p: "0 < x div 2" "x div 2 < x" "x div 2 \<le> m" using less.prems by linarith+
    then have "cmp (at1 v x) (at1 v (x div 2)) \<le> 0" using assms(2) less.prems unfolding heap_from_def by auto
    moreover have "cmp (at1 v (x div 2)) (at1 v 1) \<le> 0" using less.IH p by blast
    ultimately show ?thesis using o(4) by blast
  qed
qed

lemma heap_empty: "m < 2 * i \<Longrightarrow> heap_from cmp i m v"
  unfolding heap_from_def by auto

text \<open>At the root, going back to nothing is staying at the root.\<close>

lemma backtrack_root_eq:
  assumes "cmp_order cmp" "ok s" "0 < J" "J \<le> n"
  shows "backtrack_root (c s) J = map_option (\<lambda>j. if j = 1 then 0 else j) (backtrack (c s) 1 J)"
  using assms(3,4)
proof (induction J rule: less_induct)
  case (less J)
  let ?x = "cmp (at1 (view s) 1) (at1 (view s) J)"
  have x: "c s 1 J = Some ?x" using less.prems assms(2) by (intro compare) auto
  have r0: "backtrack_root (c s) 0 = Some 0" by (subst backtrack_root.simps) simp
  show ?case
  proof (cases "J = 1")
    case True
    then have "?x = 0" using cmp_orderD(1) [OF assms(1)] by simp
    then show ?thesis using True x r0 by (subst backtrack.simps, subst backtrack_root.simps) simp
  next
    case False
    then have p: "J div 2 < J" "0 < J div 2" "J div 2 \<le> n" using less.prems by linarith+
    show ?thesis using False x less.prems less.IH [OF p]
      by (subst backtrack.simps, subst backtrack_root.simps) auto
  qed
qed

lemma shift_up_root_eq: "0 < j \<Longrightarrow> shift_up_root sw k j s = shift_up sw 1 k j s"
proof (induction j arbitrary: s rule: less_induct)
  case (less j)
  show ?case
  proof (cases "j = 1")
    case True
    then show ?thesis by (subst shift_up_root.simps, subst shift_up.simps) simp
  next
    case False
    then have "j div 2 < j" "0 < j div 2" using less.prems by linarith+
    then have "shift_up_root sw k (j div 2) = shift_up sw 1 k (j div 2)" by (intro ext less.IH)
    then show ?thesis using False less.prems by (subst shift_up_root.simps, subst shift_up.simps) simp
  qed
qed

lemma sort_step_spec:
  assumes co: "cmp_order cmp" and inv: "ok s \<and> sort_inv cmp (Suc i) (view s)" and "0 < i" "Suc i \<le> n"
  shows "\<exists>s'. sort_step c sw (Suc i) s = Some s' \<and> ok s' \<and> sort_inv cmp i (view s') \<and> mset (view s') = mset (view s)"
proof -
  let ?v = "view s"
  have ok: "ok s" and hp: "heap_from cmp 1 (Suc i) ?v" using inv by (auto simp: sort_inv_def)
  have len: "length ?v = n" by (rule length_view [OF ok])
  obtain s1 where s1: "sw s 1 (Suc i) = Some s1" "ok s1" "view s1 = ?v[1 - 1 := at1 ?v (Suc i), Suc i - 1 := at1 ?v 1]"
    using swap [OF ok, of 1 "Suc i"] assms(3,4) by auto
  have at: "at1 (view s1) x = (if x = Suc i then at1 ?v 1 else if x = 1 then at1 ?v (Suc i) else at1 ?v x)" if "0 < x" for x
    unfolding s1(3) using at1_swap [of 1 ?v "Suc i" x] assms(4) len that by simp
  have m1: "mset (view s1) = mset ?v"
    unfolding s1(3) using mset_swap [of i ?v 0] assms(4) len by simp
  have "heap_from cmp (Suc 1) i (view s1)"
    unfolding heap_from_def
  proof (intro allI impI)
    fix x assume x: "x \<le> i" "Suc 1 \<le> x div 2"
    then have "cmp (at1 ?v x) (at1 ?v (x div 2)) \<le> 0" using hp unfolding heap_from_def by simp
    moreover have "at1 (view s1) x = at1 ?v x" "at1 (view s1) (x div 2) = at1 ?v (x div 2)"
      using at [of x] at [of "x div 2"] x by auto
    ultimately show "cmp (at1 (view s1) x) (at1 (view s1) (x div 2)) \<le> 0" by simp
  qed
  then obtain J j s' where s': "sift_leaf (c s1) i 1 = Some J" "backtrack (c s1) 1 J = Some j" "0 < j"
    "shift_up sw 1 j j s1 = Some s'" "ok s'" "mset (view s') = mset (view s1)"
    "drop i (view s') = drop i (view s1)" "heap_from cmp 1 i (view s')"
    using sift_spec [OF co s1(2), of 1 i] assms(3,4) by auto
  have J: "0 < J" "J \<le> n"
    using sift_leaf_spec [OF co s1(2), of 1 i] assms(3,4) s'(1) anc_le [of 1 J] by auto
  have "shift_up_root sw (if j = 1 then 0 else j) (if j = 1 then 0 else j) s1 = Some s'"
  proof (cases "j = 1")
    case True
    then have "s' = s1" using s'(4) by (subst (asm) shift_up.simps) simp
    then show ?thesis using True by (subst shift_up_root.simps) simp
  qed (use s'(3,4) in \<open>simp add: shift_up_root_eq\<close>)
  then have step: "sort_step c sw (Suc i) s = Some s'"
    using s1(1) s'(1,2) backtrack_root_eq [OF co s1(2) J] by (simp add: sort_step_def)
  have len1: "length (view s1) = n" "length (view s') = n" using length_view s1(2) s'(5) by auto
  have d1: "drop i (view s1) = at1 ?v 1 # drop (Suc i) ?v"
  proof -
    have "drop i (view s1) = view s1 ! i # drop (Suc i) (view s1)"
      using assms(4) len1 by (simp add: Cons_nth_drop_Suc)
    moreover have "view s1 ! i = at1 ?v 1" using at [of "Suc i"] by simp
    moreover have "drop (Suc i) (view s1) = drop (Suc i) ?v" unfolding s1(3) by simp
    ultimately show ?thesis by simp
  qed
  have t1: "set (take i (view s')) \<subseteq> set (take (Suc i) ?v)"
  proof -
    have "mset (take i (view s')) = mset (take i (view s1))"
      using s'(6,7) by (metis append_take_drop_id mset_append add_right_imp_eq)
    moreover have "mset (take i (view s1)) + mset (drop i (view s1)) = mset (take (Suc i) ?v) + mset (drop (Suc i) ?v)"
      using m1 by (metis append_take_drop_id mset_append)
    then have "add_mset (at1 ?v 1) (mset (take i (view s1))) + mset (drop (Suc i) ?v) =
        mset (take (Suc i) ?v) + mset (drop (Suc i) ?v)"
      unfolding d1 by simp
    then have "add_mset (at1 ?v 1) (mset (take i (view s1))) = mset (take (Suc i) ?v)" by (rule add_right_imp_eq)
    ultimately have "add_mset (at1 ?v 1) (mset (take i (view s'))) = mset (take (Suc i) ?v)" by simp
    then have "insert (at1 ?v 1) (set (take i (view s'))) = set (take (Suc i) ?v)"
      by (metis set_mset_add_mset_insert set_mset_mset)
    then show ?thesis by blast
  qed
  have max: "cmp x (at1 ?v 1) \<le> 0" if x: "x \<in> set (take (Suc i) ?v)" for x
  proof -
    obtain k where "k < Suc i" "k < length ?v" "x = ?v ! k" using x unfolding in_set_conv_nth by auto
    then show ?thesis using heap_root_max [OF co hp, of "Suc k"] by simp
  qed
  have root: "at1 ?v 1 \<in> set (take (Suc i) ?v)"
    using assms(4) len by (auto simp: in_set_conv_nth intro!: exI [of _ 0])
  have old: "cmp x y \<le> 0" if "x \<in> set (take (Suc i) ?v)" "y \<in> set (drop (Suc i) ?v)" for x y
    using inv that by (simp add: sort_inv_def)
  have "ok s' \<and> sort_inv cmp i (view s')"
    unfolding sort_inv_def s'(7) d1
    using s'(5,8) inv old [OF root] t1 max old by (auto simp: sort_inv_def)
  then show ?thesis using step s'(6) m1 by simp
qed

lemma sort_loop_spec:
  assumes "cmp_order cmp" "ok s \<and> sort_inv cmp i (view s)" "i \<le> n"
  shows "\<exists>s'. sort_loop c sw i s = Some s' \<and> ok s' \<and> sort_inv cmp (min 1 i) (view s') \<and> mset (view s') = mset (view s)"
  using assms(2,3)
proof (induction i arbitrary: s)
  case (Suc i)
  show ?case
  proof (cases "i = 0")
    case False
    obtain s1 where s1: "sort_step c sw (Suc i) s = Some s1" "ok s1 \<and> sort_inv cmp i (view s1)" "mset (view s1) = mset (view s)"
      using sort_step_spec [OF assms(1) Suc.prems(1) _ Suc.prems(2)] False by auto
    then show ?thesis using Suc.IH [OF s1(2)] Suc.prems(2) False by auto
  qed (use Suc.prems in simp)
qed simp

lemma heapsort_spec:
  assumes co: "cmp_order cmp" and "ok s"
  shows "\<exists>s'. Option.bind (heapify c sw n (n div 2) s) (\<lambda>s. sort_loop c sw n s) = Some s' \<and> ok s' \<and>
    mset (view s') = mset (view s) \<and> sorted_wrt (\<lambda>x y. cmp x y \<le> 0) (view s')"
proof -
  have "heap_from cmp (Suc (n div 2)) n (view s)" by (rule heap_empty) presburger
  then obtain s1 where s1: "heapify c sw n (n div 2) s = Some s1" "ok s1" "mset (view s1) = mset (view s)"
    "heap_from cmp 1 n (view s1)" using heapify_spec [OF co assms(2), of "n div 2"] by auto
  then have "ok s1 \<and> sort_inv cmp n (view s1)" using length_view [OF s1(2)] by (simp add: sort_inv_def)
  then obtain s2 where s2: "sort_loop c sw n s1 = Some s2" "ok s2 \<and> sort_inv cmp (min 1 n) (view s2)" "mset (view s2) = mset (view s1)"
    using sort_loop_spec [OF co] by blast
  have "sorted_wrt (\<lambda>x y. cmp x y \<le> 0) (take (min 1 n) (view s2) @ drop (min 1 n) (view s2))"
    unfolding sorted_wrt_append using s2(2) by (cases "view s2"; cases n) (auto simp: sort_inv_def min_def)
  then show ?thesis using s1 s2 by (simp add: sort_inv_def)
qed

end

section \<open>The array in eytzinger order provides the interface\<close>

lemma elem1_node1:
  assumes "length base = n" "n < 2 ^ 30" "0 < l" "l \<le> n"
  shows "elem1 base (inorder_to_eytzinger1 (of_nat l) (of_nat n)) = Some (at1 (inorder base) l)"
    "unat (inorder_to_eytzinger1 (of_nat l) (of_nat n)) = node_of_rank n l"
proof -
  have n: "unat (of_nat n :: u32) = n" using assms(2) by (simp add: unat_of_nat)
  show u: "unat (inorder_to_eytzinger1 (of_nat l) (of_nat n)) = node_of_rank n l"
    using unat_node1 [of "of_nat n" l] n assms by simp
  have "0 < node_of_rank n l" "node_of_rank n l \<le> n" using rank_node_of_rank [OF assms(3,4)] by auto
  moreover have "at1 (inorder base) l = at1 base (node_of_rank n l)"
    using inorder_nth [of base "l - 1"] assms by simp
  ultimately show "elem1 base (inorder_to_eytzinger1 (of_nat l) (of_nat n)) = Some (at1 (inorder base) l)"
    using assms(1) by (simp add: elem1_def u)
qed

lemma inorder_update:
  assumes "length base = n" "n < 2 ^ 30" "0 < l" "l \<le> n"
  shows "inorder (base[node_of_rank n l - 1 := x]) = (inorder base)[l - 1 := x]"
proof (rule nth_equalityI)
  fix r assume "r < length (inorder (base[node_of_rank n l - 1 := x]))"
  then have r: "r < n" using assms(1) by simp
  have "node_of_rank n (Suc r) = node_of_rank n l \<longleftrightarrow> Suc r = l"
    using rank_node_of_rank [of "Suc r" n] rank_node_of_rank [OF assms(3,4)] r by (metis Suc_leI zero_less_Suc)
  moreover have "0 < node_of_rank n l" "node_of_rank n l \<le> n" "0 < node_of_rank n (Suc r)"
    using rank_node_of_rank [OF assms(3,4)] rank_node_of_rank [of "Suc r" n] r by auto
  ultimately have "node_of_rank n (Suc r) - 1 = node_of_rank n l - 1 \<longleftrightarrow> Suc r = l"
    by (metis Suc_pred' Suc_eq_plus1 diff_add_inverse2)
  then show "inorder (base[node_of_rank n l - 1 := x]) ! r = (inorder base)[l - 1 := x] ! r"
    using r assms \<open>0 < node_of_rank n l\<close> \<open>node_of_rank n l \<le> n\<close> inorder_nth [of "base[node_of_rank n l - 1 := x]" r]
      inorder_nth [of base r]
    by (auto simp: nth_list_update)
qed (simp add: assms)

interpretation eyt: swap_array "eytzinger1_do_cmp cmp n" "eytzinger1_do_swap n" inorder cmp n
  "\<lambda>base. length base = n \<and> n < 2 ^ 30" for cmp :: "'e \<Rightarrow> 'e \<Rightarrow> int" and n :: nat
proof
  fix base :: "'e list" and l r
  assume b: "length base = n \<and> n < 2 ^ 30"
  show "length (inorder base) = n" using b by simp
  assume lr: "0 < l" "l \<le> n" "0 < r" "r \<le> n"
  have e: "length base = n" "n < 2 ^ 30" using b by auto
  show "eytzinger1_do_cmp cmp n base l r = Some (cmp (at1 (inorder base) l) (at1 (inorder base) r))"
    using elem1_node1 [OF e lr(1,2)] elem1_node1 [OF e lr(3,4)] by (simp add: eytzinger1_do_cmp_def)
  let ?b = "base[node_of_rank n l - 1 := at1 (inorder base) r, node_of_rank n r - 1 := at1 (inorder base) l]"
  have "inorder ?b = (inorder base)[l - 1 := at1 (inorder base) r, r - 1 := at1 (inorder base) l]"
    using inorder_update [OF e lr(1,2)] inorder_update [of "base[node_of_rank n l - 1 := at1 (inorder base) r]" n r] e lr
    by simp
  then show "\<exists>s'. eytzinger1_do_swap n base l r = Some s' \<and> (length s' = n \<and> n < 2 ^ 30) \<and>
      inorder s' = (inorder base)[l - 1 := at1 (inorder base) r, r - 1 := at1 (inorder base) l]"
    using elem1_node1 [OF e lr(1,2)] elem1_node1 [OF e lr(3,4)] e
    by (intro exI [of _ ?b]) (simp add: eytzinger1_do_swap_def Let_def)
qed

lemma mset_inorder:
  assumes "length base < 2 ^ 30"
  shows "mset (inorder base) = mset base"
proof -
  let ?n = "length base"
  let ?f = "\<lambda>r. node_of_rank ?n (Suc r) - 1"
  have inv: "rank ?n (Suc (?f r)) = Suc r \<and> ?f r < ?n" if "r < ?n" for r
    using rank_node_of_rank [of "Suc r" ?n] that by auto
  have bij: "bij_betw ?f {..<?n} {..<?n}"
  proof (rule bij_betw_byWitness [where f' = "\<lambda>i. rank ?n (Suc i) - 1"])
    show "?f ` {..<?n} \<subseteq> {..<?n}" using inv by auto
    show "(\<lambda>i. rank ?n (Suc i) - 1) ` {..<?n} \<subseteq> {..<?n}"
    proof
      fix y assume "y \<in> (\<lambda>i. rank ?n (Suc i) - 1) ` {..<?n}"
      then obtain i where i: "i < ?n" "y = rank ?n (Suc i) - 1" by auto
      then show "y \<in> {..<?n}" using rank_range [of "Suc i" ?n] by auto
    qed
    show "\<forall>r \<in> {..<?n}. rank ?n (Suc (?f r)) - 1 = r" using inv by simp
    show "\<forall>i \<in> {..<?n}. ?f (rank ?n (Suc i) - 1) = i"
      using rank_range [of "Suc _" ?n] node_of_rank_rank [of "Suc _" ?n] by simp
  qed
  have "mset (inorder base) = image_mset (\<lambda>r. base ! ?f r) (mset [0..<?n])"
    unfolding mset_map [symmetric] by (rule arg_cong [of _ _ mset], rule nth_equalityI)
      (simp_all add: inorder_nth [OF assms])
  also have "\<dots> = image_mset ((!) base) (image_mset ?f (mset_set {..<?n}))"
    by (simp add: image_mset.compositionality comp_def lessThan_atLeast0)
  also have "image_mset ?f (mset_set {..<?n}) = mset_set {..<?n}"
    using bij by (metis bij_betw_def image_mset_mset_set)
  also have "image_mset ((!) base) (mset_set {..<?n}) = mset base"
    by (metis map_nth mset_map mset_upt atLeast0LessThan)
  finally show ?thesis .
qed

section \<open>Properties\<close>

lemma eytzinger0_sort_spec:
  assumes "cmp_order cmp_func" "length base < 2 ^ 30"
  shows "\<exists>base'. eytzinger0_sort base (length base) cmp_func = Some base' \<and> mset base' = mset base \<and>
                 sorted_wrt (\<lambda>x y. cmp_func x y \<le> 0) (inorder base')"
proof -
  obtain b where b: "Option.bind (heapify (eytzinger1_do_cmp cmp_func (length base)) (eytzinger1_do_swap (length base))
      (length base) (length base div 2) base)
      (\<lambda>s. sort_loop (eytzinger1_do_cmp cmp_func (length base)) (eytzinger1_do_swap (length base)) (length base) s) = Some b"
    "length b = length base" "mset (inorder b) = mset (inorder base)" "sorted_wrt (\<lambda>x y. cmp_func x y \<le> 0) (inorder b)"
    using eyt.heapsort_spec [OF assms(1), of base "length base"] assms(2) by auto
  moreover have "mset b = mset base" using b(2,3) mset_inorder assms(2) by metis
  ultimately show ?thesis
    by (simp add: eytzinger0_sort_def eytzinger0_sort_r_def eytzinger1_sort_r_def Let_def)
qed

text \<open>C8. For fewer than \<open>2 ^ 30\<close> elements and a comparison function of a total preorder,
  \<open>eytzinger0_sort\<close> ends without an access outside the array and permutes it such that its elements in
  tree order are sorted, which is what the searches require.\<close>

theorem eytzinger0_sort_sorts:
  assumes "cmp_order cmp_func" "length base < 2 ^ 30"
  shows "\<exists>base'. eytzinger0_sort base (length base) cmp_func = Some base' \<and> mset base' = mset base \<and>
                 sorted_wrt (\<lambda>x y. cmp_func x y \<le> 0) (inorder base')"
  by (rule eytzinger0_sort_spec [OF assms])

theorem eytzinger0_sort_sorts_witness:
  "\<exists>base'. eytzinger0_sort [3, 1, 2, 5, 4 :: int] 5 (\<lambda>x y. x - y) = Some base' \<and>
           mset base' = mset [3, 1, 2, 5, 4] \<and> sorted_wrt (\<lambda>x y. x - y \<le> 0) (inorder base')"
proof -
  have c: "cmp_order (\<lambda>x y :: int. x - y)" unfolding cmp_order_def by (simp add: sgn_if)
  have l: "length [3, 1, 2, 5, 4 :: int] = 5" by simp
  have "length [3, 1, 2, 5, 4 :: int] < 2 ^ 30" unfolding l by simp
  then show ?thesis using eytzinger0_sort_sorts [OF c, of "[3, 1, 2, 5, 4]"] unfolding l by blast
qed

section \<open>Swapping two elements in memory\<close>

text \<open>The default swap routines work on the bytes of the two elements, from the last chunk down to the first;
  memory is one list of bytes and \<open>a\<close>, \<open>b\<close> are the addresses of the elements. The size is a positive
  multiple of the chunk, which for the word variants \<open>is_aligned\<close> has checked; a \<open>size\<close> of zero would run
  below the start and is \<open>None\<close>.\<close>

definition is_aligned :: "u64 \<Rightarrow> u64 \<Rightarrow> u8 \<Rightarrow> bool" where
  "is_aligned base sz align = ((ucast sz OR ucast base) AND (align - 1) = (0 :: u8))"

fun swap_chunks :: "nat \<Rightarrow> u8 list \<Rightarrow> nat \<Rightarrow> nat \<Rightarrow> nat \<Rightarrow> u8 list option" where
  "swap_chunks w m a b n =
     (if w = 0 \<or> n < w then None else
      let n = n - w in
      Option.bind (mem_read m (a + n) w) (\<lambda>t.
      Option.bind (mem_read m (b + n) w) (\<lambda>u.
      Option.bind (mem_write m (a + n) u) (\<lambda>m.
      Option.bind (mem_write m (b + n) t) (\<lambda>m.
      if n = 0 then Some m else swap_chunks w m a b n)))))"

declare swap_chunks.simps [simp del]

definition swap_words_32 :: "u8 list \<Rightarrow> nat \<Rightarrow> nat \<Rightarrow> nat \<Rightarrow> u8 list option" where
  "swap_words_32 m a b n = swap_chunks 4 m a b n"

definition swap_words_64 :: "u8 list \<Rightarrow> nat \<Rightarrow> nat \<Rightarrow> nat \<Rightarrow> u8 list option" where
  "swap_words_64 m a b n = swap_chunks 8 m a b n"

definition swap_bytes :: "u8 list \<Rightarrow> nat \<Rightarrow> nat \<Rightarrow> nat \<Rightarrow> u8 list option" where
  "swap_bytes m a b n = swap_chunks 1 m a b n"

text \<open>The choice \<^verbatim>\<open>eytzinger1_sort_r\<close> makes when the caller gives no swap function.\<close>

definition default_swap :: "u64 \<Rightarrow> u64 \<Rightarrow> u8 list \<Rightarrow> nat \<Rightarrow> nat \<Rightarrow> nat \<Rightarrow> u8 list option" where
  "default_swap base1 sz =
     (if is_aligned base1 sz 8 then swap_words_64
      else if is_aligned base1 sz 4 then swap_words_32
      else swap_bytes)"

text \<open>The memory with the bytes from \<open>lo\<close> on, below \<open>n\<close>, of the two elements exchanged.\<close>

definition swapped :: "u8 list \<Rightarrow> nat \<Rightarrow> nat \<Rightarrow> nat \<Rightarrow> u8 list" where
  "swapped m a b n = map (\<lambda>i. if a \<le> i \<and> i < a + n then m ! (b + (i - a))
                              else if b \<le> i \<and> i < b + n then m ! (a + (i - b)) else m ! i) [0..<length m]"

lemma mem_write_Some: "off + length bs \<le> length m \<Longrightarrow> \<exists>m'. mem_write m off bs = Some m' \<and> length m' = length m \<and>
  (\<forall>i<length m. m' ! i = (if off \<le> i \<and> i < off + length bs then bs ! (i - off) else m ! i))"
  by (auto simp: mem_write_def nth_append)

lemma swap_chunks_spec:
  assumes "0 < w" "0 < q" "n = q * w" "a + n \<le> length m" "b + n \<le> length m" "a + n \<le> b \<or> b + n \<le> a"
  shows "swap_chunks w m a b n = Some (swapped m a b n)"
  using assms(2-)
proof (induction q arbitrary: n m)
  case (Suc q)
  let ?n = "q * w"
  have n: "n = ?n + w" using Suc.prems(2) by simp
  define t where "t = take w (drop (a + ?n) m)"
  define u where "u = take w (drop (b + ?n) m)"
  have l: "length t = w" "length u = w" using Suc.prems n by (simp_all add: t_def u_def)
  have t: "t ! i = m ! (a + ?n + i)" "u ! i = m ! (b + ?n + i)" if "i < w" for i
    using that Suc.prems n by (simp_all add: t_def u_def)
  obtain m1 where m1: "mem_write m (a + ?n) u = Some m1" "length m1 = length m"
    "\<And>i. i < length m \<Longrightarrow> m1 ! i = (if a + ?n \<le> i \<and> i < a + ?n + w then u ! (i - (a + ?n)) else m ! i)"
    using mem_write_Some [of "a + ?n" u m] Suc.prems n l by auto
  obtain m2 where m2: "mem_write m1 (b + ?n) t = Some m2" "length m2 = length m"
    "\<And>i. i < length m \<Longrightarrow> m2 ! i = (if b + ?n \<le> i \<and> i < b + ?n + w then t ! (i - (b + ?n)) else m1 ! i)"
    using mem_write_Some [of "b + ?n" t m1] Suc.prems n l m1(2) by auto
  have m2i: "m2 ! i = (if b + ?n \<le> i \<and> i < b + n then m ! (a + (i - b))
      else if a + ?n \<le> i \<and> i < a + n then m ! (b + (i - a)) else m ! i)" if "i < length m" for i
    using m2(3) [OF that] m1(3) [OF that] t n by (auto simp: add.assoc)
  have step: "swap_chunks w m a b n = (if ?n = 0 then Some m2 else swap_chunks w m2 a b ?n)"
    using Suc.prems n assms(1) m1(1) m2(1) t_def u_def
    by (subst swap_chunks.simps) (simp add: mem_read_def Let_def)
  show ?case
  proof (cases "q = 0")
    case True
    have "m2 = swapped m a b n"
      using True n m2(2) Suc.prems(5) by (intro nth_equalityI) (auto simp: swapped_def m2i)
    then show ?thesis using step True by simp
  next
    case False
    then have "swap_chunks w m2 a b ?n = Some (swapped m2 a b ?n)"
      using Suc.prems n m2(2) by (intro Suc.IH) auto
    moreover have "swapped m2 a b ?n = swapped m a b n"
    proof (rule nth_equalityI)
      have lo: "m2 ! (a + k) = m ! (a + k)" "m2 ! (b + k) = m ! (b + k)" if "k < ?n" for k
        using m2i [of "a + k"] m2i [of "b + k"] that Suc.prems(3-5) n by auto
      fix i assume "i < length (swapped m2 a b ?n)"
      then have i: "i < length m" by (simp add: swapped_def m2)
      consider "a \<le> i \<and> i < a + ?n" | "b \<le> i \<and> i < b + ?n"
        | "\<not> (a \<le> i \<and> i < a + ?n)" "\<not> (b \<le> i \<and> i < b + ?n)" by blast
      then show "swapped m2 a b ?n ! i = swapped m a b n ! i"
      proof cases
        case 1
        then have "i - a < ?n" by linarith
        then show ?thesis using 1 i m2(2) n lo(2) [of "i - a"] by (simp add: swapped_def)
      next
        case 2
        then have "i - b < ?n" by linarith
        then show ?thesis using 2 i m2(2) n lo(1) [of "i - b"] Suc.prems(5) by (auto simp: swapped_def)
      next
        case 3
        then have "swapped m2 a b ?n ! i = m2 ! i" using i m2(2) by (auto simp: swapped_def)
        then show ?thesis using 3 i n m2i [OF i] Suc.prems(5) by (auto simp: swapped_def)
      qed
    qed (simp add: swapped_def m2)
    ultimately show ?thesis using step False assms(1) by simp
  qed
qed simp

lemma is_aligned_dvd:
  assumes "is_aligned base sz (2 ^ k)" "k \<le> 3"
  shows "2 ^ k dvd unat sz"
proof -
  have m: "(2 :: u8) ^ k - 1 = mask k" by (simp add: mask_eq_exp_minus_1)
  have "(ucast sz :: u8) AND mask k = 0"
    using assms(1) unfolding is_aligned_def m bit.conj_disj_distrib2 or_eq_zero_iff by simp
  then have "unat (ucast sz :: u8) mod 2 ^ k = 0" by (metis unat_mask_and unat_0)
  moreover have "(2 :: nat) ^ k dvd 2 ^ 8" using assms(2) by (intro le_imp_power_dvd) simp
  then have "unat (ucast sz :: u8) mod 2 ^ k = unat sz mod 2 ^ k"
    by (simp add: unsigned_ucast_eq take_bit_eq_mod mod_mod_cancel)
  ultimately show ?thesis by (simp add: mod_eq_0_iff_dvd)
qed

text \<open>The swap routine chosen when the caller gives none, by the alignment of the array and the element
  size, exchanges the bytes of two elements that do not overlap and touches no other byte.\<close>

theorem default_swap_exchanges:
  assumes "0 < unat sz" "a + unat sz \<le> length m" "b + unat sz \<le> length m"
    and "a + unat sz \<le> b \<or> b + unat sz \<le> a"
  shows "default_swap base1 sz m a b (unat sz) = Some (swapped m a b (unat sz))"
proof -
  have *: "swap_chunks w m a b (unat sz) = Some (swapped m a b (unat sz))" if w: "0 < w" "w dvd unat sz" for w
  proof -
    obtain q where q: "unat sz = q * w" using w(2) by (auto simp: dvd_def mult.commute)
    then have "0 < q" using assms(1) by (metis gr0I mult_0)
    then show ?thesis using swap_chunks_spec [OF w(1) _ q] assms by blast
  qed
  show ?thesis
    using * [of 8] * [of 4] * [of 1] is_aligned_dvd [of base1 sz 3] is_aligned_dvd [of base1 sz 2]
    by (simp add: default_swap_def swap_words_64_def swap_words_32_def swap_bytes_def)
qed

theorem default_swap_exchanges_witness:
  "default_swap 16 4 [1, 2, 3, 4, 5, 6, 7, 8] 0 4 4 = Some [5, 6, 7, 8, 1, 2, 3, 4]"
  using default_swap_exchanges [of 4 0 "[1, 2, 3, 4, 5, 6, 7, 8]" 4 16] by (simp add: swapped_def upt_rec)

end
