(* ===== verification/Util.thy ===== *)
theory Util
  imports Bch_Prelude "HOL-Library.Multiset"
begin

text \<open>
  Array and memory helpers of \<^verbatim>\<open>fs/util/util.h\<close>: the copy loops over 64-bit words, insertion into and
  removal from an array in place, the gap of a gap buffer, the bubble sort and the little-endian
  bitmaps. Memory is a list; an access outside it is \<open>None\<close>.
\<close>

unbundle bit_operations_syntax

section \<open>Operations\<close>

text \<open>\<^verbatim>\<open>memmove\<close>: the source is read before the destination is written.\<close>

definition memmove :: "'e list \<Rightarrow> nat \<Rightarrow> nat \<Rightarrow> nat \<Rightarrow> 'e list option" where
  "memmove m dst src n = Option.bind (mem_read m src n) (mem_write m dst)"

fun memcpy_u64s_small :: "'e list \<Rightarrow> nat \<Rightarrow> nat \<Rightarrow> nat \<Rightarrow> 'e list option" where
  "memcpy_u64s_small m d s 0 = Some m"
| "memcpy_u64s_small m d s (Suc u64s) =
     (if s < length m \<and> d < length m then memcpy_u64s_small (m[d := m ! s]) (d + 1) (s + 1) u64s else None)"

definition memmove_u64s_down_small :: "'e list \<Rightarrow> nat \<Rightarrow> nat \<Rightarrow> nat \<Rightarrow> 'e list option" where
  "memmove_u64s_down_small m d s u64s = memcpy_u64s_small m d s u64s"

text \<open>The pointers of this loop start past the end and are decremented before each access.\<close>

fun memmove_u64s_up_small :: "'e list \<Rightarrow> nat \<Rightarrow> nat \<Rightarrow> nat \<Rightarrow> 'e list option" where
  "memmove_u64s_up_small m d s 0 = Some m"
| "memmove_u64s_up_small m d s (Suc u64s) =
     (if s + u64s < length m \<and> d + u64s < length m
      then memmove_u64s_up_small (m[d + u64s := m ! (s + u64s)]) d s u64s else None)"

text \<open>The array macros return the array and the updated count; the array has room for the count.\<close>

definition array_insert_item :: "'e list \<Rightarrow> nat \<Rightarrow> nat \<Rightarrow> 'e \<Rightarrow> ('e list \<times> nat) option" where
  "array_insert_item a nr pos x = map_option (\<lambda>a. (a[pos := x], nr + 1)) (memmove a (pos + 1) pos (nr - pos))"

definition array_remove_items :: "'e list \<Rightarrow> nat \<Rightarrow> nat \<Rightarrow> nat \<Rightarrow> ('e list \<times> nat) option" where
  "array_remove_items a nr pos nr_to_remove =
     (let nr = nr - nr_to_remove in
      map_option (\<lambda>a. (a, nr)) (memmove a pos (pos + nr_to_remove) (nr - pos)))"

definition array_remove_item :: "'e list \<Rightarrow> nat \<Rightarrow> nat \<Rightarrow> ('e list \<times> nat) option" where
  "array_remove_item a nr pos = array_remove_items a nr pos 1"

definition raw_move_gap :: "'e list \<Rightarrow> nat \<Rightarrow> nat \<Rightarrow> nat \<Rightarrow> nat \<Rightarrow> 'e list option" where
  "raw_move_gap a nr sz old_gap new_gap =
     (let gap_end = old_gap + sz - nr in
      if new_gap < old_gap then
        let move = old_gap - new_gap in memmove a (gap_end - move) (old_gap - move) move
      else if new_gap > old_gap then
        let move = new_gap - old_gap in memmove a old_gap gap_end move
      else Some a)"

record 'e gap_buffer =
  gb_data :: "'e list"
  gb_nr :: nat
  gb_size :: nat
  gb_gap :: nat

definition move_gap :: "'e gap_buffer \<Rightarrow> nat \<Rightarrow> 'e gap_buffer option" where
  "move_gap d new_gap =
     (if new_gap > gb_nr d \<or> gb_gap d > gb_nr d then None
      else map_option (\<lambda>a. d\<lparr>gb_data := a, gb_gap := new_gap\<rparr>)
             (raw_move_gap (gb_data d) (gb_nr d) (gb_size d) (gb_gap d) new_gap))"

text \<open>One pass of the bubble sort, and the loop over the passes.\<close>

function bubble_pass :: "('e \<Rightarrow> 'e \<Rightarrow> int) \<Rightarrow> 'e list \<Rightarrow> nat \<Rightarrow> nat \<Rightarrow> bool \<Rightarrow> 'e list \<times> bool" where
  "bubble_pass cmp a i lst swapped =
     (if i < lst then
        if cmp (a ! i) (a ! (i + 1)) > 0
        then bubble_pass cmp (a[i := a ! (i + 1), i + 1 := a ! i]) (i + 1) lst True
        else bubble_pass cmp a (i + 1) lst swapped
      else (a, swapped))"
  by pat_completeness auto
termination
  by (relation "measure (\<lambda>(cmp, a, i, lst, swapped). lst - i)") auto

fun bubble_loop :: "('e \<Rightarrow> 'e \<Rightarrow> int) \<Rightarrow> 'e list \<Rightarrow> nat \<Rightarrow> bool \<Rightarrow> 'e list" where
  "bubble_loop cmp a 0 swapped = a"
| "bubble_loop cmp a (Suc lst) swapped =
     (if swapped then let (a, swapped) = bubble_pass cmp a 0 (Suc lst) False in bubble_loop cmp a lst swapped
      else a)"

definition bubble_sort :: "('e \<Rightarrow> 'e \<Rightarrow> int) \<Rightarrow> 'e list \<Rightarrow> 'e list" where
  "bubble_sort cmp a = bubble_loop cmp a (length a - 1) True"

definition set_bit_le64 :: "nat \<Rightarrow> u64 list \<Rightarrow> u64 list option" where
  "set_bit_le64 b addr =
     (if b div 64 < length addr then Some (addr[b div 64 := addr ! (b div 64) OR push_bit (b mod 64) 1]) else None)"

definition clear_bit_le64 :: "nat \<Rightarrow> u64 list \<Rightarrow> u64 list option" where
  "clear_bit_le64 b addr =
     (if b div 64 < length addr then Some (addr[b div 64 := addr ! (b div 64) AND NOT (push_bit (b mod 64) 1)]) else None)"

definition test_bit_le64 :: "nat \<Rightarrow> u64 list \<Rightarrow> bool option" where
  "test_bit_le64 b addr =
     (if b div 64 < length addr then Some (addr ! (b div 64) AND push_bit (b mod 64) 1 \<noteq> 0) else None)"

definition test_and_set_bit_le64 :: "nat \<Rightarrow> u64 list \<Rightarrow> (bool \<times> u64 list) option" where
  "test_and_set_bit_le64 b addr =
     Option.bind (test_bit_le64 b addr) (\<lambda>ret. map_option (\<lambda>a. (ret, a)) (set_bit_le64 b addr))"

declare bubble_pass.simps [simp del]

section \<open>Copies\<close>

lemma memmove_Some:
  "src + n \<le> length m \<Longrightarrow> dst + n \<le> length m \<Longrightarrow>
   memmove m dst src n = Some (take dst m @ take n (drop src m) @ drop (dst + n) m)"
  by (simp add: memmove_def mem_read_def mem_write_def)

lemma memcpy_small_spec:
  "d \<le> s \<Longrightarrow> s + n \<le> length m \<Longrightarrow> memcpy_u64s_small m d s n = Some (take d m @ take n (drop s m) @ drop (d + n) m)"
proof (induction n arbitrary: m d s)
  case (Suc n)
  have "memcpy_u64s_small m d s (Suc n) = memcpy_u64s_small (m[d := m ! s]) (d + 1) (s + 1) n"
    using Suc.prems by simp
  also have "\<dots> = Some (take (d + 1) (m[d := m ! s]) @ take n (drop (s + 1) (m[d := m ! s])) @ drop (d + 1 + n) (m[d := m ! s]))"
    using Suc.prems by (intro Suc.IH) auto
  also have "\<dots> = Some (take d m @ take (Suc n) (drop s m) @ drop (d + Suc n) m)"
  proof -
    have "take (d + 1) (m[d := m ! s]) = take d m @ [m ! s]"
      using Suc.prems by (simp add: take_Suc_conv_app_nth)
    moreover have "take (Suc n) (drop s m) = m ! s # take n (drop (s + 1) m)"
      using Suc.prems by (simp add: Cons_nth_drop_Suc [symmetric])
    ultimately show ?thesis using Suc.prems by simp
  qed
  finally show ?case .
qed simp

lemma memmove_up_small_spec:
  "s \<le> d \<Longrightarrow> d + n \<le> length m \<Longrightarrow> memmove_u64s_up_small m d s n = Some (take d m @ take n (drop s m) @ drop (d + n) m)"
proof (induction n arbitrary: m)
  case (Suc n)
  let ?m = "m[d + n := m ! (s + n)]"
  have "memmove_u64s_up_small m d s (Suc n) = memmove_u64s_up_small ?m d s n"
    using Suc.prems by simp
  also have "\<dots> = Some (take d ?m @ take n (drop s ?m) @ drop (d + n) ?m)"
    using Suc.prems by (intro Suc.IH) auto
  also have "\<dots> = Some (take d m @ take (Suc n) (drop s m) @ drop (d + Suc n) m)"
  proof -
    have "take (Suc n) (drop s m) = take n (drop s m) @ [m ! (s + n)]"
      using Suc.prems by (simp add: take_Suc_conv_app_nth)
    moreover have "drop (d + n) ?m = m ! (s + n) # drop (d + Suc n) m"
      using Suc.prems by (simp add: Cons_nth_drop_Suc [symmetric])
    moreover have "take n (drop s ?m) = take n (drop s m)"
      using Suc.prems by (intro nth_equalityI) auto
    ultimately show ?thesis by simp
  qed
  finally show ?case .
qed simp

text \<open>The open-coded word copies agree with \<^verbatim>\<open>memmove\<close> whenever the ranges overlap in the direction
  their name allows: downwards for a destination not above the source, upwards for one not below.\<close>

theorem small_copies_are_memmove:
  assumes "d \<le> s" "s + n \<le> length m"
  shows "memmove_u64s_down_small m d s n = memmove m d s n \<and> memmove_u64s_up_small m s d n = memmove m s d n"
  using assms by (simp add: memmove_u64s_down_small_def memcpy_small_spec memmove_up_small_spec memmove_Some)

theorem small_copies_are_memmove_witness:
  "memmove_u64s_down_small [1, 2, 3, 4 :: u64] 0 1 3 = memmove [1, 2, 3, 4] 0 1 3 \<and>
   memmove_u64s_up_small [1, 2, 3, 4 :: u64] 1 0 3 = memmove [1, 2, 3, 4] 1 0 3"
  using small_copies_are_memmove [of 0 1 3 "[1, 2, 3, 4 :: u64]"] by simp

section \<open>Arrays\<close>

text \<open>The valid part of an array is its first \<open>nr\<close> elements.\<close>

lemma array_insert_item_spec:
  assumes "pos \<le> nr" "nr < length a"
  shows "\<exists>a'. array_insert_item a nr pos x = Some (a', nr + 1) \<and> length a' = length a \<and>
    take (nr + 1) a' = take pos a @ x # drop pos (take nr a) \<and> drop (nr + 1) a' = drop (nr + 1) a"
proof -
  let ?b = "take (pos + 1) a @ take (nr - pos) (drop pos a) @ drop (pos + 1 + (nr - pos)) a"
  have "memmove a (pos + 1) pos (nr - pos) = Some ?b" using assms by (intro memmove_Some) auto
  moreover have "?b[pos := x] = take pos a @ x # take (nr - pos) (drop pos a) @ drop (nr + 1) a"
    using assms by (simp add: take_Suc_conv_app_nth list_update_append)
  ultimately show ?thesis using assms by (simp add: array_insert_item_def drop_take Suc_diff_le)
qed

lemma array_remove_items_spec:
  assumes "pos + k \<le> nr" "nr \<le> length a"
  shows "\<exists>a'. array_remove_items a nr pos k = Some (a', nr - k) \<and> length a' = length a \<and>
    take (nr - k) a' = take pos a @ drop (pos + k) (take nr a)"
proof -
  have "memmove a pos (pos + k) (nr - k - pos) =
    Some (take pos a @ take (nr - k - pos) (drop (pos + k) a) @ drop (pos + (nr - k - pos)) a)"
    using assms by (intro memmove_Some) auto
  then show ?thesis using assms by (simp add: array_remove_items_def drop_take Let_def add.commute)
qed

lemma array_remove_item_spec:
  assumes "pos < nr" "nr \<le> length a"
  shows "\<exists>a'. array_remove_item a nr pos = Some (a', nr - 1) \<and> length a' = length a \<and>
    take (nr - 1) a' = take pos a @ drop (pos + 1) (take nr a)"
  using array_remove_items_spec [of pos 1 nr a] assms by (simp add: array_remove_item_def)

section \<open>Gap buffers\<close>

definition gb_wf :: "'e gap_buffer \<Rightarrow> bool" where
  "gb_wf d \<longleftrightarrow> length (gb_data d) = gb_size d \<and> gb_nr d \<le> gb_size d \<and> gb_gap d \<le> gb_nr d"

text \<open>What a gap buffer holds: the elements before the gap and those behind it.\<close>

definition gb_contents :: "'e gap_buffer \<Rightarrow> 'e list" where
  "gb_contents d = take (gb_gap d) (gb_data d) @ drop (gb_gap d + gb_size d - gb_nr d) (gb_data d)"

lemma gb_contents_length: "gb_wf d \<Longrightarrow> length (gb_contents d) = gb_nr d"
  by (simp add: gb_wf_def gb_contents_def)

lemma raw_move_gap_spec:
  assumes "length a = sz" "nr \<le> sz" "old \<le> nr" "new \<le> nr"
  shows "\<exists>a'. raw_move_gap a nr sz old new = Some a' \<and> length a' = sz \<and>
    take new a' @ drop (new + sz - nr) a' = take old a @ drop (old + sz - nr) a"
proof -
  define g where "g = sz - nr"
  have e: "old + sz - nr = old + g" "new + sz - nr = new + g" using assms by (simp_all add: g_def)
  have g: "sz = nr + g" using assms by (simp add: g_def)
  consider "new < old" | "new = old" | "old < new" by linarith
  then show ?thesis
  proof cases
    case 1
    then have "raw_move_gap a nr sz old new = Some (take (new + g) a @ take (old - new) (drop new a) @ drop (old + g) a)"
      using memmove_Some [of new "old - new" a "new + g"] assms g by (simp add: raw_move_gap_def e add.commute)
    moreover have "take new a @ take (old - new) (drop new a) = take old a"
      using 1 by (simp add: take_add [symmetric])
    ultimately show ?thesis using 1 assms g by (simp add: e)
  next
    case 2
    then show ?thesis using assms by (simp add: raw_move_gap_def)
  next
    case 3
    then have "raw_move_gap a nr sz old new = Some (take old a @ take (new - old) (drop (old + g) a) @ drop new a)"
      using memmove_Some [of "old + g" "new - old" a old] assms g by (simp add: raw_move_gap_def e)
    moreover have "take (new - old) (drop (old + g) a) @ drop (new + g) a = drop (old + g) a"
      using 3 append_take_drop_id [of "new - old" "drop (old + g) a"] by (simp add: add.commute)
    ultimately show ?thesis using 3 assms g by (simp add: e add.commute)
  qed
qed

text \<open>C32. Moving the gap of a well-formed gap buffer within its contents accesses only the buffer, puts
  the gap where asked and keeps the contents in order.\<close>

theorem move_gap_keeps_contents:
  assumes "gb_wf d" "new_gap \<le> gb_nr d"
  shows "\<exists>d'. move_gap d new_gap = Some d' \<and> gb_wf d' \<and> gb_gap d' = new_gap \<and> gb_nr d' = gb_nr d \<and>
    gb_contents d' = gb_contents d"
  using raw_move_gap_spec [of "gb_data d" "gb_size d" "gb_nr d" "gb_gap d" new_gap] assms
  by (auto simp: move_gap_def gb_wf_def gb_contents_def)

theorem move_gap_keeps_contents_witness:
  "let d = \<lparr>gb_data = [1, 2, 0, 0, 3 :: nat], gb_nr = 3, gb_size = 5, gb_gap = 2\<rparr> in
   \<exists>d'. move_gap d 0 = Some d' \<and> gb_wf d' \<and> gb_gap d' = 0 \<and> gb_nr d' = gb_nr d \<and>
     gb_contents d' = gb_contents d"
  using move_gap_keeps_contents [of "\<lparr>gb_data = [1, 2, 0, 0, 3 :: nat], gb_nr = 3, gb_size = 5, gb_gap = 2\<rparr>" 0]
  by (simp add: gb_wf_def)

section \<open>Bubble sort\<close>

lemma nth_swap_adjacent:
  "i + 1 < length a \<Longrightarrow> a[i := a ! (i + 1), i + 1 := a ! i] ! k =
     (if k = i then a ! (i + 1) else if k = i + 1 then a ! i else a ! k)"
  by (auto simp: nth_list_update)

lemma bubble_pass_spec:
  assumes "cmp_order cmp" "lst < length a" "i \<le> lst" "\<forall>k<i. cmp (a ! k) (a ! i) \<le> 0"
    "bubble_pass cmp a i lst sw = (a', sw')"
  shows "mset a' = mset a \<and> length a' = length a \<and> (\<forall>k\<le>lst. cmp (a' ! k) (a' ! lst) \<le> 0) \<and>
    (\<forall>k>lst. a' ! k = a ! k) \<and> mset (take (lst + 1) a') = mset (take (lst + 1) a) \<and>
    (\<not> sw' \<longrightarrow> \<not> sw \<and> a' = a \<and> (\<forall>k. i \<le> k \<and> k < lst \<longrightarrow> cmp (a ! k) (a ! (k + 1)) \<le> 0))"
  using assms
proof (induction cmp a i lst sw rule: bubble_pass.induct)
  case (1 cmp a i lst sw)
  note o = cmp_orderD [OF 1(3)]
  show ?case
  proof (cases "i < lst")
    case False
    then have "i = lst" "a' = a" "sw' = sw" using 1(5-) by (simp_all add: bubble_pass.simps)
    then show ?thesis using 1(6) o(1) by (auto simp: le_less)
  next
    case True
    let ?b = "a[i := a ! (i + 1), i + 1 := a ! i]"
    note n = nth_swap_adjacent [of i a]
    show ?thesis
    proof (cases "cmp (a ! i) (a ! (i + 1)) > 0")
      case gt: True
      have le: "\<forall>k<i + 1. cmp (?b ! k) (?b ! (i + 1)) \<le> 0"
        using 1(4,6) True gt o(3) [of "a ! i" "a ! (i + 1)"] by (auto simp: n less_Suc_eq)
      have p: "bubble_pass cmp ?b (i + 1) lst True = (a', sw')"
        using 1(7) True gt by (simp add: bubble_pass.simps [of cmp a i lst sw])
      have m: "mset ?b = mset a" using mset_swap [of "i + 1" a i] 1(4) True by simp
      have "take (lst + 1) ?b = (take (lst + 1) a)[i := take (lst + 1) a ! (i + 1), i + 1 := take (lst + 1) a ! i]"
        using True by (simp add: take_update_swap)
      then have mt: "mset (take (lst + 1) ?b) = mset (take (lst + 1) a)"
        using mset_swap [of "i + 1" "take (lst + 1) a" i] 1(4) True by simp
      have "\<forall>k>lst. ?b ! k = a ! k" using True 1(4) by (simp add: n)
      moreover have "lst < length ?b" "i + 1 \<le> lst" using 1(4) True by simp_all
      ultimately show ?thesis using 1(1) [OF True gt 1(3) _ _ le p] m mt by simp
    next
      case ngt: False
      have le: "\<forall>k<i + 1. cmp (a ! k) (a ! (i + 1)) \<le> 0"
        using 1(6) ngt o(4) [of _ "a ! i" "a ! (i + 1)"] by (auto simp: less_Suc_eq)
      have p: "bubble_pass cmp a (i + 1) lst sw = (a', sw')"
        using 1(7) True ngt by (simp add: bubble_pass.simps [of cmp a i lst sw])
      have "cmp (a ! i) (a ! (i + 1)) \<le> 0" using ngt by simp
      then have "\<forall>k. i + 1 \<le> k \<and> k < lst \<longrightarrow> cmp (a ! k) (a ! (k + 1)) \<le> 0 \<Longrightarrow>
        \<forall>k. i \<le> k \<and> k < lst \<longrightarrow> cmp (a ! k) (a ! (k + 1)) \<le> 0"
        by (metis Suc_eq_plus1 Suc_leI le_neq_implies_less)
      moreover have "i + 1 \<le> lst" using True by simp
      ultimately show ?thesis using 1(2) [OF True ngt 1(3) 1(4) _ le p] by blast
    qed
  qed
qed

lemma bubble_loop_spec:
  assumes "cmp_order cmp" "lst < length a" "\<forall>j k. j < k \<and> lst < k \<and> k < length a \<longrightarrow> cmp (a ! j) (a ! k) \<le> 0"
    "\<not> sw \<Longrightarrow> \<forall>k. k + 1 < length a \<longrightarrow> cmp (a ! k) (a ! (k + 1)) \<le> 0"
  shows "mset (bubble_loop cmp a lst sw) = mset a \<and> sorted_wrt (\<lambda>x y. cmp x y \<le> 0) (bubble_loop cmp a lst sw)"
  using assms
proof (induction cmp a lst sw rule: bubble_loop.induct)
  case (1 cmp a sw)
  then show ?case by (auto simp: sorted_wrt_iff_nth_less)
next
  case (2 cmp a lst sw)
  have tr: "transp (\<lambda>x y. cmp x y \<le> 0)" using cmp_orderD(4) [OF 2(2)] by (intro transpI) blast
  show ?case
  proof (cases sw)
    case False
    then show ?thesis using 2(5) tr by (simp add: sorted_wrt_iff_nth_Suc_transp)
  next
    case True
    obtain a' sw' where p: "bubble_pass cmp a 0 (Suc lst) False = (a', sw')" by fastforce
    have b: "mset a' = mset a" "length a' = length a" "\<And>k. k \<le> Suc lst \<Longrightarrow> cmp (a' ! k) (a' ! Suc lst) \<le> 0"
      "\<And>k. k > Suc lst \<Longrightarrow> a' ! k = a ! k" "mset (take (Suc lst + 1) a') = mset (take (Suc lst + 1) a)"
      "\<not> sw' \<Longrightarrow> a' = a \<and> (\<forall>k<Suc lst. cmp (a ! k) (a ! (k + 1)) \<le> 0)"
      using bubble_pass_spec [OF 2(2,3) _ _ p] by auto
    have inv: "cmp (a' ! j) (a' ! k) \<le> 0" if "j < k" "lst < k" "k < length a'" for j k
    proof (cases "k = Suc lst \<or> Suc lst < j")
      case True
      then show ?thesis using b(3) [of j] b(4) that b(2) 2(4) by auto
    next
      case False
      then have jk: "j \<le> Suc lst" "Suc lst < k" using that by auto
      have "a' ! j \<in> set (take (Suc lst + 1) a')" using jk that nth_mem [of j "take (Suc lst + 1) a'"] by simp
      then have "a' ! j \<in> set (take (Suc lst + 1) a)" by (metis b(5) set_mset_mset)
      then obtain j' where "a' ! j = a ! j'" "j' < Suc lst + 1"
        by (metis in_set_conv_nth length_take min_less_iff_conj nth_take)
      then show ?thesis using 2(4) jk b(2,4) that by auto
    qed
    have "\<forall>k. k + 1 < length a' \<longrightarrow> cmp (a' ! k) (a' ! (k + 1)) \<le> 0" if n: "\<not> sw'"
      using b(6) [OF n] 2(4) by (metis less_add_one not_less_eq Suc_eq_plus1)
    then show ?thesis using 2(1) [OF True p [symmetric] refl 2(2)] inv b(1,2) 2(3) p True by simp
  qed
qed

lemma bubble_sort_perm:
  assumes "cmp_order cmp"
  shows "mset (bubble_sort cmp a) = mset a"
proof (cases a)
  case (Cons x xs)
  then have "mset (bubble_sort cmp a) = mset a \<and> sorted_wrt (\<lambda>x y. cmp x y \<le> 0) (bubble_sort cmp a)"
    unfolding bubble_sort_def by (intro bubble_loop_spec assms) auto
  then show ?thesis by blast
qed (simp add: bubble_sort_def)

text \<open>The bubble sort returns a sorted permutation of its input; stopping at the first pass that
  exchanges nothing loses nothing.\<close>

theorem bubble_sort_sorts:
  assumes "cmp_order cmp"
  shows "mset (bubble_sort cmp a) = mset a \<and> sorted_wrt (\<lambda>x y. cmp x y \<le> 0) (bubble_sort cmp a)"
proof (cases a)
  case (Cons x xs)
  then show ?thesis unfolding bubble_sort_def by (intro bubble_loop_spec assms) auto
qed (simp add: bubble_sort_def)

theorem bubble_sort_sorts_witness:
  "mset (bubble_sort cmp_int [3, 1, 2 :: nat]) = mset [3, 1, 2] \<and>
   sorted_wrt (\<lambda>x y. cmp_int x y \<le> 0) (bubble_sort cmp_int [3, 1, 2 :: nat])"
  by (rule bubble_sort_sorts [OF cmp_order_cmp_int])

section \<open>Bitmaps\<close>

lemma test_bit_le64_iff:
  assumes "b div 64 < length addr"
  shows "test_bit_le64 b addr = Some (bit (addr ! (b div 64)) (b mod 64))"
  using assms by (simp add: test_bit_le64_def and_exp_eq_0_iff)

text \<open>The little-endian bitmaps behave as a set of bit numbers: setting or clearing a bit changes
  what a test of that bit returns, and no other.\<close>

theorem bit_le64_set_clear:
  assumes "b div 64 < length addr" "c div 64 < length addr"
  shows "Option.bind (set_bit_le64 b addr) (test_bit_le64 c) = (if c = b then Some True else test_bit_le64 c addr) \<and>
    Option.bind (clear_bit_le64 b addr) (test_bit_le64 c) = (if c = b then Some False else test_bit_le64 c addr) \<and>
    map_option fst (test_and_set_bit_le64 b addr) = test_bit_le64 b addr \<and>
    map_option snd (test_and_set_bit_le64 b addr) = set_bit_le64 b addr"
proof -
  have "c = b \<longleftrightarrow> c div 64 = b div 64 \<and> c mod 64 = b mod 64" by (metis div_mult_mod_eq)
  then show ?thesis using assms
    by (auto simp: set_bit_le64_def clear_bit_le64_def test_bit_le64_iff test_and_set_bit_le64_def bit_simps nth_list_update)
qed

theorem bit_le64_set_clear_witness:
  "Option.bind (set_bit_le64 70 [0, 0]) (test_bit_le64 70) = Some True \<and>
   Option.bind (clear_bit_le64 70 [0, 64]) (test_bit_le64 70) = Some False"
  using bit_le64_set_clear [of 70 "[0, 0]" 70] bit_le64_set_clear [of 70 "[0, 64]" 70] by simp

end
