(* ===== verification/Nocow_Lock.thy ===== *)
theory Nocow_Lock
  imports Bpos Util
begin

text \<open>
  The bucket locks of writes without copying (\<^verbatim>\<open>fs/data/nocow_locking.c\<close>, \<^verbatim>\<open>nocow_locking.h\<close>): a hash table of lock buckets with six slots;
  a slot holds a positive count of update locks or a negative count of copy locks of one disk bucket.  A lock bucket has a list of
  callers that wait (\<^verbatim>\<open>fs/vendor/closure.c\<close>).

  The counts are \<^verbatim>\<open>atomic_t\<close>, words of 32 bits that wrap, and are read as signed numbers.  Every attempt to take a lock, every change of a count
  and every operation on a wait list is one atomic step.  The pointers of a key are given by the positions of the disk buckets they point into,
  \<^verbatim>\<open>None\<close> where no reference to the device is held (\<^verbatim>\<open>cas[i]\<close> is null).  \<^verbatim>\<open>bch2_bkey_nocow_lock\<close> may sleep; it is a program with a program
  counter, and other holders may release their locks, and wake up the waiters, between any two of its steps.
\<close>

unbundle bit_operations_syntax

section \<open>Definitions\<close>

type_synonym s32 = "32 word"

definition NOCOW_LOCK_BUCKET_SIZE :: nat where "NOCOW_LOCK_BUCKET_SIZE = 6"
definition BUCKET_NOCOW_LOCKS_BITS :: nat where "BUCKET_NOCOW_LOCKS_BITS = 12"
definition BUCKET_NOCOW_LOCKS :: nat where "BUCKET_NOCOW_LOCKS = 4096"

text \<open>A closure that can wait, by its address.\<close>

type_synonym closure = nat

record nocow_lock_bucket =
  nl_wait :: "closure list"
  nl_b :: "u64 list"
  nl_l :: "s32 list"

type_synonym bucket_nocow_lock_table = "nocow_lock_bucket list"

definition GOLDEN_RATIO_64 :: u64 where "GOLDEN_RATIO_64 = 0x61C8864680B583EB"

definition hash_64 :: "u64 \<Rightarrow> nat \<Rightarrow> u32" where
  "hash_64 v bits = ucast (drop_bit (64 - bits) (v * GOLDEN_RATIO_64))"

definition bucket_to_u64 :: "bpos \<Rightarrow> u64" where
  "bucket_to_u64 bucket = push_bit 48 (inode bucket) OR (offset bucket AND NOT (push_bit 48 (NOT 0)))"

text \<open>The index of the lock bucket.\<close>

definition bucket_nocow_lock :: "u64 \<Rightarrow> nat" where
  "bucket_nocow_lock dev_bucket = unat (hash_64 dev_bucket BUCKET_NOCOW_LOCKS_BITS AND (word_of_nat BUCKET_NOCOW_LOCKS - 1))"

fun first_index :: "('a \<Rightarrow> bool) \<Rightarrow> 'a list \<Rightarrow> nat option" where
  "first_index P [] = None"
| "first_index P (x # xs) = (if P x then Some 0 else map_option Suc (first_index P xs))"

definition nocow_bucket_empty :: "nocow_lock_bucket \<Rightarrow> bool" where
  "nocow_bucket_empty l \<longleftrightarrow> list_all (\<lambda>v. v = 0) (nl_l l)"

definition bch2_bucket_nocow_is_locked :: "bucket_nocow_lock_table \<Rightarrow> bpos \<Rightarrow> bool" where
  "bch2_bucket_nocow_is_locked t bucket =
    (let dev_bucket = bucket_to_u64 bucket; l = t ! bucket_nocow_lock dev_bucket in
     list_ex (\<lambda>(b, v). b = dev_bucket \<and> v \<noteq> 0) (zip (nl_b l) (nl_l l)))"

definition sign :: "s32 \<Rightarrow> int" where
  "sign v = (if sint v < 0 then - 1 else if sint v > 0 then 1 else 0)"

definition lock_val :: "bool \<Rightarrow> s32" where
  "lock_val flags = (if flags then 1 else - 1)"

section \<open>Wait lists\<close>

text \<open>Waking up takes all closures off the list of a lock bucket.  A closure is on at most one list; its flag \<^verbatim>\<open>CLOSURE_WAITING\<close> says that it is on
  one, and \<^verbatim>\<open>closure_sync\<close> returns when it is not.\<close>

definition closure_wake_up :: "bucket_nocow_lock_table \<Rightarrow> nat \<Rightarrow> bucket_nocow_lock_table" where
  "closure_wake_up t h = t[h := (t ! h)\<lparr>nl_wait := []\<rparr>]"

definition closure_waiting :: "bucket_nocow_lock_table \<Rightarrow> closure \<Rightarrow> bool" where
  "closure_waiting t cl \<longleftrightarrow> list_ex (\<lambda>l. cl \<in> set (nl_wait l)) t"

definition bch2_closure_wait :: "bucket_nocow_lock_table \<Rightarrow> nat \<Rightarrow> closure \<Rightarrow> bucket_nocow_lock_table" where
  "bch2_closure_wait t h cl = (if closure_waiting t cl then t else t[h := (t ! h)\<lparr>nl_wait := cl # nl_wait (t ! h)\<rparr>])"

section \<open>Taking and releasing locks\<close>

text \<open>Releasing changes the count, with the assertion, and then wakes up the waiters of the lock bucket when the count is zero.  The results tell
  whether it is.\<close>

definition nocow_unlock_sub :: "bucket_nocow_lock_table \<Rightarrow> u64 \<Rightarrow> bool \<Rightarrow> (bucket_nocow_lock_table \<times> bool) option" where
  "nocow_unlock_sub t dev_bucket flags =
    (let h = bucket_nocow_lock dev_bucket; l = t ! h in
     case first_index (\<lambda>b. b = dev_bucket) (nl_b l) of
       None \<Rightarrow> None
     | Some i \<Rightarrow>
       let v = nl_l l ! i - lock_val flags in
       if v \<noteq> 0 \<and> sign v \<noteq> sint (lock_val flags) then None
       else Some (t[h := l\<lparr>nl_l := (nl_l l)[i := v]\<rparr>], v = 0))"

definition nocow_unlock_wake :: "bucket_nocow_lock_table \<Rightarrow> u64 \<Rightarrow> bool \<Rightarrow> bucket_nocow_lock_table" where
  "nocow_unlock_wake t dev_bucket zero = (if zero then closure_wake_up t (bucket_nocow_lock dev_bucket) else t)"

definition raw_bch2_bucket_nocow_unlock :: "bucket_nocow_lock_table \<Rightarrow> u64 \<Rightarrow> bool \<Rightarrow> (bucket_nocow_lock_table \<times> bool) option" where
  "raw_bch2_bucket_nocow_unlock t dev_bucket flags =
    map_option (\<lambda>(t, zero). (nocow_unlock_wake t dev_bucket zero, zero)) (nocow_unlock_sub t dev_bucket flags)"

datatype nocow_err = Nocow_trylock_bucket_full | Nocow_trylock_contended

definition take_lock :: "nocow_lock_bucket \<Rightarrow> nat \<Rightarrow> bool \<Rightarrow> nocow_err + nocow_lock_bucket" where
  "take_lock l i flags =
    (let v = nl_l l ! i in
     if v \<noteq> 0 \<and> sign (v + lock_val flags) \<noteq> sign v then Inl Nocow_trylock_contended
     else Inr (l\<lparr>nl_l := (nl_l l)[i := v + lock_val flags]\<rparr>))"

definition raw_bch2_bucket_nocow_trylock :: "nocow_lock_bucket \<Rightarrow> u64 \<Rightarrow> bool \<Rightarrow> nocow_err + nocow_lock_bucket" where
  "raw_bch2_bucket_nocow_trylock l dev_bucket flags =
    (case first_index (\<lambda>b. b = dev_bucket) (nl_b l) of
       Some i \<Rightarrow>
         let v = nl_l l ! i in
         if (if sint (lock_val flags) > 0 then sint v < 0 else sint v > 0) then Inl Nocow_trylock_contended
         else take_lock l i flags
     | None \<Rightarrow>
         (case first_index (\<lambda>v. v = 0) (nl_l l) of
            Some i \<Rightarrow> take_lock (l\<lparr>nl_b := (nl_b l)[i := dev_bucket]\<rparr>) i flags
          | None \<Rightarrow> Inl Nocow_trylock_bucket_full))"

text \<open>The attempt on a lock bucket of the table.\<close>

definition table_trylock :: "bucket_nocow_lock_table \<Rightarrow> nat \<Rightarrow> u64 \<Rightarrow> bool \<Rightarrow> nocow_err + bucket_nocow_lock_table" where
  "table_trylock t h dev_bucket flags =
    (case raw_bch2_bucket_nocow_trylock (t ! h) dev_bucket flags of Inl e \<Rightarrow> Inl e | Inr l \<Rightarrow> Inr (t[h := l]))"

definition bch2_bucket_nocow_trylock :: "bucket_nocow_lock_table \<Rightarrow> bpos \<Rightarrow> bool \<Rightarrow> bool \<times> bucket_nocow_lock_table" where
  "bch2_bucket_nocow_trylock t bucket flags =
    (let dev_bucket = bucket_to_u64 bucket in
     case table_trylock t (bucket_nocow_lock dev_bucket) dev_bucket flags of Inl e \<Rightarrow> (False, t) | Inr t \<Rightarrow> (True, t))"

definition bch2_bucket_nocow_unlock :: "bucket_nocow_lock_table \<Rightarrow> bpos \<Rightarrow> bool \<Rightarrow> bucket_nocow_lock_table option" where
  "bch2_bucket_nocow_unlock t bucket flags = map_option fst (raw_bch2_bucket_nocow_unlock t (bucket_to_u64 bucket) flags)"

fun bch2_bkey_nocow_unlock :: "bucket_nocow_lock_table \<Rightarrow> bpos option list \<Rightarrow> bool \<Rightarrow> bucket_nocow_lock_table option" where
  "bch2_bkey_nocow_unlock t [] flags = Some t"
| "bch2_bkey_nocow_unlock t (None # ptrs) flags = bch2_bkey_nocow_unlock t ptrs flags"
| "bch2_bkey_nocow_unlock t (Some bucket # ptrs) flags =
    Option.bind (bch2_bucket_nocow_unlock t bucket flags) (\<lambda>t. bch2_bkey_nocow_unlock t ptrs flags)"

text \<open>The loop of the attempt, with the pointers before the current one.\<close>

fun trylock_ptrs :: "bucket_nocow_lock_table \<Rightarrow> bpos option list \<Rightarrow> bpos option list \<Rightarrow> bool \<Rightarrow> (bool \<times> bucket_nocow_lock_table) option" where
  "trylock_ptrs t before [] flags = Some (True, t)"
| "trylock_ptrs t before (None # ptrs) flags = trylock_ptrs t (before @ [None]) ptrs flags"
| "trylock_ptrs t before (Some bucket # ptrs) flags =
    (case bch2_bucket_nocow_trylock t bucket flags of
       (True, t) \<Rightarrow> trylock_ptrs t (before @ [Some bucket]) ptrs flags
     | (False, t) \<Rightarrow> map_option (Pair False) (bch2_bkey_nocow_unlock t before flags))"

definition bch2_bkey_nocow_trylock :: "bucket_nocow_lock_table \<Rightarrow> bpos option list \<Rightarrow> bool \<Rightarrow> (bool \<times> bucket_nocow_lock_table) option" where
  "bch2_bkey_nocow_trylock t ptrs flags = trylock_ptrs t [] ptrs flags"

record bucket_to_lock =
  btl_b :: u64
  btl_l :: nat

definition bucket_to_lock_cmp :: "bucket_to_lock \<Rightarrow> bucket_to_lock \<Rightarrow> int" where
  "bucket_to_lock_cmp l r = cmp_int (btl_l l) (btl_l r)"

fun buckets_to_lock :: "bpos option list \<Rightarrow> bucket_to_lock list" where
  "buckets_to_lock [] = []"
| "buckets_to_lock (None # ptrs) = buckets_to_lock ptrs"
| "buckets_to_lock (Some bucket # ptrs) =
    (let b = bucket_to_u64 bucket in \<lparr>btl_b = b, btl_l = bucket_nocow_lock b\<rparr> # buckets_to_lock ptrs)"

definition lock_order :: "bpos option list \<Rightarrow> bucket_to_lock list" where
  "lock_order ptrs = bubble_sort bucket_to_lock_cmp (buckets_to_lock ptrs)"

text \<open>The two conditions that the loop waits for, at its current lock.\<close>

datatype wait_cond = Trylock | Bucket_empty

text \<open>The steps of \<^verbatim>\<open>bch2_bkey_nocow_lock\<close>: the first attempt, the attempt on the lock with the given index, the steps of a wait (a test of the
  condition before it, \<^verbatim>\<open>bch2_closure_wait\<close>, the test of the condition, \<^verbatim>\<open>closure_sync\<close> and the final \<^verbatim>\<open>closure_wake_up\<close>), and the release of
  the locks before the given index, next the one with the second index.\<close>

datatype lock_pc = Start | Take nat | Pretest wait_cond nat | Enqueue wait_cond nat | Test wait_cond nat | Sleep wait_cond nat
  | Wake wait_cond nat "nocow_err option" | Unwind nat nat | Finished

text \<open>The condition of a wait: whether it holds, with the value of \<^verbatim>\<open>ret\<close>, no error when the lock is taken.\<close>

fun test_cond :: "bucket_to_lock \<Rightarrow> bool \<Rightarrow> wait_cond \<Rightarrow> bucket_nocow_lock_table \<Rightarrow> bucket_nocow_lock_table \<times> nocow_err option option" where
  "test_cond b flags Trylock t =
    (case table_trylock t (btl_l b) (btl_b b) flags of
       Inr t' \<Rightarrow> (t', Some None)
     | Inl e \<Rightarrow> (t, if e \<noteq> Nocow_trylock_contended then Some (Some e) else None))"
| "test_cond b flags Bucket_empty t = (t, if nocow_bucket_empty (t ! btl_l b) then Some None else None)"

text \<open>How a wait begins: \<^verbatim>\<open>trans_wait_event\<close> tests the condition once before, \<^verbatim>\<open>__closure_wait_event\<close> does not.\<close>

definition nocow_lock_wait :: "bool \<Rightarrow> wait_cond \<Rightarrow> nat \<Rightarrow> lock_pc" where
  "nocow_lock_wait has_trans c i = (if has_trans then Pretest c i else Enqueue c i)"

text \<open>Where the code goes on when the condition holds.\<close>

fun wait_done :: "wait_cond \<Rightarrow> nat \<Rightarrow> nocow_err option \<Rightarrow> lock_pc option" where
  "wait_done Trylock i None = Some (Take (i + 1))"
| "wait_done Trylock i (Some e) = (if e \<noteq> Nocow_trylock_bucket_full then None else Some (Unwind i 0))"
| "wait_done Bucket_empty i ret = Some (Take 0)"

text \<open>A step of the loop of \<^verbatim>\<open>__closure_wait_event\<close>, with the closure \<open>cl\<close>, on the wait list of the lock bucket of \<open>b\<close>; none when the caller sleeps
  and is not woken.  The loop of \<^verbatim>\<open>trans_wait_event\<close> is the same, with a time-out, the greatest there is, that is taken not to expire.\<close>

fun raw_closure_wait_event ::
    "bucket_to_lock \<Rightarrow> bool \<Rightarrow> closure \<Rightarrow> bucket_nocow_lock_table \<Rightarrow> lock_pc \<Rightarrow> (bucket_nocow_lock_table \<times> lock_pc) option" where
  "raw_closure_wait_event b flags cl t (Enqueue c i) = Some (bch2_closure_wait t (btl_l b) cl, Test c i)"
| "raw_closure_wait_event b flags cl t (Test c i) =
    (case test_cond b flags c t of
       (t, Some ret) \<Rightarrow> Some (t, Wake c i ret)
     | (t, None) \<Rightarrow> Some (t, Sleep c i))"
| "raw_closure_wait_event b flags cl t (Sleep c i) = (if closure_waiting t cl then None else Some (t, Enqueue c i))"
| "raw_closure_wait_event b flags cl t (Wake c i ret) = map_option (Pair (closure_wake_up t (btl_l b))) (wait_done c i ret)"
| "raw_closure_wait_event b flags cl t _ = None"

text \<open>One step of the caller with the closure \<open>cl\<close>; none when it has finished, when it sleeps and is not woken, or when an assertion fails.\<close>

fun bch2_bkey_nocow_lock ::
    "bpos option list \<Rightarrow> bool \<Rightarrow> bool \<Rightarrow> closure \<Rightarrow> bucket_nocow_lock_table \<Rightarrow> lock_pc \<Rightarrow> (bucket_nocow_lock_table \<times> lock_pc) option" where
  "bch2_bkey_nocow_lock ptrs flags has_trans cl t Start =
    map_option (\<lambda>(ok, t). (t, if ok then Finished else Take 0)) (bch2_bkey_nocow_trylock t ptrs flags)"
| "bch2_bkey_nocow_lock ptrs flags has_trans cl t (Take i) =
    (let bs = lock_order ptrs in
     if i \<ge> length bs then Some (t, Finished)
     else case table_trylock t (btl_l (bs ! i)) (btl_b (bs ! i)) flags of
       Inr t \<Rightarrow> Some (t, Take (i + 1))
     | Inl e \<Rightarrow> Some (t, if e = Nocow_trylock_contended then nocow_lock_wait has_trans Trylock i else Unwind i 0))"
| "bch2_bkey_nocow_lock ptrs flags has_trans cl t (Pretest c i) =
    (case test_cond (lock_order ptrs ! i) flags c t of
       (t, Some ret) \<Rightarrow> map_option (Pair t) (wait_done c i ret)
     | (t, None) \<Rightarrow> Some (t, Enqueue c i))"
| "bch2_bkey_nocow_lock ptrs flags has_trans cl t (Enqueue c i) = raw_closure_wait_event (lock_order ptrs ! i) flags cl t (Enqueue c i)"
| "bch2_bkey_nocow_lock ptrs flags has_trans cl t (Test c i) = raw_closure_wait_event (lock_order ptrs ! i) flags cl t (Test c i)"
| "bch2_bkey_nocow_lock ptrs flags has_trans cl t (Sleep c i) = raw_closure_wait_event (lock_order ptrs ! i) flags cl t (Sleep c i)"
| "bch2_bkey_nocow_lock ptrs flags has_trans cl t (Wake c i ret) = raw_closure_wait_event (lock_order ptrs ! i) flags cl t (Wake c i ret)"
| "bch2_bkey_nocow_lock ptrs flags has_trans cl t (Unwind i j) =
    (if j < i then map_option (\<lambda>(t, w). (t, Unwind i (j + 1))) (raw_bch2_bucket_nocow_unlock t (btl_b (lock_order ptrs ! j)) flags)
     else Some (t, nocow_lock_wait has_trans Bucket_empty i))"
| "bch2_bkey_nocow_lock ptrs flags has_trans cl t Finished = None"

definition bch2_fs_nocow_locking_exit :: "bucket_nocow_lock_table \<Rightarrow> unit option" where
  "bch2_fs_nocow_locking_exit t = (if list_all (\<lambda>l. list_all (\<lambda>v. v = 0) (nl_l l)) t then Some () else None)"

text \<open>The file system structure, and the table in it, is allocated zeroed.\<close>

definition nocow_zero :: bucket_nocow_lock_table where
  "nocow_zero = replicate BUCKET_NOCOW_LOCKS
    \<lparr>nl_wait = [], nl_b = replicate NOCOW_LOCK_BUCKET_SIZE 0, nl_l = replicate NOCOW_LOCK_BUCKET_SIZE 0\<rparr>"

section \<open>Lock buckets\<close>

lemma first_index_Some: "first_index P xs = Some i \<Longrightarrow> i < length xs \<and> P (xs ! i) \<and> (\<forall>j<i. \<not> P (xs ! j))"
proof (induction xs arbitrary: i)
  case (Cons x xs)
  show ?case
  proof (cases "P x")
    case False
    then obtain k where "first_index P xs = Some k" "i = Suc k" using Cons.prems by auto
    then show ?thesis using Cons.IH [of k] False by (auto simp: less_Suc_eq_0_disj)
  qed (use Cons.prems in auto)
qed simp

lemma first_index_None: "first_index P xs = None \<longleftrightarrow> (\<forall>x\<in>set xs. \<not> P x)"
  by (induction xs) auto

lemma bucket_nocow_lock_less: "bucket_nocow_lock d < 4096"
proof -
  have "bucket_nocow_lock d = unat (hash_64 d 12 AND mask 12)"
    by (simp add: bucket_nocow_lock_def BUCKET_NOCOW_LOCKS_def BUCKET_NOCOW_LOCKS_BITS_def mask_eq_exp_minus_1)
  also have "\<dots> < 4096" by (simp add: unat_mask_and) 
  finally show ?thesis .
qed

definition bucket_ok :: "nocow_lock_bucket \<Rightarrow> bool" where
  "bucket_ok l \<longleftrightarrow> length (nl_b l) = 6 \<and> length (nl_l l) = 6 \<and> (\<forall>i j. i < j \<and> j < 6 \<and> nl_b l ! i = nl_b l ! j \<longrightarrow> nl_l l ! j = 0)"

text \<open>The count of a disk bucket, positive for update locks and negative for copy locks.\<close>

definition lockval :: "nocow_lock_bucket \<Rightarrow> u64 \<Rightarrow> int" where
  "lockval l d = (case first_index (\<lambda>b. b = d) (nl_b l) of Some i \<Rightarrow> sint (nl_l l ! i) | None \<Rightarrow> 0)"

lemma lockval_slot:
  assumes "bucket_ok l" "i < 6" "nl_l l ! i \<noteq> 0"
  shows "lockval l (nl_b l ! i) = sint (nl_l l ! i)"
proof -
  have "first_index (\<lambda>b. b = nl_b l ! i) (nl_b l) \<noteq> None" using assms(1,2) by (auto simp: first_index_None bucket_ok_def)
  then obtain j where j: "first_index (\<lambda>b. b = nl_b l ! i) (nl_b l) = Some j" by blast
  have "\<not> i < j" using first_index_Some [OF j] by blast
  moreover have "\<not> j < i" using assms first_index_Some [OF j] by (auto simp: bucket_ok_def)
  ultimately show ?thesis using j by (simp add: lockval_def)
qed

lemma lockval_nonzero:
  assumes "bucket_ok l" "lockval l d \<noteq> 0"
  shows "\<exists>i<6. nl_b l ! i = d \<and> nl_l l ! i \<noteq> 0"
proof -
  obtain i where i: "first_index (\<lambda>b. b = d) (nl_b l) = Some i" "sint (nl_l l ! i) \<noteq> 0"
    using assms(2) by (auto simp: lockval_def split: option.splits)
  then show ?thesis using first_index_Some [OF i(1)] assms(1) by (auto simp: bucket_ok_def)
qed

lemma lockval_eqI:
  assumes "bucket_ok l" "bucket_ok l'"
    and "\<And>i. i < 6 \<Longrightarrow> nl_b l ! i = d \<and> nl_l l ! i \<noteq> 0 \<longleftrightarrow> nl_b l' ! i = d \<and> nl_l l' ! i \<noteq> 0"
    and "\<And>i. i < 6 \<Longrightarrow> nl_b l ! i = d \<Longrightarrow> nl_l l ! i \<noteq> 0 \<Longrightarrow> nl_l l' ! i = nl_l l ! i"
  shows "lockval l d = lockval l' d"
proof (cases "\<exists>i<6. nl_b l ! i = d \<and> nl_l l ! i \<noteq> 0")
  case True
  then obtain i where i: "i < 6" "nl_b l ! i = d" "nl_l l ! i \<noteq> 0" by blast
  then show ?thesis using lockval_slot [OF assms(1) i(1,3)] lockval_slot [OF assms(2), of i] assms(3,4) [OF i(1)] by auto
next
  case False
  then have "\<not> (\<exists>i<6. nl_b l' ! i = d \<and> nl_l l' ! i \<noteq> 0)" using assms(3) by blast
  then show ?thesis using False lockval_nonzero [OF assms(1)] lockval_nonzero [OF assms(2)] by metis
qed

text \<open>Arithmetic of the counts.\<close>

lemma sint_range: "- (2 ^ 31) \<le> sint (v :: s32)" "sint (v :: s32) < 2 ^ 31"
  using sint_ge [of v] sint_less [of v] by simp_all

lemma sint_lock_val: "sint (lock_val f) = (if f then 1 else - 1)"
  by (simp add: lock_val_def)

lemma sint_sum:
  assumes "- (2 ^ 31) \<le> sint (v :: s32) + sint w" "sint v + sint w < 2 ^ 31"
  shows "sint (v + w) = sint v + sint w"
  using assms signed_take_bit_int_eq_self [of 31 "sint v + sint w"] by (simp add: sint_word_ariths)

lemma sint_diff:
  assumes "- (2 ^ 31) \<le> sint (v :: s32) - sint w" "sint v - sint w < 2 ^ 31"
  shows "sint (v - w) = sint v - sint w"
  using assms signed_take_bit_int_eq_self [of 31 "sint v - sint w"] by (simp add: sint_word_ariths)

lemma sint_zero: "(v :: s32) = 0 \<longleftrightarrow> sint v = 0"
  by (metis signed_0 signed_word_eqI)

definition step :: "bool \<Rightarrow> int" where
  "step f = (if f then 1 else - 1)"

text \<open>A count of the own kind that is not at its limit can be raised, and no other.\<close>

lemma sign_add:
  assumes "if f then 0 \<le> sint v else sint v \<le> 0"
  shows "v \<noteq> 0 \<and> sign (v + lock_val f) \<noteq> sign v \<longleftrightarrow> sint v = (if f then 2 ^ 31 - 1 else - (2 ^ 31))"
    and "\<not> (v \<noteq> 0 \<and> sign (v + lock_val f) \<noteq> sign v) \<Longrightarrow> sint (v + lock_val f) = sint v + step f"
proof -
  have z: "v = 0 \<longleftrightarrow> sint v = 0" by (rule sint_zero)
  have 1: "sint (v + lock_val f) = sint v + step f" if "sint v \<noteq> (if f then 2 ^ 31 - 1 else - (2 ^ 31))"
    using that assms sint_range [of v] sint_sum [of v "lock_val f"] by (simp add: sint_lock_val step_def split: if_splits)
  have 2: "sint (v + lock_val f) = (if f then - (2 ^ 31) else 2 ^ 31 - 1)" if "sint v = (if f then 2 ^ 31 - 1 else - (2 ^ 31))"
    using that by (simp add: sint_word_ariths sint_lock_val signed_take_bit_def mask_eq_exp_minus_1 not_int_def split: if_splits)
  show s: "v \<noteq> 0 \<and> sign (v + lock_val f) \<noteq> sign v \<longleftrightarrow> sint v = (if f then 2 ^ 31 - 1 else - (2 ^ 31))"
  proof (cases "sint v = (if f then 2 ^ 31 - 1 else - (2 ^ 31))")
    case True
    then show ?thesis using 2 z by (auto simp: sign_def split: if_splits)
  next
    case False
    then show ?thesis using 1 [OF False] z assms by (auto simp: sign_def step_def split: if_splits)
  qed
  show "\<not> (v \<noteq> 0 \<and> sign (v + lock_val f) \<noteq> sign v) \<Longrightarrow> sint (v + lock_val f) = sint v + step f"
    unfolding s by (rule 1)
qed

lemma sint_step: "step f \<noteq> 0" "sint (lock_val f) = step f"
  by (simp_all add: step_def sint_lock_val)

lemma bucket_ok_update:
  assumes "bucket_ok l" "i < 6" "\<And>j. j < i \<Longrightarrow> nl_b l ! j \<noteq> d" "\<And>j. i < j \<Longrightarrow> j < 6 \<Longrightarrow> nl_b l ! j = d \<Longrightarrow> nl_l l ! j = 0"
  shows "bucket_ok (l\<lparr>nl_b := (nl_b l)[i := d], nl_l := (nl_l l)[i := v]\<rparr>)"
  using assms unfolding bucket_ok_def by (auto simp: nth_list_update)

text \<open>A successful attempt changes the count of one disk bucket.\<close>

definition locked_as :: "nocow_lock_bucket \<Rightarrow> u64 \<Rightarrow> int \<Rightarrow> nocow_lock_bucket \<Rightarrow> bool" where
  "locked_as l d v l' \<longleftrightarrow> bucket_ok l' \<and> lockval l' d = v \<and> (\<forall>e. e \<noteq> d \<longrightarrow> lockval l' e = lockval l e) \<and>
    (\<forall>i<6. nl_l l' ! i \<noteq> 0 \<longrightarrow> nl_b l' ! i = d \<or> (nl_l l ! i \<noteq> 0 \<and> nl_b l' ! i = nl_b l ! i))"

lemma set_count:
  assumes ok: "bucket_ok l" and i: "i < 6" and first: "\<And>j. j < i \<Longrightarrow> nl_b l ! j \<noteq> d"
    and other: "\<And>j. i < j \<Longrightarrow> j < 6 \<Longrightarrow> nl_b l ! j = d \<Longrightarrow> nl_l l ! j = 0" and free: "nl_b l ! i \<noteq> d \<Longrightarrow> nl_l l ! i = 0"
  shows "locked_as l d (sint v) (l\<lparr>nl_b := (nl_b l)[i := d], nl_l := (nl_l l)[i := v]\<rparr>)"
proof -
  let ?l = "l\<lparr>nl_b := (nl_b l)[i := d], nl_l := (nl_l l)[i := v]\<rparr>"
  have ok': "bucket_ok ?l" by (rule bucket_ok_update [OF ok i first other])
  have len: "length (nl_b l) = 6" "length (nl_l l) = 6" using ok by (simp_all add: bucket_ok_def)
  have "lockval ?l d = sint v"
  proof (cases "v = 0")
    case True
    have "\<not> (\<exists>j<6. nl_b ?l ! j = d \<and> nl_l ?l ! j \<noteq> 0)" using True len i first other by (auto simp: nth_list_update) (metis linorder_neqE_nat)
    then show ?thesis using lockval_nonzero [OF ok', of d] True by auto
  next
    case False
    then show ?thesis using lockval_slot [OF ok' i] len i by simp
  qed
  moreover have "lockval ?l e = lockval l e" if "e \<noteq> d" for e
  proof (rule lockval_eqI [OF ok' ok])
    fix j :: nat
    assume j: "j < 6"
    show "nl_b ?l ! j = e \<and> nl_l ?l ! j \<noteq> 0 \<longleftrightarrow> nl_b l ! j = e \<and> nl_l l ! j \<noteq> 0"
      using that len i j free by (cases "j = i") auto
    show "nl_b ?l ! j = e \<Longrightarrow> nl_l ?l ! j \<noteq> 0 \<Longrightarrow> nl_l l ! j = nl_l ?l ! j"
      using that len i j by (cases "j = i") auto
  qed
  ultimately show ?thesis using ok' len i by (auto simp: locked_as_def nth_list_update)
qed

lemma first_slot:
  assumes "bucket_ok l" "first_index (\<lambda>b. b = d) (nl_b l) = Some i"
  shows "i < 6" "nl_b l ! i = d" "\<And>j. j < i \<Longrightarrow> nl_b l ! j \<noteq> d" "\<And>j. i < j \<Longrightarrow> j < 6 \<Longrightarrow> nl_b l ! j = d \<Longrightarrow> nl_l l ! j = 0"
    "lockval l d = sint (nl_l l ! i)"
  using first_index_Some [OF assms(2)] assms by (auto simp: bucket_ok_def lockval_def)

lemma bucket_trylock_spec:
  assumes ok: "bucket_ok l"
  shows "case raw_bch2_bucket_nocow_trylock l d f of
      Inr l' \<Rightarrow> locked_as l d (lockval l d + step f) l' \<and> (if f then 0 \<le> lockval l d else lockval l d \<le> 0)
    | Inl Nocow_trylock_contended \<Rightarrow> (if f then lockval l d < 0 \<or> lockval l d = 2 ^ 31 - 1 else 0 < lockval l d \<or> lockval l d = - (2 ^ 31))
    | Inl Nocow_trylock_bucket_full \<Rightarrow> (\<forall>i<6. nl_l l ! i \<noteq> 0) \<and> d \<notin> set (nl_b l)"
proof (cases "first_index (\<lambda>b. b = d) (nl_b l)")
  case (Some i)
  note S = first_slot [OF ok Some]
  have u: "l\<lparr>nl_b := (nl_b l)[i := d], nl_l := (nl_l l)[i := v]\<rparr> = l\<lparr>nl_l := (nl_l l)[i := v]\<rparr>" for v
    using S(2) by (cases l) auto
  have L: "locked_as l d (sint v) (l\<lparr>nl_l := (nl_l l)[i := v]\<rparr>)" for v
    unfolding u [symmetric] by (rule set_count [OF ok S(1,3,4)]) (use S(2) in auto)
  have D: "raw_bch2_bucket_nocow_trylock l d f =
      (if \<not> (if f then 0 \<le> sint (nl_l l ! i) else sint (nl_l l ! i) \<le> 0) then Inl Nocow_trylock_contended else take_lock l i f)"
    unfolding raw_bch2_bucket_nocow_trylock_def Some sint_step step_def by (simp add: not_le)
  show ?thesis
  proof (cases "if f then 0 \<le> sint (nl_l l ! i) else sint (nl_l l ! i) \<le> 0")
    case True
    note A = sign_add [OF True]
    have D: "raw_bch2_bucket_nocow_trylock l d f = take_lock l i f" unfolding D using True by simp
    show ?thesis
    proof (cases "nl_l l ! i \<noteq> 0 \<and> sign (nl_l l ! i + lock_val f) \<noteq> sign (nl_l l ! i)")
      case ov: True
      have "raw_bch2_bucket_nocow_trylock l d f = Inl Nocow_trylock_contended" unfolding D take_lock_def Let_def if_P [OF ov] ..
      then show ?thesis using ov [unfolded A(1)] unfolding S(5) by (cases f) simp_all
    next
      case False
      have "raw_bch2_bucket_nocow_trylock l d f = Inr (l\<lparr>nl_l := (nl_l l)[i := nl_l l ! i + lock_val f]\<rparr>)"
        unfolding D take_lock_def Let_def if_not_P [OF False] ..
      moreover have "locked_as l d (sint (nl_l l ! i) + step f) (l\<lparr>nl_l := (nl_l l)[i := nl_l l ! i + lock_val f]\<rparr>)"
        using L [of "nl_l l ! i + lock_val f"] unfolding A(2) [OF False] .
      ultimately show ?thesis using True unfolding S(5) by simp
    qed
  next
    case False
    then have "raw_bch2_bucket_nocow_trylock l d f = Inl Nocow_trylock_contended" unfolding D by simp
    then show ?thesis using False unfolding S(5) by (cases f) simp_all
  qed
next
  case None
  then have d: "d \<notin> set (nl_b l)" by (auto simp: first_index_None)
  have len: "length (nl_b l) = 6" "length (nl_l l) = 6" using ok by (simp_all add: bucket_ok_def)
  have v0: "lockval l d = 0" using None by (simp add: lockval_def)
  show ?thesis
  proof (cases "first_index (\<lambda>v. v = 0) (nl_l l)")
    case (Some i)
    have i: "i < 6" "nl_l l ! i = 0" using first_index_Some [OF Some] len by auto
    have nd: "j < 6 \<Longrightarrow> nl_b l ! j \<noteq> d" for j using d len by auto
    have "locked_as l d (sint (lock_val f)) (l\<lparr>nl_b := (nl_b l)[i := d], nl_l := (nl_l l)[i := lock_val f]\<rparr>)"
      by (rule set_count [OF ok i(1)]) (use nd i in auto)
    moreover have "raw_bch2_bucket_nocow_trylock l d f = Inr (l\<lparr>nl_b := (nl_b l)[i := d], nl_l := (nl_l l)[i := lock_val f]\<rparr>)"
      using None Some i by (simp add: raw_bch2_bucket_nocow_trylock_def take_lock_def)
    ultimately show ?thesis using v0 by (simp add: sint_step)
  next
    case full: None
    then have "\<forall>i<6. nl_l l ! i \<noteq> 0" using len by (auto simp: first_index_None)
    then show ?thesis using None full d by (simp add: raw_bch2_bucket_nocow_trylock_def)
  qed
qed

section \<open>The table\<close>

definition table_ok :: "bucket_nocow_lock_table \<Rightarrow> bool" where
  "table_ok t \<longleftrightarrow> length t = 4096 \<and>
    (\<forall>h<4096. bucket_ok (t ! h) \<and> (\<forall>i<6. nl_l (t ! h) ! i \<noteq> 0 \<longrightarrow> bucket_nocow_lock (nl_b (t ! h) ! i) = h))"

definition tval :: "bucket_nocow_lock_table \<Rightarrow> u64 \<Rightarrow> int" where
  "tval t d = lockval (t ! bucket_nocow_lock d) d"

lemma table_okD:
  assumes "table_ok t"
  shows "length t = 4096" "h < 4096 \<Longrightarrow> bucket_ok (t ! h)"
    "h < 4096 \<Longrightarrow> i < 6 \<Longrightarrow> nl_l (t ! h) ! i \<noteq> 0 \<Longrightarrow> bucket_nocow_lock (nl_b (t ! h) ! i) = h"
  using assms by (auto simp: table_ok_def)

lemma table_update:
  assumes "table_ok t" "locked_as (t ! bucket_nocow_lock d) d v l'"
  shows "table_ok (t[bucket_nocow_lock d := l']) \<and> tval (t[bucket_nocow_lock d := l']) d = v \<and>
    (\<forall>e. e \<noteq> d \<longrightarrow> tval (t[bucket_nocow_lock d := l']) e = tval t e)"
proof -
  note h = bucket_nocow_lock_less [of d] and T = table_okD [OF assms(1)]
  have "table_ok (t[bucket_nocow_lock d := l'])"
    unfolding table_ok_def using assms(2) h T by (auto simp: nth_list_update locked_as_def)
  moreover have "tval (t[bucket_nocow_lock d := l']) d = v" using assms(2) h T(1) by (simp add: tval_def locked_as_def)
  moreover have "tval (t[bucket_nocow_lock d := l']) e = tval t e" if "e \<noteq> d" for e
    using that assms(2) h T(1) by (auto simp: tval_def locked_as_def nth_list_update)
  ultimately show ?thesis by blast
qed

text \<open>The table holds the counts of a collection of update locks (true) and copy locks (false).\<close>

definition holds :: "bucket_nocow_lock_table \<Rightarrow> (u64 \<times> bool) multiset \<Rightarrow> bool" where
  "holds t H \<longleftrightarrow> table_ok t \<and> (\<forall>d. tval t d = int (count H (d, True)) - int (count H (d, False)) \<and> (count H (d, True) = 0 \<or> count H (d, False) = 0))"

lemma holdsD:
  assumes "holds t H"
  shows "table_ok t" "tval t d = int (count H (d, True)) - int (count H (d, False))" "count H (d, True) = 0 \<or> count H (d, False) = 0"
  using assms by (auto simp: holds_def)

lemma holds_zero: "holds nocow_zero {#}"
proof -
  let ?l = "\<lparr>nl_wait = [], nl_b = replicate 6 0, nl_l = replicate 6 0\<rparr> :: nocow_lock_bucket"
  have z: "nocow_zero ! h = ?l" if "h < 4096" for h using that by (simp add: nocow_zero_def BUCKET_NOCOW_LOCKS_def NOCOW_LOCK_BUCKET_SIZE_def)
  have ok: "bucket_ok ?l" by (auto simp: bucket_ok_def)
  then have "table_ok nocow_zero" by (auto simp: table_ok_def z) (simp add: nocow_zero_def BUCKET_NOCOW_LOCKS_def)
  moreover have "lockval ?l d = 0" for d
  proof (rule ccontr)
    assume "lockval ?l d \<noteq> 0"
    then obtain i where "i < 6" "nl_l ?l ! i \<noteq> 0" using lockval_nonzero [OF ok] by blast
    then show False by simp
  qed
  ultimately show ?thesis using bucket_nocow_lock_less by (simp add: holds_def tval_def z)
qed

text \<open>Slots in use belong to locks that are held.\<close>

lemma held_slot:
  assumes "holds t H" "h < 4096" "i < 6" "nl_l (t ! h) ! i \<noteq> 0"
  shows "\<exists>f. (nl_b (t ! h) ! i, f) \<in># H" "bucket_nocow_lock (nl_b (t ! h) ! i) = h"
proof -
  note T = table_okD [OF holdsD(1) [OF assms(1)]]
  show h: "bucket_nocow_lock (nl_b (t ! h) ! i) = h" by (rule T(3) [OF assms(2-4)])
  have "tval t (nl_b (t ! h) ! i) \<noteq> 0" using lockval_slot [OF T(2) [OF assms(2)] assms(3,4)] assms(4) unfolding tval_def h by (simp add: sint_zero)
  then show "\<exists>f. (nl_b (t ! h) ! i, f) \<in># H" using holdsD(2) [OF assms(1), of "nl_b (t ! h) ! i"] by (metis count_eq_zero_iff diff_self)
qed

lemma slot_held:
  assumes "holds t H" "(d, f) \<in># H"
  shows "\<exists>i<6. nl_b (t ! bucket_nocow_lock d) ! i = d \<and> nl_l (t ! bucket_nocow_lock d) ! i \<noteq> 0"
proof -
  have "count H (d, True) \<noteq> 0 \<or> count H (d, False) \<noteq> 0" using assms(2) by (cases f) auto
  then have "tval t d \<noteq> 0" using holdsD(2,3) [OF assms(1), of d] by arith
  then show ?thesis using lockval_nonzero table_okD(2) [OF holdsD(1) [OF assms(1)] bucket_nocow_lock_less] by (simp add: tval_def)
qed

lemma empty_bucket:
  assumes "holds t H" "h < 4096"
  shows "nocow_bucket_empty (t ! h) \<longleftrightarrow> (\<forall>(d, f)\<in>#H. bucket_nocow_lock d \<noteq> h)"
proof -
  have "length (nl_l (t ! h)) = 6" using table_okD(2) [OF holdsD(1) [OF assms(1)] assms(2)] by (simp add: bucket_ok_def)
  then have "nocow_bucket_empty (t ! h) \<longleftrightarrow> (\<forall>i<6. nl_l (t ! h) ! i = 0)" by (simp add: nocow_bucket_empty_def list_all_length)
  then show ?thesis using held_slot [OF assms(1,2)] slot_held [OF assms(1)] by fast
qed

lemma add_mset_counts:
  "count (add_mset (d, f) H) (e, g) = count H (e, g) + (if e = d \<and> g = f then 1 else 0)"
  by simp

lemma table_trylock_spec:
  assumes "holds t H"
  shows "case table_trylock t (bucket_nocow_lock d) d f of
      Inr t' \<Rightarrow> holds t' (add_mset (d, f) H)
    | Inl Nocow_trylock_contended \<Rightarrow> 0 < count H (d, \<not> f) \<or> 2 ^ 31 - 1 \<le> count H (d, f)
    | Inl Nocow_trylock_bucket_full \<Rightarrow> \<exists>D. card D = 6 \<and> d \<notin> D \<and> (\<forall>e\<in>D. bucket_nocow_lock e = bucket_nocow_lock d \<and> (\<exists>g. (e, g) \<in># H))"
proof -
  note h = bucket_nocow_lock_less [of d]
  let ?l = "t ! bucket_nocow_lock d"
  have ok: "bucket_ok ?l" by (rule table_okD(2) [OF holdsD(1) [OF assms] h])
  note S = bucket_trylock_spec [OF ok, of d f] and V = holdsD(2,3) [OF assms, of d, unfolded tval_def]
  show ?thesis
  proof (cases "raw_bch2_bucket_nocow_trylock ?l d f")
    case (Inr l')
    then have L: "locked_as ?l d (lockval ?l d + step f) l'" "if f then 0 \<le> lockval ?l d else lockval ?l d \<le> 0" using S by simp_all
    note U = table_update [OF holdsD(1) [OF assms] L(1)]
    have z: "count H (d, \<not> f) = 0" using L(2) V by (cases f) auto
    have "holds (t[bucket_nocow_lock d := l']) (add_mset (d, f) H)"
      unfolding holds_def
    proof (intro conjI allI)
      show "table_ok (t[bucket_nocow_lock d := l'])" using U by blast
      fix e
      show "tval (t[bucket_nocow_lock d := l']) e = int (count (add_mset (d, f) H) (e, True)) - int (count (add_mset (d, f) H) (e, False))"
        using U V holdsD(2) [OF assms, of e] by (cases "e = d"; cases f) (auto simp: step_def)
      show "count (add_mset (d, f) H) (e, True) = 0 \<or> count (add_mset (d, f) H) (e, False) = 0"
        using z holdsD(3) [OF assms, of e] by (cases "e = d"; cases f) auto
    qed
    then show ?thesis using Inr by (simp add: table_trylock_def)
  next
    case (Inl e)
    show ?thesis
    proof (cases e)
      case Nocow_trylock_contended
      then show ?thesis using Inl S V by (cases f) (auto simp: table_trylock_def)
    next
      case Nocow_trylock_bucket_full
      then have F: "\<forall>i<6. nl_l ?l ! i \<noteq> 0" "d \<notin> set (nl_b ?l)" using Inl S by simp_all
      have len: "length (nl_b ?l) = 6" using ok by (simp add: bucket_ok_def)
      have "distinct (nl_b ?l)" unfolding distinct_conv_nth len using ok F(1) by (auto simp: bucket_ok_def) (metis linorder_neqE_nat)
      then have "card (set (nl_b ?l)) = 6" using len by (simp add: distinct_card)
      moreover have "bucket_nocow_lock e = bucket_nocow_lock d \<and> (\<exists>g. (e, g) \<in># H)" if "e \<in> set (nl_b ?l)" for e
        using that F(1) held_slot [OF assms h] len by (metis in_set_conv_nth)
      ultimately show ?thesis using Inl Nocow_trylock_bucket_full F(2) by (auto simp: table_trylock_def)
    qed
  qed
qed

lemma unlock_sub_spec:
  assumes "holds t H" "(d, f) \<in># H"
  shows "\<exists>t'. nocow_unlock_sub t d f = Some (t', count H (d, f) = 1) \<and> holds t' (H - {#(d, f)#})"
proof -
  note h = bucket_nocow_lock_less [of d]
  let ?l = "t ! bucket_nocow_lock d"
  have ok: "bucket_ok ?l" by (rule table_okD(2) [OF holdsD(1) [OF assms(1)] h])
  note V = holdsD(2,3) [OF assms(1), of d, unfolded tval_def]
  have c: "0 < count H (d, f)" using assms(2) by simp
  then have v: "lockval ?l d = step f * int (count H (d, f))" "count H (d, \<not> f) = 0" using V by (cases f; auto simp: step_def)+
  then have "lockval ?l d \<noteq> 0" using c by (simp add: sint_step)
  then obtain i where i: "first_index (\<lambda>b. b = d) (nl_b ?l) = Some i" by (auto simp: lockval_def split: option.splits)
  note S = first_slot [OF ok i]
  let ?v = "nl_l ?l ! i - lock_val f"
  have sv: "sint ?v = step f * (int (count H (d, f)) - 1)"
    using sint_diff [of "nl_l ?l ! i" "lock_val f"] sint_range [of "nl_l ?l ! i"] v(1) c S(5) by (cases f) (auto simp: sint_step step_def)
  have z: "?v = 0 \<longleftrightarrow> count H (d, f) = 1" unfolding sint_zero sv using c by (auto simp: sint_step)
  have u: "?l\<lparr>nl_b := (nl_b ?l)[i := d], nl_l := (nl_l ?l)[i := ?v]\<rparr> = ?l\<lparr>nl_l := (nl_l ?l)[i := ?v]\<rparr>"
    using S(2) by (cases ?l) auto
  have L: "locked_as ?l d (sint ?v) (?l\<lparr>nl_l := (nl_l ?l)[i := ?v]\<rparr>)" unfolding u [symmetric] by (rule set_count [OF ok S(1,3,4)]) (use S(2) in auto)
  note U = table_update [OF holdsD(1) [OF assms(1)] L]
  have "sign ?v = sint (lock_val f)" if "?v \<noteq> 0"
  proof -
    have "1 < count H (d, f)" using that c unfolding z by linarith
    then show ?thesis unfolding sign_def sv sint_step by (cases f) (auto simp: step_def)
  qed
  then have nb: "\<not> (?v \<noteq> 0 \<and> sign ?v \<noteq> sint (lock_val f))" by blast
  have "nocow_unlock_sub t d f = Some (t[bucket_nocow_lock d := ?l\<lparr>nl_l := (nl_l ?l)[i := ?v]\<rparr>], count H (d, f) = 1)"
    unfolding nocow_unlock_sub_def Let_def i option.case z unfolding if_not_P [OF nb [unfolded z]] ..
  moreover have "holds (t[bucket_nocow_lock d := ?l\<lparr>nl_l := (nl_l ?l)[i := ?v]\<rparr>]) (H - {#(d, f)#})"
    unfolding holds_def
  proof (intro conjI allI)
    show "table_ok (t[bucket_nocow_lock d := ?l\<lparr>nl_l := (nl_l ?l)[i := ?v]\<rparr>])" using U by blast
    fix e
    show "tval (t[bucket_nocow_lock d := ?l\<lparr>nl_l := (nl_l ?l)[i := ?v]\<rparr>]) e =
        int (count (H - {#(d, f)#}) (e, True)) - int (count (H - {#(d, f)#}) (e, False))"
      using U sv v(2) c holdsD(2) [OF assms(1), of e] by (cases "e = d"; cases f) (auto simp: step_def)
    show "count (H - {#(d, f)#}) (e, True) = 0 \<or> count (H - {#(d, f)#}) (e, False) = 0"
      using holdsD(3) [OF assms(1), of e] by auto
  qed
  ultimately show ?thesis by blast
qed

text \<open>The wait lists do not matter for the counts.\<close>

lemma wait_list_simps [simp]: "bucket_ok (l\<lparr>nl_wait := ws\<rparr>) = bucket_ok l" "lockval (l\<lparr>nl_wait := ws\<rparr>) d = lockval l d"
  by (simp_all add: bucket_ok_def lockval_def split: option.split)

lemma nth_update: "j < length xs \<Longrightarrow> xs[i := x] ! j = (if i = j then x else xs ! j)"
  by (cases "i = j") simp_all

lemma holds_wait_list: "holds t H \<Longrightarrow> holds (t[h := (t ! h)\<lparr>nl_wait := ws\<rparr>]) H"
  unfolding holds_def table_ok_def tval_def using bucket_nocow_lock_less by (auto simp: nth_update)

lemma unlock_spec:
  assumes "holds t H" "(d, f) \<in># H"
  shows "\<exists>t'. raw_bch2_bucket_nocow_unlock t d f = Some (t', count H (d, f) = 1) \<and> holds t' (H - {#(d, f)#})"
proof -
  obtain t' where t': "nocow_unlock_sub t d f = Some (t', count H (d, f) = 1)" "holds t' (H - {#(d, f)#})"
    using unlock_sub_spec [OF assms] by blast
  then show ?thesis using holds_wait_list [OF t'(2), of "bucket_nocow_lock d" "[]"]
    by (simp add: raw_bch2_bucket_nocow_unlock_def nocow_unlock_wake_def closure_wake_up_def)
qed

section \<open>Histories\<close>

text \<open>What any number of callers can do: take a lock, change the count for one that is held, wait, and wake up.\<close>

inductive nocow_reach :: "bucket_nocow_lock_table \<Rightarrow> (u64 \<times> bool) multiset \<Rightarrow> bool" where
  init: "nocow_reach nocow_zero {#}"
| lock: "nocow_reach t H \<Longrightarrow> table_trylock t (bucket_nocow_lock d) d f = Inr t' \<Longrightarrow> nocow_reach t' (add_mset (d, f) H)"
| unlock: "nocow_reach t H \<Longrightarrow> (d, f) \<in># H \<Longrightarrow> nocow_unlock_sub t d f = Some (t', w) \<Longrightarrow> nocow_reach t' (H - {#(d, f)#})"
| wait: "nocow_reach t H \<Longrightarrow> nocow_reach (bch2_closure_wait t h cl) H"
| wake: "nocow_reach t H \<Longrightarrow> nocow_reach (closure_wake_up t h) H"

lemma reach_holds: "nocow_reach t H \<Longrightarrow> holds t H"
proof (induction rule: nocow_reach.induct)
  case init
  show ?case by (rule holds_zero)
next
  case (lock t H d f t')
  then show ?case using table_trylock_spec [OF lock.IH, of d f] by simp
next
  case (unlock t H d f t' w)
  then show ?case using unlock_sub_spec [OF unlock.IH, of d f] by auto
next
  case (wait t H h cl)
  then show ?case by (simp add: bch2_closure_wait_def holds_wait_list)
next
  case (wake t H h)
  then show ?case by (simp add: closure_wake_up_def holds_wait_list)
qed

lemma reach_unlock_held:
  assumes "nocow_reach t H" "(d, f) \<in># H" "raw_bch2_bucket_nocow_unlock t d f = Some (t', w)"
  shows "nocow_reach t' (H - {#(d, f)#})"
  using assms(3) nocow_reach.unlock [OF assms(1,2)] nocow_reach.wake
  by (auto simp: raw_bch2_bucket_nocow_unlock_def nocow_unlock_wake_def split: if_splits)

lemma reach_unlock:
  assumes "nocow_reach t (add_mset (d, f) H)"
  shows "\<exists>t' w. raw_bch2_bucket_nocow_unlock t d f = Some (t', w) \<and> nocow_reach t' H"
proof -
  obtain t' w where u: "raw_bch2_bucket_nocow_unlock t d f = Some (t', w)" using unlock_spec [OF reach_holds [OF assms], of d f] by auto
  then show ?thesis using reach_unlock_held [OF assms _ u] by auto
qed

lemma is_locked_iff:
  assumes "holds t H"
  shows "bch2_bucket_nocow_is_locked t p \<longleftrightarrow> (\<exists>f. (bucket_to_u64 p, f) \<in># H)"
proof -
  let ?d = "bucket_to_u64 p"
  let ?l = "t ! bucket_nocow_lock ?d"
  note h = bucket_nocow_lock_less [of ?d]
  have "length (nl_b ?l) = 6" "length (nl_l ?l) = 6" using table_okD(2) [OF holdsD(1) [OF assms] h] by (simp_all add: bucket_ok_def)
  then have "bch2_bucket_nocow_is_locked t p \<longleftrightarrow> (\<exists>i<6. nl_b ?l ! i = ?d \<and> nl_l ?l ! i \<noteq> 0)"
    by (auto simp: bch2_bucket_nocow_is_locked_def Let_def list_ex_length)
  then show ?thesis using held_slot(1) [OF assms h] slot_held [OF assms, of ?d] by metis
qed

lemma exit_iff:
  assumes "holds t H"
  shows "bch2_fs_nocow_locking_exit t = Some () \<longleftrightarrow> H = {#}"
proof -
  have "length t = 4096" by (rule table_okD(1) [OF holdsD(1) [OF assms]])
  then have "bch2_fs_nocow_locking_exit t = Some () \<longleftrightarrow> (\<forall>h<4096. nocow_bucket_empty (t ! h))"
    by (simp add: bch2_fs_nocow_locking_exit_def list_all_length nocow_bucket_empty_def)
  also have "\<dots> \<longleftrightarrow> (\<forall>h<4096. \<forall>(d, f)\<in>#H. bucket_nocow_lock d \<noteq> h)" using empty_bucket [OF assms] by blast
  also have "\<dots> \<longleftrightarrow> H = {#}"
  proof (cases "H = {#}")
    case False
    then obtain d f where "(d, f) \<in># H" by (metis multiset_nonemptyE surj_pair)
    then show ?thesis using bucket_nocow_lock_less [of d] False by fast
  qed simp
  finally show ?thesis .
qed

section \<open>The locks of a key\<close>

definition key_locks :: "bpos option list \<Rightarrow> bool \<Rightarrow> (u64 \<times> bool) multiset" where
  "key_locks ptrs f = mset (map (\<lambda>b. (btl_b b, f)) (buckets_to_lock ptrs))"

lemma buckets_to_lock_append: "buckets_to_lock (xs @ ys) = buckets_to_lock xs @ buckets_to_lock ys"
  by (induction xs rule: buckets_to_lock.induct) (simp_all add: Let_def)

lemma buckets_to_lock_home: "b \<in> set (buckets_to_lock ptrs) \<Longrightarrow> btl_l b = bucket_nocow_lock (btl_b b)"
  by (induction ptrs rule: buckets_to_lock.induct) (auto simp: Let_def)

lemma length_buckets_to_lock: "length (buckets_to_lock ptrs) \<le> length ptrs"
  by (induction ptrs rule: buckets_to_lock.induct) (simp_all add: Let_def)

lemma key_locks_simps [simp]:
  "key_locks [] f = {#}" "key_locks (xs @ ys) f = key_locks xs f + key_locks ys f"
  "key_locks (None # ptrs) f = key_locks ptrs f" "key_locks (Some p # ptrs) f = add_mset (bucket_to_u64 p, f) (key_locks ptrs f)"
  by (simp_all add: key_locks_def buckets_to_lock_append Let_def)

text \<open>The contract between the locks and the routines that take several of them: a state allows a collection of locks to be held; taking a
  lock adds it, and a lock that is held can be released.  Under the contract, releasing a list of held locks succeeds, and taking a list of locks
  with a rollback takes all or none.\<close>

fun release_all :: "('t \<Rightarrow> 'l \<Rightarrow> 't option) \<Rightarrow> 't \<Rightarrow> 'l list \<Rightarrow> 't option" where
  "release_all rel t [] = Some t"
| "release_all rel t (l # ls) = Option.bind (rel t l) (\<lambda>t. release_all rel t ls)"

fun acquire_all :: "('t \<Rightarrow> 'l \<Rightarrow> 't option) \<Rightarrow> ('t \<Rightarrow> 'l \<Rightarrow> 't option) \<Rightarrow> 't \<Rightarrow> 'l list \<Rightarrow> 'l list \<Rightarrow> (bool \<times> 't) option" where
  "acquire_all acq rel t before [] = Some (True, t)"
| "acquire_all acq rel t before (l # ls) =
    (case acq t l of
       Some t \<Rightarrow> acquire_all acq rel t (before @ [l]) ls
     | None \<Rightarrow> map_option (Pair False) (release_all rel t before))"

locale lock_contract =
  fixes held :: "'t \<Rightarrow> 'l multiset \<Rightarrow> bool" and acq :: "'t \<Rightarrow> 'l \<Rightarrow> 't option" and rel :: "'t \<Rightarrow> 'l \<Rightarrow> 't option"
  assumes acq_held: "held t H \<Longrightarrow> acq t l = Some t' \<Longrightarrow> held t' (add_mset l H)"
    and rel_held: "held t (add_mset l H) \<Longrightarrow> \<exists>t'. rel t l = Some t' \<and> held t' H"
begin

lemma release_all_held: "held t (H + mset ls) \<Longrightarrow> \<exists>t'. release_all rel t ls = Some t' \<and> held t' H"
proof (induction ls arbitrary: t)
  case (Cons l ls)
  then obtain t' where "rel t l = Some t'" "held t' (H + mset ls)" using rel_held [of t l "H + mset ls"] by auto
  then show ?case using Cons.IH by simp
qed simp

lemma acquire_all_held:
  "held t (H + mset before) \<Longrightarrow>
    (\<exists>t'. acquire_all acq rel t before ls = Some (True, t') \<and> held t' (H + mset (before @ ls))) \<or>
    (\<exists>t'. acquire_all acq rel t before ls = Some (False, t') \<and> held t' H)"
proof (induction ls arbitrary: t before)
  case (Cons l ls)
  show ?case
  proof (cases "acq t l")
    case None
    then show ?thesis using release_all_held [OF Cons.prems] by auto
  next
    case (Some t')
    then have "held t' (H + mset (before @ [l]))" using acq_held [OF Cons.prems Some] by simp
    then show ?thesis using Cons.IH [of t' "before @ [l]"] Some by simp
  qed
qed simp

end

definition nocow_acquire :: "bucket_nocow_lock_table \<Rightarrow> u64 \<times> bool \<Rightarrow> bucket_nocow_lock_table option" where
  "nocow_acquire t l = (case table_trylock t (bucket_nocow_lock (fst l)) (fst l) (snd l) of Inl e \<Rightarrow> None | Inr t' \<Rightarrow> Some t')"

definition nocow_release :: "bucket_nocow_lock_table \<Rightarrow> u64 \<times> bool \<Rightarrow> bucket_nocow_lock_table option" where
  "nocow_release t l = map_option fst (raw_bch2_bucket_nocow_unlock t (fst l) (snd l))"

interpretation nocow: lock_contract nocow_reach nocow_acquire nocow_release
proof
  show "nocow_reach t H \<Longrightarrow> nocow_acquire t l = Some t' \<Longrightarrow> nocow_reach t' (add_mset l H)" for t H l t'
    using nocow_reach.lock [of t H "fst l" "snd l" t'] by (auto simp: nocow_acquire_def split: sum.splits)
  show "nocow_reach t (add_mset l H) \<Longrightarrow> \<exists>t'. nocow_release t l = Some t' \<and> nocow_reach t' H" for t l H
    using reach_unlock [of t "fst l" "snd l" H] by (auto simp: nocow_release_def)
qed

text \<open>The routines of the source are instances of the ones above.\<close>

definition lock_list :: "bpos option list \<Rightarrow> bool \<Rightarrow> (u64 \<times> bool) list" where
  "lock_list ptrs f = map (\<lambda>b. (btl_b b, f)) (buckets_to_lock ptrs)"

lemma lock_list_simps [simp]:
  "lock_list [] f = []" "lock_list (xs @ ys) f = lock_list xs f @ lock_list ys f"
  "lock_list (None # ptrs) f = lock_list ptrs f" "lock_list (Some p # ptrs) f = (bucket_to_u64 p, f) # lock_list ptrs f"
  by (simp_all add: lock_list_def buckets_to_lock_append Let_def)

lemma mset_lock_list: "mset (lock_list ptrs f) = key_locks ptrs f"
  by (simp add: lock_list_def key_locks_def)

lemma key_unlock_eq: "bch2_bkey_nocow_unlock t ptrs f = release_all nocow_release t (lock_list ptrs f)"
  by (induction t ptrs f rule: bch2_bkey_nocow_unlock.induct) (auto simp: bch2_bucket_nocow_unlock_def nocow_release_def split: Option.bind_split)

lemma key_trylock_eq: "trylock_ptrs t before ptrs f = acquire_all nocow_acquire nocow_release t (lock_list before f) (lock_list ptrs f)"
  by (induction t before ptrs f rule: trylock_ptrs.induct)
    (auto simp: bch2_bucket_nocow_trylock_def nocow_acquire_def key_unlock_eq Let_def split: sum.splits)

lemma key_unlock_spec: "nocow_reach t (H + key_locks ptrs f) \<Longrightarrow> \<exists>t'. bch2_bkey_nocow_unlock t ptrs f = Some t' \<and> nocow_reach t' H"
  unfolding key_unlock_eq mset_lock_list [symmetric] by (rule nocow.release_all_held)

lemma key_trylock_spec:
  "nocow_reach t (H + key_locks before f) \<Longrightarrow>
    (\<exists>t'. trylock_ptrs t before ptrs f = Some (True, t') \<and> nocow_reach t' (H + key_locks (before @ ptrs) f)) \<or>
    (\<exists>t'. trylock_ptrs t before ptrs f = Some (False, t') \<and> nocow_reach t' H)"
  unfolding key_trylock_eq mset_lock_list [symmetric] lock_list_simps by (rule nocow.acquire_all_held)

lemma key_trylock_cases:
  assumes "nocow_reach t H"
  shows "\<exists>ok t'. trylock_ptrs t [] ptrs f = Some (ok, t') \<and> nocow_reach t' (if ok then H + key_locks ptrs f else H)"
proof -
  have "nocow_reach t (H + key_locks [] f)" using assms by simp
  from key_trylock_spec [OF this, of ptrs] show ?thesis
  proof
    assume "\<exists>t'. trylock_ptrs t [] ptrs f = Some (True, t') \<and> nocow_reach t' (H + key_locks ([] @ ptrs) f)"
    then show ?thesis by (intro exI [of _ True]) simp
  next
    assume "\<exists>t'. trylock_ptrs t [] ptrs f = Some (False, t') \<and> nocow_reach t' H"
    then show ?thesis by (intro exI [of _ False]) simp
  qed
qed

lemma bucket_cmp_cmp_order: "cmp_order bucket_to_lock_cmp"
  unfolding cmp_order_def bucket_to_lock_cmp_def by (auto simp: cmp_int_def)

section \<open>Waiting\<close>

text \<open>The lists of waiting closures, which taking a lock and changing a count leave alone.\<close>

definition waits :: "bucket_nocow_lock_table \<Rightarrow> closure list list" where
  "waits t = map nl_wait t"

lemma closure_waiting_iff: "closure_waiting t cl \<longleftrightarrow> (\<exists>h<length (waits t). cl \<in> set (waits t ! h))"
  by (auto simp: closure_waiting_def waits_def list_ex_length)

lemma waits_update: "nl_wait l = nl_wait (t ! h) \<Longrightarrow> waits (t[h := l]) = waits t"
  by (cases "h < length t") (simp_all add: waits_def map_update list_update_same_conv list_update_beyond)

lemma waits_take_lock: "take_lock l i f = Inr l' \<Longrightarrow> nl_wait l' = nl_wait l"
  by (auto simp: take_lock_def Let_def split: if_splits)

lemma waits_trylock: "table_trylock t h d f = Inr t' \<Longrightarrow> waits t' = waits t"
  by (auto simp: table_trylock_def raw_bch2_bucket_nocow_trylock_def Let_def waits_update
      dest!: waits_take_lock split: sum.splits option.splits if_splits)

lemma waits_unlock_sub: "nocow_unlock_sub t d f = Some (t', w) \<Longrightarrow> waits t' = waits t"
  by (auto simp: nocow_unlock_sub_def Let_def waits_update split: option.splits if_splits)

lemma waits_wake_up: "waits (closure_wake_up t h) = (waits t)[h := []]"
  by (simp add: closure_wake_up_def waits_def map_update)

lemma waits_closure_wait:
  "\<not> closure_waiting t cl \<Longrightarrow> h < length t \<Longrightarrow> waits (bch2_closure_wait t h cl) = (waits t)[h := cl # (waits t ! h)]"
  by (simp add: bch2_closure_wait_def waits_def map_update)

text \<open>A closure that is on no list but possibly that of one lock bucket.\<close>

definition only_on :: "bucket_nocow_lock_table \<Rightarrow> nat \<Rightarrow> closure \<Rightarrow> bool" where
  "only_on t h cl \<longleftrightarrow> (\<forall>k<length (waits t). cl \<in> set (waits t ! k) \<longrightarrow> k = h)"

lemma waiting_wake_up:
  "closure_waiting (closure_wake_up t h) cl \<Longrightarrow> closure_waiting t cl"
  "only_on t h cl \<Longrightarrow> \<not> closure_waiting (closure_wake_up t h) cl"
  "only_on t h cl \<Longrightarrow> only_on (closure_wake_up t k) h cl"
  "only_on t h cl \<Longrightarrow> closure_waiting t cl \<Longrightarrow> k \<noteq> h \<Longrightarrow> closure_waiting (closure_wake_up t k) cl"
  by (auto simp: closure_waiting_iff only_on_def waits_wake_up nth_update split: if_splits)

lemma waiting_closure_wait:
  assumes "\<not> closure_waiting t cl" "h < length t"
  shows "only_on (bch2_closure_wait t h cl) h cl" "closure_waiting (bch2_closure_wait t h cl) cl"
proof -
  have "length (waits t) = length t" by (simp add: waits_def)
  then show "only_on (bch2_closure_wait t h cl) h cl" "closure_waiting (bch2_closure_wait t h cl) cl"
    using assms by (auto simp: closure_waiting_iff only_on_def waits_closure_wait nth_update)
qed

lemma waiting_waits: "waits t' = waits t \<Longrightarrow> closure_waiting t' cl = closure_waiting t cl" "waits t' = waits t \<Longrightarrow> only_on t' h cl = only_on t h cl"
  by (simp_all add: closure_waiting_iff only_on_def)

lemma waiting_unlock:
  assumes "raw_bch2_bucket_nocow_unlock t d f = Some (t', w)" "closure_waiting t' cl"
  shows "closure_waiting t cl"
proof -
  obtain t1 where t1: "nocow_unlock_sub t d f = Some (t1, w)" "t' = (if w then closure_wake_up t1 (bucket_nocow_lock d) else t1)"
    using assms(1) by (auto simp: raw_bch2_bucket_nocow_unlock_def nocow_unlock_wake_def)
  then have "closure_waiting t1 cl" using assms(2) waiting_wake_up(1) by (cases w) auto
  then show ?thesis using waiting_waits(1) [OF waits_unlock_sub [OF t1(1)]] by simp
qed

lemma waiting_key_unlock: "bch2_bkey_nocow_unlock t ptrs f = Some t' \<Longrightarrow> closure_waiting t' cl \<Longrightarrow> closure_waiting t cl"
proof (induction t ptrs f rule: bch2_bkey_nocow_unlock.induct)
  case (3 t p ptrs f)
  then obtain t1 w where "raw_bch2_bucket_nocow_unlock t (bucket_to_u64 p) f = Some (t1, w)" "bch2_bkey_nocow_unlock t1 ptrs f = Some t'"
    by (auto simp: bch2_bucket_nocow_unlock_def bind_eq_Some_conv)
  then show ?case using 3(1) [of t1] 3(3) waiting_unlock by (auto simp: bch2_bucket_nocow_unlock_def)
qed simp_all

lemma waiting_key_trylock: "trylock_ptrs t before ptrs f = Some (ok, t') \<Longrightarrow> closure_waiting t' cl \<Longrightarrow> closure_waiting t cl"
proof (induction t before ptrs f rule: trylock_ptrs.induct)
  case (3 t before p ptrs f)
  show ?case
  proof (cases "table_trylock t (bucket_nocow_lock (bucket_to_u64 p)) (bucket_to_u64 p) f")
    case (Inl e)
    then show ?thesis using 3(2,3) waiting_key_unlock by (auto simp: bch2_bucket_nocow_trylock_def)
  next
    case (Inr t1)
    then have b: "bch2_bucket_nocow_trylock t p f = (True, t1)" by (simp add: bch2_bucket_nocow_trylock_def)
    then show ?thesis using 3(1) [OF b [symmetric]] 3(2,3) waiting_waits(1) [OF waits_trylock [OF Inr]] by simp
  qed
qed simp_all

text \<open>The locks of the caller.\<close>

definition own :: "bucket_to_lock list \<Rightarrow> bool \<Rightarrow> (u64 \<times> bool) multiset" where
  "own bs f = mset (map (\<lambda>b. (btl_b b, f)) bs)"

lemma own_simps: "own [] f = {#}" "own (b # bs) f = add_mset (btl_b b, f) (own bs f)"
    "i < length bs \<Longrightarrow> own (take (Suc i) bs) f = add_mset (btl_b (bs ! i), f) (own (take i bs) f)"
  by (simp_all add: own_def take_Suc_conv_app_nth)

lemma own_count: "count (own bs f) (d, g) \<le> length bs" "g \<noteq> f \<Longrightarrow> count (own bs f) (d, g) = 0"
  by (induction bs) (auto simp: own_def)

text \<open>A full lock bucket has locks of other holders, because the own ones are fewer than its slots.\<close>

lemma full_others:
  assumes "card D = 6" "\<forall>e\<in>D. \<exists>g. (e, g) \<in># M + own bs f" "length bs < 6"
  shows "\<exists>e\<in>D. \<exists>g. (e, g) \<in># M"
proof (rule ccontr)
  assume "\<not> ?thesis"
  then have "D \<subseteq> btl_b ` set bs" using assms(2) by (auto simp: own_def)
  then have "card D \<le> length bs" using card_mono [of "btl_b ` set bs" D] card_image_le [of "set bs" btl_b] card_length [of bs] by auto
  then show False using assms(1,3) by simp
qed

section \<open>The caller and the other holders\<close>

text \<open>A caller of \<^verbatim>\<open>bch2_bkey_nocow_lock\<close> and others that release the locks they hold, at any time and in any order.  The two parts of a release are
  steps of their own, so the caller may run between the change of the count and the wake-up.  The state has the table, the caller, the locks of the
  others, and their releases that are between the two parts.\<close>

record nocow_sys =
  ns_table :: bucket_nocow_lock_table
  ns_pc :: lock_pc
  ns_others :: "(u64 \<times> bool) multiset"
  ns_wakes :: "(u64 \<times> bool) multiset"

inductive nocow_step :: "bpos option list \<Rightarrow> bool \<Rightarrow> bool \<Rightarrow> closure \<Rightarrow> nocow_sys \<Rightarrow> nocow_sys \<Rightarrow> bool"
  for ptrs f has_trans cl where
  caller: "bch2_bkey_nocow_lock ptrs f has_trans cl (ns_table s) (ns_pc s) = Some (t', pc') \<Longrightarrow>
    nocow_step ptrs f has_trans cl s (s\<lparr>ns_table := t', ns_pc := pc'\<rparr>)"
| release: "(d, g) \<in># ns_others s \<Longrightarrow> nocow_unlock_sub (ns_table s) d g = Some (t', zero) \<Longrightarrow>
    nocow_step ptrs f has_trans cl s (s\<lparr>ns_table := t', ns_others := ns_others s - {#(d, g)#},
      ns_wakes := add_mset (d, zero) (ns_wakes s)\<rparr>)"
| wake: "(d, zero) \<in># ns_wakes s \<Longrightarrow>
    nocow_step ptrs f has_trans cl s (s\<lparr>ns_table := nocow_unlock_wake (ns_table s) d zero, ns_wakes := ns_wakes s - {#(d, zero)#}\<rparr>)"

definition nocow_start :: "bucket_nocow_lock_table \<Rightarrow> (u64 \<times> bool) multiset \<Rightarrow> nocow_sys" where
  "nocow_start t H = \<lparr>ns_table = t, ns_pc = Start, ns_others = H, ns_wakes = {#}\<rparr>"

subsection \<open>Invariant\<close>

fun pc_own :: "bucket_to_lock list \<Rightarrow> bool \<Rightarrow> lock_pc \<Rightarrow> (u64 \<times> bool) multiset" where
  "pc_own bs f Start = {#}"
| "pc_own bs f (Take i) = own (take i bs) f"
| "pc_own bs f (Pretest c i) = (if c = Trylock then own (take i bs) f else {#})"
| "pc_own bs f (Enqueue c i) = (if c = Trylock then own (take i bs) f else {#})"
| "pc_own bs f (Test c i) = (if c = Trylock then own (take i bs) f else {#})"
| "pc_own bs f (Sleep c i) = (if c = Trylock then own (take i bs) f else {#})"
| "pc_own bs f (Wake c i ret) = (if c = Trylock then own (take (if ret = None then Suc i else i) bs) f else {#})"
| "pc_own bs f (Unwind i j) = own (drop j (take i bs)) f"
| "pc_own bs f Finished = own bs f"

fun pc_ok :: "nat \<Rightarrow> lock_pc \<Rightarrow> bool" where
  "pc_ok n (Take i) \<longleftrightarrow> i \<le> n"
| "pc_ok n (Pretest c i) \<longleftrightarrow> i < n"
| "pc_ok n (Enqueue c i) \<longleftrightarrow> i < n"
| "pc_ok n (Test c i) \<longleftrightarrow> i < n"
| "pc_ok n (Sleep c i) \<longleftrightarrow> i < n"
| "pc_ok n (Wake c i ret) \<longleftrightarrow> i < n \<and> ret \<noteq> Some Nocow_trylock_contended"
| "pc_ok n (Unwind i j) \<longleftrightarrow> i < n \<and> j \<le> i"
| "pc_ok n _ \<longleftrightarrow> True"

text \<open>Where the closure of the caller may be.\<close>

fun pc_wait :: "bucket_to_lock list \<Rightarrow> closure \<Rightarrow> bucket_nocow_lock_table \<Rightarrow> lock_pc \<Rightarrow> bool" where
  "pc_wait bs cl t (Test c i) \<longleftrightarrow> only_on t (btl_l (bs ! i)) cl"
| "pc_wait bs cl t (Sleep c i) \<longleftrightarrow> only_on t (btl_l (bs ! i)) cl"
| "pc_wait bs cl t (Wake c i ret) \<longleftrightarrow> only_on t (btl_l (bs ! i)) cl"
| "pc_wait bs cl t _ \<longleftrightarrow> \<not> closure_waiting t cl"

text \<open>The lock of another holder that keeps the condition from holding.\<close>

fun blocked :: "bucket_to_lock \<Rightarrow> bool \<Rightarrow> (u64 \<times> bool) multiset \<Rightarrow> wait_cond \<Rightarrow> bool" where
  "blocked b f M Trylock \<longleftrightarrow> (btl_b b, \<not> f) \<in># M"
| "blocked b f M Bucket_empty \<longleftrightarrow> (\<exists>d g. (d, g) \<in># M \<and> bucket_nocow_lock d = btl_l b)"

text \<open>No wake-up is lost: a caller that sleeps on a list is blocked, or a wake-up of its list is still to come.\<close>

definition no_lost_wakeup :: "bucket_to_lock list \<Rightarrow> bool \<Rightarrow> closure \<Rightarrow> nocow_sys \<Rightarrow> bool" where
  "no_lost_wakeup bs f cl s \<longleftrightarrow> (\<forall>c i. ns_pc s = Sleep c i \<and> closure_waiting (ns_table s) cl \<longrightarrow>
    blocked (bs ! i) f (ns_others s) c \<or> (\<exists>d. (d, True) \<in># ns_wakes s \<and> bucket_nocow_lock d = btl_l (bs ! i)))"

definition nocow_inv :: "bucket_to_lock list \<Rightarrow> bool \<Rightarrow> closure \<Rightarrow> nocow_sys \<Rightarrow> bool" where
  "nocow_inv bs f cl s \<longleftrightarrow> nocow_reach (ns_table s) (ns_others s + pc_own bs f (ns_pc s)) \<and> size (ns_others s) + 6 < 2 ^ 31 - 1 \<and>
    pc_ok (length bs) (ns_pc s) \<and> pc_wait bs cl (ns_table s) (ns_pc s) \<and> no_lost_wakeup bs f cl s"

definition locks_ok :: "bucket_to_lock list \<Rightarrow> bool" where
  "locks_ok bs \<longleftrightarrow> length bs \<le> 6 \<and> (\<forall>b\<in>set bs. btl_l b = bucket_nocow_lock (btl_b b))"

lemma locks_okD: "locks_ok bs \<Longrightarrow> i < length bs \<Longrightarrow> btl_l (bs ! i) = bucket_nocow_lock (btl_b (bs ! i))"
  by (simp add: locks_ok_def)

lemma reach_length: "nocow_reach t H \<Longrightarrow> length t = 4096"
  using table_okD(1) holdsD(1) reach_holds by blast

lemma locks_ok_less: "locks_ok bs \<Longrightarrow> i < length bs \<Longrightarrow> btl_l (bs ! i) < 4096"
  by (simp add: locks_okD bucket_nocow_lock_less)

text \<open>The attempt of the caller on its next lock.\<close>

lemma own_trylock:
  assumes "locks_ok bs" "i < length bs" "nocow_reach t (M + own (take i bs) f)" "size M + 6 < 2 ^ 31 - 1"
  shows "case table_trylock t (btl_l (bs ! i)) (btl_b (bs ! i)) f of
      Inr t' \<Rightarrow> nocow_reach t' (M + own (take (Suc i) bs) f) \<and> waits t' = waits t
    | Inl Nocow_trylock_contended \<Rightarrow> blocked (bs ! i) f M Trylock
    | Inl Nocow_trylock_bucket_full \<Rightarrow> blocked (bs ! i) f M Bucket_empty"
proof -
  let ?b = "bs ! i" and ?H = "M + own (take i bs) f"
  note l = locks_okD [OF assms(1,2)]
  have n: "length bs \<le> 6" using assms(1) by (simp add: locks_ok_def)
  note S = table_trylock_spec [OF reach_holds [OF assms(3)], of "btl_b ?b" f]
  show ?thesis
  proof (cases "table_trylock t (btl_l ?b) (btl_b ?b) f")
    case (Inr t')
    then show ?thesis using nocow_reach.lock [OF assms(3), of "btl_b ?b" f t'] waits_trylock [OF Inr] own_simps(3) [OF assms(2)] by (simp add: l)
  next
    case (Inl e)
    show ?thesis
    proof (cases e)
      case Nocow_trylock_contended
      have "count M (btl_b ?b, f) \<le> size M" by (rule count_le_size)
      moreover have "count (own (take i bs) f) (btl_b ?b, f) \<le> 6" using own_count(1) [of "take i bs" f "btl_b ?b" f] n by simp
      ultimately have "\<not> 2 ^ 31 - 1 \<le> count ?H (btl_b ?b, f)" using assms(4) by simp
      then have "0 < count ?H (btl_b ?b, \<not> f)" using S Inl Nocow_trylock_contended by (simp add: l)
      then have "0 < count M (btl_b ?b, \<not> f)" using own_count(2) [of "\<not> f" f "take i bs" "btl_b ?b"] by simp
      then show ?thesis using Inl Nocow_trylock_contended by simp
    next
      case Nocow_trylock_bucket_full
      then obtain D where D: "card D = 6" "\<forall>e\<in>D. bucket_nocow_lock e = bucket_nocow_lock (btl_b ?b) \<and> (\<exists>g. (e, g) \<in># ?H)"
        using S Inl by (auto simp: l)
      then obtain d g where "(d, g) \<in># M" "bucket_nocow_lock d = btl_l ?b"
        using full_others [OF D(1), of M "take i bs" f] assms(2) n l by auto
      then show ?thesis using Inl Nocow_trylock_bucket_full by auto
    qed
  qed
qed

lemma bucket_empty_blocked:
  assumes "locks_ok bs" "i < length bs" "nocow_reach t M"
  shows "nocow_bucket_empty (t ! btl_l (bs ! i)) \<longleftrightarrow> \<not> blocked (bs ! i) f M Bucket_empty"
  using empty_bucket [OF reach_holds [OF assms(3)] locks_ok_less [OF assms(1,2)]] by fastforce

text \<open>The condition of a wait holds unless the caller is blocked.\<close>

lemma test_cond_cases:
  assumes "locks_ok bs" "i < length bs" "nocow_reach t (M + (if c = Trylock then own (take i bs) f else {#}))" "size M + 6 < 2 ^ 31 - 1"
  obtains (none) "test_cond (bs ! i) f c t = (t, None)" "blocked (bs ! i) f M c"
  | (taken) t' where "c = Trylock" "test_cond (bs ! i) f c t = (t', Some None)" "nocow_reach t' (M + own (take (Suc i) bs) f)" "waits t' = waits t"
  | (full) "c = Trylock" "test_cond (bs ! i) f c t = (t, Some (Some Nocow_trylock_bucket_full))" "blocked (bs ! i) f M Bucket_empty"
  | (empty) "c = Bucket_empty" "test_cond (bs ! i) f c t = (t, Some None)" "\<not> blocked (bs ! i) f M Bucket_empty"
proof (cases c)
  case Trylock
  note S = own_trylock [OF assms(1,2) assms(3) [unfolded if_P [OF Trylock]] assms(4)]
  show ?thesis
  proof (cases "table_trylock t (btl_l (bs ! i)) (btl_b (bs ! i)) f")
    case (Inr t')
    then show ?thesis using S Trylock by (intro taken [of t']) simp_all
  next
    case (Inl e)
    show ?thesis
    proof (cases e)
      case Nocow_trylock_bucket_full
      then show ?thesis using S Inl Trylock by (intro full) simp_all
    next
      case Nocow_trylock_contended
      then show ?thesis using S Inl Trylock by (intro none) simp_all
    qed
  qed
next
  case Bucket_empty
  note B = bucket_empty_blocked [OF assms(1,2), of t M f]
  show ?thesis
  proof (cases "nocow_bucket_empty (t ! btl_l (bs ! i))")
    case True
    then show ?thesis using B assms(3) Bucket_empty by (intro empty) simp_all
  next
    case False
    then show ?thesis using B assms(3) Bucket_empty by (intro none) simp_all
  qed
qed

subsection \<open>Progress\<close>

text \<open>The number of steps that the caller can still make while the other holders do nothing is bounded by a rank.  A caller that was woken
  has to test its condition again; one that found its lock bucket full starts over once the bucket is empty, which needs a release.\<close>

fun lock_rank :: "bucket_to_lock list \<Rightarrow> bool \<Rightarrow> (u64 \<times> bool) multiset \<Rightarrow> bool \<Rightarrow> lock_pc \<Rightarrow> nat" where
  "lock_rank bs f M waiting Start = 300"
| "lock_rank bs f M waiting (Take i) = 10 * (length bs - i) + 49"
| "lock_rank bs f M waiting (Pretest c i) =
    (if c = Trylock then 10 * (length bs - i) + 48 else if blocked (bs ! i) f M Bucket_empty then 18 else 218)"
| "lock_rank bs f M waiting (Enqueue c i) =
    (if c = Trylock then 10 * (length bs - i) + 46 else if blocked (bs ! i) f M Bucket_empty then 16 else 216)"
| "lock_rank bs f M waiting (Test c i) = (if waiting then 0 else 3) +
    (if c = Trylock then 10 * (length bs - i) + 45 else if blocked (bs ! i) f M Bucket_empty then 15 else 215)"
| "lock_rank bs f M waiting (Sleep c i) = (if waiting then 0 else 7) +
    (if c = Trylock then 10 * (length bs - i) + 40 else if blocked (bs ! i) f M Bucket_empty then 10 else 210)"
| "lock_rank bs f M waiting (Wake c i ret) =
    (if c = Bucket_empty then 212 else if ret = None \<or> blocked (bs ! i) f M Bucket_empty then 10 * (length bs - i) + 44 else 230)"
| "lock_rank bs f M waiting (Unwind i j) = (if blocked (bs ! i) f M Bucket_empty then 20 else 220) + (i - j)"
| "lock_rank bs f M waiting Finished = 0"

definition sys_rank :: "bucket_to_lock list \<Rightarrow> bool \<Rightarrow> closure \<Rightarrow> nocow_sys \<Rightarrow> nat" where
  "sys_rank bs f cl s = 1000 * (2 * size (ns_others s) + size (ns_wakes s)) +
    lock_rank bs f (ns_others s) (closure_waiting (ns_table s) cl) (ns_pc s)"

lemma lock_rank_less: "length bs \<le> 6 \<Longrightarrow> pc_ok (length bs) pc \<Longrightarrow> lock_rank bs f M w pc < 1000"
  by (cases pc) auto

text \<open>A step of the caller keeps the invariant and lowers the rank.\<close>

definition good_step :: "bucket_to_lock list \<Rightarrow> bool \<Rightarrow> closure \<Rightarrow> nocow_sys \<Rightarrow> bucket_nocow_lock_table \<Rightarrow> lock_pc \<Rightarrow> bool" where
  "good_step bs f cl s t' pc' \<longleftrightarrow> nocow_inv bs f cl (s\<lparr>ns_table := t', ns_pc := pc'\<rparr>) \<and>
    lock_rank bs f (ns_others s) (closure_waiting t' cl) pc' < lock_rank bs f (ns_others s) (closure_waiting (ns_table s) cl) (ns_pc s)"

lemma good_stepI:
  assumes "nocow_inv bs f cl s" "nocow_reach t' (ns_others s + pc_own bs f pc')" "pc_ok (length bs) pc'" "pc_wait bs cl t' pc'"
    and "\<And>c i. pc' = Sleep c i \<Longrightarrow> blocked (bs ! i) f (ns_others s) c"
    and "lock_rank bs f (ns_others s) (closure_waiting t' cl) pc' < lock_rank bs f (ns_others s) (closure_waiting (ns_table s) cl) (ns_pc s)"
  shows "good_step bs f cl s t' pc'"
  using assms by (auto simp: good_step_def nocow_inv_def no_lost_wakeup_def)

lemma nocow_invD:
  assumes "nocow_inv bs f cl s"
  shows "nocow_reach (ns_table s) (ns_others s + pc_own bs f (ns_pc s))" "size (ns_others s) + 6 < 2 ^ 31 - 1"
    "pc_ok (length bs) (ns_pc s)" "pc_wait bs cl (ns_table s) (ns_pc s)" "no_lost_wakeup bs f cl s"
  using assms by (auto simp: nocow_inv_def)

lemma lock_order_ok:
  assumes "length ptrs \<le> 6"
  shows "locks_ok (lock_order ptrs)" "own (lock_order ptrs) f = key_locks ptrs f"
proof -
  have m: "mset (lock_order ptrs) = mset (buckets_to_lock ptrs)" unfolding lock_order_def by (rule bubble_sort_perm [OF bucket_cmp_cmp_order])
  show "own (lock_order ptrs) f = key_locks ptrs f" by (simp add: own_def key_locks_def m)
  have "length (lock_order ptrs) \<le> 6" using length_buckets_to_lock [of ptrs] assms mset_eq_length [OF m] by simp
  then show "locks_ok (lock_order ptrs)" using buckets_to_lock_home mset_eq_setD [OF m] by (auto simp: locks_ok_def)
qed

lemma start_step:
  assumes "length ptrs \<le> 6" "nocow_inv (lock_order ptrs) f cl s" "ns_pc s = Start"
  shows "\<exists>t' pc'. bch2_bkey_nocow_lock ptrs f has_trans cl (ns_table s) Start = Some (t', pc') \<and> good_step (lock_order ptrs) f cl s t' pc'"
proof -
  note I = nocow_invD [OF assms(2)]
  have l: "length (lock_order ptrs) \<le> 6" using lock_order_ok(1) [OF assms(1)] by (simp add: locks_ok_def)
  have r: "nocow_reach (ns_table s) (ns_others s)" using I(1) assms(3) by simp
  have w: "\<not> closure_waiting (ns_table s) cl" using I(4) assms(3) by simp
  obtain ok t' where t': "trylock_ptrs (ns_table s) [] ptrs f = Some (ok, t')"
      "nocow_reach t' (if ok then ns_others s + key_locks ptrs f else ns_others s)"
    using key_trylock_cases [OF r] by blast
  have w': "\<not> closure_waiting t' cl" using waiting_key_trylock [OF t'(1)] w by blast
  have "good_step (lock_order ptrs) f cl s t' (if ok then Finished else Take 0)"
    by (rule good_stepI [OF assms(2)]) (use t'(2) w' assms(3) l lock_order_ok(2) [OF assms(1)] in \<open>auto simp: own_simps split: if_splits\<close>)
  then show ?thesis using t'(1) by (simp add: bch2_bkey_nocow_trylock_def)
qed

lemma take_step:
  assumes "locks_ok (lock_order ptrs)" "nocow_inv (lock_order ptrs) f cl s" "ns_pc s = Take i"
  shows "\<exists>t' pc'. bch2_bkey_nocow_lock ptrs f has_trans cl (ns_table s) (Take i) = Some (t', pc') \<and> good_step (lock_order ptrs) f cl s t' pc'"
proof -
  let ?bs = "lock_order ptrs" and ?t = "ns_table s"
  note I = nocow_invD [OF assms(2), unfolded assms(3) pc_own.simps pc_ok.simps pc_wait.simps]
  have n: "length ?bs \<le> 6" using assms(1) by (simp add: locks_ok_def)
  show ?thesis
  proof (cases "i = length ?bs")
    case True
    have "good_step ?bs f cl s ?t Finished" by (rule good_stepI [OF assms(2)]) (use I True assms(3) in auto)
    then show ?thesis using True by simp
  next
    case False
    then have i: "i < length ?bs" using I(3) by simp
    note S = own_trylock [OF assms(1) i I(1,2)]
    show ?thesis
    proof (cases "table_trylock ?t (btl_l (?bs ! i)) (btl_b (?bs ! i)) f")
      case (Inr t')
      then have a: "nocow_reach t' (ns_others s + own (take (Suc i) ?bs) f)" "waits t' = waits ?t" using S by simp_all
      have "good_step ?bs f cl s t' (Take (i + 1))"
        by (rule good_stepI [OF assms(2)]) (use a I i assms(3) waiting_waits [OF a(2)] in auto)
      then show ?thesis using Inr i by simp
    next
      case (Inl e)
      have "good_step ?bs f cl s ?t (if e = Nocow_trylock_contended then nocow_lock_wait has_trans Trylock i else Unwind i 0)"
        by (rule good_stepI [OF assms(2)])
          (use S Inl I i n assms(3) in \<open>auto simp: nocow_lock_wait_def split: nocow_err.splits if_splits\<close>)
      then show ?thesis using Inl i by simp
    qed
  qed
qed

lemma pretest_step:
  assumes "locks_ok (lock_order ptrs)" "nocow_inv (lock_order ptrs) f cl s" "ns_pc s = Pretest c i"
  shows "\<exists>t' pc'. bch2_bkey_nocow_lock ptrs f has_trans cl (ns_table s) (Pretest c i) = Some (t', pc') \<and> good_step (lock_order ptrs) f cl s t' pc'"
proof -
  let ?bs = "lock_order ptrs" and ?t = "ns_table s"
  note I = nocow_invD [OF assms(2), unfolded assms(3) pc_own.simps pc_ok.simps pc_wait.simps]
  have n: "length ?bs \<le> 6" using assms(1) by (simp add: locks_ok_def)
  show ?thesis
  proof (rule test_cond_cases [OF assms(1) I(3,1,2)])
    assume "test_cond (?bs ! i) f c ?t = (?t, None)" "blocked (?bs ! i) f (ns_others s) c"
    moreover have "good_step ?bs f cl s ?t (Enqueue c i)" by (rule good_stepI [OF assms(2)]) (use I assms(3) in auto)
    ultimately show ?thesis by simp
  next
    fix t'
    assume a: "c = Trylock" "test_cond (?bs ! i) f c ?t = (t', Some None)" "nocow_reach t' (ns_others s + own (take (Suc i) ?bs) f)" "waits t' = waits ?t"
    have "good_step ?bs f cl s t' (Take (i + 1))" by (rule good_stepI [OF assms(2)]) (use I assms(3) a waiting_waits [OF a(4)] in auto)
    then show ?thesis using a(1,2) by simp
  next
    assume a: "c = Trylock" "test_cond (?bs ! i) f c ?t = (?t, Some (Some Nocow_trylock_bucket_full))" "blocked (?bs ! i) f (ns_others s) Bucket_empty"
    have "good_step ?bs f cl s ?t (Unwind i 0)" by (rule good_stepI [OF assms(2)]) (use I assms(3) a n in auto)
    then show ?thesis using a(1,2) by simp
  next
    assume a: "c = Bucket_empty" "test_cond (?bs ! i) f c ?t = (?t, Some None)" "\<not> blocked (?bs ! i) f (ns_others s) Bucket_empty"
    have "good_step ?bs f cl s ?t (Take 0)" by (rule good_stepI [OF assms(2)]) (use I assms(3) a n in \<open>auto simp: own_simps\<close>)
    then show ?thesis using a(1,2) by simp
  qed
qed

lemma enqueue_step:
  assumes "locks_ok (lock_order ptrs)" "nocow_inv (lock_order ptrs) f cl s" "ns_pc s = Enqueue c i"
  shows "\<exists>t' pc'. bch2_bkey_nocow_lock ptrs f has_trans cl (ns_table s) (Enqueue c i) = Some (t', pc') \<and> good_step (lock_order ptrs) f cl s t' pc'"
proof -
  let ?bs = "lock_order ptrs" and ?t = "ns_table s"
  note I = nocow_invD [OF assms(2), unfolded assms(3) pc_own.simps pc_ok.simps pc_wait.simps]
  have "btl_l (?bs ! i) < length ?t" using locks_ok_less [OF assms(1) I(3)] reach_length [OF I(1)] by simp
  note W = waiting_closure_wait [OF I(4) this]
  have "good_step ?bs f cl s (bch2_closure_wait ?t (btl_l (?bs ! i)) cl) (Test c i)"
    by (rule good_stepI [OF assms(2)]) (use I W nocow_reach.wait [OF I(1)] assms(3) in auto)
  then show ?thesis by simp
qed

lemma test_step:
  assumes "locks_ok (lock_order ptrs)" "nocow_inv (lock_order ptrs) f cl s" "ns_pc s = Test c i"
  shows "\<exists>t' pc'. bch2_bkey_nocow_lock ptrs f has_trans cl (ns_table s) (Test c i) = Some (t', pc') \<and> good_step (lock_order ptrs) f cl s t' pc'"
proof -
  let ?bs = "lock_order ptrs" and ?t = "ns_table s"
  note I = nocow_invD [OF assms(2), unfolded assms(3) pc_own.simps pc_ok.simps pc_wait.simps]
  show ?thesis
  proof (rule test_cond_cases [OF assms(1) I(3,1,2)])
    assume a: "test_cond (?bs ! i) f c ?t = (?t, None)" "blocked (?bs ! i) f (ns_others s) c"
    have "good_step ?bs f cl s ?t (Sleep c i)" by (rule good_stepI [OF assms(2)]) (use I assms(3) a in auto)
    then show ?thesis using a by simp
  next
    fix t'
    assume a: "c = Trylock" "test_cond (?bs ! i) f c ?t = (t', Some None)" "nocow_reach t' (ns_others s + own (take (Suc i) ?bs) f)" "waits t' = waits ?t"
    have "good_step ?bs f cl s t' (Wake c i None)" by (rule good_stepI [OF assms(2)]) (use I assms(3) a waiting_waits [OF a(4)] in auto)
    then show ?thesis using a(2) by simp
  next
    assume a: "c = Trylock" "test_cond (?bs ! i) f c ?t = (?t, Some (Some Nocow_trylock_bucket_full))" "blocked (?bs ! i) f (ns_others s) Bucket_empty"
    have "good_step ?bs f cl s ?t (Wake c i (Some Nocow_trylock_bucket_full))" by (rule good_stepI [OF assms(2)]) (use I assms(3) a in auto)
    then show ?thesis using a(2) by simp
  next
    assume a: "c = Bucket_empty" "test_cond (?bs ! i) f c ?t = (?t, Some None)" "\<not> blocked (?bs ! i) f (ns_others s) Bucket_empty"
    have "good_step ?bs f cl s ?t (Wake c i None)" by (rule good_stepI [OF assms(2)]) (use I assms(3) a in auto)
    then show ?thesis using a(2) by simp
  qed
qed

lemma sleep_step:
  assumes "nocow_inv (lock_order ptrs) f cl s" "ns_pc s = Sleep c i" "\<not> closure_waiting (ns_table s) cl"
  shows "\<exists>t' pc'. bch2_bkey_nocow_lock ptrs f has_trans cl (ns_table s) (Sleep c i) = Some (t', pc') \<and> good_step (lock_order ptrs) f cl s t' pc'"
proof -
  note I = nocow_invD [OF assms(1), unfolded assms(2) pc_own.simps pc_ok.simps pc_wait.simps]
  have "good_step (lock_order ptrs) f cl s (ns_table s) (Enqueue c i)" by (rule good_stepI [OF assms(1)]) (use I assms(2,3) in auto)
  then show ?thesis using assms(3) by simp
qed

lemma wake_step:
  assumes "locks_ok (lock_order ptrs)" "nocow_inv (lock_order ptrs) f cl s" "ns_pc s = Wake c i ret"
  shows "\<exists>t' pc'. bch2_bkey_nocow_lock ptrs f has_trans cl (ns_table s) (Wake c i ret) = Some (t', pc') \<and> good_step (lock_order ptrs) f cl s t' pc'"
proof -
  let ?bs = "lock_order ptrs"
  let ?t = "closure_wake_up (ns_table s) (btl_l (?bs ! i))"
  note I = nocow_invD [OF assms(2), unfolded assms(3) pc_own.simps pc_ok.simps pc_wait.simps]
  have n: "length ?bs \<le> 6" using assms(1) by (simp add: locks_ok_def)
  note W = waiting_wake_up(2) [OF I(4)] nocow_reach.wake [OF I(1), of "btl_l (?bs ! i)"]
  consider "c = Bucket_empty" | "c = Trylock" "ret = None" | "c = Trylock" "ret = Some Nocow_trylock_bucket_full"
    using I(3) by (metis nocow_err.exhaust not_None_eq wait_cond.exhaust)
  then show ?thesis
  proof cases
    case 1
    have "good_step ?bs f cl s ?t (Take 0)" by (rule good_stepI [OF assms(2)]) (use I W assms(3) 1 n in \<open>auto simp: own_simps\<close>)
    then show ?thesis using 1 by simp
  next
    case 2
    have "good_step ?bs f cl s ?t (Take (i + 1))" by (rule good_stepI [OF assms(2)]) (use I W assms(3) 2 in auto)
    then show ?thesis using 2 by simp
  next
    case 3
    have "good_step ?bs f cl s ?t (Unwind i 0)" by (rule good_stepI [OF assms(2)]) (use I W assms(3) 3 n in auto)
    then show ?thesis using 3 by simp
  qed
qed

lemma unwind_step:
  assumes "locks_ok (lock_order ptrs)" "nocow_inv (lock_order ptrs) f cl s" "ns_pc s = Unwind i j"
  shows "\<exists>t' pc'. bch2_bkey_nocow_lock ptrs f has_trans cl (ns_table s) (Unwind i j) = Some (t', pc') \<and> good_step (lock_order ptrs) f cl s t' pc'"
proof -
  let ?bs = "lock_order ptrs"
  note I = nocow_invD [OF assms(2), unfolded assms(3) pc_own.simps pc_ok.simps pc_wait.simps]
  show ?thesis
  proof (cases "j < i")
    case True
    have "drop j (take i ?bs) = ?bs ! j # drop (Suc j) (take i ?bs)" using True I(3) by (simp add: Cons_nth_drop_Suc [symmetric])
    then have "own (drop j (take i ?bs)) f = add_mset (btl_b (?bs ! j), f) (own (drop (Suc j) (take i ?bs)) f)" by (simp add: own_simps)
    then obtain t' w where u: "raw_bch2_bucket_nocow_unlock (ns_table s) (btl_b (?bs ! j)) f = Some (t', w)"
        "nocow_reach t' (ns_others s + own (drop (Suc j) (take i ?bs)) f)"
      using reach_unlock [of "ns_table s" "btl_b (?bs ! j)" f "ns_others s + own (drop (Suc j) (take i ?bs)) f"] I(1) by auto
    have "good_step ?bs f cl s t' (Unwind i (j + 1))"
      by (rule good_stepI [OF assms(2)]) (use I u(2) waiting_unlock [OF u(1)] True assms(3) in auto)
    then show ?thesis using u(1) True by simp
  next
    case False
    have "good_step ?bs f cl s (ns_table s) (nocow_lock_wait has_trans Bucket_empty i)"
      by (rule good_stepI [OF assms(2)]) (use I False assms(3) in \<open>auto simp: nocow_lock_wait_def own_simps split: if_splits\<close>)
    then show ?thesis using False by simp
  qed
qed

lemma caller_step:
  assumes "length ptrs \<le> 6" "nocow_inv (lock_order ptrs) f cl s" "ns_pc s \<noteq> Finished"
    and "\<And>c i. ns_pc s = Sleep c i \<Longrightarrow> \<not> closure_waiting (ns_table s) cl"
  shows "\<exists>t' pc'. bch2_bkey_nocow_lock ptrs f has_trans cl (ns_table s) (ns_pc s) = Some (t', pc') \<and> good_step (lock_order ptrs) f cl s t' pc'"
proof -
  note L = lock_order_ok(1) [OF assms(1)]
  show ?thesis
    by (cases "ns_pc s")
      (use start_step [OF assms(1,2)] take_step [OF L assms(2)] pretest_step [OF L assms(2)] enqueue_step [OF L assms(2)] test_step [OF L assms(2)]
        sleep_step [OF assms(2)] wake_step [OF L assms(2)] unwind_step [OF L assms(2)] assms(3,4) in metis)+
qed

lemma last_removed:
  assumes "x \<in># M" "x \<notin># M - {#y#}"
  shows "y = x \<and> count M x = 1"
proof -
  have "count M x \<noteq> 0" using assms(1) by simp
  moreover have "count M x - count {#y#} x = 0" using assms(2) by (simp add: not_in_iff)
  moreover have "count {#y#} x = (if x = y then 1 else 0)" by simp
  ultimately have "x = y \<and> count M x = 1" by (smt (verit) diff_is_0_eq le_zero_eq le_antisym less_one not_le)
  then show ?thesis by blast
qed

text \<open>A release by another holder keeps the invariant: when it ends what blocks a sleeping caller, it reports a count of zero, so the wake-up follows.\<close>

lemma release_wakes:
  assumes "nocow_inv bs f cl s" "locks_ok bs" "(d, g) \<in># ns_others s" "nocow_unlock_sub (ns_table s) d g = Some (t', zero)"
    and "ns_pc s = Sleep c i" "blocked (bs ! i) f (ns_others s) c" "\<not> blocked (bs ! i) f (ns_others s - {#(d, g)#}) c"
  shows "zero \<and> bucket_nocow_lock d = btl_l (bs ! i)"
proof -
  let ?O = "ns_others s"
  note I = nocow_invD [OF assms(1), unfolded assms(5) pc_own.simps pc_ok.simps]
  let ?o = "if c = Trylock then own (take i bs) f else {#}"
  have z: "zero \<longleftrightarrow> count (?O + ?o) (d, g) = 1"
    using unlock_sub_spec [OF reach_holds [OF I(1)], of d g] assms(3,4) by auto
  show ?thesis
  proof (cases c)
    case Trylock
    then have "(d, g) = (btl_b (bs ! i), \<not> f)" "count ?O (d, g) = 1" using last_removed [of "(btl_b (bs ! i), \<not> f)" ?O "(d, g)"] assms(6,7) by auto
    then show ?thesis using z Trylock own_count(2) [of g f "take i bs" d] locks_okD [OF assms(2) I(3)] by simp
  next
    case Bucket_empty
    then obtain e g' where e: "(e, g') \<in># ?O" "bucket_nocow_lock e = btl_l (bs ! i)" "(e, g') \<notin># ?O - {#(d, g)#}" using assms(6,7) by auto
    then have "(d, g) = (e, g')" "count ?O (d, g) = 1" using last_removed [OF e(1,3)] by auto
    then show ?thesis using z Bucket_empty e(2) by simp
  qed
qed

lemma release_inv:
  assumes "locks_ok bs" "nocow_inv bs f cl s" "(d, g) \<in># ns_others s" "nocow_unlock_sub (ns_table s) d g = Some (t', zero)"
  shows "nocow_inv bs f cl (s\<lparr>ns_table := t', ns_others := ns_others s - {#(d, g)#}, ns_wakes := add_mset (d, zero) (ns_wakes s)\<rparr>)"
    (is "nocow_inv bs f cl ?s")
proof -
  note I = nocow_invD [OF assms(2)] and w = waiting_waits [OF waits_unlock_sub [OF assms(4)]]
  have "nocow_reach t' (ns_others s + pc_own bs f (ns_pc s) - {#(d, g)#})" by (rule nocow_reach.unlock [OF I(1) _ assms(4)]) (use assms(3) in simp)
  then have r: "nocow_reach t' (ns_others s - {#(d, g)#} + pc_own bs f (ns_pc s))" using assms(3) by simp
  have p: "pc_wait bs cl t' (ns_pc s)" using I(4) w by (cases "ns_pc s") simp_all
  have "size (ns_others s - {#(d, g)#}) \<le> size (ns_others s)" by (simp add: size_mset_mono)
  then have z: "size (ns_others s - {#(d, g)#}) + 6 < 2 ^ 31 - 1" using I(2) by linarith
  have "no_lost_wakeup bs f cl ?s"
    unfolding no_lost_wakeup_def
  proof (intro allI impI, elim conjE)
    fix c i
    assume a: "ns_pc ?s = Sleep c i" "closure_waiting (ns_table ?s) cl"
    then have "blocked (bs ! i) f (ns_others s) c \<or> (\<exists>d. (d, True) \<in># ns_wakes s \<and> bucket_nocow_lock d = btl_l (bs ! i))"
      using I(5) w(1) by (simp add: no_lost_wakeup_def)
    then show "blocked (bs ! i) f (ns_others ?s) c \<or> (\<exists>d. (d, True) \<in># ns_wakes ?s \<and> bucket_nocow_lock d = btl_l (bs ! i))"
      using release_wakes [OF assms(2,1,3,4), of c i] a(1) by auto
  qed
  then show ?thesis using r p z I(3) by (simp add: nocow_inv_def)
qed

lemma wake_inv:
  assumes "nocow_inv bs f cl s" "(d, zero) \<in># ns_wakes s"
  shows "nocow_inv bs f cl (s\<lparr>ns_table := nocow_unlock_wake (ns_table s) d zero, ns_wakes := ns_wakes s - {#(d, zero)#}\<rparr>)"
    (is "nocow_inv bs f cl ?s")
proof -
  let ?t = "nocow_unlock_wake (ns_table s) d zero"
  note I = nocow_invD [OF assms(1)]
  have r: "nocow_reach ?t (ns_others s + pc_own bs f (ns_pc s))" using I(1) nocow_reach.wake by (simp add: nocow_unlock_wake_def)
  have p: "pc_wait bs cl ?t (ns_pc s)"
    using I(4) waiting_wake_up(1,3) by (cases "ns_pc s") (auto simp: nocow_unlock_wake_def)
  have "no_lost_wakeup bs f cl ?s"
    unfolding no_lost_wakeup_def
  proof (intro allI impI, elim conjE)
    fix c i
    assume a: "ns_pc ?s = Sleep c i" "closure_waiting (ns_table ?s) cl"
    then have o: "only_on (ns_table s) (btl_l (bs ! i)) cl" using I(4) by simp
    have w: "closure_waiting (ns_table s) cl" "\<not> (zero \<and> bucket_nocow_lock d = btl_l (bs ! i))"
      using a(2) waiting_wake_up(1,2) [of "ns_table s"] o by (auto simp: nocow_unlock_wake_def split: if_splits)
    then have "blocked (bs ! i) f (ns_others s) c \<or> (\<exists>e. (e, True) \<in># ns_wakes s \<and> bucket_nocow_lock e = btl_l (bs ! i))"
      using I(5) a(1) by (simp add: no_lost_wakeup_def)
    moreover have "(e, True) \<in># ns_wakes s - {#(d, zero)#}" if "(e, True) \<in># ns_wakes s" "bucket_nocow_lock e = btl_l (bs ! i)" for e
      using that w(2) by (cases "(e, True) = (d, zero)") (auto simp: in_diff_count)
    ultimately show "blocked (bs ! i) f (ns_others ?s) c \<or> (\<exists>e. (e, True) \<in># ns_wakes ?s \<and> bucket_nocow_lock e = btl_l (bs ! i))" by auto
  qed
  then show ?thesis using r p I(2,3) by (simp add: nocow_inv_def)
qed

lemma step_inv_rank:
  assumes "length ptrs \<le> 6" "nocow_inv (lock_order ptrs) f cl s" "nocow_step ptrs f has_trans cl s s'"
  shows "nocow_inv (lock_order ptrs) f cl s' \<and> sys_rank (lock_order ptrs) f cl s' < sys_rank (lock_order ptrs) f cl s"
  using assms(3)
proof cases
  case (caller t' pc')
  have "ns_pc s \<noteq> Finished" "\<And>c i. ns_pc s = Sleep c i \<Longrightarrow> \<not> closure_waiting (ns_table s) cl" using caller(2) by auto
  then have "good_step (lock_order ptrs) f cl s t' pc'" using caller_step [OF assms(1,2), of has_trans] caller(2) by auto
  then show ?thesis unfolding caller(1) by (simp add: good_step_def sys_rank_def)
next
  case (release d g t' zero)
  note L = lock_order_ok(1) [OF assms(1)]
  note i = release_inv [OF L assms(2) release(2,3)]
  then have "lock_rank (lock_order ptrs) f (ns_others s') (closure_waiting (ns_table s') cl) (ns_pc s') < 1000"
    using lock_rank_less nocow_invD(3) L unfolding release(1) locks_ok_def by blast
  moreover have "size (ns_others s) = Suc (size (ns_others s'))" using release(1,2) by (simp add: size_Suc_Diff1)
  ultimately have "sys_rank (lock_order ptrs) f cl s' < sys_rank (lock_order ptrs) f cl s" using release(1) by (simp add: sys_rank_def)
  then show ?thesis using i release(1) by simp
next
  case (wake d zero)
  note L = lock_order_ok(1) [OF assms(1)]
  note i = wake_inv [OF assms(2) wake(2)]
  then have "lock_rank (lock_order ptrs) f (ns_others s') (closure_waiting (ns_table s') cl) (ns_pc s') < 1000"
    using lock_rank_less nocow_invD(3) L unfolding wake(1) locks_ok_def by blast
  moreover have "size (ns_wakes s) = Suc (size (ns_wakes s'))" using wake(1,2) by (simp add: size_Suc_Diff1)
  ultimately have "sys_rank (lock_order ptrs) f cl s' < sys_rank (lock_order ptrs) f cl s" using wake(1) by (simp add: sys_rank_def)
  then show ?thesis using i wake(1) by simp
qed

lemma steps_rank:
  assumes "length ptrs \<le> 6" "nocow_inv (lock_order ptrs) f cl s" "(nocow_step ptrs f has_trans cl ^^ n) s s'"
  shows "nocow_inv (lock_order ptrs) f cl s' \<and> n + sys_rank (lock_order ptrs) f cl s' \<le> sys_rank (lock_order ptrs) f cl s"
  using assms(3)
proof (induction n arbitrary: s')
  case (Suc n)
  then obtain s1 where "(nocow_step ptrs f has_trans cl ^^ n) s s1" "nocow_step ptrs f has_trans cl s1 s'" by auto
  then show ?case using Suc.IH [of s1] step_inv_rank [OF assms(1), of f cl s1 has_trans s'] by auto
qed (use assms(2) in simp)

text \<open>No state is stuck: a caller that sleeps is blocked, and then the other holder can release, or its wake-up is under way.\<close>

lemma step_possible:
  assumes "length ptrs \<le> 6" "nocow_inv (lock_order ptrs) f cl s" "ns_pc s \<noteq> Finished"
  shows "\<exists>s'. nocow_step ptrs f has_trans cl s s'"
proof (cases "\<exists>c i. ns_pc s = Sleep c i \<and> closure_waiting (ns_table s) cl")
  case False
  then show ?thesis using caller_step [OF assms, of has_trans] nocow_step.caller by blast
next
  case True
  note I = nocow_invD [OF assms(2)]
  obtain c i where "ns_pc s = Sleep c i" "closure_waiting (ns_table s) cl" using True by blast
  then have "blocked (lock_order ptrs ! i) f (ns_others s) c \<or> (\<exists>d. (d, True) \<in># ns_wakes s)" using I(5) unfolding no_lost_wakeup_def by blast
  then consider d g where "(d, g) \<in># ns_others s" | d where "(d, True) \<in># ns_wakes s" by (cases c) auto
  then show ?thesis
  proof cases
    case 1
    then obtain t' z where "nocow_unlock_sub (ns_table s) d g = Some (t', z)" using unlock_sub_spec [OF reach_holds [OF I(1)], of d g] by auto
    then show ?thesis using nocow_step.release [OF 1] by blast
  next
    case 2
    then show ?thesis using nocow_step.wake by blast
  qed
qed

lemma nocow_inv_start: "nocow_reach t H \<Longrightarrow> \<not> closure_waiting t cl \<Longrightarrow> size H + 6 < 2 ^ 31 - 1 \<Longrightarrow> nocow_inv bs f cl (nocow_start t H)"
  by (simp add: nocow_inv_def nocow_start_def no_lost_wakeup_def)

lemma waits_unlock:
  "raw_bch2_bucket_nocow_unlock t d f = Some (t', zero) \<Longrightarrow> waits t' = (if zero then (waits t)[bucket_nocow_lock d := []] else waits t)"
  by (auto simp: raw_bch2_bucket_nocow_unlock_def nocow_unlock_wake_def waits_wake_up dest!: waits_unlock_sub)

text \<open>With few locks held no lock bucket is full.\<close>

lemma few_locks_not_full:
  assumes "holds t H" "size H < 6"
  shows "table_trylock t (bucket_nocow_lock d) d f \<noteq> Inl Nocow_trylock_bucket_full"
proof
  assume "table_trylock t (bucket_nocow_lock d) d f = Inl Nocow_trylock_bucket_full"
  then obtain D where D: "card D = 6" "\<forall>e\<in>D. \<exists>g. (e, g) \<in># H" using table_trylock_spec [OF assms(1), of d f] by auto
  have "D \<subseteq> fst ` set_mset H" using D(2) by force
  then have "card D \<le> card (fst ` set_mset H)" by (intro card_mono) auto
  also have "\<dots> \<le> card (set_mset H)" by (intro card_image_le) simp
  also have "\<dots> \<le> size H" using size_mset_set [of "set_mset H"] mset_set_set_mset_msubset [of H] size_mset_mono by metis
  finally show False using D(1) assms(2) by simp
qed

lemma trylock_cases: "(r :: nocow_err + 'a) \<noteq> Inl Nocow_trylock_contended \<Longrightarrow> r \<noteq> Inl Nocow_trylock_bucket_full \<Longrightarrow> (\<And>t. r = Inr t \<Longrightarrow> P) \<Longrightarrow> P"
  by (cases r) (auto intro: nocow_err.exhaust)

lemma trylock_succeeds:
  assumes "nocow_reach t H" "size H < 6" "(d, \<not> f) \<notin># H"
  shows "\<exists>t'. table_trylock t (bucket_nocow_lock d) d f = Inr t' \<and> nocow_reach t' (add_mset (d, f) H)"
proof -
  have "count H (d, f) \<le> size H" by (rule count_le_size)
  then have "count H (d, f) < 2 ^ 31 - 1" using assms(2) by simp
  then have "table_trylock t (bucket_nocow_lock d) d f \<noteq> Inl Nocow_trylock_contended"
    using table_trylock_spec [OF reach_holds [OF assms(1)], of d f] assms(3) by (auto simp: not_in_iff)
  moreover have "table_trylock t (bucket_nocow_lock d) d f \<noteq> Inl Nocow_trylock_bucket_full"
    by (rule few_locks_not_full [OF reach_holds [OF assms(1)] assms(2)])
  ultimately obtain t' where "table_trylock t (bucket_nocow_lock d) d f = Inr t'" by (rule trylock_cases)
  then show ?thesis using nocow_reach.lock [OF assms(1)] by blast
qed

lemma trylock_contended:
  assumes "nocow_reach t H" "size H < 6" "(d, \<not> f) \<in># H"
  shows "table_trylock t (bucket_nocow_lock d) d f = Inl Nocow_trylock_contended"
proof (cases "table_trylock t (bucket_nocow_lock d) d f")
  case (Inl e)
  then show ?thesis using few_locks_not_full [OF reach_holds [OF assms(1)] assms(2), of d f] by (cases e) auto
next
  case (Inr t')
  then have "holds t' (add_mset (d, f) H)" using table_trylock_spec [OF reach_holds [OF assms(1)], of d f] by simp
  then show ?thesis using holdsD(3) [of t' "add_mset (d, f) H" d] assms(3) by (cases f) (auto simp: count_eq_zero_iff)
qed

lemma key_trylock_succeeds:
  "nocow_reach t (H + key_locks before f) \<Longrightarrow> size (H + key_locks before f) + length ptrs \<le> 6 \<Longrightarrow> \<forall>(d, g)\<in>#H. g = f \<Longrightarrow>
    \<exists>t'. trylock_ptrs t before ptrs f = Some (True, t')"
proof (induction t before ptrs f rule: trylock_ptrs.induct)
  case (3 t before p ptrs f)
  have "(bucket_to_u64 p, \<not> f) \<notin># H + key_locks before f" using 3(4) by (auto simp: key_locks_def)
  then obtain t' where t': "table_trylock t (bucket_nocow_lock (bucket_to_u64 p)) (bucket_to_u64 p) f = Inr t'"
      "nocow_reach t' (H + key_locks (before @ [Some p]) f)"
    using trylock_succeeds [OF 3(2)] 3(3) by auto
  then have b: "bch2_bucket_nocow_trylock t p f = (True, t')" by (simp add: bch2_bucket_nocow_trylock_def)
  have "\<exists>t''. trylock_ptrs t' (before @ [Some p]) ptrs f = Some (True, t'')" by (rule 3(1) [OF b [symmetric] _ t'(2) _ 3(4)]) (use 3(3) in simp_all)
  then show ?case using b by simp
qed auto

section \<open>Properties\<close>

text \<open>C7. Mutual exclusion: however update and copy locks are taken and released, the two kinds are never held together on one disk bucket;
  the lock bucket reports exactly the disk buckets with locks; releasing a lock that is held never fails an assertion and wakes the
  waiters, all of its lock bucket, exactly when it was the last one; and the check at shutdown passes exactly when no lock is left.\<close>

theorem nocow_mutual_exclusion:
  assumes "nocow_reach t H"
  shows "\<not> ((d, True) \<in># H \<and> (d, False) \<in># H) \<and> (bch2_bucket_nocow_is_locked t p \<longleftrightarrow> (\<exists>f. (bucket_to_u64 p, f) \<in># H)) \<and>
    ((d, f) \<in># H \<longrightarrow> (\<exists>t'. raw_bch2_bucket_nocow_unlock t d f = Some (t', count H (d, f) = 1) \<and> nocow_reach t' (H - {#(d, f)#}) \<and>
      waits t' = (if count H (d, f) = 1 then (waits t)[bucket_nocow_lock d := []] else waits t))) \<and>
    (bch2_fs_nocow_locking_exit t = Some () \<longleftrightarrow> H = {#})"
proof -
  note h = reach_holds [OF assms]
  have "\<not> ((d, True) \<in># H \<and> (d, False) \<in># H)" using holdsD(3) [OF h, of d] by (auto simp: not_in_iff [symmetric])
  then show ?thesis using is_locked_iff [OF h] exit_iff [OF h] unlock_spec [OF h] reach_unlock_held [OF assms] waits_unlock by blast
qed

theorem nocow_mutual_exclusion_witness:
  "\<exists>t. nocow_reach t {#(1, True)#} \<and> bch2_fs_nocow_locking_exit t \<noteq> Some ()"
proof -
  obtain t where t: "nocow_reach t {#(1, True)#}" using trylock_succeeds [OF nocow_reach.init, of 1 True] by auto
  then show ?thesis using nocow_mutual_exclusion [OF t] by auto
qed

text \<open>C39. The attempt to lock all disk buckets of a key takes all of the locks or none: on failure the locks it took are released again
  and every lock of others is as before; after success releasing the locks of the key gives the locks from before.  It succeeds when no
  more than six locks are involved and the ones held are of the same kind.\<close>

theorem nocow_key_trylock_all_or_nothing:
  assumes "nocow_reach t H"
  shows "\<exists>ok t'. bch2_bkey_nocow_trylock t ptrs f = Some (ok, t') \<and> nocow_reach t' (if ok then H + key_locks ptrs f else H) \<and>
    (ok \<longrightarrow> (\<exists>t''. bch2_bkey_nocow_unlock t' ptrs f = Some t'' \<and> nocow_reach t'' H)) \<and>
    (size H + length ptrs \<le> 6 \<and> (\<forall>(d, g)\<in>#H. g = f) \<longrightarrow> ok)"
proof -
  have r: "nocow_reach t (H + key_locks [] f)" using assms by simp
  obtain ok t' where t': "trylock_ptrs t [] ptrs f = Some (ok, t')" "nocow_reach t' (if ok then H + key_locks ptrs f else H)"
    using key_trylock_cases [OF assms] by blast
  have "\<exists>t''. bch2_bkey_nocow_unlock t' ptrs f = Some t'' \<and> nocow_reach t'' H" if ok
    using key_unlock_spec [of t' H ptrs f] t'(2) that by simp
  moreover have ok if "size H + length ptrs \<le> 6" "\<forall>(d, g)\<in>#H. g = f"
    using key_trylock_succeeds [OF r _ that(2), of ptrs] that(1) t'(1) by simp
  ultimately show ?thesis using t' by (auto simp: bch2_bkey_nocow_trylock_def)
qed

theorem nocow_key_trylock_all_or_nothing_witness:
  "\<exists>t'. bch2_bkey_nocow_trylock nocow_zero [Some (POS 0 1), None, Some (POS 1 3157)] True = Some (True, t')"
  using nocow_key_trylock_all_or_nothing [OF nocow_reach.init, where ptrs = "[Some (POS 0 1), None, Some (POS 1 3157)]" and f = True] by auto

text \<open>C6. A caller that waits for the locks of a key gets them, and no wake-up is lost.  The key has at most six pointers, and others hold any locks
  that are fewer than the counts can hold, and release them.  However the steps of the caller, the changes of the counts and the wake-ups interleave, there
  are boundedly many of them; in every state a step is possible until \<^verbatim>\<open>bch2_bkey_nocow_lock\<close> has returned, so a caller that sleeps is woken; and when it
  has returned it holds exactly the locks of the key, the others hold the ones they did not release, and the caller is on no wait list.\<close>

theorem nocow_lock_returns:
  assumes "nocow_reach t H" "\<not> closure_waiting t cl" "length ptrs \<le> 6" "size H + 6 < 2 ^ 31 - 1"
    and "(nocow_step ptrs f has_trans cl ^^ n) (nocow_start t H) s"
  shows "n \<le> 2000 * size H + 300 \<and> (ns_pc s = Finished \<or> (\<exists>s'. nocow_step ptrs f has_trans cl s s')) \<and>
    (ns_pc s = Finished \<longrightarrow> nocow_reach (ns_table s) (ns_others s + key_locks ptrs f) \<and> \<not> closure_waiting (ns_table s) cl)"
proof -
  have "nocow_inv (lock_order ptrs) f cl s" "n \<le> sys_rank (lock_order ptrs) f cl (nocow_start t H)"
    using steps_rank [OF assms(3) nocow_inv_start [OF assms(1,2,4)] assms(5)] by auto
  then show ?thesis using step_possible [OF assms(3)] lock_order_ok(2) [OF assms(3), of f] nocow_invD [of "lock_order ptrs" f cl s]
    by (auto simp: sys_rank_def nocow_start_def)
qed

text \<open>With an update lock of another on the disk bucket, a copier that finds it contended goes on to take the locks one by one.\<close>

theorem nocow_lock_returns_witness:
  "\<exists>t s. nocow_reach t {#(1, True)#} \<and> (nocow_step [Some (POS 0 1)] False False 7 ^^ 1) (nocow_start t {#(1, True)#}) s \<and> ns_pc s = Take 0 \<and>
     (\<exists>s'. nocow_step [Some (POS 0 1)] False False 7 s s')"
proof -
  obtain t where t: "table_trylock nocow_zero (bucket_nocow_lock 1) 1 True = Inr t" "nocow_reach t {#(1, True)#}"
    using trylock_succeeds [OF nocow_reach.init, of 1 True] by auto
  have w: "\<not> closure_waiting t 7" using waiting_waits(1) [OF waits_trylock [OF t(1)], of 7]
    by (simp add: closure_waiting_def nocow_zero_def list_ex_iff)
  have "bucket_to_u64 (POS 0 1) = 1" by (simp add: bucket_to_u64_def POS_def SPOS_def mask_eq_exp_minus_1)
  then have "bch2_bkey_nocow_trylock t [Some (POS 0 1)] False = Some (False, t)"
    using trylock_contended [OF t(2), of 1 False] by (simp add: bch2_bkey_nocow_trylock_def bch2_bucket_nocow_trylock_def)
  then have "nocow_step [Some (POS 0 1)] False False 7 (nocow_start t {#(1, True)#}) (nocow_start t {#(1, True)#}\<lparr>ns_table := t, ns_pc := Take 0\<rparr>)"
    by (intro nocow_step.caller) (simp add: nocow_start_def)
  then have r: "(nocow_step [Some (POS 0 1)] False False 7 ^^ 1) (nocow_start t {#(1, True)#}) (nocow_start t {#(1, True)#}\<lparr>ns_table := t, ns_pc := Take 0\<rparr>)"
    unfolding relpowp_1 .
  have "ns_pc (nocow_start t {#(1, True)#}\<lparr>ns_table := t, ns_pc := Take 0\<rparr>) = Take 0" by simp
  then show ?thesis using nocow_lock_returns [OF t(2) w _ _ r] t(2) r
    by (intro exI [of _ t] exI [of _ "nocow_start t {#(1, True)#}\<lparr>ns_table := t, ns_pc := Take 0\<rparr>"]) auto
qed

text \<open>C40. Two callers that wait can block each other for good.  The order in which \<^verbatim>\<open>bch2_bkey_nocow_lock\<close> takes the locks is that of the lock
  buckets only; two disk buckets with the same lock bucket stay in the order of the pointers.  An update of a key with pointers to both
  and a copy of a key with pointers in the other order can each hold their first lock, and then each finds its second one contended
  until the other releases.\<close>

theorem nocow_lock_order_deadlock:
  assumes "bucket_nocow_lock (bucket_to_u64 p) = bucket_nocow_lock (bucket_to_u64 q)" "bucket_to_u64 p \<noteq> bucket_to_u64 q"
  shows "bubble_sort bucket_to_lock_cmp (buckets_to_lock [Some p, Some q]) = buckets_to_lock [Some p, Some q] \<and>
    bubble_sort bucket_to_lock_cmp (buckets_to_lock [Some q, Some p]) = buckets_to_lock [Some q, Some p] \<and>
    (\<exists>t1 t2. table_trylock nocow_zero (bucket_nocow_lock (bucket_to_u64 p)) (bucket_to_u64 p) True = Inr t1 \<and>
      table_trylock t1 (bucket_nocow_lock (bucket_to_u64 q)) (bucket_to_u64 q) False = Inr t2 \<and>
      table_trylock t2 (bucket_nocow_lock (bucket_to_u64 q)) (bucket_to_u64 q) True = Inl Nocow_trylock_contended \<and>
      table_trylock t2 (bucket_nocow_lock (bucket_to_u64 p)) (bucket_to_u64 p) False = Inl Nocow_trylock_contended)"
proof -
  obtain t1 where t1: "table_trylock nocow_zero (bucket_nocow_lock (bucket_to_u64 p)) (bucket_to_u64 p) True = Inr t1"
      "nocow_reach t1 {#(bucket_to_u64 p, True)#}"
    using trylock_succeeds [OF nocow_reach.init, of "bucket_to_u64 p" True] by auto
  obtain t2 where t2: "table_trylock t1 (bucket_nocow_lock (bucket_to_u64 q)) (bucket_to_u64 q) False = Inr t2"
      "nocow_reach t2 {#(bucket_to_u64 q, False), (bucket_to_u64 p, True)#}"
    using trylock_succeeds [OF t1(2), of "bucket_to_u64 q" False] assms(2) by auto
  have "table_trylock t2 (bucket_nocow_lock (bucket_to_u64 q)) (bucket_to_u64 q) True = Inl Nocow_trylock_contended"
    "table_trylock t2 (bucket_nocow_lock (bucket_to_u64 p)) (bucket_to_u64 p) False = Inl Nocow_trylock_contended"
    by (rule trylock_contended [OF t2(2)]; simp)+
  then show ?thesis using t1(1) t2(1) assms(1)
    by (simp add: bubble_sort_def bubble_pass.simps bucket_to_lock_cmp_def Let_def)
qed

text \<open>Disk bucket 1 of device 0 and disk bucket 3157 of device 1 have the same lock bucket.\<close>

theorem nocow_lock_order_deadlock_witness:
  "bucket_nocow_lock (bucket_to_u64 (POS 0 1)) = bucket_nocow_lock (bucket_to_u64 (POS 1 3157)) \<and>
   bubble_sort bucket_to_lock_cmp (buckets_to_lock [Some (POS 0 1), Some (POS 1 3157)]) = buckets_to_lock [Some (POS 0 1), Some (POS 1 3157)]"
proof -
  have n: "bucket_to_u64 (POS 0 1) = 1" "bucket_to_u64 (POS 1 3157) = 281474976713813"
    by (simp_all add: bucket_to_u64_def POS_def SPOS_def mask_eq_exp_minus_1)
  have "bucket_nocow_lock 1 = 1564" "bucket_nocow_lock 281474976713813 = 1564"
    by (simp_all add: bucket_nocow_lock_def hash_64_def GOLDEN_RATIO_64_def BUCKET_NOCOW_LOCKS_BITS_def BUCKET_NOCOW_LOCKS_def)
  then show ?thesis using nocow_lock_order_deadlock [of "POS 0 1" "POS 1 3157"] n by simp
qed

end
