(* ===== verification/Seq_Blacklist.thy ===== *)
theory Seq_Blacklist
  imports Util Eytzinger_Sort
begin

text \<open>
  The journal sequence blacklist of \<^verbatim>\<open>fs/journal/seq_blacklist.c\<close>: a superblock field with half-open
  ranges of blacklisted sequence numbers, and the lookup table built from it, an eytzinger array
  sorted by start. The field is the list of the entries that fit behind its header. Whether the
  superblock buffer can be reallocated for a change of size (\<^verbatim>\<open>bch2_sb_realloc\<close>), the result of
  \<^verbatim>\<open>bch2_write_super\<close> and whether the table can be allocated are arguments of the operations.
  \<open>None\<close> is a failed \<^verbatim>\<open>BUG_ON\<close> or an access outside an array.
\<close>

section \<open>State\<close>

record bl_entry =
  bl_start :: u64
  bl_end :: u64

record tbl_entry =
  t_start :: u64
  t_end :: u64
  t_dirty :: bool

record bl_fs =
  sb_blacklist :: "bl_entry list option"
  bl_table :: "tbl_entry list option"
  bl_feature_v3 :: bool
  oldest_seq_found_ondisk :: u64

datatype bl_error = ENOSPC_sb_journal_seq_blacklist | ENOMEM_blacklist_table_init | Write_super_error int

section \<open>Operations\<close>

definition sb_blacklist_u64s :: "nat \<Rightarrow> nat" where
  "sb_blacklist_u64s nr = (8 + 16 * nr) div 8"

definition field_entries :: "bl_entry list option \<Rightarrow> bl_entry list" where
  "field_entries bl = (case bl of Some es \<Rightarrow> es | None \<Rightarrow> [])"

definition blacklist_nr_entries :: "bl_entry list option \<Rightarrow> nat" where
  "blacklist_nr_entries bl = length (field_entries bl)"

text \<open>\<^verbatim>\<open>bch2_sb_field_resize_id\<close> and \<^verbatim>\<open>__bch2_sb_field_resize\<close> on this field: a failed reallocation leaves the
  superblock as it is, a size of zero deletes the field, growth is filled with zeroes. The second component
  tells whether the returned pointer is not \<^verbatim>\<open>NULL\<close>.\<close>

definition bch2_sb_field_resize :: "(int \<Rightarrow> bool) \<Rightarrow> bl_entry list option \<Rightarrow> nat \<Rightarrow> bl_entry list option \<times> bool" where
  "bch2_sb_field_resize realloc f u64s =
     (let old_u64s = (case f of Some es \<Rightarrow> sb_blacklist_u64s (length es) | None \<Rightarrow> 0);
          d = int u64s - int old_u64s;
          es = field_entries f;
          n = (u64s * 8 - 8) div 16
      in if \<not> realloc d then (f, False)
         else if u64s = 0 then (None, False)
         else (Some (take n es @ replicate (n - length es) \<lparr>bl_start = 0, bl_end = 0\<rparr>), True))"

definition journal_seq_blacklist_table_cmp :: "tbl_entry \<Rightarrow> tbl_entry \<Rightarrow> int" where
  "journal_seq_blacklist_table_cmp l r = cmp_int (t_start l) (t_start r)"

definition journal_seq_blacklist_table_end_cmp :: "tbl_entry \<Rightarrow> tbl_entry \<Rightarrow> int" where
  "journal_seq_blacklist_table_end_cmp l r = cmp_int (t_end l) (t_end r)"

definition bch2_blacklist_table_initialize :: "bool \<Rightarrow> bl_fs \<Rightarrow> ((bl_error + unit) \<times> bl_fs) option" where
  "bch2_blacklist_table_initialize kzalloc_ok c =
     (case sb_blacklist c of
        None \<Rightarrow> Some (Inr (), c)
      | Some es \<Rightarrow>
          if \<not> kzalloc_ok then Some (Inl ENOMEM_blacklist_table_init, c)
          else map_option (\<lambda>t. (Inr (), c\<lparr>bl_table := Some t\<rparr>))
                 (eytzinger0_sort (map (\<lambda>e. \<lparr>t_start = bl_start e, t_end = bl_end e, t_dirty = False\<rparr>) es)
                    (length es) journal_seq_blacklist_table_cmp))"

text \<open>The loop of \<^verbatim>\<open>bch2_journal_seq_blacklist_add\<close> that removes the entries the new one overlaps or touches.\<close>

function blacklist_merge :: "bl_entry list \<Rightarrow> nat \<Rightarrow> nat \<Rightarrow> u64 \<Rightarrow> u64 \<Rightarrow> (bl_entry list \<times> nat \<times> nat \<times> u64 \<times> u64) option" where
  "blacklist_merge bl nr i start end' =
     (if i < nr then
        if end' < bl_start (bl ! i) then Some (bl, nr, i, start, end')
        else if start > bl_end (bl ! i) then blacklist_merge bl nr (i + 1) start end'
        else case array_remove_item bl nr i of
               None \<Rightarrow> None
             | Some (bl', nr') \<Rightarrow>
                 blacklist_merge bl' nr' i (min start (bl_start (bl ! i))) (max end' (bl_end (bl ! i)))
      else Some (bl, nr, i, start, end'))"
  by pat_completeness auto
termination
  by (relation "measure (\<lambda>(bl, nr, i, start, end'). nr - i)")
    (auto simp: array_remove_item_def array_remove_items_def Let_def)

declare blacklist_merge.simps [simp del]

definition bch2_journal_seq_blacklist_add ::
    "(int \<Rightarrow> bool) \<Rightarrow> int \<Rightarrow> bool \<Rightarrow> bl_fs \<Rightarrow> u64 \<Rightarrow> u64 \<Rightarrow> ((bl_error + unit) \<times> bl_fs) option" where
  "bch2_journal_seq_blacklist_add realloc write_super_ret kzalloc_ok c start end' =
     (let bl = sb_blacklist c in
      Option.bind (blacklist_merge (field_entries bl) (blacklist_nr_entries bl) 0 start end') (\<lambda>(es, nr, i, start, end').
      let bl = map_option (\<lambda>_. es) bl;
          (bl, ok) = bch2_sb_field_resize realloc bl (sb_blacklist_u64s (nr + 1));
          c = c\<lparr>sb_blacklist := bl\<rparr>
      in if \<not> ok then Some (Inl ENOSPC_sb_journal_seq_blacklist, c)
         else Option.bind (array_insert_item (field_entries bl) nr i \<lparr>bl_start = start, bl_end = end'\<rparr>)
                (\<lambda>(es, nr).
                 let c = c\<lparr>sb_blacklist := Some es, bl_feature_v3 := True\<rparr> in
                 if write_super_ret \<noteq> 0 then Some (Inl (Write_super_error write_super_ret), c)
                 else bch2_blacklist_table_initialize kzalloc_ok c)))"

definition bch2_journal_seq_next_blacklisted :: "bl_fs \<Rightarrow> u64 \<Rightarrow> u64 option" where
  "bch2_journal_seq_next_blacklisted c seq =
     (case bl_table c of
        None \<Rightarrow> Some (- 1)
      | Some t \<Rightarrow>
          Option.bind (eytzinger0_find_gt t (of_nat (length t)) journal_seq_blacklist_table_end_cmp
                         \<lparr>t_start = 0, t_end = seq, t_dirty = False\<rparr>) (\<lambda>idx.
          if idx < 0 then Some (- 1)
          else if nat idx < length t then Some (max seq (t_start (t ! nat idx))) else None))"

partial_function (option) next_nonblacklisted_loop :: "tbl_entry list \<Rightarrow> u64 \<Rightarrow> u64 option" where
  "next_nonblacklisted_loop t seq =
     Option.bind (eytzinger0_find_le t (of_nat (length t)) journal_seq_blacklist_table_cmp
                    \<lparr>t_start = seq, t_end = 0, t_dirty = False\<rparr>) (\<lambda>idx.
     if idx < 0 then Some seq
     else if nat idx < length t then
       if t_end (t ! nat idx) \<le> seq then Some seq else next_nonblacklisted_loop t (t_end (t ! nat idx))
     else None)"

definition bch2_journal_seq_next_nonblacklisted :: "bl_fs \<Rightarrow> u64 \<Rightarrow> u64 option" where
  "bch2_journal_seq_next_nonblacklisted c seq =
     (case bl_table c of None \<Rightarrow> Some seq | Some t \<Rightarrow> next_nonblacklisted_loop t seq)"

definition bch2_journal_seq_is_blacklisted :: "bl_fs \<Rightarrow> u64 \<Rightarrow> bool \<Rightarrow> (bool \<times> bl_fs) option" where
  "bch2_journal_seq_is_blacklisted c seq dirty =
     (case bl_table c of
        None \<Rightarrow> Some (False, c)
      | Some t \<Rightarrow>
          Option.bind (eytzinger0_find_le t (of_nat (length t)) journal_seq_blacklist_table_cmp
                         \<lparr>t_start = seq, t_end = 0, t_dirty = False\<rparr>) (\<lambda>idx.
          if idx < 0 then Some (False, c)
          else if \<not> nat idx < length t \<or> t_start (t ! nat idx) > seq then None
          else if seq \<ge> t_end (t ! nat idx) then Some (False, c)
          else if dirty then Some (True, c\<lparr>bl_table := Some (t[nat idx := (t ! nat idx)\<lparr>t_dirty := True\<rparr>])\<rparr>)
          else Some (True, c)))"

definition bch2_journal_last_blacklisted_seq :: "bl_fs \<Rightarrow> u64 option" where
  "bch2_journal_last_blacklisted_seq c =
     (case bl_table c of
        None \<Rightarrow> Some 0
      | Some t \<Rightarrow>
          if length t = 0 then Some 0
          else let i = unat (eytzinger0_last (of_nat (length t))) in
               if i < length t then Some (t_end (t ! i) - 1) else None)"

text \<open>The loop of the validation over the entries from \<open>i\<close>, which is the rest of the list; \<open>False\<close> is
  \<^verbatim>\<open>-BCH_ERR_invalid_sb_journal_seq_blacklist\<close>.\<close>

fun bch2_sb_journal_seq_blacklist_validate :: "bl_entry list \<Rightarrow> bool" where
  "bch2_sb_journal_seq_blacklist_validate [] = True"
| "bch2_sb_journal_seq_blacklist_validate (e # es) =
     (if bl_start e \<ge> bl_end e then False
      else if es \<noteq> [] \<and> bl_end e > bl_start (hd es) then False
      else bch2_sb_journal_seq_blacklist_validate es)"

fun blacklist_gc_loop :: "tbl_entry list \<Rightarrow> u64 \<Rightarrow> u32 list \<Rightarrow> bl_entry list \<Rightarrow> nat \<Rightarrow> nat \<Rightarrow> (bl_entry list \<times> nat) option" where
  "blacklist_gc_loop t oldest [] bl src dst = Some (bl, dst)"
| "blacklist_gc_loop t oldest (i # is) bl src dst =
     (if \<not> (unat i < length t \<and> src < length bl \<and> dst < length bl) then None
      else if t_start (t ! unat i) \<noteq> bl_start (bl ! src) \<or> t_end (t ! unat i) \<noteq> bl_end (bl ! src) then None
      else if t_dirty (t ! unat i) \<or> t_end (t ! unat i) \<ge> oldest
           then blacklist_gc_loop t oldest is (bl[dst := bl ! src]) (src + 1) (dst + 1)
           else blacklist_gc_loop t oldest is bl (src + 1) dst)"

definition bch2_blacklist_entries_gc :: "(int \<Rightarrow> bool) \<Rightarrow> bl_fs \<Rightarrow> (bool \<times> bl_fs) option" where
  "bch2_blacklist_entries_gc realloc c =
     (case sb_blacklist c of
        None \<Rightarrow> Some (False, c)
      | Some bl \<Rightarrow>
          let nr = length bl in
          case bl_table c of
            None \<Rightarrow> None
          | Some t \<Rightarrow>
              if nr \<noteq> length t then None
              else Option.bind (eytzinger0_for_each (of_nat nr)) (\<lambda>is.
                   Option.bind (blacklist_gc_loop t (oldest_seq_found_ondisk c) is bl 0 0) (\<lambda>(bl, new_nr).
                   if new_nr = nr then Some (False, c\<lparr>sb_blacklist := Some bl\<rparr>)
                   else let (bl, ok) = bch2_sb_field_resize realloc (Some bl) (if new_nr \<noteq> 0 then sb_blacklist_u64s new_nr else 0)
                        in if new_nr \<noteq> 0 \<and> \<not> ok then None else Some (True, c\<lparr>sb_blacklist := bl\<rparr>))))"

section \<open>The list of entries\<close>

definition bl_valid :: "bl_entry list \<Rightarrow> bool" where
  "bl_valid es \<longleftrightarrow> (\<forall>e\<in>set es. bl_start e < bl_end e) \<and> sorted_wrt (\<lambda>a b. bl_end a \<le> bl_start b) es"

text \<open>The blacklisted sequence numbers.\<close>

definition bl_cover :: "bl_entry list \<Rightarrow> u64 set" where
  "bl_cover es = (\<Union>e\<in>set es. {bl_start e..<bl_end e})"

lemma bl_cover_simps [simp]:
  "bl_cover [] = {}" "bl_cover (e # es) = {bl_start e..<bl_end e} \<union> bl_cover es"
  "bl_cover (as @ bs) = bl_cover as \<union> bl_cover bs"
  by (auto simp: bl_cover_def)

lemma bl_valid_Cons: "bl_valid (e # es) \<longleftrightarrow>
    bl_start e < bl_end e \<and> (\<forall>e'\<in>set es. bl_end e \<le> bl_start e') \<and> bl_valid es"
  by (auto simp: bl_valid_def)

lemma bl_valid_append: "bl_valid (as @ bs) \<longleftrightarrow>
    bl_valid as \<and> bl_valid bs \<and> (\<forall>a\<in>set as. \<forall>b\<in>set bs. bl_end a \<le> bl_start b)"
  by (auto simp: bl_valid_def sorted_wrt_append)

lemma interval_merge:
  fixes s :: "'a::linorder"
  assumes "s \<le> e'" "s' \<le> e" "s < e" "s' < e'"
  shows "{min s s'..<max e e'} = {s..<e} \<union> {s'..<e'}"
  using assms by (auto simp: min_def max_def not_le not_less)

lemma sb_blacklist_u64s_eq: "sb_blacklist_u64s n = 2 * n + 1"
  by (simp add: sb_blacklist_u64s_def)

lemma field_resize_ok:
  assumes "realloc (int (sb_blacklist_u64s n) - (case f of Some es \<Rightarrow> int (sb_blacklist_u64s (length es)) | None \<Rightarrow> 0))"
  shows "bch2_sb_field_resize realloc f (sb_blacklist_u64s n) =
    (Some (take n (field_entries f) @ replicate (n - length (field_entries f)) \<lparr>bl_start = 0, bl_end = 0\<rparr>), True)"
  using assms by (cases f) (simp_all add: bch2_sb_field_resize_def sb_blacklist_u64s_eq field_entries_def Let_def)

text \<open>An entry that the new range overlaps or touches, which the merge removes.\<close>

definition bl_touches :: "u64 \<Rightarrow> u64 \<Rightarrow> bl_entry \<Rightarrow> bool" where
  "bl_touches s e z \<longleftrightarrow> \<not> e < bl_start z \<and> \<not> bl_end z < s"

lemma blacklist_merge_spec:
  assumes "nr \<le> length bl" "take nr bl = L @ R" "length L = i" "bl_valid (L @ R)" "s < e" "\<forall>z\<in>set L. bl_end z \<le> s"
  shows "\<exists>bl' nr' i' s' e' L' R'. blacklist_merge bl nr i s e = Some (bl', nr', i', s', e') \<and>
    length bl' = length bl \<and> nr' \<le> nr \<and> (nr' = nr \<longrightarrow> bl' = bl) \<and> take nr' bl' = L' @ R' \<and> length L' = i' \<and>
    (nr' = nr \<longleftrightarrow> \<not> list_ex (bl_touches s e) R) \<and> bl_valid (L' @ \<lparr>bl_start = s', bl_end = e'\<rparr> # R') \<and>
    bl_cover (L' @ \<lparr>bl_start = s', bl_end = e'\<rparr> # R') = bl_cover (L @ R) \<union> {s..<e}"
  using assms
proof (induction bl nr i s e arbitrary: L R rule: blacklist_merge.induct)
  case (1 bl nr i s e)
  note p = "1.prems"
  have nr: "nr = i + length R" using arg_cong [OF p(2), of length] p(1,3) by simp
  have fin: ?case if "\<forall>z\<in>set R. e < bl_start z" "blacklist_merge bl nr i s e = Some (bl, nr, i, s, e)"
  proof -
    have "bl_valid (L @ \<lparr>bl_start = s, bl_end = e\<rparr> # R)" using p(4-6) that(1) by (auto simp: bl_valid_append bl_valid_Cons)
    moreover have "\<not> list_ex (bl_touches s e) R" using that(1) by (auto simp: list_ex_iff bl_touches_def)
    moreover have "bl_cover (L @ \<lparr>bl_start = s, bl_end = e\<rparr> # R) = bl_cover (L @ R) \<union> {s..<e}" by auto
    ultimately show ?thesis using that(2) p(2,3) by blast
  qed
  show ?case
  proof (cases R)
    case Nil
    then have "blacklist_merge bl nr i s e = Some (bl, nr, i, s, e)" using nr by (subst blacklist_merge.simps) simp
    then show ?thesis using Nil by (intro fin) simp_all
  next
    case (Cons z R')
    then have i: "i < nr" using nr by simp
    have z: "bl ! i = z" using p(2,3) Cons i by (metis nth_append_length nth_take)
    have v: "bl_start z < bl_end z" "\<forall>z'\<in>set R'. bl_end z \<le> bl_start z'" "\<forall>z'\<in>set L. bl_end z' \<le> bl_start z"
      using p(4) Cons by (auto simp: bl_valid_append bl_valid_Cons)
    consider "e < bl_start z" | "\<not> e < bl_start z" "bl_end z < s" | "\<not> e < bl_start z" "\<not> bl_end z < s" by blast
    then show ?thesis
    proof cases
      case 1
      then have "\<forall>z\<in>set R. e < bl_start z" using v Cons by fastforce
      then show ?thesis using 1 i z by (intro fin) (simp_all add: blacklist_merge.simps [of bl nr i s e])
    next
      case 2
      have m: "blacklist_merge bl nr i s e = blacklist_merge bl nr (i + 1) s e"
        using 2 i z by (simp add: blacklist_merge.simps [of bl nr i s e])
      have e: "L @ R = (L @ [z]) @ R'" "list_ex (bl_touches s e) R = list_ex (bl_touches s e) R'" using Cons 2 by (simp_all add: bl_touches_def)
      show ?thesis unfolding m e
        by (rule "1.IH"(1)) (use i 2 z p Cons in auto)
    next
      case 3
      obtain bl' where bl': "array_remove_item bl nr i = Some (bl', nr - 1)" "length bl' = length bl"
        "take (nr - 1) bl' = take i bl @ drop (i + 1) (take nr bl)"
        using array_remove_item_spec [of i nr bl] i p(1) by auto
      have t: "take (nr - 1) bl' = L @ R'"
      proof -
        have "take i bl = take i (take nr bl)" using i by (simp add: min_def)
        then show ?thesis using bl'(3) p(2,3) Cons by simp
      qed
      have m: "blacklist_merge bl nr i s e =
          blacklist_merge bl' (nr - 1) i (min s (bl_start z)) (max e (bl_end z))"
        using 3 i z bl'(1) by (simp add: blacklist_merge.simps [of bl nr i s e])
      have c: "bl_cover (L @ R') \<union> {min s (bl_start z)..<max e (bl_end z)} = bl_cover (L @ R) \<union> {s..<e}"
        using interval_merge [of s "bl_end z" "bl_start z" e] 3 p(5) v(1) Cons by auto
      have "bl_valid (L @ R')" using p(4) Cons by (auto simp: bl_valid_append bl_valid_Cons)
      moreover have "\<forall>z'\<in>set L. bl_end z' \<le> min s (bl_start z)" using p(6) v(3) by simp
      moreover have "min s (bl_start z) < max e (bl_end z)" using p(5) by (simp add: min_less_iff_disj less_max_iff_disj)
      moreover have "nr - 1 \<le> length bl'" using p(1) bl'(2) by simp
      ultimately obtain bl'' nr' i' s' e' L' R'' where
        r: "blacklist_merge bl' (nr - 1) i (min s (bl_start z)) (max e (bl_end z)) = Some (bl'', nr', i', s', e')"
        "length bl'' = length bl'" "nr' \<le> nr - 1" "take nr' bl'' = L' @ R''" "length L' = i'"
        "bl_valid (L' @ \<lparr>bl_start = s', bl_end = e'\<rparr> # R'')"
        "bl_cover (L' @ \<lparr>bl_start = s', bl_end = e'\<rparr> # R'') = bl_cover (L @ R') \<union> {min s (bl_start z)..<max e (bl_end z)}"
        using "1.IH"(2) [OF i 3 [folded z] bl'(1) refl _ t p(3), unfolded z] by blast
      have "nr' \<noteq> nr" "nr' \<le> nr" "length bl'' = length bl" using r(2,3) bl'(2) i by linarith+
      moreover have "list_ex (bl_touches s e) R" using Cons 3 by (simp add: bl_touches_def)
      ultimately show ?thesis unfolding m c [symmetric] using r by blast
    qed
  qed
qed

section \<open>The lookup table\<close>

definition tbl_valid :: "tbl_entry list \<Rightarrow> bool" where
  "tbl_valid t \<longleftrightarrow> length t < 2 ^ 30 \<and> (\<forall>e\<in>set (inorder t). t_start e < t_end e) \<and>
     sorted_wrt (\<lambda>a b. t_end a \<le> t_start b) (inorder t)"

definition tbl_cover :: "tbl_entry list \<Rightarrow> u64 set" where
  "tbl_cover t = (\<Union>e\<in>set (inorder t). {t_start e..<t_end e})"

text \<open>The table holds the entries of the field, in the order of the tree.\<close>

definition tbl_matches :: "tbl_entry list \<Rightarrow> bl_entry list \<Rightarrow> bool" where
  "tbl_matches t es \<longleftrightarrow> length t < 2 ^ 30 \<and>
     map (\<lambda>e. (t_start e, t_end e)) (inorder t) = map (\<lambda>e. (bl_start e, bl_end e)) es"

text \<open>The invariant between the operations: a valid list in the superblock and a table that matches it.\<close>

definition bl_inv :: "bl_fs \<Rightarrow> bool" where
  "bl_inv c \<longleftrightarrow> bl_valid (field_entries (sb_blacklist c)) \<and>
     (case bl_table c of None \<Rightarrow> field_entries (sb_blacklist c) = []
      | Some t \<Rightarrow> tbl_matches t (field_entries (sb_blacklist c)))"

lemma matches_nth:
  assumes "tbl_matches t es"
  shows "length t = length es" "i < length es \<Longrightarrow> t_start (inorder t ! i) = bl_start (es ! i)"
    "i < length es \<Longrightarrow> t_end (inorder t ! i) = bl_end (es ! i)"
proof -
  have m: "map (\<lambda>e. (t_start e, t_end e)) (inorder t) = map (\<lambda>e. (bl_start e, bl_end e)) es"
    using assms by (simp add: tbl_matches_def)
  show l: "length t = length es" using arg_cong [OF m, of length] by simp
  show "i < length es \<Longrightarrow> t_start (inorder t ! i) = bl_start (es ! i)"
    "i < length es \<Longrightarrow> t_end (inorder t ! i) = bl_end (es ! i)"
    using arg_cong [OF m, of "\<lambda>xs. xs ! i"] l by simp_all
qed

lemma matches_valid:
  assumes "tbl_matches t es" "bl_valid es"
  shows "tbl_valid t"
proof -
  note m = matches_nth [OF assms(1)]
  have "t_start e < t_end e" if "e \<in> set (inorder t)" for e
    using that m assms(2) by (metis bl_valid_def in_set_conv_nth length_inorder)
  then show ?thesis
    using assms m by (simp add: tbl_valid_def tbl_matches_def bl_valid_def sorted_wrt_iff_nth_less)
qed

lemma matches_cover: "tbl_matches t es \<Longrightarrow> tbl_cover t = bl_cover es"
proof -
  assume "tbl_matches t es"
  then have m: "map (\<lambda>e. (t_start e, t_end e)) (inorder t) = map (\<lambda>e. (bl_start e, bl_end e)) es"
    by (simp add: tbl_matches_def)
  have "tbl_cover t = (\<Union>(s, e)\<in>set (map (\<lambda>e. (t_start e, t_end e)) (inorder t)). {s..<e})" by (simp add: tbl_cover_def)
  also have "\<dots> = bl_cover es" unfolding m by (simp add: bl_cover_def)
  finally show ?thesis .
qed

lemma set_inorder: "length t < 2 ^ 30 \<Longrightarrow> set (inorder t) = set t"
  by (metis mset_inorder set_mset_mset)

lemma inorder_map: "length t < 2 ^ 30 \<Longrightarrow> inorder (map f t) = map f (inorder t)"
  using inorder_idx_bounds [of t] by (intro nth_equalityI) (auto simp: inorder_def)

lemma tbl_valid_sorted:
  assumes "tbl_valid t"
  shows "sorted_wrt (<) (map t_start (inorder t))" "sorted (map t_start (inorder t))" "sorted (map t_end (inorder t))"
proof -
  have nz: "\<forall>e\<in>set (inorder t). t_start e < t_end e" and w: "sorted_wrt (\<lambda>a b. t_end a \<le> t_start b) (inorder t)"
    using assms by (auto simp: tbl_valid_def)
  show s: "sorted_wrt (<) (map t_start (inorder t))" unfolding sorted_wrt_map
    by (rule sorted_wrt_mono_rel [OF _ w]) (use nz in \<open>auto intro: less_le_trans\<close>)
  show "sorted (map t_start (inorder t))" using s strict_sorted_imp_sorted by blast
  show "sorted (map t_end (inorder t))" unfolding sorted_map
    by (rule sorted_wrt_mono_rel [OF _ w]) (use nz in \<open>auto intro: less_imp_le order_trans\<close>)
qed

lemma tbl_valid_distinct: "tbl_valid t \<Longrightarrow> distinct (map t_start t)"
proof -
  assume t: "tbl_valid t"
  have "mset (map t_start (inorder t)) = mset (map t_start t)" using t mset_inorder by (metis mset_map tbl_valid_def)
  moreover have "distinct (map t_start (inorder t))" using tbl_valid_sorted(1) [OF t] strict_sorted_iff by blast
  ultimately show ?thesis by (metis mset_eq_imp_distinct_iff)
qed

text \<open>Entries are disjoint: a sequence number lies in one entry at most.\<close>

lemma tbl_valid_unique:
  assumes "tbl_valid t" "a \<in> set (inorder t)" "b \<in> set (inorder t)" "x \<in> {t_start a..<t_end a}" "x \<in> {t_start b..<t_end b}"
  shows "a = b"
proof -
  have w: "sorted_wrt (\<lambda>a b. t_end a \<le> t_start b) (inorder t)" using assms(1) by (simp add: tbl_valid_def)
  obtain i j where ij: "i < length (inorder t)" "a = inorder t ! i" "j < length (inorder t)" "b = inorder t ! j"
    using assms(2,3) by (metis in_set_conv_nth)
  have "\<not> i < j" "\<not> j < i" using sorted_wrt_nth_less [OF w, of i j] sorted_wrt_nth_less [OF w, of j i] ij assms(4,5) by auto
  then show ?thesis using ij by (metis linorder_neqE_nat)
qed

lemma tbl_find_le:
  assumes "tbl_valid t"
  obtains idx where
    "eytzinger0_find_le t (of_nat (length t)) journal_seq_blacklist_table_cmp \<lparr>t_start = seq, t_end = x, t_dirty = d\<rparr> = Some idx"
    "if idx < 0 then \<forall>e\<in>set (inorder t). seq < t_start e
     else nat idx < length t \<and> t ! nat idx \<in> set (inorder t) \<and> t_start (t ! nat idx) \<le> seq \<and>
          (\<forall>e\<in>set (inorder t). t_start e \<le> seq \<longrightarrow> t_start e \<le> t_start (t ! nat idx))"
proof -
  have "length t < 2 ^ 30" using assms by (simp add: tbl_valid_def)
  moreover have "journal_seq_blacklist_table_cmp = (\<lambda>e s. cmp_int (t_start e) (t_start s))"
    by (intro ext) (simp add: journal_seq_blacklist_table_cmp_def)
  ultimately show thesis
    using eyt_array.find_le_key [of t t_start "\<lparr>t_start = seq, t_end = x, t_dirty = d\<rparr>", unfolded tbl_entry.select_convs]
      tbl_valid_sorted(2) [OF assms] that by metis
qed

text \<open>The entry found contains the number exactly if some entry does.\<close>

lemma found_covers:
  assumes "tbl_valid t" "nat idx < length t" "t ! nat idx \<in> set (inorder t)" "t_start (t ! nat idx) \<le> seq"
    "\<forall>e\<in>set (inorder t). t_start e \<le> seq \<longrightarrow> t_start e \<le> t_start (t ! nat idx)"
  shows "seq \<in> tbl_cover t \<longleftrightarrow> seq < t_end (t ! nat idx)"
proof
  assume "seq \<in> tbl_cover t"
  then obtain e where e: "e \<in> set (inorder t)" "t_start e \<le> seq" "seq < t_end e" by (auto simp: tbl_cover_def)
  let ?f = "t ! nat idx"
  obtain i j where ij: "i < length t" "e = inorder t ! i" "j < length t" "?f = inorder t ! j"
    using e(1) assms(3) by (metis in_set_conv_nth length_inorder)
  have le: "t_start e \<le> t_start ?f" using assms(5) e by blast
  have "\<not> j < i" using sorted_wrt_nth_less [OF tbl_valid_sorted(1) [OF assms(1)], of j i] ij le by auto
  then have "t_end e \<le> t_end ?f" using sorted_nth_mono [OF tbl_valid_sorted(3) [OF assms(1)], of i j] ij by simp
  then show "seq < t_end ?f" using e(3) by simp
next
  assume "seq < t_end (t ! nat idx)"
  then show "seq \<in> tbl_cover t" using assms(3,4) by (auto simp: tbl_cover_def)
qed

section \<open>Queries\<close>

lemma is_blacklisted_tbl:
  assumes v: "tbl_valid t" and c: "bl_table c = Some t"
  shows "bch2_journal_seq_is_blacklisted c seq dirty =
    Some (seq \<in> tbl_cover t,
      c\<lparr>bl_table := Some (map (\<lambda>e. if dirty \<and> seq \<in> {t_start e..<t_end e} then e\<lparr>t_dirty := True\<rparr> else e) t)\<rparr>)"
    (is "_ = Some (_, c\<lparr>bl_table := Some (map ?m t)\<rparr>)")
proof -
  have len: "length t < 2 ^ 30" using v by (simp add: tbl_valid_def)
  have same: "c\<lparr>bl_table := Some t\<rparr> = c" using c by (cases c) simp
  obtain idx where idx:
    "eytzinger0_find_le t (of_nat (length t)) journal_seq_blacklist_table_cmp \<lparr>t_start = seq, t_end = 0, t_dirty = False\<rparr> = Some idx"
    "if idx < 0 then \<forall>e\<in>set (inorder t). seq < t_start e
     else nat idx < length t \<and> t ! nat idx \<in> set (inorder t) \<and> t_start (t ! nat idx) \<le> seq \<and>
          (\<forall>e\<in>set (inorder t). t_start e \<le> seq \<longrightarrow> t_start e \<le> t_start (t ! nat idx))"
    by (rule tbl_find_le [OF v])
  have none: "map ?m t = t" if "seq \<notin> tbl_cover t"
    using that by (intro map_idI) (auto simp: tbl_cover_def set_inorder [OF len])
  show ?thesis
  proof (cases "idx < 0")
    case True
    then have "seq \<notin> tbl_cover t" using idx(2) by (auto simp: tbl_cover_def)
    then show ?thesis using True idx(1) c none by (simp add: bch2_journal_seq_is_blacklisted_def same)
  next
    case False
    let ?f = "t ! nat idx"
    have f: "nat idx < length t" "?f \<in> set (inorder t)" "t_start ?f \<le> seq"
      "\<forall>e\<in>set (inorder t). t_start e \<le> seq \<longrightarrow> t_start e \<le> t_start ?f" using idx(2) False by auto
    note cov = found_covers [OF v f]
    show ?thesis
    proof (cases "seq < t_end ?f")
      case in_f: True
      have "?m (t ! j) = t ! j" if j: "j < length t" "j \<noteq> nat idx" for j
      proof -
        have "t_start (t ! j) \<noteq> t_start ?f" using tbl_valid_distinct [OF v] j f(1) by (simp add: distinct_conv_nth)
        moreover have "t ! j \<in> set (inorder t)" using j by (simp add: set_inorder [OF len])
        ultimately have "seq \<notin> {t_start (t ! j)..<t_end (t ! j)}"
          using tbl_valid_unique [OF v _ f(2), of "t ! j" seq] in_f f(3) by auto
        then show ?thesis by meson
      qed
      then have "map ?m t ! j = t[nat idx := ?m ?f] ! j" if "j < length t" for j
        using that nth_list_update [OF f(1), of "?m ?f" j] nth_map [OF that, of ?m] by presburger
      then have "map ?m t = t[nat idx := ?m ?f]" by (intro nth_equalityI) (simp_all only: length_map length_list_update)
      moreover have "?m ?f = (if dirty then ?f\<lparr>t_dirty := True\<rparr> else ?f)" using in_f f(3) by simp
      ultimately show ?thesis
        using False idx(1) c f(1,3) in_f cov same by (auto simp: bch2_journal_seq_is_blacklisted_def)
    next
      case out: False
      then show ?thesis
        using False idx(1) c f(1,3) cov none by (auto simp: bch2_journal_seq_is_blacklisted_def same)
    qed
  qed
qed

lemma next_blacklisted_tbl:
  assumes v: "tbl_valid t" and c: "bl_table c = Some t"
  shows "bch2_journal_seq_next_blacklisted c seq =
    Some (if \<exists>x\<in>tbl_cover t. seq \<le> x then LEAST x. x \<in> tbl_cover t \<and> seq \<le> x else - 1)"
proof -
  let ?s = "\<lparr>t_start = 0, t_end = seq, t_dirty = False\<rparr>"
  have cmp: "journal_seq_blacklist_table_end_cmp = (\<lambda>e s. cmp_int (t_end e) (t_end s))"
    by (intro ext) (simp add: journal_seq_blacklist_table_end_cmp_def)
  have len: "length t < 2 ^ 30" using v by (simp add: tbl_valid_def)
  obtain idx where idx:
    "eytzinger0_find_gt t (of_nat (length t)) journal_seq_blacklist_table_end_cmp ?s = Some idx"
    "if idx < 0 then \<forall>e\<in>set (inorder t). t_end e \<le> seq
     else nat idx < length t \<and> t ! nat idx \<in> set (inorder t) \<and> seq < t_end (t ! nat idx) \<and>
          (\<forall>e\<in>set (inorder t). seq < t_end e \<longrightarrow> t_end (t ! nat idx) \<le> t_end e)"
    using eyt_array.find_gt_key [of t t_end ?s, unfolded tbl_entry.select_convs, OF len tbl_valid_sorted(3) [OF v]]
    unfolding cmp by metis
  have nz: "\<forall>e\<in>set (inorder t). t_start e < t_end e" using v by (simp add: tbl_valid_def)
  show ?thesis
  proof (cases "idx < 0")
    case True
    then have "\<not> (\<exists>x\<in>tbl_cover t. seq \<le> x)" using idx(2) by (fastforce simp: tbl_cover_def)
    then show ?thesis using True idx(1) c by (simp add: bch2_journal_seq_next_blacklisted_def)
  next
    case False
    let ?f = "t ! nat idx" and ?r = "max seq (t_start (t ! nat idx))"
    have f: "nat idx < length t" "?f \<in> set (inorder t)" "seq < t_end ?f"
      "\<forall>e\<in>set (inorder t). seq < t_end e \<longrightarrow> t_end ?f \<le> t_end e" using idx(2) False by auto
    have r: "?r \<in> tbl_cover t" "seq \<le> ?r" using f(2,3) nz by (auto simp: tbl_cover_def max_def intro!: bexI [of _ ?f])
    have least: "?r \<le> x" if x: "x \<in> tbl_cover t" "seq \<le> x" for x
    proof -
      obtain e where e: "e \<in> set (inorder t)" "t_start e \<le> x" "x < t_end e" using x(1) by (auto simp: tbl_cover_def)
      obtain i j where ij: "i < length t" "e = inorder t ! i" "j < length t" "?f = inorder t ! j"
        using e(1) f(2) by (metis in_set_conv_nth length_inorder)
      have "seq < t_end e" using x(2) e(3) by (rule le_less_trans)
      then have le: "t_end ?f \<le> t_end e" using f(4) e(1) by blast
      have "t_start ?f \<le> t_start e"
      proof (cases "i < j")
        case True
        have "t_end e \<le> t_start ?f" using v sorted_wrt_nth_less [of _ "inorder t" i j] True ij by (auto simp: tbl_valid_def)
        then have "t_end e < t_end ?f" using nz f(2) by (metis le_less_trans)
        then show ?thesis using le by simp
      next
        case False
        then show ?thesis using sorted_nth_mono [OF tbl_valid_sorted(2) [OF v], of j i] ij by simp
      qed
      then show ?thesis using x(2) e(2) by simp
    qed
    have "(LEAST x. x \<in> tbl_cover t \<and> seq \<le> x) = ?r" using r least by (intro Least_equality) auto
    then show ?thesis using False idx(1) c f(1) r by (auto simp: bch2_journal_seq_next_blacklisted_def)
  qed
qed

lemma next_nonblacklisted_tbl:
  assumes v: "tbl_valid t"
  shows "\<exists>y. next_nonblacklisted_loop t seq = Some y \<and> seq \<le> y \<and> y \<notin> tbl_cover t \<and> {seq..<y} \<subseteq> tbl_cover t"
proof (induction "2 ^ 64 - unat seq" arbitrary: seq rule: less_induct)
  case less
  obtain idx where idx:
    "eytzinger0_find_le t (of_nat (length t)) journal_seq_blacklist_table_cmp \<lparr>t_start = seq, t_end = 0, t_dirty = False\<rparr> = Some idx"
    "if idx < 0 then \<forall>e\<in>set (inorder t). seq < t_start e
     else nat idx < length t \<and> t ! nat idx \<in> set (inorder t) \<and> t_start (t ! nat idx) \<le> seq \<and>
          (\<forall>e\<in>set (inorder t). t_start e \<le> seq \<longrightarrow> t_start e \<le> t_start (t ! nat idx))"
    by (rule tbl_find_le [OF v])
  show ?case
  proof (cases "idx < 0")
    case True
    then have "seq \<notin> tbl_cover t" using idx(2) by (auto simp: tbl_cover_def)
    then show ?thesis using True idx(1) by (subst next_nonblacklisted_loop.simps) simp
  next
    case False
    let ?f = "t ! nat idx"
    have f: "nat idx < length t" "?f \<in> set (inorder t)" "t_start ?f \<le> seq"
      "\<forall>e\<in>set (inorder t). t_start e \<le> seq \<longrightarrow> t_start e \<le> t_start ?f" using idx(2) False by auto
    note cov = found_covers [OF v f]
    show ?thesis
    proof (cases "seq < t_end ?f")
      case in_f: True
      then have "2 ^ 64 - unat (t_end ?f) < 2 ^ 64 - unat seq"
        using unsigned_less [of "t_end ?f", where ?'a = nat] by (simp add: word_less_nat_alt)
      from less [OF this] obtain y where y: "next_nonblacklisted_loop t (t_end ?f) = Some y" "t_end ?f \<le> y"
        "y \<notin> tbl_cover t" "{t_end ?f..<y} \<subseteq> tbl_cover t" by blast
      have "{seq..<t_end ?f} \<subseteq> tbl_cover t" using f(2,3) by (auto simp: tbl_cover_def intro!: bexI [of _ ?f])
      moreover have "{seq..<y} \<subseteq> {seq..<t_end ?f} \<union> {t_end ?f..<y}" by auto
      ultimately have "{seq..<y} \<subseteq> tbl_cover t" using y(4) by blast
      moreover have "next_nonblacklisted_loop t seq = Some y"
        using False idx(1) f(1) leD [of "t_end ?f" seq] in_f y(1) by (subst next_nonblacklisted_loop.simps) auto
      moreover have "seq \<le> y" using y(2) in_f by simp
      ultimately show ?thesis using y(3) by blast
    next
      case out: False
      then have "next_nonblacklisted_loop t seq = Some seq"
        using False idx(1) f(1) by (subst next_nonblacklisted_loop.simps) (simp add: not_less)
      then show ?thesis using cov out by simp
    qed
  qed
qed

lemma last_blacklisted_tbl:
  assumes v: "tbl_valid t" and c: "bl_table c = Some t"
  shows "\<exists>y. bch2_journal_last_blacklisted_seq c = Some y \<and>
    (if t = [] then y = 0 else y \<in> tbl_cover t \<and> (\<forall>x\<in>tbl_cover t. x \<le> y))"
proof (cases "t = []")
  case False
  have len: "length t < 2 ^ 30" using v by (simp add: tbl_valid_def)
  let ?l = "last (inorder t)"
  have ne: "inorder t \<noteq> []" using False length_inorder [of t] by fastforce
  have l: "?l \<in> set (inorder t)" using ne by simp
  have lt: "t_start ?l < t_end ?l" using v l by (simp add: tbl_valid_def)
  have "t_end e \<le> t_end ?l" if "e \<in> set (inorder t)" for e
  proof -
    obtain i where i: "i < length (inorder t)" "inorder t ! i = e" using \<open>e \<in> set (inorder t)\<close> unfolding in_set_conv_nth by blast
    have "map t_end (inorder t) ! i \<le> map t_end (inorder t) ! (length (inorder t) - 1)"
      using i(1) by (intro sorted_nth_mono [OF tbl_valid_sorted(3) [OF v]]) auto
    then show ?thesis using i ne by (simp add: last_conv_nth)
  qed
  then have "x \<le> t_end ?l - 1" if "x \<in> tbl_cover t" for x
    using that less_imp_less_eq_dec [of x "t_end ?l"] less_le_trans [of x _ "t_end ?l"] unfolding tbl_cover_def by auto
  moreover have "t_end ?l - 1 \<in> tbl_cover t"
  proof -
    have "t_end ?l \<noteq> 0" using lt by auto
    then have "t_end ?l - 1 < t_end ?l" using less_eq_dec_self_iff_eq [of "t_end ?l"] by (simp add: not_le [symmetric])
    then have "t_end ?l - 1 \<in> {t_start ?l..<t_end ?l}" using less_imp_less_eq_dec [OF lt] by simp
    then show ?thesis using l unfolding tbl_cover_def by blast
  qed
  ultimately show ?thesis
    using last_inorder [OF len False] c False by (simp add: bch2_journal_last_blacklisted_seq_def Let_def)
qed (use c in \<open>simp add: bch2_journal_last_blacklisted_seq_def\<close>)

section \<open>Updates\<close>

lemma cmp_order_key: "cmp_order (\<lambda>l r. cmp_int (f l) (f r))"
  by (auto simp: cmp_order_def cmp_int_def)

lemma table_initialize_spec:
  assumes "sb_blacklist c = Some es" "bl_valid es" "length es < 2 ^ 30"
  shows "\<exists>t. bch2_blacklist_table_initialize True c = Some (Inr (), c\<lparr>bl_table := Some t\<rparr>) \<and> tbl_matches t es"
proof -
  let ?m = "\<lambda>e. \<lparr>t_start = bl_start e, t_end = bl_end e, t_dirty = False\<rparr>"
  have cmp: "journal_seq_blacklist_table_cmp = (\<lambda>e s. cmp_int (t_start e) (t_start s))"
    by (intro ext) (simp add: journal_seq_blacklist_table_cmp_def)
  have len: "length (map ?m es) < 2 ^ 30" using assms(3) by simp
  obtain t where t: "eytzinger0_sort (map ?m es) (length (map ?m es)) journal_seq_blacklist_table_cmp = Some t"
    "mset t = mset (map ?m es)" "sorted_wrt (\<lambda>x y. journal_seq_blacklist_table_cmp x y \<le> 0) (inorder t)"
    using eytzinger0_sort_spec [OF _ len, of journal_seq_blacklist_table_cmp] cmp_order_key [of t_start] unfolding cmp by blast
  have lt: "length t < 2 ^ 30" using t(2) assms(3) by (metis len mset_eq_length)
  have "sorted_wrt (<) (map bl_start es)" unfolding sorted_wrt_map
    by (rule sorted_wrt_mono_rel [of _ "\<lambda>a b. bl_end a \<le> bl_start b"])
      (use assms(2) in \<open>auto simp: bl_valid_def intro: less_le_trans\<close>)
  then have es: "sorted (map t_start (map ?m es))" "distinct (map t_start (map ?m es))"
    by (simp_all add: comp_def strict_sorted_iff)
  have inj: "inj_on t_start (set (map ?m es))" using es(2) unfolding distinct_map by blast
  have "sort_key t_start (map ?m es) = inorder t"
    using t(2,3) mset_inorder [OF lt] by (intro sort_key_inj_key_eq [OF _ inj]) (simp_all add: cmp sorted_map)
  moreover have "sort_key t_start (map ?m es) = map ?m es" by (rule sort_key_inj_key_eq [OF refl inj es(1)])
  ultimately have "inorder t = map ?m es" by simp
  then have "tbl_matches t es" using lt by (simp add: tbl_matches_def comp_def)
  then show ?thesis using t(1) assms(1) by (auto simp: bch2_blacklist_table_initialize_def)
qed

text \<open>Without room: no entry is merged, so the field has to grow, and the superblock cannot.\<close>

definition bl_no_room :: "(int \<Rightarrow> bool) \<Rightarrow> bl_fs \<Rightarrow> u64 \<Rightarrow> u64 \<Rightarrow> bool" where
  "bl_no_room realloc c s e \<longleftrightarrow> \<not> list_ex (bl_touches s e) (field_entries (sb_blacklist c)) \<and>
    \<not> realloc (case sb_blacklist c of
      None \<Rightarrow> int (sb_blacklist_u64s 1)
    | Some es \<Rightarrow> int (sb_blacklist_u64s (length es + 1)) - int (sb_blacklist_u64s (length es)))"

lemma blacklist_add_steps:
  assumes v: "bl_valid (field_entries (sb_blacklist c))" and se: "start < end'" and r: "\<And>d. d \<le> 0 \<Longrightarrow> realloc d"
  shows "if bl_no_room realloc c start end'
    then bch2_journal_seq_blacklist_add realloc ret kz c start end' = Some (Inl ENOSPC_sb_journal_seq_blacklist, c)
    else (\<exists>es. bl_valid es \<and> bl_cover es = bl_cover (field_entries (sb_blacklist c)) \<union> {start..<end'} \<and>
      length es \<le> length (field_entries (sb_blacklist c)) + 1 \<and>
      bch2_journal_seq_blacklist_add realloc ret kz c start end' =
      (let c' = c\<lparr>sb_blacklist := Some es, bl_feature_v3 := True\<rparr> in
       if ret \<noteq> 0 then Some (Inl (Write_super_error ret), c') else bch2_blacklist_table_initialize kz c'))"
proof -
  let ?es = "field_entries (sb_blacklist c)"
  obtain bl nr i s e L R where m: "blacklist_merge ?es (length ?es) 0 start end' = Some (bl, nr, i, s, e)"
    "length bl = length ?es" "nr \<le> length ?es" "nr = length ?es \<longrightarrow> bl = ?es" "take nr bl = L @ R" "length L = i"
    "bl_valid (L @ \<lparr>bl_start = s, bl_end = e\<rparr> # R)"
    "bl_cover (L @ \<lparr>bl_start = s, bl_end = e\<rparr> # R) = bl_cover ?es \<union> {start..<end'}"
    "nr = length ?es \<longleftrightarrow> \<not> list_ex (bl_touches start end') ?es"
  proof -
    have "take (length ?es) ?es = [] @ ?es" "bl_valid ([] @ ?es)" "\<forall>z\<in>set []. bl_end z \<le> start" using v by simp_all
    from blacklist_merge_spec [OF le_refl this(1) list.size(3) this(2) se this(3)] show ?thesis
      unfolding append_Nil by (elim exE conjE) (rule that)
  qed
  let ?f = "map_option (\<lambda>_. bl) (sb_blacklist c)"
  let ?d = "int (sb_blacklist_u64s (nr + 1)) - (case ?f of Some es \<Rightarrow> int (sb_blacklist_u64s (length es)) | None \<Rightarrow> 0)"
  have lf: "length (field_entries ?f) = length ?es" using m(2) by (simp add: field_entries_def split: option.splits)
  have fe: "field_entries ?f = bl" using m(2) by (cases "sb_blacklist c") (simp_all add: field_entries_def)
  have add: "bch2_journal_seq_blacklist_add realloc ret kz c start end' =
    (let (bl, ok) = bch2_sb_field_resize realloc ?f (sb_blacklist_u64s (nr + 1)); c = c\<lparr>sb_blacklist := bl\<rparr>
     in if \<not> ok then Some (Inl ENOSPC_sb_journal_seq_blacklist, c)
        else Option.bind (array_insert_item (field_entries bl) nr i \<lparr>bl_start = s, bl_end = e\<rparr>) (\<lambda>(es, nr).
          let c = c\<lparr>sb_blacklist := Some es, bl_feature_v3 := True\<rparr> in
          if ret \<noteq> 0 then Some (Inl (Write_super_error ret), c) else bch2_blacklist_table_initialize kz c))"
    using m(1) by (simp add: bch2_journal_seq_blacklist_add_def blacklist_nr_entries_def Let_def)
  show ?thesis
  proof (cases "realloc ?d")
    case False
    have "nr = length ?es"
    proof (rule ccontr)
      assume "nr \<noteq> length ?es"
      then have "nr < length ?es" using m(3) by simp
      then have "?d \<le> 0" using m(2) by (cases "sb_blacklist c") (auto simp: sb_blacklist_u64s_eq field_entries_def)
      then show False using r False by blast
    qed
    then have n: "bl_no_room realloc c start end'"
      using False m(2,9) by (cases "sb_blacklist c") (simp_all add: bl_no_room_def field_entries_def)
    from \<open>nr = length ?es\<close> have "?f = sb_blacklist c" using m(4) by (cases "sb_blacklist c") (simp_all add: field_entries_def)
    moreover have "bch2_sb_field_resize realloc ?f (sb_blacklist_u64s (nr + 1)) = (?f, False)"
      using False by (cases "sb_blacklist c") (simp_all add: bch2_sb_field_resize_def Let_def)
    ultimately show ?thesis using n by (simp add: add)
  next
    case True
    have n: "\<not> bl_no_room realloc c start end'"
      using True m(2,9) by (cases "sb_blacklist c") (auto simp: bl_no_room_def field_entries_def)
    let ?b = "take (nr + 1) bl @ replicate (nr + 1 - length bl) \<lparr>bl_start = 0, bl_end = 0\<rparr>"
    have rs: "bch2_sb_field_resize realloc ?f (sb_blacklist_u64s (nr + 1)) = (Some ?b, True)"
      using field_resize_ok [where f = ?f and n = "nr + 1" and realloc = realloc, unfolded fe] True by blast
    have lb: "length ?b = nr + 1" "take nr ?b = L @ R" using m(2,3,5) by auto
    have il: "i \<le> nr" using arg_cong [OF m(5), of length] m(2,3,6) by simp
    obtain es where es: "array_insert_item ?b nr i \<lparr>bl_start = s, bl_end = e\<rparr> = Some (es, nr + 1)" "length es = nr + 1"
      "take (nr + 1) es = take i ?b @ \<lparr>bl_start = s, bl_end = e\<rparr> # drop i (take nr ?b)"
      using array_insert_item_spec [OF il, of ?b "\<lparr>bl_start = s, bl_end = e\<rparr>"] unfolding lb(1) using less_add_one by blast
    have "take i ?b = take i (take nr ?b)" unfolding take_take min.absorb1 [OF il] ..
    also have "\<dots> = L" unfolding lb(2) using m(6) by simp
    finally have i1: "take i ?b = L" .
    have i2: "drop i (take nr ?b) = R" unfolding lb(2) using m(6) by simp
    have "es = take (nr + 1) es" using es(2) by simp
    then have "es = L @ \<lparr>bl_start = s, bl_end = e\<rparr> # R" unfolding es(3) i1 i2 .
    then have "bl_valid es \<and> bl_cover es = bl_cover ?es \<union> {start..<end'} \<and> length es \<le> length ?es + 1"
      using m(3,7,8) es(2) by simp
    moreover have "field_entries (Some ?b) = ?b" by (simp add: field_entries_def)
    ultimately show ?thesis unfolding add rs Let_def prod.case if_not_P [OF n] using es(1) by (intro exI [of _ es]) simp
  qed
qed

section \<open>Garbage collection\<close>

text \<open>The entries that a collection keeps: those marked dirty and those that may still matter to a sequence
  number found on disk.\<close>

definition bl_kept :: "u64 \<Rightarrow> bl_entry list \<Rightarrow> tbl_entry list \<Rightarrow> bl_entry list" where
  "bl_kept oldest es ts = map fst (filter (\<lambda>(e, te). t_dirty te \<or> oldest \<le> t_end te) (zip es ts))"

lemma bl_kept_Cons: "bl_kept oldest (e # es) (te # ts) =
    (if t_dirty te \<or> oldest \<le> t_end te then e # bl_kept oldest es ts else bl_kept oldest es ts)"
  by (simp add: bl_kept_def)

lemma gc_loop_spec:
  assumes tm: "tbl_matches t es" and n: "n = length es"
  shows "k \<le> n \<Longrightarrow> length bl = n \<Longrightarrow> drop k bl = drop k es \<Longrightarrow> dst \<le> k \<Longrightarrow>
    \<exists>bl' dst'. blacklist_gc_loop t oldest (map (\<lambda>r. inorder_to_eytzinger0 (of_nat r) (of_nat n)) [k..<n]) bl k dst = Some (bl', dst') \<and>
      length bl' = n \<and> dst' \<le> n \<and> take dst' bl' = take dst bl @ bl_kept oldest (drop k es) (drop k (inorder t))"
proof (induction "n - k" arbitrary: k bl dst)
  case 0
  then show ?case by (auto simp: bl_kept_def n)
next
  case (Suc m)
  have k: "k < n" using Suc.hyps(2) by simp
  have len: "length t = n" "length t < 2 ^ 30" using matches_nth(1) [OF tm] tm n by (simp_all add: tbl_matches_def)
  let ?ix = "\<lambda>r. inorder_to_eytzinger0 (of_nat r) (of_nat n)"
  let ?i = "inorder_to_eytzinger0 (of_nat k) (of_nat n)"
  have i: "unat ?i < n" "t ! unat ?i = inorder t ! k" using inorder_idx_bounds [OF len(2), of k] k len(1) by auto
  have e: "bl ! k = es ! k" using Suc.prems k n by (metis Cons_nth_drop_Suc nth_drop add.right_neutral less_imp_le)
  have tk: "t_start (t ! unat ?i) = bl_start (bl ! k)" "t_end (t ! unat ?i) = bl_end (bl ! k)"
    using matches_nth(2,3) [OF tm, of k] k n i(2) e by simp_all
  have up: "[k..<n] = k # [k + 1..<n]" using k by (simp add: upt_rec)
  have d: "drop k es = es ! k # drop (k + 1) es" "drop k (inorder t) = inorder t ! k # drop (k + 1) (inorder t)"
    using k n len by (simp_all add: Cons_nth_drop_Suc)
  have d1: "drop (k + 1) bl = drop (k + 1) es" using arg_cong [OF Suc.prems(3), of "drop 1"] by simp
  have m: "m = n - (k + 1)" using Suc.hyps(2) by simp
  show ?case
  proof (cases "t_dirty (t ! unat ?i) \<or> oldest \<le> t_end (t ! unat ?i)")
    case True
    let ?b = "bl[dst := bl ! k]"
    have dr: "drop (k + 1) ?b = drop (k + 1) es" using d1 Suc.prems(4) by simp
    have tk': "take (dst + 1) ?b = take dst bl @ [es ! k]"
      using Suc.prems(2,4) k e by (simp add: take_Suc_conv_app_nth)
    have st: "blacklist_gc_loop t oldest (map ?ix [k..<n]) bl k dst = blacklist_gc_loop t oldest (map ?ix [k + 1..<n]) ?b (k + 1) (dst + 1)"
      unfolding up list.map blacklist_gc_loop.simps using True i(1) tk k Suc.prems(2,4) len(1) by simp
    have kp: "take dst bl @ bl_kept oldest (drop k es) (drop k (inorder t)) =
        take (dst + 1) ?b @ bl_kept oldest (drop (k + 1) es) (drop (k + 1) (inorder t))"
      unfolding d bl_kept_Cons tk' using True i(2) by simp
    show ?thesis unfolding st kp by (rule Suc.hyps(1) [OF m]) (use k Suc.prems(2,4) dr in simp_all)
  next
    case False
    have st: "blacklist_gc_loop t oldest (map ?ix [k..<n]) bl k dst = blacklist_gc_loop t oldest (map ?ix [k + 1..<n]) bl (k + 1) dst"
      unfolding up list.map blacklist_gc_loop.simps using False i(1) tk k Suc.prems(2,4) len(1) by simp
    have kp: "bl_kept oldest (drop k es) (drop k (inorder t)) = bl_kept oldest (drop (k + 1) es) (drop (k + 1) (inorder t))"
      unfolding d bl_kept_Cons using False i(2) by simp
    show ?thesis unfolding st kp by (rule Suc.hyps(1) [OF m]) (use k Suc.prems(2,4) d1 in simp_all)
  qed
qed

lemma filter_same_length: "length (filter P xs) = length xs \<Longrightarrow> filter P xs = xs"
  by (metis filter_True length_filter_less less_irrefl)

lemma bl_kept_same: "length es = length ts \<Longrightarrow> length (bl_kept oldest es ts) = length es \<Longrightarrow> bl_kept oldest es ts = es"
  unfolding bl_kept_def using filter_same_length [of "\<lambda>(e, te). t_dirty te \<or> oldest \<le> t_end te" "zip es ts"] by simp

lemma bl_kept_valid:
  "length es = length ts \<Longrightarrow> bl_valid es \<Longrightarrow> bl_valid (bl_kept oldest es ts) \<and> set (bl_kept oldest es ts) \<subseteq> set es"
  by (induction es ts rule: list_induct2) (auto simp: bl_kept_Cons bl_valid_Cons bl_kept_def bl_valid_def)

lemma entries_gc_spec:
  assumes inv: "bl_inv c" and es: "sb_blacklist c = Some es" and t: "bl_table c = Some t" and r: "\<And>d. d \<le> 0 \<Longrightarrow> realloc d"
  shows "let kept = bl_kept (oldest_seq_found_ondisk c) es (inorder t) in
    bch2_blacklist_entries_gc realloc c =
    Some (kept \<noteq> es, c\<lparr>sb_blacklist := if kept = [] \<and> es \<noteq> [] then None else Some kept\<rparr>)"
proof -
  let ?k = "bl_kept (oldest_seq_found_ondisk c) es (inorder t)" and ?n = "length es"
  have tm: "tbl_matches t es" using inv es t by (simp add: bl_inv_def field_entries_def)
  have n: "length t = ?n" "?n < 2 ^ 30" using matches_nth(1) [OF tm] tm by (simp_all add: tbl_matches_def)
  then have u: "unat (of_nat ?n :: u32) = ?n" using unat_of_length [of t] by simp
  have fe: "eytzinger0_for_each (of_nat ?n) = Some (map (\<lambda>r. inorder_to_eytzinger0 (of_nat r) (of_nat ?n)) [0..<?n])"
    using for_each_inorder [of "of_nat ?n"] u n(2) by simp
  obtain bl' dst' where l: "blacklist_gc_loop t (oldest_seq_found_ondisk c)
      (map (\<lambda>r. inorder_to_eytzinger0 (of_nat r) (of_nat ?n)) [0..<?n]) es 0 0 = Some (bl', dst')"
    "length bl' = ?n" "dst' \<le> ?n" "take dst' bl' = ?k"
    using gc_loop_spec [OF tm refl, of 0 es 0 "oldest_seq_found_ondisk c"] by auto
  have dk: "dst' = length ?k" using arg_cong [OF l(4), of length] l(2,3) by simp
  have gc: "bch2_blacklist_entries_gc realloc c =
    (if dst' = ?n then Some (False, c\<lparr>sb_blacklist := Some bl'\<rparr>)
     else let (bl, ok) = bch2_sb_field_resize realloc (Some bl') (if dst' \<noteq> 0 then sb_blacklist_u64s dst' else 0)
          in if dst' \<noteq> 0 \<and> \<not> ok then None else Some (True, c\<lparr>sb_blacklist := bl\<rparr>))"
    using es t n(1) fe l(1) by (simp add: bch2_blacklist_entries_gc_def Let_def)
  show ?thesis
  proof (cases "dst' = ?n")
    case True
    then have "?k = es" using bl_kept_same [of es "inorder t"] dk n(1) by simp
    then show ?thesis using gc True l(2,4) by auto
  next
    case False
    then have ne: "?k \<noteq> es" "dst' < ?n" using dk l(3) by auto
    have rl: "realloc (int (if dst' \<noteq> 0 then sb_blacklist_u64s dst' else 0) - int (sb_blacklist_u64s (length bl')))"
      using ne(2) l(2) by (intro r) (simp add: sb_blacklist_u64s_eq)
    show ?thesis
    proof (cases "dst' = 0")
      case True
      then have "?k = []" "es \<noteq> []" using dk ne by auto
      then show ?thesis using gc False True rl by (simp add: bch2_sb_field_resize_def Let_def)
    next
      case nz: False
      then have "bch2_sb_field_resize realloc (Some bl') (sb_blacklist_u64s dst') = (Some ?k, True)"
        using field_resize_ok [of realloc dst' "Some bl'"] rl l by (simp add: field_entries_def)
      then show ?thesis using gc False nz ne dk by simp
    qed
  qed
qed

section \<open>Properties\<close>

lemma validate_iff: "bch2_sb_journal_seq_blacklist_validate es \<longleftrightarrow> bl_valid es"
proof (induction es)
  case (Cons e es)
  show ?case
  proof (cases es)
    case (Cons e' es')
    have "bl_valid es \<Longrightarrow> bl_end e \<le> bl_start e' \<Longrightarrow> \<forall>x\<in>set es. bl_end e \<le> bl_start x"
      using Cons by (auto simp: bl_valid_Cons)
    then show ?thesis using Cons.IH Cons by (auto simp: bl_valid_Cons not_le not_less)
  qed (auto simp: bl_valid_def)
qed (simp add: bl_valid_def)

text \<open>A file system with one blacklisted range, for the witnesses.\<close>

definition bl_ex :: bl_fs where
  "bl_ex = \<lparr>sb_blacklist = Some [\<lparr>bl_start = 5, bl_end = 8\<rparr>],
            bl_table = Some [\<lparr>t_start = 5, t_end = 8, t_dirty = False\<rparr>],
            bl_feature_v3 = True, oldest_seq_found_ondisk = 9\<rparr>"

lemma inorder_singleton: "inorder [x] = [x]"
  using mset_inorder [of "[x]"] by simp

lemma bl_ex_inv: "bl_inv bl_ex"
  by (simp add: bl_ex_def bl_inv_def field_entries_def bl_valid_def tbl_matches_def inorder_singleton)

text \<open>C3. Adding a range to a valid blacklist succeeds when memory and disk allow it; afterwards the
  list is valid and sorted again, the table matches it, and the blacklisted sequence numbers are the old
  ones and those of the range: overlapping and adjacent entries are merged without losing or adding any.\<close>

theorem blacklist_add_correct:
  assumes "bl_inv c" "start < end'" "length (field_entries (sb_blacklist c)) + 1 < 2 ^ 30" "\<And>d. realloc d"
  shows "\<exists>c'. bch2_journal_seq_blacklist_add realloc 0 True c start end' = Some (Inr (), c') \<and> bl_inv c' \<and>
    bl_cover (field_entries (sb_blacklist c')) = bl_cover (field_entries (sb_blacklist c)) \<union> {start..<end'} \<and>
    bl_feature_v3 c'"
proof -
  have v: "bl_valid (field_entries (sb_blacklist c))" using assms(1) by (simp add: bl_inv_def)
  obtain es where es: "bl_valid es" "bl_cover es = bl_cover (field_entries (sb_blacklist c)) \<union> {start..<end'}"
    "length es \<le> length (field_entries (sb_blacklist c)) + 1"
    "bch2_journal_seq_blacklist_add realloc 0 True c start end' =
       bch2_blacklist_table_initialize True (c\<lparr>sb_blacklist := Some es, bl_feature_v3 := True\<rparr>)"
    using blacklist_add_steps [OF v assms(2), of realloc 0 True] assms(4) by (auto simp: Let_def bl_no_room_def)
  have "length es < 2 ^ 30" using es(3) assms(3) by linarith
  then obtain t where "bch2_blacklist_table_initialize True (c\<lparr>sb_blacklist := Some es, bl_feature_v3 := True\<rparr>) =
      Some (Inr (), c\<lparr>sb_blacklist := Some es, bl_feature_v3 := True\<rparr>\<lparr>bl_table := Some t\<rparr>)" "tbl_matches t es"
    using table_initialize_spec [of "c\<lparr>sb_blacklist := Some es, bl_feature_v3 := True\<rparr>" es] es(1) by auto
  then show ?thesis using es by (simp add: bl_inv_def field_entries_def)
qed

theorem blacklist_add_correct_witness:
  "\<exists>c'. bch2_journal_seq_blacklist_add (\<lambda>_. True) 0 True bl_ex 8 10 = Some (Inr (), c') \<and> bl_inv c' \<and>
    bl_cover (field_entries (sb_blacklist c')) = bl_cover (field_entries (sb_blacklist bl_ex)) \<union> {8..<10} \<and>
    bl_feature_v3 c'"
  by (rule blacklist_add_correct [OF bl_ex_inv]) (simp_all add: bl_ex_def field_entries_def)

text \<open>C33. How adding a range fails, and what it leaves behind.  It fails when there is no room in the superblock, when writing the superblock
  fails, or when the table cannot be allocated, and the error says which of these came first.  Without room, that is when the range merges with
  no entry and the superblock cannot grow by one, nothing has changed, provided that only a growing superblock can fail to be reallocated.
  In the other cases the list in memory is valid and has the new range, and the table is the old one.\<close>

theorem blacklist_add_errors:
  assumes "bl_inv c" "start < end'" "\<And>d. d \<le> 0 \<Longrightarrow> realloc d"
    and "bl_no_room realloc c start end' \<or> write_super_ret \<noteq> 0 \<or> \<not> kzalloc_ok"
  shows "\<exists>err c'. bch2_journal_seq_blacklist_add realloc write_super_ret kzalloc_ok c start end' = Some (Inl err, c') \<and>
    err = (if bl_no_room realloc c start end' then ENOSPC_sb_journal_seq_blacklist
      else if write_super_ret \<noteq> 0 then Write_super_error write_super_ret else ENOMEM_blacklist_table_init) \<and>
    (if bl_no_room realloc c start end' then c' = c
     else bl_valid (field_entries (sb_blacklist c')) \<and> bl_table c' = bl_table c \<and>
       bl_cover (field_entries (sb_blacklist c')) = bl_cover (field_entries (sb_blacklist c)) \<union> {start..<end'})"
proof -
  have "bl_valid (field_entries (sb_blacklist c))" using assms(1) by (simp add: bl_inv_def)
  note S = blacklist_add_steps [OF this assms(2), where realloc = realloc and ret = write_super_ret and kz = kzalloc_ok, OF assms(3)]
  show ?thesis
  proof (cases "bl_no_room realloc c start end'")
    case True
    then show ?thesis using S by simp
  next
    case False
    then show ?thesis using S assms(4) by (auto simp: Let_def bch2_blacklist_table_initialize_def field_entries_def)
  qed
qed

theorem blacklist_add_errors_witness:
  "bch2_journal_seq_blacklist_add (\<lambda>d. d \<le> 0) 0 True bl_ex 20 30 = Some (Inl ENOSPC_sb_journal_seq_blacklist, bl_ex)"
proof -
  have "bl_no_room (\<lambda>d. d \<le> 0) bl_ex 20 30" by (simp add: bl_no_room_def bl_touches_def bl_ex_def field_entries_def sb_blacklist_u64s_eq)
  then show ?thesis using blacklist_add_errors [OF bl_ex_inv, where realloc = "\<lambda>d. d \<le> 0" and start = 20 and end' = 30 and write_super_ret = 0 and kzalloc_ok = True]
    by simp
qed

text \<open>C19. A sequence number is reported as blacklisted exactly if some entry of the superblock field contains
  it, no \<^verbatim>\<open>BUG_ON\<close> fires, and marking as dirty marks exactly the entry with that number.\<close>

theorem is_blacklisted_correct:
  assumes "bl_inv c"
  shows "\<exists>c'. bch2_journal_seq_is_blacklisted c seq dirty = Some (seq \<in> bl_cover (field_entries (sb_blacklist c)), c') \<and>
    bl_inv c' \<and> sb_blacklist c' = sb_blacklist c \<and>
    bl_table c' = map_option (map (\<lambda>e. if dirty \<and> t_start e \<le> seq \<and> seq < t_end e then e\<lparr>t_dirty := True\<rparr> else e)) (bl_table c)"
proof (cases "bl_table c")
  case None
  then show ?thesis using assms by (auto simp: bch2_journal_seq_is_blacklisted_def bl_inv_def)
next
  case (Some t)
  have tm: "tbl_matches t (field_entries (sb_blacklist c))" using assms Some by (simp add: bl_inv_def)
  have v: "tbl_valid t" using matches_valid [OF tm] assms by (simp add: bl_inv_def)
  let ?m = "\<lambda>e. if dirty \<and> seq \<in> {t_start e..<t_end e} then e\<lparr>t_dirty := True\<rparr> else e"
  have "map (\<lambda>e. (t_start e, t_end e)) (inorder (map ?m t)) = map (\<lambda>e. (t_start e, t_end e)) (inorder t)"
    using v by (simp add: inorder_map tbl_valid_def)
  then have "tbl_matches (map ?m t) (field_entries (sb_blacklist c))" using tm by (simp add: tbl_matches_def)
  then show ?thesis
    using is_blacklisted_tbl [OF v Some, of seq dirty] matches_cover [OF tm] Some assms by (simp add: bl_inv_def)
qed

theorem is_blacklisted_correct_witness:
  "\<exists>c'. bch2_journal_seq_is_blacklisted bl_ex 7 True = Some (7 \<in> bl_cover (field_entries (sb_blacklist bl_ex)), c') \<and>
    bl_inv c' \<and> sb_blacklist c' = sb_blacklist bl_ex \<and>
    bl_table c' = map_option (map (\<lambda>e. if True \<and> t_start e \<le> 7 \<and> 7 < t_end e then e\<lparr>t_dirty := True\<rparr> else e)) (bl_table bl_ex)"
  by (rule is_blacklisted_correct [OF bl_ex_inv])

text \<open>C21. The remaining lookups: the next blacklisted number is the least one from the argument on, or
  \<^verbatim>\<open>U64_MAX\<close>; the search for the next number that is not blacklisted ends and returns the least one;
  the last blacklisted number is the greatest, or zero when there is none.\<close>

theorem blacklist_lookups_correct:
  assumes "bl_inv c"
  shows "let B = bl_cover (field_entries (sb_blacklist c)) in
    bch2_journal_seq_next_blacklisted c seq = Some (if \<exists>x\<in>B. seq \<le> x then LEAST x. x \<in> B \<and> seq \<le> x else - 1) \<and>
    (\<exists>y. bch2_journal_seq_next_nonblacklisted c seq = Some y \<and> seq \<le> y \<and> y \<notin> B \<and> {seq..<y} \<subseteq> B) \<and>
    (\<exists>y. bch2_journal_last_blacklisted_seq c = Some y \<and> (if B = {} then y = 0 else y \<in> B \<and> (\<forall>x\<in>B. x \<le> y)))"
proof (cases "bl_table c")
  case None
  then show ?thesis
    using assms by (simp add: bl_inv_def bch2_journal_seq_next_blacklisted_def bch2_journal_seq_next_nonblacklisted_def
        bch2_journal_last_blacklisted_seq_def)
next
  case (Some t)
  have tm: "tbl_matches t (field_entries (sb_blacklist c))" using assms Some by (simp add: bl_inv_def)
  have v: "tbl_valid t" using matches_valid [OF tm] assms by (simp add: bl_inv_def)
  have e: "tbl_cover t = {} \<longleftrightarrow> t = []"
    using v set_inorder [of t] by (fastforce simp: tbl_cover_def tbl_valid_def)
  show ?thesis
    using next_blacklisted_tbl [OF v Some, of seq] next_nonblacklisted_tbl [OF v, of seq] last_blacklisted_tbl [OF v Some] Some
    unfolding Let_def matches_cover [OF tm, symmetric] e by (simp add: bch2_journal_seq_next_nonblacklisted_def)
qed

theorem blacklist_lookups_correct_witness:
  "let B = bl_cover (field_entries (sb_blacklist bl_ex)) in
    bch2_journal_seq_next_blacklisted bl_ex 2 = Some (if \<exists>x\<in>B. 2 \<le> x then LEAST x. x \<in> B \<and> 2 \<le> x else - 1) \<and>
    (\<exists>y. bch2_journal_seq_next_nonblacklisted bl_ex 2 = Some y \<and> 2 \<le> y \<and> y \<notin> B \<and> {2..<y} \<subseteq> B) \<and>
    (\<exists>y. bch2_journal_last_blacklisted_seq bl_ex = Some y \<and> (if B = {} then y = 0 else y \<in> B \<and> (\<forall>x\<in>B. x \<le> y)))"
  by (rule blacklist_lookups_correct [OF bl_ex_inv])

text \<open>C22. A collection runs without a \<^verbatim>\<open>BUG_ON\<close>, keeps exactly the entries that are dirty or end at or after the
  oldest sequence number found on disk, and so unblacklists no number from that one on; the remaining
  field passes validation, which accepts exactly the sorted lists of disjoint non-empty ranges.\<close>

theorem blacklist_gc_correct:
  assumes "bl_inv c" "sb_blacklist c = Some es" "bl_table c = Some t" "\<And>d. d \<le> 0 \<Longrightarrow> realloc d"
  shows "let kept = bl_kept (oldest_seq_found_ondisk c) es (inorder t) in
    bch2_blacklist_entries_gc realloc c =
      Some (kept \<noteq> es, c\<lparr>sb_blacklist := if kept = [] \<and> es \<noteq> [] then None else Some kept\<rparr>) \<and>
    bch2_sb_journal_seq_blacklist_validate kept \<and> bl_cover kept \<subseteq> bl_cover es \<and>
    {x \<in> bl_cover es. oldest_seq_found_ondisk c \<le> x} \<subseteq> bl_cover kept"
proof -
  let ?k = "bl_kept (oldest_seq_found_ondisk c) es (inorder t)"
  have tm: "tbl_matches t es" "bl_valid es" using assms(1-3) by (simp_all add: bl_inv_def field_entries_def)
  have len: "length es = length (inorder t)" using matches_nth(1) [OF tm(1)] by simp
  have k: "bl_valid ?k" "set ?k \<subseteq> set es" using bl_kept_valid [OF len tm(2)] by auto
  have in_k: "es ! i \<in> set ?k" if "i < length es" "oldest_seq_found_ondisk c \<le> bl_end (es ! i)" for i
  proof -
    have "(es ! i, inorder t ! i) \<in> set (zip es (inorder t))" using that(1) len by (auto simp: set_zip)
    then show ?thesis using that matches_nth(3) [OF tm(1) that(1)] by (force simp: bl_kept_def)
  qed
  have "{x \<in> bl_cover es. oldest_seq_found_ondisk c \<le> x} \<subseteq> bl_cover ?k"
  proof
    fix x
    assume x: "x \<in> {x \<in> bl_cover es. oldest_seq_found_ondisk c \<le> x}"
    then obtain i where i: "i < length es" "bl_start (es ! i) \<le> x" "x < bl_end (es ! i)"
      by (auto simp: bl_cover_def in_set_conv_nth)
    moreover have "oldest_seq_found_ondisk c \<le> bl_end (es ! i)" using x i(3) by (auto intro: order_trans less_imp_le)
    ultimately show "x \<in> bl_cover ?k" using in_k [of i] by (auto simp: bl_cover_def)
  qed
  then show ?thesis
    using entries_gc_spec [OF assms] k unfolding Let_def validate_iff by (auto simp: bl_cover_def)
qed

theorem blacklist_gc_correct_witness:
  "let kept = bl_kept (oldest_seq_found_ondisk bl_ex) [\<lparr>bl_start = 5, bl_end = 8\<rparr>] (inorder [\<lparr>t_start = 5, t_end = 8, t_dirty = False\<rparr>]) in
    bch2_blacklist_entries_gc (\<lambda>_. True) bl_ex =
      Some (kept \<noteq> [\<lparr>bl_start = 5, bl_end = 8\<rparr>],
        bl_ex\<lparr>sb_blacklist := if kept = [] \<and> [\<lparr>bl_start = 5, bl_end = 8\<rparr>] \<noteq> [] then None else Some kept\<rparr>) \<and>
    bch2_sb_journal_seq_blacklist_validate kept \<and> bl_cover kept \<subseteq> bl_cover [\<lparr>bl_start = 5, bl_end = 8\<rparr>] \<and>
    {x \<in> bl_cover [\<lparr>bl_start = 5, bl_end = 8\<rparr>]. oldest_seq_found_ondisk bl_ex \<le> x} \<subseteq> bl_cover kept"
  by (rule blacklist_gc_correct [OF bl_ex_inv]) (simp_all add: bl_ex_def)

end
