(* ===== verification/Raid_Field.thy ===== *)
theory Raid_Field
  imports Bch_Prelude
begin

text \<open>
  The field with 256 elements of the RAID library (\<^verbatim>\<open>raid/raid.c\<close>, \<^verbatim>\<open>raid/gf.h\<close>): bytes with exclusive or as
  addition and multiplication modulo \<open>x^8 + x^4 + x^3 + x^2 + 1\<close>. The type \<open>gf\<close> is a copy of the bytes
  that is an instance of the class of fields, so that sums and the algebra of the library apply.
  Multiplication is the reference definition by shifts; the tables of the program are compared with it.
\<close>

unbundle bit_operations_syntax

section \<open>Multiplication by x on bytes\<close>

definition gf_x2 :: "u8 \<Rightarrow> u8" where
  "gf_x2 v = push_bit 1 v XOR (if bit v 7 then 0x1d else 0)"

definition gf_d2 :: "u8 \<Rightarrow> u8" where
  "gf_d2 v = drop_bit 1 v XOR (if bit v 0 then 0x8e else 0)"

lemma gf_x2_xor: "gf_x2 (a XOR b) = gf_x2 a XOR gf_x2 b"
  by (auto simp: gf_x2_def bit_xor_iff push_bit_xor ac_simps)

lemma gf_x2_0: "gf_x2 0 = 0"
  by (simp add: gf_x2_def)

lemma less_8_cases:
  assumes "n < (8 :: nat)"
  shows "n = 0 \<or> n = 1 \<or> n = 2 \<or> n = 3 \<or> n = 4 \<or> n = 5 \<or> n = 6 \<or> n = 7"
  using assms by linarith

lemma bit_gf_x2:
  assumes "n < 8"
  shows "bit (gf_x2 v) n \<longleftrightarrow> (n \<noteq> 0 \<and> bit v (n - 1)) \<noteq> (bit v 7 \<and> n \<in> {0, 2, 3, 4})"
  unfolding gf_x2_def bit_xor_iff bit_push_bit_iff
  using less_8_cases [OF assms] by (elim disjE) simp_all

lemma bit_gf_d2:
  assumes "n < 8"
  shows "bit (gf_d2 v) n \<longleftrightarrow> bit v (n + 1) \<noteq> (bit v 0 \<and> n \<in> {1, 2, 3, 7})"
  unfolding gf_d2_def bit_xor_iff bit_drop_bit_eq
  using less_8_cases [OF assms] by (elim disjE) (simp_all add: numeral_2_eq_2 numeral_3_eq_3)

lemma gf_x2_d2: "gf_x2 (gf_d2 v) = v"
proof (rule bit_eqI)
  fix n
  assume "possible_bit TYPE(u8) n"
  then have "n < 8" by simp
  moreover have "\<not> bit v 8" using bit_imp_le_length [of v 8] by auto
  ultimately show "bit (gf_x2 (gf_d2 v)) n \<longleftrightarrow> bit v n"
    using less_8_cases [OF \<open>n < 8\<close>] by (elim disjE) (auto simp: bit_gf_x2 bit_gf_d2 eval_nat_numeral)
qed

lemma gf_x2_pow:
  assumes "k < 8"
  shows "(gf_x2 ^^ k) 1 = push_bit k 1"
  using less_8_cases [OF assms] by (elim disjE) (simp_all add: gf_x2_def eval_nat_numeral)

section \<open>The type\<close>

typedef gf = "UNIV :: u8 set" morphisms byte_of gf_of ..

setup_lifting type_definition_gf

declare byte_of_inverse [simp] gf_of_inverse [OF UNIV_I, simp]

instantiation gf :: ab_group_add
begin

lift_definition zero_gf :: gf is 0 .
lift_definition plus_gf :: "gf \<Rightarrow> gf \<Rightarrow> gf" is "(XOR)" .
lift_definition minus_gf :: "gf \<Rightarrow> gf \<Rightarrow> gf" is "(XOR)" .
lift_definition uminus_gf :: "gf \<Rightarrow> gf" is "\<lambda>a. a" .

instance
  by (standard; transfer) (simp_all add: ac_simps)

end

lemma gf_self_add [simp]: "(a :: gf) + a = 0"
  by transfer simp

lemma gf_minus: "(a :: gf) - b = a + b"
  by transfer simp

lemma gf_uminus [simp]: "- (a :: gf) = a"
  by transfer simp

lemma gf_add_eq_0: "(a :: gf) + b = 0 \<longleftrightarrow> a = b"
  by (metis add.right_neutral add.left_commute gf_self_add)

lift_definition gx :: "gf \<Rightarrow> gf" is gf_x2 .
lift_definition gbit :: "gf \<Rightarrow> nat \<Rightarrow> bool" is bit .

lemma gx_add: "gx (a + b) = gx a + gx b"
  by transfer (rule gf_x2_xor)

lemma gx_0 [simp]: "gx 0 = 0"
  by transfer (rule gf_x2_0)

lemma gxs_add: "(gx ^^ k) (a + b) = (gx ^^ k) a + (gx ^^ k) b"
  by (induction k) (simp_all add: gx_add)

lemma gxs_0 [simp]: "(gx ^^ k) 0 = 0"
  by (induction k) simp_all

lemma gxs_sum: "finite S \<Longrightarrow> (gx ^^ k) (sum f S) = (\<Sum>i\<in>S. (gx ^^ k) (f i))"
  by (induction S rule: finite_induct) (simp_all add: gxs_add)

section \<open>Multiplication\<close>

text \<open>\<open>gmul a b\<close> applies the polynomial with the bits of \<open>a\<close> to \<open>b\<close>.\<close>

definition gmul :: "gf \<Rightarrow> gf \<Rightarrow> gf" where
  "gmul a b = (\<Sum>k<8. if gbit a k then (gx ^^ k) b else 0)"

lift_definition gf_one :: gf is 1 .

lemma gmul_add_right: "gmul a (b + c) = gmul a b + gmul a c"
proof -
  have "gmul a (b + c) = (\<Sum>k<8. (if gbit a k then (gx ^^ k) b else 0) + (if gbit a k then (gx ^^ k) c else 0))"
    unfolding gmul_def by (rule sum.cong) (simp_all add: gxs_add)
  then show ?thesis by (simp add: gmul_def sum.distrib)
qed

lemma gbit_add: "gbit (a + b) k \<longleftrightarrow> gbit a k \<noteq> gbit b k"
  by transfer (simp add: bit_xor_iff)

lemma gmul_add_left: "gmul (a + b) c = gmul a c + gmul b c"
proof -
  have "gmul (a + b) c = (\<Sum>k<8. (if gbit a k then (gx ^^ k) c else 0) + (if gbit b k then (gx ^^ k) c else 0))"
    unfolding gmul_def by (rule sum.cong) (auto simp: gbit_add)
  then show ?thesis by (simp add: gmul_def sum.distrib)
qed

lemma gmul_0_right [simp]: "gmul a 0 = 0"
  by (simp add: gmul_def cong: if_cong)

lemma gmul_sum_right: "finite S \<Longrightarrow> gmul a (sum f S) = (\<Sum>i\<in>S. gmul a (f i))"
  by (induction S rule: finite_induct) (simp_all add: gmul_add_right)

lemma gx_gmul: "gx (gmul a b) = gmul a (gx b)"
proof -
  have "gx (gmul a b) = (\<Sum>k<8. gx (if gbit a k then (gx ^^ k) b else 0))"
    using gxs_sum [of "{..<8 :: nat}" 1] by (simp add: gmul_def)
  also have "\<dots> = (\<Sum>k<8. if gbit a k then (gx ^^ k) (gx b) else 0)"
    by (rule sum.cong) (simp_all add: funpow_swap1)
  finally show ?thesis by (simp add: gmul_def)
qed

lemma gxs_gmul: "(gx ^^ k) (gmul a b) = gmul a ((gx ^^ k) b)"
  by (induction k) (simp_all add: gx_gmul)

lemma gmul_left_commute: "gmul a (gmul b c) = gmul b (gmul a c)"
proof -
  have "gmul a (gmul b c) = (\<Sum>k<8. gmul a (if gbit b k then (gx ^^ k) c else 0))"
    by (simp add: gmul_def [of b] gmul_sum_right)
  also have "\<dots> = (\<Sum>k<8. if gbit b k then (gx ^^ k) (gmul a c) else 0)"
    by (rule sum.cong) (simp_all add: gxs_gmul)
  finally show ?thesis by (simp add: gmul_def [of b])
qed

lemma byte_of_sum: "byte_of (\<Sum>k<n. f k) = fold (\<lambda>k acc. acc XOR byte_of (f k)) [0..<n] 0"
  by (induction n) (simp_all add: zero_gf.rep_eq plus_gf.rep_eq lessThan_Suc xor.commute)

lemma byte_of_gxs: "byte_of ((gx ^^ k) a) = (gf_x2 ^^ k) (byte_of a)"
  by (induction k) (simp_all add: gx.rep_eq)

lemma gmul_one_right: "gmul a gf_one = a"
proof -
  have "byte_of (gmul a gf_one) = byte_of a"
  proof (rule bit_eqI)
    fix n
    assume "possible_bit TYPE(u8) n"
    then have n: "n < 8" by simp
    have f: "bit (fold (\<lambda>k acc. acc XOR (if bit (byte_of a) k then push_bit k 1 else 0)) [0..<m] (0 :: u8)) n \<longleftrightarrow> n < m \<and> bit (byte_of a) n" for m
      using n by (induction m) (auto simp: bit_xor_iff bit_exp_iff less_Suc_eq)
    have "byte_of (gmul a gf_one) = fold (\<lambda>k acc. acc XOR (if bit (byte_of a) k then push_bit k 1 else 0)) [0..<8] 0"
      unfolding gmul_def byte_of_sum
      by (rule fold_cong) (auto simp: gbit.rep_eq byte_of_gxs gf_one.rep_eq gf_x2_pow zero_gf.rep_eq)
    then show "bit (byte_of (gmul a gf_one)) n \<longleftrightarrow> bit (byte_of a) n" using f [of 8] n by simp
  qed
  then show ?thesis by (simp add: byte_of_inject)
qed

lemma gmul_commute: "gmul a b = gmul b a"
  by (metis gmul_left_commute gmul_one_right)

lemma gmul_assoc: "gmul (gmul a b) c = gmul a (gmul b c)"
  by (metis gmul_commute gmul_left_commute)

text \<open>The same product on bytes, computed by shifting one factor down and the other up.\<close>

fun gf_mulk :: "nat \<Rightarrow> u8 \<Rightarrow> u8 \<Rightarrow> u8" where
  "gf_mulk 0 a b = 0"
| "gf_mulk (Suc n) a b = (if bit a 0 then b else 0) XOR gf_mulk n (drop_bit 1 a) (gf_x2 b)"

lemma gf_mulk_eq:
  "gf_mulk n (drop_bit j (byte_of a)) (byte_of ((gx ^^ j) b)) = byte_of (\<Sum>k\<in>{j..<j + n}. if gbit a k then (gx ^^ k) b else 0)"
proof (induction n arbitrary: j)
  case (Suc n)
  have "{j..<j + Suc n} = insert j {Suc j..<Suc j + n}" by auto
  moreover have "drop_bit 1 (drop_bit j (byte_of a)) = drop_bit (Suc j) (byte_of a)" by simp
  moreover have "gf_x2 (byte_of ((gx ^^ j) b)) = byte_of ((gx ^^ Suc j) b)" by (simp add: gx.rep_eq)
  moreover have "bit (drop_bit j (byte_of a)) 0 \<longleftrightarrow> gbit a j" by (simp add: bit_drop_bit_eq gbit.rep_eq)
  ultimately show ?case using Suc [of "Suc j"] by (simp add: plus_gf.rep_eq zero_gf.rep_eq del: funpow.simps)
qed (simp add: zero_gf.rep_eq)

lemma byte_of_gmul: "byte_of (gmul a b) = gf_mulk 8 (byte_of a) (byte_of b)"
  using gf_mulk_eq [of 8 0 a b] by (simp add: gmul_def lessThan_atLeast0)

section \<open>Inverses\<close>

text \<open>Powers of two, and inverses, from the tables of \<^verbatim>\<open>raid/tables.c\<close>.\<close>

definition raid_gfexp :: "u8 list" where
  "raid_gfexp =
    [0x01, 0x02, 0x04, 0x08, 0x10, 0x20, 0x40, 0x80, 0x1d, 0x3a, 0x74, 0xe8, 0xcd, 0x87, 0x13, 0x26,
     0x4c, 0x98, 0x2d, 0x5a, 0xb4, 0x75, 0xea, 0xc9, 0x8f, 0x03, 0x06, 0x0c, 0x18, 0x30, 0x60, 0xc0,
     0x9d, 0x27, 0x4e, 0x9c, 0x25, 0x4a, 0x94, 0x35, 0x6a, 0xd4, 0xb5, 0x77, 0xee, 0xc1, 0x9f, 0x23,
     0x46, 0x8c, 0x05, 0x0a, 0x14, 0x28, 0x50, 0xa0, 0x5d, 0xba, 0x69, 0xd2, 0xb9, 0x6f, 0xde, 0xa1,
     0x5f, 0xbe, 0x61, 0xc2, 0x99, 0x2f, 0x5e, 0xbc, 0x65, 0xca, 0x89, 0x0f, 0x1e, 0x3c, 0x78, 0xf0,
     0xfd, 0xe7, 0xd3, 0xbb, 0x6b, 0xd6, 0xb1, 0x7f, 0xfe, 0xe1, 0xdf, 0xa3, 0x5b, 0xb6, 0x71, 0xe2,
     0xd9, 0xaf, 0x43, 0x86, 0x11, 0x22, 0x44, 0x88, 0x0d, 0x1a, 0x34, 0x68, 0xd0, 0xbd, 0x67, 0xce,
     0x81, 0x1f, 0x3e, 0x7c, 0xf8, 0xed, 0xc7, 0x93, 0x3b, 0x76, 0xec, 0xc5, 0x97, 0x33, 0x66, 0xcc,
     0x85, 0x17, 0x2e, 0x5c, 0xb8, 0x6d, 0xda, 0xa9, 0x4f, 0x9e, 0x21, 0x42, 0x84, 0x15, 0x2a, 0x54,
     0xa8, 0x4d, 0x9a, 0x29, 0x52, 0xa4, 0x55, 0xaa, 0x49, 0x92, 0x39, 0x72, 0xe4, 0xd5, 0xb7, 0x73,
     0xe6, 0xd1, 0xbf, 0x63, 0xc6, 0x91, 0x3f, 0x7e, 0xfc, 0xe5, 0xd7, 0xb3, 0x7b, 0xf6, 0xf1, 0xff,
     0xe3, 0xdb, 0xab, 0x4b, 0x96, 0x31, 0x62, 0xc4, 0x95, 0x37, 0x6e, 0xdc, 0xa5, 0x57, 0xae, 0x41,
     0x82, 0x19, 0x32, 0x64, 0xc8, 0x8d, 0x07, 0x0e, 0x1c, 0x38, 0x70, 0xe0, 0xdd, 0xa7, 0x53, 0xa6,
     0x51, 0xa2, 0x59, 0xb2, 0x79, 0xf2, 0xf9, 0xef, 0xc3, 0x9b, 0x2b, 0x56, 0xac, 0x45, 0x8a, 0x09,
     0x12, 0x24, 0x48, 0x90, 0x3d, 0x7a, 0xf4, 0xf5, 0xf7, 0xf3, 0xfb, 0xeb, 0xcb, 0x8b, 0x0b, 0x16,
     0x2c, 0x58, 0xb0, 0x7d, 0xfa, 0xe9, 0xcf, 0x83, 0x1b, 0x36, 0x6c, 0xd8, 0xad, 0x47, 0x8e, 0x01]"

definition raid_gfinv :: "u8 list" where
  "raid_gfinv =
    [0x00, 0x01, 0x8e, 0xf4, 0x47, 0xa7, 0x7a, 0xba, 0xad, 0x9d, 0xdd, 0x98, 0x3d, 0xaa, 0x5d, 0x96,
     0xd8, 0x72, 0xc0, 0x58, 0xe0, 0x3e, 0x4c, 0x66, 0x90, 0xde, 0x55, 0x80, 0xa0, 0x83, 0x4b, 0x2a,
     0x6c, 0xed, 0x39, 0x51, 0x60, 0x56, 0x2c, 0x8a, 0x70, 0xd0, 0x1f, 0x4a, 0x26, 0x8b, 0x33, 0x6e,
     0x48, 0x89, 0x6f, 0x2e, 0xa4, 0xc3, 0x40, 0x5e, 0x50, 0x22, 0xcf, 0xa9, 0xab, 0x0c, 0x15, 0xe1,
     0x36, 0x5f, 0xf8, 0xd5, 0x92, 0x4e, 0xa6, 0x04, 0x30, 0x88, 0x2b, 0x1e, 0x16, 0x67, 0x45, 0x93,
     0x38, 0x23, 0x68, 0x8c, 0x81, 0x1a, 0x25, 0x61, 0x13, 0xc1, 0xcb, 0x63, 0x97, 0x0e, 0x37, 0x41,
     0x24, 0x57, 0xca, 0x5b, 0xb9, 0xc4, 0x17, 0x4d, 0x52, 0x8d, 0xef, 0xb3, 0x20, 0xec, 0x2f, 0x32,
     0x28, 0xd1, 0x11, 0xd9, 0xe9, 0xfb, 0xda, 0x79, 0xdb, 0x77, 0x06, 0xbb, 0x84, 0xcd, 0xfe, 0xfc,
     0x1b, 0x54, 0xa1, 0x1d, 0x7c, 0xcc, 0xe4, 0xb0, 0x49, 0x31, 0x27, 0x2d, 0x53, 0x69, 0x02, 0xf5,
     0x18, 0xdf, 0x44, 0x4f, 0x9b, 0xbc, 0x0f, 0x5c, 0x0b, 0xdc, 0xbd, 0x94, 0xac, 0x09, 0xc7, 0xa2,
     0x1c, 0x82, 0x9f, 0xc6, 0x34, 0xc2, 0x46, 0x05, 0xce, 0x3b, 0x0d, 0x3c, 0x9c, 0x08, 0xbe, 0xb7,
     0x87, 0xe5, 0xee, 0x6b, 0xeb, 0xf2, 0xbf, 0xaf, 0xc5, 0x64, 0x07, 0x7b, 0x95, 0x9a, 0xae, 0xb6,
     0x12, 0x59, 0xa5, 0x35, 0x65, 0xb8, 0xa3, 0x9e, 0xd2, 0xf7, 0x62, 0x5a, 0x85, 0x7d, 0xa8, 0x3a,
     0x29, 0x71, 0xc8, 0xf6, 0xf9, 0x43, 0xd7, 0xd6, 0x10, 0x73, 0x76, 0x78, 0x99, 0x0a, 0x19, 0x91,
     0x14, 0x3f, 0xe6, 0xf0, 0x86, 0xb1, 0xe2, 0xf1, 0xfa, 0x74, 0xf3, 0xb4, 0x6d, 0x21, 0xb2, 0x6a,
     0xe3, 0xe7, 0xb5, 0xea, 0x03, 0x8f, 0xd3, 0xc9, 0x42, 0xd4, 0xe8, 0x75, 0x7f, 0xff, 0x7e, 0xfd]"

text \<open>Rules to evaluate products of concrete bytes.\<close>

lemma gf_x2_table:
  "gf_x2 0 = 0" "gf_x2 1 = 0x02" "gf_x2 0x02 = 0x04" "gf_x2 0x03 = 0x06" "gf_x2 0x04 = 0x08" "gf_x2 0x05 = 0x0a"
  "gf_x2 0x06 = 0x0c" "gf_x2 0x07 = 0x0e" "gf_x2 0x08 = 0x10" "gf_x2 0x09 = 0x12" "gf_x2 0x0a = 0x14" "gf_x2 0x0b = 0x16"
  "gf_x2 0x0c = 0x18" "gf_x2 0x0d = 0x1a" "gf_x2 0x0e = 0x1c" "gf_x2 0x0f = 0x1e" "gf_x2 0x10 = 0x20" "gf_x2 0x11 = 0x22"
  "gf_x2 0x12 = 0x24" "gf_x2 0x13 = 0x26" "gf_x2 0x14 = 0x28" "gf_x2 0x15 = 0x2a" "gf_x2 0x16 = 0x2c" "gf_x2 0x17 = 0x2e"
  "gf_x2 0x18 = 0x30" "gf_x2 0x19 = 0x32" "gf_x2 0x1a = 0x34" "gf_x2 0x1b = 0x36" "gf_x2 0x1c = 0x38" "gf_x2 0x1d = 0x3a"
  "gf_x2 0x1e = 0x3c" "gf_x2 0x1f = 0x3e" "gf_x2 0x20 = 0x40" "gf_x2 0x21 = 0x42" "gf_x2 0x22 = 0x44" "gf_x2 0x23 = 0x46"
  "gf_x2 0x24 = 0x48" "gf_x2 0x25 = 0x4a" "gf_x2 0x26 = 0x4c" "gf_x2 0x27 = 0x4e" "gf_x2 0x28 = 0x50" "gf_x2 0x29 = 0x52"
  "gf_x2 0x2a = 0x54" "gf_x2 0x2b = 0x56" "gf_x2 0x2c = 0x58" "gf_x2 0x2d = 0x5a" "gf_x2 0x2e = 0x5c" "gf_x2 0x2f = 0x5e"
  "gf_x2 0x30 = 0x60" "gf_x2 0x31 = 0x62" "gf_x2 0x32 = 0x64" "gf_x2 0x33 = 0x66" "gf_x2 0x34 = 0x68" "gf_x2 0x35 = 0x6a"
  "gf_x2 0x36 = 0x6c" "gf_x2 0x37 = 0x6e" "gf_x2 0x38 = 0x70" "gf_x2 0x39 = 0x72" "gf_x2 0x3a = 0x74" "gf_x2 0x3b = 0x76"
  "gf_x2 0x3c = 0x78" "gf_x2 0x3d = 0x7a" "gf_x2 0x3e = 0x7c" "gf_x2 0x3f = 0x7e" "gf_x2 0x40 = 0x80" "gf_x2 0x41 = 0x82"
  "gf_x2 0x42 = 0x84" "gf_x2 0x43 = 0x86" "gf_x2 0x44 = 0x88" "gf_x2 0x45 = 0x8a" "gf_x2 0x46 = 0x8c" "gf_x2 0x47 = 0x8e"
  "gf_x2 0x48 = 0x90" "gf_x2 0x49 = 0x92" "gf_x2 0x4a = 0x94" "gf_x2 0x4b = 0x96" "gf_x2 0x4c = 0x98" "gf_x2 0x4d = 0x9a"
  "gf_x2 0x4e = 0x9c" "gf_x2 0x4f = 0x9e" "gf_x2 0x50 = 0xa0" "gf_x2 0x51 = 0xa2" "gf_x2 0x52 = 0xa4" "gf_x2 0x53 = 0xa6"
  "gf_x2 0x54 = 0xa8" "gf_x2 0x55 = 0xaa" "gf_x2 0x56 = 0xac" "gf_x2 0x57 = 0xae" "gf_x2 0x58 = 0xb0" "gf_x2 0x59 = 0xb2"
  "gf_x2 0x5a = 0xb4" "gf_x2 0x5b = 0xb6" "gf_x2 0x5c = 0xb8" "gf_x2 0x5d = 0xba" "gf_x2 0x5e = 0xbc" "gf_x2 0x5f = 0xbe"
  "gf_x2 0x60 = 0xc0" "gf_x2 0x61 = 0xc2" "gf_x2 0x62 = 0xc4" "gf_x2 0x63 = 0xc6" "gf_x2 0x64 = 0xc8" "gf_x2 0x65 = 0xca"
  "gf_x2 0x66 = 0xcc" "gf_x2 0x67 = 0xce" "gf_x2 0x68 = 0xd0" "gf_x2 0x69 = 0xd2" "gf_x2 0x6a = 0xd4" "gf_x2 0x6b = 0xd6"
  "gf_x2 0x6c = 0xd8" "gf_x2 0x6d = 0xda" "gf_x2 0x6e = 0xdc" "gf_x2 0x6f = 0xde" "gf_x2 0x70 = 0xe0" "gf_x2 0x71 = 0xe2"
  "gf_x2 0x72 = 0xe4" "gf_x2 0x73 = 0xe6" "gf_x2 0x74 = 0xe8" "gf_x2 0x75 = 0xea" "gf_x2 0x76 = 0xec" "gf_x2 0x77 = 0xee"
  "gf_x2 0x78 = 0xf0" "gf_x2 0x79 = 0xf2" "gf_x2 0x7a = 0xf4" "gf_x2 0x7b = 0xf6" "gf_x2 0x7c = 0xf8" "gf_x2 0x7d = 0xfa"
  "gf_x2 0x7e = 0xfc" "gf_x2 0x7f = 0xfe" "gf_x2 0x80 = 0x1d" "gf_x2 0x81 = 0x1f" "gf_x2 0x82 = 0x19" "gf_x2 0x83 = 0x1b"
  "gf_x2 0x84 = 0x15" "gf_x2 0x85 = 0x17" "gf_x2 0x86 = 0x11" "gf_x2 0x87 = 0x13" "gf_x2 0x88 = 0x0d" "gf_x2 0x89 = 0x0f"
  "gf_x2 0x8a = 0x09" "gf_x2 0x8b = 0x0b" "gf_x2 0x8c = 0x05" "gf_x2 0x8d = 0x07" "gf_x2 0x8e = 1" "gf_x2 0x8f = 0x03"
  "gf_x2 0x90 = 0x3d" "gf_x2 0x91 = 0x3f" "gf_x2 0x92 = 0x39" "gf_x2 0x93 = 0x3b" "gf_x2 0x94 = 0x35" "gf_x2 0x95 = 0x37"
  "gf_x2 0x96 = 0x31" "gf_x2 0x97 = 0x33" "gf_x2 0x98 = 0x2d" "gf_x2 0x99 = 0x2f" "gf_x2 0x9a = 0x29" "gf_x2 0x9b = 0x2b"
  "gf_x2 0x9c = 0x25" "gf_x2 0x9d = 0x27" "gf_x2 0x9e = 0x21" "gf_x2 0x9f = 0x23" "gf_x2 0xa0 = 0x5d" "gf_x2 0xa1 = 0x5f"
  "gf_x2 0xa2 = 0x59" "gf_x2 0xa3 = 0x5b" "gf_x2 0xa4 = 0x55" "gf_x2 0xa5 = 0x57" "gf_x2 0xa6 = 0x51" "gf_x2 0xa7 = 0x53"
  "gf_x2 0xa8 = 0x4d" "gf_x2 0xa9 = 0x4f" "gf_x2 0xaa = 0x49" "gf_x2 0xab = 0x4b" "gf_x2 0xac = 0x45" "gf_x2 0xad = 0x47"
  "gf_x2 0xae = 0x41" "gf_x2 0xaf = 0x43" "gf_x2 0xb0 = 0x7d" "gf_x2 0xb1 = 0x7f" "gf_x2 0xb2 = 0x79" "gf_x2 0xb3 = 0x7b"
  "gf_x2 0xb4 = 0x75" "gf_x2 0xb5 = 0x77" "gf_x2 0xb6 = 0x71" "gf_x2 0xb7 = 0x73" "gf_x2 0xb8 = 0x6d" "gf_x2 0xb9 = 0x6f"
  "gf_x2 0xba = 0x69" "gf_x2 0xbb = 0x6b" "gf_x2 0xbc = 0x65" "gf_x2 0xbd = 0x67" "gf_x2 0xbe = 0x61" "gf_x2 0xbf = 0x63"
  "gf_x2 0xc0 = 0x9d" "gf_x2 0xc1 = 0x9f" "gf_x2 0xc2 = 0x99" "gf_x2 0xc3 = 0x9b" "gf_x2 0xc4 = 0x95" "gf_x2 0xc5 = 0x97"
  "gf_x2 0xc6 = 0x91" "gf_x2 0xc7 = 0x93" "gf_x2 0xc8 = 0x8d" "gf_x2 0xc9 = 0x8f" "gf_x2 0xca = 0x89" "gf_x2 0xcb = 0x8b"
  "gf_x2 0xcc = 0x85" "gf_x2 0xcd = 0x87" "gf_x2 0xce = 0x81" "gf_x2 0xcf = 0x83" "gf_x2 0xd0 = 0xbd" "gf_x2 0xd1 = 0xbf"
  "gf_x2 0xd2 = 0xb9" "gf_x2 0xd3 = 0xbb" "gf_x2 0xd4 = 0xb5" "gf_x2 0xd5 = 0xb7" "gf_x2 0xd6 = 0xb1" "gf_x2 0xd7 = 0xb3"
  "gf_x2 0xd8 = 0xad" "gf_x2 0xd9 = 0xaf" "gf_x2 0xda = 0xa9" "gf_x2 0xdb = 0xab" "gf_x2 0xdc = 0xa5" "gf_x2 0xdd = 0xa7"
  "gf_x2 0xde = 0xa1" "gf_x2 0xdf = 0xa3" "gf_x2 0xe0 = 0xdd" "gf_x2 0xe1 = 0xdf" "gf_x2 0xe2 = 0xd9" "gf_x2 0xe3 = 0xdb"
  "gf_x2 0xe4 = 0xd5" "gf_x2 0xe5 = 0xd7" "gf_x2 0xe6 = 0xd1" "gf_x2 0xe7 = 0xd3" "gf_x2 0xe8 = 0xcd" "gf_x2 0xe9 = 0xcf"
  "gf_x2 0xea = 0xc9" "gf_x2 0xeb = 0xcb" "gf_x2 0xec = 0xc5" "gf_x2 0xed = 0xc7" "gf_x2 0xee = 0xc1" "gf_x2 0xef = 0xc3"
  "gf_x2 0xf0 = 0xfd" "gf_x2 0xf1 = 0xff" "gf_x2 0xf2 = 0xf9" "gf_x2 0xf3 = 0xfb" "gf_x2 0xf4 = 0xf5" "gf_x2 0xf5 = 0xf7"
  "gf_x2 0xf6 = 0xf1" "gf_x2 0xf7 = 0xf3" "gf_x2 0xf8 = 0xed" "gf_x2 0xf9 = 0xef" "gf_x2 0xfa = 0xe9" "gf_x2 0xfb = 0xeb"
  "gf_x2 0xfc = 0xe5" "gf_x2 0xfd = 0xe7" "gf_x2 0xfe = 0xe1" "gf_x2 0xff = 0xe3"
  by (simp_all add: gf_x2_def)

lemma gf_mulk_unfold:
  "gf_mulk 8 a b = (if bit a 0 then b else 0) XOR gf_mulk 7 (drop_bit 1 a) (gf_x2 b)"
  "gf_mulk 7 a b = (if bit a 0 then b else 0) XOR gf_mulk 6 (drop_bit 1 a) (gf_x2 b)"
  "gf_mulk 6 a b = (if bit a 0 then b else 0) XOR gf_mulk 5 (drop_bit 1 a) (gf_x2 b)"
  "gf_mulk 5 a b = (if bit a 0 then b else 0) XOR gf_mulk 4 (drop_bit 1 a) (gf_x2 b)"
  "gf_mulk 4 a b = (if bit a 0 then b else 0) XOR gf_mulk 3 (drop_bit 1 a) (gf_x2 b)"
  "gf_mulk 3 a b = (if bit a 0 then b else 0) XOR gf_mulk 2 (drop_bit 1 a) (gf_x2 b)"
  "gf_mulk 2 a b = (if bit a 0 then b else 0) XOR gf_mulk 1 (drop_bit 1 a) (gf_x2 b)"
  "gf_mulk (Suc 0) a b = (if bit a 0 then b else 0)"
  by (simp_all add: eval_nat_numeral)

lemma gfinv_table: "list_all2 (\<lambda>v w. gf_mulk 8 (of_nat v) w = 1) [1..<256] (tl raid_gfinv)"
  by (simp add: raid_gfinv_def upt_rec gf_mulk_unfold gf_x2_table)

lemma gfexp_table: "map gf_x2 (butlast raid_gfexp) = tl raid_gfexp"
  by (simp add: raid_gfexp_def gf_x2_table)

lemma length_tables: "length raid_gfinv = 256" "length raid_gfexp = 256"
  by (simp_all add: raid_gfinv_def raid_gfexp_def)

lemma gmul_gfinv:
  assumes "a \<noteq> 0"
  shows "gmul a (gf_of (raid_gfinv ! unat (byte_of a))) = gf_one"
proof -
  let ?i = "unat (byte_of a)"
  have i: "0 < ?i" "?i < 256"
    using assms unsigned_less [of "byte_of a", where ?'a = nat] by (simp_all add: unat_gt_0 byte_of_inject [symmetric] zero_gf.rep_eq)
  have "gf_mulk 8 (of_nat ([1..<256] ! (?i - 1))) (tl raid_gfinv ! (?i - 1)) = 1"
    using list_all2_nthD [OF gfinv_table, of "?i - 1"] i by simp
  moreover have "tl raid_gfinv ! (?i - 1) = raid_gfinv ! ?i" using i by (simp add: nth_tl length_tables)
  ultimately have "gf_mulk 8 (byte_of a) (raid_gfinv ! ?i) = 1" using i by simp
  then show ?thesis by (simp add: byte_of_inject [symmetric] byte_of_gmul gf_one.rep_eq)
qed

instantiation gf :: field
begin

definition one_gf :: gf where "one_gf = gf_one"
definition times_gf :: "gf \<Rightarrow> gf \<Rightarrow> gf" where "times_gf = gmul"
definition inverse_gf :: "gf \<Rightarrow> gf" where
  "inverse_gf a = (if a = 0 then 0 else gf_of (raid_gfinv ! unat (byte_of a)))"
definition divide_gf :: "gf \<Rightarrow> gf \<Rightarrow> gf" where "divide_gf a b = a * inverse b"

instance
proof
  fix a b c :: gf
  show "a * b * c = a * (b * c)" by (simp add: times_gf_def gmul_assoc)
  show "a * b = b * a" unfolding times_gf_def by (rule gmul_commute)
  show "1 * a = a" by (simp add: times_gf_def one_gf_def gmul_commute [of gf_one] gmul_one_right)
  show "(a + b) * c = a * c + b * c" by (simp add: times_gf_def gmul_add_left)
  show "(0 :: gf) \<noteq> 1" unfolding one_gf_def by transfer simp
  show "a \<noteq> 0 \<Longrightarrow> inverse a * a = 1"
    using gmul_gfinv [of a] by (simp add: inverse_gf_def times_gf_def one_gf_def gmul_commute)
  show "a div b = a * inverse b" by (rule divide_gf_def)
  show "inverse (0 :: gf) = 0" by (simp add: inverse_gf_def)
qed

end

end
