(* ===== verification/Raid_Gf.thy ===== *)
theory Raid_Gf
  imports Raid_Mul0 Raid_Mul1 Raid_Mul2 Raid_Mul3
begin

text \<open>
  The operations of \<^verbatim>\<open>raid/gf.h\<close> and their meaning in the field: lookups in the tables, and the routines that
  double or halve all bytes of a word at once.
\<close>

unbundle bit_operations_syntax

section \<open>Operations\<close>

definition raid_gfmul_table :: "u8 list list" where
  "raid_gfmul_table = concat
    [raid_gfmul_0, raid_gfmul_1, raid_gfmul_2, raid_gfmul_3, raid_gfmul_4, raid_gfmul_5, raid_gfmul_6, raid_gfmul_7,
     raid_gfmul_8, raid_gfmul_9, raid_gfmul_a, raid_gfmul_b, raid_gfmul_c, raid_gfmul_d, raid_gfmul_e, raid_gfmul_f]"

definition raid_gfmul :: "u8 \<Rightarrow> u8 \<Rightarrow> u8" where
  "raid_gfmul a b = raid_gfmul_table ! unat a ! unat b"

definition mul :: "u8 \<Rightarrow> u8 \<Rightarrow> u8" where
  "mul a b = raid_gfmul a b"

definition raid_inv :: "u8 \<Rightarrow> u8 option" where
  "raid_inv v = (if v = 0 then None else Some (raid_gfinv ! unat v))"

definition pow2 :: "int \<Rightarrow> u8 option" where
  "pow2 v = (if v < 0 \<or> v > 254 then None else Some (raid_gfexp ! nat v))"

definition x2_32 :: "u32 \<Rightarrow> u32" where
  "x2_32 v = (let mask = v AND 0x80808080; mask = push_bit 1 mask - drop_bit 7 mask in
     (push_bit 1 v AND 0xfefefefe) XOR (mask AND 0x1d1d1d1d))"

definition x2_64 :: "u64 \<Rightarrow> u64" where
  "x2_64 v = (let mask = v AND 0x8080808080808080; mask = push_bit 1 mask - drop_bit 7 mask in
     (push_bit 1 v AND 0xfefefefefefefefe) XOR (mask AND 0x1d1d1d1d1d1d1d1d))"

definition d2_32 :: "u32 \<Rightarrow> u32" where
  "d2_32 v = (let mask = v AND 0x01010101; mask = push_bit 8 mask - mask in
     (drop_bit 1 v AND 0x7f7f7f7f) XOR (mask AND 0x8e8e8e8e))"

definition d2_64 :: "u64 \<Rightarrow> u64" where
  "d2_64 v = (let mask = v AND 0x0101010101010101; mask = push_bit 8 mask - mask in
     (drop_bit 1 v AND 0x7f7f7f7f7f7f7f7f) XOR (mask AND 0x8e8e8e8e8e8e8e8e))"

section \<open>The multiplication table\<close>

lemma gfmul_blocks: "list_all2 mul_block [0, 1, 2, 3, 4, 5, 6, 7, 8, 9, 10, 11, 12, 13, 14, 15]
    [raid_gfmul_0, raid_gfmul_1, raid_gfmul_2, raid_gfmul_3, raid_gfmul_4, raid_gfmul_5, raid_gfmul_6, raid_gfmul_7,
     raid_gfmul_8, raid_gfmul_9, raid_gfmul_a, raid_gfmul_b, raid_gfmul_c, raid_gfmul_d, raid_gfmul_e, raid_gfmul_f]"
  by (simp add: mul_block_0 mul_block_1 [unfolded One_nat_def] mul_block_2 mul_block_3 mul_block_4 mul_block_5 mul_block_6 mul_block_7
      mul_block_8 mul_block_9 mul_block_a mul_block_b mul_block_c mul_block_d mul_block_e mul_block_f)

lemma list_all2_mul_block:
  "list_all2 mul_block ks Bs \<Longrightarrow>
    Bs = map (\<lambda>k. map (\<lambda>j. map (\<lambda>b. gf_mulk 8 (of_nat (16 * k + j)) (of_nat b)) [0..<256]) [0..<16]) ks"
  by (induction rule: list_all2_induct) (simp_all add: mul_block_def)

lemma gfmul_table_rows: "raid_gfmul_table = map (\<lambda>a. map (\<lambda>b. gf_mulk 8 (of_nat a) (of_nat b)) [0..<256]) [0..<256]"
proof -
  have idx: "concat (map (\<lambda>k. map (\<lambda>j. 16 * k + j) [0..<16]) [0, 1, 2, 3, 4, 5, 6, 7, 8, 9, 10, 11, 12, 13, 14, 15]) = [0..<256 :: nat]"
    by code_simp
  have "raid_gfmul_table =
      map (\<lambda>a. map (\<lambda>b. gf_mulk 8 (of_nat a) (of_nat b)) [0..<256]) 
        (concat (map (\<lambda>k. map (\<lambda>j. 16 * k + j) [0..<16]) [0, 1, 2, 3, 4, 5, 6, 7, 8, 9, 10, 11, 12, 13, 14, 15]))"
    unfolding raid_gfmul_table_def list_all2_mul_block [OF gfmul_blocks] map_concat map_map o_def ..
  then show ?thesis unfolding idx .
qed

lemma raid_gfmul_eq: "raid_gfmul a b = gf_mulk 8 a b"
proof -
  have "unat a < 256" "unat b < 256" using unsigned_less [of a] unsigned_less [of b] by simp_all
  then show ?thesis unfolding raid_gfmul_def gfmul_table_rows by simp
qed

section \<open>Bytes as field elements\<close>

lemma gf_of_simps [simp]: "gf_of 0 = 0" "gf_of 1 = 1" "gf_of (a XOR b) = gf_of a + gf_of b"
  by (simp_all add: byte_of_inject [symmetric] zero_gf.rep_eq one_gf_def gf_one.rep_eq plus_gf.rep_eq)

lemma gf_of_eq [simp]: "gf_of a = gf_of b \<longleftrightarrow> a = b"
  by (simp add: gf_of_inject)

lemma gf_of_eq_0 [simp]: "gf_of a = 0 \<longleftrightarrow> a = 0"
  by (metis gf_of_eq gf_of_simps(1))

lemma gf_of_mul [simp]: "gf_of (mul a b) = gf_of a * gf_of b" "gf_of (raid_gfmul a b) = gf_of a * gf_of b"
  by (simp_all add: mul_def raid_gfmul_eq times_gf_def byte_of_inject [symmetric] byte_of_gmul)

lemma raid_inv_Some: "v \<noteq> 0 \<Longrightarrow> \<exists>w. raid_inv v = Some w \<and> gf_of w = inverse (gf_of v)"
  by (simp add: raid_inv_def inverse_gf_def)

text \<open>The generator of the multiplicative group, the polynomial \<open>x\<close>.\<close>

definition gtwo :: gf where
  "gtwo = gf_of 2"

lemma gx_eq: "gx a = gtwo * a"
proof -
  have "gx a = gmul a (gx gf_one)" by (simp add: gx_gmul [symmetric] gmul_one_right)
  moreover have "gx gf_one = gtwo" by (simp add: byte_of_inject [symmetric] gx.rep_eq gf_one.rep_eq gtwo_def gf_x2_def)
  ultimately show ?thesis by (simp add: times_gf_def gmul_commute)
qed

lemma gf_of_x2 [simp]: "gf_of (gf_x2 v) = gtwo * gf_of v"
  by (simp add: gx_eq [symmetric] byte_of_inject [symmetric] gx.rep_eq)

lemma gtwo_nz [simp]: "gtwo \<noteq> 0"
  by (simp add: gtwo_def)

lemma gf_of_d2 [simp]: "gf_of (gf_d2 v) = inverse gtwo * gf_of v"
proof -
  have "gtwo * gf_of (gf_d2 v) = gf_of v" by (metis gf_of_x2 gf_x2_d2)
  then show ?thesis by (simp add: field_simps)
qed

lemma gfexp_pow: "i < 256 \<Longrightarrow> gf_of (raid_gfexp ! i) = gtwo ^ i"
proof (induction i)
  case 0
  then show ?case by (simp add: raid_gfexp_def)
next
  case (Suc i)
  have "tl raid_gfexp ! i = raid_gfexp ! Suc i" using Suc.prems by (simp add: nth_tl length_tables)
  moreover have "map gf_x2 (butlast raid_gfexp) ! i = gf_x2 (raid_gfexp ! i)"
    using Suc.prems by (simp add: nth_butlast length_tables)
  ultimately have "raid_gfexp ! Suc i = gf_x2 (raid_gfexp ! i)" using gfexp_table by metis
  then show ?case using Suc by simp
qed

lemma pow2_Some: "i < 255 \<Longrightarrow> \<exists>w. pow2 (int i) = Some w \<and> gf_of w = gtwo ^ i"
  by (simp add: pow2_def gfexp_pow)

lemma gtwo_255: "gtwo ^ 255 = 1"
  using gfexp_pow [of 255] by (simp add: raid_gfexp_def)

lemma gfexp_not_1: "list_all (\<lambda>x. x \<noteq> 1) (butlast (tl raid_gfexp))"
  by (simp add: raid_gfexp_def)

lemma gtwo_pow_not_1:
  assumes "0 < d" "d < 255"
  shows "gtwo ^ d \<noteq> 1"
proof -
  have "butlast (tl raid_gfexp) ! (d - 1) = raid_gfexp ! d"
    using assms by (simp add: nth_butlast nth_tl length_tables)
  moreover have "\<forall>n<254. butlast (tl raid_gfexp) ! n \<noteq> 1"
    using gfexp_not_1 unfolding list_all_length by (simp add: length_tables)
  moreover have "d - 1 < 254" using assms by simp
  ultimately have "raid_gfexp ! d \<noteq> 1" by metis
  moreover have "gf_of (raid_gfexp ! d) = gtwo ^ d" using assms by (intro gfexp_pow) simp
  ultimately show ?thesis using gf_of_eq [of "raid_gfexp ! d" 1] by simp
qed

lemma gtwo_pow_inj:
  assumes "i < 255" "j < 255" "gtwo ^ i = gtwo ^ j"
  shows "i = j"
proof -
  have "\<not> i < j" if "i < 255" "j < 255" "gtwo ^ i = gtwo ^ j" for i j
  proof
    assume "i < j"
    then have "gtwo ^ j = gtwo ^ i * gtwo ^ (j - i)" by (simp add: power_add [symmetric])
    then have "gtwo ^ (j - i) = 1" using that(3) by simp
    then show False using gtwo_pow_not_1 [of "j - i"] \<open>i < j\<close> that by simp
  qed
  then show ?thesis using assms by (metis linorder_neqE_nat)
qed

section \<open>Bytes of a word\<close>

definition byte :: "nat \<Rightarrow> 'a::len word \<Rightarrow> u8" where
  "byte k w = ucast (drop_bit (8 * k) w)"

lemma bit_byte: "n < 8 \<Longrightarrow> bit (byte k w) n \<longleftrightarrow> bit w (8 * k + n)"
  by (simp add: byte_def bit_ucast_iff bit_drop_bit_eq)

lemma byte_xor [simp]: "byte k (v XOR w) = byte k v XOR byte k w"
  by (rule bit_eqI) (simp add: bit_byte bit_xor_iff)

lemma bit_sum_shifts:
  fixes q :: "'a::len word"
  assumes q: "\<And>n. bit q n \<Longrightarrow> n mod 8 = 0" and j: "j \<le> 8" and n: "n < LENGTH('a)"
  shows "bit (\<Sum>i<j. push_bit i q) n \<longleftrightarrow> n mod 8 < j \<and> bit q (8 * (n div 8))"
  using j n
proof (induction j arbitrary: n)
  case (Suc j)
  have p: "bit (push_bit j q) m \<longleftrightarrow> m mod 8 = j \<and> bit q (8 * (m div 8))" if m: "m < LENGTH('a)" for m
  proof
    assume "bit (push_bit j q) m"
    then have b: "j \<le> m" "bit q (m - j)" by (simp_all add: bit_push_bit_iff)
    then have "(m - j) mod 8 = 0" using q by blast
    then obtain c where "m - j = 8 * c" by blast
    then have "m = j + 8 * c" using b(1) by linarith
    then have "m mod 8 = j" "m - j = 8 * (m div 8)" using Suc.prems(1) by simp_all
    then show "m mod 8 = j \<and> bit q (8 * (m div 8))" using b by simp
  next
    assume a: "m mod 8 = j \<and> bit q (8 * (m div 8))"
    then have "m - j = 8 * (m div 8)" "j \<le> m" using minus_mod_eq_mult_div [of m 8] mod_less_eq_dividend [of m 8] by auto
    then show "bit (push_bit j q) m" using a m by (simp add: bit_push_bit_iff)
  qed
  have "(\<Sum>i<j. push_bit i q) + push_bit j q = (\<Sum>i<j. push_bit i q) OR push_bit j q"
    using Suc p by (intro disjunctive_add) (metis Suc_leD bit_imp_le_length less_irrefl)
  then show ?case using Suc p by (auto simp: bit_or_iff less_Suc_eq)
qed simp

lemma bit_255_times:
  fixes q :: "'a::len word"
  assumes q: "\<And>n. bit q n \<Longrightarrow> n mod 8 = 0" and n: "n < LENGTH('a)"
  shows "bit (255 * q) n \<longleftrightarrow> bit q (8 * (n div 8))"
proof -
  have "(\<Sum>i<8. push_bit i q) = 255 * q" by (simp add: push_bit_eq_mult lessThan_nat_numeral lessThan_Suc eval_nat_numeral)
  then show ?thesis using bit_sum_shifts [of q 8, OF q order_refl n] n by simp
qed

lemma double_bytes:
  fixes v c80 cfe c1d :: "'a::len word"
  assumes c80: "\<And>n. n < LENGTH('a) \<Longrightarrow> bit c80 n \<longleftrightarrow> n mod 8 = 7"
    and cfe: "\<And>n. n < LENGTH('a) \<Longrightarrow> bit cfe n \<longleftrightarrow> n mod 8 \<noteq> 0"
    and c1d: "\<And>n. n < LENGTH('a) \<Longrightarrow> bit c1d n \<longleftrightarrow> n mod 8 \<in> {0, 2, 3, 4}"
    and k: "8 * k + 7 < LENGTH('a)"
  shows "byte k ((push_bit 1 v AND cfe) XOR ((push_bit 1 (v AND c80) - drop_bit 7 (v AND c80)) AND c1d)) = gf_x2 (byte k v)"
proof (rule bit_eqI)
  define m where "m = v AND c80"
  define q where "q = drop_bit 7 m"
  have bm: "bit m n \<longleftrightarrow> n < LENGTH('a) \<and> n mod 8 = 7 \<and> bit v n" for n
    using c80 [of n] bit_imp_le_length [of v n] by (auto simp: m_def bit_and_iff)
  have bq: "bit q n \<longleftrightarrow> n + 7 < LENGTH('a) \<and> n mod 8 = 0 \<and> bit v (n + 7)" for n
  proof -
    have "(7 + n) mod 8 = 7 \<longleftrightarrow> n mod 8 = 0" by presburger
    then show ?thesis by (simp add: q_def bit_drop_bit_eq bm add.commute)
  qed
  have mq: "m = push_bit 7 q"
  proof (rule bit_eqI)
    fix n
    show "bit m n \<longleftrightarrow> bit (push_bit 7 q) n"
    proof (cases "n < 7")
      case False
      then have "(n - 7) mod 8 = 0 \<longleftrightarrow> n mod 8 = 7" by presburger
      then show ?thesis using False bit_imp_le_length [of v n] by (auto simp: bit_push_bit_iff bq bm)
    qed (auto simp: bit_push_bit_iff bm)
  qed
  have "push_bit 1 m = 256 * q" unfolding mq by (simp add: push_bit_eq_mult)
  then have mk: "push_bit 1 m - q = 255 * q" by (simp add: algebra_simps)
  fix n
  assume "possible_bit TYPE(u8) n"
  then have n: "n < 8" by simp
  have l: "8 * k + n < LENGTH('a)" using k n by simp
  have md: "(8 * k + n) mod 8 = n" "8 * ((8 * k + n) div 8) = 8 * k" using n by auto
  have b255: "bit (255 * q) (8 * k + n) \<longleftrightarrow> bit v (8 * k + 7)"
    using bit_255_times [of q "8 * k + n"] bq l k md by simp
  have b7: "bit (byte k v) 7 \<longleftrightarrow> bit v (8 * k + 7)" by (simp add: bit_byte)
  have px: "bit (push_bit 1 v) (8 * k + n) \<and> n \<noteq> 0 \<longleftrightarrow> n \<noteq> 0 \<and> bit (byte k v) (n - 1)"
  proof (cases n)
    case (Suc n')
    then show ?thesis unfolding bit_push_bit_iff using l n by (simp add: bit_byte)
  qed simp
  show "bit (byte k ((push_bit 1 v AND cfe) XOR ((push_bit 1 (v AND c80) - drop_bit 7 (v AND c80)) AND c1d))) n \<longleftrightarrow> bit (gf_x2 (byte k v)) n"
    unfolding m_def [symmetric] q_def [symmetric] mk bit_byte [OF n] bit_xor_iff bit_and_iff b255 cfe [OF l] c1d [OF l] md
      bit_gf_x2 [OF n] px b7 ..
qed

lemma halve_bytes:
  fixes v c01 c7f c8e :: "'a::len word"
  assumes c01: "\<And>n. n < LENGTH('a) \<Longrightarrow> bit c01 n \<longleftrightarrow> n mod 8 = 0"
    and c7f: "\<And>n. n < LENGTH('a) \<Longrightarrow> bit c7f n \<longleftrightarrow> n mod 8 \<noteq> 7"
    and c8e: "\<And>n. n < LENGTH('a) \<Longrightarrow> bit c8e n \<longleftrightarrow> n mod 8 \<in> {1, 2, 3, 7}"
    and k: "8 * k + 7 < LENGTH('a)"
  shows "byte k ((drop_bit 1 v AND c7f) XOR ((push_bit 8 (v AND c01) - (v AND c01)) AND c8e)) = gf_d2 (byte k v)"
proof (rule bit_eqI)
  let ?q = "v AND c01"
  have bq: "bit ?q n \<longleftrightarrow> n < LENGTH('a) \<and> n mod 8 = 0 \<and> bit v n" for n
    using c01 [of n] bit_imp_le_length [of v n] by (auto simp: bit_and_iff)
  have mk: "push_bit 8 ?q - ?q = 255 * ?q" by (simp add: push_bit_eq_mult algebra_simps)
  fix n
  assume "possible_bit TYPE(u8) n"
  then have n: "n < 8" by simp
  have l: "8 * k + n < LENGTH('a)" using k n by simp
  have md: "(8 * k + n) mod 8 = n" "8 * ((8 * k + n) div 8) = 8 * k" using n by auto
  have b255: "bit (255 * ?q) (8 * k + n) \<longleftrightarrow> bit v (8 * k)"
    using bit_255_times [of ?q "8 * k + n"] bq l k md by simp
  have b0: "bit (byte k v) 0 \<longleftrightarrow> bit v (8 * k)" by (simp add: bit_byte)
  have b1: "n \<noteq> 7 \<Longrightarrow> bit (byte k v) (n + 1) \<longleftrightarrow> bit v (8 * k + n + 1)" using n by (simp add: bit_byte)
  have b8: "\<not> bit (byte k v) 8" using bit_imp_le_length [of "byte k v" 8] by auto
  show "bit (byte k ((drop_bit 1 v AND c7f) XOR ((push_bit 8 ?q - ?q) AND c8e))) n \<longleftrightarrow> bit (gf_d2 (byte k v)) n"
    unfolding mk bit_byte [OF n] bit_xor_iff bit_and_iff b255 c7f [OF l] c8e [OF l] md bit_gf_d2 [OF n] b0
    using b1 b8 by (cases "n = 7") (auto simp: bit_drop_bit_eq add.commute)
qed

lemma bit_consts_32:
  "list_all (\<lambda>n. (bit (0x80808080 :: u32) n \<longleftrightarrow> n mod 8 = 7) \<and> (bit (0xfefefefe :: u32) n \<longleftrightarrow> n mod 8 \<noteq> 0) \<and>
     (bit (0x1d1d1d1d :: u32) n \<longleftrightarrow> n mod 8 \<in> {0, 2, 3, 4}) \<and> (bit (0x01010101 :: u32) n \<longleftrightarrow> n mod 8 = 0) \<and>
     (bit (0x7f7f7f7f :: u32) n \<longleftrightarrow> n mod 8 \<noteq> 7) \<and> (bit (0x8e8e8e8e :: u32) n \<longleftrightarrow> n mod 8 \<in> {1, 2, 3, 7})) [0..<32]"
  by (simp add: upt_rec)

lemma bit_consts_64:
  "list_all (\<lambda>n. (bit (0x8080808080808080 :: u64) n \<longleftrightarrow> n mod 8 = 7) \<and> (bit (0xfefefefefefefefe :: u64) n \<longleftrightarrow> n mod 8 \<noteq> 0) \<and>
     (bit (0x1d1d1d1d1d1d1d1d :: u64) n \<longleftrightarrow> n mod 8 \<in> {0, 2, 3, 4}) \<and> (bit (0x0101010101010101 :: u64) n \<longleftrightarrow> n mod 8 = 0) \<and>
     (bit (0x7f7f7f7f7f7f7f7f :: u64) n \<longleftrightarrow> n mod 8 \<noteq> 7) \<and> (bit (0x8e8e8e8e8e8e8e8e :: u64) n \<longleftrightarrow> n mod 8 \<in> {1, 2, 3, 7})) [0..<64]"
  by (simp add: upt_rec)

lemma byte_x2_32: "k < 4 \<Longrightarrow> byte k (x2_32 v) = gf_x2 (byte k v)"
  unfolding x2_32_def Let_def using bit_consts_32 by (intro double_bytes) (auto simp: list_all_iff)

lemma byte_d2_32: "k < 4 \<Longrightarrow> byte k (d2_32 v) = gf_d2 (byte k v)"
  unfolding d2_32_def Let_def using bit_consts_32 by (intro halve_bytes) (auto simp: list_all_iff)

lemma byte_x2_64: "k < 8 \<Longrightarrow> byte k (x2_64 v) = gf_x2 (byte k v)"
  unfolding x2_64_def Let_def using bit_consts_64 by (intro double_bytes) (auto simp: list_all_iff)

lemma byte_d2_64: "k < 8 \<Longrightarrow> byte k (d2_64 v) = gf_d2 (byte k v)"
  unfolding d2_64_def Let_def using bit_consts_64 by (intro halve_bytes) (auto simp: list_all_iff)

section \<open>Properties\<close>

lemma gf_of_eqI: "gf_of a = gf_of b \<Longrightarrow> a = b"
  by simp

lemma gf_of_mul_pow: "gf_of ((mul 2 ^^ n) 1) = gtwo ^ n"
  by (induction n) (simp_all add: gtwo_def)

lemma gfexp_mul: "n < 255 \<Longrightarrow> raid_gfexp ! n = (mul 2 ^^ n) 1"
  by (rule gf_of_eqI) (simp add: gf_of_mul_pow gfexp_pow)

text \<open>C34. The tables are the arithmetic of a field: multiplication is commutative, associative, distributes over exclusive or
  and has unit 1; \<^verbatim>\<open>inv\<close> stops exactly on 0 and otherwise gives the inverse; \<^verbatim>\<open>pow2\<close> stops exactly on negative
  exponents and on those above 254, and otherwise gives the power of 2, as a repeated product.\<close>

theorem table_arithmetic:
  "mul a b = mul b a \<and> mul a (mul b c) = mul (mul a b) c \<and> mul a (b XOR c) = mul a b XOR mul a c \<and> mul a 1 = a \<and>
   (case raid_inv a of None \<Rightarrow> a = 0 | Some w \<Rightarrow> a \<noteq> 0 \<and> mul a w = 1) \<and>
   pow2 i = (if i < 0 \<or> 254 < i then None else Some ((mul 2 ^^ nat i) 1))"
proof (intro conjI)
  show "mul a b = mul b a" "mul a (mul b c) = mul (mul a b) c" "mul a (b XOR c) = mul a b XOR mul a c" "mul a 1 = a"
    by (rule gf_of_eqI, simp add: algebra_simps)+
  show "case raid_inv a of None \<Rightarrow> a = 0 | Some w \<Rightarrow> a \<noteq> 0 \<and> mul a w = 1"
  proof (cases "a = 0")
    case False
    then obtain w where w: "raid_inv a = Some w" "gf_of w = inverse (gf_of a)" using raid_inv_Some by blast
    have "mul a w = 1" by (rule gf_of_eqI) (use False in \<open>simp add: w(2)\<close>)
    then show ?thesis using False w(1) by simp
  qed (simp add: raid_inv_def)
  show "pow2 i = (if i < 0 \<or> 254 < i then None else Some ((mul 2 ^^ nat i) 1))"
    using gfexp_mul [of "nat i"] by (auto simp: pow2_def)
qed

lemma word_eq_bytes:
  fixes v w :: "'a::len word"
  assumes "\<And>k. 8 * k < LENGTH('a) \<Longrightarrow> byte k v = byte k w"
  shows "v = w"
proof (rule bit_word_eqI)
  fix n
  assume n: "n < LENGTH('a)"
  then have "8 * (n div 8) < LENGTH('a)" by linarith
  then have "byte (n div 8) v = byte (n div 8) w" by (rule assms)
  then show "bit v n = bit w n" using bit_byte [of "n mod 8" "n div 8" v] bit_byte [of "n mod 8" "n div 8" w] by simp
qed

text \<open>The word-parallel doubling and halving are inverse to each other, at both widths.\<close>

theorem double_halve_inverse:
  "d2_32 (x2_32 v) = v \<and> x2_32 (d2_32 v) = v \<and> d2_64 (x2_64 w) = w \<and> x2_64 (d2_64 w) = w"
proof -
  have "gf_x2 (gf_d2 u) = u" "gf_d2 (gf_x2 u) = u" for u by (rule gf_of_eqI, simp)+
  then have "byte k (d2_32 (x2_32 v)) = byte k v" "byte k (x2_32 (d2_32 v)) = byte k v" if "8 * k < 32" for k
    using that by (simp_all add: byte_x2_32 byte_d2_32)
  moreover have "byte k (d2_64 (x2_64 w)) = byte k w" "byte k (x2_64 (d2_64 w)) = byte k w" if "8 * k < 64" for k
    using that \<open>\<And>u. gf_x2 (gf_d2 u) = u\<close> \<open>\<And>u. gf_d2 (gf_x2 u) = u\<close> by (simp_all add: byte_x2_64 byte_d2_64)
  ultimately show ?thesis
    using word_eq_bytes [of "d2_32 (x2_32 v)" v] word_eq_bytes [of "x2_32 (d2_32 v)" v]
      word_eq_bytes [of "d2_64 (x2_64 w)" w] word_eq_bytes [of "x2_64 (d2_64 w)" w] by simp
qed

end
