(* ===== verification/Raid_Matrix.thy ===== *)
theory Raid_Matrix
  imports Complex_Main Raid_Gf
begin

text \<open>
  The generator matrices of the RAID library, their defining property (any square submatrix is regular, so that
  any combination of lost disks can be recovered), and the inversion \<open>raid_invert\<close> of \<^verbatim>\<open>raid/raid.c\<close>. A matrix in
  memory, stored by rows, is a function of row and column.
\<close>

unbundle bit_operations_syntax

section \<open>Definitions\<close>

text \<open>The tables of \<^verbatim>\<open>raid/tables.c\<close>: rows for the parities, columns for up to \<open>251\<close> data disks, the rest
  of a row is zero.\<close>

definition raid_gfvandermonde :: "u8 list list" where
  "raid_gfvandermonde = map (\<lambda>row. row @ replicate 5 0)
    [[0x01, 0x01, 0x01, 0x01, 0x01, 0x01, 0x01, 0x01, 0x01, 0x01, 0x01, 0x01, 0x01, 0x01, 0x01, 0x01,
       0x01, 0x01, 0x01, 0x01, 0x01, 0x01, 0x01, 0x01, 0x01, 0x01, 0x01, 0x01, 0x01, 0x01, 0x01, 0x01,
       0x01, 0x01, 0x01, 0x01, 0x01, 0x01, 0x01, 0x01, 0x01, 0x01, 0x01, 0x01, 0x01, 0x01, 0x01, 0x01,
       0x01, 0x01, 0x01, 0x01, 0x01, 0x01, 0x01, 0x01, 0x01, 0x01, 0x01, 0x01, 0x01, 0x01, 0x01, 0x01,
       0x01, 0x01, 0x01, 0x01, 0x01, 0x01, 0x01, 0x01, 0x01, 0x01, 0x01, 0x01, 0x01, 0x01, 0x01, 0x01,
       0x01, 0x01, 0x01, 0x01, 0x01, 0x01, 0x01, 0x01, 0x01, 0x01, 0x01, 0x01, 0x01, 0x01, 0x01, 0x01,
       0x01, 0x01, 0x01, 0x01, 0x01, 0x01, 0x01, 0x01, 0x01, 0x01, 0x01, 0x01, 0x01, 0x01, 0x01, 0x01,
       0x01, 0x01, 0x01, 0x01, 0x01, 0x01, 0x01, 0x01, 0x01, 0x01, 0x01, 0x01, 0x01, 0x01, 0x01, 0x01,
       0x01, 0x01, 0x01, 0x01, 0x01, 0x01, 0x01, 0x01, 0x01, 0x01, 0x01, 0x01, 0x01, 0x01, 0x01, 0x01,
       0x01, 0x01, 0x01, 0x01, 0x01, 0x01, 0x01, 0x01, 0x01, 0x01, 0x01, 0x01, 0x01, 0x01, 0x01, 0x01,
       0x01, 0x01, 0x01, 0x01, 0x01, 0x01, 0x01, 0x01, 0x01, 0x01, 0x01, 0x01, 0x01, 0x01, 0x01, 0x01,
       0x01, 0x01, 0x01, 0x01, 0x01, 0x01, 0x01, 0x01, 0x01, 0x01, 0x01, 0x01, 0x01, 0x01, 0x01, 0x01,
       0x01, 0x01, 0x01, 0x01, 0x01, 0x01, 0x01, 0x01, 0x01, 0x01, 0x01, 0x01, 0x01, 0x01, 0x01, 0x01,
       0x01, 0x01, 0x01, 0x01, 0x01, 0x01, 0x01, 0x01, 0x01, 0x01, 0x01, 0x01, 0x01, 0x01, 0x01, 0x01,
       0x01, 0x01, 0x01, 0x01, 0x01, 0x01, 0x01, 0x01, 0x01, 0x01, 0x01, 0x01, 0x01, 0x01, 0x01, 0x01,
       0x01, 0x01, 0x01, 0x01, 0x01, 0x01, 0x01, 0x01, 0x01, 0x01, 0x01],
     [0x01, 0x02, 0x04, 0x08, 0x10, 0x20, 0x40, 0x80, 0x1d, 0x3a, 0x74, 0xe8, 0xcd, 0x87, 0x13, 0x26,
       0x4c, 0x98, 0x2d, 0x5a, 0xb4, 0x75, 0xea, 0xc9, 0x8f, 0x03, 0x06, 0x0c, 0x18, 0x30, 0x60, 0xc0,
       0x9d, 0x27, 0x4e, 0x9c, 0x25, 0x4a, 0x94, 0x35, 0x6a, 0xd4, 0xb5, 0x77, 0xee, 0xc1, 0x9f, 0x23,
       0x46, 0x8c, 0x05, 0x0a, 0x14, 0x28, 0x50, 0xa0, 0x5d, 0xba, 0x69, 0xd2, 0xb9, 0x6f, 0xde, 0xa1,
       0x5f, 0xbe, 0x61, 0xc2, 0x99, 0x2f, 0x5e, 0xbc, 0x65, 0xca, 0x89, 0x0f, 0x1e, 0x3c, 0x78, 0xf0,
       0xfd, 0xe7, 0xd3, 0xbb, 0x6b, 0xd6, 0xb1, 0x7f, 0xfe, 0xe1, 0xdf, 0xa3, 0x5b, 0xb6, 0x71, 0xe2,
       0xd9, 0xaf, 0x43, 0x86, 0x11, 0x22, 0x44, 0x88, 0x0d, 0x1a, 0x34, 0x68, 0xd0, 0xbd, 0x67, 0xce,
       0x81, 0x1f, 0x3e, 0x7c, 0xf8, 0xed, 0xc7, 0x93, 0x3b, 0x76, 0xec, 0xc5, 0x97, 0x33, 0x66, 0xcc,
       0x85, 0x17, 0x2e, 0x5c, 0xb8, 0x6d, 0xda, 0xa9, 0x4f, 0x9e, 0x21, 0x42, 0x84, 0x15, 0x2a, 0x54,
       0xa8, 0x4d, 0x9a, 0x29, 0x52, 0xa4, 0x55, 0xaa, 0x49, 0x92, 0x39, 0x72, 0xe4, 0xd5, 0xb7, 0x73,
       0xe6, 0xd1, 0xbf, 0x63, 0xc6, 0x91, 0x3f, 0x7e, 0xfc, 0xe5, 0xd7, 0xb3, 0x7b, 0xf6, 0xf1, 0xff,
       0xe3, 0xdb, 0xab, 0x4b, 0x96, 0x31, 0x62, 0xc4, 0x95, 0x37, 0x6e, 0xdc, 0xa5, 0x57, 0xae, 0x41,
       0x82, 0x19, 0x32, 0x64, 0xc8, 0x8d, 0x07, 0x0e, 0x1c, 0x38, 0x70, 0xe0, 0xdd, 0xa7, 0x53, 0xa6,
       0x51, 0xa2, 0x59, 0xb2, 0x79, 0xf2, 0xf9, 0xef, 0xc3, 0x9b, 0x2b, 0x56, 0xac, 0x45, 0x8a, 0x09,
       0x12, 0x24, 0x48, 0x90, 0x3d, 0x7a, 0xf4, 0xf5, 0xf7, 0xf3, 0xfb, 0xeb, 0xcb, 0x8b, 0x0b, 0x16,
       0x2c, 0x58, 0xb0, 0x7d, 0xfa, 0xe9, 0xcf, 0x83, 0x1b, 0x36, 0x6c],
     [0x01, 0x8e, 0x47, 0xad, 0xd8, 0x6c, 0x36, 0x1b, 0x83, 0xcf, 0xe9, 0xfa, 0x7d, 0xb0, 0x58, 0x2c,
       0x16, 0x0b, 0x8b, 0xcb, 0xeb, 0xfb, 0xf3, 0xf7, 0xf5, 0xf4, 0x7a, 0x3d, 0x90, 0x48, 0x24, 0x12,
       0x09, 0x8a, 0x45, 0xac, 0x56, 0x2b, 0x9b, 0xc3, 0xef, 0xf9, 0xf2, 0x79, 0xb2, 0x59, 0xa2, 0x51,
       0xa6, 0x53, 0xa7, 0xdd, 0xe0, 0x70, 0x38, 0x1c, 0x0e, 0x07, 0x8d, 0xc8, 0x64, 0x32, 0x19, 0x82,
       0x41, 0xae, 0x57, 0xa5, 0xdc, 0x6e, 0x37, 0x95, 0xc4, 0x62, 0x31, 0x96, 0x4b, 0xab, 0xdb, 0xe3,
       0xff, 0xf1, 0xf6, 0x7b, 0xb3, 0xd7, 0xe5, 0xfc, 0x7e, 0x3f, 0x91, 0xc6, 0x63, 0xbf, 0xd1, 0xe6,
       0x73, 0xb7, 0xd5, 0xe4, 0x72, 0x39, 0x92, 0x49, 0xaa, 0x55, 0xa4, 0x52, 0x29, 0x9a, 0x4d, 0xa8,
       0x54, 0x2a, 0x15, 0x84, 0x42, 0x21, 0x9e, 0x4f, 0xa9, 0xda, 0x6d, 0xb8, 0x5c, 0x2e, 0x17, 0x85,
       0xcc, 0x66, 0x33, 0x97, 0xc5, 0xec, 0x76, 0x3b, 0x93, 0xc7, 0xed, 0xf8, 0x7c, 0x3e, 0x1f, 0x81,
       0xce, 0x67, 0xbd, 0xd0, 0x68, 0x34, 0x1a, 0x0d, 0x88, 0x44, 0x22, 0x11, 0x86, 0x43, 0xaf, 0xd9,
       0xe2, 0x71, 0xb6, 0x5b, 0xa3, 0xdf, 0xe1, 0xfe, 0x7f, 0xb1, 0xd6, 0x6b, 0xbb, 0xd3, 0xe7, 0xfd,
       0xf0, 0x78, 0x3c, 0x1e, 0x0f, 0x89, 0xca, 0x65, 0xbc, 0x5e, 0x2f, 0x99, 0xc2, 0x61, 0xbe, 0x5f,
       0xa1, 0xde, 0x6f, 0xb9, 0xd2, 0x69, 0xba, 0x5d, 0xa0, 0x50, 0x28, 0x14, 0x0a, 0x05, 0x8c, 0x46,
       0x23, 0x9f, 0xc1, 0xee, 0x77, 0xb5, 0xd4, 0x6a, 0x35, 0x94, 0x4a, 0x25, 0x9c, 0x4e, 0x27, 0x9d,
       0xc0, 0x60, 0x30, 0x18, 0x0c, 0x06, 0x03, 0x8f, 0xc9, 0xea, 0x75, 0xb4, 0x5a, 0x2d, 0x98, 0x4c,
       0x26, 0x13, 0x87, 0xcd, 0xe8, 0x74, 0x3a, 0x1d, 0x80, 0x40, 0x20]]"

definition raid_gfcauchy :: "u8 list list" where
  "raid_gfcauchy = map (\<lambda>row. row @ replicate 5 0)
    [[0x01, 0x01, 0x01, 0x01, 0x01, 0x01, 0x01, 0x01, 0x01, 0x01, 0x01, 0x01, 0x01, 0x01, 0x01, 0x01,
       0x01, 0x01, 0x01, 0x01, 0x01, 0x01, 0x01, 0x01, 0x01, 0x01, 0x01, 0x01, 0x01, 0x01, 0x01, 0x01,
       0x01, 0x01, 0x01, 0x01, 0x01, 0x01, 0x01, 0x01, 0x01, 0x01, 0x01, 0x01, 0x01, 0x01, 0x01, 0x01,
       0x01, 0x01, 0x01, 0x01, 0x01, 0x01, 0x01, 0x01, 0x01, 0x01, 0x01, 0x01, 0x01, 0x01, 0x01, 0x01,
       0x01, 0x01, 0x01, 0x01, 0x01, 0x01, 0x01, 0x01, 0x01, 0x01, 0x01, 0x01, 0x01, 0x01, 0x01, 0x01,
       0x01, 0x01, 0x01, 0x01, 0x01, 0x01, 0x01, 0x01, 0x01, 0x01, 0x01, 0x01, 0x01, 0x01, 0x01, 0x01,
       0x01, 0x01, 0x01, 0x01, 0x01, 0x01, 0x01, 0x01, 0x01, 0x01, 0x01, 0x01, 0x01, 0x01, 0x01, 0x01,
       0x01, 0x01, 0x01, 0x01, 0x01, 0x01, 0x01, 0x01, 0x01, 0x01, 0x01, 0x01, 0x01, 0x01, 0x01, 0x01,
       0x01, 0x01, 0x01, 0x01, 0x01, 0x01, 0x01, 0x01, 0x01, 0x01, 0x01, 0x01, 0x01, 0x01, 0x01, 0x01,
       0x01, 0x01, 0x01, 0x01, 0x01, 0x01, 0x01, 0x01, 0x01, 0x01, 0x01, 0x01, 0x01, 0x01, 0x01, 0x01,
       0x01, 0x01, 0x01, 0x01, 0x01, 0x01, 0x01, 0x01, 0x01, 0x01, 0x01, 0x01, 0x01, 0x01, 0x01, 0x01,
       0x01, 0x01, 0x01, 0x01, 0x01, 0x01, 0x01, 0x01, 0x01, 0x01, 0x01, 0x01, 0x01, 0x01, 0x01, 0x01,
       0x01, 0x01, 0x01, 0x01, 0x01, 0x01, 0x01, 0x01, 0x01, 0x01, 0x01, 0x01, 0x01, 0x01, 0x01, 0x01,
       0x01, 0x01, 0x01, 0x01, 0x01, 0x01, 0x01, 0x01, 0x01, 0x01, 0x01, 0x01, 0x01, 0x01, 0x01, 0x01,
       0x01, 0x01, 0x01, 0x01, 0x01, 0x01, 0x01, 0x01, 0x01, 0x01, 0x01, 0x01, 0x01, 0x01, 0x01, 0x01,
       0x01, 0x01, 0x01, 0x01, 0x01, 0x01, 0x01, 0x01, 0x01, 0x01, 0x01],
     [0x01, 0x02, 0x04, 0x08, 0x10, 0x20, 0x40, 0x80, 0x1d, 0x3a, 0x74, 0xe8, 0xcd, 0x87, 0x13, 0x26,
       0x4c, 0x98, 0x2d, 0x5a, 0xb4, 0x75, 0xea, 0xc9, 0x8f, 0x03, 0x06, 0x0c, 0x18, 0x30, 0x60, 0xc0,
       0x9d, 0x27, 0x4e, 0x9c, 0x25, 0x4a, 0x94, 0x35, 0x6a, 0xd4, 0xb5, 0x77, 0xee, 0xc1, 0x9f, 0x23,
       0x46, 0x8c, 0x05, 0x0a, 0x14, 0x28, 0x50, 0xa0, 0x5d, 0xba, 0x69, 0xd2, 0xb9, 0x6f, 0xde, 0xa1,
       0x5f, 0xbe, 0x61, 0xc2, 0x99, 0x2f, 0x5e, 0xbc, 0x65, 0xca, 0x89, 0x0f, 0x1e, 0x3c, 0x78, 0xf0,
       0xfd, 0xe7, 0xd3, 0xbb, 0x6b, 0xd6, 0xb1, 0x7f, 0xfe, 0xe1, 0xdf, 0xa3, 0x5b, 0xb6, 0x71, 0xe2,
       0xd9, 0xaf, 0x43, 0x86, 0x11, 0x22, 0x44, 0x88, 0x0d, 0x1a, 0x34, 0x68, 0xd0, 0xbd, 0x67, 0xce,
       0x81, 0x1f, 0x3e, 0x7c, 0xf8, 0xed, 0xc7, 0x93, 0x3b, 0x76, 0xec, 0xc5, 0x97, 0x33, 0x66, 0xcc,
       0x85, 0x17, 0x2e, 0x5c, 0xb8, 0x6d, 0xda, 0xa9, 0x4f, 0x9e, 0x21, 0x42, 0x84, 0x15, 0x2a, 0x54,
       0xa8, 0x4d, 0x9a, 0x29, 0x52, 0xa4, 0x55, 0xaa, 0x49, 0x92, 0x39, 0x72, 0xe4, 0xd5, 0xb7, 0x73,
       0xe6, 0xd1, 0xbf, 0x63, 0xc6, 0x91, 0x3f, 0x7e, 0xfc, 0xe5, 0xd7, 0xb3, 0x7b, 0xf6, 0xf1, 0xff,
       0xe3, 0xdb, 0xab, 0x4b, 0x96, 0x31, 0x62, 0xc4, 0x95, 0x37, 0x6e, 0xdc, 0xa5, 0x57, 0xae, 0x41,
       0x82, 0x19, 0x32, 0x64, 0xc8, 0x8d, 0x07, 0x0e, 0x1c, 0x38, 0x70, 0xe0, 0xdd, 0xa7, 0x53, 0xa6,
       0x51, 0xa2, 0x59, 0xb2, 0x79, 0xf2, 0xf9, 0xef, 0xc3, 0x9b, 0x2b, 0x56, 0xac, 0x45, 0x8a, 0x09,
       0x12, 0x24, 0x48, 0x90, 0x3d, 0x7a, 0xf4, 0xf5, 0xf7, 0xf3, 0xfb, 0xeb, 0xcb, 0x8b, 0x0b, 0x16,
       0x2c, 0x58, 0xb0, 0x7d, 0xfa, 0xe9, 0xcf, 0x83, 0x1b, 0x36, 0x6c],
     [0x01, 0xf5, 0xd2, 0xc4, 0x9a, 0x71, 0xf1, 0x7f, 0xfc, 0x87, 0xc1, 0xc6, 0x19, 0x2f, 0x40, 0x55,
       0x3d, 0xba, 0x53, 0x04, 0x9c, 0x61, 0x34, 0x8c, 0x46, 0x68, 0x70, 0x3e, 0xcc, 0x7d, 0x74, 0x75,
       0xb5, 0xdb, 0x0c, 0xdf, 0x9e, 0x6d, 0x79, 0xeb, 0x63, 0x9f, 0x38, 0xd0, 0x94, 0xa5, 0x24, 0x89,
       0x5c, 0x65, 0x5b, 0xae, 0x37, 0x33, 0x4c, 0xdd, 0x47, 0xf4, 0x02, 0xa6, 0x39, 0xd8, 0x9d, 0x2d,
       0x62, 0xb9, 0x2e, 0x0f, 0x2b, 0x60, 0x58, 0xe4, 0xf8, 0x6c, 0x72, 0xb0, 0x85, 0x4d, 0x95, 0x41,
       0x1c, 0x23, 0x05, 0x99, 0x32, 0xc5, 0x0e, 0x82, 0x91, 0x14, 0xd1, 0xaf, 0xf9, 0xb3, 0x07, 0x97,
       0x6e, 0x0b, 0x67, 0x3b, 0x78, 0xe6, 0x28, 0x22, 0x4f, 0xa3, 0xca, 0x48, 0xde, 0x1d, 0xa8, 0x17,
       0x6f, 0x90, 0xaa, 0x31, 0x5a, 0xf3, 0xe9, 0xa9, 0x44, 0x30, 0x56, 0x09, 0x59, 0x6a, 0x42, 0xcd,
       0xe5, 0xd6, 0x86, 0xd9, 0xbf, 0xcb, 0x26, 0x66, 0x7c, 0xd5, 0xbe, 0x25, 0x1f, 0xe0, 0x98, 0x27,
       0x92, 0x51, 0xc7, 0x45, 0x2c, 0xc0, 0xad, 0xa7, 0x69, 0xf7, 0xb4, 0xe8, 0x84, 0xe1, 0x18, 0x88,
       0x3c, 0x76, 0x20, 0x5e, 0x9b, 0x1e, 0x0d, 0x81, 0x4a, 0xbd, 0x16, 0x8a, 0xac, 0x93, 0xce, 0x1a,
       0xc2, 0x0a, 0x3f, 0xfd, 0xe3, 0x77, 0x6b, 0xd7, 0xef, 0xa4, 0x80, 0xa1, 0x36, 0xed, 0xa2, 0x12,
       0x57, 0xb6, 0x29, 0x8d, 0x7b, 0xc8, 0x52, 0xc3, 0xbc, 0xb8, 0x21, 0xd4, 0xea, 0xd3, 0x06, 0xab,
       0x2a, 0x1b, 0x5f, 0xb7, 0x10, 0xec, 0x64, 0xf6, 0xe2, 0x11, 0x50, 0x83, 0x54, 0x3a, 0xfa, 0xfb,
       0xf2, 0x43, 0xb1, 0xff, 0xe7, 0xc9, 0x03, 0xbb, 0xee, 0x13, 0x8b, 0xdc, 0x35, 0xb2, 0xda, 0xcf,
       0xa0, 0x96, 0x49, 0x4e, 0x08, 0x73, 0xf0, 0x7e, 0xfe, 0x15, 0x4b],
     [0x01, 0xbb, 0xa6, 0xd7, 0xc7, 0x07, 0xce, 0x82, 0x4a, 0x2f, 0xa5, 0x9b, 0xb6, 0x60, 0xf1, 0xad,
       0xe7, 0xf4, 0x06, 0xd2, 0xdf, 0x2e, 0xca, 0x65, 0x5c, 0x48, 0x21, 0xaa, 0xcd, 0x4e, 0xc1, 0x61,
       0x38, 0x0a, 0x3e, 0xd1, 0xd5, 0xcb, 0x10, 0xdc, 0x5e, 0x24, 0xb8, 0xde, 0x79, 0x36, 0x43, 0x72,
       0xd9, 0xf8, 0xf9, 0xa2, 0xa4, 0x6a, 0x3d, 0xea, 0x8e, 0x03, 0xf5, 0xab, 0xb4, 0x5d, 0xb5, 0x53,
       0x6b, 0x39, 0x86, 0xb0, 0x50, 0x74, 0x96, 0x84, 0x5a, 0x4b, 0xe8, 0x49, 0xe5, 0x51, 0xef, 0x12,
       0xbc, 0x89, 0x5b, 0x2b, 0x29, 0x09, 0xc3, 0x57, 0x1e, 0x37, 0x76, 0x0b, 0x64, 0x8a, 0x52, 0x59,
       0x80, 0xda, 0xa8, 0x44, 0x95, 0x3c, 0x33, 0xe6, 0x7c, 0xaf, 0x6c, 0xb1, 0x9d, 0xfc, 0x92, 0xd6,
       0xd8, 0xff, 0xa7, 0x77, 0x04, 0x13, 0x73, 0x66, 0x28, 0x7d, 0x83, 0xfb, 0x5f, 0x63, 0x25, 0x19,
       0xbd, 0xc5, 0x3b, 0x6e, 0x20, 0x35, 0x55, 0x42, 0x31, 0xe1, 0xb9, 0x9e, 0x90, 0xd4, 0xba, 0xdb,
       0xf7, 0x2a, 0xe9, 0x3a, 0xa0, 0x75, 0x7a, 0xd3, 0x02, 0xee, 0x9c, 0xc6, 0x1f, 0x14, 0xcc, 0x22,
       0x4d, 0x30, 0x71, 0x58, 0x11, 0x85, 0x4f, 0x6f, 0x6d, 0x1d, 0xcf, 0xfa, 0x54, 0xa9, 0x17, 0xa3,
       0x0f, 0xae, 0x0d, 0x1c, 0xc2, 0xd0, 0x32, 0x16, 0xf6, 0xc0, 0x7f, 0x2d, 0x15, 0xf3, 0x1b, 0xf2,
       0xed, 0xb3, 0x45, 0xc8, 0xac, 0x7b, 0x2c, 0xe2, 0xe4, 0xbf, 0xbe, 0x9f, 0x34, 0x05, 0x70, 0x3f,
       0x98, 0xfe, 0x62, 0x18, 0x9a, 0x56, 0x8d, 0x93, 0x97, 0x78, 0x4c, 0x7e, 0x27, 0x87, 0x08, 0x8b,
       0xec, 0x67, 0x0e, 0x1a, 0x23, 0x8c, 0x68, 0x99, 0x94, 0x40, 0xb2, 0xa1, 0xeb, 0xb7, 0x26, 0xf0,
       0xdd, 0xe3, 0x69, 0x0c, 0xc4, 0x88, 0x41, 0x81, 0x91, 0xe0, 0xfd],
     [0x01, 0x97, 0x7f, 0x9c, 0x7c, 0x18, 0xbd, 0xa2, 0x58, 0x1a, 0xda, 0x74, 0x70, 0xa3, 0xe5, 0x47,
       0x29, 0x07, 0xf5, 0x80, 0x23, 0xe9, 0xfa, 0x46, 0x54, 0xa0, 0x99, 0x95, 0x53, 0x9b, 0x0b, 0xc7,
       0x09, 0xc0, 0x78, 0x89, 0x92, 0xe3, 0x0d, 0xb0, 0x2a, 0x8c, 0xfb, 0x17, 0x3f, 0x26, 0x65, 0x87,
       0x27, 0x5c, 0x66, 0x61, 0x79, 0x4d, 0x32, 0xb3, 0x8d, 0x52, 0xe2, 0x82, 0x3d, 0xf9, 0xc5, 0x02,
       0xbc, 0x4c, 0x73, 0x48, 0x62, 0xaf, 0xba, 0x41, 0xd9, 0xc4, 0x2f, 0xb1, 0x33, 0xb8, 0x15, 0x7d,
       0xcf, 0x3a, 0xa9, 0x5f, 0x84, 0x6d, 0x34, 0x1b, 0x44, 0x94, 0x72, 0x81, 0x42, 0xbe, 0xcc, 0x4b,
       0x0a, 0x6f, 0x5a, 0x22, 0x36, 0xb5, 0x3c, 0x9d, 0x13, 0x7e, 0x08, 0xdd, 0xd6, 0x5e, 0x04, 0xfc,
       0x5b, 0xec, 0xef, 0xf1, 0x6e, 0x1e, 0x77, 0x24, 0xe6, 0xc6, 0xaa, 0xcb, 0xfd, 0x51, 0x67, 0x06,
       0x6a, 0x4a, 0x88, 0xdb, 0xb2, 0xc2, 0x5d, 0x43, 0x40, 0xf7, 0x50, 0xa8, 0xf2, 0x7a, 0x71, 0xa4,
       0xd2, 0xbf, 0x31, 0x90, 0x19, 0x9a, 0x8e, 0xf6, 0xc3, 0xa6, 0xe7, 0x60, 0x12, 0xee, 0x2d, 0xde,
       0x38, 0xe8, 0xb7, 0x98, 0xc1, 0x28, 0xf3, 0x05, 0x96, 0x63, 0xd1, 0xb9, 0x14, 0x9f, 0x1d, 0x83,
       0x68, 0x75, 0xed, 0x16, 0x03, 0xce, 0xe4, 0xdf, 0xe0, 0x10, 0xae, 0x69, 0x55, 0x91, 0x2e, 0x4e,
       0xfe, 0x21, 0x1f, 0x9e, 0xe1, 0xd5, 0xcd, 0xca, 0xf0, 0x8b, 0x2b, 0xc9, 0x8a, 0x93, 0xbb, 0x57,
       0x20, 0x86, 0x1c, 0xa1, 0x4f, 0x3e, 0x25, 0xd4, 0x6c, 0xa5, 0x6b, 0xa7, 0x37, 0xff, 0x39, 0x35,
       0x0c, 0xf8, 0xea, 0x56, 0x45, 0x8f, 0x2c, 0x59, 0xab, 0x85, 0xeb, 0x49, 0x0f, 0xdc, 0xd8, 0x76,
       0xb6, 0xf4, 0x0e, 0x11, 0xb4, 0xd0, 0x30, 0xd3, 0x3b, 0xad, 0xd7],
     [0x01, 0x2b, 0x3f, 0xcf, 0x73, 0x2c, 0xd6, 0xed, 0xcb, 0x74, 0x15, 0x78, 0x8a, 0xc1, 0x17, 0xc9,
       0x89, 0x68, 0x21, 0xab, 0x76, 0x3b, 0x4b, 0x5a, 0x6e, 0x0e, 0xb9, 0xd3, 0xb6, 0x3e, 0x36, 0x86,
       0xbf, 0xa2, 0xa7, 0x30, 0x14, 0xeb, 0xc7, 0x2d, 0x96, 0x67, 0x20, 0xb5, 0x9a, 0xe0, 0xa8, 0xc6,
       0x80, 0x04, 0x8d, 0xfe, 0x75, 0x5e, 0x23, 0xca, 0x8f, 0x48, 0x99, 0x0d, 0xdf, 0x8e, 0xb8, 0x70,
       0x29, 0x9c, 0x44, 0x69, 0x3d, 0xa5, 0xc2, 0x90, 0xd2, 0x1c, 0x9b, 0x02, 0x1d, 0x98, 0x93, 0xec,
       0x84, 0xe8, 0x64, 0x4c, 0x3a, 0x8b, 0x97, 0xf3, 0xe5, 0xc0, 0x7d, 0x26, 0xc8, 0x08, 0xa0, 0x62,
       0x82, 0x55, 0xf7, 0x33, 0xf6, 0x51, 0x63, 0x4d, 0x77, 0xda, 0xfd, 0xc3, 0x38, 0x6d, 0xee, 0x09,
       0x47, 0xa3, 0x05, 0xde, 0xa6, 0xf1, 0x22, 0x25, 0x6a, 0x0c, 0x81, 0xb2, 0x6b, 0x58, 0xd5, 0xb3,
       0xfc, 0xfb, 0x28, 0x7f, 0x07, 0xdc, 0x7a, 0x9e, 0xd0, 0x37, 0xb4, 0xe1, 0x1a, 0x24, 0x03, 0xae,
       0x94, 0xba, 0x88, 0x2f, 0xea, 0x2e, 0x8c, 0x5b, 0xbb, 0x79, 0xd1, 0x11, 0xff, 0xa4, 0x19, 0x3c,
       0x2a, 0x4e, 0x52, 0xe3, 0x95, 0xbd, 0x31, 0x5d, 0x35, 0x4a, 0x41, 0xc4, 0xdb, 0x42, 0xc5, 0x0b,
       0x49, 0x1b, 0x7c, 0xe4, 0xb0, 0x9d, 0x45, 0xf0, 0xa9, 0x61, 0x57, 0x06, 0xd4, 0x40, 0x91, 0x56,
       0x13, 0xfa, 0x87, 0xac, 0x27, 0x54, 0xdd, 0x59, 0x1f, 0x71, 0x39, 0x43, 0x6c, 0xf9, 0xbe, 0x4f,
       0xf4, 0x1e, 0x32, 0xcd, 0xe9, 0x7e, 0x7b, 0x66, 0x5f, 0xef, 0xe7, 0x6f, 0x0a, 0x60, 0xd7, 0xb7,
       0x83, 0x92, 0xe2, 0xaf, 0x72, 0xf8, 0xb1, 0x50, 0x10, 0xce, 0x18, 0x53, 0xa1, 0xcc, 0xad, 0x12,
       0x34, 0x0f, 0xf5, 0xaa, 0x16, 0xe6, 0xf2, 0xd8, 0x85, 0x9f, 0xbc]]"

text \<open>\<^verbatim>\<open>A(p, d)\<close> of \<^verbatim>\<open>raid/gf.h\<close>, for the generator matrix in use.\<close>

definition raid_A :: "u8 list list \<Rightarrow> nat \<Rightarrow> nat \<Rightarrow> u8" where
  "raid_A gfgen p d = gfgen ! p ! d"

definition invert_scale :: "nat \<Rightarrow> nat \<Rightarrow> u8 \<Rightarrow> (nat \<Rightarrow> nat \<Rightarrow> u8) \<Rightarrow> nat \<Rightarrow> nat \<Rightarrow> u8" where
  "invert_scale n k f M i j = (if i = k \<and> j < n then mul f (M k j) else M i j)"

text \<open>The rows other than the pivot row; \<open>F\<close> is the column of factors, read before a row is changed.\<close>

definition invert_eliminate :: "nat \<Rightarrow> nat \<Rightarrow> (nat \<Rightarrow> u8) \<Rightarrow> (nat \<Rightarrow> nat \<Rightarrow> u8) \<Rightarrow> nat \<Rightarrow> nat \<Rightarrow> u8" where
  "invert_eliminate n k F M i j = (if i < n \<and> i \<noteq> k \<and> j < n then M i j XOR mul (F i) (M k j) else M i j)"

function invert_loop :: "nat \<Rightarrow> nat \<Rightarrow> (nat \<Rightarrow> nat \<Rightarrow> u8) \<Rightarrow> (nat \<Rightarrow> nat \<Rightarrow> u8) \<Rightarrow> (nat \<Rightarrow> nat \<Rightarrow> u8) option" where
  "invert_loop n k M V =
     (if k < n then
        if M k k = 0 then None
        else Option.bind (raid_inv (M k k)) (\<lambda>f.
               let M = invert_scale n k f M; V = invert_scale n k f V; F = (\<lambda>i. M i k) in
               invert_loop n (k + 1) (invert_eliminate n k F M) (invert_eliminate n k F V))
      else Some V)"
  by pat_completeness auto
termination by (relation "measure (\<lambda>(n, k, M, V). n - k)") auto

declare invert_loop.simps [simp del]

definition raid_invert :: "(nat \<Rightarrow> nat \<Rightarrow> u8) \<Rightarrow> nat \<Rightarrow> (nat \<Rightarrow> nat \<Rightarrow> u8) option" where
  "raid_invert M n = invert_loop n 0 M (\<lambda>i j. if i = j then 1 else 0)"

section \<open>Inversion\<close>

text \<open>All leading submatrices have independent rows.\<close>

definition leading_regular :: "nat \<Rightarrow> (nat \<Rightarrow> nat \<Rightarrow> u8) \<Rightarrow> bool" where
  "leading_regular n M \<longleftrightarrow> (\<forall>k<n. \<forall>u. (\<forall>j\<le>k. (\<Sum>l\<le>k. u l * gf_of (M l j)) = 0) \<longrightarrow> (\<forall>l\<le>k. u l = 0))"

definition invert_inv :: "nat \<Rightarrow> (nat \<Rightarrow> nat \<Rightarrow> u8) \<Rightarrow> nat \<Rightarrow> (nat \<Rightarrow> nat \<Rightarrow> u8) \<Rightarrow> (nat \<Rightarrow> nat \<Rightarrow> u8) \<Rightarrow> bool" where
  "invert_inv n M0 k M V \<longleftrightarrow>
     (\<forall>i<n. \<forall>j<n. (\<Sum>l<n. gf_of (V i l) * gf_of (M0 l j)) = gf_of (M i j)) \<and>
     (\<forall>i<n. \<forall>j<k. gf_of (M i j) = of_bool (i = j)) \<and>
     (\<forall>i<n. \<forall>l<n. k \<le> l \<longrightarrow> gf_of (V i l) = of_bool (i = l))"

lemma pivot_nonzero:
  assumes "leading_regular n M0" "invert_inv n M0 k M V" "k < n"
  shows "M k k \<noteq> 0"
proof
  assume z: "M k k = 0"
  let ?u = "\<lambda>l. gf_of (V k l)"
  have "(\<Sum>l\<le>k. ?u l * gf_of (M0 l j)) = 0" if j: "j \<le> k" for j
  proof -
    have "(\<Sum>l<n. ?u l * gf_of (M0 l j)) = (\<Sum>l\<le>k. ?u l * gf_of (M0 l j))"
      using assms(2,3) by (intro sum.mono_neutral_right) (auto simp: invert_inv_def)
    moreover have "(\<Sum>l<n. ?u l * gf_of (M0 l j)) = gf_of (M k j)" using assms(2,3) j by (simp add: invert_inv_def)
    moreover have "gf_of (M k j) = 0" using assms(2,3) j z by (cases "j = k") (auto simp: invert_inv_def)
    ultimately show ?thesis by simp
  qed
  then have "?u k = 0"
    using assms(1) [unfolded leading_regular_def, rule_format, OF assms(3), of ?u k] by simp
  moreover have "?u k = 1" using assms(2,3) by (simp add: invert_inv_def)
  ultimately show False by simp
qed

lemma invert_step:
  assumes inv: "invert_inv n M0 k M V" and k: "k < n" and nz: "M k k \<noteq> 0" and f: "gf_of f = inverse (gf_of (M k k))"
  shows "invert_inv n M0 (k + 1) (invert_eliminate n k (\<lambda>i. invert_scale n k f M i k) (invert_scale n k f M))
    (invert_eliminate n k (\<lambda>i. invert_scale n k f M i k) (invert_scale n k f V))"
proof -
  let ?e = "\<lambda>X. invert_eliminate n k (\<lambda>i. invert_scale n k f M i k) (invert_scale n k f X)"
  have a: "\<And>i j. i < n \<Longrightarrow> j < n \<Longrightarrow> (\<Sum>l<n. gf_of (V i l) * gf_of (M0 l j)) = gf_of (M i j)"
    and b: "\<And>i j. i < n \<Longrightarrow> j < k \<Longrightarrow> gf_of (M i j) = of_bool (i = j)"
    and c: "\<And>i l. i < n \<Longrightarrow> l < n \<Longrightarrow> k \<le> l \<Longrightarrow> gf_of (V i l) = of_bool (i = l)"
    using inv by (simp_all add: invert_inv_def)
  have ek: "gf_of (?e X k j) = gf_of f * gf_of (X k j)" if "j < n" for X j
    using that k by (simp add: invert_eliminate_def invert_scale_def)
  have ei: "gf_of (?e X i j) = gf_of (X i j) + gf_of (M i k) * (gf_of f * gf_of (X k j))" if "i < n" "i \<noteq> k" "j < n" for X i j
    using that k by (simp add: invert_eliminate_def invert_scale_def)
  have piv: "gf_of f * gf_of (M k k) = 1" using nz f by simp
  have "(\<Sum>l<n. gf_of (?e V i l) * gf_of (M0 l j)) = gf_of (?e M i j)" if ij: "i < n" "j < n" for i j
  proof -
    have row: "(\<Sum>l<n. gf_of f * gf_of (V k l) * gf_of (M0 l j)) = gf_of f * gf_of (M k j)"
      using a [OF k ij(2)] by (simp add: mult.assoc sum_distrib_left [symmetric])
    show ?thesis
    proof (cases "i = k")
      case True
      have "(\<Sum>l<n. gf_of (?e V k l) * gf_of (M0 l j)) = (\<Sum>l<n. gf_of f * gf_of (V k l) * gf_of (M0 l j))"
        by (rule sum.cong) (simp_all add: ek)
      then show ?thesis using True row ek [OF ij(2)] by simp
    next
      case False
      have "(\<Sum>l<n. gf_of (?e V i l) * gf_of (M0 l j)) =
        (\<Sum>l<n. gf_of (V i l) * gf_of (M0 l j) + gf_of (M i k) * (gf_of f * gf_of (V k l) * gf_of (M0 l j)))"
        using ij False by (intro sum.cong) (simp_all add: ei algebra_simps)
      then show ?thesis using a [OF ij] row ei [OF ij(1) False ij(2)] by (simp add: sum.distrib sum_distrib_left [symmetric])
    qed
  qed
  moreover have "gf_of (?e M i j) = of_bool (i = j)" if "i < n" "j < k + 1" for i j
    using that k b [of i j] b [of k j] piv by (cases "i = k"; cases "j = k") (auto simp: ek ei)
  moreover have "gf_of (?e V i l) = of_bool (i = l)" if "i < n" "l < n" "k + 1 \<le> l" for i l
    using that k c [of i l] c [of k l] by (cases "i = k") (auto simp: ek ei)
  ultimately show ?thesis by (auto simp: invert_inv_def)
qed

lemma invert_loop_spec:
  assumes "leading_regular n M0" "invert_inv n M0 k M V" "k \<le> n"
  shows "\<exists>V'. invert_loop n k M V = Some V' \<and>
    (\<forall>i<n. \<forall>j<n. (\<Sum>l<n. gf_of (V' i l) * gf_of (M0 l j)) = of_bool (i = j))"
  using assms(2,3)
proof (induction "n - k" arbitrary: k M V)
  case 0
  then have "invert_loop n k M V = Some V" by (subst invert_loop.simps) simp
  then show ?case using 0 by (auto simp: invert_inv_def)
next
  case (Suc m)
  have k: "k < n" using Suc.hyps(2) by simp
  have nz: "M k k \<noteq> 0" by (rule pivot_nonzero [OF assms(1) Suc.prems(1) k])
  obtain f where f: "raid_inv (M k k) = Some f" "gf_of f = inverse (gf_of (M k k))" using raid_inv_Some [OF nz] by blast
  have "invert_loop n k M V = invert_loop n (k + 1) (invert_eliminate n k (\<lambda>i. invert_scale n k f M i k) (invert_scale n k f M))
      (invert_eliminate n k (\<lambda>i. invert_scale n k f M i k) (invert_scale n k f V))"
    using k nz f(1) by (subst invert_loop.simps) (simp add: Let_def)
  moreover have "m = n - (k + 1)" "k + 1 \<le> n" using Suc.hyps(2) k by simp_all
  ultimately show ?case using Suc.hyps(1) [OF _ invert_step [OF Suc.prems(1) k nz f(2)]] by metis
qed

lemma raid_invert_spec:
  assumes "leading_regular n M"
  shows "\<exists>V. raid_invert M n = Some V \<and>
    (\<forall>i<n. \<forall>j<n. (\<Sum>l<n. gf_of (V i l) * gf_of (M l j)) = of_bool (i = j))"
proof -
  have "(\<Sum>l<n. gf_of (if i = l then 1 else 0) * gf_of (M l j)) = gf_of (M i j)" if "i < n" for i j
  proof -
    have "(\<Sum>l<n. gf_of (if i = l then 1 else 0) * gf_of (M l j)) = (\<Sum>l<n. if l = i then gf_of (M l j) else 0)"
      by (rule sum.cong) auto
    then show ?thesis using that by simp
  qed
  then have "invert_inv n M 0 M (\<lambda>i j. if i = j then 1 else 0)" by (auto simp: invert_inv_def)
  then show ?thesis unfolding raid_invert_def by (rule invert_loop_spec [OF assms]) simp
qed

end
