(* ===== verification/Raid_Mds.thy ===== *)
theory Raid_Mds
  imports Raid_Matrix
begin

text \<open>
  Both generator matrices are those of maximum distance separable codes: any choice of as many parity rows as
  data columns gives a regular matrix. For the Cauchy matrix, whose first row is constant and whose other rows are
  \<open>c\<^sub>p / (x\<^sub>d + y\<^sub>p)\<close> with \<open>x\<^sub>d = 2\<^sup>-\<^sup>d\<close>, the numerator of a vanishing combination of rows is a polynomial with
  more roots than its degree allows; the same argument serves for the power matrix.
\<close>

unbundle bit_operations_syntax

section \<open>Polynomial functions\<close>

definition polyfn :: "nat \<Rightarrow> (gf \<Rightarrow> gf) \<Rightarrow> bool" where
  "polyfn n f \<longleftrightarrow> (\<exists>a. \<forall>z. f z = (\<Sum>i<n. a i * z ^ i))"

lemma polyfn_roots:
  "polyfn n f \<Longrightarrow> finite S \<Longrightarrow> card S = n \<Longrightarrow> (\<And>z. z \<in> S \<Longrightarrow> f z = 0) \<Longrightarrow> f z = 0"
proof (induction n arbitrary: f S z)
  case 0
  then show ?case by (auto simp: polyfn_def)
next
  case (Suc n)
  obtain a where a: "\<And>z. f z = (\<Sum>i\<le>n. a i * z ^ i)" using Suc.prems(1) by (auto simp: polyfn_def lessThan_Suc_atMost)
  obtain z0 where z0: "z0 \<in> S" using Suc.prems(3) by fastforce
  have "(\<Sum>i\<le>n. a i * z0 ^ i) = 0" using Suc.prems(4) [OF z0] a by simp
  then obtain b where b: "\<And>z. (\<Sum>i\<le>n. a i * z ^ i) = (z - z0) * (\<Sum>i<n. b i * z ^ i)"
    by (rule polyfun_linear_factor_root) blast
  let ?g = "\<lambda>z. \<Sum>i<n. b i * z ^ i"
  have "?g z = 0"
  proof (rule Suc.IH [of ?g "S - {z0}"])
    show "polyfn n ?g" by (auto simp: polyfn_def)
    show "finite (S - {z0})" "card (S - {z0}) = n" using Suc.prems(2,3) z0 by simp_all
    show "?g z = 0" if "z \<in> S - {z0}" for z using Suc.prems(4) [of z] a [of z] b [of z] that by simp
  qed
  then show ?case using a b by simp
qed

lemma polyfn_mono: "polyfn n f \<Longrightarrow> n \<le> m \<Longrightarrow> polyfn m f"
proof -
  assume "polyfn n f" "n \<le> m"
  then obtain a where a: "\<And>z. f z = (\<Sum>i<n. a i * z ^ i)" by (auto simp: polyfn_def)
  have "f z = (\<Sum>i<m. (if i < n then a i else 0) * z ^ i)" for z
    unfolding a using \<open>n \<le> m\<close> by (intro sum.mono_neutral_cong_left) auto
  then show ?thesis unfolding polyfn_def by (intro exI [of _ "\<lambda>i. if i < n then a i else 0"]) simp
qed

lemma polyfn_add: "polyfn n f \<Longrightarrow> polyfn n g \<Longrightarrow> polyfn n (\<lambda>z. f z + g z)"
proof -
  assume "polyfn n f" "polyfn n g"
  then obtain a b where "\<And>z. f z = (\<Sum>i<n. a i * z ^ i)" "\<And>z. g z = (\<Sum>i<n. b i * z ^ i)" by (auto simp: polyfn_def)
  then have "\<forall>z. f z + g z = (\<Sum>i<n. (a i + b i) * z ^ i)" by (simp add: sum.distrib distrib_right)
  then show ?thesis unfolding polyfn_def by (rule exI [of _ "\<lambda>i. a i + b i"])
qed

lemma polyfn_cmult: "polyfn n f \<Longrightarrow> polyfn n (\<lambda>z. c * f z)"
proof -
  assume "polyfn n f"
  then obtain a where "\<And>z. f z = (\<Sum>i<n. a i * z ^ i)" by (auto simp: polyfn_def)
  then have "\<forall>z. c * f z = (\<Sum>i<n. (c * a i) * z ^ i)" by (simp add: sum_distrib_left mult.assoc)
  then show ?thesis unfolding polyfn_def by (rule exI [of _ "\<lambda>i. c * a i"])
qed

lemma polyfn_times_z: "polyfn n f \<Longrightarrow> polyfn (Suc n) (\<lambda>z. z * f z)"
proof -
  assume "polyfn n f"
  then obtain a where "\<And>z. f z = (\<Sum>i<n. a i * z ^ i)" by (auto simp: polyfn_def)
  then have "\<forall>z. z * f z = (\<Sum>i<Suc n. (case i of 0 \<Rightarrow> 0 | Suc i \<Rightarrow> a i) * z ^ i)"
    by (simp add: sum.lessThan_Suc_shift sum_distrib_left mult.left_commute del: sum.lessThan_Suc)
  then show ?thesis unfolding polyfn_def by (rule exI [of _ "\<lambda>i. case i of 0 \<Rightarrow> 0 | Suc i \<Rightarrow> a i"])
qed

lemma polyfn_linear: "polyfn n f \<Longrightarrow> polyfn (Suc n) (\<lambda>z. (z + c) * f z)"
  using polyfn_add [OF polyfn_times_z polyfn_mono [OF polyfn_cmult, of n f "Suc n" c]] by (simp add: distrib_right)

lemma polyfn_prod: "finite L \<Longrightarrow> polyfn (Suc (card L)) (\<lambda>z. \<Prod>l\<in>L. z + y l)"
proof (induction L rule: finite_induct)
  case empty
  show ?case unfolding polyfn_def by (rule exI [of _ "\<lambda>_. 1"]) simp
next
  case (insert l L)
  then show ?case using polyfn_linear [OF insert.IH, of "y l"] by simp
qed

lemma polyfn_sum: "finite I \<Longrightarrow> (\<And>i. i \<in> I \<Longrightarrow> polyfn n (f i)) \<Longrightarrow> polyfn n (\<lambda>z. \<Sum>i\<in>I. f i z)"
proof (induction I rule: finite_induct)
  case empty
  show ?case unfolding polyfn_def by (rule exI [of _ "\<lambda>_. 0"]) simp
next
  case (insert i I)
  then show ?case using polyfn_add [of n "f i"] by simp
qed

section \<open>Rows of Cauchy form are independent\<close>

text \<open>The numerator of \<open>s + (\<Sum>i\<in>I. u i / (z + y i))\<close>.\<close>

definition cauchy_num :: "gf \<Rightarrow> 'i set \<Rightarrow> ('i \<Rightarrow> gf) \<Rightarrow> ('i \<Rightarrow> gf) \<Rightarrow> gf \<Rightarrow> gf" where
  "cauchy_num s I u y z = s * (\<Prod>l\<in>I. z + y l) + (\<Sum>i\<in>I. u i * (\<Prod>l\<in>I - {i}. z + y l))"

lemma cauchy_num_eq:
  assumes "finite I" "\<And>i. i \<in> I \<Longrightarrow> z + y i \<noteq> 0"
  shows "cauchy_num s I u y z = (\<Prod>l\<in>I. z + y l) * (s + (\<Sum>i\<in>I. u i / (z + y i)))"
proof -
  have "u i * (\<Prod>l\<in>I - {i}. z + y l) = (\<Prod>l\<in>I. z + y l) * (u i / (z + y i))" if i: "i \<in> I" for i
  proof -
    have "(\<Prod>l\<in>I. z + y l) = (z + y i) * (\<Prod>l\<in>I - {i}. z + y l)" by (rule prod.remove [OF assms(1) i])
    then show ?thesis using assms(2) [OF i] by simp
  qed
  then have "(\<Sum>i\<in>I. u i * (\<Prod>l\<in>I - {i}. z + y l)) = (\<Prod>l\<in>I. z + y l) * (\<Sum>i\<in>I. u i / (z + y i))"
    by (simp add: sum_distrib_left)
  then show ?thesis by (simp add: cauchy_num_def distrib_left mult.commute)
qed

lemma cauchy_num_zero:
  assumes "finite I" "inj_on y I" "\<And>z. cauchy_num s I u y z = 0" "i \<in> I"
  shows "u i = 0"
proof -
  have "(\<Prod>l\<in>I. y i + y l) = 0" using assms(1,4) by (intro prod_zero bexI [of _ i]) simp_all
  moreover have "(\<Sum>j\<in>I - {i}. u j * (\<Prod>l\<in>I - {j}. y i + y l)) = 0"
  proof (rule sum.neutral, rule ballI)
    fix j
    assume "j \<in> I - {i}"
    then have "(\<Prod>l\<in>I - {j}. y i + y l) = 0" using assms(1,4) by (intro prod_zero bexI [of _ i]) auto
    then show "u j * (\<Prod>l\<in>I - {j}. y i + y l) = 0" by simp
  qed
  ultimately have "u i * (\<Prod>l\<in>I - {i}. y i + y l) = 0"
    using assms(3) [of "y i"] sum.remove [OF assms(1,4), of "\<lambda>j. u j * (\<Prod>l\<in>I - {j}. y i + y l)"] by (simp add: cauchy_num_def)
  moreover have "(\<Prod>l\<in>I - {i}. y i + y l) \<noteq> 0"
    using assms(1,2,4) by (auto simp: gf_add_eq_0 inj_on_def)
  ultimately show ?thesis by simp
qed

lemma cauchy_independent:
  fixes s :: gf
  assumes "finite I" "inj_on y I" "finite X" "card X = (if const then Suc (card I) else card I)" "\<not> const \<Longrightarrow> s = 0"
    "\<And>x i. x \<in> X \<Longrightarrow> i \<in> I \<Longrightarrow> x + y i \<noteq> 0" "\<And>x. x \<in> X \<Longrightarrow> s + (\<Sum>i\<in>I. u i / (x + y i)) = 0"
  shows "s = 0 \<and> (\<forall>i\<in>I. u i = 0)"
proof -
  have roots: "cauchy_num s I u y x = 0" if "x \<in> X" for x
    using cauchy_num_eq [of I x y s u] assms(1,6,7) that by simp
  have smaller: "polyfn (card I) (\<lambda>z. \<Sum>i\<in>I. u i * (\<Prod>l\<in>I - {i}. z + y l))"
  proof (rule polyfn_sum [OF assms(1)])
    fix i
    assume "i \<in> I"
    then have "Suc (card (I - {i})) = card I" using assms(1) by (metis card_Suc_Diff1)
    then show "polyfn (card I) (\<lambda>z. u i * (\<Prod>l\<in>I - {i}. z + y l))"
      using polyfn_prod [of "I - {i}" y] assms(1) polyfn_cmult by fastforce
  qed
  have "polyfn (card X) (cauchy_num s I u y)"
  proof (cases const)
    case True
    then have c: "card X = Suc (card I)" using assms(4) by simp
    show ?thesis unfolding cauchy_num_def c
      by (rule polyfn_add [OF polyfn_cmult [OF polyfn_prod [OF assms(1)]] polyfn_mono [OF smaller]]) simp
  next
    case False
    then show ?thesis using smaller assms(4,5) unfolding cauchy_num_def by simp
  qed
  then have zero: "cauchy_num s I u y z = 0" for z using polyfn_roots [OF _ assms(3) refl] roots by blast
  have u: "\<forall>i\<in>I. u i = 0" using cauchy_num_zero [OF assms(1,2) zero] by blast
  moreover have "s = 0"
  proof (cases const)
    case True
    then have "X \<noteq> {}" using assms(4) by auto
    then obtain x where "x \<in> X" by blast
    then show ?thesis using assms(7) [of x] u by simp
  qed (use assms(5) in simp)
  ultimately show ?thesis by simp
qed

section \<open>The interface\<close>

locale mds_matrix =
  fixes G :: "u8 list list" and np :: nat
  assumes independent: "P \<subseteq> {..<np} \<Longrightarrow> D \<subseteq> {..<251} \<Longrightarrow> card D = card P \<Longrightarrow>
      (\<And>d. d \<in> D \<Longrightarrow> (\<Sum>p\<in>P. u p * gf_of (raid_A G p d)) = 0) \<Longrightarrow> p \<in> P \<Longrightarrow> u p = 0"
    and first_row: "0 < np \<Longrightarrow> d < 251 \<Longrightarrow> raid_A G 0 d = 1"
    and first_column: "p < np \<Longrightarrow> raid_A G p 0 = 1"
    and second_row: "1 < np \<Longrightarrow> d < 251 \<Longrightarrow> gf_of (raid_A G 1 d) = gtwo ^ d"
begin

lemma submatrix_regular:
  assumes ip: "distinct ip" "set ip \<subseteq> {..<np}" "n \<le> length ip" and di: "distinct di" "set di \<subseteq> {..<251}" "n \<le> length di"
  shows "leading_regular n (\<lambda>j k. raid_A G (ip ! j) (di ! k))"
  unfolding leading_regular_def
proof (intro allI impI)
  fix k u l
  assume k: "k < n" and z: "\<forall>j\<le>k. (\<Sum>l\<le>k. u l * gf_of (raid_A G (ip ! l) (di ! j))) = 0" and l: "l \<le> k"
  have inj: "inj_on ((!) ip) {..k}" "inj_on ((!) di) {..k}"
    using ip(1,3) di(1,3) k by (auto simp: inj_on_def nth_eq_iff_index_eq)
  define w where "w p = u (the_inv_into {..k} ((!) ip) p)" for p
  have w: "w (ip ! i) = u i" if "i \<le> k" for i using the_inv_into_f_f [OF inj(1), of i] that by (simp add: w_def)
  have "w (ip ! l) = 0"
  proof (rule independent [of "(!) ip ` {..k}" "(!) di ` {..k}"])
    show "(!) ip ` {..k} \<subseteq> {..<np}" using ip(2,3) k by (auto intro!: subsetD [OF ip(2), unfolded lessThan_iff] nth_mem)
    show "(!) di ` {..k} \<subseteq> {..<251}" using di(2,3) k by (auto intro!: subsetD [OF di(2), unfolded lessThan_iff] nth_mem)
    show "card ((!) di ` {..k}) = card ((!) ip ` {..k})" using inj by (simp add: card_image)
    show "ip ! l \<in> (!) ip ` {..k}" using l by simp
    fix d
    assume "d \<in> (!) di ` {..k}"
    then obtain j where j: "j \<le> k" "d = di ! j" by auto
    have "(\<Sum>p\<in>(!) ip ` {..k}. w p * gf_of (raid_A G p d)) = (\<Sum>i\<le>k. u i * gf_of (raid_A G (ip ! i) (di ! j)))"
      unfolding sum.reindex [OF inj(1)] by (rule sum.cong) (simp_all add: w j)
    then show "(\<Sum>p\<in>(!) ip ` {..k}. w p * gf_of (raid_A G p d)) = 0" using z j by simp
  qed
  then show "u l = 0" using w l by simp
qed

end

section \<open>The Cauchy matrix\<close>

definition cauchy_y :: "nat \<Rightarrow> gf" where
  "cauchy_y p = (if p \<le> 1 then 0 else gtwo ^ (p - 1))"

text \<open>Each entry of the table times its denominator is the constant of its row.\<close>

definition cauchy_xs :: "u8 list" where
  "cauchy_xs =
    [0x01, 0x8e, 0x47, 0xad, 0xd8, 0x6c, 0x36, 0x1b, 0x83, 0xcf, 0xe9, 0xfa, 0x7d, 0xb0, 0x58, 0x2c,
     0x16, 0x0b, 0x8b, 0xcb, 0xeb, 0xfb, 0xf3, 0xf7, 0xf5, 0xf4, 0x7a, 0x3d, 0x90, 0x48, 0x24, 0x12,
     0x09, 0x8a, 0x45, 0xac, 0x56, 0x2b, 0x9b, 0xc3, 0xef, 0xf9, 0xf2, 0x79, 0xb2, 0x59, 0xa2, 0x51,
     0xa6, 0x53, 0xa7, 0xdd, 0xe0, 0x70, 0x38, 0x1c, 0x0e, 0x07, 0x8d, 0xc8, 0x64, 0x32, 0x19, 0x82,
     0x41, 0xae, 0x57, 0xa5, 0xdc, 0x6e, 0x37, 0x95, 0xc4, 0x62, 0x31, 0x96, 0x4b, 0xab, 0xdb, 0xe3,
     0xff, 0xf1, 0xf6, 0x7b, 0xb3, 0xd7, 0xe5, 0xfc, 0x7e, 0x3f, 0x91, 0xc6, 0x63, 0xbf, 0xd1, 0xe6,
     0x73, 0xb7, 0xd5, 0xe4, 0x72, 0x39, 0x92, 0x49, 0xaa, 0x55, 0xa4, 0x52, 0x29, 0x9a, 0x4d, 0xa8,
     0x54, 0x2a, 0x15, 0x84, 0x42, 0x21, 0x9e, 0x4f, 0xa9, 0xda, 0x6d, 0xb8, 0x5c, 0x2e, 0x17, 0x85,
     0xcc, 0x66, 0x33, 0x97, 0xc5, 0xec, 0x76, 0x3b, 0x93, 0xc7, 0xed, 0xf8, 0x7c, 0x3e, 0x1f, 0x81,
     0xce, 0x67, 0xbd, 0xd0, 0x68, 0x34, 0x1a, 0x0d, 0x88, 0x44, 0x22, 0x11, 0x86, 0x43, 0xaf, 0xd9,
     0xe2, 0x71, 0xb6, 0x5b, 0xa3, 0xdf, 0xe1, 0xfe, 0x7f, 0xb1, 0xd6, 0x6b, 0xbb, 0xd3, 0xe7, 0xfd,
     0xf0, 0x78, 0x3c, 0x1e, 0x0f, 0x89, 0xca, 0x65, 0xbc, 0x5e, 0x2f, 0x99, 0xc2, 0x61, 0xbe, 0x5f,
     0xa1, 0xde, 0x6f, 0xb9, 0xd2, 0x69, 0xba, 0x5d, 0xa0, 0x50, 0x28, 0x14, 0x0a, 0x05, 0x8c, 0x46,
     0x23, 0x9f, 0xc1, 0xee, 0x77, 0xb5, 0xd4, 0x6a, 0x35, 0x94, 0x4a, 0x25, 0x9c, 0x4e, 0x27, 0x9d,
     0xc0, 0x60, 0x30, 0x18, 0x0c, 0x06, 0x03, 0x8f, 0xc9, 0xea, 0x75, 0xb4, 0x5a, 0x2d, 0x98, 0x4c,
     0x26, 0x13, 0x87, 0xcd, 0xe8, 0x74, 0x3a, 0x1d, 0x80, 0x40, 0x20]"

lemma cauchy_xs_eq: "cauchy_xs = take 251 (rev raid_gfexp)"
  by (simp add: cauchy_xs_def raid_gfexp_def)

lemma gfcauchy_rows:
  "take 251 (raid_gfcauchy ! 0) = replicate 251 1" "take 251 (raid_gfcauchy ! 1) = take 251 raid_gfexp"
  by (simp_all add: raid_gfcauchy_def raid_gfexp_def numeral_eq_Suc)

lemma gfcauchy_row_2: "list_all2 (\<lambda>a x. gf_mulk 8 a (x XOR 2) = 1 XOR 2) (take 251 (raid_gfcauchy ! 2)) cauchy_xs"
  by (simp add: raid_gfcauchy_def cauchy_xs_def gf_mulk_unfold gf_x2_table)

lemma gfcauchy_row_3: "list_all2 (\<lambda>a x. gf_mulk 8 a (x XOR 4) = 1 XOR 4) (take 251 (raid_gfcauchy ! 3)) cauchy_xs"
  by (simp add: raid_gfcauchy_def cauchy_xs_def gf_mulk_unfold gf_x2_table)

lemma gfcauchy_row_4: "list_all2 (\<lambda>a x. gf_mulk 8 a (x XOR 8) = 1 XOR 8) (take 251 (raid_gfcauchy ! 4)) cauchy_xs"
  by (simp add: raid_gfcauchy_def cauchy_xs_def gf_mulk_unfold gf_x2_table)

lemma gfcauchy_row_5: "list_all2 (\<lambda>a x. gf_mulk 8 a (x XOR 16) = 1 XOR 16) (take 251 (raid_gfcauchy ! 5)) cauchy_xs"
  by (simp add: raid_gfcauchy_def cauchy_xs_def gf_mulk_unfold gf_x2_table)

definition cauchy_x :: "nat \<Rightarrow> gf" where
  "cauchy_x d = gtwo ^ (255 - d)"

lemma cauchy_xs_nth: "d < 251 \<Longrightarrow> gf_of (cauchy_xs ! d) = cauchy_x d"
  by (simp add: cauchy_xs_eq rev_nth length_tables gfexp_pow cauchy_x_def)

lemma cauchy_x_inverse: "d < 255 \<Longrightarrow> cauchy_x d * gtwo ^ d = 1"
  by (simp add: cauchy_x_def gtwo_255 flip: power_add)

lemma cauchy_x_inj: "inj_on cauchy_x {..<251}"
proof (rule inj_onI)
  fix d e
  assume de: "d \<in> {..<251}" "e \<in> {..<251}" "cauchy_x d = cauchy_x e"
  have "cauchy_x d * gtwo ^ d = 1" "cauchy_x d * gtwo ^ e = 1"
    using cauchy_x_inverse [of d] cauchy_x_inverse [of e] de by simp_all
  then have "gtwo ^ d = gtwo ^ e" by (metis mult.commute mult.left_commute mult.right_neutral)
  then show "d = e" using gtwo_pow_inj [of d e] de by simp
qed

lemma gf_of_powers: "gf_of 2 = gtwo ^ 1" "gf_of 4 = gtwo ^ 2" "gf_of 8 = gtwo ^ 3" "gf_of 16 = gtwo ^ 4"
  using gfexp_pow [of 1] gfexp_pow [of 2] gfexp_pow [of 3] gfexp_pow [of 4] by (simp_all add: raid_gfexp_def)

lemma cauchy_y_inj: "inj_on cauchy_y {1..<6}"
  by (rule inj_onI) (use gtwo_pow_inj in \<open>auto simp: cauchy_y_def split: if_splits dest!: gtwo_pow_inj [rotated 2]\<close>)

lemma cauchy_xy: "d < 251 \<Longrightarrow> 1 \<le> p \<Longrightarrow> p < 6 \<Longrightarrow> cauchy_x d + cauchy_y p \<noteq> 0"
proof -
  assume d: "d < 251" and p: "1 \<le> p" "p < 6"
  have "cauchy_x d \<noteq> gtwo ^ (p - 1)" if "1 < p"
  proof (cases "d = 0")
    case True
    then have "cauchy_x d = gtwo ^ 0" by (simp add: cauchy_x_def gtwo_255)
    moreover have "p - 1 < 255" "0 \<noteq> p - 1" using that p by auto
    ultimately show ?thesis using gtwo_pow_inj [of 0 "p - 1"] by force
  next
    case False
    then have "255 - d < 255" "p - 1 < 255" "255 - d \<noteq> p - 1" using p d by auto
    then show ?thesis using gtwo_pow_inj [of "255 - d" "p - 1"] unfolding cauchy_x_def by blast
  qed
  then show ?thesis by (auto simp: gf_add_eq_0 cauchy_y_def cauchy_x_def)
qed

lemma gfcauchy_nth: "p < 6 \<Longrightarrow> length (raid_gfcauchy ! p) = 256"
  using less_8_cases [of p] by (auto simp: raid_gfcauchy_def)

lemma gfcauchy_entry:
  assumes "1 \<le> p" "p < 6" "d < 251"
  shows "gf_of (raid_A raid_gfcauchy p d) = (1 + cauchy_y p) / (cauchy_x d + cauchy_y p)"
proof -
  have row: "gf_of (raid_A raid_gfcauchy p d) * (gf_of (cauchy_xs ! d) + gf_of y) = 1 + gf_of y"
    if "list_all2 (\<lambda>a x. gf_mulk 8 a (x XOR y) = 1 XOR y) (take 251 (raid_gfcauchy ! p)) cauchy_xs" for y
  proof -
    have "gf_mulk 8 (raid_A raid_gfcauchy p d) ((cauchy_xs ! d) XOR y) = 1 XOR y"
      using list_all2_nthD [OF that, of d] assms gfcauchy_nth [of p] by (simp add: raid_A_def)
    then show ?thesis using gf_of_mul(2) [of "raid_A raid_gfcauchy p d" "(cauchy_xs ! d) XOR y"] by (simp add: raid_gfmul_eq)
  qed
  have "gf_of (raid_A raid_gfcauchy p d) * (cauchy_x d + cauchy_y p) = 1 + cauchy_y p"
  proof -
    consider "p = 1" | "p = 2" | "p = 3" | "p = 4" | "p = 5" using assms by linarith
    then show ?thesis
    proof cases
      case 1
      have "raid_A raid_gfcauchy 1 d = take 251 (raid_gfcauchy ! 1) ! d" using assms(3) by (simp add: raid_A_def)
      then have "gf_of (raid_A raid_gfcauchy 1 d) = gtwo ^ d" using assms(3) unfolding gfcauchy_rows(2) by (simp add: gfexp_pow)
      then show ?thesis using 1 cauchy_x_inverse [of d] assms(3) by (simp add: cauchy_y_def mult.commute)
    qed (use row [of 2] row [of 4] row [of 8] row [of 16] gfcauchy_row_2 gfcauchy_row_3 gfcauchy_row_4 gfcauchy_row_5
        cauchy_xs_nth [OF assms(3)] in \<open>simp_all add: cauchy_y_def gf_of_powers\<close>)
  qed
  then show ?thesis using cauchy_xy [OF assms(3,1,2)] by (simp add: field_simps)
qed

lemma cauchy_rows_independent:
  assumes "P \<subseteq> {..<6}" "D \<subseteq> {..<251}" "card D = card P"
    and z: "\<And>d. d \<in> D \<Longrightarrow> (\<Sum>p\<in>P. u p * gf_of (raid_A raid_gfcauchy p d)) = 0" and "p \<in> P"
  shows "u p = 0"
proof -
  let ?I = "P - {0}" and ?X = "cauchy_x ` D" and ?s = "if 0 \<in> P then u 0 else 0"
  have P: "finite P" using assms(1) finite_subset by blast
  have ip: "1 \<le> i \<and> i < 6" if "i \<in> ?I" for i using that assms(1) by auto
  have one: "raid_A raid_gfcauchy 0 d = 1" if "d < 251" for d
  proof -
    have "raid_A raid_gfcauchy 0 d = take 251 (raid_gfcauchy ! 0) ! d" using that by (simp add: raid_A_def)
    then show ?thesis using that unfolding gfcauchy_rows(1) by simp
  qed
  have "?s = 0 \<and> (\<forall>i\<in>?I. u i * (1 + cauchy_y i) = 0)"
  proof (rule cauchy_independent [of ?I cauchy_y ?X "0 \<in> P"])
    show "finite ?I" using P by simp
    show "inj_on cauchy_y ?I" by (rule inj_on_subset [OF cauchy_y_inj]) (use ip in auto)
    show "finite ?X" using assms(2) finite_subset by blast
    have "card ?X = card D" by (intro card_image inj_on_subset [OF cauchy_x_inj] assms(2))
    then show "card ?X = (if 0 \<in> P then Suc (card ?I) else card ?I)" using assms(3) card_Suc_Diff1 [OF P] by auto
    show "x + cauchy_y i \<noteq> 0" if "x \<in> ?X" "i \<in> ?I" for x i using that ip [OF that(2)] assms(2) cauchy_xy by auto
    fix x
    assume "x \<in> ?X"
    then obtain d where d: "d \<in> D" "x = cauchy_x d" "d < 251" using assms(2) by auto
    have "(\<Sum>p\<in>P. u p * gf_of (raid_A raid_gfcauchy p d)) = ?s + (\<Sum>i\<in>?I. u i * gf_of (raid_A raid_gfcauchy i d))"
      using sum.remove [OF P, of 0 "\<lambda>p. u p * gf_of (raid_A raid_gfcauchy p d)"] one [OF d(3)] by auto
    also have "(\<Sum>i\<in>?I. u i * gf_of (raid_A raid_gfcauchy i d)) = (\<Sum>i\<in>?I. u i * (1 + cauchy_y i) / (x + cauchy_y i))"
      by (rule sum.cong) (use ip d gfcauchy_entry in auto)
    finally show "?s + (\<Sum>i\<in>?I. u i * (1 + cauchy_y i) / (x + cauchy_y i)) = 0" using z [OF d(1)] by simp
  qed simp
  moreover have "1 + cauchy_y i \<noteq> 0" if "i \<in> ?I" for i
    using cauchy_xy [of 0 i] ip [OF that] by (simp add: cauchy_x_def gtwo_255)
  ultimately show ?thesis using assms(5) by (cases "p = 0") auto
qed

interpretation cauchy: mds_matrix raid_gfcauchy 6
proof
  fix P D :: "nat set" and u :: "nat \<Rightarrow> gf" and p
  assume "P \<subseteq> {..<6}" "D \<subseteq> {..<251}" "card D = card P" "p \<in> P"
    "\<And>d. d \<in> D \<Longrightarrow> (\<Sum>p\<in>P. u p * gf_of (raid_A raid_gfcauchy p d)) = 0"
  then show "u p = 0" using cauchy_rows_independent by blast
next
  fix d :: nat
  assume "d < 251"
  then have "raid_A raid_gfcauchy 0 d = take 251 (raid_gfcauchy ! 0) ! d" "raid_A raid_gfcauchy 1 d = take 251 (raid_gfcauchy ! 1) ! d"
    by (simp_all add: raid_A_def)
  then show "raid_A raid_gfcauchy 0 d = 1" "gf_of (raid_A raid_gfcauchy 1 d) = gtwo ^ d"
    unfolding gfcauchy_rows using \<open>d < 251\<close> by (simp_all add: gfexp_pow)
next
  fix p :: nat
  assume "p < 6"
  then show "raid_A raid_gfcauchy p 0 = 1"
    using less_8_cases [of p] by (auto simp: raid_A_def raid_gfcauchy_def)
qed

section \<open>The power matrix\<close>

lemma gfvandermonde_rows:
  "take 251 (raid_gfvandermonde ! 0) = replicate 251 1" "take 251 (raid_gfvandermonde ! 1) = take 251 raid_gfexp"
  "take 251 (raid_gfvandermonde ! 2) = cauchy_xs"
  by (simp_all add: raid_gfvandermonde_def raid_gfexp_def cauchy_xs_def numeral_eq_Suc)

lemma gfvandermonde_entry:
  assumes "d < 251"
  shows "raid_A raid_gfvandermonde 0 d = 1" "gf_of (raid_A raid_gfvandermonde 1 d) = gtwo ^ d"
    "gf_of (raid_A raid_gfvandermonde 2 d) = inverse (gtwo ^ d)"
proof -
  have r: "raid_A raid_gfvandermonde p d = take 251 (raid_gfvandermonde ! p) ! d" for p using assms by (simp add: raid_A_def)
  show "raid_A raid_gfvandermonde 0 d = 1" "gf_of (raid_A raid_gfvandermonde 1 d) = gtwo ^ d"
    unfolding r gfvandermonde_rows using assms by (simp_all add: gfexp_pow)
  have "gf_of (raid_A raid_gfvandermonde 2 d) = gf_of (cauchy_xs ! d)"
    unfolding r gfvandermonde_rows by (rule refl)
  then have "gtwo ^ d * gf_of (raid_A raid_gfvandermonde 2 d) = 1" using cauchy_x_inverse [of d] assms by (simp add: cauchy_xs_nth mult.commute)
  then show "gf_of (raid_A raid_gfvandermonde 2 d) = inverse (gtwo ^ d)" by (rule inverse_unique [symmetric])
qed

text \<open>A combination of the rows, multiplied by \<open>z = 2\<^sup>d\<close>, is a quadratic polynomial in \<open>z\<close>; without the second row
  it is linear and without the first it is linear in \<open>z\<^sup>2\<close>.\<close>

lemma quadratic_zero:
  assumes "card Z = 3" "\<And>z. z \<in> Z \<Longrightarrow> a + b * z + c * z ^ 2 = (0 :: gf)"
  shows "a = 0 \<and> b = 0 \<and> c = 0"
proof -
  have "polyfn 3 (\<lambda>z. a + b * z + c * z ^ 2)"
    unfolding polyfn_def by (rule exI [of _ "\<lambda>i. [a, b, c] ! i"]) (simp add: eval_nat_numeral lessThan_Suc algebra_simps)
  then have q: "a + b * z + c * z ^ 2 = 0" for z
    using polyfn_roots [of 3 _ Z] assms by (metis (no_types, lifting) card.infinite zero_neq_numeral)
  have a: "a = 0" using q [of 0] by simp
  have bc: "b + c = 0" using q [of 1] a by simp
  have "gtwo * (b + c * gtwo) = 0" using q [of gtwo] a by (simp add: algebra_simps power2_eq_square)
  then have "b + c * gtwo = 0" by simp
  then have "c * (1 + gtwo) = 0" using bc by (simp add: gf_add_eq_0 algebra_simps)
  moreover have "1 + gtwo \<noteq> 0" using gtwo_pow_not_1 [of 1] by (simp add: gf_add_eq_0)
  ultimately have "c = 0" by simp
  then show ?thesis using a bc by simp
qed

lemma quadratic_two_zero:
  assumes z: "z \<noteq> w" "z \<noteq> 0" "w \<noteq> (0 :: gf)" and e: "a + b * z + c * z ^ 2 = 0" "a + b * w + c * w ^ 2 = 0"
    and "a = 0 \<or> b = 0 \<or> c = 0"
  shows "a = 0 \<and> b = 0 \<and> c = 0"
proof -
  have zw: "z + w \<noteq> 0" using z(1) by (simp add: gf_add_eq_0)
  have "(a + b * z + c * z ^ 2) + (a + b * w + c * w ^ 2) = (a + a) + b * (z + w) + c * (z ^ 2 + w ^ 2)" by (simp only: algebra_simps)
  moreover have "z ^ 2 + w ^ 2 = (z + w) ^ 2"
  proof -
    have "(z + w) ^ 2 = z ^ 2 + w ^ 2 + (z * w + z * w)" by (simp only: power2_eq_square algebra_simps)
    then show ?thesis by (simp only: gf_self_add add_0_right)
  qed
  ultimately have "b * (z + w) + c * (z + w) ^ 2 = 0" by (simp only: e gf_self_add add_0_left)
  then have "(z + w) * (b + c * (z + w)) = 0" by (simp only: power2_eq_square distrib_left mult.commute mult.left_commute mult.assoc)
  then have bc: "b + c * (z + w) = 0" using zw by simp
  show ?thesis
  proof (cases "a = 0")
    case True
    then have "z * (b + c * z) = 0" using e(1) by (simp add: algebra_simps power2_eq_square)
    then have "b + c * z = 0" using z(2) by simp
    then have "c * w = 0" using bc by (simp add: algebra_simps gf_add_eq_0)
    then show ?thesis using True z(3) bc by simp
  next
    case False
    then have "b = 0 \<and> c = 0" using assms(6) bc zw by auto
    then show ?thesis using e(1) by simp
  qed
qed

lemma vandermonde_rows_independent:
  assumes P: "P \<subseteq> {..<3}" and D: "D \<subseteq> {..<251}" "card D = card P"
    and z: "\<And>d. d \<in> D \<Longrightarrow> (\<Sum>p\<in>P. u p * gf_of (raid_A raid_gfvandermonde p d)) = 0" and p: "p \<in> P"
  shows "u p = 0"
proof -
  define v where "v p = (if p \<in> P then u p else 0)" for p
  have e: "v 2 + v 0 * gtwo ^ d + v 1 * (gtwo ^ d) ^ 2 = 0" if d: "d \<in> D" for d
  proof -
    have "(\<Sum>p\<in>P. u p * gf_of (raid_A raid_gfvandermonde p d)) = (\<Sum>p<3. v p * gf_of (raid_A raid_gfvandermonde p d))"
      using P by (intro sum.mono_neutral_cong_left) (auto simp: v_def)
    also have "\<dots> = v 0 + v 1 * gtwo ^ d + v 2 * inverse (gtwo ^ d)"
    proof -
      have "d < 251" using d D by auto
      moreover have "{..<3 :: nat} = {0, 1, 2}" by auto
      ultimately show ?thesis by (simp add: gfvandermonde_entry del: One_nat_def)
    qed
    finally have "v 0 + v 1 * gtwo ^ d + v 2 * inverse (gtwo ^ d) = 0" using z [OF d] by simp
    then have "v 0 * gtwo ^ d + v 1 * (gtwo ^ d) ^ 2 + v 2 * (inverse (gtwo ^ d) * gtwo ^ d) = 0"
      by (metis (no_types, lifting) distrib_right mult.assoc mult_zero_left power2_eq_square)
    moreover have "inverse (gtwo ^ d) * gtwo ^ d = 1" by simp
    ultimately show ?thesis by (simp only: mult_1_right add.commute add.left_commute)
  qed
  let ?g = "\<lambda>d. gtwo ^ d"
  have inj: "inj_on ?g D"
  proof (rule inj_onI)
    fix a b
    assume "a \<in> D" "b \<in> D" "gtwo ^ a = gtwo ^ b"
    moreover have "a < 255" "b < 255" using calculation(1,2) D(1) by auto
    ultimately show "a = b" using gtwo_pow_inj by blast
  qed
  have two: "\<exists>a\<in>D. \<exists>b\<in>D. ?g a \<noteq> ?g b" if "card P = 2"
  proof -
    have "card D = 2" using that D(2) by simp
    then obtain a b where "D = {a, b}" "a \<noteq> b" unfolding card_2_iff by blast
    then show ?thesis using inj_onD [OF inj, of a b] by blast
  qed
  have "v p = 0"
  proof (cases "card P = 3")
    case True
    then have "P = {..<3}" using P by (metis card_lessThan card_subset_eq finite_lessThan)
    have "v 2 = 0 \<and> v 0 = 0 \<and> v 1 = 0"
      by (rule quadratic_zero [of "?g ` D"]) (use True D(2) inj e in \<open>auto simp: card_image\<close>)
    then show ?thesis using p P by (auto simp: lessThan_Suc eval_nat_numeral)
  next
    case False
    have "card P \<le> 3" using card_mono [OF _ P] by simp
    then have "card P < 3" using False by simp
    then obtain q where q: "q < 3" "q \<notin> P"
    proof -
      have "P \<noteq> {..<3}" using False by auto
      then show thesis using that P by blast
    qed
    have all: "v 2 = 0 \<and> v 0 = 0 \<and> v 1 = 0"
    proof (cases "card P = 2")
      case True
      then obtain a b where ab: "a \<in> D" "b \<in> D" "?g a \<noteq> ?g b" using two by blast
      have "q = 0 \<or> q = 1 \<or> q = 2" using q(1) by linarith
      then have "v 2 = 0 \<or> v 0 = 0 \<or> v 1 = 0" using q(2) unfolding v_def by metis
      moreover have "?g a \<noteq> 0" "?g b \<noteq> 0" by simp_all
      ultimately show ?thesis using quadratic_two_zero [OF ab(3) _ _ e [OF ab(1)] e [OF ab(2)]] by blast
    next
      case False
      have "card P \<noteq> 0" using p card_0_eq [OF finite_subset [OF P finite_lessThan]] by blast
      then have "card P = 1" using False \<open>card P < 3\<close> by linarith
      then obtain r where "P = {r}" by (rule card_1_singletonE)
      then have "P = {p}" using p by simp
      moreover obtain d where "d \<in> D" using D(2) \<open>card P = 1\<close> by (cases "D = {}") auto
      moreover have "p = 0 \<or> p = 1 \<or> p = 2" using subsetD [OF P p] by (simp add: less_Suc_eq eval_nat_numeral)
      moreover have "?g d \<noteq> 0" "(?g d) ^ 2 \<noteq> 0" by simp_all
      ultimately show ?thesis using e [of d] by (elim disjE) (simp_all add: v_def)
    qed
    moreover have "p = 0 \<or> p = 1 \<or> p = 2" using subsetD [OF P p] by (simp add: less_Suc_eq eval_nat_numeral)
    ultimately show ?thesis by blast
  qed
  then show ?thesis using p by (simp add: v_def)
qed

interpretation vandermonde: mds_matrix raid_gfvandermonde 3
proof
  fix P D :: "nat set" and u :: "nat \<Rightarrow> gf" and p
  assume "P \<subseteq> {..<3}" "D \<subseteq> {..<251}" "card D = card P" "p \<in> P"
    "\<And>d. d \<in> D \<Longrightarrow> (\<Sum>p\<in>P. u p * gf_of (raid_A raid_gfvandermonde p d)) = 0"
  then show "u p = 0" using vandermonde_rows_independent by blast
next
  fix d :: nat
  assume "d < 251"
  then show "raid_A raid_gfvandermonde 0 d = 1" "gf_of (raid_A raid_gfvandermonde 1 d) = gtwo ^ d"
    by (simp_all only: gfvandermonde_entry)
next
  fix p :: nat
  assume "p < 3"
  then show "raid_A raid_gfvandermonde p 0 = 1"
    using less_8_cases [of p] by (auto simp: raid_A_def raid_gfvandermonde_def)
qed

section \<open>Properties\<close>

text \<open>C9. Every square submatrix that recovery can select, from the Cauchy matrix (up to six parities) or from the power matrix
  (up to three), with at most 251 disks, is inverted by \<^verbatim>\<open>raid_invert\<close>: the assertion on the pivots never fails, and the
  result multiplied by the submatrix is the identity.\<close>

theorem raid_invert_submatrices:
  assumes "(G, np) \<in> {(raid_gfcauchy, 6), (raid_gfvandermonde, 3)}"
    and "distinct ip" "set ip \<subseteq> {..<np}" "distinct di" "set di \<subseteq> {..<251}" "length di = length ip"
  shows "\<exists>V. raid_invert (\<lambda>j k. raid_A G (ip ! j) (di ! k)) (length ip) = Some V \<and>
    (\<forall>i<length ip. \<forall>j<length ip. (\<Sum>l<length ip. gf_of (V i l) * gf_of (raid_A G (ip ! l) (di ! j))) = of_bool (i = j))"
proof (rule raid_invert_spec)
  show "leading_regular (length ip) (\<lambda>j k. raid_A G (ip ! j) (di ! k))"
    using assms by (auto intro!: cauchy.submatrix_regular vandermonde.submatrix_regular)
qed

theorem raid_invert_submatrices_witness:
  "\<exists>V. raid_invert (\<lambda>j k. raid_A raid_gfcauchy ([1, 4] ! j) ([7, 250] ! k)) (length [1, 4 :: nat]) = Some V \<and>
    (\<forall>i<length [1, 4 :: nat]. \<forall>j<length [1, 4 :: nat].
      (\<Sum>l<length [1, 4 :: nat]. gf_of (V i l) * gf_of (raid_A raid_gfcauchy ([1, 4] ! l) ([7, 250] ! j))) = of_bool (i = j))"
  by (rule raid_invert_submatrices [where np = 6]) simp_all

end
