(* ===== verification/Raid_Gen.thy ===== *)
theory Raid_Gen
  imports Raid_Mds
begin

unbundle bit_operations_syntax

text \<open>
  The parity generation of the RAID library: the C generators of \<^verbatim>\<open>raid/int.c\<close> and \<^verbatim>\<open>raid/intz.c\<close>, the
  reference generator, the selection of the generators (\<^verbatim>\<open>raid_init\<close>, \<^verbatim>\<open>raid_mode\<close>, \<^verbatim>\<open>raid_zero\<close>) and
  the entry point \<^verbatim>\<open>raid_gen\<close>.  A block is an address, the memory gives the byte of a block at an offset, and the
  vector of pointers is a list of addresses, in which the same address may occur more than once.  Words are read
  and written in little endian order.  The selection is the one of a build without \<^verbatim>\<open>CONFIG_X86\<close>: the assembly
  routines are not modelled.  \<^verbatim>\<open>None\<close> stands for a failed \<^verbatim>\<open>BUG_ON\<close> and for an access outside an array.

  Every generator is shown to write, in order, the rows of the generator matrix applied to the data blocks;
  \<^term>\<open>gen_spec\<close> is that specification.
\<close>

section \<open>Memory\<close>

type_synonym mem = "nat \<Rightarrow> nat \<Rightarrow> u8"

definition v_8 :: "mem \<Rightarrow> nat \<Rightarrow> nat \<Rightarrow> u8" where
  "v_8 m a i = m a i"

definition v_word :: "mem \<Rightarrow> nat \<Rightarrow> nat \<Rightarrow> 'a::len word" where
  "v_word m a i = horner_sum of_bool 2 (map (\<lambda>n. bit (m a (i + n div 8)) (n mod 8)) [0..<LENGTH('a)])"

definition v_32 :: "mem \<Rightarrow> nat \<Rightarrow> nat \<Rightarrow> u32" where
  "v_32 m a i = v_word m a i"

definition v_64 :: "mem \<Rightarrow> nat \<Rightarrow> nat \<Rightarrow> u64" where
  "v_64 m a i = v_word m a i"

definition set_8 :: "mem \<Rightarrow> nat \<Rightarrow> nat \<Rightarrow> u8 \<Rightarrow> mem" where
  "set_8 m a i w = m(a := (m a)(i := w))"

definition set_word :: "mem \<Rightarrow> nat \<Rightarrow> nat \<Rightarrow> 'a::len word \<Rightarrow> mem" where
  "set_word m a i w = m(a := \<lambda>b. if i \<le> b \<and> b < i + LENGTH('a) div 8 then byte (b - i) w else m a b)"

definition set_32 :: "mem \<Rightarrow> nat \<Rightarrow> nat \<Rightarrow> u32 \<Rightarrow> mem" where
  "set_32 m a i w = set_word m a i w"

definition set_64 :: "mem \<Rightarrow> nat \<Rightarrow> nat \<Rightarrow> u64 \<Rightarrow> mem" where
  "set_64 m a i w = set_word m a i w"

text \<open>\<^verbatim>\<open>for (i = ...; i < size; i += step)\<close>.\<close>

function for_step :: "nat \<Rightarrow> nat \<Rightarrow> nat \<Rightarrow> (nat \<Rightarrow> 's \<Rightarrow> 's) \<Rightarrow> 's \<Rightarrow> 's" where
  "for_step step i sz body s = (if i < sz \<and> 0 < step then for_step step (i + step) sz body (body i s) else s)"
  by pat_completeness auto
termination
  by (relation "measure (\<lambda>(step, i, sz, body, s). sz - i)") auto

declare for_step.simps [simp del]

section \<open>The generators\<close>

subsection \<open>One parity\<close>

primrec gen1_data :: "mem \<Rightarrow> nat list \<Rightarrow> nat \<Rightarrow> nat \<Rightarrow> nat \<Rightarrow> 'a::len word \<Rightarrow> 'a word \<Rightarrow> 'a word \<times> 'a word" where
  "gen1_data m v i i' 0 p0 p1 = (p0, p1)"
| "gen1_data m v i i' (Suc d) p0 p1 = gen1_data m v i i' d (p0 XOR v_word m (v ! d) i) (p1 XOR v_word m (v ! d) i')"

definition raid_gen1_int32 :: "nat \<Rightarrow> nat \<Rightarrow> nat list \<Rightarrow> mem \<Rightarrow> mem option" where
  "raid_gen1_int32 nd sz v m = (if length v < nd + 1 \<or> nd = 0 \<and> 0 < sz then None else
     (let l = nd - 1; p = v ! nd in
      Some (for_step 8 0 sz (\<lambda>i m.
        let p0 = v_32 m (v ! l) i; p1 = v_32 m (v ! l) (i + 4);
            (p0, p1) = gen1_data m v i (i + 4) l p0 p1;
            m = set_32 m p i p0;
            m = set_32 m p (i + 4) p1
        in m) m)))"

definition raid_gen1_int64 :: "nat \<Rightarrow> nat \<Rightarrow> nat list \<Rightarrow> mem \<Rightarrow> mem option" where
  "raid_gen1_int64 nd sz v m = (if length v < nd + 1 \<or> nd = 0 \<and> 0 < sz then None else
     (let l = nd - 1; p = v ! nd in
      Some (for_step 16 0 sz (\<lambda>i m.
        let p0 = v_64 m (v ! l) i; p1 = v_64 m (v ! l) (i + 8);
            (p0, p1) = gen1_data m v i (i + 8) l p0 p1;
            m = set_64 m p i p0;
            m = set_64 m p (i + 8) p1
        in m) m)))"

subsection \<open>Two parities\<close>

primrec gen2_data :: "('a::len word \<Rightarrow> 'a word) \<Rightarrow> mem \<Rightarrow> nat list \<Rightarrow> nat \<Rightarrow> nat \<Rightarrow> nat \<Rightarrow> 'a word \<Rightarrow> 'a word \<Rightarrow> 'a word \<Rightarrow> 'a word \<Rightarrow>
    'a word \<times> 'a word \<times> 'a word \<times> 'a word" where
  "gen2_data x2 m v i i' 0 p0 p1 q0 q1 = (p0, p1, q0, q1)"
| "gen2_data x2 m v i i' (Suc d) p0 p1 q0 q1 =
    (let d0 = v_word m (v ! d) i; d1 = v_word m (v ! d) i';
         p0 = p0 XOR d0; p1 = p1 XOR d1;
         q0 = x2 q0; q1 = x2 q1;
         q0 = q0 XOR d0; q1 = q1 XOR d1
     in gen2_data x2 m v i i' d p0 p1 q0 q1)"

definition raid_gen2_int32 :: "nat \<Rightarrow> nat \<Rightarrow> nat list \<Rightarrow> mem \<Rightarrow> mem option" where
  "raid_gen2_int32 nd sz v m = (if length v < nd + 2 \<or> nd = 0 \<and> 0 < sz then None else
     (let l = nd - 1; p = v ! nd; q = v ! (nd + 1) in
      Some (for_step 8 0 sz (\<lambda>i m.
        let p0 = v_32 m (v ! l) i; q0 = p0;
            p1 = v_32 m (v ! l) (i + 4); q1 = p1;
            (p0, p1, q0, q1) = gen2_data x2_32 m v i (i + 4) l p0 p1 q0 q1;
            m = set_32 m p i p0;
            m = set_32 m p (i + 4) p1;
            m = set_32 m q i q0;
            m = set_32 m q (i + 4) q1
        in m) m)))"

definition raid_gen2_int64 :: "nat \<Rightarrow> nat \<Rightarrow> nat list \<Rightarrow> mem \<Rightarrow> mem option" where
  "raid_gen2_int64 nd sz v m = (if length v < nd + 2 \<or> nd = 0 \<and> 0 < sz then None else
     (let l = nd - 1; p = v ! nd; q = v ! (nd + 1) in
      Some (for_step 16 0 sz (\<lambda>i m.
        let p0 = v_64 m (v ! l) i; q0 = p0;
            p1 = v_64 m (v ! l) (i + 8); q1 = p1;
            (p0, p1, q0, q1) = gen2_data x2_64 m v i (i + 8) l p0 p1 q0 q1;
            m = set_64 m p i p0;
            m = set_64 m p (i + 8) p1;
            m = set_64 m q i q0;
            m = set_64 m q (i + 8) q1
        in m) m)))"

subsection \<open>Three parities with the power matrix\<close>

primrec genz_data :: "('a::len word \<Rightarrow> 'a word) \<Rightarrow> ('a word \<Rightarrow> 'a word) \<Rightarrow> mem \<Rightarrow> nat list \<Rightarrow> nat \<Rightarrow> nat \<Rightarrow> nat \<Rightarrow>
    'a word \<Rightarrow> 'a word \<Rightarrow> 'a word \<Rightarrow> 'a word \<Rightarrow> 'a word \<Rightarrow> 'a word \<Rightarrow>
    'a word \<times> 'a word \<times> 'a word \<times> 'a word \<times> 'a word \<times> 'a word" where
  "genz_data x2 d2 m v i i' 0 p0 p1 q0 q1 r0 r1 = (p0, p1, q0, q1, r0, r1)"
| "genz_data x2 d2 m v i i' (Suc d) p0 p1 q0 q1 r0 r1 =
    (let d0 = v_word m (v ! d) i; d1 = v_word m (v ! d) i';
         p0 = p0 XOR d0; p1 = p1 XOR d1;
         q0 = x2 q0; q1 = x2 q1;
         q0 = q0 XOR d0; q1 = q1 XOR d1;
         r0 = d2 r0; r1 = d2 r1;
         r0 = r0 XOR d0; r1 = r1 XOR d1
     in genz_data x2 d2 m v i i' d p0 p1 q0 q1 r0 r1)"

definition raid_genz_int32 :: "nat \<Rightarrow> nat \<Rightarrow> nat list \<Rightarrow> mem \<Rightarrow> mem option" where
  "raid_genz_int32 nd sz v m = (if length v < nd + 3 \<or> nd = 0 \<and> 0 < sz then None else
     (let l = nd - 1; p = v ! nd; q = v ! (nd + 1); r = v ! (nd + 2) in
      Some (for_step 8 0 sz (\<lambda>i m.
        let p0 = v_32 m (v ! l) i; q0 = p0; r0 = p0;
            p1 = v_32 m (v ! l) (i + 4); q1 = p1; r1 = p1;
            (p0, p1, q0, q1, r0, r1) = genz_data x2_32 d2_32 m v i (i + 4) l p0 p1 q0 q1 r0 r1;
            m = set_32 m p i p0;
            m = set_32 m p (i + 4) p1;
            m = set_32 m q i q0;
            m = set_32 m q (i + 4) q1;
            m = set_32 m r i r0;
            m = set_32 m r (i + 4) r1
        in m) m)))"

definition raid_genz_int64 :: "nat \<Rightarrow> nat \<Rightarrow> nat list \<Rightarrow> mem \<Rightarrow> mem option" where
  "raid_genz_int64 nd sz v m = (if length v < nd + 3 \<or> nd = 0 \<and> 0 < sz then None else
     (let l = nd - 1; p = v ! nd; q = v ! (nd + 1); r = v ! (nd + 2) in
      Some (for_step 16 0 sz (\<lambda>i m.
        let p0 = v_64 m (v ! l) i; q0 = p0; r0 = p0;
            p1 = v_64 m (v ! l) (i + 8); q1 = p1; r1 = p1;
            (p0, p1, q0, q1, r0, r1) = genz_data x2_64 d2_64 m v i (i + 8) l p0 p1 q0 q1 r0 r1;
            m = set_64 m p i p0;
            m = set_64 m p (i + 8) p1;
            m = set_64 m q i q0;
            m = set_64 m q (i + 8) q1;
            m = set_64 m r i r0;
            m = set_64 m r (i + 8) r1
        in m) m)))"

subsection \<open>Three to six parities with the current matrix\<close>

text \<open>The accesses \<^verbatim>\<open>gfgen[j][d]\<close> of the loops over the disks stay inside the matrix.\<close>

definition gfgen_access :: "u8 list list \<Rightarrow> nat \<Rightarrow> nat \<Rightarrow> nat \<Rightarrow> bool" where
  "gfgen_access gfgen np nd sz \<longleftrightarrow> nd \<le> 1 \<or> sz = 0 \<or> np \<le> length gfgen \<and> nd \<le> 256"

primrec gen3_data :: "u8 list list \<Rightarrow> mem \<Rightarrow> nat list \<Rightarrow> nat \<Rightarrow> nat \<Rightarrow> u8 \<Rightarrow> u8 \<Rightarrow> u8 \<Rightarrow> u8 \<times> u8 \<times> u8" where
  "gen3_data gfgen m v i 0 p0 q0 r0 = (p0, q0, r0)"
| "gen3_data gfgen m v i (Suc d) p0 q0 r0 =
    (let d0 = v_8 m (v ! Suc d) i;
         p0 = p0 XOR d0;
         q0 = q0 XOR raid_gfmul d0 (raid_A gfgen 1 (Suc d));
         r0 = r0 XOR raid_gfmul d0 (raid_A gfgen 2 (Suc d))
     in gen3_data gfgen m v i d p0 q0 r0)"

definition raid_gen3_int8 :: "u8 list list \<Rightarrow> nat \<Rightarrow> nat \<Rightarrow> nat list \<Rightarrow> mem \<Rightarrow> mem option" where
  "raid_gen3_int8 gfgen nd sz v m = (if length v < nd + 3 \<or> \<not> gfgen_access gfgen 3 nd sz then None else
     (let l = nd - 1; p = v ! nd; q = v ! (nd + 1); r = v ! (nd + 2) in
      Some (for_step 1 0 sz (\<lambda>i m.
        let (p0, q0, r0) = gen3_data gfgen m v i l 0 0 0;
            d0 = v_8 m (v ! 0) i;
            p0 = p0 XOR d0; q0 = q0 XOR d0; r0 = r0 XOR d0;
            m = set_8 m p i p0; m = set_8 m q i q0; m = set_8 m r i r0
        in m) m)))"

primrec gen4_data :: "u8 list list \<Rightarrow> mem \<Rightarrow> nat list \<Rightarrow> nat \<Rightarrow> nat \<Rightarrow> u8 \<Rightarrow> u8 \<Rightarrow> u8 \<Rightarrow> u8 \<Rightarrow> u8 \<times> u8 \<times> u8 \<times> u8" where
  "gen4_data gfgen m v i 0 p0 q0 r0 s0 = (p0, q0, r0, s0)"
| "gen4_data gfgen m v i (Suc d) p0 q0 r0 s0 =
    (let d0 = v_8 m (v ! Suc d) i;
         p0 = p0 XOR d0;
         q0 = q0 XOR raid_gfmul d0 (raid_A gfgen 1 (Suc d));
         r0 = r0 XOR raid_gfmul d0 (raid_A gfgen 2 (Suc d));
         s0 = s0 XOR raid_gfmul d0 (raid_A gfgen 3 (Suc d))
     in gen4_data gfgen m v i d p0 q0 r0 s0)"

definition raid_gen4_int8 :: "u8 list list \<Rightarrow> nat \<Rightarrow> nat \<Rightarrow> nat list \<Rightarrow> mem \<Rightarrow> mem option" where
  "raid_gen4_int8 gfgen nd sz v m = (if length v < nd + 4 \<or> \<not> gfgen_access gfgen 4 nd sz then None else
     (let l = nd - 1; p = v ! nd; q = v ! (nd + 1); r = v ! (nd + 2); s = v ! (nd + 3) in
      Some (for_step 1 0 sz (\<lambda>i m.
        let (p0, q0, r0, s0) = gen4_data gfgen m v i l 0 0 0 0;
            d0 = v_8 m (v ! 0) i;
            p0 = p0 XOR d0; q0 = q0 XOR d0; r0 = r0 XOR d0; s0 = s0 XOR d0;
            m = set_8 m p i p0; m = set_8 m q i q0; m = set_8 m r i r0; m = set_8 m s i s0
        in m) m)))"

primrec gen5_data :: "u8 list list \<Rightarrow> mem \<Rightarrow> nat list \<Rightarrow> nat \<Rightarrow> nat \<Rightarrow> u8 \<Rightarrow> u8 \<Rightarrow> u8 \<Rightarrow> u8 \<Rightarrow> u8 \<Rightarrow> u8 \<times> u8 \<times> u8 \<times> u8 \<times> u8" where
  "gen5_data gfgen m v i 0 p0 q0 r0 s0 t0 = (p0, q0, r0, s0, t0)"
| "gen5_data gfgen m v i (Suc d) p0 q0 r0 s0 t0 =
    (let d0 = v_8 m (v ! Suc d) i;
         p0 = p0 XOR d0;
         q0 = q0 XOR raid_gfmul d0 (raid_A gfgen 1 (Suc d));
         r0 = r0 XOR raid_gfmul d0 (raid_A gfgen 2 (Suc d));
         s0 = s0 XOR raid_gfmul d0 (raid_A gfgen 3 (Suc d));
         t0 = t0 XOR raid_gfmul d0 (raid_A gfgen 4 (Suc d))
     in gen5_data gfgen m v i d p0 q0 r0 s0 t0)"

definition raid_gen5_int8 :: "u8 list list \<Rightarrow> nat \<Rightarrow> nat \<Rightarrow> nat list \<Rightarrow> mem \<Rightarrow> mem option" where
  "raid_gen5_int8 gfgen nd sz v m = (if length v < nd + 5 \<or> \<not> gfgen_access gfgen 5 nd sz then None else
     (let l = nd - 1; p = v ! nd; q = v ! (nd + 1); r = v ! (nd + 2); s = v ! (nd + 3); t = v ! (nd + 4) in
      Some (for_step 1 0 sz (\<lambda>i m.
        let (p0, q0, r0, s0, t0) = gen5_data gfgen m v i l 0 0 0 0 0;
            d0 = v_8 m (v ! 0) i;
            p0 = p0 XOR d0; q0 = q0 XOR d0; r0 = r0 XOR d0; s0 = s0 XOR d0; t0 = t0 XOR d0;
            m = set_8 m p i p0; m = set_8 m q i q0; m = set_8 m r i r0; m = set_8 m s i s0; m = set_8 m t i t0
        in m) m)))"

primrec gen6_data :: "u8 list list \<Rightarrow> mem \<Rightarrow> nat list \<Rightarrow> nat \<Rightarrow> nat \<Rightarrow> u8 \<Rightarrow> u8 \<Rightarrow> u8 \<Rightarrow> u8 \<Rightarrow> u8 \<Rightarrow> u8 \<Rightarrow>
    u8 \<times> u8 \<times> u8 \<times> u8 \<times> u8 \<times> u8" where
  "gen6_data gfgen m v i 0 p0 q0 r0 s0 t0 u0 = (p0, q0, r0, s0, t0, u0)"
| "gen6_data gfgen m v i (Suc d) p0 q0 r0 s0 t0 u0 =
    (let d0 = v_8 m (v ! Suc d) i;
         p0 = p0 XOR d0;
         q0 = q0 XOR raid_gfmul d0 (raid_A gfgen 1 (Suc d));
         r0 = r0 XOR raid_gfmul d0 (raid_A gfgen 2 (Suc d));
         s0 = s0 XOR raid_gfmul d0 (raid_A gfgen 3 (Suc d));
         t0 = t0 XOR raid_gfmul d0 (raid_A gfgen 4 (Suc d));
         u0 = u0 XOR raid_gfmul d0 (raid_A gfgen 5 (Suc d))
     in gen6_data gfgen m v i d p0 q0 r0 s0 t0 u0)"

definition raid_gen6_int8 :: "u8 list list \<Rightarrow> nat \<Rightarrow> nat \<Rightarrow> nat list \<Rightarrow> mem \<Rightarrow> mem option" where
  "raid_gen6_int8 gfgen nd sz v m = (if length v < nd + 6 \<or> \<not> gfgen_access gfgen 6 nd sz then None else
     (let l = nd - 1; p = v ! nd; q = v ! (nd + 1); r = v ! (nd + 2); s = v ! (nd + 3); t = v ! (nd + 4); u = v ! (nd + 5) in
      Some (for_step 1 0 sz (\<lambda>i m.
        let (p0, q0, r0, s0, t0, u0) = gen6_data gfgen m v i l 0 0 0 0 0 0;
            d0 = v_8 m (v ! 0) i;
            p0 = p0 XOR d0; q0 = q0 XOR d0; r0 = r0 XOR d0; s0 = s0 XOR d0; t0 = t0 XOR d0; u0 = u0 XOR d0;
            m = set_8 m p i p0; m = set_8 m q i q0; m = set_8 m r i r0; m = set_8 m s i s0; m = set_8 m t i t0;
            m = set_8 m u i u0
        in m) m)))"

subsection \<open>The reference\<close>

text \<open>\<^verbatim>\<open>p[j] ^= gfmul[b][gfgen[j][d]]\<close> for every parity \<^verbatim>\<open>j\<close>.\<close>

primrec ref_data :: "u8 list list \<Rightarrow> mem \<Rightarrow> nat list \<Rightarrow> nat \<Rightarrow> nat \<Rightarrow> nat \<Rightarrow> u8 list \<Rightarrow> u8 list" where
  "ref_data gfgen m v i d 0 p = p"
| "ref_data gfgen m v i d (Suc n) p =
    (let b = m (v ! d) i in
     ref_data gfgen m v i (Suc d) n (map (\<lambda>j. p ! j XOR raid_gfmul b (raid_A gfgen j d)) [0..<length p]))"

primrec ref_store :: "nat \<Rightarrow> nat list \<Rightarrow> nat \<Rightarrow> u8 list \<Rightarrow> nat \<Rightarrow> mem \<Rightarrow> mem" where
  "ref_store nd v i p 0 m = m"
| "ref_store nd v i p (Suc j) m = set_8 (ref_store nd v i p j m) (v ! (nd + j)) i (p ! j)"

definition raid_gen_ref :: "u8 list list \<Rightarrow> nat \<Rightarrow> nat \<Rightarrow> nat \<Rightarrow> nat list \<Rightarrow> mem \<Rightarrow> mem option" where
  "raid_gen_ref gfgen nd np sz v m =
    (if 0 < sz \<and> (6 < np \<or> length v < nd + np \<or> 0 < nd \<and> 0 < np \<and> (length gfgen < np \<or> 256 < nd)) then None else
     Some (for_step 1 0 sz (\<lambda>i m. let p = ref_data gfgen m v i 0 nd (replicate np 0) in ref_store nd v i p np m) m))"

section \<open>The selection of the generators\<close>

datatype gen_fn = Gen_null | Raid_gen1_int32 | Raid_gen1_int64 | Raid_gen2_int32 | Raid_gen2_int64
  | Raid_genz_int32 | Raid_genz_int64 | Raid_gen3_int8 | Raid_gen4_int8 | Raid_gen5_int8 | Raid_gen6_int8

datatype rec_fn = Rec_null | Raid_rec1_int8 | Raid_rec2_int8 | Raid_recX_int8

record raid_state =
  raid_gen_ptr :: "gen_fn list"
  raid_gen3_ptr :: gen_fn
  raid_genz_ptr :: gen_fn
  raid_rec_ptr :: "rec_fn list"
  raid_gfgen :: "u8 list list"
  raid_zero_block :: nat

text \<open>The static variables before \<^verbatim>\<open>raid_init\<close>.\<close>

definition raid_static :: raid_state where
  "raid_static = \<lparr>raid_gen_ptr = replicate 6 Gen_null, raid_gen3_ptr = Gen_null, raid_genz_ptr = Gen_null,
     raid_rec_ptr = replicate 6 Rec_null, raid_gfgen = [], raid_zero_block = 0\<rparr>"

datatype raid_mode_id = RAID_MODE_CAUCHY | RAID_MODE_VANDERMONDE

definition raid_mode :: "raid_mode_id \<Rightarrow> raid_state \<Rightarrow> raid_state" where
  "raid_mode mode st = (if mode = RAID_MODE_VANDERMONDE
     then st\<lparr>raid_gen_ptr := (raid_gen_ptr st)[2 := raid_genz_ptr st], raid_gfgen := raid_gfvandermonde\<rparr>
     else st\<lparr>raid_gen_ptr := (raid_gen_ptr st)[2 := raid_gen3_ptr st], raid_gfgen := raid_gfcauchy\<rparr>)"

definition raid_zero :: "nat \<Rightarrow> raid_state \<Rightarrow> raid_state" where
  "raid_zero zero st = st\<lparr>raid_zero_block := zero\<rparr>"

text \<open>The selection of the portable routines; a build with \<^verbatim>\<open>CONFIG_X86\<close> then overwrites it with vector routines.\<close>

definition raid_init_int :: "nat \<Rightarrow> raid_state \<Rightarrow> raid_state" where
  "raid_init_int sizeof_ptr st =
    (let st = st\<lparr>raid_gen3_ptr := Raid_gen3_int8,
           raid_gen_ptr := (raid_gen_ptr st)[3 := Raid_gen4_int8, 4 := Raid_gen5_int8, 5 := Raid_gen6_int8]\<rparr>;
         st = (if sizeof_ptr = 4
           then st\<lparr>raid_gen_ptr := (raid_gen_ptr st)[0 := Raid_gen1_int32, 1 := Raid_gen2_int32], raid_genz_ptr := Raid_genz_int32\<rparr>
           else st\<lparr>raid_gen_ptr := (raid_gen_ptr st)[0 := Raid_gen1_int64, 1 := Raid_gen2_int64], raid_genz_ptr := Raid_genz_int64\<rparr>);
         st = st\<lparr>raid_rec_ptr := (raid_rec_ptr st)[0 := Raid_rec1_int8, 1 := Raid_rec2_int8, 2 := Raid_recX_int8,
           3 := Raid_recX_int8, 4 := Raid_recX_int8, 5 := Raid_recX_int8]\<rparr>
     in st)"

text \<open>The build without \<^verbatim>\<open>CONFIG_X86\<close>, which sets the default mode next.\<close>

definition raid_init :: "nat \<Rightarrow> raid_state \<Rightarrow> raid_state" where
  "raid_init sizeof_ptr st = raid_mode RAID_MODE_CAUCHY (raid_init_int sizeof_ptr st)"

fun raid_gen_call :: "gen_fn \<Rightarrow> u8 list list \<Rightarrow> nat \<Rightarrow> nat \<Rightarrow> nat list \<Rightarrow> mem \<Rightarrow> mem option" where
  "raid_gen_call Gen_null gfgen = (\<lambda>nd sz v m. None)"
| "raid_gen_call Raid_gen1_int32 gfgen = raid_gen1_int32"
| "raid_gen_call Raid_gen1_int64 gfgen = raid_gen1_int64"
| "raid_gen_call Raid_gen2_int32 gfgen = raid_gen2_int32"
| "raid_gen_call Raid_gen2_int64 gfgen = raid_gen2_int64"
| "raid_gen_call Raid_genz_int32 gfgen = raid_genz_int32"
| "raid_gen_call Raid_genz_int64 gfgen = raid_genz_int64"
| "raid_gen_call Raid_gen3_int8 gfgen = raid_gen3_int8 gfgen"
| "raid_gen_call Raid_gen4_int8 gfgen = raid_gen4_int8 gfgen"
| "raid_gen_call Raid_gen5_int8 gfgen = raid_gen5_int8 gfgen"
| "raid_gen_call Raid_gen6_int8 gfgen = raid_gen6_int8 gfgen"

definition raid_gen :: "raid_state \<Rightarrow> nat \<Rightarrow> nat \<Rightarrow> nat \<Rightarrow> nat list \<Rightarrow> mem \<Rightarrow> mem option" where
  "raid_gen st nd np sz v m =
    (if sz mod 64 \<noteq> 0 then None
     else if np < 1 then None
     else if np > 6 then None
     else raid_gen_call (raid_gen_ptr st ! (np - 1)) (raid_gfgen st) nd sz v m)"

section \<open>The specification\<close>

text \<open>The value of a parity at an offset, and the bytes left after the parities below a bound have been written in
  order: where several parities share a block, the last one stays.\<close>

definition par :: "u8 list list \<Rightarrow> nat \<Rightarrow> nat list \<Rightarrow> mem \<Rightarrow> nat \<Rightarrow> nat \<Rightarrow> gf" where
  "par G nd v m j b = (\<Sum>d<nd. gf_of (raid_A G j d) * gf_of (m (v ! d) b))"

primrec gen_at :: "u8 list list \<Rightarrow> nat \<Rightarrow> nat list \<Rightarrow> mem \<Rightarrow> nat \<Rightarrow> nat \<Rightarrow> nat \<Rightarrow> u8" where
  "gen_at G nd v m 0 a b = m a b"
| "gen_at G nd v m (Suc j) a b = (if a = v ! (nd + j) then byte_of (par G nd v m j b) else gen_at G nd v m j a b)"

definition gen_spec :: "u8 list list \<Rightarrow> nat \<Rightarrow> nat \<Rightarrow> nat \<Rightarrow> nat list \<Rightarrow> mem \<Rightarrow> mem" where
  "gen_spec G nd np sz v m = (\<lambda>a b. if b < sz then gen_at G nd v m np a b else m a b)"

lemma par_cong: "(\<And>a. m a b = m' a b) \<Longrightarrow> par G nd v m j b = par G nd v m' j b"
  by (simp add: par_def)

lemma gen_at_cong: "(\<And>a. m a b = m' a b) \<Longrightarrow> gen_at G nd v m np a b = gen_at G nd v m' np a b"
  by (induction np) (simp_all add: par_cong [of m b m'])

subsection \<open>Words in memory\<close>

lemma bit_v_word: "bit (v_word m a i :: 'a::len word) n \<longleftrightarrow> n < LENGTH('a) \<and> bit (m a (i + n div 8)) (n mod 8)"
  by (auto simp: v_word_def bit_horner_sum_bit_word_iff)

lemma byte_v_word [simp]:
  assumes "8 * Suc k \<le> LENGTH('a)"
  shows "byte k (v_word m a i :: 'a::len word) = m a (i + k)"
  by (rule bit_eqI) (use assms in \<open>simp add: bit_byte bit_v_word\<close>)

lemma set_word_apply:
  "set_word m a i (w :: 'a::len word) a' b = (if a' = a \<and> i \<le> b \<and> b < i + LENGTH('a) div 8 then byte (b - i) w else m a' b)"
  by (simp add: set_word_def)

lemma set_8_apply: "set_8 m a i w a' b = (if a' = a \<and> b = i then w else m a' b)"
  by (simp add: set_8_def)

lemma for_step_done: "sz \<le> i \<Longrightarrow> for_step step i sz body s = s"
  by (simp add: for_step.simps)

lemma for_step_step: "i < sz \<Longrightarrow> 0 < step \<Longrightarrow> for_step step i sz body s = for_step step (i + step) sz body (body i s)"
  by (simp add: for_step.simps [of step i])

lemma for_step_pointwise:
  assumes "0 < step" "\<And>i m a b. body i m a b = (if i \<le> b \<and> b < i + step then F m a b else m a b)"
    and F: "\<And>m m' a b. (\<And>a. m a b = m' a b) \<Longrightarrow> F m a b = F m' a b"
  shows "for_step step i (i + n * step) body m a b = (if i \<le> b \<and> b < i + n * step then F m a b else m a b)"
proof (induction n arbitrary: i m)
  case 0
  then show ?case by (auto simp: for_step_done)
next
  case (Suc n)
  have "for_step step i (i + Suc n * step) body m = for_step step (i + step) (i + step + n * step) body (body i m)"
    using assms(1) by (simp add: for_step_step algebra_simps)
  then have "for_step step i (i + Suc n * step) body m a b =
      (if i + step \<le> b \<and> b < i + step + n * step then F (body i m) a b else body i m a b)" using Suc.IH by simp
  moreover have "F (body i m) a b = F m a b" if "i + step \<le> b" using that by (intro F) (simp add: assms(2))
  ultimately show ?case using assms(2) [of i m a b] by auto
qed

text \<open>The memory after the parities below \<open>j\<close> of the offsets from \<open>i\<close> to \<open>i + n\<close> have been written.\<close>

definition written :: "u8 list list \<Rightarrow> nat \<Rightarrow> nat list \<Rightarrow> mem \<Rightarrow> nat \<Rightarrow> nat \<Rightarrow> nat \<Rightarrow> mem \<Rightarrow> bool" where
  "written G nd v m i n j M \<longleftrightarrow> (\<forall>a b. M a b = (if i \<le> b \<and> b < i + n then gen_at G nd v m j a b else m a b))"

lemma written_0: "written G nd v m i n 0 m"
  by (simp add: written_def)

lemma written_8:
  assumes "written G nd v m i 1 j M" "n = Suc j" "a = v ! (nd + j)" "x = byte_of (par G nd v m j i)"
  shows "written G nd v m i 1 n (set_8 M a i x)"
  using assms by (auto simp: written_def set_8_apply)

lemma written_word:
  fixes p0 p1 :: "'a::len word"
  assumes "written G nd v m i w j M" "w = 2 * n" "LENGTH('a) = 8 * n" "l = Suc j" "c = v ! (nd + j)"
    "\<And>k. k < n \<Longrightarrow> byte k p0 = byte_of (par G nd v m j (i + k))" "\<And>k. k < n \<Longrightarrow> byte k p1 = byte_of (par G nd v m j (i + n + k))"
  shows "written G nd v m i w l (set_word (set_word M c i p0) c (i + n) p1)"
  unfolding written_def
proof (intro allI)
  fix a b
  consider "i \<le> b" "b < i + n" | "i + n \<le> b" "b < i + 2 * n" | "\<not> (i \<le> b \<and> b < i + 2 * n)" by linarith
  then show "set_word (set_word M c i p0) c (i + n) p1 a b = (if i \<le> b \<and> b < i + w then gen_at G nd v m l a b else m a b)"
  proof cases
    case 1
    then show ?thesis using assms(1-5) assms(6) [of "b - i"] by (simp add: set_word_apply written_def)
  next
    case 2
    then show ?thesis using assms(1-5) assms(7) [of "b - (i + n)"] by (auto simp: set_word_apply written_def)
  next
    case 3
    then show ?thesis using assms(1-5) by (auto simp: set_word_apply written_def)
  qed
qed

lemma for_step_gen_spec:
  assumes "0 < step" "step dvd sz" "\<And>i m. written G nd v m i step np (body i m)"
  shows "for_step step 0 sz body m = gen_spec G nd np sz v m"
proof (intro ext)
  fix a b
  obtain n where n: "sz = n * step" using assms(2) by (metis dvdE mult.commute)
  have "for_step step 0 (0 + n * step) body m a b = (if 0 \<le> b \<and> b < 0 + n * step then gen_at G nd v m np a b else m a b)"
  proof (rule for_step_pointwise [where F = "\<lambda>m. gen_at G nd v m np"])
    show "0 < step" by (fact assms(1))
    show "body i m a b = (if i \<le> b \<and> b < i + step then gen_at G nd v m np a b else m a b)" for i m a b
      using assms(3) [of m i] by (simp add: written_def)
  qed (rule gen_at_cong)
  then show "for_step step 0 sz body m a b = gen_spec G nd np sz v m a b" by (simp add: n gen_spec_def)
qed

lemma byte_of_eqI: "gf_of x = y \<Longrightarrow> x = byte_of y"
  by (metis gf_of_inverse UNIV_I)

section \<open>The sums of the loops\<close>

lemma gen1_data_sum:
  assumes "gen1_data m v i i' n p0 p1 = (p0', p1')" "8 * Suc k \<le> LENGTH('a)"
  shows "gf_of (byte k (p0' :: 'a::len word)) = gf_of (byte k p0) + (\<Sum>d<n. gf_of (m (v ! d) (i + k)))"
    "gf_of (byte k p1') = gf_of (byte k p1) + (\<Sum>d<n. gf_of (m (v ! d) (i' + k)))"
  using assms(1) by (induction n arbitrary: p0 p1) (use assms(2) in \<open>simp_all add: algebra_simps\<close>)

lemma horner_step: "c ^ n * (c * q + x) = c ^ Suc n * q + c ^ n * (x :: gf)"
  by (simp add: algebra_simps)

lemma gen2_data_sum:
  assumes "gen2_data x2 m v i i' n p0 p1 q0 q1 = (p0', p1', q0', q1')" "8 * Suc k \<le> LENGTH('a)"
    and x2: "\<And>w. gf_of (byte k (x2 w)) = gtwo * gf_of (byte k w)"
  shows "gf_of (byte k (p0' :: 'a::len word)) = gf_of (byte k p0) + (\<Sum>d<n. gf_of (m (v ! d) (i + k)))"
    "gf_of (byte k p1') = gf_of (byte k p1) + (\<Sum>d<n. gf_of (m (v ! d) (i' + k)))"
    "gf_of (byte k q0') = gtwo ^ n * gf_of (byte k q0) + (\<Sum>d<n. gtwo ^ d * gf_of (m (v ! d) (i + k)))"
    "gf_of (byte k q1') = gtwo ^ n * gf_of (byte k q1) + (\<Sum>d<n. gtwo ^ d * gf_of (m (v ! d) (i' + k)))"
  using assms(1) by (induction n arbitrary: p0 p1 q0 q1) (use assms(2) in \<open>simp_all add: x2 Let_def algebra_simps\<close>)

lemma genz_data_sum:
  assumes "genz_data x2 d2 m v i i' n p0 p1 q0 q1 r0 r1 = (p0', p1', q0', q1', r0', r1')" "8 * Suc k \<le> LENGTH('a)"
    and x2: "\<And>w. gf_of (byte k (x2 w)) = gtwo * gf_of (byte k w)"
    and d2: "\<And>w. gf_of (byte k (d2 w)) = inverse gtwo * gf_of (byte k w)"
  shows "gf_of (byte k (p0' :: 'a::len word)) = gf_of (byte k p0) + (\<Sum>d<n. gf_of (m (v ! d) (i + k)))"
    "gf_of (byte k p1') = gf_of (byte k p1) + (\<Sum>d<n. gf_of (m (v ! d) (i' + k)))"
    "gf_of (byte k q0') = gtwo ^ n * gf_of (byte k q0) + (\<Sum>d<n. gtwo ^ d * gf_of (m (v ! d) (i + k)))"
    "gf_of (byte k q1') = gtwo ^ n * gf_of (byte k q1) + (\<Sum>d<n. gtwo ^ d * gf_of (m (v ! d) (i' + k)))"
    "gf_of (byte k r0') = inverse gtwo ^ n * gf_of (byte k r0) + (\<Sum>d<n. inverse gtwo ^ d * gf_of (m (v ! d) (i + k)))"
    "gf_of (byte k r1') = inverse gtwo ^ n * gf_of (byte k r1) + (\<Sum>d<n. inverse gtwo ^ d * gf_of (m (v ! d) (i' + k)))"
  using assms(1) by (induction n arbitrary: p0 p1 q0 q1 r0 r1) (use assms(2) in \<open>simp_all add: x2 d2 Let_def algebra_simps\<close>)

definition rest :: "u8 list list \<Rightarrow> mem \<Rightarrow> nat list \<Rightarrow> nat \<Rightarrow> nat \<Rightarrow> nat \<Rightarrow> gf" where
  "rest G m v i n j = (\<Sum>d<n. gf_of (raid_A G j (Suc d)) * gf_of (m (v ! Suc d) i))"

lemma rest_Suc: "rest G m v i (Suc n) j = rest G m v i n j + gf_of (m (v ! Suc n) i) * gf_of (raid_A G j (Suc n))"
  by (simp add: rest_def mult.commute)

lemma rest_0: "rest G m v i 0 j = 0"
  by (simp add: rest_def)

lemma par_rest:
  assumes "0 < nd" "raid_A G j 0 = 1"
  shows "par G nd v m j i = rest G m v i (nd - 1) j + gf_of (m (v ! 0) i)"
proof -
  obtain n where "nd = Suc n" using assms(1) by (cases nd) auto
  then show ?thesis unfolding par_def rest_def by (simp add: assms(2) sum.lessThan_Suc_shift del: sum.lessThan_Suc)
qed

lemma gen3_data_sum:
  assumes "gen3_data G m v i n p0 q0 r0 = (p0', q0', r0')" "\<And>d. d \<le> n \<Longrightarrow> raid_A G 0 d = 1"
  shows "gf_of p0' = gf_of p0 + rest G m v i n 0" "gf_of q0' = gf_of q0 + rest G m v i n 1" "gf_of r0' = gf_of r0 + rest G m v i n 2"
  using assms by (induction n arbitrary: p0 q0 r0) (simp_all add: rest_0 rest_Suc v_8_def Let_def algebra_simps)

lemma gen4_data_sum:
  assumes "gen4_data G m v i n p0 q0 r0 s0 = (p0', q0', r0', s0')" "\<And>d. d \<le> n \<Longrightarrow> raid_A G 0 d = 1"
  shows "gf_of p0' = gf_of p0 + rest G m v i n 0" "gf_of q0' = gf_of q0 + rest G m v i n 1" "gf_of r0' = gf_of r0 + rest G m v i n 2"
    "gf_of s0' = gf_of s0 + rest G m v i n 3"
  using assms by (induction n arbitrary: p0 q0 r0 s0) (simp_all add: rest_0 rest_Suc v_8_def Let_def algebra_simps)

lemma gen5_data_sum:
  assumes "gen5_data G m v i n p0 q0 r0 s0 t0 = (p0', q0', r0', s0', t0')" "\<And>d. d \<le> n \<Longrightarrow> raid_A G 0 d = 1"
  shows "gf_of p0' = gf_of p0 + rest G m v i n 0" "gf_of q0' = gf_of q0 + rest G m v i n 1" "gf_of r0' = gf_of r0 + rest G m v i n 2"
    "gf_of s0' = gf_of s0 + rest G m v i n 3" "gf_of t0' = gf_of t0 + rest G m v i n 4"
  using assms by (induction n arbitrary: p0 q0 r0 s0 t0) (simp_all add: rest_0 rest_Suc v_8_def Let_def algebra_simps)

lemma gen6_data_sum:
  assumes "gen6_data G m v i n p0 q0 r0 s0 t0 u0 = (p0', q0', r0', s0', t0', u0')" "\<And>d. d \<le> n \<Longrightarrow> raid_A G 0 d = 1"
  shows "gf_of p0' = gf_of p0 + rest G m v i n 0" "gf_of q0' = gf_of q0 + rest G m v i n 1" "gf_of r0' = gf_of r0 + rest G m v i n 2"
    "gf_of s0' = gf_of s0 + rest G m v i n 3" "gf_of t0' = gf_of t0 + rest G m v i n 4" "gf_of u0' = gf_of u0 + rest G m v i n 5"
  using assms by (induction n arbitrary: p0 q0 r0 s0 t0 u0) (simp_all add: rest_0 rest_Suc v_8_def Let_def algebra_simps)

section \<open>Every generator meets the specification\<close>

lemmas word_stores = set_32_def set_64_def v_32_def v_64_def set_word_apply

context mds_matrix
begin

lemma par_0:
  assumes "0 < np" "0 < nd" "nd \<le> 251"
  shows "par G nd v m 0 b = gf_of (m (v ! (nd - 1)) b) + (\<Sum>d<nd - 1. gf_of (m (v ! d) b))"
proof -
  obtain n where n: "nd = Suc n" using assms(2) by (cases nd) auto
  have "par G nd v m 0 b = (\<Sum>d<nd. gf_of (m (v ! d) b))"
    unfolding par_def by (rule sum.cong) (use first_row assms in auto)
  then show ?thesis by (simp add: n algebra_simps)
qed

lemma par_1:
  assumes "1 < np" "0 < nd" "nd \<le> 251"
  shows "par G nd v m 1 b = gtwo ^ (nd - 1) * gf_of (m (v ! (nd - 1)) b) + (\<Sum>d<nd - 1. gtwo ^ d * gf_of (m (v ! d) b))"
proof -
  obtain n where n: "nd = Suc n" using assms(2) by (cases nd) auto
  have "par G nd v m 1 b = (\<Sum>d<nd. gtwo ^ d * gf_of (m (v ! d) b))"
    unfolding par_def by (rule sum.cong) (use second_row assms in auto)
  then show ?thesis by (simp add: n algebra_simps)
qed

lemma gen1_data_par:
  fixes p0 p1 :: "'a::len word"
  assumes "gen1_data m v i i' (nd - 1) (v_word m (v ! (nd - 1)) i) (v_word m (v ! (nd - 1)) i') = (p0, p1)"
    "8 * Suc k \<le> LENGTH('a)" "0 < np" "0 < nd" "nd \<le> 251"
  shows "byte k p0 = byte_of (par G nd v m 0 (i + k))" "byte k p1 = byte_of (par G nd v m 0 (i' + k))"
  using gen1_data_sum [OF assms(1,2)] assms(2-) by (auto intro!: byte_of_eqI simp: par_0)

lemma gen2_data_par:
  fixes p0 p1 q0 q1 :: "'a::len word"
  assumes "gen2_data x2 m v i i' (nd - 1) (v_word m (v ! (nd - 1)) i) (v_word m (v ! (nd - 1)) i')
      (v_word m (v ! (nd - 1)) i) (v_word m (v ! (nd - 1)) i') = (p0, p1, q0, q1)"
    "8 * Suc k \<le> LENGTH('a)" "\<And>w. byte k (x2 w) = gf_x2 (byte k w)" "1 < np" "0 < nd" "nd \<le> 251"
  shows "byte k p0 = byte_of (par G nd v m 0 (i + k))" "byte k p1 = byte_of (par G nd v m 0 (i' + k))"
    "byte k q0 = byte_of (par G nd v m 1 (i + k))" "byte k q1 = byte_of (par G nd v m 1 (i' + k))"
proof -
  have x2: "gf_of (byte k (x2 w)) = gtwo * gf_of (byte k w)" for w by (simp add: assms(3))
  show "byte k p0 = byte_of (par G nd v m 0 (i + k))" "byte k p1 = byte_of (par G nd v m 0 (i' + k))"
    using gen2_data_sum(1,2) [OF assms(1,2) x2] assms(2,4-) by (auto intro!: byte_of_eqI simp: par_0)
  show "byte k q0 = byte_of (par G nd v m 1 (i + k))" "byte k q1 = byte_of (par G nd v m 1 (i' + k))"
    using gen2_data_sum(3,4) [OF assms(1,2) x2] assms(2,4-) par_1 by (auto intro!: byte_of_eqI)
qed

lemma gen1_int32_spec:
  assumes "0 < np" "0 < nd" "nd \<le> 251" "nd + 1 \<le> length v" "8 dvd sz"
  shows "raid_gen1_int32 nd sz v m = Some (gen_spec G nd 1 sz v m)"
proof -
  have 2: "written G nd v m i 8 1 (case gen1_data m v i (i + 4) (nd - 1) (v_32 m (v ! (nd - 1)) i) (v_32 m (v ! (nd - 1)) (i + 4)) of (p0, p1) \<Rightarrow>
      set_32 (set_32 m (v ! nd) i p0) (v ! nd) (i + 4) p1)" for m i
  proof -
    obtain p0 p1 where t: "gen1_data m v i (i + 4) (nd - 1) (v_32 m (v ! (nd - 1)) i) (v_32 m (v ! (nd - 1)) (i + 4)) = (p0, p1)" by (rule prod.exhaust)
    show ?thesis unfolding t prod.case set_32_def
      by (rule written_word [where j = 0, OF written_0])
        (use t assms in \<open>simp_all add: v_32_def gen1_data_par\<close>)
  qed
  show ?thesis using assms 2 unfolding raid_gen1_int32_def
    by (auto intro!: for_step_gen_spec simp: Let_def)
qed

lemma gen1_int64_spec:
  assumes "0 < np" "0 < nd" "nd \<le> 251" "nd + 1 \<le> length v" "16 dvd sz"
  shows "raid_gen1_int64 nd sz v m = Some (gen_spec G nd 1 sz v m)"
proof -
  have 2: "written G nd v m i 16 1 (case gen1_data m v i (i + 8) (nd - 1) (v_64 m (v ! (nd - 1)) i) (v_64 m (v ! (nd - 1)) (i + 8)) of (p0, p1) \<Rightarrow>
      set_64 (set_64 m (v ! nd) i p0) (v ! nd) (i + 8) p1)" for m i
  proof -
    obtain p0 p1 where t: "gen1_data m v i (i + 8) (nd - 1) (v_64 m (v ! (nd - 1)) i) (v_64 m (v ! (nd - 1)) (i + 8)) = (p0, p1)" by (rule prod.exhaust)
    show ?thesis unfolding t prod.case set_64_def
      by (rule written_word [where j = 0, OF written_0])
        (use t assms in \<open>simp_all add: v_64_def gen1_data_par\<close>)
  qed
  show ?thesis using assms 2 unfolding raid_gen1_int64_def
    by (auto intro!: for_step_gen_spec simp: Let_def)
qed

lemma gen2_int32_spec:
  assumes "1 < np" "0 < nd" "nd \<le> 251" "nd + 2 \<le> length v" "8 dvd sz"
  shows "raid_gen2_int32 nd sz v m = Some (gen_spec G nd 2 sz v m)"
proof -
  have 2: "written G nd v m i 8 2 (case gen2_data x2_32 m v i (i + 4) (nd - 1) (v_32 m (v ! (nd - 1)) i) (v_32 m (v ! (nd - 1)) (i + 4)) (v_32 m (v ! (nd - 1)) i) (v_32 m (v ! (nd - 1)) (i + 4)) of (p0, p1, q0, q1) \<Rightarrow>
      set_32 (set_32 (set_32 (set_32 m (v ! nd) i p0) (v ! nd) (i + 4) p1) (v ! (Suc nd)) i q0) (v ! (Suc nd)) (i + 4) q1)" for m i
  proof -
    obtain p0 p1 q0 q1 where t: "gen2_data x2_32 m v i (i + 4) (nd - 1) (v_32 m (v ! (nd - 1)) i) (v_32 m (v ! (nd - 1)) (i + 4)) (v_32 m (v ! (nd - 1)) i) (v_32 m (v ! (nd - 1)) (i + 4)) = (p0, p1, q0, q1)" by (rule prod_cases4)
    show ?thesis unfolding t prod.case set_32_def
      by (rule written_word [where j = 1, OF written_word [where j = 0, OF written_0]])
        (use t assms in \<open>simp_all add: v_32_def gen2_data_par byte_x2_32\<close>)
  qed
  show ?thesis using assms 2 unfolding raid_gen2_int32_def
    by (auto intro!: for_step_gen_spec simp: Let_def)
qed

lemma gen2_int64_spec:
  assumes "1 < np" "0 < nd" "nd \<le> 251" "nd + 2 \<le> length v" "16 dvd sz"
  shows "raid_gen2_int64 nd sz v m = Some (gen_spec G nd 2 sz v m)"
proof -
  have 2: "written G nd v m i 16 2 (case gen2_data x2_64 m v i (i + 8) (nd - 1) (v_64 m (v ! (nd - 1)) i) (v_64 m (v ! (nd - 1)) (i + 8)) (v_64 m (v ! (nd - 1)) i) (v_64 m (v ! (nd - 1)) (i + 8)) of (p0, p1, q0, q1) \<Rightarrow>
      set_64 (set_64 (set_64 (set_64 m (v ! nd) i p0) (v ! nd) (i + 8) p1) (v ! (Suc nd)) i q0) (v ! (Suc nd)) (i + 8) q1)" for m i
  proof -
    obtain p0 p1 q0 q1 where t: "gen2_data x2_64 m v i (i + 8) (nd - 1) (v_64 m (v ! (nd - 1)) i) (v_64 m (v ! (nd - 1)) (i + 8)) (v_64 m (v ! (nd - 1)) i) (v_64 m (v ! (nd - 1)) (i + 8)) = (p0, p1, q0, q1)" by (rule prod_cases4)
    show ?thesis unfolding t prod.case set_64_def
      by (rule written_word [where j = 1, OF written_word [where j = 0, OF written_0]])
        (use t assms in \<open>simp_all add: v_64_def gen2_data_par byte_x2_64\<close>)
  qed
  show ?thesis using assms 2 unfolding raid_gen2_int64_def
    by (auto intro!: for_step_gen_spec simp: Let_def)
qed

lemma gen_rest:
  assumes "j < np" "0 < nd"
  shows "byte_of (rest G m v i (nd - 1) j + gf_of (m (v ! 0) i)) = byte_of (par G nd v m j i)"
  using assms first_column by (simp add: par_rest)

lemma gen3_int8_spec:
  assumes "3 \<le> np" "0 < nd" "nd \<le> 251" "nd + 3 \<le> length v" "3 \<le> length G"
  shows "raid_gen3_int8 G nd sz v m = Some (gen_spec G nd 3 sz v m)"
proof -
  have 1: "p0 XOR m (v ! 0) i = byte_of (par G nd v m 0 i) \<and> q0 XOR m (v ! 0) i = byte_of (par G nd v m 1 i) \<and>
      r0 XOR m (v ! 0) i = byte_of (par G nd v m 2 i)"
    if "gen3_data G m v i (nd - 1) 0 0 0 = (p0, q0, r0)" for m i p0 q0 r0
    using gen3_data_sum [OF that first_row] assms by (auto intro!: byte_of_eqI simp: par_rest first_column)
  have 2: "written G nd v m i 1 3 (case gen3_data G m v i (nd - 1) 0 0 0 of (p0, q0, r0) \<Rightarrow>
      set_8 (set_8 (set_8 m (v ! nd) i (p0 XOR v_8 m (v ! 0) i)) (v ! (Suc nd)) i (q0 XOR v_8 m (v ! 0) i)) (v ! (nd + 2)) i (r0 XOR v_8 m (v ! 0) i))" for m i
  proof -
    obtain p0 q0 r0 where t: "gen3_data G m v i (nd - 1) 0 0 0 = (p0, q0, r0)" by (rule prod_cases3)
    show ?thesis unfolding t prod.case
      by (rule written_8 [where j = 2, OF written_8 [where j = 1, OF written_8 [where j = 0, OF written_0]]]) (use 1 [OF t] in \<open>simp_all add: v_8_def\<close>)
  qed
  show ?thesis using assms 2 unfolding raid_gen3_int8_def
    by (auto intro!: for_step_gen_spec simp: gfgen_access_def Let_def)
qed

lemma gen4_int8_spec:
  assumes "4 \<le> np" "0 < nd" "nd \<le> 251" "nd + 4 \<le> length v" "4 \<le> length G"
  shows "raid_gen4_int8 G nd sz v m = Some (gen_spec G nd 4 sz v m)"
proof -
  have 1: "p0 XOR m (v ! 0) i = byte_of (par G nd v m 0 i) \<and> q0 XOR m (v ! 0) i = byte_of (par G nd v m 1 i) \<and>
      r0 XOR m (v ! 0) i = byte_of (par G nd v m 2 i) \<and> s0 XOR m (v ! 0) i = byte_of (par G nd v m 3 i)"
    if "gen4_data G m v i (nd - 1) 0 0 0 0 = (p0, q0, r0, s0)" for m i p0 q0 r0 s0
    using gen4_data_sum [OF that first_row] assms by (auto intro!: byte_of_eqI simp: par_rest first_column)
  have 2: "written G nd v m i 1 4 (case gen4_data G m v i (nd - 1) 0 0 0 0 of (p0, q0, r0, s0) \<Rightarrow>
      set_8 (set_8 (set_8 (set_8 m (v ! nd) i (p0 XOR v_8 m (v ! 0) i)) (v ! (Suc nd)) i (q0 XOR v_8 m (v ! 0) i)) (v ! (nd + 2)) i (r0 XOR v_8 m (v ! 0) i)) (v ! (nd + 3)) i (s0 XOR v_8 m (v ! 0) i))" for m i
  proof -
    obtain p0 q0 r0 s0 where t: "gen4_data G m v i (nd - 1) 0 0 0 0 = (p0, q0, r0, s0)" by (rule prod_cases4)
    show ?thesis unfolding t prod.case
      by (rule written_8 [where j = 3, OF written_8 [where j = 2, OF written_8 [where j = 1, OF written_8 [where j = 0, OF written_0]]]]) (use 1 [OF t] in \<open>simp_all add: v_8_def\<close>)
  qed
  show ?thesis using assms 2 unfolding raid_gen4_int8_def
    by (auto intro!: for_step_gen_spec simp: gfgen_access_def Let_def)
qed

lemma gen5_int8_spec:
  assumes "5 \<le> np" "0 < nd" "nd \<le> 251" "nd + 5 \<le> length v" "5 \<le> length G"
  shows "raid_gen5_int8 G nd sz v m = Some (gen_spec G nd 5 sz v m)"
proof -
  have 1: "p0 XOR m (v ! 0) i = byte_of (par G nd v m 0 i) \<and> q0 XOR m (v ! 0) i = byte_of (par G nd v m 1 i) \<and>
      r0 XOR m (v ! 0) i = byte_of (par G nd v m 2 i) \<and> s0 XOR m (v ! 0) i = byte_of (par G nd v m 3 i) \<and>
      t0 XOR m (v ! 0) i = byte_of (par G nd v m 4 i)"
    if "gen5_data G m v i (nd - 1) 0 0 0 0 0 = (p0, q0, r0, s0, t0)" for m i p0 q0 r0 s0 t0
    using gen5_data_sum [OF that first_row] assms by (auto intro!: byte_of_eqI simp: par_rest first_column)
  have 2: "written G nd v m i 1 5 (case gen5_data G m v i (nd - 1) 0 0 0 0 0 of (p0, q0, r0, s0, t0) \<Rightarrow>
      set_8 (set_8 (set_8 (set_8 (set_8 m (v ! nd) i (p0 XOR v_8 m (v ! 0) i)) (v ! (Suc nd)) i (q0 XOR v_8 m (v ! 0) i)) (v ! (nd + 2)) i (r0 XOR v_8 m (v ! 0) i)) (v ! (nd + 3)) i (s0 XOR v_8 m (v ! 0) i)) (v ! (nd + 4)) i (t0 XOR v_8 m (v ! 0) i))" for m i
  proof -
    obtain p0 q0 r0 s0 t0 where t: "gen5_data G m v i (nd - 1) 0 0 0 0 0 = (p0, q0, r0, s0, t0)" by (rule prod_cases5)
    show ?thesis unfolding t prod.case
      by (rule written_8 [where j = 4, OF written_8 [where j = 3, OF written_8 [where j = 2, OF written_8 [where j = 1, OF written_8 [where j = 0, OF written_0]]]]]) (use 1 [OF t] in \<open>simp_all add: v_8_def\<close>)
  qed
  show ?thesis using assms 2 unfolding raid_gen5_int8_def
    by (auto intro!: for_step_gen_spec simp: gfgen_access_def Let_def)
qed

lemma gen6_int8_spec:
  assumes "6 \<le> np" "0 < nd" "nd \<le> 251" "nd + 6 \<le> length v" "6 \<le> length G"
  shows "raid_gen6_int8 G nd sz v m = Some (gen_spec G nd 6 sz v m)"
proof -
  have 1: "p0 XOR m (v ! 0) i = byte_of (par G nd v m 0 i) \<and> q0 XOR m (v ! 0) i = byte_of (par G nd v m 1 i) \<and>
      r0 XOR m (v ! 0) i = byte_of (par G nd v m 2 i) \<and> s0 XOR m (v ! 0) i = byte_of (par G nd v m 3 i) \<and>
      t0 XOR m (v ! 0) i = byte_of (par G nd v m 4 i) \<and> u0 XOR m (v ! 0) i = byte_of (par G nd v m 5 i)"
    if "gen6_data G m v i (nd - 1) 0 0 0 0 0 0 = (p0, q0, r0, s0, t0, u0)" for m i p0 q0 r0 s0 t0 u0
    using gen6_data_sum [OF that first_row] assms by (auto intro!: byte_of_eqI simp: par_rest first_column)
  have 2: "written G nd v m i 1 6 (case gen6_data G m v i (nd - 1) 0 0 0 0 0 0 of (p0, q0, r0, s0, t0, u0) \<Rightarrow>
      set_8 (set_8 (set_8 (set_8 (set_8 (set_8 m (v ! nd) i (p0 XOR v_8 m (v ! 0) i)) (v ! (Suc nd)) i (q0 XOR v_8 m (v ! 0) i)) (v ! (nd + 2)) i (r0 XOR v_8 m (v ! 0) i)) (v ! (nd + 3)) i (s0 XOR v_8 m (v ! 0) i)) (v ! (nd + 4)) i (t0 XOR v_8 m (v ! 0) i)) (v ! (nd + 5)) i (u0 XOR v_8 m (v ! 0) i))" for m i
  proof -
    obtain p0 q0 r0 s0 t0 u0 where t: "gen6_data G m v i (nd - 1) 0 0 0 0 0 0 = (p0, q0, r0, s0, t0, u0)" by (rule prod_cases6)
    show ?thesis unfolding t prod.case
      by (rule written_8 [where j = 5, OF written_8 [where j = 4, OF written_8 [where j = 3, OF written_8 [where j = 2, OF written_8 [where j = 1, OF written_8 [where j = 0, OF written_0]]]]]]) (use 1 [OF t] in \<open>simp_all add: v_8_def\<close>)
  qed
  show ?thesis using assms 2 unfolding raid_gen6_int8_def
    by (auto intro!: for_step_gen_spec simp: gfgen_access_def Let_def)
qed

end

subsection \<open>The power matrix\<close>

lemma par_2_vandermonde:
  assumes "0 < nd" "nd \<le> 251"
  shows "par raid_gfvandermonde nd v m 2 b = inverse gtwo ^ (nd - 1) * gf_of (m (v ! (nd - 1)) b) +
    (\<Sum>d<nd - 1. inverse gtwo ^ d * gf_of (m (v ! d) b))"
proof -
  obtain n where n: "nd = Suc n" using assms(1) by (cases nd) auto
  have "par raid_gfvandermonde nd v m 2 b = (\<Sum>d<nd. inverse gtwo ^ d * gf_of (m (v ! d) b))"
    unfolding par_def by (rule sum.cong) (use gfvandermonde_entry(3) assms in \<open>auto simp: power_inverse\<close>)
  then show ?thesis by (simp add: n algebra_simps)
qed

lemma genz_data_par:
  fixes p0 p1 q0 q1 r0 r1 :: "'a::len word"
  assumes "genz_data x2 d2 m v i i' (nd - 1) (v_word m (v ! (nd - 1)) i) (v_word m (v ! (nd - 1)) i')
      (v_word m (v ! (nd - 1)) i) (v_word m (v ! (nd - 1)) i') (v_word m (v ! (nd - 1)) i) (v_word m (v ! (nd - 1)) i') =
      (p0, p1, q0, q1, r0, r1)"
    "8 * Suc k \<le> LENGTH('a)" "\<And>w. byte k (x2 w) = gf_x2 (byte k w)" "\<And>w. byte k (d2 w) = gf_d2 (byte k w)"
    and nd: "0 < nd" "nd \<le> 251"
  shows "byte k p0 = byte_of (par raid_gfvandermonde nd v m 0 (i + k))" "byte k p1 = byte_of (par raid_gfvandermonde nd v m 0 (i' + k))"
    "byte k q0 = byte_of (par raid_gfvandermonde nd v m 1 (i + k))" "byte k q1 = byte_of (par raid_gfvandermonde nd v m 1 (i' + k))"
    "byte k r0 = byte_of (par raid_gfvandermonde nd v m 2 (i + k))" "byte k r1 = byte_of (par raid_gfvandermonde nd v m 2 (i' + k))"
proof -
  have x2: "gf_of (byte k (x2 w)) = gtwo * gf_of (byte k w)" for w by (simp add: assms(3))
  have d2: "gf_of (byte k (d2 w)) = inverse gtwo * gf_of (byte k w)" for w by (simp add: assms(4))
  note s = genz_data_sum [OF assms(1,2) x2 d2]
  have w: "byte k (v_word m (v ! (nd - 1)) j :: 'a word) = m (v ! (nd - 1)) (j + k)" for j using assms(2) by simp
  show "byte k p0 = byte_of (par raid_gfvandermonde nd v m 0 (i + k))" "byte k p1 = byte_of (par raid_gfvandermonde nd v m 0 (i' + k))"
    using s(1,2) unfolding w by (simp_all add: byte_of_eqI vandermonde.par_0 nd)
  show "byte k q0 = byte_of (par raid_gfvandermonde nd v m 1 (i + k))" "byte k q1 = byte_of (par raid_gfvandermonde nd v m 1 (i' + k))"
    using s(3,4) vandermonde.par_1 [OF _ nd] unfolding w by (simp_all add: byte_of_eqI)
  show "byte k r0 = byte_of (par raid_gfvandermonde nd v m 2 (i + k))" "byte k r1 = byte_of (par raid_gfvandermonde nd v m 2 (i' + k))"
    using s(5,6) unfolding w by (simp_all add: byte_of_eqI par_2_vandermonde nd)
qed

lemma genz_int32_spec:
  assumes "0 < nd" "nd \<le> 251" "nd + 3 \<le> length v" "8 dvd sz"
  shows "raid_genz_int32 nd sz v m = Some (gen_spec raid_gfvandermonde nd 3 sz v m)"
proof -
  have 2: "written raid_gfvandermonde nd v m i 8 3 (case genz_data x2_32 d2_32 m v i (i + 4) (nd - 1) (v_32 m (v ! (nd - 1)) i) (v_32 m (v ! (nd - 1)) (i + 4)) (v_32 m (v ! (nd - 1)) i) (v_32 m (v ! (nd - 1)) (i + 4)) (v_32 m (v ! (nd - 1)) i) (v_32 m (v ! (nd - 1)) (i + 4)) of (p0, p1, q0, q1, r0, r1) \<Rightarrow>
      set_32 (set_32 (set_32 (set_32 (set_32 (set_32 m (v ! nd) i p0) (v ! nd) (i + 4) p1) (v ! (Suc nd)) i q0) (v ! (Suc nd)) (i + 4) q1) (v ! (nd + 2)) i r0) (v ! (nd + 2)) (i + 4) r1)" for m i
  proof -
    obtain p0 p1 q0 q1 r0 r1 where t: "genz_data x2_32 d2_32 m v i (i + 4) (nd - 1) (v_32 m (v ! (nd - 1)) i) (v_32 m (v ! (nd - 1)) (i + 4)) (v_32 m (v ! (nd - 1)) i) (v_32 m (v ! (nd - 1)) (i + 4)) (v_32 m (v ! (nd - 1)) i) (v_32 m (v ! (nd - 1)) (i + 4)) = (p0, p1, q0, q1, r0, r1)" by (rule prod_cases6)
    show ?thesis unfolding t prod.case set_32_def
      by (rule written_word [where j = 2, OF written_word [where j = 1, OF written_word [where j = 0, OF written_0]]])
        (use t assms in \<open>simp_all add: v_32_def genz_data_par byte_x2_32 byte_d2_32\<close>)
  qed
  show ?thesis using assms 2 unfolding raid_genz_int32_def
    by (auto intro!: for_step_gen_spec simp: Let_def)
qed

lemma genz_int64_spec:
  assumes "0 < nd" "nd \<le> 251" "nd + 3 \<le> length v" "16 dvd sz"
  shows "raid_genz_int64 nd sz v m = Some (gen_spec raid_gfvandermonde nd 3 sz v m)"
proof -
  have 2: "written raid_gfvandermonde nd v m i 16 3 (case genz_data x2_64 d2_64 m v i (i + 8) (nd - 1) (v_64 m (v ! (nd - 1)) i) (v_64 m (v ! (nd - 1)) (i + 8)) (v_64 m (v ! (nd - 1)) i) (v_64 m (v ! (nd - 1)) (i + 8)) (v_64 m (v ! (nd - 1)) i) (v_64 m (v ! (nd - 1)) (i + 8)) of (p0, p1, q0, q1, r0, r1) \<Rightarrow>
      set_64 (set_64 (set_64 (set_64 (set_64 (set_64 m (v ! nd) i p0) (v ! nd) (i + 8) p1) (v ! (Suc nd)) i q0) (v ! (Suc nd)) (i + 8) q1) (v ! (nd + 2)) i r0) (v ! (nd + 2)) (i + 8) r1)" for m i
  proof -
    obtain p0 p1 q0 q1 r0 r1 where t: "genz_data x2_64 d2_64 m v i (i + 8) (nd - 1) (v_64 m (v ! (nd - 1)) i) (v_64 m (v ! (nd - 1)) (i + 8)) (v_64 m (v ! (nd - 1)) i) (v_64 m (v ! (nd - 1)) (i + 8)) (v_64 m (v ! (nd - 1)) i) (v_64 m (v ! (nd - 1)) (i + 8)) = (p0, p1, q0, q1, r0, r1)" by (rule prod_cases6)
    show ?thesis unfolding t prod.case set_64_def
      by (rule written_word [where j = 2, OF written_word [where j = 1, OF written_word [where j = 0, OF written_0]]])
        (use t assms in \<open>simp_all add: v_64_def genz_data_par byte_x2_64 byte_d2_64\<close>)
  qed
  show ?thesis using assms 2 unfolding raid_genz_int64_def
    by (auto intro!: for_step_gen_spec simp: Let_def)
qed

section \<open>The reference generator\<close>

lemma length_ref_data [simp]: "length (ref_data G m v i d n p) = length p"
  by (induction n arbitrary: d p) (simp_all add: Let_def)

lemma ref_data_sum:
  assumes "j < length p"
  shows "gf_of (ref_data G m v i d n p ! j) = gf_of (p ! j) + (\<Sum>e<n. gf_of (raid_A G j (d + e)) * gf_of (m (v ! (d + e)) i))"
  using assms
proof (induction n arbitrary: d p)
  case (Suc n)
  then show ?case by (simp add: Let_def sum.lessThan_Suc_shift mult.commute add.assoc del: sum.lessThan_Suc)
qed simp

lemma ref_store_written:
  assumes "\<And>k. k < j \<Longrightarrow> p ! k = byte_of (par G nd v m k i)"
  shows "written G nd v m i 1 j (ref_store nd v i p j m)"
  using assms
proof (induction j)
  case (Suc j)
  then show ?case using written_8 [of G nd v m i j "ref_store nd v i p j m"] by simp
qed (simp add: written_0)

lemma raid_gen_ref_spec:
  assumes "np \<le> 6" "nd + np \<le> length v" "np \<le> length G" "nd \<le> 251"
  shows "raid_gen_ref G nd np sz v m = Some (gen_spec G nd np sz v m)"
proof -
  have "written G nd v m i 1 np (ref_store nd v i (ref_data G m v i 0 nd (replicate np 0)) np m)" for m i
    by (rule ref_store_written) (simp add: byte_of_eqI ref_data_sum par_def)
  then show ?thesis using assms unfolding raid_gen_ref_def by (auto intro!: for_step_gen_spec simp: Let_def)
qed

section \<open>The configurations and the entry point\<close>

text \<open>What the calls of \<^verbatim>\<open>raid_init\<close>, \<^verbatim>\<open>raid_mode\<close> and \<^verbatim>\<open>raid_zero\<close> can leave in the static variables.\<close>

inductive raid_config :: "raid_state \<Rightarrow> bool" where
  "raid_config (raid_init sizeof_ptr raid_static)"
| "raid_config st \<Longrightarrow> raid_config (raid_init sizeof_ptr st)"
| "raid_config st \<Longrightarrow> raid_config (raid_mode mode st)"
| "raid_config st \<Longrightarrow> raid_config (raid_zero zero st)"

definition raid_selected :: "raid_state \<Rightarrow> bool" where
  "raid_selected st \<longleftrightarrow> (\<exists>g1 g2 gz g3.
     (g1, g2, gz) \<in> {(Raid_gen1_int32, Raid_gen2_int32, Raid_genz_int32), (Raid_gen1_int64, Raid_gen2_int64, Raid_genz_int64)} \<and>
     (g3, raid_gfgen st) \<in> {(Raid_gen3_int8, raid_gfcauchy), (gz, raid_gfvandermonde)} \<and>
     raid_gen_ptr st = [g1, g2, g3, Raid_gen4_int8, Raid_gen5_int8, Raid_gen6_int8] \<and>
     raid_gen3_ptr st = Raid_gen3_int8 \<and> raid_genz_ptr st = gz \<and>
     raid_rec_ptr st = [Raid_rec1_int8, Raid_rec2_int8, Raid_recX_int8, Raid_recX_int8, Raid_recX_int8, Raid_recX_int8])"

lemma raid_init_selected: "length (raid_gen_ptr st) = 6 \<Longrightarrow> length (raid_rec_ptr st) = 6 \<Longrightarrow> raid_selected (raid_init p st)"
  by (auto simp: raid_selected_def raid_init_def raid_init_int_def raid_mode_def Let_def length_Suc_conv eval_nat_numeral)

lemma raid_config_selected: "raid_config st \<Longrightarrow> raid_selected st"
proof (induction rule: raid_config.induct)
  case (1 p)
  then show ?case by (rule raid_init_selected) (simp_all add: raid_static_def)
next
  case (2 st p)
  then show ?case by (intro raid_init_selected) (auto simp: raid_selected_def)
next
  case (3 st mode)
  then show ?case by (auto simp: raid_selected_def raid_mode_def numeral_2_eq_2)
next
  case (4 st zero)
  then show ?case by (auto simp: raid_selected_def raid_zero_def)
qed

lemma length_matrices: "length raid_gfcauchy = 6" "length raid_gfvandermonde = 3"
  by (simp_all add: raid_gfcauchy_def raid_gfvandermonde_def)

lemma raid_config_mds: "raid_config st \<Longrightarrow> mds_matrix (raid_gfgen st) (length (raid_gfgen st))"
  using raid_config_selected [of st] cauchy.mds_matrix_axioms vandermonde.mds_matrix_axioms
  by (auto simp: raid_selected_def length_matrices)

lemma raid_gen_spec:
  assumes "raid_config st" "sz mod 64 = 0" "0 < np" "np \<le> length (raid_gfgen st)" "0 < nd" "nd \<le> 251" "nd + np \<le> length v"
  shows "raid_gen st nd np sz v m = Some (gen_spec (raid_gfgen st) nd np sz v m)"
proof -
  have d: "8 dvd sz" "16 dvd sz" using assms(2) by presburger+
  have np: "np \<le> 6" using assms(4) raid_config_selected [OF assms(1)] by (auto simp: raid_selected_def length_matrices)
  have "np = 1 \<or> np = 2 \<or> np = 3 \<or> np = 4 \<or> np = 5 \<or> np = 6" using assms(3) np by linarith
  note mds = mds_matrix.gen1_int32_spec [OF raid_config_mds [OF assms(1)]] mds_matrix.gen1_int64_spec [OF raid_config_mds [OF assms(1)]]
    mds_matrix.gen2_int32_spec [OF raid_config_mds [OF assms(1)]] mds_matrix.gen2_int64_spec [OF raid_config_mds [OF assms(1)]]
    cauchy.gen3_int8_spec cauchy.gen4_int8_spec cauchy.gen5_int8_spec cauchy.gen6_int8_spec genz_int32_spec genz_int64_spec
  from \<open>np = 1 \<or> _\<close> show ?thesis
    using raid_config_selected [OF assms(1)] assms(2-) d
    by (elim disjE) (auto simp: raid_gen_def raid_selected_def mds length_matrices nth_Cons')
qed

section \<open>Properties\<close>

text \<open>C35. After \<^verbatim>\<open>raid_init\<close>, whatever the later calls of \<^verbatim>\<open>raid_mode\<close> and \<^verbatim>\<open>raid_zero\<close>, the tables of functions are complete and
  the third generator belongs to the generator matrix in use.\<close>

theorem raid_selection_matches:
  assumes "raid_config st"
  shows "raid_selected st \<and> mds_matrix (raid_gfgen st) (length (raid_gfgen st))"
  using raid_config_selected [OF assms] raid_config_mds [OF assms] by simp

theorem raid_selection_matches_witness:
  "raid_selected (raid_mode RAID_MODE_VANDERMONDE (raid_init 4 raid_static)) \<and>
   mds_matrix (raid_gfgen (raid_mode RAID_MODE_VANDERMONDE (raid_init 4 raid_static)))
     (length (raid_gfgen (raid_mode RAID_MODE_VANDERMONDE (raid_init 4 raid_static))))"
  by (rule raid_selection_matches) (intro raid_config.intros)

text \<open>C2. In every configuration \<^verbatim>\<open>raid_gen\<close>, that is the word-parallel or the byte-wise generator it selects, gives exactly the
  memory of the reference generator, and does not fail, for up to 251 data blocks and as many parities as the matrix has rows;
  a block may stand at several places of the vector, then the parity written last stays (blocks that overlap in part are not
  expressible in the model of memory).\<close>

theorem raid_gen_matches_reference:
  assumes "raid_config st" "sz mod 64 = 0" "0 < np" "np \<le> length (raid_gfgen st)" "0 < nd" "nd \<le> 251" "nd + np \<le> length v"
  shows "raid_gen st nd np sz v m \<noteq> None \<and> raid_gen st nd np sz v m = raid_gen_ref (raid_gfgen st) nd np sz v m"
proof -
  have "np \<le> 6" using assms(4) raid_config_selected [OF assms(1)] by (auto simp: raid_selected_def length_matrices)
  then show ?thesis using raid_gen_spec [OF assms] raid_gen_ref_spec [of np nd v "raid_gfgen st" sz m] assms by simp
qed

theorem raid_gen_matches_reference_witness:
  "raid_gen (raid_init 8 raid_static) 3 2 64 [7, 8, 9, 20, 8] (\<lambda>a b. of_nat (a * b)) \<noteq> None \<and>
   raid_gen (raid_init 8 raid_static) 3 2 64 [7, 8, 9, 20, 8] (\<lambda>a b. of_nat (a * b)) =
     raid_gen_ref (raid_gfgen (raid_init 8 raid_static)) 3 2 64 [7, 8, 9, 20, 8] (\<lambda>a b. of_nat (a * b))"
proof (rule raid_gen_matches_reference)
  show "raid_config (raid_init 8 raid_static)" by (rule raid_config.intros)
  show "2 \<le> length (raid_gfgen (raid_init 8 raid_static))"
    by (simp add: raid_init_def raid_init_int_def raid_mode_def Let_def length_matrices)
qed simp_all

end
