(* ===== verification/Raid_Rec.thy ===== *)
theory Raid_Rec
  imports Raid_Gen "HOL-Library.Monad_Syntax"
begin

unbundle bit_operations_syntax

text \<open>
  The recovery of the RAID library: \<^verbatim>\<open>raid_delta_gen\<close>, which computes the parities of the surviving data into the
  buffers of the lost data by exchanging pointers, the recovery routines for one, two and more data blocks
  (\<^verbatim>\<open>raid/int.c\<close>, \<^verbatim>\<open>raid/raid.c\<close>), and the entry points \<^verbatim>\<open>raid_rec\<close> and \<^verbatim>\<open>raid_data\<close>.  The routines change the
  vector of pointers while they run; it is part of their result.

  The main results: with any blocks lost, at most as many as there are parities, and the others intact, every
  block has its original content after \<^verbatim>\<open>raid_rec\<close>, and every lost data block after \<^verbatim>\<open>raid_data\<close>.
\<close>

section \<open>Definitions\<close>

subsection \<open>The parities of the surviving data\<close>

primrec delta_setup :: "nat \<Rightarrow> nat \<Rightarrow> nat \<Rightarrow> nat list \<Rightarrow> nat list \<Rightarrow> nat \<Rightarrow> nat \<Rightarrow> nat \<Rightarrow> nat \<Rightarrow> nat list \<Rightarrow> nat list \<Rightarrow> nat list \<Rightarrow>
    (nat \<times> nat list \<times> nat list \<times> nat list) option" where
  "delta_setup zero latest nr ids ips nd 0 i j p pa v = Some (j, p, pa, v)"
| "delta_setup zero latest nr ids ips nd (Suc n) i j p pa v =
    (if 6 \<le> i \<or> length v \<le> nd + i \<or> length ips \<le> j then None else
     let p = p @ [v ! (nd + i)] in
     if ips ! j = i then
       if j \<ge> nr then None
       else if length ids \<le> j \<or> length v \<le> ids ! j then None
       else
         let pa = pa @ [v ! (ids ! j)];
             v = v[ids ! j := zero];
             v = v[nd + i := pa ! j]
         in delta_setup zero latest nr ids ips nd n (i + 1) (j + 1) p pa v
     else
       let v = v[nd + i := latest]
       in delta_setup zero latest nr ids ips nd n (i + 1) j p pa v)"

definition raid_delta_gen :: "raid_state \<Rightarrow> nat \<Rightarrow> nat list \<Rightarrow> nat list \<Rightarrow> nat \<Rightarrow> nat \<Rightarrow> nat list \<Rightarrow> mem \<Rightarrow> (nat list \<times> mem) option" where
  "raid_delta_gen st nr ids ips nd sz v m =
    (if nr = 0 \<or> length ids < nr \<or> length ips < nr \<or> length v \<le> ids ! (nr - 1) then None else
     let np = ips ! (nr - 1) + 1; latest = v ! (ids ! (nr - 1)) in
     case delta_setup (raid_zero_block st) latest nr ids ips nd np 0 0 [] [] v of
       None \<Rightarrow> None
     | Some (j, p, pa, v) \<Rightarrow>
       if j \<noteq> nr then None else
       case raid_gen st nd np sz v m of
         None \<Rightarrow> None
       | Some m \<Rightarrow>
         let v = fold (\<lambda>j v. v[ids ! j := pa ! j]) [0..<nr] v;
             v = fold (\<lambda>i v. v[nd + i := p ! i]) [0..<np] v
         in Some (v, m))"

subsection \<open>The recovery of data\<close>

definition raid_rec1of1 :: "raid_state \<Rightarrow> nat list \<Rightarrow> nat \<Rightarrow> nat \<Rightarrow> nat list \<Rightarrow> mem \<Rightarrow> (nat list \<times> mem) option" where
  "raid_rec1of1 st ids nd sz v m =
    (if length ids < 1 \<or> length v \<le> nd \<or> length v \<le> ids ! 0 then None else
     let p = v ! nd; pa = v ! (ids ! 0);
         v = v[ids ! 0 := p];
         v = v[nd := pa] in
     case raid_gen st nd 1 sz v m of
       None \<Rightarrow> None
     | Some m \<Rightarrow>
       let v = v[ids ! 0 := pa];
           v = v[nd := p]
       in Some (v, m))"

definition raid_rec2of2_int8 :: "raid_state \<Rightarrow> nat list \<Rightarrow> nat list \<Rightarrow> nat \<Rightarrow> nat \<Rightarrow> nat list \<Rightarrow> mem \<Rightarrow> (nat list \<times> mem) option" where
  "raid_rec2of2_int8 st ids ips nd sz v m =
    (if length ids < 2 then None else do {
     e \<leftarrow> pow2 (int (ids ! 1) - int (ids ! 0));
     t0 \<leftarrow> raid_inv (e XOR 1);
     e0 \<leftarrow> pow2 (int (ids ! 0));
     e1 \<leftarrow> pow2 (int (ids ! 1));
     t1 \<leftarrow> raid_inv (e0 XOR e1);
     (v, m) \<leftarrow> raid_delta_gen st 2 ids ips nd sz v m;
     let p = v ! nd; q = v ! (nd + 1); pa = v ! (ids ! 0); qa = v ! (ids ! 1) in
     Some (v, for_step 1 0 sz (\<lambda>i m.
       let Pd = m p i XOR m pa i;
           Qd = m q i XOR m qa i;
           Dy = raid_gfmul t0 Pd XOR raid_gfmul t1 Qd;
           Dx = Pd XOR Dy;
           m = set_8 m pa i Dx;
           m = set_8 m qa i Dy
       in m) m)})"

text \<open>The accesses \<^verbatim>\<open>A(ip[j], id[k])\<close> stay inside the matrix.\<close>

definition A_access :: "u8 list list \<Rightarrow> nat \<Rightarrow> nat list \<Rightarrow> nat list \<Rightarrow> bool" where
  "A_access gfgen nr ids ips \<longleftrightarrow> nr \<le> length ids \<and> nr \<le> length ips \<and> (\<forall>j<nr. ips ! j < length gfgen \<and> ids ! j < 256)"

definition raid_rec1_int8 :: "raid_state \<Rightarrow> nat \<Rightarrow> nat list \<Rightarrow> nat list \<Rightarrow> nat \<Rightarrow> nat \<Rightarrow> nat list \<Rightarrow> mem \<Rightarrow> (nat list \<times> mem) option" where
  "raid_rec1_int8 st nr ids ips nd sz v m =
    (if length ips < 1 then None
     else if ips ! 0 = 0 then raid_rec1of1 st ids nd sz v m
     else if \<not> A_access (raid_gfgen st) 1 ids ips then None
     else do {
       let G = raid_A (raid_gfgen st) (ips ! 0) (ids ! 0);
       V \<leftarrow> raid_inv G;
       (v, m) \<leftarrow> raid_delta_gen st 1 ids ips nd sz v m;
       let p = v ! (nd + ips ! 0); pa = v ! (ids ! 0) in
       Some (v, for_step 1 0 sz (\<lambda>i m.
         let Pd = m p i XOR m pa i
         in set_8 m pa i (raid_gfmul V Pd)) m)})"

definition raid_rec2_int8 :: "raid_state \<Rightarrow> nat \<Rightarrow> nat list \<Rightarrow> nat list \<Rightarrow> nat \<Rightarrow> nat \<Rightarrow> nat list \<Rightarrow> mem \<Rightarrow> (nat list \<times> mem) option" where
  "raid_rec2_int8 st nr ids ips nd sz v m =
    (if length ips < 2 then None
     else if ips ! 0 = 0 \<and> ips ! 1 = 1 then raid_rec2of2_int8 st ids ips nd sz v m
     else if \<not> A_access (raid_gfgen st) 2 ids ips then None
     else do {
       V \<leftarrow> raid_invert (\<lambda>j k. raid_A (raid_gfgen st) (ips ! j) (ids ! k)) 2;
       (v, m) \<leftarrow> raid_delta_gen st 2 ids ips nd sz v m;
       let p = v ! (nd + ips ! 0); q = v ! (nd + ips ! 1); pa = v ! (ids ! 0); qa = v ! (ids ! 1) in
       Some (v, for_step 1 0 sz (\<lambda>i m.
         let Pd = m p i XOR m pa i;
             Qd = m q i XOR m qa i;
             m = set_8 m pa i (raid_gfmul (V 0 0) Pd XOR raid_gfmul (V 0 1) Qd);
             m = set_8 m qa i (raid_gfmul (V 1 0) Pd XOR raid_gfmul (V 1 1) Qd)
         in m) m)})"

primrec recX_sum :: "(nat \<Rightarrow> nat \<Rightarrow> u8) \<Rightarrow> (nat \<Rightarrow> u8) \<Rightarrow> nat \<Rightarrow> nat \<Rightarrow> u8" where
  "recX_sum V PD j 0 = 0"
| "recX_sum V PD j (Suc k) = recX_sum V PD j k XOR raid_gfmul (V j k) (PD k)"

primrec recX_store :: "(nat \<Rightarrow> nat \<Rightarrow> u8) \<Rightarrow> (nat \<Rightarrow> u8) \<Rightarrow> nat \<Rightarrow> nat list \<Rightarrow> nat \<Rightarrow> nat \<Rightarrow> mem \<Rightarrow> mem" where
  "recX_store V PD nr pa i 0 m = m"
| "recX_store V PD nr pa i (Suc j) m = set_8 (recX_store V PD nr pa i j m) (pa ! j) i (recX_sum V PD j nr)"

definition raid_recX_int8 :: "raid_state \<Rightarrow> nat \<Rightarrow> nat list \<Rightarrow> nat list \<Rightarrow> nat \<Rightarrow> nat \<Rightarrow> nat list \<Rightarrow> mem \<Rightarrow> (nat list \<times> mem) option" where
  "raid_recX_int8 st nr ids ips nd sz v m =
    (if 6 < nr \<or> \<not> A_access (raid_gfgen st) nr ids ips then None
     else do {
       V \<leftarrow> raid_invert (\<lambda>j k. raid_A (raid_gfgen st) (ips ! j) (ids ! k)) nr;
       (v, m) \<leftarrow> raid_delta_gen st nr ids ips nd sz v m;
       let p = map (\<lambda>j. v ! (nd + ips ! j)) [0..<nr]; pa = map (\<lambda>j. v ! (ids ! j)) [0..<nr] in
       Some (v, for_step 1 0 sz (\<lambda>i m.
         let PD = (\<lambda>j. m (p ! j) i XOR m (pa ! j) i)
         in recX_store V PD nr pa i nr m) m)})"

fun raid_rec_call :: "rec_fn \<Rightarrow> raid_state \<Rightarrow> nat \<Rightarrow> nat list \<Rightarrow> nat list \<Rightarrow> nat \<Rightarrow> nat \<Rightarrow> nat list \<Rightarrow> mem \<Rightarrow> (nat list \<times> mem) option" where
  "raid_rec_call Rec_null = (\<lambda>st nr ids ips nd sz v m. None)"
| "raid_rec_call Raid_rec1_int8 = raid_rec1_int8"
| "raid_rec_call Raid_rec2_int8 = raid_rec2_int8"
| "raid_rec_call Raid_recX_int8 = raid_recX_int8"

subsection \<open>The entry points\<close>

text \<open>\<^verbatim>\<open>while (nrd < nr && ir[nrd] < nd) ++nrd;\<close>\<close>

function count_data :: "nat \<Rightarrow> nat list \<Rightarrow> nat \<Rightarrow> nat \<Rightarrow> nat" where
  "count_data nr ir nd nrd = (if nrd < nr \<and> ir ! nrd < nd then count_data nr ir nd (nrd + 1) else nrd)"
  by pat_completeness auto
termination
  by (relation "measure (\<lambda>(nr, ir, nd, nrd). nr - nrd)") auto

declare count_data.simps [simp del]

text \<open>The parities that have not failed, in order; \<open>j\<close> runs over the failed parities of \<open>ir\<close> from \<open>first\<close>.\<close>

primrec good_parities :: "nat \<Rightarrow> nat list \<Rightarrow> nat \<Rightarrow> nat \<Rightarrow> nat \<Rightarrow> nat \<Rightarrow> nat \<Rightarrow> nat list \<Rightarrow> nat list" where
  "good_parities nrp ir first nd 0 i j ip = ip"
| "good_parities nrp ir first nd (Suc n) i j ip =
    (if j < nrp \<and> ir ! (first + j) = nd + i then good_parities nrp ir first nd n (i + 1) (j + 1) ip
     else good_parities nrp ir first nd n (i + 1) j (ip @ [i]))"

text \<open>\<^verbatim>\<open>BUG_ON(nr >= 2 && ir[0] >= ir[1])\<close> and the four that follow it; they look at the first six entries only.\<close>

definition index_order_bug :: "nat \<Rightarrow> nat list \<Rightarrow> bool" where
  "index_order_bug nr ir \<longleftrightarrow>
    nr \<ge> 2 \<and> ir ! 0 \<ge> ir ! 1 \<or> nr \<ge> 3 \<and> ir ! 1 \<ge> ir ! 2 \<or> nr \<ge> 4 \<and> ir ! 2 \<ge> ir ! 3 \<or>
    nr \<ge> 5 \<and> ir ! 3 \<ge> ir ! 4 \<or> nr \<ge> 6 \<and> ir ! 4 \<ge> ir ! 5"

definition raid_rec :: "raid_state \<Rightarrow> nat \<Rightarrow> nat list \<Rightarrow> nat \<Rightarrow> nat \<Rightarrow> nat \<Rightarrow> nat list \<Rightarrow> mem \<Rightarrow> (nat list \<times> mem) option" where
  "raid_rec st nr ir nd np sz v m =
    (if sz mod 64 \<noteq> 0 then None
     else if nr > np then None
     else if np > 6 then None
     else if length ir < nr then None
     else if index_order_bug nr ir then None
     else if nr > 0 \<and> ir ! (nr - 1) \<ge> nd + np then None
     else
       let nrd = count_data nr ir nd 0; nrp = nr - nrd in
       if nrd > nd then None
       else if nrp > np then None
       else do {
         (v, m) \<leftarrow> (if nrd \<noteq> 0
           then let ip = good_parities nrp ir nrd nd np 0 0 [] in
             raid_rec_call (raid_rec_ptr st ! (nrd - 1)) st nrd ir ip nd sz v m
           else Some (v, m));
         m \<leftarrow> (if nrp \<noteq> 0 then raid_gen st nd (ir ! (nr - 1) - nd + 1) sz v m else Some m);
         Some (v, m)})"

definition raid_data :: "raid_state \<Rightarrow> nat \<Rightarrow> nat list \<Rightarrow> nat list \<Rightarrow> nat \<Rightarrow> nat \<Rightarrow> nat list \<Rightarrow> mem \<Rightarrow> (nat list \<times> mem) option" where
  "raid_data st nr ids ips nd sz v m =
    (if sz mod 64 \<noteq> 0 then None
     else if nr > nd then None
     else if nr > 6 then None
     else if length ids < nr \<or> length ips < nr then None
     else if index_order_bug nr ids then None
     else if nr > 0 \<and> ids ! (nr - 1) \<ge> nd then None
     else if index_order_bug nr ips then None
     else if nr \<noteq> 0 then raid_rec_call (raid_rec_ptr st ! (nr - 1)) st nr ids ips nd sz v m
     else Some (v, m))"

section \<open>The parities of the surviving data\<close>

text \<open>What the callers of the recovery routines guarantee.\<close>

definition rec_pre :: "raid_state \<Rightarrow> nat \<Rightarrow> nat list \<Rightarrow> nat list \<Rightarrow> nat \<Rightarrow> nat \<Rightarrow> nat list \<Rightarrow> mem \<Rightarrow> bool" where
  "rec_pre st nr ids ips nd sz v m \<longleftrightarrow>
    raid_config st \<and> sz mod 64 = 0 \<and> 0 < nr \<and> nr \<le> length ids \<and> nr \<le> length ips \<and> nd \<le> 251 \<and>
    (\<forall>k l. k < l \<longrightarrow> l < nr \<longrightarrow> ids ! k < ids ! l \<and> ips ! k < ips ! l) \<and> ids ! (nr - 1) < nd \<and>
    ips ! (nr - 1) < length (raid_gfgen st) \<and> nd + ips ! (nr - 1) < length v \<and> distinct v \<and> raid_zero_block st \<notin> set v \<and>
    (\<forall>b < sz. m (raid_zero_block st) b = 0)"

definition delta_inv :: "nat \<Rightarrow> nat \<Rightarrow> nat list \<Rightarrow> nat list \<Rightarrow> nat \<Rightarrow> nat list \<Rightarrow> nat \<Rightarrow> nat \<Rightarrow> nat list \<Rightarrow> nat list \<Rightarrow> nat list \<Rightarrow> bool" where
  "delta_inv zero nr ids ips nd v i j p pa w \<longleftrightarrow>
    length w = length v \<and> (\<forall>x<nd. x \<notin> (!) ids ` {..<j} \<longrightarrow> w ! x = v ! x) \<and> (\<forall>k<j. w ! (ids ! k) = zero) \<and>
    (\<forall>k<j. w ! (nd + ips ! k) = v ! (ids ! k)) \<and>
    (\<forall>l<i. l \<notin> (!) ips ` {..<j} \<longrightarrow> w ! (nd + l) = v ! (ids ! (nr - 1))) \<and>
    (\<forall>x. nd + i \<le> x \<longrightarrow> x < length v \<longrightarrow> w ! x = v ! x) \<and>
    p = map (\<lambda>l. v ! (nd + l)) [0..<i] \<and> pa = map (\<lambda>k. v ! (ids ! k)) [0..<j] \<and> j \<le> nr \<and> (\<forall>k<nr. ips ! k < i \<longleftrightarrow> k < j)"

lemma rec_preD:
  assumes "rec_pre st nr ids ips nd sz v m"
  shows "k < nr \<Longrightarrow> ids ! k < nd" "k < nr \<Longrightarrow> ips ! k \<le> ips ! (nr - 1)" "inj_on ((!) ids) {..<nr}" "inj_on ((!) ips) {..<nr}"
    "ips ! (nr - 1) < 6" "0 < nd"
proof -
  have mono: "ids ! k < ids ! l \<and> ips ! k < ips ! l" if "k < l" "l < nr" for k l using assms that by (simp add: rec_pre_def)
  have last: "ids ! (nr - 1) < nd" "0 < nr" using assms by (simp_all add: rec_pre_def)
  show "ids ! k < nd" "ips ! k \<le> ips ! (nr - 1)" if "k < nr" using mono [of k "nr - 1"] that last by (cases "k = nr - 1"; force)+
  show "inj_on ((!) ids) {..<nr}" "inj_on ((!) ips) {..<nr}"
    by (rule inj_onI; metis mono lessThan_iff linorder_neqE_nat less_irrefl)+
  have "length (raid_gfgen st) \<le> 6" using raid_config_selected [of st] assms
    by (auto simp: rec_pre_def raid_selected_def length_matrices)
  then show "ips ! (nr - 1) < 6" using assms by (simp add: rec_pre_def)
  show "0 < nd" using last by simp
qed

lemma delta_inv_init: "delta_inv zero nr ids ips nd v 0 0 [] [] v"
  by (simp add: delta_inv_def)

lemma delta_inv_used:
  assumes pre: "rec_pre st nr ids ips nd sz v m" and inv: "delta_inv zero nr ids ips nd v i j p pa w" and j: "j < nr" "ips ! j = i"
  shows "delta_inv zero nr ids ips nd v (i + 1) (j + 1) (p @ [w ! (nd + i)]) (pa @ [w ! (ids ! j)])
    (w[ids ! j := zero, nd + i := (pa @ [w ! (ids ! j)]) ! j])"
proof -
  note d = rec_preD [OF pre]
  have ij: "ids ! j < nd" "ids ! j \<noteq> nd + i" "nd + i < length v" "ids ! j < length v"
    using d(1,2) [OF j(1)] pre j by (simp_all add: rec_pre_def)
  have old: "ids ! k \<noteq> ids ! j" "ips ! k \<noteq> i" "ids ! k < nd" "nd + i \<noteq> ids ! k" if "k < j" for k
    using d(3,4) that j d(1) [of k] by (auto simp: inj_on_def)
  have "ids ! j \<notin> (!) ids ` {..<j}" using old(1) by (metis imageE lessThan_iff)
  then have wj: "w ! (ids ! j) = v ! (ids ! j)" "length pa = j" using inv ij(1) by (simp_all add: delta_inv_def)
  then have pj: "(pa @ [w ! (ids ! j)]) ! j = v ! (ids ! j)" by (simp add: nth_append)
  have nx: "ips ! k < i + 1 \<longleftrightarrow> k < j + 1" if "k < nr" for k
  proof -
    have "ips ! k < i \<longleftrightarrow> k < j" using inv that by (simp add: delta_inv_def)
    moreover have "ips ! k = i \<longleftrightarrow> k = j" using d(4) that j by (auto simp: inj_on_def)
    ultimately show ?thesis by linarith
  qed
  define w' where "w' = w[ids ! j := zero, nd + i := v ! (ids ! j)]"
  have len: "length w = length v" using inv by (simp add: delta_inv_def)
  have w': "w' ! x = (if x = nd + i then v ! (ids ! j) else if x = ids ! j then zero else w ! x)" for x
    using ij len by (simp add: w'_def nth_list_update)
  have o: "\<forall>x<nd. x \<notin> (!) ids ` {..<j} \<longrightarrow> w ! x = v ! x" "\<forall>k<j. w ! (ids ! k) = zero" "\<forall>k<j. w ! (nd + ips ! k) = v ! (ids ! k)"
    "\<forall>l<i. l \<notin> (!) ips ` {..<j} \<longrightarrow> w ! (nd + l) = v ! (ids ! (nr - 1))" "\<forall>x. nd + i \<le> x \<longrightarrow> x < length v \<longrightarrow> w ! x = v ! x"
    "p = map (\<lambda>l. v ! (nd + l)) [0..<i]" "pa = map (\<lambda>k. v ! (ids ! k)) [0..<j]"
    using inv unfolding delta_inv_def by blast+
  have "w' ! (ids ! k) = zero" "w' ! (nd + ips ! k) = v ! (ids ! k)" if "k < j + 1" for k
    using o(2,3) old [of k] ij(1,2) j(2) that by (cases "k = j"; simp add: w')+
  then have "\<forall>k<j + 1. w' ! (ids ! k) = zero" "\<forall>k<j + 1. w' ! (nd + ips ! k) = v ! (ids ! k)" by blast+
  moreover have "\<forall>l<i + 1. l \<notin> (!) ips ` {..<j + 1} \<longrightarrow> w' ! (nd + l) = v ! (ids ! (nr - 1))"
    using o(4) ij(1) j(2) by (auto simp: w' lessThan_Suc)
  moreover have "\<forall>x<nd. x \<notin> (!) ids ` {..<j + 1} \<longrightarrow> w' ! x = v ! x" "\<forall>x. nd + (i + 1) \<le> x \<longrightarrow> x < length v \<longrightarrow> w' ! x = v ! x"
    using o(1,5) ij(1) by (simp_all add: w' lessThan_Suc)
  ultimately show ?thesis
    using o nx j len ij(3) wj(1) unfolding pj delta_inv_def w'_def [symmetric] by (simp add: w'_def)
qed

lemma delta_inv_unused:
  assumes pre: "rec_pre st nr ids ips nd sz v m" and inv: "delta_inv zero nr ids ips nd v i j p pa w" and j: "j < nr" "ips ! j \<noteq> i" "i < ips ! j"
    and i: "nd + i < length v"
  shows "delta_inv zero nr ids ips nd v (i + 1) j (p @ [w ! (nd + i)]) pa (w[nd + i := v ! (ids ! (nr - 1))])"
proof -
  note d = rec_preD [OF pre]
  have lt: "ips ! k < i \<longleftrightarrow> k < j" if "k < nr" for k using inv that by (simp add: delta_inv_def)
  have old: "ips ! k \<noteq> i" "ids ! k < nd" "nd + i \<noteq> ids ! k" if "k < j" for k
    using lt [of k] d(1) [of k] that j by simp_all
  have nx: "ips ! k < i + 1 \<longleftrightarrow> k < j" if "k < nr" for k
  proof -
    have "ips ! k < i \<longleftrightarrow> k < j" using inv that by (simp add: delta_inv_def)
    moreover have "ips ! k \<noteq> i"
    proof
      assume "ips ! k = i"
      then have "\<not> k < j" using old by blast
      then have "ips ! j \<le> ips ! k" using pre that by (cases "j = k") (auto simp: rec_pre_def intro: less_imp_le)
      then show False using \<open>ips ! k = i\<close> j by simp
    qed
    ultimately show ?thesis by linarith
  qed
  show ?thesis unfolding delta_inv_def
    using inv [unfolded delta_inv_def] old nx i j
    by (auto simp: nth_list_update less_Suc_eq image_iff)
qed

lemma delta_setup_spec:
  assumes pre: "rec_pre st nr ids ips nd sz v m" and inv: "delta_inv zero nr ids ips nd v i j p pa w"
    and n: "i + n = ips ! (nr - 1) + 1"
  shows "\<exists>p' pa' w'. delta_setup zero (v ! (ids ! (nr - 1))) nr ids ips nd n i j p pa w = Some (nr, p', pa', w') \<and>
    delta_inv zero nr ids ips nd v (ips ! (nr - 1) + 1) nr p' pa' w'"
  using inv n
proof (induction n arbitrary: i j p pa w)
  case 0
  have "nr - 1 < nr" using pre by (simp add: rec_pre_def)
  then have "nr - 1 < j" using 0 by (auto simp: delta_inv_def)
  then have "j = nr" using 0 by (auto simp: delta_inv_def)
  then show ?case using 0 by simp
next
  case (Suc n)
  note d = rec_preD [OF pre]
  have np: "nr - 1 < nr" using pre by (simp add: rec_pre_def)
  then have "\<not> nr - 1 < j" using Suc.prems by (auto simp: delta_inv_def)
  then have j: "j < nr" using np by linarith
  then have "i \<le> ips ! j" using Suc.prems(1) by (auto simp: delta_inv_def not_less)
  have "nd + ips ! (nr - 1) < length v" using pre by (simp add: rec_pre_def)
  then have b: "\<not> (6 \<le> i \<or> length w \<le> nd + i \<or> length ips \<le> j)" "nd + i < length v" "\<not> (length ids \<le> j \<or> length w \<le> ids ! j)"
    using Suc.prems d(5) d(1) [OF j] j pre by (auto simp: delta_inv_def rec_pre_def)
  show ?case
  proof (cases "ips ! j = i")
    case True
    from Suc.IH [OF delta_inv_used [OF pre Suc.prems(1) j True]] Suc.prems(2) show ?thesis
      using b True j by (simp add: Let_def)
  next
    case False
    from Suc.IH [OF delta_inv_unused [OF pre Suc.prems(1) j False _ b(2)]] Suc.prems(2) show ?thesis
      using b False j \<open>i \<le> ips ! j\<close> by (simp add: Let_def)
  qed
qed

lemma length_fold_update [simp]: "length (fold (\<lambda>j w. w[f j := g j]) ks w) = length w"
  by (induction ks arbitrary: w) simp_all

lemma fold_update_nth:
  assumes "\<And>k. k < n \<Longrightarrow> g k = v ! (f k)" "x < length w"
  shows "fold (\<lambda>j w. w[f j := g j]) [0..<n] w ! x = (if x \<in> f ` {..<n} then v ! x else w ! x)"
  using assms
proof (induction n)
  case (Suc n)
  then show ?case by (cases "f n = x") (auto simp: lessThan_Suc)
qed simp

lemma gen_at_last:
  assumes "j < np" "w ! (nd + j) = a" "\<And>l. j < l \<Longrightarrow> l < np \<Longrightarrow> w ! (nd + l) \<noteq> a"
  shows "gen_at G nd w m np a b = byte_of (par G nd w m j b)"
  using assms
proof (induction np)
  case (Suc np)
  show ?case
  proof (cases "j = np")
    case False
    then have "j < np" using Suc.prems(1) by simp
    then have "w ! (nd + np) \<noteq> a" "gen_at G nd w m np a b = byte_of (par G nd w m j b)"
      using Suc.IH Suc.prems(2) Suc.prems(3) [of np] Suc.prems(3) by auto
    then show ?thesis by auto
  qed (use Suc.prems(2) in simp)
qed simp

lemma gen_at_none: "(\<And>l. l < np \<Longrightarrow> w ! (nd + l) \<noteq> a) \<Longrightarrow> gen_at G nd w m np a b = m a b"
  by (induction np) (auto simp: less_Suc_eq)

text \<open>The parity of the data blocks outside a set.\<close>

definition par_without :: "u8 list list \<Rightarrow> nat set \<Rightarrow> nat \<Rightarrow> nat list \<Rightarrow> mem \<Rightarrow> nat \<Rightarrow> nat \<Rightarrow> gf" where
  "par_without G F nd v m i b = (\<Sum>d\<in>{..<nd} - F. gf_of (raid_A G i d) * gf_of (m (v ! d) b))"

lemma par_zeroed:
  assumes "F \<subseteq> {..<nd}" "\<And>d. d \<in> F \<Longrightarrow> m (w ! d) b = 0" "\<And>d. d < nd \<Longrightarrow> d \<notin> F \<Longrightarrow> w ! d = v ! d"
  shows "par G nd w m i b = par_without G F nd v m i b"
proof -
  have "par G nd w m i b = (\<Sum>d\<in>{..<nd} - F. gf_of (raid_A G i d) * gf_of (m (w ! d) b))"
    unfolding par_def using assms(1,2) by (intro sum.mono_neutral_right) auto
  also have "\<dots> = par_without G F nd v m i b"
    unfolding par_without_def by (rule sum.cong) (use assms(3) in auto)
  finally show ?thesis .
qed

lemma raid_delta_gen_spec:
  assumes pre: "rec_pre st nr ids ips nd sz v m"
  shows "\<exists>m'. raid_delta_gen st nr ids ips nd sz v m = Some (v, m') \<and>
    (\<forall>k<nr. \<forall>b < sz. gf_of (m' (v ! (ids ! k)) b) = par_without (raid_gfgen st) ((!) ids ` {..<nr}) nd v m (ips ! k) b) \<and>
    (\<forall>a b. b < sz \<and> (\<exists>k<nr. a = v ! (ids ! k)) \<or> m' a b = m a b)"
proof -
  note d = rec_preD [OF pre]
  let ?np = "ips ! (nr - 1) + 1" and ?z = "raid_zero_block st" and ?F = "(!) ids ` {..<nr}" and ?G = "raid_gfgen st"
  obtain p pa w where s: "delta_setup ?z (v ! (ids ! (nr - 1))) nr ids ips nd ?np 0 0 [] [] v = Some (nr, p, pa, w)"
    and inv: "delta_inv ?z nr ids ips nd v ?np nr p pa w"
    using delta_setup_spec [OF pre delta_inv_init, of ?np ?z] by auto
  have pre': "raid_config st" "sz mod 64 = 0" "0 < nr" "nr \<le> length ids" "nr \<le> length ips" "nd \<le> 251" "?np \<le> length ?G"
    "nd + ?np \<le> length v" "distinct v" "?z \<notin> set v" "\<And>b. b < sz \<Longrightarrow> m ?z b = 0"
    using pre by (simp_all add: rec_pre_def)
  have w: "length w = length v" "\<And>x. x < nd \<Longrightarrow> x \<notin> ?F \<Longrightarrow> w ! x = v ! x" "\<And>k. k < nr \<Longrightarrow> w ! (ids ! k) = ?z"
    "\<And>k. k < nr \<Longrightarrow> w ! (nd + ips ! k) = v ! (ids ! k)"
    "\<And>l. l < ?np \<Longrightarrow> l \<notin> (!) ips ` {..<nr} \<Longrightarrow> w ! (nd + l) = v ! (ids ! (nr - 1))"
    "\<And>x. nd + ?np \<le> x \<Longrightarrow> x < length v \<Longrightarrow> w ! x = v ! x"
    "p = map (\<lambda>l. v ! (nd + l)) [0..<?np]" "pa = map (\<lambda>k. v ! (ids ! k)) [0..<nr]"
    using inv unfolding delta_inv_def by blast+
  define m' where "m' = gen_spec ?G nd ?np sz w m"
  have g: "raid_gen st nd ?np sz w m = Some m'"
    unfolding m'_def using pre' d(6) w(1) by (intro raid_gen_spec) simp_all
  let ?w1 = "fold (\<lambda>j v. v[ids ! j := pa ! j]) [0..<nr] w"
  have w1: "?w1 ! x = (if x \<in> ?F then v ! x else w ! x)" if "x < length v" for x
    using that w(1) by (intro fold_update_nth) (simp_all add: w(8))
  have "fold (\<lambda>i v. v[nd + i := p ! i]) [0..<?np] ?w1 = v"
  proof (rule nth_equalityI)
    fix x
    assume x: "x < length (fold (\<lambda>i v. v[nd + i := p ! i]) [0..<?np] ?w1)"
    then have "fold (\<lambda>i v. v[nd + i := p ! i]) [0..<?np] ?w1 ! x = (if x \<in> (+) nd ` {..<?np} then v ! x else ?w1 ! x)"
      by (intro fold_update_nth) (simp_all add: w(7) del: upt_Suc)
    moreover have "?w1 ! x = v ! x" if "x \<notin> (+) nd ` {..<?np}"
    proof -
      have "x = nd + (x - nd) \<and> x - nd < ?np" if "nd \<le> x" "x < nd + ?np" using that by linarith
      then have "\<not> (nd \<le> x \<and> x < nd + ?np)" using that by (metis image_eqI lessThan_iff)
      then show ?thesis using w1 [of x] w(2,6) [of x] x w(1) by (cases "x < nd") auto
    qed
    ultimately show "fold (\<lambda>i v. v[nd + i := p ! i]) [0..<?np] ?w1 ! x = v ! x" by simp
  qed (simp add: w(1))
  moreover have "ids ! (nr - 1) < length v" using d(1) [of "nr - 1"] pre' by simp
  ultimately have r: "raid_delta_gen st nr ids ips nd sz v m = Some (v, m')"
    unfolding raid_delta_gen_def using pre' s g by (simp add: Let_def del: upt_Suc)
  show ?thesis
  proof (rule exI [of _ m'], intro conjI allI impI)
    show "raid_delta_gen st nr ids ips nd sz v m = Some (v, m')" by (fact r)
  next
    fix k b
    assume k: "k < nr" and b: "b < sz"
    have "gen_at ?G nd w m ?np (v ! (ids ! k)) b = byte_of (par ?G nd w m (ips ! k) b)"
    proof (rule gen_at_last)
      fix l
      assume l: "ips ! k < l" "l < ?np"
      have kk: "ids ! k' < length v" if "k' < nr" for k' using d(1) [OF that] pre'(8) by simp
      show "w ! (nd + l) \<noteq> v ! (ids ! k)"
      proof (cases "l \<in> (!) ips ` {..<nr}")
        case True
        then obtain k' where k': "k' < nr" "l = ips ! k'" by auto
        then have "k' \<noteq> k" using l(1) by auto
        then have "ids ! k' \<noteq> ids ! k" using d(3) k k' by (auto simp: inj_on_def)
        then show ?thesis using w(4) [OF k'(1)] kk k k' pre'(9) by (simp add: nth_eq_iff_index_eq)
      next
        case False
        have "k \<noteq> nr - 1" using l by auto
        then have "ids ! (nr - 1) \<noteq> ids ! k" using d(3) k by (auto simp: inj_on_def)
        then show ?thesis using w(5) [OF l(2) False] kk k pre'(9) by (simp add: nth_eq_iff_index_eq)
      qed
    qed (use d(2) [OF k] w(4) [OF k] in simp_all)
    moreover have "par ?G nd w m (ips ! k) b = par_without ?G ?F nd v m (ips ! k) b"
      using d(1) w(2,3) pre'(11) [OF b] by (intro par_zeroed) auto
    ultimately show "gf_of (m' (v ! (ids ! k)) b) = par_without ?G ?F nd v m (ips ! k) b"
      using b by (simp add: m'_def gen_spec_def byte_of_inverse)
  next
    fix a b
    have "gen_at ?G nd w m ?np a b = m a b" if "\<not> (\<exists>k<nr. a = v ! (ids ! k))"
    proof (rule gen_at_none)
      fix l
      assume "l < ?np"
      then show "w ! (nd + l) \<noteq> a" using w(4) w(5) [of l] that pre'(3)
        by (cases "l \<in> (!) ips ` {..<nr}") (auto, metis diff_less zero_less_one One_nat_def)
    qed
    then show "b < sz \<and> (\<exists>k<nr. a = v ! (ids ! k)) \<or> m' a b = m a b" unfolding m'_def gen_spec_def by metis
  qed
qed

section \<open>The equations of the lost blocks\<close>

text \<open>The memory \<open>m\<close> is the memory \<open>m0\<close> of a consistent array in which the data blocks \<open>ids\<close> have been lost: the other data
  blocks, and the parities \<open>ips\<close>, are intact.\<close>

definition lost_data :: "raid_state \<Rightarrow> nat \<Rightarrow> nat list \<Rightarrow> nat list \<Rightarrow> nat \<Rightarrow> nat \<Rightarrow> nat list \<Rightarrow> mem \<Rightarrow> mem \<Rightarrow> bool" where
  "lost_data st nr ids ips nd sz v m0 m \<longleftrightarrow>
    (\<forall>d<nd. d \<notin> (!) ids ` {..<nr} \<longrightarrow> (\<forall>b < sz. m (v ! d) b = m0 (v ! d) b)) \<and>
    (\<forall>k<nr. \<forall>b < sz. gf_of (m (v ! (nd + ips ! k)) b) = par (raid_gfgen st) nd v m0 (ips ! k) b)"

definition recovers :: "nat \<Rightarrow> nat list \<Rightarrow> nat \<Rightarrow> nat list \<Rightarrow> mem \<Rightarrow> mem \<Rightarrow> (nat list \<times> mem) option \<Rightarrow> bool" where
  "recovers nr ids sz v m0 m r \<longleftrightarrow> (\<exists>m'. r = Some (v, m') \<and> (\<forall>k<nr. \<forall>b < sz. m' (v ! (ids ! k)) b = m0 (v ! (ids ! k)) b) \<and>
    (\<forall>a b. b < sz \<and> (\<exists>k<nr. a = v ! (ids ! k)) \<or> m' a b = m a b))"

lemma par_split:
  assumes "inj_on ((!) ids) {..<nr}" "\<And>k. k < nr \<Longrightarrow> ids ! k < nd"
  shows "par G nd v m i b = par_without G ((!) ids ` {..<nr}) nd v m i b +
    (\<Sum>l<nr. gf_of (raid_A G i (ids ! l)) * gf_of (m (v ! (ids ! l)) b))"
proof -
  have "(!) ids ` {..<nr} \<subseteq> {..<nd}" using assms(2) by auto
  then have "par G nd v m i b = par_without G ((!) ids ` {..<nr}) nd v m i b +
      (\<Sum>d\<in>(!) ids ` {..<nr}. gf_of (raid_A G i d) * gf_of (m (v ! d) b))"
    unfolding par_def par_without_def by (intro sum.subset_diff) auto
  also have "(\<Sum>d\<in>(!) ids ` {..<nr}. gf_of (raid_A G i d) * gf_of (m (v ! d) b)) =
      (\<Sum>l<nr. gf_of (raid_A G i (ids ! l)) * gf_of (m (v ! (ids ! l)) b))"
    by (simp add: sum.reindex [OF assms(1)])
  finally show ?thesis .
qed

text \<open>After \<^verbatim>\<open>raid_delta_gen\<close>, the parity plus the content of the buffer is the contribution of the lost blocks.\<close>

lemma delta_equations:
  assumes pre: "rec_pre st nr ids ips nd sz v m" and lost: "lost_data st nr ids ips nd sz v m0 m"
  shows "\<exists>m'. raid_delta_gen st nr ids ips nd sz v m = Some (v, m') \<and>
    (\<forall>k<nr. \<forall>b < sz. gf_of (m' (v ! (nd + ips ! k)) b XOR m' (v ! (ids ! k)) b) =
      (\<Sum>l<nr. gf_of (raid_A (raid_gfgen st) (ips ! k) (ids ! l)) * gf_of (m0 (v ! (ids ! l)) b))) \<and>
    (\<forall>a b. b < sz \<and> (\<exists>k<nr. a = v ! (ids ! k)) \<or> m' a b = m a b)"
proof -
  note d = rec_preD [OF pre]
  let ?G = "raid_gfgen st" and ?F = "(!) ids ` {..<nr}"
  obtain m' where m': "raid_delta_gen st nr ids ips nd sz v m = Some (v, m')"
    "\<forall>k<nr. \<forall>b < sz. gf_of (m' (v ! (ids ! k)) b) = par_without ?G ?F nd v m (ips ! k) b"
    "\<forall>a b. b < sz \<and> (\<exists>k<nr. a = v ! (ids ! k)) \<or> m' a b = m a b"
    using raid_delta_gen_spec [OF pre] by blast
  show ?thesis
  proof (rule exI [of _ m'], intro conjI allI impI)
    show "raid_delta_gen st nr ids ips nd sz v m = Some (v, m')" "b < sz \<and> (\<exists>k<nr. a = v ! (ids ! k)) \<or> m' a b = m a b" for a b
      using m' by blast+
  next
    fix k b
    assume k: "k < nr" and b: "b < sz"
    have len: "nd + ips ! k < length v" "distinct v" using d(2) [OF k] pre by (auto simp: rec_pre_def)
    have "v ! (nd + ips ! k) \<noteq> v ! (ids ! l)" if "l < nr" for l
      using d(1) [OF that] len by (simp add: nth_eq_iff_index_eq)
    then have "m' (v ! (nd + ips ! k)) b = m (v ! (nd + ips ! k)) b" using m'(3) by blast
    then have p: "gf_of (m' (v ! (nd + ips ! k)) b) = par ?G nd v m0 (ips ! k) b" using lost k b by (simp add: lost_data_def)
    have "par_without ?G ?F nd v m (ips ! k) b = par_without ?G ?F nd v m0 (ips ! k) b"
      unfolding par_without_def by (rule sum.cong) (use lost b in \<open>auto simp: lost_data_def\<close>)
    then have q: "gf_of (m' (v ! (ids ! k)) b) = par_without ?G ?F nd v m0 (ips ! k) b" using m'(2) k b by simp
    have "x + y + x = y" for x y :: gf by (metis add.commute add.left_commute add.right_neutral gf_self_add)
    then show "gf_of (m' (v ! (nd + ips ! k)) b XOR m' (v ! (ids ! k)) b) =
        (\<Sum>l<nr. gf_of (raid_A ?G (ips ! k) (ids ! l)) * gf_of (m0 (v ! (ids ! l)) b))"
      using par_split [OF d(3,1)] by (simp add: p q)
  qed
qed

text \<open>The inverse of the coefficients solves the equations.\<close>

lemma inverse_solves:
  fixes n :: nat
  assumes "\<forall>i<n. \<forall>j<n. (\<Sum>l<n. gf_of (V i l) * M l j) = of_bool (i = j)" "j < n"
  shows "(\<Sum>k<n. gf_of (V j k) * (\<Sum>l<n. M k l * D l)) = (D j :: gf)"
proof -
  have "(\<Sum>k<n. gf_of (V j k) * (\<Sum>l<n. M k l * D l)) = (\<Sum>l<n. (\<Sum>k<n. gf_of (V j k) * M k l) * D l)"
    by (simp add: sum_distrib_left sum_distrib_right mult.assoc) (rule sum.swap)
  also have "\<dots> = (\<Sum>l<n. if l = j then D l else 0)"
    by (rule sum.cong) (use assms in auto)
  also have "\<dots> = D j" using assms(2) sum.delta [of "{..<n}" j D] by simp
  finally show ?thesis .
qed

definition increasing :: "nat \<Rightarrow> nat list \<Rightarrow> bool" where
  "increasing nr ir \<longleftrightarrow> nr \<le> length ir \<and> (\<forall>k l. k < l \<longrightarrow> l < nr \<longrightarrow> ir ! k < ir ! l)"

lemma regular_submatrix:
  assumes "raid_config st" "increasing nr ids" "increasing nr ips" "\<And>k. k < nr \<Longrightarrow> ids ! k < 251 \<and> ips ! k < length (raid_gfgen st)"
  shows "\<exists>V. raid_invert (\<lambda>j k. raid_A (raid_gfgen st) (ips ! j) (ids ! k)) nr = Some V \<and>
    (\<forall>i<nr. \<forall>j<nr. (\<Sum>l<nr. gf_of (V i l) * gf_of (raid_A (raid_gfgen st) (ips ! l) (ids ! j))) = of_bool (i = j))"
proof (rule raid_invert_spec)
  have len: "nr \<le> length ids" "nr \<le> length ips" using assms(2,3) by (simp_all add: increasing_def)
  have "leading_regular nr (\<lambda>j k. raid_A (raid_gfgen st) (take nr ips ! j) (take nr ids ! k))"
  proof (rule mds_matrix.submatrix_regular [OF raid_config_mds [OF assms(1)]])
    show "distinct (take nr ips)" "distinct (take nr ids)"
      using assms(2,3) by (auto simp: distinct_conv_nth increasing_def nat_neq_iff)
    show "set (take nr ips) \<subseteq> {..<length (raid_gfgen st)}" "set (take nr ids) \<subseteq> {..<251}"
      using assms(4) len by (auto simp: in_set_conv_nth)
  qed (use len in simp_all)
  moreover have "leading_regular nr (\<lambda>j k. raid_A (raid_gfgen st) (take nr ips ! j) (take nr ids ! k)) =
      leading_regular nr (\<lambda>j k. raid_A (raid_gfgen st) (ips ! j) (ids ! k))"
    unfolding leading_regular_def by (intro all_cong ball_cong imp_cong arg_cong2 [where f = "(=)"] sum.cong refl) auto
  ultimately show "leading_regular nr (\<lambda>j k. raid_A (raid_gfgen st) (ips ! j) (ids ! k))" by simp
qed

lemma coefficients_regular:
  assumes pre: "rec_pre st nr ids ips nd sz v m"
  shows "\<exists>V. raid_invert (\<lambda>j k. raid_A (raid_gfgen st) (ips ! j) (ids ! k)) nr = Some V \<and>
    (\<forall>i<nr. \<forall>j<nr. (\<Sum>l<nr. gf_of (V i l) * gf_of (raid_A (raid_gfgen st) (ips ! l) (ids ! j))) = of_bool (i = j))"
proof (rule regular_submatrix)
  fix k
  assume "k < nr"
  then show "ids ! k < 251 \<and> ips ! k < length (raid_gfgen st)"
    using rec_preD(1,2) [OF pre \<open>k < nr\<close>] pre by (simp add: rec_pre_def)
qed (use pre in \<open>simp_all add: rec_pre_def increasing_def\<close>)

section \<open>The recovery routines\<close>

text \<open>The last step of every routine: at every offset the buffers are overwritten with the values \<open>X\<close> computed from them.\<close>

lemma recovers_loop:
  assumes pre: "rec_pre st nr ids ips nd sz v m" and frame: "\<forall>a b. b < sz \<and> (\<exists>k<nr. a = v ! (ids ! k)) \<or> m' a b = m a b"
    and body: "\<And>i M. (\<And>a. M a i = m' a i) \<Longrightarrow> i < sz \<Longrightarrow>
      (\<forall>k<nr. body i M (v ! (ids ! k)) i = m0 (v ! (ids ! k)) i) \<and>
      (\<forall>a b. b = i \<and> (\<exists>k<nr. a = v ! (ids ! k)) \<or> body i M a b = M a b)"
  shows "recovers nr ids sz v m0 m (Some (v, for_step 1 0 sz body m'))"
proof -
  have "(\<forall>k<nr. \<forall>b. n \<le> b \<longrightarrow> b < sz \<longrightarrow> for_step 1 n sz body M (v ! (ids ! k)) b = m0 (v ! (ids ! k)) b) \<and>
      (\<forall>a b. n \<le> b \<and> b < sz \<and> (\<exists>k<nr. a = v ! (ids ! k)) \<or> for_step 1 n sz body M a b = M a b)"
    if "\<And>a b. n \<le> b \<Longrightarrow> M a b = m' a b" for n M
    using that
  proof (induction "sz - n" arbitrary: n M)
    case 0
    then show ?case by (simp add: for_step_done)
  next
    case (Suc l)
    then have n: "n < sz" by simp
    have B: "\<forall>k<nr. body n M (v ! (ids ! k)) n = m0 (v ! (ids ! k)) n"
      "\<forall>a b. b = n \<and> (\<exists>k<nr. a = v ! (ids ! k)) \<or> body n M a b = M a b"
      using body [of M n] Suc.prems [of n] n by auto
    have "l = sz - (n + 1)" using Suc.hyps(2) by simp
    moreover have "body n M a b = m' a b" if "n + 1 \<le> b" for a b
      using B(2) [rule_format, of b a] Suc.prems [of b a] that by auto
    ultimately have IH: "\<forall>k<nr. \<forall>b. n + 1 \<le> b \<longrightarrow> b < sz \<longrightarrow> for_step 1 (n + 1) sz body (body n M) (v ! (ids ! k)) b = m0 (v ! (ids ! k)) b"
      "\<forall>a b. n + 1 \<le> b \<and> b < sz \<and> (\<exists>k<nr. a = v ! (ids ! k)) \<or> for_step 1 (n + 1) sz body (body n M) a b = body n M a b"
      using Suc.hyps(1) [of "n + 1" "body n M"] by blast+
    have e: "for_step 1 n sz body M = for_step 1 (n + 1) sz body (body n M)" using n by (simp add: for_step_step)
    have "for_step 1 n sz body M (v ! (ids ! k)) b = m0 (v ! (ids ! k)) b" if "k < nr" "n \<le> b" "b < sz" for k b
      using IH(1) [rule_format, of k b] IH(2) [rule_format, of b "v ! (ids ! k)"] B(1) that e by (cases "b = n") auto
    moreover have "n \<le> b \<and> b < sz \<and> (\<exists>k<nr. a = v ! (ids ! k)) \<or> for_step 1 n sz body M a b = M a b" for a b
      using IH(2) [rule_format, of b a] B(2) [rule_format, of b a] n e by auto
    ultimately show ?case by blast
  qed
  from this [of 0 m'] have "\<forall>k<nr. \<forall>b < sz. for_step 1 0 sz body m' (v ! (ids ! k)) b = m0 (v ! (ids ! k)) b"
    "\<forall>a b. b < sz \<and> (\<exists>k<nr. a = v ! (ids ! k)) \<or> for_step 1 0 sz body m' a b = m' a b" by auto
  then show ?thesis using frame unfolding recovers_def by metis
qed

lemma ids_apart:
  assumes "rec_pre st nr ids ips nd sz v m" "k < nr" "l < nr"
  shows "v ! (ids ! k) = v ! (ids ! l) \<longleftrightarrow> k = l" "v ! (nd + ips ! k) \<noteq> v ! (ids ! l)"
proof -
  note d = rec_preD [OF assms(1)]
  have "distinct v" "nd + ips ! (nr - 1) < length v" using assms(1) by (simp_all add: rec_pre_def)
  then show "v ! (ids ! k) = v ! (ids ! l) \<longleftrightarrow> k = l" "v ! (nd + ips ! k) \<noteq> v ! (ids ! l)"
    using d(1) [OF assms(2)] d(1) [OF assms(3)] d(2) [OF assms(2)] d(3) assms(2,3)
    by (auto simp: nth_eq_iff_index_eq inj_on_def)
qed

lemma recX_sum_eq: "gf_of (recX_sum V PD j n) = (\<Sum>k<n. gf_of (V j k) * gf_of (PD k))"
  by (induction n) simp_all

lemma recX_store_other: "(\<forall>k<j. a \<noteq> pa ! k) \<or> b \<noteq> i \<Longrightarrow> recX_store V PD nr pa i j M a b = M a b"
  by (induction j) (auto simp: set_8_apply less_Suc_eq)

lemma recX_store_at:
  assumes "k < j" "\<And>l. k < l \<Longrightarrow> l < j \<Longrightarrow> pa ! l \<noteq> pa ! k"
  shows "recX_store V PD nr pa i j M (pa ! k) i = recX_sum V PD k nr"
  using assms
proof (induction j)
  case (Suc j)
  show ?case
  proof (cases "k = j")
    case False
    then have "k < j" using Suc.prems(1) by simp
    then have "recX_store V PD nr pa i j M (pa ! k) i = recX_sum V PD k nr" "pa ! k \<noteq> pa ! j"
      using Suc.IH Suc.prems(2) Suc.prems(2) [of j, symmetric] by auto
    then show ?thesis by (simp add: set_8_apply)
  qed (simp add: set_8_apply)
qed simp

lemma access_ok: "rec_pre st nr ids ips nd sz v m \<Longrightarrow> A_access (raid_gfgen st) nr ids ips"
  using rec_preD(1,2) [of st nr ids ips nd sz v m] by (fastforce simp: A_access_def rec_pre_def)

lemma recX_recovers:
  assumes pre: "rec_pre st nr ids ips nd sz v m" and lost: "lost_data st nr ids ips nd sz v m0 m" and nr: "nr \<le> 6"
  shows "recovers nr ids sz v m0 m (raid_recX_int8 st nr ids ips nd sz v m)"
proof -
  let ?A = "\<lambda>k l. gf_of (raid_A (raid_gfgen st) (ips ! k) (ids ! l))"
  obtain V where V: "raid_invert (\<lambda>j k. raid_A (raid_gfgen st) (ips ! j) (ids ! k)) nr = Some V"
    "\<forall>i<nr. \<forall>j<nr. (\<Sum>l<nr. gf_of (V i l) * ?A l j) = of_bool (i = j)"
    using coefficients_regular [OF pre] by blast
  obtain m' where m': "raid_delta_gen st nr ids ips nd sz v m = Some (v, m')"
    "\<forall>k<nr. \<forall>b < sz. gf_of (m' (v ! (nd + ips ! k)) b XOR m' (v ! (ids ! k)) b) = (\<Sum>l<nr. ?A k l * gf_of (m0 (v ! (ids ! l)) b))"
    "\<forall>a b. b < sz \<and> (\<exists>k<nr. a = v ! (ids ! k)) \<or> m' a b = m a b"
    using delta_equations [OF pre lost] by blast
  let ?p = "map (\<lambda>j. v ! (nd + ips ! j)) [0..<nr]" and ?pa = "map (\<lambda>j. v ! (ids ! j)) [0..<nr]"
  let ?body = "\<lambda>i m. recX_store V (\<lambda>j. m (?p ! j) i XOR m (?pa ! j) i) nr ?pa i nr m"
  have "recovers nr ids sz v m0 m (Some (v, for_step 1 0 sz ?body m'))"
  proof (rule recovers_loop [OF pre m'(3)])
    fix i M
    assume M: "\<And>a. M a i = m' a i" and i: "i < sz"
    let ?PD = "\<lambda>j. M (?p ! j) i XOR M (?pa ! j) i"
    have "gf_of (recX_sum V ?PD k nr) = gf_of (m0 (v ! (ids ! k)) i)" if k: "k < nr" for k
    proof -
      have "gf_of (recX_sum V ?PD k nr) = (\<Sum>j<nr. gf_of (V k j) * (\<Sum>l<nr. ?A j l * gf_of (m0 (v ! (ids ! l)) i)))"
        unfolding recX_sum_eq by (rule sum.cong) (use m'(2) M i in auto)
      then show ?thesis using inverse_solves [OF V(2) k] by simp
    qed
    moreover have "?body i M (?pa ! k) i = recX_sum V ?PD k nr" if k: "k < nr" for k
      by (rule recX_store_at) (use k ids_apart(1) [OF pre] in auto)
    moreover have "\<forall>a b. b = i \<and> (\<exists>k<nr. a = v ! (ids ! k)) \<or> ?body i M a b = M a b"
    proof (intro allI)
      fix a b
      show "b = i \<and> (\<exists>k<nr. a = v ! (ids ! k)) \<or> ?body i M a b = M a b"
        using recX_store_other [of nr a ?pa b i] by (cases "b = i \<and> (\<exists>k<nr. a = v ! (ids ! k))") auto
    qed
    ultimately show "(\<forall>k<nr. ?body i M (v ! (ids ! k)) i = m0 (v ! (ids ! k)) i) \<and>
        (\<forall>a b. b = i \<and> (\<exists>k<nr. a = v ! (ids ! k)) \<or> ?body i M a b = M a b)" by simp
  qed
  then show ?thesis unfolding raid_recX_int8_def using nr access_ok [OF pre] V(1) m'(1) by (simp add: Let_def)
qed

lemma rec1of1_recovers:
  assumes pre: "rec_pre st 1 ids ips nd sz v m" and lost: "lost_data st 1 ids ips nd sz v m0 m" and ip: "ips ! 0 = 0"
  shows "recovers 1 ids sz v m0 m (raid_rec1of1 st ids nd sz v m)"
proof -
  note d = rec_preD [OF pre]
  let ?G = "raid_gfgen st" and ?x = "ids ! 0"
  have c: "raid_config st" "sz mod 64 = 0" "0 < length ids" "nd \<le> 251" "0 < length ?G" "nd + 1 \<le> length v" "distinct v"
    using pre by (auto simp: rec_pre_def ip)
  have x: "?x < nd" "?x < length v" using d(1) [of 0] c(6) by simp_all
  define w where "w = v[?x := v ! nd, nd := v ! ?x]"
  define m' where "m' = gen_spec ?G nd 1 sz w m"
  have w: "length w = length v" "w ! nd = v ! ?x" "w ! ?x = v ! nd" "\<And>e. e < nd \<Longrightarrow> e \<noteq> ?x \<Longrightarrow> w ! e = v ! e"
    using x c(6) by (simp_all add: w_def nth_list_update)
  have "raid_gen st nd 1 sz w m = Some m'"
    unfolding m'_def using c d(6) w(1) by (intro raid_gen_spec) (simp_all add: Suc_le_eq)
  moreover have "w[?x := v ! ?x, nd := v ! nd] = v"
    using x c(6) by (intro nth_equalityI) (auto simp: w_def nth_list_update)
  ultimately have r: "raid_rec1of1 st ids nd sz v m = Some (v, m')"
    unfolding raid_rec1of1_def using c x by (simp add: Let_def w_def)
  have row: "raid_A ?G 0 e = 1" if "e < nd" for e
    using mds_matrix.first_row [OF raid_config_mds [OF c(1)] c(5)] that c(4) by simp
  have "par ?G nd w m 0 b = gf_of (m0 (v ! ?x) b)" if b: "b < sz" for b
  proof -
    have "par ?G nd w m 0 b = (\<Sum>e<nd. gf_of (m (w ! e) b))"
      unfolding par_def by (rule sum.cong) (simp_all add: row)
    also have "\<dots> = gf_of (m (v ! nd) b) + (\<Sum>e\<in>{..<nd} - {?x}. gf_of (m (w ! e) b))"
      using x by (simp add: sum.remove [of "{..<nd}" ?x] w(3))
    also have "(\<Sum>e\<in>{..<nd} - {?x}. gf_of (m (w ! e) b)) = (\<Sum>e\<in>{..<nd} - {?x}. gf_of (m0 (v ! e) b))"
      by (rule sum.cong) (use lost b w(4) in \<open>auto simp: lost_data_def\<close>)
    also have "gf_of (m (v ! nd) b) = (\<Sum>e<nd. gf_of (m0 (v ! e) b))"
      using lost b by (simp add: lost_data_def ip par_def row)
    also have "(\<Sum>e<nd. gf_of (m0 (v ! e) b)) = gf_of (m0 (v ! ?x) b) + (\<Sum>e\<in>{..<nd} - {?x}. gf_of (m0 (v ! e) b))"
      using x by (simp add: sum.remove [of "{..<nd}" ?x])
    finally show ?thesis by (simp add: add.assoc)
  qed
  then show ?thesis unfolding recovers_def r
    by (auto intro!: exI [of _ m'] simp: m'_def gen_spec_def w(2) byte_of_eqI)
qed

lemma rec1_recovers:
  assumes pre: "rec_pre st 1 ids ips nd sz v m" and lost: "lost_data st 1 ids ips nd sz v m0 m"
  shows "recovers 1 ids sz v m0 m (raid_rec1_int8 st nr ids ips nd sz v m)"
proof (cases "ips ! 0 = 0")
  case True
  then show ?thesis using rec1of1_recovers [OF pre lost] pre unfolding raid_rec1_int8_def by (auto simp: rec_pre_def)
next
  case False
  let ?A = "raid_A (raid_gfgen st) (ips ! 0) (ids ! 0)"
  obtain V where "(\<Sum>l<1. gf_of (V 0 l) * gf_of (raid_A (raid_gfgen st) (ips ! l) (ids ! 0))) = (1 :: gf)"
    using coefficients_regular [OF pre] by auto
  then have "?A \<noteq> 0" by auto
  then obtain T where T: "raid_inv ?A = Some T" "gf_of T = inverse (gf_of ?A)" using raid_inv_Some by blast
  obtain m' where m': "raid_delta_gen st 1 ids ips nd sz v m = Some (v, m')"
    "\<forall>k<1. \<forall>b < sz. gf_of (m' (v ! (nd + ips ! k)) b XOR m' (v ! (ids ! k)) b) =
      (\<Sum>l<1. gf_of (raid_A (raid_gfgen st) (ips ! k) (ids ! l)) * gf_of (m0 (v ! (ids ! l)) b))"
    "\<forall>a b. b < sz \<and> (\<exists>k<1. a = v ! (ids ! k)) \<or> m' a b = m a b"
    using delta_equations [OF pre lost] by blast
  let ?body = "\<lambda>i m. set_8 m (v ! (ids ! 0)) i (raid_gfmul T (m (v ! (nd + ips ! 0)) i XOR m (v ! (ids ! 0)) i))"
  have "recovers 1 ids sz v m0 m (Some (v, for_step 1 0 sz ?body m'))"
  proof (rule recovers_loop [OF pre m'(3)])
    fix i M
    assume M: "\<And>a. M a i = m' a i" and i: "i < sz"
    have "gf_of (raid_gfmul T (M (v ! (nd + ips ! 0)) i XOR M (v ! (ids ! 0)) i)) = gf_of (m0 (v ! (ids ! 0)) i)"
      using m'(2) i \<open>?A \<noteq> 0\<close> by (simp add: M T(2) del: gf_of_simps(3))
    then have "raid_gfmul T (M (v ! (nd + ips ! 0)) i XOR M (v ! (ids ! 0)) i) = m0 (v ! (ids ! 0)) i" by (simp only: gf_of_eq)
    then show "(\<forall>k<1. ?body i M (v ! (ids ! k)) i = m0 (v ! (ids ! k)) i) \<and>
        (\<forall>a b. b = i \<and> (\<exists>k<1. a = v ! (ids ! k)) \<or> ?body i M a b = M a b)" by (simp add: set_8_apply)
  qed
  then show ?thesis unfolding raid_rec1_int8_def using False access_ok [OF pre] T(1) m'(1) pre
    by (simp add: Let_def rec_pre_def Suc_le_eq)
qed

lemma all_less_2: "(\<forall>k<2. P k) \<longleftrightarrow> P 0 \<and> P (1 :: nat)"
  by (auto simp: less_2_cases_iff)

lemma ex_less_2: "(\<exists>k<2. P k) \<longleftrightarrow> P 0 \<or> P (1 :: nat)"
  by (auto simp: less_2_cases_iff)

lemma rec2_loop:
  assumes pre: "rec_pre st 2 ids ips nd sz v m" and frame: "\<forall>a b. b < sz \<and> (\<exists>k<2. a = v ! (ids ! k)) \<or> m' a b = m a b"
    and x: "\<And>i. i < sz \<Longrightarrow> X (m' (v ! (nd + ips ! 0)) i XOR m' (v ! (ids ! 0)) i) (m' (v ! (nd + ips ! 1)) i XOR m' (v ! (ids ! 1)) i) = m0 (v ! (ids ! 0)) i"
    and y: "\<And>i. i < sz \<Longrightarrow> Y (m' (v ! (nd + ips ! 0)) i XOR m' (v ! (ids ! 0)) i) (m' (v ! (nd + ips ! 1)) i XOR m' (v ! (ids ! 1)) i) = m0 (v ! (ids ! 1)) i"
  shows "recovers 2 ids sz v m0 m (Some (v, for_step 1 0 sz (\<lambda>i m.
    let Pd = m (v ! (nd + ips ! 0)) i XOR m (v ! (ids ! 0)) i; Qd = m (v ! (nd + ips ! 1)) i XOR m (v ! (ids ! 1)) i
    in set_8 (set_8 m (v ! (ids ! 0)) i (X Pd Qd)) (v ! (ids ! 1)) i (Y Pd Qd)) m'))"
proof (rule recovers_loop [OF pre frame])
  fix i M
  assume M: "\<And>a. M a i = m' a i" and i: "i < sz"
  have "v ! (ids ! 0) \<noteq> v ! (ids ! 1)" using ids_apart(1) [OF pre, of 0 1] by simp
  then show "(\<forall>k<2. (let Pd = M (v ! (nd + ips ! 0)) i XOR M (v ! (ids ! 0)) i; Qd = M (v ! (nd + ips ! 1)) i XOR M (v ! (ids ! 1)) i
      in set_8 (set_8 M (v ! (ids ! 0)) i (X Pd Qd)) (v ! (ids ! 1)) i (Y Pd Qd)) (v ! (ids ! k)) i = m0 (v ! (ids ! k)) i) \<and>
    (\<forall>a b. b = i \<and> (\<exists>k<2. a = v ! (ids ! k)) \<or> (let Pd = M (v ! (nd + ips ! 0)) i XOR M (v ! (ids ! 0)) i; Qd = M (v ! (nd + ips ! 1)) i XOR M (v ! (ids ! 1)) i
      in set_8 (set_8 M (v ! (ids ! 0)) i (X Pd Qd)) (v ! (ids ! 1)) i (Y Pd Qd)) a b = M a b)"
    using x [OF i] y [OF i] unfolding all_less_2 ex_less_2 by (auto simp: Let_def set_8_apply M)
qed

lemma rec2of2_solution:
  fixes a b x y :: gf
  assumes "a + b \<noteq> 0" "t0 = inverse (e + 1)" "e * a = b" "t1 = inverse (a + b)" "a \<noteq> 0"
  shows "t0 * (x + y) + t1 * (a * x + b * y) = y" "(x + y) + (t0 * (x + y) + t1 * (a * x + b * y)) = x"
proof -
  have "(e + 1) * a = a + b" using assms(3) by (simp add: algebra_simps)
  then have "t0 = t1 * a" using assms(1,2,4,5) by (metis inverse_mult_distrib mult.assoc mult.commute mult.right_neutral right_inverse)
  then have "t0 * (x + y) + t1 * (a * x + b * y) = t1 * ((a * x + a * x) + (a + b) * y)" by (simp only: algebra_simps)
  also have "\<dots> = t1 * (a + b) * y" by (simp only: gf_self_add add_0_left mult.assoc)
  also have "\<dots> = y" using assms(1,4) by simp
  finally show *: "t0 * (x + y) + t1 * (a * x + b * y) = y" .
  show "(x + y) + (t0 * (x + y) + t1 * (a * x + b * y)) = x" unfolding * by (simp only: add.assoc gf_self_add add_0_right)
qed

lemma rec2of2_recovers:
  assumes pre: "rec_pre st 2 ids ips nd sz v m" and lost: "lost_data st 2 ids ips nd sz v m0 m" and ip: "ips ! 0 = 0" "ips ! 1 = 1"
  shows "recovers 2 ids sz v m0 m (raid_rec2of2_int8 st ids ips nd sz v m)"
proof -
  note d = rec_preD [OF pre]
  let ?G = "raid_gfgen st"
  have c: "raid_config st" "2 \<le> length ids" "nd \<le> 251" "1 < length ?G" "ids ! 0 < ids ! 1" "ids ! 1 < nd"
    using pre d(1) [of 1] ip by (auto simp: rec_pre_def)
  have "ids ! 1 - ids ! 0 < 255" using c by linarith
  then obtain e where e: "pow2 (int (ids ! 1) - int (ids ! 0)) = Some e" "gf_of e = gtwo ^ (ids ! 1 - ids ! 0)"
    using pow2_Some [of "ids ! 1 - ids ! 0"] c(5) by (auto simp: of_nat_diff)
  obtain e0 where e0: "pow2 (int (ids ! 0)) = Some e0" "gf_of e0 = gtwo ^ (ids ! 0)" using pow2_Some [of "ids ! 0"] c by auto
  obtain e1 where e1: "pow2 (int (ids ! 1)) = Some e1" "gf_of e1 = gtwo ^ (ids ! 1)" using pow2_Some [of "ids ! 1"] c by auto
  have nz: "gf_of e0 + gf_of e1 \<noteq> 0" using gtwo_pow_inj [of "ids ! 0" "ids ! 1"] c by (auto simp: gf_add_eq_0 e0 e1)
  have ee: "gf_of e * gf_of e0 = gf_of e1" using c(5) by (simp add: e e0 e1 flip: power_add)
  have "gf_of (e XOR 1) \<noteq> 0" using ee nz by (auto simp: gf_add_eq_0)
  then have "e XOR 1 \<noteq> 0" "e0 XOR e1 \<noteq> 0" using nz by (auto simp del: gf_of_simps(3) simp: gf_of_simps(3) [symmetric])
  then obtain t0 t1 where t: "raid_inv (e XOR 1) = Some t0" "gf_of t0 = inverse (gf_of e + 1)"
    "raid_inv (e0 XOR e1) = Some t1" "gf_of t1 = inverse (gf_of e0 + gf_of e1)"
    using raid_inv_Some [of "e XOR 1"] raid_inv_Some [of "e0 XOR e1"] by auto
  obtain m' where m': "raid_delta_gen st 2 ids ips nd sz v m = Some (v, m')"
    "\<forall>k<2. \<forall>b < sz. gf_of (m' (v ! (nd + ips ! k)) b XOR m' (v ! (ids ! k)) b) =
      (\<Sum>l<2. gf_of (raid_A ?G (ips ! k) (ids ! l)) * gf_of (m0 (v ! (ids ! l)) b))"
    "\<forall>a b. b < sz \<and> (\<exists>k<2. a = v ! (ids ! k)) \<or> m' a b = m a b"
    using delta_equations [OF pre lost] by blast
  note mds = raid_config_mds [OF c(1)]
  have lt: "ids ! 0 < 251" "ids ! 1 < 251" "0 < length ?G" using c by linarith+
  have A: "raid_A ?G 0 (ids ! 0) = 1" "raid_A ?G 0 (ids ! 1) = 1" "gf_of (raid_A ?G 1 (ids ! 0)) = gf_of e0" "gf_of (raid_A ?G 1 (ids ! 1)) = gf_of e1"
    using mds_matrix.first_row [OF mds _ lt(1)] mds_matrix.first_row [OF mds _ lt(2)] mds_matrix.second_row [OF mds c(4) lt(1)]
      mds_matrix.second_row [OF mds c(4) lt(2)] lt(3) e0(2) e1(2) by simp_all
  have P: "gf_of (m' (v ! (nd + ips ! 0)) b XOR m' (v ! (ids ! 0)) b) = gf_of (m0 (v ! (ids ! 0)) b) + gf_of (m0 (v ! (ids ! 1)) b)"
    "gf_of (m' (v ! (nd + ips ! 1)) b XOR m' (v ! (ids ! 1)) b) = gf_of e0 * gf_of (m0 (v ! (ids ! 0)) b) + gf_of e1 * gf_of (m0 (v ! (ids ! 1)) b)"
    if "b < sz" for b
    using m'(2) [rule_format, of 0 b] m'(2) [rule_format, of 1 b] that unfolding ip A by (simp_all add: numeral_2_eq_2 A [unfolded One_nat_def] del: gf_of_simps(3))
  have "gf_of e0 \<noteq> 0" by (simp only: e0) simp
  note sol = rec2of2_solution [OF nz t(2) ee t(4) this]
  have "recovers 2 ids sz v m0 m (Some (v, for_step 1 0 sz (\<lambda>i m.
      let Pd = m (v ! (nd + ips ! 0)) i XOR m (v ! (ids ! 0)) i; Qd = m (v ! (nd + ips ! 1)) i XOR m (v ! (ids ! 1)) i
      in set_8 (set_8 m (v ! (ids ! 0)) i ((\<lambda>Pd Qd. Pd XOR (raid_gfmul t0 Pd XOR raid_gfmul t1 Qd)) Pd Qd)) (v ! (ids ! 1)) i
        ((\<lambda>Pd Qd. raid_gfmul t0 Pd XOR raid_gfmul t1 Qd) Pd Qd)) m'))"
    by (rule rec2_loop [OF pre m'(3)])
      (simp_all only: gf_of_eq [symmetric] gf_of_simps(3) gf_of_mul P [simplified gf_of_simps(3)] sol add.assoc gf_self_add add_0_right)
  then show ?thesis unfolding raid_rec2of2_int8_def using c(2,5) e(1) e0(1) e1(1) t(1,3) m'(1)
    by (simp add: Let_def ip [unfolded One_nat_def])
qed

lemma rec2_recovers:
  assumes pre: "rec_pre st 2 ids ips nd sz v m" and lost: "lost_data st 2 ids ips nd sz v m0 m"
  shows "recovers 2 ids sz v m0 m (raid_rec2_int8 st nr ids ips nd sz v m)"
proof (cases "ips ! 0 = 0 \<and> ips ! 1 = 1")
  case True
  then show ?thesis using rec2of2_recovers [OF pre lost] pre unfolding raid_rec2_int8_def by (auto simp: rec_pre_def)
next
  case False
  let ?A = "\<lambda>k l. gf_of (raid_A (raid_gfgen st) (ips ! k) (ids ! l))"
  obtain V where V: "raid_invert (\<lambda>j k. raid_A (raid_gfgen st) (ips ! j) (ids ! k)) 2 = Some V"
    "\<forall>i<2. \<forall>j<2. (\<Sum>l<2. gf_of (V i l) * ?A l j) = of_bool (i = j)"
    using coefficients_regular [OF pre] by blast
  obtain m' where m': "raid_delta_gen st 2 ids ips nd sz v m = Some (v, m')"
    "\<forall>k<2. \<forall>b < sz. gf_of (m' (v ! (nd + ips ! k)) b XOR m' (v ! (ids ! k)) b) = (\<Sum>l<2. ?A k l * gf_of (m0 (v ! (ids ! l)) b))"
    "\<forall>a b. b < sz \<and> (\<exists>k<2. a = v ! (ids ! k)) \<or> m' a b = m a b"
    using delta_equations [OF pre lost] by blast
  let ?P = "\<lambda>k i. m' (v ! (nd + ips ! k)) i XOR m' (v ! (ids ! k)) i"
  have sol: "raid_gfmul (V j 0) (?P 0 i) XOR raid_gfmul (V j 1) (?P 1 i) = m0 (v ! (ids ! j)) i" if "i < sz" "j < 2" for i j
  proof -
    have "gf_of (raid_gfmul (V j 0) (?P 0 i) XOR raid_gfmul (V j 1) (?P 1 i)) = (\<Sum>k<2. gf_of (V j k) * gf_of (?P k i))"
      by (simp add: numeral_2_eq_2 del: gf_of_simps(3)) (simp only: gf_of_simps(3) gf_of_mul)
    also have "\<dots> = (\<Sum>k<2. gf_of (V j k) * (\<Sum>l<2. ?A k l * gf_of (m0 (v ! (ids ! l)) i)))"
      by (rule sum.cong) (use m'(2) that in auto)
    also have "\<dots> = gf_of (m0 (v ! (ids ! j)) i)" by (rule inverse_solves [OF V(2) that(2)])
    finally show ?thesis by (simp only: gf_of_eq)
  qed
  have "recovers 2 ids sz v m0 m (Some (v, for_step 1 0 sz (\<lambda>i m.
      let Pd = m (v ! (nd + ips ! 0)) i XOR m (v ! (ids ! 0)) i; Qd = m (v ! (nd + ips ! 1)) i XOR m (v ! (ids ! 1)) i
      in set_8 (set_8 m (v ! (ids ! 0)) i ((\<lambda>Pd Qd. raid_gfmul (V 0 0) Pd XOR raid_gfmul (V 0 1) Qd) Pd Qd)) (v ! (ids ! 1)) i
        ((\<lambda>Pd Qd. raid_gfmul (V 1 0) Pd XOR raid_gfmul (V 1 1) Qd) Pd Qd)) m'))"
    by (rule rec2_loop [OF pre m'(3)]) (use sol [of _ 0] sol [of _ 1] in simp_all)
  then show ?thesis unfolding raid_rec2_int8_def using False access_ok [OF pre] V(1) m'(1) pre
    by (auto simp: Let_def rec_pre_def)
qed

section \<open>The entry points\<close>

lemma rec_call_recovers:
  assumes pre: "rec_pre st nr ids ips nd sz v m" and lost: "lost_data st nr ids ips nd sz v m0 m" and nr: "nr \<le> 6"
  shows "recovers nr ids sz v m0 m (raid_rec_call (raid_rec_ptr st ! (nr - 1)) st nr ids ips nd sz v m)"
proof -
  have ptr: "raid_rec_ptr st = [Raid_rec1_int8, Raid_rec2_int8, Raid_recX_int8, Raid_recX_int8, Raid_recX_int8, Raid_recX_int8]"
    using pre raid_config_selected by (auto simp: rec_pre_def raid_selected_def)
  consider "nr = 1" | "nr = 2" | "2 < nr" using pre by (fastforce simp: rec_pre_def)
  then show ?thesis
  proof cases
    case 1
    then show ?thesis using rec1_recovers pre lost by (simp add: ptr)
  next
    case 2
    then show ?thesis using rec2_recovers pre lost by (simp add: ptr)
  next
    case 3
    then have "nr - 1 = 2 \<or> nr - 1 = 3 \<or> nr - 1 = 4 \<or> nr - 1 = 5" using nr by linarith
    then have "raid_rec_ptr st ! (nr - 1) = Raid_recX_int8" unfolding ptr by (elim disjE) (simp_all only:, simp_all)
    then show ?thesis using recX_recovers [OF pre lost nr] by simp
  qed
qed

text \<open>The consistency of an array: every parity block holds its row of the generator matrix applied to the data.\<close>

definition parity_consistent :: "u8 list list \<Rightarrow> nat \<Rightarrow> nat \<Rightarrow> nat \<Rightarrow> nat list \<Rightarrow> mem \<Rightarrow> bool" where
  "parity_consistent G nd np sz v m \<longleftrightarrow> (\<forall>j<np. \<forall>b < sz. gf_of (m (v ! (nd + j)) b) = par G nd v m j b)"

lemma gen_spec_consistent:
  assumes "distinct v" "nd + np \<le> length v"
  shows "parity_consistent G nd np sz v (gen_spec G nd np sz v m)"
  unfolding parity_consistent_def
proof (intro allI impI)
  fix j b
  assume j: "j < np" and b: "b < sz"
  have "gen_at G nd v m np (v ! (nd + j)) b = byte_of (par G nd v m j b)"
    by (rule gen_at_last) (use j assms in \<open>auto simp: nth_eq_iff_index_eq\<close>)
  moreover have "gen_at G nd v m np (v ! d) b = m (v ! d) b" if "d < nd" for d
    by (rule gen_at_none) (use that assms in \<open>auto simp: nth_eq_iff_index_eq\<close>)
  then have "par G nd v (gen_spec G nd np sz v m) j b = par G nd v m j b"
    unfolding par_def by (intro sum.cong) (simp_all add: gen_spec_def b)
  ultimately show "gf_of (gen_spec G nd np sz v m (v ! (nd + j)) b) = par G nd v (gen_spec G nd np sz v m) j b"
    by (simp add: gen_spec_def b byte_of_inverse)
qed

lemma count_data_spec:
  assumes "nrd \<le> nr" "\<forall>k<nrd. ir ! k < nd"
  shows "count_data nr ir nd nrd \<le> nr \<and> (\<forall>k<count_data nr ir nd nrd. ir ! k < nd) \<and>
    (count_data nr ir nd nrd < nr \<longrightarrow> nd \<le> ir ! count_data nr ir nd nrd)"
  using assms
proof (induction nr ir nd nrd rule: count_data.induct)
  case (1 nr ir nd nrd)
  show ?case
  proof (cases "nrd < nr \<and> ir ! nrd < nd")
    case True
    then have "count_data nr ir nd nrd = count_data nr ir nd (nrd + 1)" by (subst count_data.simps) simp
    then show ?thesis using "1.IH" [OF True] "1.prems" True by (simp add: less_Suc_eq)
  next
    case False
    then have "count_data nr ir nd nrd = nrd" by (subst count_data.simps) auto
    then show ?thesis using "1.prems" False by auto
  qed
qed

definition failed_parity :: "nat \<Rightarrow> nat list \<Rightarrow> nat \<Rightarrow> nat \<Rightarrow> nat set" where
  "failed_parity nrp ir first nd = {i. \<exists>j<nrp. ir ! (first + j) = nd + i}"

lemma good_parities_spec:
  assumes "\<forall>k l. k < l \<longrightarrow> l < nrp \<longrightarrow> ir ! (first + k) < ir ! (first + l)" "\<forall>k<nrp. ir ! (first + k) < nd + i \<longleftrightarrow> k < j"
  shows "good_parities nrp ir first nd n i j ip = ip @ filter (\<lambda>l. l \<notin> failed_parity nrp ir first nd) [i..<i + n]"
  using assms(2)
proof (induction n arbitrary: i j ip)
  case (Suc n)
  have upt: "[i..<i + Suc n] = i # [i + 1..<i + 1 + n]" by (simp add: upt_rec)
  show ?case
  proof (cases "j < nrp \<and> ir ! (first + j) = nd + i")
    case True
    have "ir ! (first + k) < nd + (i + 1) \<longleftrightarrow> k < j + 1" if "k < nrp" for k
    proof -
      have "ir ! (first + k) = nd + i \<longleftrightarrow> k = j" using assms(1) True that by (metis linorder_neqE_nat less_irrefl)
      then show ?thesis using Suc.prems that by (metis Suc_eq_plus1 add_Suc_right less_Suc_eq)
    qed
    then show ?thesis using Suc.IH [of "i + 1" "j + 1" ip] True unfolding upt by (auto simp: failed_parity_def)
  next
    case False
    have no: "ir ! (first + k) \<noteq> nd + i" if "k < nrp" for k
    proof
      assume k: "ir ! (first + k) = nd + i"
      then have "j \<le> k" using Suc.prems that by auto
      then have "j < k" using False k that by (cases "j = k") auto
      then have "ir ! (first + j) < nd + i" using assms(1) k that by metis
      then show False using Suc.prems \<open>j < k\<close> that by auto
    qed
    then have "\<forall>k<nrp. ir ! (first + k) < nd + (i + 1) \<longleftrightarrow> k < j" using Suc.prems by (metis Suc_eq_plus1 add_Suc_right less_Suc_eq)
    then show ?thesis using Suc.IH [of "i + 1" j "ip @ [i]"] False no unfolding upt by (auto simp: failed_parity_def)
  qed
qed simp

text \<open>The state of an array with the blocks \<open>ir\<close> lost, at most as many as there are parities.\<close>

definition array_ok :: "raid_state \<Rightarrow> nat \<Rightarrow> nat \<Rightarrow> nat \<Rightarrow> nat list \<Rightarrow> mem \<Rightarrow> bool" where
  "array_ok st nd np sz v m \<longleftrightarrow> raid_config st \<and> sz mod 64 = 0 \<and> 0 < nd \<and> nd \<le> 251 \<and> np \<le> length (raid_gfgen st) \<and>
    distinct v \<and> nd + np \<le> length v \<and> raid_zero_block st \<notin> set v \<and> (\<forall>b < sz. m (raid_zero_block st) b = 0)"

lemma array_ok_np: "array_ok st nd np sz v m \<Longrightarrow> np \<le> 6"
  using raid_config_selected [of st] by (auto simp: array_ok_def raid_selected_def length_matrices)

lemma increasing_no_bug: "increasing nr ir \<Longrightarrow> \<not> index_order_bug nr ir"
proof -
  assume "increasing nr ir"
  then have h: "k < l \<Longrightarrow> l < nr \<Longrightarrow> ir ! k < ir ! l" for k l by (simp add: increasing_def)
  have "2 \<le> nr \<Longrightarrow> \<not> ir ! 0 \<ge> ir ! 1" "3 \<le> nr \<Longrightarrow> \<not> ir ! 1 \<ge> ir ! 2" "4 \<le> nr \<Longrightarrow> \<not> ir ! 2 \<ge> ir ! 3"
    "5 \<le> nr \<Longrightarrow> \<not> ir ! 3 \<ge> ir ! 4" "6 \<le> nr \<Longrightarrow> \<not> ir ! 4 \<ge> ir ! 5"
    by (simp_all only: not_le) (rule h; simp)+
  then show ?thesis unfolding index_order_bug_def by blast
qed

lemma increasing_nth_nth:
  assumes "sorted_wrt (<) xs" "n \<le> length xs"
  shows "increasing n xs"
  using assms by (auto simp: increasing_def sorted_wrt_iff_nth_less)

lemma good_parities_enough:
  assumes "increasing nr ir" "nrd \<le> nr" "nr \<le> np"
  shows "nrd \<le> length (filter (\<lambda>l. l \<notin> failed_parity (nr - nrd) ir nrd nd) [0..<np])"
proof -
  let ?P = "failed_parity (nr - nrd) ir nrd nd"
  have "?P \<subseteq> (\<lambda>j. ir ! (nrd + j) - nd) ` {..<nr - nrd}" by (force simp: failed_parity_def image_iff)
  then have P: "finite ?P" "card ?P \<le> nr - nrd" by (auto intro: finite_subset dest: surj_card_le [rotated])
  have "length (filter (\<lambda>l. l \<notin> ?P) [0..<np]) = card ({..<np} - ?P)"
    by (subst distinct_card [symmetric]) (auto intro: arg_cong [where f = card])
  moreover have "np - card ?P \<le> card ({..<np} - ?P)" using diff_card_le_card_Diff [OF P(1), of "{..<np}"] by simp
  ultimately show ?thesis using P(2) assms(2,3) by linarith
qed

text \<open>The data blocks and the parities of the list of lost blocks, and the parities left.\<close>

lemma split_failures:
  assumes ir: "increasing nr ir" "nr \<le> np" and nrd: "nrd = count_data nr ir nd 0"
    and ip: "ip = good_parities (nr - nrd) ir nrd nd np 0 0 []"
  shows "nrd \<le> nr" "k < nrd \<Longrightarrow> ir ! k < nd" "nrd \<le> k \<Longrightarrow> k < nr \<Longrightarrow> nd \<le> ir ! k" "nrd \<le> nd"
    "increasing nrd ip" "k < nrd \<Longrightarrow> ip ! k < np" "k < nrd \<Longrightarrow> l < nr \<Longrightarrow> nd + ip ! k \<noteq> ir ! l"
proof -
  have c: "nrd \<le> nr" "\<And>k. k < nrd \<Longrightarrow> ir ! k < nd" "nrd < nr \<Longrightarrow> nd \<le> ir ! nrd"
    using count_data_spec [of 0 nr ir nd] by (auto simp: nrd)
  have inc: "ir ! k < ir ! l" if "k < l" "l < nr" for k l using ir(1) that by (simp add: increasing_def)
  have par: "nd \<le> ir ! k" if "nrd \<le> k" "k < nr" for k
    using c(3) inc [of nrd k] that by (cases "k = nrd") (simp_all add: less_imp_le order.trans)
  have "ip = filter (\<lambda>l. l \<notin> failed_parity (nr - nrd) ir nrd nd) [0..<np]"
    unfolding ip using good_parities_spec [of "nr - nrd" ir nrd nd 0 0 np "[]"] inc par by (auto simp: not_less)
  moreover have "sorted_wrt (<) (filter (\<lambda>l. l \<notin> failed_parity (nr - nrd) ir nrd nd) [0..<np])" by (simp add: sorted_wrt_filter)
  ultimately have ip': "sorted_wrt (<) ip" "nrd \<le> length ip" "\<And>i. i \<in> set ip \<Longrightarrow> i < np \<and> i \<notin> failed_parity (nr - nrd) ir nrd nd"
    using good_parities_enough [OF ir(1) c(1) ir(2)] by auto
  show "nrd \<le> nr" "k < nrd \<Longrightarrow> ir ! k < nd" "nrd \<le> k \<Longrightarrow> k < nr \<Longrightarrow> nd \<le> ir ! k" by (fact c(1) c(2) par)+
  show "increasing nrd ip" by (rule increasing_nth_nth [OF ip'(1,2)])
  show "ip ! k < np" if "k < nrd" using ip'(2,3) that nth_mem [of k ip] by auto
  show "nd + ip ! k \<noteq> ir ! l" if "k < nrd" "l < nr"
  proof (cases "l < nrd")
    case False
    then have "l = nrd + (l - nrd)" "l - nrd < nr - nrd" using that by auto
    moreover have "ip ! k \<notin> failed_parity (nr - nrd) ir nrd nd" using ip'(2,3) that nth_mem [of k ip] by auto
    ultimately show ?thesis unfolding failed_parity_def by (metis (mono_tags, lifting) mem_Collect_eq)
  qed (use c(2) in fastforce)
  have "inj_on ((!) ir) {..<nrd}"
    by (rule inj_onI) (metis c(1) inc lessThan_iff less_irrefl less_le_trans linorder_neqE_nat)
  then have "card {..<nrd} \<le> card {..<nd}" using c(2) card_inj_on_le [of "(!) ir" "{..<nrd}" "{..<nd}"] by auto
  then show "nrd \<le> nd" by simp
qed

text \<open>The first phase of \<^verbatim>\<open>raid_rec\<close> restores the data.\<close>

lemma raid_rec_data_phase:
  assumes ok: "array_ok st nd np sz v m" and ir: "increasing nr ir" "nr \<le> np"
    and con: "parity_consistent (raid_gfgen st) nd np sz v m0"
    and same: "\<forall>x<nd + np. x \<notin> (!) ir ` {..<nr} \<longrightarrow> (\<forall>b < sz. m (v ! x) b = m0 (v ! x) b)"
    and nrd: "nrd = count_data nr ir nd 0" and ip: "ip = good_parities (nr - nrd) ir nrd nd np 0 0 []"
  shows "\<exists>m1. (if nrd \<noteq> 0 then raid_rec_call (raid_rec_ptr st ! (nrd - 1)) st nrd ir ip nd sz v m else Some (v, m)) = Some (v, m1) \<and>
    (\<forall>d<nd. \<forall>b < sz. m1 (v ! d) b = m0 (v ! d) b) \<and> (\<forall>a b. b < sz \<and> (\<exists>d<nd. a = v ! d) \<or> m1 a b = m a b)"
proof -
  note f = split_failures [OF ir nrd ip]
  have intact: "m (v ! d) b = m0 (v ! d) b" if "d < nd" "b < sz" "d \<notin> (!) ir ` {..<nrd}" for d b
  proof -
    have "d \<notin> (!) ir ` {..<nr}"
    proof
      assume "d \<in> (!) ir ` {..<nr}"
      then obtain l where l: "l < nr" "d = ir ! l" by auto
      then have "nrd \<le> l" using that(3) by (auto simp: not_less [symmetric])
      then show False using f(3) [of l] l that(1) by simp
    qed
    then show ?thesis using same that by simp
  qed
  show ?thesis
  proof (cases "nrd = 0")
    case True
    then show ?thesis using intact by simp
  next
    case False
    have "ip ! (nrd - 1) < np" "ir ! (nrd - 1) < nd" using f(2,6) [of "nrd - 1"] False by simp_all
    then have pre: "rec_pre st nrd ir ip nd sz v m"
      unfolding rec_pre_def using ok [unfolded array_ok_def] False f(1,5) ir(1) by (auto simp: increasing_def)
    have "gf_of (m (v ! (nd + ip ! k)) b) = par (raid_gfgen st) nd v m0 (ip ! k) b" if "k < nrd" "b < sz" for k b
    proof -
      have "nd + ip ! k \<notin> (!) ir ` {..<nr}" using f(7) [OF that(1)] by auto
      then show ?thesis using same con f(6) [OF that(1)] that(2) by (simp add: parity_consistent_def)
    qed
    then have "lost_data st nrd ir ip nd sz v m0 m" unfolding lost_data_def using intact by blast
    then have "recovers nrd ir sz v m0 m (raid_rec_call (raid_rec_ptr st ! (nrd - 1)) st nrd ir ip nd sz v m)"
      using f(1) ir(2) array_ok_np [OF ok] by (intro rec_call_recovers pre) simp_all
    then obtain m1 where m1: "raid_rec_call (raid_rec_ptr st ! (nrd - 1)) st nrd ir ip nd sz v m = Some (v, m1)"
      "\<forall>k<nrd. \<forall>b < sz. m1 (v ! (ir ! k)) b = m0 (v ! (ir ! k)) b" "\<forall>a b. b < sz \<and> (\<exists>k<nrd. a = v ! (ir ! k)) \<or> m1 a b = m a b"
      by (auto simp: recovers_def)
    have "m1 (v ! d) b = m0 (v ! d) b" if "d < nd" "b < sz" for d b
    proof (cases "\<exists>k<nrd. v ! d = v ! (ir ! k)")
      case False
      then have "m (v ! d) b = m0 (v ! d) b" using intact that by auto
      then show ?thesis using m1(3) False that by metis
    qed (use m1(2) that in auto)
    moreover have "b < sz \<and> (\<exists>d<nd. a = v ! d) \<or> m1 a b = m a b" for a b using m1(3) f(2) by metis
    ultimately show ?thesis using m1(1) False by (intro exI [of _ m1]) simp
  qed
qed

text \<open>With the data restored, the parities below a bound are recomputed; the others have not been lost.\<close>

lemma regenerated:
  assumes v: "distinct v" "nd + np \<le> length v" "q \<le> np" and con: "parity_consistent G nd np sz v m0"
    and data: "\<forall>d<nd. \<forall>b < sz. m1 (v ! d) b = m0 (v ! d) b"
    and rest: "\<And>j b. q \<le> j \<Longrightarrow> j < np \<Longrightarrow> b < sz \<Longrightarrow> m1 (v ! (nd + j)) b = m0 (v ! (nd + j)) b"
    and frame: "\<forall>a b. b < sz \<and> (\<exists>d<nd. a = v ! d) \<or> m1 a b = m a b" and m': "m' = gen_spec G nd q sz v m1"
  shows "(\<forall>x<nd + np. \<forall>b < sz. m' (v ! x) b = m0 (v ! x) b) \<and> (\<forall>a b. b < sz \<and> (\<exists>x<nd + np. a = v ! x) \<or> m' a b = m a b)"
proof (intro conjI allI impI)
  fix x b
  assume x: "x < nd + np" and b: "b < sz"
  consider "x < nd" | j where "x = nd + j" "j < q" | j where "x = nd + j" "q \<le> j" "j < np"
    using x by (metis add_less_cancel_left le_add_diff_inverse not_less)
  then show "m' (v ! x) b = m0 (v ! x) b"
  proof cases
    case 1
    then show ?thesis using gen_at_none [of q v nd "v ! x"] data b v by (simp add: m' gen_spec_def nth_eq_iff_index_eq)
  next
    case 2
    have "gen_at G nd v m1 q (v ! x) b = byte_of (par G nd v m1 j b)"
      by (rule gen_at_last) (use 2 v in \<open>auto simp: nth_eq_iff_index_eq\<close>)
    moreover have "par G nd v m1 j b = par G nd v m0 j b"
      unfolding par_def by (rule sum.cong) (use data b in auto)
    moreover have "m0 (v ! x) b = byte_of (par G nd v m0 j b)"
      by (rule byte_of_eqI) (use con 2 v(3) b in \<open>simp add: parity_consistent_def\<close>)
    ultimately show ?thesis using b by (simp add: m' gen_spec_def)
  next
    case 3
    then show ?thesis using gen_at_none [of q v nd "v ! x"] rest b v by (simp add: m' gen_spec_def nth_eq_iff_index_eq)
  qed
next
  fix a b
  show "b < sz \<and> (\<exists>x<nd + np. a = v ! x) \<or> m' a b = m a b"
  proof (cases "\<exists>x<nd + np. a = v ! x")
    case False
    then have "gen_at G nd v m1 q a b = m1 a b" using v(3) by (intro gen_at_none) (metis add_less_cancel_left less_le_trans)
    moreover have "m1 a b = m a b" using frame False by (metis trans_less_add1)
    ultimately show ?thesis by (simp add: m' gen_spec_def)
  qed (use frame in \<open>auto simp: m' gen_spec_def\<close>)
qed

lemma raid_rec_spec:
  assumes ok: "array_ok st nd np sz v m" and ir: "increasing nr ir" "nr \<le> np" "nr = 0 \<or> ir ! (nr - 1) < nd + np"
    and con: "parity_consistent (raid_gfgen st) nd np sz v m0"
    and same: "\<forall>x<nd + np. x \<notin> (!) ir ` {..<nr} \<longrightarrow> (\<forall>b < sz. m (v ! x) b = m0 (v ! x) b)"
  shows "\<exists>m'. raid_rec st nr ir nd np sz v m = Some (v, m') \<and> (\<forall>x<nd + np. \<forall>b < sz. m' (v ! x) b = m0 (v ! x) b) \<and>
    (\<forall>a b. b < sz \<and> (\<exists>x<nd + np. a = v ! x) \<or> m' a b = m a b)"
proof -
  define nrd where nrd: "nrd = count_data nr ir nd 0"
  define ip where ip: "ip = good_parities (nr - nrd) ir nrd nd np 0 0 []"
  define q where "q = (if nr = nrd then 0 else ir ! (nr - 1) - nd + 1)"
  note f = split_failures [OF ir(1,2) nrd ip]
  have ok': "raid_config st" "sz mod 64 = 0" "0 < nd" "nd \<le> 251" "np \<le> length (raid_gfgen st)" "distinct v" "nd + np \<le> length v"
    using ok by (simp_all add: array_ok_def)
  obtain m1 where m1: "(if nrd \<noteq> 0 then raid_rec_call (raid_rec_ptr st ! (nrd - 1)) st nrd ir ip nd sz v m else Some (v, m)) = Some (v, m1)"
    "\<forall>d<nd. \<forall>b < sz. m1 (v ! d) b = m0 (v ! d) b" "\<forall>a b. b < sz \<and> (\<exists>d<nd. a = v ! d) \<or> m1 a b = m a b"
    using raid_rec_data_phase [OF ok ir(1,2) con same nrd ip] by blast
  define m' where "m' = gen_spec (raid_gfgen st) nd q sz v m1"
  have q: "q \<le> np" "nr \<noteq> nrd \<Longrightarrow> 0 < q" using ir(2,3) f(1) by (auto simp: q_def)
  have "ir ! l < nd + q" if "l < nr" "nrd \<le> l" for l
  proof -
    have "ir ! l \<le> ir ! (nr - 1)" using ir(1) that by (cases "l = nr - 1") (auto simp: increasing_def less_imp_le)
    then show ?thesis using that by (auto simp: q_def)
  qed
  then have "ir ! l \<noteq> nd + j" if "q \<le> j" "l < nr" for j l
    using f(2) [of l] that by (cases "l < nrd") fastforce+
  then have "nd + j \<notin> (!) ir ` {..<nr}" if "q \<le> j" for j using that by force
  moreover have "v ! (nd + j) \<noteq> v ! d" if "d < nd" "j < np" for d j using that ok'(6,7) by (simp add: nth_eq_iff_index_eq)
  ultimately have rest: "m1 (v ! (nd + j)) b = m0 (v ! (nd + j)) b" if "q \<le> j" "j < np" "b < sz" for j b
    using m1(3) [rule_format, of b "v ! (nd + j)"] same [rule_format, of "nd + j" b] that by auto
  have gen: "(if nr - nrd \<noteq> 0 then raid_gen st nd (ir ! (nr - 1) - nd + 1) sz v m1 else Some m1) = Some m'"
  proof (cases "nr = nrd")
    case False
    then have "raid_gen st nd q sz v m1 = Some m'" unfolding m'_def using ok' q by (intro raid_gen_spec) simp_all
    then show ?thesis using False f(1) by (simp add: q_def)
  qed (simp add: m'_def q_def gen_spec_def fun_eq_iff)
  have "\<not> (nr > 0 \<and> ir ! (nr - 1) \<ge> nd + np)" "\<not> length ir < nr" "\<not> index_order_bug nr ir" "\<not> np > 6" "\<not> nrd > nd" "\<not> nr - nrd > np"
    using ir increasing_no_bug [OF ir(1)] array_ok_np [OF ok] f(4) by (auto simp: increasing_def)
  then have "raid_rec st nr ir nd np sz v m = Some (v, m')"
    unfolding raid_rec_def Let_def nrd [symmetric] ip [symmetric] m1(1) using ok'(2) ir(2) gen by (simp del: One_nat_def)
  then show ?thesis using regenerated [OF ok'(6,7) q(1) con m1(2) rest m1(3) m'_def] by blast
qed

lemma raid_data_spec:
  assumes ok: "array_ok st nd np sz v m" and nr: "nr \<le> nd" "increasing nr ids" "increasing nr ips"
    and lim: "nr = 0 \<or> ids ! (nr - 1) < nd \<and> ips ! (nr - 1) < np"
    and con: "parity_consistent (raid_gfgen st) nd np sz v m0"
    and same: "\<forall>d<nd. d \<notin> (!) ids ` {..<nr} \<longrightarrow> (\<forall>b < sz. m (v ! d) b = m0 (v ! d) b)"
      "\<forall>k<nr. \<forall>b < sz. m (v ! (nd + ips ! k)) b = m0 (v ! (nd + ips ! k)) b"
  shows "\<exists>m'. raid_data st nr ids ips nd sz v m = Some (v, m') \<and> (\<forall>d<nd. \<forall>b < sz. m' (v ! d) b = m0 (v ! d) b) \<and>
    (\<forall>a b. b < sz \<and> (\<exists>k<nr. a = v ! (ids ! k)) \<or> m' a b = m a b)"
proof (cases "nr = 0")
  case True
  then show ?thesis using ok same increasing_no_bug [OF nr(2)] increasing_no_bug [OF nr(3)] by (simp add: raid_data_def array_ok_def)
next
  case False
  have mono: "ids ! k < ids ! l" "ips ! k < ips ! l" if "k < l" "l < nr" for k l using nr(2,3) that by (simp_all add: increasing_def)
  have ips: "ips ! k < np" if "k < nr" for k
  proof (cases "k = nr - 1")
    case False
    then have "k < nr - 1" "nr - 1 < nr" using that by simp_all
    then have "ips ! k < ips ! (nr - 1)" by (rule mono(2))
    then show ?thesis using lim that by auto
  qed (use lim False in simp)
  have pre: "rec_pre st nr ids ips nd sz v m"
    unfolding rec_pre_def using ok [unfolded array_ok_def] False nr(2,3) lim mono by (auto simp: increasing_def)
  have "inj_on ((!) ips) {..<nr}" by (rule rec_preD(4) [OF pre])
  then have "nr \<le> np" using card_inj_on_le [of "(!) ips" "{..<nr}" "{..<np}"] ips by auto
  then have le: "nr \<le> 6" using array_ok_np [OF ok] by simp
  have lost: "lost_data st nr ids ips nd sz v m0 m"
    unfolding lost_data_def using same con ips by (simp add: parity_consistent_def)
  obtain m' where m': "raid_rec_call (raid_rec_ptr st ! (nr - 1)) st nr ids ips nd sz v m = Some (v, m')"
    "\<forall>k<nr. \<forall>b < sz. m' (v ! (ids ! k)) b = m0 (v ! (ids ! k)) b" "\<forall>a b. b < sz \<and> (\<exists>k<nr. a = v ! (ids ! k)) \<or> m' a b = m a b"
    using rec_call_recovers [OF pre lost le] by (auto simp: recovers_def)
  have "raid_data st nr ids ips nd sz v m = Some (v, m')"
    using m'(1) False le nr lim ok increasing_no_bug [OF nr(2)] increasing_no_bug [OF nr(3)]
    by (auto simp: raid_data_def array_ok_def increasing_def)
  moreover have "m' (v ! d) b = m0 (v ! d) b" if "d < nd" "b < sz" for d b
  proof (cases "\<exists>k<nr. v ! d = v ! (ids ! k)")
    case True
    then show ?thesis using m'(2) that by auto
  next
    case False
    then have "d \<notin> (!) ids ` {..<nr}" by auto
    then have "m (v ! d) b = m0 (v ! d) b" using same(1) that by simp
    then show ?thesis using m'(3) False that by metis
  qed
  ultimately show ?thesis using m'(3) by blast
qed

section \<open>Properties\<close>

text \<open>A concrete array: two data blocks at 10 and 11, two parities at 12 and 13, the zero block at 0.\<close>

definition ex_state :: raid_state where
  "ex_state = raid_zero 0 (raid_init 8 raid_static)"

definition ex_mem :: mem where
  "ex_mem = (\<lambda>a b. if a = 10 then 5 else if a = 11 then 7 else 0)"

definition ex_good :: mem where
  "ex_good = gen_spec (raid_gfgen ex_state) 2 2 64 [10, 11, 12, 13] ex_mem"

lemma ex_array_ok: "(\<forall>b < 64. m 0 b = 0) \<Longrightarrow> array_ok ex_state 2 2 64 [10, 11, 12, 13] m"
proof -
  assume "\<forall>b < 64. m 0 b = 0"
  moreover have "raid_config ex_state" unfolding ex_state_def by (intro raid_config.intros)
  moreover have "length (raid_gfgen ex_state) = 6" "raid_zero_block ex_state = 0"
    by (simp_all add: ex_state_def raid_zero_def raid_init_def raid_init_int_def raid_mode_def Let_def length_matrices)
  ultimately show ?thesis by (simp add: array_ok_def)
qed

lemma ex_good_facts:
  "parity_consistent (raid_gfgen ex_state) 2 2 64 [10, 11, 12, 13] ex_good" "ex_good 0 b = 0"
proof -
  show "parity_consistent (raid_gfgen ex_state) 2 2 64 [10, 11, 12, 13] ex_good"
    unfolding ex_good_def by (rule gen_spec_consistent) simp_all
  have "gen_at (raid_gfgen ex_state) 2 [10, 11, 12, 13] ex_mem 2 0 b = ex_mem 0 b"
    by (rule gen_at_none) (auto simp: less_2_cases_iff)
  then show "ex_good 0 b = 0" by (simp add: ex_good_def gen_spec_def ex_mem_def)
qed

text \<open>C1. Recovery: take an array whose parities are consistent with its data, and lose any blocks of it, data or
  parity, at most as many as there are parities (in Cauchy mode up to six, in Vandermonde mode up to three); whatever the lost
  blocks now hold, \<^verbatim>\<open>raid_rec\<close> fails no assertion, puts the vector of pointers back, restores the original content of every block
  of the array, and changes nothing else in memory.\<close>

theorem raid_rec_recovers:
  assumes "array_ok st nd np sz v m" "parity_consistent (raid_gfgen st) nd np sz v m0"
    and "increasing nr ir" "nr \<le> np" "nr = 0 \<or> ir ! (nr - 1) < nd + np"
    and "\<forall>x<nd + np. x \<notin> (!) ir ` {..<nr} \<longrightarrow> (\<forall>b < sz. m (v ! x) b = m0 (v ! x) b)"
  shows "\<exists>m'. raid_rec st nr ir nd np sz v m = Some (v, m') \<and> (\<forall>x<nd + np. \<forall>b < sz. m' (v ! x) b = m0 (v ! x) b) \<and>
    (\<forall>a b. b < sz \<and> (\<exists>x<nd + np. a = v ! x) \<or> m' a b = m a b)"
  using raid_rec_spec [OF assms(1,3,4,5,2,6)] .

text \<open>The first data block and the first parity are lost.\<close>

theorem raid_rec_recovers_witness:
  "\<exists>m'. raid_rec ex_state 2 [0, 2] 2 2 64 [10, 11, 12, 13] (ex_good(10 := (\<lambda>b. 99), 12 := (\<lambda>b. 98))) = Some ([10, 11, 12, 13], m') \<and>
     (\<forall>x<2 + 2. \<forall>b < 64. m' ([10, 11, 12, 13] ! x) b = ex_good ([10, 11, 12, 13] ! x) b) \<and>
     (\<forall>a b. b < 64 \<and> (\<exists>x<2 + 2. a = [10, 11, 12, 13] ! x) \<or> m' a b = (ex_good(10 := (\<lambda>b. 99), 12 := (\<lambda>b. 98))) a b)"
proof (rule raid_rec_recovers)
  show "array_ok ex_state 2 2 64 [10, 11, 12, 13] (ex_good(10 := (\<lambda>b. 99), 12 := (\<lambda>b. 98)))"
    by (rule ex_array_ok) (simp add: ex_good_facts)
  show "increasing 2 [0, 2]" by (auto simp: increasing_def less_2_cases_iff)
  show "\<forall>x<2 + 2. x \<notin> (!) [0, 2] ` {..<2} \<longrightarrow>
      (\<forall>b < 64. (ex_good(10 := (\<lambda>b. 99), 12 := (\<lambda>b. 98))) ([10, 11, 12, 13] ! x) b = ex_good ([10, 11, 12, 13] ! x) b)"
    by (auto simp: less_Suc_eq numeral_eq_Suc lessThan_Suc)
qed (simp_all add: ex_good_facts)

text \<open>C18. Recovery of data only: with the given increasing vectors of lost data blocks and of intact parities, of equal length,
  \<^verbatim>\<open>raid_data\<close> restores every data block, and writes only the lost ones; the other parities may hold anything.\<close>

theorem raid_data_recovers:
  assumes "array_ok st nd np sz v m" "parity_consistent (raid_gfgen st) nd np sz v m0"
    and "nr \<le> nd" "increasing nr ids" "increasing nr ips" "nr = 0 \<or> ids ! (nr - 1) < nd \<and> ips ! (nr - 1) < np"
    and "\<forall>d<nd. d \<notin> (!) ids ` {..<nr} \<longrightarrow> (\<forall>b < sz. m (v ! d) b = m0 (v ! d) b)"
    and "\<forall>k<nr. \<forall>b < sz. m (v ! (nd + ips ! k)) b = m0 (v ! (nd + ips ! k)) b"
  shows "\<exists>m'. raid_data st nr ids ips nd sz v m = Some (v, m') \<and> (\<forall>d<nd. \<forall>b < sz. m' (v ! d) b = m0 (v ! d) b) \<and>
    (\<forall>a b. b < sz \<and> (\<exists>k<nr. a = v ! (ids ! k)) \<or> m' a b = m a b)"
  using raid_data_spec [OF assms(1,3-6,2,7,8)] .

text \<open>The second data block is lost and recovered from the second parity.\<close>

theorem raid_data_recovers_witness:
  "\<exists>m'. raid_data ex_state 1 [1] [1] 2 64 [10, 11, 12, 13] (ex_good(11 := (\<lambda>b. 99))) = Some ([10, 11, 12, 13], m') \<and>
     (\<forall>d<2. \<forall>b < 64. m' ([10, 11, 12, 13] ! d) b = ex_good ([10, 11, 12, 13] ! d) b) \<and>
     (\<forall>a b. b < 64 \<and> (\<exists>k<1. a = [10, 11, 12, 13] ! ([1] ! k)) \<or> m' a b = (ex_good(11 := (\<lambda>b. 99))) a b)"
proof (rule raid_data_recovers [where np = 2])
  show "array_ok ex_state 2 2 64 [10, 11, 12, 13] (ex_good(11 := (\<lambda>b. 99)))"
    by (rule ex_array_ok) (simp add: ex_good_facts)
  show "\<forall>d<2. d \<notin> (!) [1] ` {..<1} \<longrightarrow> (\<forall>b < 64. (ex_good(11 := (\<lambda>b. 99))) ([10, 11, 12, 13] ! d) b = ex_good ([10, 11, 12, 13] ! d) b)"
    by (auto simp: less_2_cases_iff)
qed (simp_all add: ex_good_facts increasing_def)

end
