(* ===== verification/Raid_Check.thy ===== *)
theory Raid_Check
  imports Raid_Rec "HOL-Library.FuncSet"
begin

unbundle bit_operations_syntax

text \<open>
  The detection of failed blocks (\<^verbatim>\<open>raid/check.c\<close>): \<^verbatim>\<open>raid_validate\<close> and \<^verbatim>\<open>raid_check\<close> decide whether replacing the given
  blocks can make an array consistent, without changing anything.  One parity more than the number of failed
  blocks is needed for the answer to mean anything; the routines insist on it.

  The main result: \<^verbatim>\<open>raid_check\<close> answers 0 exactly when there is a content of the given blocks that makes the array
  consistent.
\<close>

section \<open>Definitions\<close>

text \<open>The parities of one offset minus the contribution of the data blocks that are not listed in \<open>ids\<close>.\<close>

primrec validate_delta :: "u8 list list \<Rightarrow> nat \<Rightarrow> nat list \<Rightarrow> nat list \<Rightarrow> mem \<Rightarrow> nat list \<Rightarrow> nat \<Rightarrow> nat \<Rightarrow> nat \<Rightarrow> nat \<Rightarrow> u8 list \<Rightarrow> u8 list" where
  "validate_delta gfgen nr ids ips m v i 0 j k p = p"
| "validate_delta gfgen nr ids ips m v i (Suc n) j k p =
    (if k < nr \<and> ids ! k = j then validate_delta gfgen nr ids ips m v i n (j + 1) (k + 1) p
     else let b = m (v ! j) i in
       validate_delta gfgen nr ids ips m v i n (j + 1) k
         (map (\<lambda>l. p ! l XOR raid_gfmul b (raid_A gfgen (ips ! l) j)) [0..<length p]))"

text \<open>The contribution of the reconstructed blocks to the parities from \<open>nr\<close> on.\<close>

primrec validate_rec :: "u8 list list \<Rightarrow> (nat \<Rightarrow> nat \<Rightarrow> u8) \<Rightarrow> nat \<Rightarrow> nat list \<Rightarrow> nat list \<Rightarrow> nat \<Rightarrow> u8 list \<Rightarrow> u8 list" where
  "validate_rec gfgen V nr ids ips 0 p = p"
| "validate_rec gfgen V nr ids ips (Suc j) p =
    (let p = validate_rec gfgen V nr ids ips j p;
         idj = ids ! j;
         b = recX_sum V (\<lambda>k. p ! k) j nr
     in map (\<lambda>l. if nr \<le> l then p ! l XOR raid_gfmul b (raid_A gfgen (ips ! l) idj) else p ! l) [0..<length p])"

definition validate_pos :: "u8 list list \<Rightarrow> (nat \<Rightarrow> nat \<Rightarrow> u8) \<Rightarrow> nat \<Rightarrow> nat list \<Rightarrow> nat \<Rightarrow> nat list \<Rightarrow> nat \<Rightarrow> nat list \<Rightarrow> mem \<Rightarrow> nat \<Rightarrow> bool" where
  "validate_pos gfgen V nr ids nv ips nd v m i =
    (let p = map (\<lambda>j. m (v ! (nd + ips ! j)) i) [0..<nv];
         p = validate_delta gfgen nr ids ips m v i nd 0 0 p;
         p = validate_rec gfgen V nr ids ips nr p
     in list_all (\<lambda>l. p ! l = 0) [nr..<nv])"

definition raid_validate :: "raid_state \<Rightarrow> nat \<Rightarrow> nat list \<Rightarrow> nat \<Rightarrow> nat list \<Rightarrow> nat \<Rightarrow> nat \<Rightarrow> nat list \<Rightarrow> mem \<Rightarrow> int option" where
  "raid_validate st nr ids nv ips nd sz v m =
    (if nr \<ge> nv then None
     else if 6 < nv \<or> \<not> A_access (raid_gfgen st) nr ids ips then None
     else if 0 < sz \<and> (256 < nd \<or> length v < nd \<or> length ips < nv \<or> (\<exists>l<nv. length (raid_gfgen st) \<le> ips ! l \<or> length v \<le> nd + ips ! l)) then None
     else do {
       V \<leftarrow> raid_invert (\<lambda>j k. raid_A (raid_gfgen st) (ips ! j) (ids ! k)) nr;
       Some (if list_all (validate_pos (raid_gfgen st) V nr ids nv ips nd v m) [0..<sz] then 0 else - 1)})"

definition raid_check :: "raid_state \<Rightarrow> nat \<Rightarrow> nat list \<Rightarrow> nat \<Rightarrow> nat \<Rightarrow> nat \<Rightarrow> nat list \<Rightarrow> mem \<Rightarrow> int option" where
  "raid_check st nr ir nd np sz v m =
    (if sz mod 64 \<noteq> 0 then None
     else if nr \<ge> np then None
     else if np > 6 then None
     else if length ir < nr then None
     else if index_order_bug nr ir then None
     else if nr > 0 \<and> ir ! (nr - 1) \<ge> nd + np then None
     else
       let rd = count_data nr ir nd 0;
           ip = good_parities (nr - rd) ir rd nd np 0 0 []
       in raid_validate st rd ir (length ip) ip nd sz v m)"

section \<open>Solving the equations of the lost blocks\<close>

lemma finite_gf: "finite (UNIV :: gf set)"
proof -
  have "(UNIV :: gf set) = gf_of ` UNIV" by (metis byte_of_inverse surjI)
  then show ?thesis by (metis finite finite_imageI)
qed

text \<open>A square matrix with a left inverse reaches every right-hand side, because there are finitely many vectors.\<close>

lemma left_inverse_surj:
  fixes M :: "nat \<Rightarrow> nat \<Rightarrow> gf"
  assumes V: "\<forall>i<n. \<forall>j<n. (\<Sum>l<n. gf_of (V i l) * M l j) = of_bool (i = j)"
  shows "\<exists>D. \<forall>l<n. (\<Sum>k<n. M l k * D k) = P l"
proof -
  let ?X = "PiE {..<n} (\<lambda>_. UNIV :: gf set)" and ?f = "\<lambda>x. restrict (\<lambda>l. \<Sum>k<n. M l k * x k) {..<n}"
  have "inj_on ?f ?X"
  proof (rule inj_onI)
    fix x y
    assume xy: "x \<in> ?X" "y \<in> ?X" "?f x = ?f y"
    have eq: "(\<Sum>k<n. M l k * x k) = (\<Sum>k<n. M l k * y k)" if "l < n" for l
      using fun_cong [OF xy(3), of l] that by simp
    have "x j = y j" if "j < n" for j
    proof -
      have "x j = (\<Sum>l<n. gf_of (V j l) * (\<Sum>k<n. M l k * x k))" using inverse_solves [OF V that] by simp
      also have "\<dots> = (\<Sum>l<n. gf_of (V j l) * (\<Sum>k<n. M l k * y k))" by (rule sum.cong) (simp_all add: eq)
      also have "\<dots> = y j" using inverse_solves [OF V that] by simp
      finally show ?thesis .
    qed
    then show "x = y" using xy(1,2) by (auto intro: PiE_ext)
  qed
  moreover have "finite ?X" using finite_gf by (intro finite_PiE) auto
  moreover have "?f ` ?X \<subseteq> ?X" by (rule image_subsetI) (rule restrict_PiE_iff [THEN iffD2], simp)
  ultimately have "?f ` ?X = ?X" by (intro endo_inj_surj)
  moreover have "restrict P {..<n} \<in> ?X" by (simp add: restrict_PiE_iff)
  ultimately have "restrict P {..<n} \<in> ?f ` ?X" by simp
  then obtain D where D: "restrict P {..<n} = ?f D" by (rule imageE)
  have "(\<Sum>k<n. M l k * D k) = P l" if "l < n" for l using fun_cong [OF D, of l] that by simp
  then show ?thesis by blast
qed

section \<open>One offset\<close>

lemma length_validate_delta [simp]: "length (validate_delta G nr ids ips m v i n j k p) = length p"
  by (induction n arbitrary: j k p) (simp_all add: Let_def)

lemma validate_delta_sum:
  assumes "increasing nr ids" "\<forall>q<nr. ids ! q < j \<longleftrightarrow> q < k" "l < length p"
  shows "gf_of (validate_delta G nr ids ips m v i n j k p ! l) = gf_of (p ! l) +
    (\<Sum>d\<in>{j..<j + n} - (!) ids ` {..<nr}. gf_of (raid_A G (ips ! l) d) * gf_of (m (v ! d) i))"
  using assms(2,3)
proof (induction n arbitrary: j k p)
  case (Suc n)
  let ?t = "\<lambda>d. gf_of (raid_A G (ips ! l) d) * gf_of (m (v ! d) i)" and ?F = "(!) ids ` {..<nr}"
  have split: "{j..<j + Suc n} = insert j {j + 1..<j + 1 + n}" by auto
  have ord: "ids ! a < ids ! b" if "a < b" "b < nr" for a b using assms(1) that by (simp add: increasing_def)
  show ?case
  proof (cases "k < nr \<and> ids ! k = j")
    case True
    have next_k: "\<forall>q<nr. ids ! q < j + 1 \<longleftrightarrow> q < k + 1"
    proof (intro allI impI)
      fix q
      assume q: "q < nr"
      have "ids ! q = j \<longleftrightarrow> q = k" using True q ord by (metis less_irrefl linorder_neqE_nat)
      then show "ids ! q < j + 1 \<longleftrightarrow> q < k + 1" using Suc.prems(1) q by (metis Suc_eq_plus1 less_Suc_eq)
    qed
    have "j \<in> ?F" using True by auto
    then have "{j..<j + Suc n} - ?F = {j + 1..<j + 1 + n} - ?F" unfolding split by auto
    then show ?thesis using True Suc.IH [OF next_k Suc.prems(2)] by simp
  next
    case False
    have no: "ids ! q \<noteq> j" if "q < nr" for q
    proof
      assume q: "ids ! q = j"
      then have "k \<le> q" using Suc.prems(1) that by (metis less_irrefl not_less)
      then have "k < q" using False q that by (metis le_neq_implies_less)
      then show False using ord [of k q] Suc.prems(1) q that by (metis less_irrefl order.strict_trans)
    qed
    then have next_k: "\<forall>q<nr. ids ! q < j + 1 \<longleftrightarrow> q < k" using Suc.prems(1) by (metis Suc_eq_plus1 less_Suc_eq)
    have "j \<notin> ?F" using no by auto
    then have "{j..<j + Suc n} - ?F = insert j ({j + 1..<j + 1 + n} - ?F)" unfolding split by auto
    then have "(\<Sum>d\<in>{j..<j + Suc n} - ?F. ?t d) = ?t j + (\<Sum>d\<in>{j + 1..<j + 1 + n} - ?F. ?t d)" by simp
    then show ?thesis using False Suc.prems(2)
      Suc.IH [OF next_k, of "map (\<lambda>l. p ! l XOR raid_gfmul (m (v ! j) i) (raid_A G (ips ! l) j)) [0..<length p]"]
      by (auto simp: Let_def mult.commute add.assoc)
  qed
qed simp

lemma length_validate_rec [simp]: "length (validate_rec G V nr ids ips n p) = length p"
  by (induction n) (simp_all add: Let_def)

lemma recX_sum_cong: "(\<And>k. k < n \<Longrightarrow> P k = Q k) \<Longrightarrow> recX_sum V P j n = recX_sum V Q j n"
  by (induction n) simp_all

lemma validate_rec_low: "l < nr \<Longrightarrow> l < length p \<Longrightarrow> validate_rec G V nr ids ips n p ! l = p ! l"
  by (induction n) (simp_all add: Let_def)

lemma validate_rec_high:
  assumes "nr \<le> l" "l < length p"
  shows "gf_of (validate_rec G V nr ids ips n p ! l) = gf_of (p ! l) +
    (\<Sum>j<n. gf_of (raid_A G (ips ! l) (ids ! j)) * (\<Sum>k<nr. gf_of (V j k) * gf_of (p ! k)))"
proof (induction n)
  case (Suc n)
  have "recX_sum V (\<lambda>k. validate_rec G V nr ids ips n p ! k) n nr = recX_sum V (\<lambda>k. p ! k) n nr"
    by (rule recX_sum_cong) (use assms validate_rec_low in simp)
  then show ?case using Suc assms by (simp add: Let_def recX_sum_eq mult.commute add.assoc)
qed simp

text \<open>The lost blocks of an offset can be chosen so that every intact parity holds.\<close>

definition solvable :: "u8 list list \<Rightarrow> nat \<Rightarrow> nat list \<Rightarrow> nat \<Rightarrow> nat list \<Rightarrow> nat \<Rightarrow> nat list \<Rightarrow> mem \<Rightarrow> nat \<Rightarrow> (nat \<Rightarrow> gf) \<Rightarrow> bool" where
  "solvable G nr ids nv ips nd v m i D \<longleftrightarrow> (\<forall>l<nv. gf_of (m (v ! (nd + ips ! l)) i) =
     par_without G ((!) ids ` {..<nr}) nd v m (ips ! l) i + (\<Sum>k<nr. gf_of (raid_A G (ips ! l) (ids ! k)) * D k))"

lemma gf_move: "(a :: gf) + b = c \<longleftrightarrow> a = b + c"
  by (metis add.commute add.left_commute add.right_neutral gf_self_add)

lemma validate_pos_iff:
  assumes inc: "increasing nr ids" and nv: "nr \<le> nv"
    and V: "\<forall>i<nr. \<forall>j<nr. (\<Sum>l<nr. gf_of (V i l) * gf_of (raid_A G (ips ! l) (ids ! j))) = of_bool (i = j)"
  shows "validate_pos G V nr ids nv ips nd v m i \<longleftrightarrow> (\<exists>D. solvable G nr ids nv ips nd v m i D)"
proof -
  let ?A = "\<lambda>l k. gf_of (raid_A G (ips ! l) (ids ! k))"
  let ?F = "(!) ids ` {..<nr}"
  define p where "p = validate_delta G nr ids ips m v i nd 0 0 (map (\<lambda>j. m (v ! (nd + ips ! j)) i) [0..<nv])"
  define S where "S j = (\<Sum>k<nr. gf_of (V j k) * gf_of (p ! k))" for j
  have len: "length p = nv" by (simp add: p_def)
  have p: "gf_of (p ! l) = gf_of (m (v ! (nd + ips ! l)) i) + par_without G ?F nd v m (ips ! l) i" if "l < nv" for l
    unfolding p_def using validate_delta_sum [OF inc, of 0 0 l "map (\<lambda>j. m (v ! (nd + ips ! j)) i) [0..<nv]"] that
    by (simp add: par_without_def atLeast0LessThan)
  have sol: "solvable G nr ids nv ips nd v m i D \<longleftrightarrow> (\<forall>l<nv. gf_of (p ! l) = (\<Sum>k<nr. ?A l k * D k))" for D
    unfolding solvable_def using p gf_move by simp
  have S: "S j = D j" if "\<forall>l<nr. (\<Sum>k<nr. ?A l k * D k) = gf_of (p ! l)" "j < nr" for D j
  proof -
    have "S j = (\<Sum>l<nr. gf_of (V j l) * (\<Sum>k<nr. ?A l k * D k))" unfolding S_def by (rule sum.cong) (use that in auto)
    then show ?thesis using inverse_solves [OF V that(2)] by simp
  qed
  have "validate_pos G V nr ids nv ips nd v m i \<longleftrightarrow> (\<forall>l. nr \<le> l \<longrightarrow> l < nv \<longrightarrow> gf_of (validate_rec G V nr ids ips nr p ! l) = 0)"
    unfolding validate_pos_def Let_def p_def [symmetric] by (auto simp: list_all_iff)
  also have "\<dots> \<longleftrightarrow> (\<forall>l. nr \<le> l \<longrightarrow> l < nv \<longrightarrow> gf_of (p ! l) = (\<Sum>k<nr. ?A l k * S k))"
    using validate_rec_high [of nr _ p G V ids ips nr] by (simp add: len S_def gf_add_eq_0)
  also have "\<dots> \<longleftrightarrow> (\<exists>D. \<forall>l<nv. gf_of (p ! l) = (\<Sum>k<nr. ?A l k * D k))"
  proof
    assume h: "\<forall>l. nr \<le> l \<longrightarrow> l < nv \<longrightarrow> gf_of (p ! l) = (\<Sum>k<nr. ?A l k * S k)"
    obtain D where D: "\<forall>l<nr. (\<Sum>k<nr. ?A l k * D k) = gf_of (p ! l)" using left_inverse_surj [OF V, of "\<lambda>l. gf_of (p ! l)"] by (rule exE)
    have "(\<Sum>k<nr. ?A l k * S k) = (\<Sum>k<nr. ?A l k * D k)" for l by (rule sum.cong) (use S [OF D] in auto)
    then have "\<forall>l<nv. gf_of (p ! l) = (\<Sum>k<nr. ?A l k * D k)" using h D by (metis not_less)
    then show "\<exists>D. \<forall>l<nv. gf_of (p ! l) = (\<Sum>k<nr. ?A l k * D k)" by blast
  next
    assume "\<exists>D. \<forall>l<nv. gf_of (p ! l) = (\<Sum>k<nr. ?A l k * D k)"
    then obtain D where D: "\<forall>l<nv. gf_of (p ! l) = (\<Sum>k<nr. ?A l k * D k)" by blast
    then have "\<forall>l<nr. (\<Sum>k<nr. ?A l k * D k) = gf_of (p ! l)" using nv by (metis less_le_trans)
    then have "(\<Sum>k<nr. ?A l k * S k) = (\<Sum>k<nr. ?A l k * D k)" for l by (intro sum.cong) (use S in auto)
    then show "\<forall>l. nr \<le> l \<longrightarrow> l < nv \<longrightarrow> gf_of (p ! l) = (\<Sum>k<nr. ?A l k * S k)" using D by simp
  qed
  finally show ?thesis by (simp add: sol)
qed

section \<open>The whole check\<close>

lemma increasing_inj: "increasing nr ir \<Longrightarrow> inj_on ((!) ir) {..<nr}"
  by (rule inj_onI) (metis increasing_def lessThan_iff less_irrefl linorder_neqE_nat)

text \<open>The parities that are left: those that are not listed, in order.\<close>

lemma good_parities_list:
  assumes ir: "increasing nr ir" "nr \<le> np" and rd: "rd = count_data nr ir nd 0" and ip: "ip = good_parities (nr - rd) ir rd nd np 0 0 []"
  shows "ip = filter (\<lambda>l. nd + l \<notin> (!) ir ` {..<nr}) [0..<np]"
proof -
  note f = split_failures [OF ir rd ip]
  have "ip = filter (\<lambda>l. l \<notin> failed_parity (nr - rd) ir rd nd) [0..<np]"
    unfolding ip using good_parities_spec [of "nr - rd" ir rd nd 0 0 np "[]"] ir(1) f(3) by (auto simp: not_less increasing_def)
  moreover have "l \<in> failed_parity (nr - rd) ir rd nd \<longleftrightarrow> nd + l \<in> (!) ir ` {..<nr}" for l
  proof
    assume "l \<in> failed_parity (nr - rd) ir rd nd"
    then obtain j where "j < nr - rd" "ir ! (rd + j) = nd + l" by (auto simp: failed_parity_def)
    then show "nd + l \<in> (!) ir ` {..<nr}" by (intro image_eqI [of _ _ "rd + j"]) auto
  next
    assume "nd + l \<in> (!) ir ` {..<nr}"
    then obtain k where k: "k < nr" "ir ! k = nd + l" by auto
    then have "rd \<le> k" using f(2) [of k] by (metis le_add1 not_less)
    then have "k - rd < nr - rd" "ir ! (rd + (k - rd)) = nd + l" using k by auto
    then show "l \<in> failed_parity (nr - rd) ir rd nd" unfolding failed_parity_def by blast
  qed
  ultimately show ?thesis by (simp cong: filter_cong)
qed

text \<open>A content of the listed blocks that makes the array consistent.\<close>

definition repairable :: "u8 list list \<Rightarrow> nat \<Rightarrow> nat list \<Rightarrow> nat \<Rightarrow> nat \<Rightarrow> nat \<Rightarrow> nat list \<Rightarrow> mem \<Rightarrow> bool" where
  "repairable G nr ir nd np sz v m \<longleftrightarrow> (\<exists>m0. parity_consistent G nd np sz v m0 \<and>
     (\<forall>x<nd + np. x \<notin> (!) ir ` {..<nr} \<longrightarrow> (\<forall>b < sz. m (v ! x) b = m0 (v ! x) b)))"

lemma repairable_solvable:
  assumes rd: "increasing rd ir" "\<And>k. k < rd \<Longrightarrow> ir ! k < nd" and dat: "\<And>d. d < nd \<Longrightarrow> d \<in> (!) ir ` {..<nr} \<longleftrightarrow> d \<in> (!) ir ` {..<rd}"
    and ip: "set ip = {l. l < np \<and> nd + l \<notin> (!) ir ` {..<nr}}" and v: "distinct v" "nd + np \<le> length v"
  shows "repairable G nr ir nd np sz v m \<longleftrightarrow> (\<forall>b < sz. \<exists>D. solvable G rd ir (length ip) ip nd v m b D)"
proof
  assume "repairable G nr ir nd np sz v m"
  then obtain m0 where m0: "parity_consistent G nd np sz v m0"
    "\<forall>x<nd + np. x \<notin> (!) ir ` {..<nr} \<longrightarrow> (\<forall>b < sz. m (v ! x) b = m0 (v ! x) b)" by (auto simp: repairable_def)
  have inj: "inj_on ((!) ir) {..<rd}" by (rule increasing_inj [OF rd(1)])
  have "solvable G rd ir (length ip) ip nd v m b (\<lambda>k. gf_of (m0 (v ! (ir ! k)) b))" if b: "b < sz" for b
    unfolding solvable_def
  proof (intro allI impI)
    fix l
    assume "l < length ip"
    then have l: "ip ! l < np" "nd + ip ! l \<notin> (!) ir ` {..<nr}" using nth_mem [of l ip] ip by auto
    have "par_without G ((!) ir ` {..<rd}) nd v m (ip ! l) b = par_without G ((!) ir ` {..<rd}) nd v m0 (ip ! l) b"
      unfolding par_without_def by (rule sum.cong) (use m0(2) b dat in auto)
    then show "gf_of (m (v ! (nd + ip ! l)) b) = par_without G ((!) ir ` {..<rd}) nd v m (ip ! l) b +
        (\<Sum>k<rd. gf_of (raid_A G (ip ! l) (ir ! k)) * gf_of (m0 (v ! (ir ! k)) b))"
      using m0 l b par_split [OF inj rd(2)] by (simp add: parity_consistent_def)
  qed
  then show "\<forall>b < sz. \<exists>D. solvable G rd ir (length ip) ip nd v m b D" by blast
next
  assume "\<forall>b < sz. \<exists>D. solvable G rd ir (length ip) ip nd v m b D"
  then obtain D where D: "\<And>b. b < sz \<Longrightarrow> solvable G rd ir (length ip) ip nd v m b (D b)" by metis
  have inj: "inj_on ((!) ir) {..<rd}" by (rule increasing_inj [OF rd(1)])
  define m1 where "m1 = (\<lambda>a b. if \<exists>k<rd. a = v ! (ir ! k) then byte_of (D b (THE k. k < rd \<and> a = v ! (ir ! k))) else m a b)"
  have bad: "m1 (v ! (ir ! k)) b = byte_of (D b k)" if "k < rd" for k b
  proof -
    have uniq: "j = k" if "j < rd" "v ! (ir ! k) = v ! (ir ! j)" for j
    proof -
      have "ir ! k < length v" "ir ! j < length v" using rd(2) [OF that(1)] rd(2) [OF \<open>k < rd\<close>] v(2) by linarith+
      then have "ir ! k = ir ! j" using nth_eq_iff_index_eq [OF v(1), of "ir ! k" "ir ! j"] that(2) by blast
      then show ?thesis using inj_onD [OF inj, of k j] that(1) \<open>k < rd\<close> by blast
    qed
    have "(THE j. j < rd \<and> v ! (ir ! k) = v ! (ir ! j)) = k"
      by (rule the_equality) (use that in simp, use uniq in blast)
    then show ?thesis using that by (auto simp: m1_def)
  qed
  have good: "m1 (v ! d) b = m (v ! d) b" if "d < length v" "d \<notin> (!) ir ` {..<rd}" for d b
  proof -
    have "v ! d \<noteq> v ! (ir ! k)" if "k < rd" for k
    proof
      assume e: "v ! d = v ! (ir ! k)"
      have "ir ! k < length v" using rd(2) [OF that] v(2) by linarith
      then have "d = ir ! k" using nth_eq_iff_index_eq [OF v(1) \<open>d < length v\<close>, of "ir ! k"] e by blast
      then show False using \<open>d \<notin> (!) ir ` {..<rd}\<close> that by blast
    qed
    then show ?thesis unfolding m1_def by metis
  qed
  define m0 where "m0 = gen_spec G nd np sz v m1"
  have data: "m0 (v ! d) b = m1 (v ! d) b" if "d < nd" for d b
    using gen_at_none [of np v nd "v ! d"] that v by (simp add: m0_def gen_spec_def nth_eq_iff_index_eq)
  have "m (v ! x) b = m0 (v ! x) b" if x: "x < nd + np" "x \<notin> (!) ir ` {..<nr}" and b: "b < sz" for x b
  proof (cases "x < nd")
    case True
    then show ?thesis using good [of x] data dat x v by simp
  next
    case False
    then obtain j where j: "x = nd + j" "j < np" using x(1) by (metis le_add_diff_inverse nat_add_left_cancel_less not_less)
    then obtain l where l: "l < length ip" "ip ! l = j" using ip x(2) by (metis (mono_tags, lifting) in_set_conv_nth mem_Collect_eq)
    have "par_without G ((!) ir ` {..<rd}) nd v m1 j b = par_without G ((!) ir ` {..<rd}) nd v m j b"
      unfolding par_without_def by (rule sum.cong) (use good v in auto)
    moreover have "(\<Sum>k<rd. gf_of (raid_A G j (ir ! k)) * gf_of (m1 (v ! (ir ! k)) b)) = (\<Sum>k<rd. gf_of (raid_A G j (ir ! k)) * D b k)"
      by (rule sum.cong) (simp_all add: bad byte_of_inverse)
    ultimately have "par G nd v m1 j b = gf_of (m (v ! x) b)"
      using D [OF b, unfolded solvable_def, rule_format, OF l(1)] l(2) j par_split [OF inj rd(2)] by simp
    moreover have "gen_at G nd v m1 np (v ! x) b = byte_of (par G nd v m1 j b)"
      unfolding j by (rule gen_at_last) (use j v in \<open>auto simp: nth_eq_iff_index_eq\<close>)
    ultimately show ?thesis using b by (simp add: m0_def gen_spec_def gf_of_inverse)
  qed
  moreover have "parity_consistent G nd np sz v m0" unfolding m0_def by (rule gen_spec_consistent [OF v])
  ultimately show "repairable G nr ir nd np sz v m" unfolding repairable_def by blast
qed

lemma raid_check_spec:
  assumes c: "raid_config st" "sz mod 64 = 0" "0 < nd" "nd \<le> 251" "np \<le> length (raid_gfgen st)" "distinct v" "nd + np \<le> length v"
    and ir: "increasing nr ir" "nr < np" "nr = 0 \<or> ir ! (nr - 1) < nd + np"
  shows "raid_check st nr ir nd np sz v m = Some (if repairable (raid_gfgen st) nr ir nd np sz v m then 0 else - 1)"
proof -
  let ?G = "raid_gfgen st"
  define rd where rd: "rd = count_data nr ir nd 0"
  define ip where ip: "ip = good_parities (nr - rd) ir rd nd np 0 0 []"
  have ir': "nr \<le> np" using ir(2) by simp
  note f = split_failures [OF ir(1) ir' rd ip] and ip' = good_parities_list [OF ir(1) ir' rd ip]
  have inc: "increasing rd ir" "increasing rd ip" using ir(1) f(1,5) by (auto simp: increasing_def)
  have set_ip: "set ip = {l. l < np \<and> nd + l \<notin> (!) ir ` {..<nr}}" unfolding ip' by auto
  have dat: "d \<in> (!) ir ` {..<nr} \<longleftrightarrow> d \<in> (!) ir ` {..<rd}" if "d < nd" for d
  proof
    assume "d \<in> (!) ir ` {..<nr}"
    then obtain k where k: "k < nr" "d = ir ! k" by auto
    then have "k < rd" using f(3) [of k] that by (metis not_less)
    then show "d \<in> (!) ir ` {..<rd}" using k by auto
  qed (use f(1) in auto)
  have len6: "np \<le> 6" using c(5) raid_config_selected [OF c(1)] by (auto simp: raid_selected_def length_matrices)
  have lip: "length ip \<le> np" unfolding ip' using length_filter_le [of _ "[0..<np]"] by simp
  have "card (set ip) \<ge> np - (nr - rd)"
  proof -
    have "{..<np} - (\<lambda>k. ir ! k - nd) ` {rd..<nr} \<subseteq> set ip"
    proof
      fix l
      assume l: "l \<in> {..<np} - (\<lambda>k. ir ! k - nd) ` {rd..<nr}"
      have "nd + l \<noteq> ir ! k" if "k < nr" for k
      proof (cases "k < rd")
        case False
        then have "ir ! k - nd \<noteq> l" using l that by force
        then show ?thesis by auto
      qed (use f(2) in fastforce)
      then show "l \<in> set ip" using l set_ip by auto
    qed
    then have "card ({..<np} - (\<lambda>k. ir ! k - nd) ` {rd..<nr}) \<le> card (set ip)" by (intro card_mono) auto
    moreover have "card ((\<lambda>k. ir ! k - nd) ` {rd..<nr}) \<le> nr - rd" using card_image_le [of "{rd..<nr}"] by simp
    ultimately show ?thesis using diff_card_le_card_Diff [of "(\<lambda>k. ir ! k - nd) ` {rd..<nr}" "{..<np}"] by simp
  qed
  then have lrd: "rd < length ip" using ir(2) f(1) card_length [of ip] by linarith
  have ipb: "ip ! l < np" if "l < length ip" for l using nth_mem [OF that] set_ip by auto
  obtain V where V: "raid_invert (\<lambda>j k. raid_A ?G (ip ! j) (ir ! k)) rd = Some V"
    "\<forall>i<rd. \<forall>j<rd. (\<Sum>l<rd. gf_of (V i l) * gf_of (raid_A ?G (ip ! l) (ir ! j))) = of_bool (i = j)"
  proof -
    have "ir ! k < 251 \<and> ip ! k < length ?G" if "k < rd" for k using f(2,6) [OF that] c(4,5) by simp
    then show thesis using regular_submatrix [OF c(1) inc] that by blast
  qed
  have "ip ! k < length ?G \<and> ir ! k < 256" if "k < rd" for k using f(2,6) [OF that] c(4,5) by simp
  then have A: "A_access ?G rd ir ip" using inc by (simp add: A_access_def increasing_def)
  have "raid_validate st rd ir (length ip) ip nd sz v m =
      Some (if list_all (validate_pos ?G V rd ir (length ip) ip nd v m) [0..<sz] then 0 else - 1)"
  proof -
    have "\<not> (length ?G \<le> ip ! l \<or> length v \<le> nd + ip ! l)" if "l < length ip" for l using ipb [OF that] c(5,7) by simp
    then have "\<not> (\<exists>l<length ip. length ?G \<le> ip ! l \<or> length v \<le> nd + ip ! l)" by blast
    then show ?thesis unfolding raid_validate_def using lrd lip len6 A V(1) c(4,7) by simp
  qed
  moreover have "list_all (validate_pos ?G V rd ir (length ip) ip nd v m) [0..<sz] \<longleftrightarrow> repairable ?G nr ir nd np sz v m"
    using repairable_solvable [OF inc(1) f(2) dat set_ip c(6,7)] validate_pos_iff [OF inc(1) less_imp_le [OF lrd] V(2)]
    by (auto simp: list_all_iff)
  moreover have "\<not> (nr > 0 \<and> ir ! (nr - 1) \<ge> nd + np)" "\<not> length ir < nr" "\<not> index_order_bug nr ir"
    using ir increasing_no_bug [OF ir(1)] by (auto simp: increasing_def)
  ultimately show ?thesis unfolding raid_check_def Let_def rd [symmetric] ip [symmetric] using c(2) ir(2) len6 by simp
qed

section \<open>Properties\<close>

text \<open>C16. The check for failed blocks is exact: with one parity to spare, \<^verbatim>\<open>raid_check\<close> fails no assertion, answers 0 when there is
  a content of the listed blocks (data or parity) that makes the whole array consistent, and -1 otherwise.\<close>

theorem raid_check_correct:
  assumes "raid_config st" "sz mod 64 = 0" "0 < nd" "nd \<le> 251" "np \<le> length (raid_gfgen st)" "distinct v" "nd + np \<le> length v"
    and "increasing nr ir" "nr < np" "nr = 0 \<or> ir ! (nr - 1) < nd + np"
  shows "raid_check st nr ir nd np sz v m = Some (if \<exists>m0. parity_consistent (raid_gfgen st) nd np sz v m0 \<and>
      (\<forall>x<nd + np. x \<notin> (!) ir ` {..<nr} \<longrightarrow> (\<forall>b < sz. m (v ! x) b = m0 (v ! x) b)) then 0 else - 1)"
  using raid_check_spec [OF assms] unfolding repairable_def .

text \<open>One bad data block, found to be repairable.\<close>

theorem raid_check_correct_witness:
  "raid_check ex_state 1 [0] 2 2 64 [10, 11, 12, 13] (ex_good(10 := (\<lambda>b. 99))) = Some 0"
proof -
  have st: "raid_config ex_state" "length (raid_gfgen ex_state) = 6"
    using ex_array_ok [of ex_good] ex_good_facts(2)
    by (simp_all add: array_ok_def) (simp add: ex_state_def raid_zero_def raid_init_def raid_init_int_def raid_mode_def Let_def length_matrices)
  have "\<forall>x<2 + 2. x \<notin> (!) [0] ` {..<1} \<longrightarrow>
      (\<forall>b < 64. (ex_good(10 := (\<lambda>b. 99))) ([10, 11, 12, 13] ! x) b = ex_good ([10, 11, 12, 13] ! x) b)"
    by (auto simp: less_Suc_eq numeral_eq_Suc)
  then have "\<exists>m0. parity_consistent (raid_gfgen ex_state) 2 2 64 [10, 11, 12, 13] m0 \<and> (\<forall>x<2 + 2. x \<notin> (!) [0] ` {..<1} \<longrightarrow>
      (\<forall>b < 64. (ex_good(10 := (\<lambda>b. 99))) ([10, 11, 12, 13] ! x) b = m0 ([10, 11, 12, 13] ! x) b))"
    using ex_good_facts(1) by blast
  then show ?thesis
    using raid_check_correct [of ex_state 64 2 2 "[10, 11, 12, 13]" 1 "[0]" "ex_good(10 := (\<lambda>b. 99))"] st by (simp add: increasing_def)
qed

end
