(* ===== verification/Raid_Scan.thy ===== *)
theory Raid_Scan
  imports Raid_Check
begin

text \<open>
  The search for failed blocks (\<^verbatim>\<open>raid_scan\<close> of \<^verbatim>\<open>raid/check.c\<close>) with the enumeration of combinations of
  \<^verbatim>\<open>raid/combo.h\<close>.

  The main result: the search ends, and finds a smallest set of blocks whose replacement makes the array
  consistent, when there is one with fewer blocks than parities.
\<close>

section \<open>Definitions\<close>

definition combination_first :: "nat \<Rightarrow> nat \<Rightarrow> nat list \<Rightarrow> nat list option" where
  "combination_first r n c = (if \<not> (0 < r \<and> r \<le> n) \<or> length c < r then None else Some ([0..<r] @ drop r c))"

text \<open>The part of \<^verbatim>\<open>combination_next\<close> up to the end of the \<^verbatim>\<open>goto\<close> loop: whether a position could be increased, which one,
  and the vector.\<close>

primrec combination_up :: "nat \<Rightarrow> nat \<Rightarrow> nat list \<Rightarrow> bool \<times> nat \<times> nat list" where
  "combination_up 0 h c =
    (let c = c[0 := c ! 0 + 1] in if c ! 0 \<ge> h then (False, 0, c) else (True, 0, c))"
| "combination_up (Suc i) h c =
    (let c = c[Suc i := c ! Suc i + 1] in if c ! Suc i \<ge> h then combination_up i (h - 1) c else (True, Suc i, c))"

primrec combination_fill :: "nat \<Rightarrow> nat \<Rightarrow> nat list \<Rightarrow> nat list" where
  "combination_fill 0 i c = c"
| "combination_fill (Suc n) i c = combination_fill n (i + 1) (c[i := c ! (i - 1) + 1])"

definition combination_next :: "nat \<Rightarrow> nat \<Rightarrow> nat list \<Rightarrow> bool \<times> nat list" where
  "combination_next r n c =
    (let (more, i, c) = combination_up (r - 1) n c in
     if more then (True, combination_fill (r - (i + 1)) (i + 1) c) else (False, c))"

text \<open>The loop over the combinations of one size; \<^verbatim>\<open>None\<close> is a failed assertion or a loop that does not end.\<close>

partial_function (option) scan_combinations ::
  "raid_state \<Rightarrow> nat \<Rightarrow> nat \<Rightarrow> nat \<Rightarrow> nat \<Rightarrow> nat list \<Rightarrow> mem \<Rightarrow> nat list \<Rightarrow> (bool \<times> nat list) option" where
  "scan_combinations st r nd np sz v m ir =
    (case raid_check st r ir nd np sz v m of
       None \<Rightarrow> None
     | Some x \<Rightarrow>
       if x = 0 then Some (True, ir)
       else let (more, ir) = combination_next r (nd + np) ir in
         if more then scan_combinations st r nd np sz v m ir else Some (False, ir))"

primrec scan_sizes :: "raid_state \<Rightarrow> nat \<Rightarrow> nat \<Rightarrow> nat \<Rightarrow> nat list \<Rightarrow> mem \<Rightarrow> nat \<Rightarrow> nat \<Rightarrow> nat list \<Rightarrow> (int \<times> nat list) option" where
  "scan_sizes st nd np sz v m 0 r ir = Some (- 1, ir)"
| "scan_sizes st nd np sz v m (Suc k) r ir =
    (case combination_first r (nd + np) ir of
       None \<Rightarrow> None
     | Some ir \<Rightarrow>
       case scan_combinations st r nd np sz v m ir of
         None \<Rightarrow> None
       | Some (found, ir) \<Rightarrow> if found then Some (int r, ir) else scan_sizes st nd np sz v m k (r + 1) ir)"

definition raid_scan :: "raid_state \<Rightarrow> nat list \<Rightarrow> nat \<Rightarrow> nat \<Rightarrow> nat \<Rightarrow> nat list \<Rightarrow> mem \<Rightarrow> (int \<times> nat list) option" where
  "raid_scan st ir nd np sz v m =
    (if np \<noteq> 0 then
       case raid_check st 0 [] nd np sz v m of
         None \<Rightarrow> None
       | Some x \<Rightarrow> if x = 0 then Some (0, ir) else scan_sizes st nd np sz v m (np - 1) 1 ir
     else scan_sizes st nd np sz v m (np - 1) 1 ir)"

section \<open>The enumeration of combinations\<close>

definition combination :: "nat \<Rightarrow> nat \<Rightarrow> nat list \<Rightarrow> bool" where
  "combination r n c \<longleftrightarrow> increasing r c \<and> (\<forall>k<r. c ! k < n)"

text \<open>The entries of a combination leave room for those that follow.\<close>

lemma combination_gap:
  assumes "increasing r c" "i + d < r"
  shows "c ! i + d \<le> c ! (i + d)"
  using assms(2)
proof (induction d)
  case (Suc d)
  then have "c ! (i + d) < c ! (i + Suc d)" using assms(1) by (simp add: increasing_def)
  then show ?case using Suc by simp
qed simp

lemma combination_room:
  assumes "combination r n c" "i < r"
  shows "c ! i + r \<le> n + i"
proof -
  have "c ! i + (r - 1 - i) \<le> c ! (i + (r - 1 - i))" using assms by (intro combination_gap) (auto simp: combination_def)
  moreover have "i + (r - 1 - i) = r - 1" "c ! (r - 1) < n" using assms by (auto simp: combination_def)
  ultimately show ?thesis using assms(2) by simp
qed

text \<open>The last position that is not at its maximum.\<close>

definition last_free :: "nat \<Rightarrow> nat \<Rightarrow> nat list \<Rightarrow> nat \<Rightarrow> bool" where
  "last_free r n c p \<longleftrightarrow> p < r \<and> c ! p + r < n + p \<and> (\<forall>j. p < j \<longrightarrow> j < r \<longrightarrow> c ! j + r = n + j)"

lemma combination_up_spec:
  assumes c: "combination r n c" and i: "i < r" and max: "\<forall>j. i < j \<longrightarrow> j < r \<longrightarrow> c ! j + r = n + j"
    and b: "length b = length c" "\<forall>j\<le>i. b ! j = c ! j" "\<forall>j\<ge>r. j < length c \<longrightarrow> b ! j = c ! j" and h: "h + r = n + i + 1"
  shows "(case combination_up i h b of
      (True, p, b') \<Rightarrow> last_free r n c p \<and> length b' = length c \<and> (\<forall>j<p. b' ! j = c ! j) \<and> b' ! p = c ! p + 1
    | (False, p, b') \<Rightarrow> length b' = length c \<and> (\<forall>j<r. c ! j + r = n + j))"
  using i max b h
proof (induction i arbitrary: h b)
  case 0
  have "r \<le> length c" using c by (simp add: combination_def increasing_def)
  then have "0 < length b" "b ! 0 = c ! 0" using "0.prems"(1,3,4) by auto
  then have b0: "b[0 := b ! 0 + 1] ! 0 = c ! 0 + 1" by simp
  have all: "\<forall>j<r. c ! j + r = n + j" if "c ! 0 + 1 \<ge> h"
  proof (intro allI impI)
    fix j
    assume "j < r"
    then show "c ! j + r = n + j" using 0 combination_room [OF c, of 0] that by (cases "j = 0") auto
  qed
  show ?case unfolding combination_up.simps Let_def b0 using 0 all b0 by (simp add: last_free_def)
next
  case (Suc i)
  have len: "r \<le> length c" using c by (simp add: combination_def increasing_def)
  show ?case
  proof (cases "c ! Suc i + 1 \<ge> h")
    case True
    then have "c ! Suc i + r = n + Suc i" using combination_room [OF c Suc.prems(1)] Suc.prems(6) by simp
    then have "\<forall>j. i < j \<longrightarrow> j < r \<longrightarrow> c ! j + r = n + j" using Suc.prems(2) by (metis Suc_lessI)
    moreover have "h - 1 + r = n + i + 1" using Suc.prems(1,6) combination_room [OF c Suc.prems(1)] by simp
    ultimately show ?thesis using Suc.IH [of "b[Suc i := c ! Suc i + 1]" "h - 1"] Suc.prems True len by (simp add: Let_def)
  next
    case False
    then have "last_free r n c (Suc i)" using Suc.prems by (simp add: last_free_def)
    then show ?thesis using False Suc.prems len by (simp add: Let_def)
  qed
qed

lemma combination_fill_spec:
  assumes "i + n \<le> length c" "0 < i"
  shows "length (combination_fill n i c) = length c \<and> (\<forall>j<i. combination_fill n i c ! j = c ! j) \<and>
    (\<forall>d<n. combination_fill n i c ! (i + d) = c ! (i - 1) + 1 + d)"
  using assms
proof (induction n arbitrary: i c)
  case (Suc n)
  let ?c = "c[i := c ! (i - 1) + 1]"
  have IH: "length (combination_fill n (i + 1) ?c) = length c" "\<And>j. j < i + 1 \<Longrightarrow> combination_fill n (i + 1) ?c ! j = ?c ! j"
    "\<And>d. d < n \<Longrightarrow> combination_fill n (i + 1) ?c ! (i + 1 + d) = ?c ! i + 1 + d"
    using Suc.IH [of "i + 1" ?c] Suc.prems by auto
  have "combination_fill n (i + 1) ?c ! (i + d) = c ! (i - 1) + 1 + d" if "d < Suc n" for d
  proof (cases d)
    case 0
    then show ?thesis using IH(2) [of i] Suc.prems by simp
  next
    case (Suc e)
    then show ?thesis using IH(3) [of e] that Suc.prems \<open>i + Suc n \<le> length c\<close> by simp
  qed
  then show ?case using IH(1,2) by simp
qed simp

lemma combination_next_spec:
  assumes c: "combination r n c" and r: "0 < r" "r \<le> n"
  shows "(\<exists>p c'. last_free r n c p \<and> combination_next r n c = (True, c') \<and> length c' = length c \<and> (\<forall>j<p. c' ! j = c ! j) \<and>
      (\<forall>j. p \<le> j \<longrightarrow> j < r \<longrightarrow> c' ! j = c ! p + 1 + (j - p))) \<or>
    (\<exists>c'. combination_next r n c = (False, c') \<and> length c' = length c \<and> (\<forall>j<r. c ! j + r = n + j))"
proof -
  have len: "r \<le> length c" using c by (simp add: combination_def increasing_def)
  obtain more p b where u: "combination_up (r - 1) n c = (more, p, b)" by (rule prod_cases3)
  have s: "case (more, p, b) of
      (True, p, b') \<Rightarrow> last_free r n c p \<and> length b' = length c \<and> (\<forall>j<p. b' ! j = c ! j) \<and> b' ! p = c ! p + 1
    | (False, p, b') \<Rightarrow> length b' = length c \<and> (\<forall>j<r. c ! j + r = n + j)"
    unfolding u [symmetric] by (rule combination_up_spec [OF c]) (use r in auto)
  show ?thesis
  proof (cases more)
    case False
    then show ?thesis using s u by (simp add: combination_next_def)
  next
    case True
    then have p: "last_free r n c p" "length b = length c" "\<forall>j<p. b ! j = c ! j" "b ! p = c ! p + 1" using s by auto
    have "p < r" using p(1) by (simp add: last_free_def)
    define c' where "c' = combination_fill (r - (p + 1)) (p + 1) b"
    have f: "length c' = length b" "\<forall>j<p + 1. c' ! j = b ! j" "\<forall>d<r - (p + 1). c' ! (p + 1 + d) = b ! p + 1 + d"
      using combination_fill_spec [of "p + 1" "r - (p + 1)" b] p(2) len \<open>p < r\<close> unfolding c'_def by auto
    have "c' ! j = c ! p + 1 + (j - p)" if "p \<le> j" "j < r" for j
    proof (cases "j = p")
      case False
      then have "p + 1 + (j - (p + 1)) = j" "j - (p + 1) < r - (p + 1)" using that by auto
      then have "c' ! j = b ! p + 1 + (j - (p + 1))" using f(3) by metis
      then show ?thesis using p(4) False that by simp
    qed (use f(2) p(4) in simp)
    moreover have "combination_next r n c = (True, c')" using u True by (simp add: combination_next_def c'_def)
    ultimately show ?thesis using p f(1,2) by auto
  qed
qed

text \<open>The lexicographic order of the first \<open>r\<close> entries; the next combination is the least one above.\<close>

definition lex_below :: "nat \<Rightarrow> nat list \<Rightarrow> nat list \<Rightarrow> bool" where
  "lex_below r c d \<longleftrightarrow> (\<exists>p<r. (\<forall>j<p. c ! j = d ! j) \<and> c ! p < d ! p)"

lemma lex_cases: "lex_below r c d \<or> lex_below r d c \<or> (\<forall>j<r. c ! j = d ! j)"
proof (cases "\<forall>j<r. c ! j = d ! j")
  case False
  then obtain p where p: "p < r \<and> c ! p \<noteq> d ! p" "\<And>j. j < p \<Longrightarrow> \<not> (j < r \<and> c ! j \<noteq> d ! j)"
    using exists_least_iff [of "\<lambda>j. j < r \<and> c ! j \<noteq> d ! j"] by blast
  have "c ! j = d ! j" if "j < p" for j using p(2) [OF that] p(1) that by linarith
  moreover have "c ! p < d ! p \<or> d ! p < c ! p" "p < r" using p(1) by linarith+
  ultimately show ?thesis unfolding lex_below_def by (metis (no_types, lifting))
qed simp

lemma lex_irrefl: "\<not> lex_below r c c"
  by (simp add: lex_below_def)

lemma lex_trans:
  assumes "lex_below r a b" "lex_below r b c"
  shows "lex_below r a c"
proof -
  obtain p where p: "p < r" "\<forall>j<p. a ! j = b ! j" "a ! p < b ! p" using assms(1) by (auto simp: lex_below_def)
  obtain q where q: "q < r" "\<forall>j<q. b ! j = c ! j" "b ! q < c ! q" using assms(2) by (auto simp: lex_below_def)
  have eq: "a ! j = c ! j" if "j < p" "j < q" for j using p(2) [rule_format, OF that(1)] q(2) [rule_format, OF that(2)] by (rule trans)
  consider "p < q" | "p = q" | "q < p" by linarith
  then show ?thesis
  proof cases
    case 1
    then have "a ! p < c ! p" using p(3) q(2) [rule_format, of p] by linarith
    moreover have "\<forall>j<p. a ! j = c ! j" using eq 1 less_trans by blast
    ultimately show ?thesis unfolding lex_below_def using p(1) by blast
  next
    case 2
    then have "a ! p < c ! p" using p(3) q(3) by simp
    moreover have "\<forall>j<p. a ! j = c ! j" using eq 2 by blast
    ultimately show ?thesis unfolding lex_below_def using p(1) by blast
  next
    case 3
    then have "a ! q < c ! q" using q(3) p(2) [rule_format, of q] by linarith
    moreover have "\<forall>j<q. a ! j = c ! j" using eq 3 less_trans by blast
    ultimately show ?thesis unfolding lex_below_def using q(1) by blast
  qed
qed

lemma combination_next_combination:
  assumes c: "combination r n c" and p: "last_free r n c p" and c': "length c' = length c" "\<forall>j<p. c' ! j = c ! j"
    "\<forall>j. p \<le> j \<longrightarrow> j < r \<longrightarrow> c' ! j = c ! p + 1 + (j - p)"
  shows "combination r n c'" "lex_below r c c'"
proof -
  have p': "p < r" "c ! p + r < n + p" using p by (simp_all add: last_free_def)
  have inc: "c ! k < c ! l" if "k < l" "l < r" for k l using c that by (simp add: combination_def increasing_def)
  have "c' ! k < c' ! l" if "k < l" "l < r" for k l
  proof (cases "l < p")
    case True
    then show ?thesis using c'(2) inc that by simp
  next
    case False
    then have l: "c' ! l = c ! p + 1 + (l - p)" using c'(3) that by simp
    show ?thesis
    proof (cases "k < p")
      case True
      then show ?thesis using c'(2) inc [of k p] p'(1) l by simp
    next
      case False
      then have "c' ! k = c ! p + 1 + (k - p)" using c'(3) that by simp
      then show ?thesis using l that False by simp
    qed
  qed
  moreover have "c' ! k < n" if "k < r" for k
  proof (cases "k < p")
    case True
    then show ?thesis using c c'(2) that by (simp add: combination_def)
  next
    case False
    then have "c' ! k = c ! p + 1 + (k - p)" using c'(3) that by simp
    then show ?thesis using p' that False by simp
  qed
  ultimately show "combination r n c'" using c c'(1) by (simp add: combination_def increasing_def)
  have "c' ! p = c ! p + 1" using c'(3) p'(1) by simp
  then show "lex_below r c c'" unfolding lex_below_def using c'(2) p'(1) by (intro exI [of _ p]) simp
qed

lemma combination_next_least:
  assumes c: "combination r n c" and d: "combination r n d" "lex_below r c d" and p: "last_free r n c p"
    and c': "\<forall>j<p. c' ! j = c ! j" "\<forall>j. p \<le> j \<longrightarrow> j < r \<longrightarrow> c' ! j = c ! p + 1 + (j - p)"
  shows "\<not> lex_below r d c'"
proof
  assume "lex_below r d c'"
  then obtain q where q: "q < r" "\<forall>j<q. d ! j = c' ! j" "d ! q < c' ! q" by (auto simp: lex_below_def)
  obtain e where e: "e < r" "\<forall>j<e. c ! j = d ! j" "c ! e < d ! e" using d(2) by (auto simp: lex_below_def)
  have "c ! e + r < n + e" using e(3) combination_room [OF d(1) e(1)] by simp
  then have "e \<le> p" using p e(1) by (metis last_free_def less_irrefl not_less)
  show False
  proof (cases "q < e")
    case True
    then have "d ! q = c ! q" "c' ! q = c ! q" using e(2) c'(1) \<open>e \<le> p\<close> by auto
    then show False using q(3) by simp
  next
    case False
    show False
    proof (cases "e < p")
      case True
      then have "c' ! e = c ! e" using c'(1) by simp
      then show False using False q e by (metis less_irrefl not_less_iff_gr_or_eq order.asym)
    next
      case False
      then have "e = p" using \<open>e \<le> p\<close> by simp
      have "p \<le> q" using \<open>\<not> q < e\<close> \<open>e = p\<close> by simp
      then have "d ! p + (q - p) \<le> d ! q" using combination_gap [of r d p "q - p"] d(1) q(1) by (simp add: combination_def)
      moreover have "c' ! q = c ! p + 1 + (q - p)" using c'(2) \<open>p \<le> q\<close> q(1) by simp
      ultimately show False using q(3) e(3) \<open>e = p\<close> by simp
    qed
  qed
qed

lemma combination_last:
  assumes c: "combination r n c" "\<forall>j<r. c ! j + r = n + j" and d: "combination r n d"
  shows "\<not> lex_below r c d"
proof
  assume "lex_below r c d"
  then obtain e where e: "e < r" "c ! e < d ! e" by (auto simp: lex_below_def)
  then show False using c(2) combination_room [OF d e(1)] by (metis add_less_cancel_right less_le_trans less_irrefl)
qed

lemma combination_least:
  assumes "combination r n d"
  shows "\<not> lex_below r d ([0..<r] @ c)"
proof
  assume "lex_below r d ([0..<r] @ c)"
  then obtain e where e: "e < r" "d ! e < e" by (auto simp: lex_below_def nth_append)
  then show False using combination_gap [of r d 0 e] assms by (simp add: combination_def)
qed

section \<open>The search\<close>

lemma repairable_cong:
  "(\<forall>j<r. c ! j = d ! j) \<Longrightarrow> repairable G r c nd np sz v m \<longleftrightarrow> repairable G r d nd np sz v m"
proof -
  assume "\<forall>j<r. c ! j = d ! j"
  then have "(!) c ` {..<r} = (!) d ` {..<r}" by (intro image_cong) auto
  then show ?thesis by (simp add: repairable_def)
qed

definition scan_pre :: "raid_state \<Rightarrow> nat \<Rightarrow> nat \<Rightarrow> nat \<Rightarrow> nat list \<Rightarrow> bool" where
  "scan_pre st nd np sz v \<longleftrightarrow> raid_config st \<and> sz mod 64 = 0 \<and> 0 < nd \<and> nd \<le> 251 \<and> np \<le> length (raid_gfgen st) \<and>
    distinct v \<and> nd + np \<le> length v"

lemma scan_check:
  assumes "scan_pre st nd np sz v" "combination r (nd + np) ir" "r < np"
  shows "raid_check st r ir nd np sz v m = Some (if repairable (raid_gfgen st) r ir nd np sz v m then 0 else - 1)"
  using assms by (intro raid_check_spec; cases "r = 0") (auto simp: scan_pre_def combination_def)

text \<open>The combinations not below a given one; the search goes through them.\<close>

definition from_here :: "nat \<Rightarrow> nat \<Rightarrow> nat list \<Rightarrow> nat list set" where
  "from_here r n c = {d. length d = r \<and> combination r n d \<and> \<not> lex_below r d c}"

lemma finite_from_here: "finite (from_here r n c)"
proof (rule finite_subset)
  show "from_here r n c \<subseteq> {d. set d \<subseteq> {..<n} \<and> length d = r}" by (auto simp: from_here_def combination_def in_set_conv_nth)
  show "finite {d. set d \<subseteq> {..<n} \<and> length d = r}" by (rule finite_lists_length_eq) simp
qed

lemma from_here_next:
  assumes "combination r n c" "lex_below r c c'"
  shows "from_here r n c' \<subset> from_here r n c"
proof -
  have "take r c \<in> from_here r n c" "take r c \<notin> from_here r n c'"
    using assms lex_irrefl [of r c] by (auto simp: from_here_def combination_def increasing_def lex_below_def)
  moreover have "from_here r n c' \<subseteq> from_here r n c" using assms(2) lex_trans by (auto simp: from_here_def)
  ultimately show ?thesis by blast
qed

lemma scan_combinations_spec:
  assumes pre: "scan_pre st nd np sz v" and r: "0 < r" "r < np" and c: "combination r (nd + np) ir"
    and none: "\<And>d. combination r (nd + np) d \<Longrightarrow> lex_below r d ir \<Longrightarrow> \<not> repairable (raid_gfgen st) r d nd np sz v m"
  shows "\<exists>found ir'. scan_combinations st r nd np sz v m ir = Some (found, ir') \<and> length ir' = length ir \<and>
    (if found then combination r (nd + np) ir' \<and> repairable (raid_gfgen st) r ir' nd np sz v m
     else \<forall>d. combination r (nd + np) d \<longrightarrow> \<not> repairable (raid_gfgen st) r d nd np sz v m)"
  using c none
proof (induction "card (from_here r (nd + np) ir)" arbitrary: ir rule: less_induct)
  case less
  let ?G = "raid_gfgen st" and ?n = "nd + np"
  note check = scan_check [OF pre less.prems(1) r(2), of m]
  note step = scan_combinations.simps [of st r nd np sz v m ir]
  show ?case
  proof (cases "repairable ?G r ir nd np sz v m")
    case True
    then have "scan_combinations st r nd np sz v m ir = Some (True, ir)" unfolding step by (simp add: check)
    then show ?thesis using less.prems(1) True by auto
  next
    case False
    have upto: "\<not> repairable ?G r d nd np sz v m" if "combination r ?n d" "\<not> lex_below r ir d" for d
      using less.prems(2) that lex_cases [of r d ir] repairable_cong [of r d ir] False by blast
    have rn: "r \<le> ?n" using r(2) by simp
    from combination_next_spec [OF less.prems(1) r(1) rn] show ?thesis
    proof (elim disjE exE conjE)
      fix p c'
      assume p: "last_free r ?n ir p" and nx: "combination_next r ?n ir = (True, c')" and c': "length c' = length ir" "\<forall>j<p. c' ! j = ir ! j"
        "\<forall>j. p \<le> j \<longrightarrow> j < r \<longrightarrow> c' ! j = ir ! p + 1 + (j - p)"
      note n = combination_next_combination [OF less.prems(1) p c']
      have below: "\<not> repairable ?G r d nd np sz v m" if "combination r ?n d" "lex_below r d c'" for d
        using upto that combination_next_least [OF less.prems(1) that(1) _ p c'(2,3)] by blast
      have "card (from_here r ?n c') < card (from_here r ?n ir)"
        using from_here_next [OF less.prems(1) n(2)] finite_from_here by (rule psubset_card_mono [rotated])
      from less.hyps [OF this n(1) below] show ?thesis unfolding step using False nx c'(1) by (simp add: check)
    next
      fix c'
      assume nx: "combination_next r ?n ir = (False, c')" "length c' = length ir" "\<forall>j<r. ir ! j + r = ?n + j"
      have "\<not> repairable ?G r d nd np sz v m" if "combination r ?n d" for d
        using upto that combination_last [OF less.prems(1) nx(3) that] by blast
      then show ?thesis unfolding step using False nx(1,2) by (intro exI [of _ False]) (simp add: check)
    qed
  qed
qed

definition none_repairable :: "raid_state \<Rightarrow> nat \<Rightarrow> nat \<Rightarrow> nat \<Rightarrow> nat list \<Rightarrow> mem \<Rightarrow> nat \<Rightarrow> bool" where
  "none_repairable st nd np sz v m r \<longleftrightarrow> (\<forall>d. combination r (nd + np) d \<longrightarrow> \<not> repairable (raid_gfgen st) r d nd np sz v m)"

lemma scan_sizes_spec:
  assumes pre: "scan_pre st nd np sz v" and "0 < r" "r + k = np" "np \<le> Suc (length ir)"
  shows "\<exists>ret ir'. scan_sizes st nd np sz v m k r ir = Some (ret, ir') \<and>
    (ret = - 1 \<and> (\<forall>q. r \<le> q \<longrightarrow> q < np \<longrightarrow> none_repairable st nd np sz v m q) \<or>
     (\<exists>s. ret = int s \<and> r \<le> s \<and> s < np \<and> combination s (nd + np) ir' \<and> repairable (raid_gfgen st) s ir' nd np sz v m \<and>
       (\<forall>q. r \<le> q \<longrightarrow> q < s \<longrightarrow> none_repairable st nd np sz v m q)))"
  using assms(2-)
proof (induction k arbitrary: r ir)
  case (Suc k)
  let ?c = "[0..<r] @ drop r ir"
  have r: "r < np" "r \<le> length ir" using Suc.prems by simp_all
  have first: "combination_first r (nd + np) ir = Some ?c" using Suc.prems r by (simp add: combination_first_def)
  have c: "combination r (nd + np) ?c" using r by (auto simp: combination_def increasing_def nth_append)
  obtain found ir1 where s: "scan_combinations st r nd np sz v m ?c = Some (found, ir1)" "length ir1 = length ?c"
    "if found then combination r (nd + np) ir1 \<and> repairable (raid_gfgen st) r ir1 nd np sz v m else none_repairable st nd np sz v m r"
    using scan_combinations_spec [OF pre Suc.prems(1) r(1) c] combination_least unfolding none_repairable_def by blast
  show ?case
  proof (cases found)
    case True
    then show ?thesis using first s r by auto
  next
    case False
    then have n: "none_repairable st nd np sz v m r" using s(3) by simp
    have "scan_sizes st nd np sz v m (Suc k) r ir = scan_sizes st nd np sz v m k (r + 1) ir1" using first s(1) False by simp
    moreover have "np \<le> Suc (length ir1)" using s(2) r(2) Suc.prems(3) by simp
    ultimately obtain ret ir' where IH: "scan_sizes st nd np sz v m (Suc k) r ir = Some (ret, ir')"
      "ret = - 1 \<and> (\<forall>q. r + 1 \<le> q \<longrightarrow> q < np \<longrightarrow> none_repairable st nd np sz v m q) \<or>
       (\<exists>s. ret = int s \<and> r + 1 \<le> s \<and> s < np \<and> combination s (nd + np) ir' \<and> repairable (raid_gfgen st) s ir' nd np sz v m \<and>
         (\<forall>q. r + 1 \<le> q \<longrightarrow> q < s \<longrightarrow> none_repairable st nd np sz v m q))"
      using Suc.IH [of "r + 1" ir1] Suc.prems(2) by auto
    have ext: "none_repairable st nd np sz v m q" if "r \<le> q" "r + 1 \<le> q \<longrightarrow> none_repairable st nd np sz v m q" for q
      using that n by (cases "q = r") auto
    from IH(2) show ?thesis
    proof (elim disjE exE conjE)
      assume "ret = - 1" "\<forall>q. r + 1 \<le> q \<longrightarrow> q < np \<longrightarrow> none_repairable st nd np sz v m q"
      then show ?thesis using IH(1) ext by blast
    next
      fix s
      assume "ret = int s" "r + 1 \<le> s" "s < np" "combination s (nd + np) ir'" "repairable (raid_gfgen st) s ir' nd np sz v m"
        "\<forall>q. r + 1 \<le> q \<longrightarrow> q < s \<longrightarrow> none_repairable st nd np sz v m q"
      moreover have "r \<le> s" using \<open>r + 1 \<le> s\<close> by simp
      ultimately show ?thesis using IH(1) ext by blast
    qed
  qed
qed auto

lemma raid_scan_spec:
  assumes pre: "scan_pre st nd np sz v" and np: "0 < np" "np \<le> Suc (length ir)"
  shows "\<exists>ret ir'. raid_scan st ir nd np sz v m = Some (ret, ir') \<and>
    (ret = - 1 \<and> (\<forall>q < np. none_repairable st nd np sz v m q) \<or>
     (\<exists>s. ret = int s \<and> s < np \<and> combination s (nd + np) ir' \<and> repairable (raid_gfgen st) s ir' nd np sz v m \<and>
       (\<forall>q < s. none_repairable st nd np sz v m q)))"
proof -
  have e: "combination 0 (nd + np) d" "repairable (raid_gfgen st) 0 d nd np sz v m \<longleftrightarrow> repairable (raid_gfgen st) 0 [] nd np sz v m" for d
    by (simp_all add: combination_def increasing_def repairable_def)
  note check = scan_check [OF pre e(1) np(1), of "[]" m]
  show ?thesis
  proof (cases "repairable (raid_gfgen st) 0 [] nd np sz v m")
    case True
    then have "raid_scan st ir nd np sz v m = Some (0, ir)" using np check by (simp add: raid_scan_def)
    then show ?thesis using True e np(1) by auto
  next
    case False
    then have 0: "none_repairable st nd np sz v m 0" using e by (auto simp: none_repairable_def)
    have run: "raid_scan st ir nd np sz v m = scan_sizes st nd np sz v m (np - 1) 1 ir" using np check False by (simp add: raid_scan_def)
    have ext: "none_repairable st nd np sz v m q" if "1 \<le> q \<longrightarrow> none_repairable st nd np sz v m q" for q
      using that 0 by (cases "q = 0") auto
    obtain ret ir' where r: "scan_sizes st nd np sz v m (np - 1) 1 ir = Some (ret, ir')"
      "ret = - 1 \<and> (\<forall>q. 1 \<le> q \<longrightarrow> q < np \<longrightarrow> none_repairable st nd np sz v m q) \<or>
       (\<exists>s. ret = int s \<and> 1 \<le> s \<and> s < np \<and> combination s (nd + np) ir' \<and> repairable (raid_gfgen st) s ir' nd np sz v m \<and>
         (\<forall>q. 1 \<le> q \<longrightarrow> q < s \<longrightarrow> none_repairable st nd np sz v m q))"
      using scan_sizes_spec [OF pre, of 1 "np - 1" ir m] np by auto
    from r(2) show ?thesis unfolding run r(1) using ext by (elim disjE exE conjE) blast+
  qed
qed

section \<open>Properties\<close>

text \<open>C17. The search for failed blocks ends and fails no assertion.  It answers -1 exactly when no set of fewer blocks than there
  are parities can be replaced so that the array becomes consistent; otherwise the number it answers is the size of a smallest such
  set, and the vector holds one of that size, in increasing order.\<close>

theorem raid_scan_correct:
  assumes "raid_config st" "sz mod 64 = 0" "0 < nd" "nd \<le> 251" "0 < np" "np \<le> length (raid_gfgen st)" "distinct v" "nd + np \<le> length v"
    and "np \<le> Suc (length ir)"
  shows "\<exists>ret ir'. raid_scan st ir nd np sz v m = Some (ret, ir') \<and>
    (ret = - 1 \<and> (\<forall>q d. q < np \<longrightarrow> combination q (nd + np) d \<longrightarrow> \<not> repairable (raid_gfgen st) q d nd np sz v m) \<or>
     (\<exists>s. ret = int s \<and> s < np \<and> combination s (nd + np) ir' \<and> repairable (raid_gfgen st) s ir' nd np sz v m \<and>
       (\<forall>q d. q < s \<longrightarrow> combination q (nd + np) d \<longrightarrow> \<not> repairable (raid_gfgen st) q d nd np sz v m)))"
proof -
  have "scan_pre st nd np sz v" using assms by (simp add: scan_pre_def)
  then show ?thesis using raid_scan_spec [OF _ assms(5,9), of st nd sz v m] unfolding none_repairable_def by blast
qed

theorem raid_scan_correct_witness:
  "\<exists>ret ir'. raid_scan ex_state [7] 2 2 64 [10, 11, 12, 13] (ex_good(10 := (\<lambda>b. 99))) = Some (ret, ir') \<and>
    (ret = - 1 \<and> (\<forall>q d. q < 2 \<longrightarrow> combination q (2 + 2) d \<longrightarrow>
        \<not> repairable (raid_gfgen ex_state) q d 2 2 64 [10, 11, 12, 13] (ex_good(10 := (\<lambda>b. 99)))) \<or>
     (\<exists>s. ret = int s \<and> s < 2 \<and> combination s (2 + 2) ir' \<and>
       repairable (raid_gfgen ex_state) s ir' 2 2 64 [10, 11, 12, 13] (ex_good(10 := (\<lambda>b. 99))) \<and>
       (\<forall>q d. q < s \<longrightarrow> combination q (2 + 2) d \<longrightarrow>
         \<not> repairable (raid_gfgen ex_state) q d 2 2 64 [10, 11, 12, 13] (ex_good(10 := (\<lambda>b. 99))))))"
  using ex_array_ok [of ex_good] ex_good_facts(2) by (intro raid_scan_correct) (simp_all add: array_ok_def)

end
