(* ===== verification/Raid_Combo.thy ===== *)
theory Raid_Combo
  imports Main
begin

text \<open>
  The enumeration of permutations with repetition of \<^verbatim>\<open>raid/combo.h\<close>.  A vector of \<open>r\<close> elements below \<open>n\<close> is a number of
  \<open>r\<close> digits; a step adds one to it, so that the enumeration visits every vector once.  Combinations without repetition
  are in the theory of the search that uses them.
\<close>

section \<open>Definitions\<close>

definition permutation_first :: "nat \<Rightarrow> nat \<Rightarrow> nat list \<Rightarrow> nat list option" where
  "permutation_first r n c = (if \<not> (0 < r \<and> r \<le> n) \<or> length c < r then None else Some (replicate r 0 @ drop r c))"

text \<open>The part of \<^verbatim>\<open>permutation_next\<close> up to the end of the \<^verbatim>\<open>goto\<close> loop: whether a position could be increased, which one,
  and the vector.\<close>

primrec permutation_up :: "nat \<Rightarrow> nat \<Rightarrow> nat list \<Rightarrow> bool \<times> nat \<times> nat list" where
  "permutation_up 0 n c =
    (let c = c[0 := c ! 0 + 1] in if c ! 0 \<ge> n then (False, 0, c) else (True, 0, c))"
| "permutation_up (Suc i) n c =
    (let c = c[Suc i := c ! Suc i + 1] in if c ! Suc i \<ge> n then permutation_up i n c else (True, Suc i, c))"

primrec permutation_fill :: "nat \<Rightarrow> nat \<Rightarrow> nat list \<Rightarrow> nat list" where
  "permutation_fill 0 i c = c"
| "permutation_fill (Suc k) i c = permutation_fill k (i + 1) (c[i := 0])"

definition permutation_next :: "nat \<Rightarrow> nat \<Rightarrow> nat list \<Rightarrow> bool \<times> nat list" where
  "permutation_next r n c =
    (let (more, i, c) = permutation_up (r - 1) n c in
     if more then (True, permutation_fill (r - (i + 1)) (i + 1) c) else (False, c))"

section \<open>A step adds one\<close>

primrec digits_val :: "nat \<Rightarrow> nat \<Rightarrow> nat list \<Rightarrow> nat" where
  "digits_val n 0 c = 0"
| "digits_val n (Suc k) c = digits_val n k c * n + c ! k"

lemma digits_val_cong: "(\<And>j. j < k \<Longrightarrow> c ! j = d ! j) \<Longrightarrow> digits_val n k c = digits_val n k d"
  by (induction k) auto

lemma length_permutation_fill [simp]: "length (permutation_fill k i c) = length c"
  by (induction k arbitrary: i c) auto

lemma permutation_fill_nth:
  "i + k \<le> length c \<Longrightarrow> j < length c \<Longrightarrow> permutation_fill k i c ! j = (if i \<le> j \<and> j < i + k then 0 else c ! j)"
  by (induction k arbitrary: i c) (auto simp: nth_list_update)

lemma permutation_up_spec:
  assumes "i < length b" "\<forall>j\<le>i. b ! j < n"
  shows "(case permutation_up i n b of
      (True, p, b') \<Rightarrow> p \<le> i \<and> length b' = length b \<and> b ! p + 1 < n \<and> (\<forall>j<length b. j < p \<or> i < j \<longrightarrow> b' ! j = b ! j) \<and>
        b' ! p = b ! p + 1 \<and> (\<forall>j. p < j \<and> j \<le> i \<longrightarrow> b ! j + 1 = n)
    | (False, p, b') \<Rightarrow> length b' = length b \<and> (\<forall>j\<le>i. b ! j + 1 = n))"
  using assms
proof (induction i arbitrary: b)
  case 0
  then show ?case by (auto simp: Let_def)
next
  case (Suc i)
  let ?b = "b[Suc i := b ! Suc i + 1]"
  show ?case
  proof (cases "b ! Suc i + 1 \<ge> n")
    case True
    have IH: "case permutation_up i n ?b of
      (True, p, b') \<Rightarrow> p \<le> i \<and> length b' = length ?b \<and> ?b ! p + 1 < n \<and> (\<forall>j<length ?b. j < p \<or> i < j \<longrightarrow> b' ! j = ?b ! j) \<and>
        b' ! p = ?b ! p + 1 \<and> (\<forall>j. p < j \<and> j \<le> i \<longrightarrow> ?b ! j + 1 = n)
    | (False, p, b') \<Rightarrow> length b' = length ?b \<and> (\<forall>j\<le>i. ?b ! j + 1 = n)"
      using Suc.prems by (intro Suc.IH) (auto simp: nth_list_update)
    have top: "b ! Suc i + 1 = n" using True Suc.prems by (metis Suc_eq_plus1 Suc_leI le_antisym order_refl)
    have up: "permutation_up (Suc i) n b = permutation_up i n ?b" using True Suc.prems(1) by (simp add: Let_def)
    show ?thesis unfolding up using IH top Suc.prems(1)
      by (auto simp: nth_list_update le_Suc_eq split: prod.splits bool.splits)
  next
    case False
    then show ?thesis using Suc.prems by (auto simp: Let_def)
  qed
qed

lemma digits_val_max: "\<forall>j<k. c ! j + 1 = n \<Longrightarrow> digits_val n k c + 1 = n ^ k"
proof (induction k)
  case (Suc k)
  then have e: "digits_val n k c + 1 = n ^ k" "c ! k + 1 = n" by simp_all
  have "digits_val n (Suc k) c + 1 = digits_val n k c * n + (c ! k + 1)" by simp
  also have "\<dots> = (digits_val n k c + 1) * n" by (simp only: e(2) add_mult_distrib mult_1)
  finally show ?case unfolding e(1) by simp
qed simp

lemma digits_val_carry:
  assumes "digits_val n (Suc p) d = digits_val n (Suc p) c + 1" "\<forall>j. p < j \<and> j < Suc p + k \<longrightarrow> c ! j + 1 = n \<and> d ! j = 0"
  shows "digits_val n (Suc p + k) d = digits_val n (Suc p + k) c + 1"
  using assms(2)
proof (induction k)
  case 0
  then show ?case using assms(1) by simp
next
  case (Suc k)
  then have "digits_val n (Suc p + k) d = digits_val n (Suc p + k) c + 1" by simp
  moreover have "c ! (Suc p + k) + 1 = n" "d ! (Suc p + k) = 0" using Suc.prems by auto
  moreover have "digits_val n (Suc p + Suc k) e = digits_val n (Suc p + k) e * n + e ! (Suc p + k)" for e by simp
  ultimately show ?case by (simp only: add_mult_distrib)
qed

text \<open>A step adds one to the number that the vector denotes, and keeps the elements below \<open>n\<close>; it reports the end exactly at the
  greatest number.\<close>

lemma permutation_next_adds_one:
  assumes "0 < r" "r \<le> length c" "\<forall>j<r. c ! j < n" "permutation_next r n c = (more, d)"
  shows "length d = length c \<and> (if more then digits_val n r d = digits_val n r c + 1 \<and> (\<forall>j<r. d ! j < n) \<and> drop r d = drop r c
    else digits_val n r c + 1 = n ^ r)"
proof -
  obtain f p b where u: "permutation_up (r - 1) n c = (f, p, b)" by (metis prod_cases3)
  have S: "case (f, p, b) of
      (True, p, b') \<Rightarrow> p \<le> r - 1 \<and> length b' = length c \<and> c ! p + 1 < n \<and> (\<forall>j<length c. j < p \<or> r - 1 < j \<longrightarrow> b' ! j = c ! j) \<and>
        b' ! p = c ! p + 1 \<and> (\<forall>j. p < j \<and> j \<le> r - 1 \<longrightarrow> c ! j + 1 = n)
    | (False, p, b') \<Rightarrow> length b' = length c \<and> (\<forall>j\<le>r - 1. c ! j + 1 = n)"
    using permutation_up_spec [of "r - 1" c n] assms(1-3) unfolding u by auto
  show ?thesis
  proof (cases f)
    case False
    then have "\<not> more" "d = b" using assms(4) u by (auto simp: permutation_next_def)
    moreover have "\<forall>j<r. c ! j + 1 = n" using S False by auto
    ultimately show ?thesis using digits_val_max [of r c n] S False by simp
  next
    case True
    have d: "more" "d = permutation_fill (r - (p + 1)) (p + 1) b" using assms(4) u True by (auto simp: permutation_next_def)
    have P: "p < r" "length b = length c" "c ! p + 1 < n" "b ! p = c ! p + 1" "\<And>j. j < p \<Longrightarrow> b ! j = c ! j"
      "\<And>j. r \<le> j \<Longrightarrow> j < length c \<Longrightarrow> b ! j = c ! j" "\<And>j. p < j \<Longrightarrow> j < r \<Longrightarrow> c ! j + 1 = n"
      using S True assms(1,2) by auto
    have nth: "d ! j = (if p < j \<and> j < r then 0 else b ! j)" if "j < length c" for j
      unfolding d(2) using that P(1,2) assms(2) by (subst permutation_fill_nth) auto
    have "digits_val n p d = digits_val n p c" by (rule digits_val_cong) (use nth P assms(2) in auto)
    then have "digits_val n (Suc p) d = digits_val n (Suc p) c + 1" using nth [of p] P assms(2) by simp
    then have "digits_val n (Suc p + (r - Suc p)) d = digits_val n (Suc p + (r - Suc p)) c + 1"
      by (rule digits_val_carry) (use nth P assms(2) in auto)
    moreover have "d ! j < n" if "j < r" for j using nth [of j] P assms(2,3) that by (cases j p rule: linorder_cases) auto
    moreover have "drop r d = drop r c" using nth P d(2) by (intro nth_equalityI) auto
    ultimately show ?thesis using P(1,2) d by simp
  qed
qed

lemma permutation_first_zero: "0 < r \<Longrightarrow> r \<le> n \<Longrightarrow> r \<le> length c \<Longrightarrow>
    \<exists>d. permutation_first r n c = Some d \<and> length d = length c \<and> digits_val n r d = 0 \<and> drop r d = drop r c"
proof -
  assume a: "0 < r" "r \<le> n" "r \<le> length c"
  have "k \<le> r \<Longrightarrow> digits_val n k (replicate r 0 @ drop r c) = 0" for k by (induction k) (auto simp: nth_append)
  then show ?thesis using a by (auto simp: permutation_first_def)
qed

end
