(* ===== verification/Raid_Helper.thy ===== *)
theory Raid_Helper
  imports Main "HOL-Library.Multiset"
begin

text \<open>
  The small vectors of \<^verbatim>\<open>raid/helper.c\<close>: the sorting networks of \<^verbatim>\<open>raid_sort\<close> for up to six elements, and the
  insertion into a sorted vector.  The networks are verified by the zero-one principle.
\<close>

section \<open>Sorted vectors of indices\<close>

definition raid_swap :: "nat \<Rightarrow> nat \<Rightarrow> 'a::linorder list \<Rightarrow> 'a list" where
  "raid_swap a b v = (if v ! a > v ! b then v[a := v ! b, b := v ! a] else v)"

definition raid_sort :: "nat \<Rightarrow> 'a::linorder list \<Rightarrow> 'a list" where
  "raid_sort n v =
    (if n = 2 then raid_swap 0 1 v
     else if n = 3 then raid_swap 1 2 (raid_swap 0 1 (raid_swap 0 2 v))
     else if n = 4 then raid_swap 1 2 (raid_swap 2 3 (raid_swap 0 1 (raid_swap 1 3 (raid_swap 0 2 v))))
     else if n = 5 then raid_swap 3 4 (raid_swap 1 2 (raid_swap 1 4 (raid_swap 2 3 (raid_swap 0 1
       (raid_swap 2 4 (raid_swap 1 3 (raid_swap 0 2 (raid_swap 0 4 v))))))))
     else if n = 6 then raid_swap 3 4 (raid_swap 1 2 (raid_swap 1 4 (raid_swap 4 5 (raid_swap 2 3 (raid_swap 0 1
       (raid_swap 3 5 (raid_swap 2 4 (raid_swap 1 3 (raid_swap 0 2 (raid_swap 1 5 (raid_swap 0 4 v)))))))))))
     else v)"

primrec insert_loop :: "nat \<Rightarrow> int list \<Rightarrow> int list" where
  "insert_loop 0 v = v"
| "insert_loop (Suc n) v = (if v ! n > v ! Suc n then insert_loop n (v[n := v ! Suc n, Suc n := v ! n]) else v)"

definition raid_insert :: "nat \<Rightarrow> int list \<Rightarrow> int \<Rightarrow> int list option" where
  "raid_insert n v i = (if length v \<le> n then None else Some (insert_loop n (v[n := i])))"

lemma length_raid_swap [simp]: "length (raid_swap a b v) = length v"
  by (simp add: raid_swap_def)

lemma mset_raid_swap: "a < length v \<Longrightarrow> b < length v \<Longrightarrow> mset (raid_swap a b v) = mset v"
  by (simp add: raid_swap_def mset_swap)

text \<open>A comparator commutes with monotone functions, so the network sorts everything if it sorts the lists of truth values.\<close>

lemma map_raid_swap:
  assumes "mono f" "a < length v" "b < length v"
  shows "map f (raid_swap a b v) = raid_swap a b (map f v)"
proof (cases "f (v ! a) > f (v ! b)")
  case True
  then have "v ! a > v ! b" using monoD [OF assms(1), of "v ! a" "v ! b"] by (meson leD not_le)
  then show ?thesis using True assms(2,3) by (simp add: raid_swap_def map_update)
next
  case False
  show ?thesis
  proof (cases "v ! a > v ! b")
    case True
    then have "f (v ! a) = f (v ! b)" using False monoD [OF assms(1), of "v ! b" "v ! a"] by simp
    then show ?thesis using True False assms(2,3) by (auto simp: raid_swap_def map_update nth_list_update intro!: nth_equalityI)
  qed (use False assms in \<open>simp add: raid_swap_def\<close>)
qed

lemma map_raid_sort: "mono f \<Longrightarrow> length v = n \<Longrightarrow> map f (raid_sort n v) = raid_sort n (map f v)"
  by (simp add: raid_sort_def map_raid_swap)

lemma mset_raid_sort: "length v = n \<Longrightarrow> mset (raid_sort n v) = mset v"
  by (simp add: raid_sort_def mset_raid_swap)

lemma raid_swap_simps:
  "raid_swap 0 (Suc b) (x # v) = (if v ! b < x then v ! b # v[b := x] else x # v)"
  "raid_swap (Suc a) (Suc b) (x # v) = x # raid_swap a b v"
  by (auto simp: raid_swap_def)

lemma raid_sort_bools_all:
  fixes a b c d e f :: bool
  shows "sorted (raid_sort 2 [a, b])" "sorted (raid_sort 3 [a, b, c])" "sorted (raid_sort 4 [a, b, c, d])"
    "sorted (raid_sort 5 [a, b, c, d, e])" "sorted (raid_sort 6 [a, b, c, d, e, f])"
  by (cases a; cases b; cases c; cases d; cases e; cases f; simp add: raid_sort_def raid_swap_simps numeral_eq_Suc)+

lemma raid_sort_bools:
  assumes "length (v :: bool list) = n" "n \<le> 6"
  shows "sorted (raid_sort n v)"
proof -
  consider "n \<le> 1" | "n = 2" | "n = 3" | "n = 4" | "n = 5" | "n = 6" using assms(2) by linarith
  then show ?thesis
  proof cases
    case 1
    then have "sorted v" using assms(1) by (cases v) auto
    then show ?thesis using 1 by (simp add: raid_sort_def)
  next
    case 2
    then obtain a b where "v = [a, b]" using assms(1) by (auto simp: length_Suc_conv numeral_eq_Suc)
    then show ?thesis using raid_sort_bools_all(1) 2 by blast
  next
    case 3
    then obtain a b c where "v = [a, b, c]" using assms(1) by (auto simp: length_Suc_conv numeral_eq_Suc)
    then show ?thesis using raid_sort_bools_all(2) 3 by blast
  next
    case 4
    then obtain a b c d where "v = [a, b, c, d]" using assms(1) by (auto simp: length_Suc_conv numeral_eq_Suc)
    then show ?thesis using raid_sort_bools_all(3) 4 by blast
  next
    case 5
    then obtain a b c d e where "v = [a, b, c, d, e]" using assms(1) by (auto simp: length_Suc_conv numeral_eq_Suc)
    then show ?thesis using raid_sort_bools_all(4) 5 by blast
  next
    case 6
    then obtain a b c d e f where "v = [a, b, c, d, e, f]" using assms(1) by (auto simp: length_Suc_conv numeral_eq_Suc)
    then show ?thesis using raid_sort_bools_all(5) 6 by blast
  qed
qed

lemma raid_sort_spec:
  assumes "length v = n" "n \<le> 6"
  shows "raid_sort n v = sort v"
proof (rule properties_for_sort [symmetric])
  show "mset (raid_sort n v) = mset v" by (rule mset_raid_sort [OF assms(1)])
  show "sorted (raid_sort n v)"
  proof (rule ccontr)
    let ?w = "raid_sort n v"
    assume "\<not> sorted ?w"
    then obtain i j where ij: "i \<le> j" "j < length ?w" "\<not> ?w ! i \<le> ?w ! j" unfolding sorted_iff_nth_mono by blast
    let ?f = "\<lambda>x. ?w ! j < x"
    have "mono ?f" by (rule monoI) (auto dest: less_le_trans)
    then have "map ?f ?w = raid_sort n (map ?f v)" by (rule map_raid_sort [OF _ assms(1)])
    then have "sorted (map ?f ?w)" using raid_sort_bools [of "map ?f v" n] assms by simp
    then have "map ?f ?w ! i \<le> map ?f ?w ! j" using ij(1,2) sorted_nth_mono [of "map ?f ?w" i j] by simp
    then show False using ij by (simp add: not_le)
  qed
qed

text \<open>All elements but the one at position \<open>n\<close> are in order, and it is not above those that follow.\<close>

lemma insert_loop_sorted:
  assumes "n < length v" "\<And>i j. i < j \<Longrightarrow> j < length v \<Longrightarrow> i \<noteq> n \<Longrightarrow> j \<noteq> n \<Longrightarrow> v ! i \<le> v ! j"
    "\<And>j. n < j \<Longrightarrow> j < length v \<Longrightarrow> v ! n \<le> v ! j"
  shows "sorted (insert_loop n v) \<and> mset (insert_loop n v) = mset v"
  using assms
proof (induction n arbitrary: v)
  case 0
  then have "v ! i \<le> v ! j" if "i < j" "j < length v" for i j using that by (cases "i = 0") auto
  then show ?case by (simp add: sorted_iff_nth_mono_less)
next
  case (Suc n)
  show ?case
  proof (cases "v ! n > v ! Suc n")
    case False
    have "v ! i \<le> v ! j" if "i < j" "j < length v" for i j
    proof (cases "j = Suc n")
      case True
      then have "v ! i \<le> v ! n" using Suc.prems(2) [of i n] that by (cases "i = n") auto
      then show ?thesis using False True by simp
    qed (use Suc.prems(2,3) that in \<open>cases "i = Suc n"; simp\<close>)
    then show ?thesis using False by (simp add: sorted_iff_nth_mono_less)
  next
    case True
    let ?w = "v[n := v ! Suc n, Suc n := v ! n]"
    have w: "?w ! k = (if k = n then v ! Suc n else if k = Suc n then v ! n else v ! k)" for k
      using Suc.prems(1) by (simp add: nth_list_update)
    have "sorted (insert_loop n ?w) \<and> mset (insert_loop n ?w) = mset ?w"
    proof (rule Suc.IH)
      show "n < length ?w" using Suc.prems(1) by simp
      show "?w ! i \<le> ?w ! j" if "i < j" "j < length ?w" "i \<noteq> n" "j \<noteq> n" for i j
        using that Suc.prems(2) [of i j] Suc.prems(2) [of i n] Suc.prems(2) [of n j] Suc.prems(1) unfolding w by auto
      show "?w ! n \<le> ?w ! j" if "n < j" "j < length ?w" for j
        using that True Suc.prems(3) [of j] unfolding w by auto
    qed
    moreover have "mset ?w = mset v" using Suc.prems(1) by (simp add: mset_swap)
    ultimately show ?thesis using True by simp
  qed
qed

section \<open>Properties\<close>

text \<open>The sorting networks of \<^verbatim>\<open>raid_sort\<close> sort every vector of up to six elements.\<close>

theorem raid_sort_sorts:
  fixes v :: "int list"
  assumes "length v \<le> 6"
  shows "raid_sort (length v) v = sort v"
  by (rule raid_sort_spec [OF refl assms])

theorem raid_sort_sorts_witness:
  "raid_sort (length [5, 3, 9, -1, 3, 0 :: int]) [5, 3, 9, -1, 3, 0] = sort [5, 3, 9, -1, 3, 0 :: int]"
  by (rule raid_sort_sorts) simp

text \<open>Inserting into a sorted vector with room for one more element gives the sorted vector of the old elements and the new one.\<close>

theorem raid_insert_sorted:
  assumes "length v = Suc n" "sorted (take n v)"
  shows "\<exists>w. raid_insert n v i = Some w \<and> sorted w \<and> mset w = add_mset i (mset (take n v))"
proof -
  have o: "v ! a \<le> v ! b" if "a < b" "b < n" for a b
    using sorted_nth_mono [OF assms(2), of a b] that assms(1) by simp
  have "sorted (insert_loop n (v[n := i])) \<and> mset (insert_loop n (v[n := i])) = mset (v[n := i])"
    by (rule insert_loop_sorted) (use assms(1) o in \<open>auto simp: less_Suc_eq\<close>)
  moreover have "v[n := i] = take n v @ [i]" using assms(1) by (simp add: upd_conv_take_nth_drop)
  ultimately show ?thesis using assms(1) by (simp add: raid_insert_def)
qed

theorem raid_insert_sorted_witness:
  "\<exists>w. raid_insert 2 [4, 8, 0] 5 = Some w \<and> sorted w \<and> mset w = add_mset 5 (mset (take 2 [4, 8, 0]))"
  by (rule raid_insert_sorted) simp_all

end
