(* ===== verification/Spec2Isabelle.thy ===== *)
theory Spec2Isabelle
  imports Bch_Prelude Bitops Varint Bpos Bkey_Format Bkey_Pos Fifo Eytzinger_Order Eytzinger Eytzinger_Sort Util Nocow_Lock Seq_Blacklist Raid_Field Raid_Gf Raid_Matrix Raid_Mds Raid_Gen Raid_Rec Raid_Check Raid_Scan Raid_Combo Raid_Helper
begin

text \<open>
  \<^bold>\<open>A verification of parts of bcachefs-tools.\<close>

  bcachefs-tools is the user-space side of the bcachefs file system: the file system code itself (\<^verbatim>\<open>fs/\<close>), a shim that
  provides kernel services in user space (\<^verbatim>\<open>linux/\<close>, \<^verbatim>\<open>include/\<close>), an erasure coding library (\<^verbatim>\<open>raid/\<close>) and the command
  line tools (\<^verbatim>\<open>c_src/\<close>, \<^verbatim>\<open>src/\<close>).  The file system code is built on a layer of self-contained data structures and
  codecs; this development verifies from the bottom of that layer upwards, and the erasure coding library as a whole.

  \<^bold>\<open>Conventions.\<close>  Machine integers are words of their width, so that wrap-around is the one of C.  A C array is a list
  or, for blocks of memory, a function from addresses and offsets.  Operations that can fail return an option or a sum; \<^verbatim>\<open>None\<close>
  stands for undefined behaviour (an access outside an array, a shift by too much), for a failed assertion (\<^verbatim>\<open>BUG_ON\<close>, \<^verbatim>\<open>assert\<close>)
  and for a loop that does not end.  A theorem that an operation returns \<^verbatim>\<open>Some\<close> therefore excludes all of these.  Names of the
  definitions are those of the source; names with a leading double underscore have the prefix \<^verbatim>\<open>raw_\<close>.

  \<^bold>\<open>Data structures and codecs.\<close>
  \<^item> \<^verbatim>\<open>Bch_Prelude\<close>: the library: bit lengths and trailing zeros of numbers and words, byte buffers, little-endian words, comparison
    functions and the orders they define.
  \<^item> \<^verbatim>\<open>Bitops\<close> (\<^verbatim>\<open>include/linux/bitops.h\<close>, \<^verbatim>\<open>log2.h\<close>): bit scans by binary search and roundings to powers of two, related to the
    functions of the prelude.
  \<^item> \<^verbatim>\<open>Varint\<close> (\<^verbatim>\<open>fs/util/varint.c\<close>): the four routines on byte buffers.  Decoding inverts encoding, never reads past the end, and
    the fast variants agree with the bounded ones.
  \<^item> \<^verbatim>\<open>Bpos\<close> (\<^verbatim>\<open>fs/btree/bkey.h\<close>, \<^verbatim>\<open>bbpos.h\<close>): the comparisons of positions are the order of 160-bit numbers; successors and
    predecessors are the neighbours.
  \<^item> \<^verbatim>\<open>Bkey_Format\<close> (\<^verbatim>\<open>fs/btree/bkey.c\<close>, \<^verbatim>\<open>bkey.h\<close>): packed keys as little-endian words, with the bit-stream state machines that pack and
    unpack fields, repacking, and the construction and validation of formats.  Packing and unpacking are inverse, a format made from
    keys packs them, and validation accepts exactly the formats whose fields stay in range; the other results are for these.
  \<^item> \<^verbatim>\<open>Bkey_Pos\<close> (\<^verbatim>\<open>fs/btree/bkey.c\<close>, \<^verbatim>\<open>bkey_cmp.h\<close>, \<^verbatim>\<open>bset.h\<close>): the constants of a node, the fast routines that read and write fields with
    unaligned accesses, which may touch the word before the key, packing of positions, and comparisons of packed keys.  The fast
    routines agree with the slow ones; rounding down gives the greatest position that can be represented; the order of the bits is the order of positions.
  \<^item> \<^verbatim>\<open>Fifo\<close> (\<^verbatim>\<open>fs/util/fifo.h\<close>): ring buffers with wrapping indices of any width refine bounded double-ended queues.
  \<^item> \<^verbatim>\<open>Eytzinger_Order\<close>, \<^verbatim>\<open>Eytzinger\<close>, \<^verbatim>\<open>Eytzinger_Sort\<close> (\<^verbatim>\<open>fs/util/eytzinger.h\<close>, \<^verbatim>\<open>eytzinger.c\<close>): the theory of the in-order rank of a
    node, the index arithmetic, traversals and searches, and the heapsort that works through in-order indices.
  \<^item> \<^verbatim>\<open>Util\<close> (\<^verbatim>\<open>fs/util/util.h\<close>): word copies, insertion and removal in arrays, gap buffers, bubble sort, little-endian bitmaps.

  \<^bold>\<open>The journal sequence blacklist\<close> (\<^verbatim>\<open>Seq_Blacklist\<close>, \<^verbatim>\<open>fs/journal/seq_blacklist.c\<close>).  The state is the superblock field with the sorted
  ranges and the lookup table, an eytzinger array.  Adding a range refines the union of sets of sequence numbers; the
  lookups answer for the set; collection keeps what is needed; each error path occurs exactly in its case and leaves a state the caller can go on with.  The theory
  uses the searches and the sort of the eytzinger theories and the array helpers of \<^verbatim>\<open>Util\<close>.

  \<^bold>\<open>The bucket locks of nocow writes\<close> (\<^verbatim>\<open>Nocow_Lock\<close>, \<^verbatim>\<open>fs/data/nocow_locking.c\<close>).  The state is the hash table of lock buckets with
  their wait lists (\<^verbatim>\<open>fs/vendor/closure.c\<close>); a history of callers taking and releasing locks, waiting and waking up is an inductive relation
  between tables and the collection of locks held.  Update and copy locks exclude each other, and a failed attempt on a key releases what it took.
  \<^verbatim>\<open>bch2_bkey_nocow_lock\<close> is a program with a program counter; its steps interleave with those of other holders, which change a count and
  then wake up waiters.  By an invariant that no wake-up is lost, and a rank that every step lowers, a caller that waits gets its locks when the others release theirs.
  The order of locking does not exclude that two callers block each other, which one theorem shows.

  \<^bold>\<open>The RAID library\<close> (\<^verbatim>\<open>raid/\<close>).
  \<^item> \<^verbatim>\<open>Raid_Field\<close>: the bytes with exclusive or and multiplication modulo the polynomial 0x11d are a field; the tables of
    inverses and of powers of \<^verbatim>\<open>tables.c\<close> as literals, checked entry by entry.
  \<^item> \<^verbatim>\<open>Raid_Mul0\<close> to \<^verbatim>\<open>Raid_Mul3\<close>: the multiplication table of \<^verbatim>\<open>tables.c\<close> as a literal, in blocks of 16 rows; every one of its
    65536 entries is the product of its indices.
  \<^item> \<^verbatim>\<open>Raid_Gf\<close> (\<^verbatim>\<open>gf.h\<close>): the field operations, and the operations that double or halve all bytes of a word at once.
  \<^item> \<^verbatim>\<open>Raid_Matrix\<close> (\<^verbatim>\<open>tables.c\<close>, \<^verbatim>\<open>raid_invert\<close>): the two generator matrices as literals and Gauss elimination without
    pivoting, which succeeds when the leading submatrices are regular.
  \<^item> \<^verbatim>\<open>Raid_Mds\<close>: the locale \<^verbatim>\<open>mds_matrix\<close> states what the library relies on: any rows are independent on as many columns.  It is
    interpreted for the Cauchy matrix (six parities) and the power matrix (three), for up to 251 disks.
  \<^item> \<^verbatim>\<open>Raid_Gen\<close> (\<^verbatim>\<open>int.c\<close>, \<^verbatim>\<open>intz.c\<close>, \<^verbatim>\<open>module.c\<close>, \<^verbatim>\<open>raid.c\<close>): memory, all generators, their selection, and \<^verbatim>\<open>raid_gen\<close>; every
    generator equals the reference, also when a block stands at several places of
    the vector.  Different blocks are disjoint in the model of memory.
  \<^item> \<^verbatim>\<open>Raid_Rec\<close>: \<^verbatim>\<open>raid_delta_gen\<close> with its exchange of pointers, the recovery routines, \<^verbatim>\<open>raid_rec\<close> and \<^verbatim>\<open>raid_data\<close>, which
    restore any lost blocks, at most as many as there are parities.
  \<^item> \<^verbatim>\<open>Raid_Check\<close>, \<^verbatim>\<open>Raid_Scan\<close> (\<^verbatim>\<open>check.c\<close>, \<^verbatim>\<open>combo.h\<close>): the check whether given blocks can be the bad ones is exact; the search
    over all combinations ends and finds a smallest set.
  \<^item> \<^verbatim>\<open>Raid_Combo\<close> (\<^verbatim>\<open>combo.h\<close>): the enumeration of permutations with repetition counts through the numbers of \<open>r\<close> digits.
  \<^item> \<^verbatim>\<open>Raid_Helper\<close> (\<^verbatim>\<open>helper.c\<close>): the sorting networks, by the zero-one principle, and insertion into a sorted vector.

  \<^bold>\<open>Bounds.\<close>  The eytzinger operations are verified for fewer than \<open>2\<^sup>3\<^sup>0\<close> elements, above which the searches shift by the width
  of the word.  The nocow locks are verified for keys of at most six pointers, the number that the code warns about, and
  waiting for fewer locks than the signed count of 32 bits can hold; the others only release while the caller waits.  The RAID results are for 1 to 251 data blocks (\<^verbatim>\<open>RAID_DATA_MAX\<close>) and sizes that are multiples of 64, which the entry
  points insist on.  Loops are structural recursions or have termination proofs; the searches that may not end are partial functions
  that are shown to return.

  \<^bold>\<open>Not modelled.\<close>  Code that depends on btree transactions, block I/O, or concurrency: the allocator, the btree apart from positions and
  packed keys, the data path apart from the bucket locks, the journal proper, the other locks and threads; of \<^verbatim>\<open>bkey.c\<close> printing, compiled
  unpacking, big-endian machines and the scans for the search trees; the kernel shim; the x86 assembly of the RAID library with its tables and its self test; the
  Rust front end.
\<close>

end
